(* ===== verification/Prelude.thy ===== *)
theory Prelude
  imports Main "HOL-Library.Word" "HOL-Library.Multiset"
begin

text \<open>
  Shared vocabulary of the development: machine integers and bytes, failures as values, the
  pieces of the C++ standard library the sources use on vectors (\<open>std::sort\<close> followed by
  \<open>std::adjacent_find\<close> or \<open>std::unique\<close>, and \<open>std::lower_bound\<close> on a sorted vector), and the
  generic lemmas the component theories share.

  A C++ exception is the left injection of a sum; \<open>rbind\<close> sequences two computations and stops
  at the first exception, as unwinding does.
\<close>

section \<open>Machine integers, bytes, failures\<close>

type_synonym byte = "8 word"
type_synonym bytes = "8 word list"
type_synonym u8 = "8 word"
type_synonym u16 = "16 word"
type_synonym u32 = "32 word"
type_synonym u64 = "64 word"

text \<open>The two untyped exception classes of the sources, with the literal message.\<close>

datatype error = Invalid_argument string | Logic_error string

named_theorems result_simps "inversion of failing computations"
named_theorems wire_simps "cancellation of prefix-free encoders"
named_theorems record_defs "byte-level append operations"

fun rbind :: "'e + 'a \<Rightarrow> ('a \<Rightarrow> 'e + 'b) \<Rightarrow> 'e + 'b" where
  "rbind (Inl e) f = Inl e"
| "rbind (Inr x) f = f x"

lemma rbind_cong [fundef_cong]:
  "m = n \<Longrightarrow> (\<And>x. n = Inr x \<Longrightarrow> f x = g x) \<Longrightarrow> rbind m f = rbind n g"
  by (cases n) auto

lemma rbind_Inr_iff [result_simps]:
  "rbind m f = Inr y \<longleftrightarrow> (\<exists>x. m = Inr x \<and> f x = Inr y)"
  by (cases m) auto

lemma rbind_Inl_iff [result_simps]:
  "rbind m f = Inl e \<longleftrightarrow> m = Inl e \<or> (\<exists>x. m = Inr x \<and> f x = Inl e)"
  by (cases m) auto

text \<open>A guard \<open>if (bad) throw e;\<close> in front of the rest of a function.\<close>

definition throw_if :: "bool \<Rightarrow> 'e \<Rightarrow> 'e + unit" where
  "throw_if bad e = (if bad then Inl e else Inr ())"

lemma throw_if_iff [simp]:
  "throw_if bad e = Inr u \<longleftrightarrow> \<not> bad"
  "throw_if bad e = Inl e' \<longleftrightarrow> bad \<and> e' = e"
  by (auto simp: throw_if_def)

lemma throw_if_simps [simp]:
  "throw_if True e = Inl e"
  "throw_if False e = Inr ()"
  by (simp_all add: throw_if_def)

text \<open>A loop that fills a vector with the results of a function that may throw.\<close>

fun rmap :: "('a \<Rightarrow> 'e + 'b) \<Rightarrow> 'a list \<Rightarrow> 'e + 'b list" where
  "rmap f [] = Inr []"
| "rmap f (x # xs) = rbind (f x) (\<lambda>y. rbind (rmap f xs) (\<lambda>ys. Inr (y # ys)))"

lemma rmap_Inr_list_all2:
  "rmap f xs = Inr ys \<longleftrightarrow> list_all2 (\<lambda>x y. f x = Inr y) xs ys"
  by (induction xs arbitrary: ys) (auto simp: result_simps list_all2_Cons1)

lemma rmap_member:
  assumes "rmap f xs = Inr ys" and "x \<in> set xs"
  shows "\<exists>y \<in> set ys. f x = Inr y"
  using assms unfolding rmap_Inr_list_all2 list_all2_conv_all_nth by (metis in_set_conv_nth)

lemma rmap_origin:
  assumes "rmap f xs = Inr ys" and "y \<in> set ys"
  shows "\<exists>x \<in> set xs. f x = Inr y"
  using assms unfolding rmap_Inr_list_all2 list_all2_conv_all_nth by (metis in_set_conv_nth)

lemma rmap_total:
  assumes "\<And>x. x \<in> set xs \<Longrightarrow> f x = Inr (g x)"
  shows "rmap f xs = Inr (map g xs)"
  using assms by (induction xs) auto

lemma rmap_cong [fundef_cong]:
  "xs = ys \<Longrightarrow> (\<And>x. x \<in> set ys \<Longrightarrow> f x = g x) \<Longrightarrow> rmap f xs = rmap g ys"
  by (induction xs arbitrary: ys) (auto intro!: rbind_cong)

text \<open>
  Operations with side effects on a state \<open>'s\<close>: the state survives an exception, as the files of a
  store survive the process that threw.
\<close>

type_synonym ('s, 'a) io = "'s \<Rightarrow> (error + 'a) \<times> 's"

definition io_return :: "'a \<Rightarrow> ('s, 'a) io" where
  "io_return x = (\<lambda>s. (Inr x, s))"

definition io_lift :: "error + 'a \<Rightarrow> ('s, 'a) io" where
  "io_lift r = (\<lambda>s. (r, s))"

definition io_bind :: "('s, 'a) io \<Rightarrow> ('a \<Rightarrow> ('s, 'b) io) \<Rightarrow> ('s, 'b) io" where
  "io_bind m f = (\<lambda>s. case m s of (Inl e, s') \<Rightarrow> (Inl e, s') | (Inr x, s') \<Rightarrow> f x s')"

lemma io_simps [simp]:
  "io_return x s = (Inr x, s)"
  "io_lift r s = (r, s)"
  "io_bind (io_return x) f = f x"
  "io_bind (io_lift (Inr x)) f = f x"
  "io_bind (io_lift (Inl e)) f = io_lift (Inl e)"
  by (simp_all add: io_return_def io_lift_def io_bind_def fun_eq_iff)

lemma io_bind_eq:
  "m s = (Inr x, s') \<Longrightarrow> io_bind m f s = f x s'"
  "m s = (Inl e, s') \<Longrightarrow> io_bind m f s = (Inl e, s')"
  by (simp_all add: io_bind_def)

lemma io_bind_cases:
  "io_bind m f s = (case m s of (Inl e, s') \<Rightarrow> (Inl e, s') | (Inr x, s') \<Rightarrow> f x s')"
  by (simp add: io_bind_def)

text \<open>Sizes and ordinals are \<open>std::uint64_t\<close>: conversion from a vector's length is injective
  below the width.\<close>

lemma word_of_nat_eq_small:
  "m < 2 ^ LENGTH('a::len) \<Longrightarrow> n < 2 ^ LENGTH('a) \<Longrightarrow> (word_of_nat m :: 'a word) = word_of_nat n \<longleftrightarrow> m = n"
  by (simp add: word_of_nat_eq_iff take_bit_nat_eq_self)

lemma u64_of_nat_eq:
  "m < 2 ^ 64 \<Longrightarrow> n < 2 ^ 64 \<Longrightarrow> (word_of_nat m :: u64) = word_of_nat n \<longleftrightarrow> m = n"
  by (rule word_of_nat_eq_small) simp_all

section \<open>Tables\<close>

lemma map_add_upd_left: "z k = None \<Longrightarrow> m(k \<mapsto> v) ++ z = m ++ z(k \<mapsto> v)"
  by (auto simp: fun_eq_iff map_add_def split: option.splits)

lemma map_of_enumeration:
  assumes "distinct (map f xs)"
  shows "map_of (zip (map f xs) [0..<length xs]) d = Some i \<longleftrightarrow> i < length xs \<and> f (xs ! i) = d"
proof
  assume "map_of (zip (map f xs) [0..<length xs]) d = Some i"
  then show "i < length xs \<and> f (xs ! i) = d"
    by (auto dest!: map_of_SomeD simp: set_zip)
next
  assume i: "i < length xs \<and> f (xs ! i) = d"
  then show "map_of (zip (map f xs) [0..<length xs]) d = Some i"
    using map_of_zip_nth [of "map f xs" "[0..<length xs]" i] assms by auto
qed

section \<open>Sorted vectors\<close>

text \<open>\<open>std::adjacent_find(begin, end) != end\<close>, on the keys of the elements.\<close>

fun adjacent_equal :: "'a list \<Rightarrow> bool" where
  "adjacent_equal (x # y # zs) \<longleftrightarrow> x = y \<or> adjacent_equal (y # zs)"
| "adjacent_equal _ \<longleftrightarrow> False"

lemma adjacent_equal_sorted_iff:
  "sorted (xs :: 'a::linorder list) \<Longrightarrow> adjacent_equal xs \<longleftrightarrow> \<not> distinct xs"
  by (induction xs rule: adjacent_equal.induct) (auto dest: order_antisym)

lemma adjacent_equal_sort [simp]:
  "adjacent_equal (sort xs) \<longleftrightarrow> \<not> distinct (xs :: 'a::linorder list)"
  by (simp add: adjacent_equal_sorted_iff)

lemma adjacent_equal_sort_key [simp]:
  "adjacent_equal (map key (sort_key key xs)) \<longleftrightarrow> \<not> distinct (map key xs)"
proof -
  have "adjacent_equal (map key (sort_key key xs)) \<longleftrightarrow> \<not> distinct (map key (sort_key key xs))"
    by (rule adjacent_equal_sorted_iff) simp
  also have "distinct (map key (sort_key key xs)) \<longleftrightarrow> distinct (map key xs)"
    by (rule mset_eq_imp_distinct_iff) simp
  finally show ?thesis .
qed

text \<open>\<open>std::sort\<close> followed by \<open>erase(std::unique(...))\<close>.\<close>

definition sort_unique :: "'a::linorder list \<Rightarrow> 'a list" where
  "sort_unique xs = remdups_adj (sort xs)"

lemma set_sort_unique [simp]: "set (sort_unique xs) = set xs"
  by (simp add: sort_unique_def)

lemma sorted_sort_unique [simp]: "sorted (sort_unique xs)"
  by (simp add: sort_unique_def)

lemma distinct_remdups_adj_sorted:
  "sorted (xs :: 'a::linorder list) \<Longrightarrow> distinct (remdups_adj xs)"
  by (induction xs rule: remdups_adj.induct) auto

lemma distinct_sort_unique [simp]: "distinct (sort_unique xs)"
  by (simp add: sort_unique_def distinct_remdups_adj_sorted)

lemma sort_unique_eq: "sort_unique xs = sorted_list_of_set (set xs)"
  by (metis distinct_sort_unique set_sort_unique sorted_sort_unique
      sorted_list_of_set.idem_if_sorted_distinct)

text \<open>
  \<open>std::lower_bound\<close> by key on a sorted vector returns the first element whose key is not
  below the wanted one; the lookups of the sources then compare that key for equality.
\<close>

definition find_sorted :: "('a \<Rightarrow> 'k::linorder) \<Rightarrow> 'a list \<Rightarrow> 'k \<Rightarrow> 'a option" where
  "find_sorted key xs k =
     (case dropWhile (\<lambda>x. key x < k) xs of
        [] \<Rightarrow> None
      | x # _ \<Rightarrow> if key x = k then Some x else None)"

lemma find_sorted_map_of:
  "sorted (map key xs) \<Longrightarrow> find_sorted key xs k = map_of (map (\<lambda>x. (key x, x)) xs) k"
proof (induction xs)
  case Nil
  then show ?case by (simp add: find_sorted_def)
next
  case (Cons x xs)
  have none: "map_of (map (\<lambda>x. (key x, x)) xs) k = None" if "k < key x"
    using that Cons.prems by (force simp: map_of_eq_None_iff)
  show ?case
    using Cons none by (cases "key x < k") (auto simp: find_sorted_def)
qed

locale path_table =
  fixes items :: "'t \<Rightarrow> 'a list"
    and key :: "'a \<Rightarrow> 'k::linorder"
    and inv :: "'t \<Rightarrow> bool"
    and lookup :: "'t \<Rightarrow> 'k \<Rightarrow> 'a option"
  assumes table_sorted: "inv t \<Longrightarrow> sorted (map key (items t))"
    and table_distinct: "inv t \<Longrightarrow> distinct (map key (items t))"
    and lookup_lower_bound: "lookup t k = find_sorted key (items t) k"
begin

lemma lookup_map_of: "inv t \<Longrightarrow> lookup t k = map_of (map (\<lambda>x. (key x, x)) (items t)) k"
  by (simp add: lookup_lower_bound find_sorted_map_of table_sorted)

lemma lookup_Some_iff: "inv t \<Longrightarrow> lookup t k = Some x \<longleftrightarrow> x \<in> set (items t) \<and> key x = k"
proof -
  assume inv: "inv t"
  have "distinct (map fst (map (\<lambda>x. (key x, x)) (items t)))"
    using table_distinct [OF inv] by (simp add: comp_def)
  then show ?thesis
    by (auto simp: lookup_map_of [OF inv] dest: map_of_SomeD intro: map_of_is_SomeI)
qed

lemma lookup_None_iff: "inv t \<Longrightarrow> lookup t k = None \<longleftrightarrow> k \<notin> key ` set (items t)"
  by (force simp: lookup_map_of map_of_eq_None_iff)

lemma lookup_member: "inv t \<Longrightarrow> x \<in> set (items t) \<Longrightarrow> lookup t (key x) = Some x"
  by (simp add: lookup_Some_iff)

end

end
