(* ===== verification/Canonical.thy ===== *)
theory Canonical
  imports Prelude
begin

text \<open>
  Canonical records (\<open>src/canonical_record.cpp\<close>) and digests (\<open>digest.h\<close>, \<open>digest.cpp\<close>,
  \<open>identity_factory.h\<close>).  A record is the byte vector built by the \<open>append\<close> methods; every
  identity of the library is the SHA-256 of one record.  SHA-256 itself is OpenSSL code, so it is a
  parameter of the model: the field \<open>hash\<close> of the environment.  A digest value holds 32 bytes; it
  is modelled by the 256-bit number they spell in big-endian order, so that the order of digests
  (lexicographic on the bytes) is the order of words.

  The \<open>wire_code\<close> locale states what makes a sequence of appends unambiguous: the bytes written
  for a value can be cut off the front of a longer record in one way only.  Its interpretations are
  the append methods; its lemmas lift the property to counted lists and optional fields, and the
  component theories use them to show that a record determines the object it identifies.
\<close>

section \<open>Big-endian integers\<close>

definition be_bytes :: "nat \<Rightarrow> 'a::len word \<Rightarrow> bytes" where
  "be_bytes n w = map (\<lambda>i. ucast (drop_bit (8 * i) w)) (rev [0..<n])"

lemma length_be_bytes [simp]: "length (be_bytes n w) = n"
  by (simp add: be_bytes_def)

lemma be_bytes_Suc: "be_bytes (Suc n) w = ucast (drop_bit (8 * n) w) # be_bytes n w"
  by (simp add: be_bytes_def)

text \<open>The reading loop \<open>value = (value << 8) | byte\<close>.\<close>

definition be_value :: "bytes \<Rightarrow> 'a::len word" where
  "be_value bs = foldl (\<lambda>acc b. or (push_bit 8 acc) (ucast b)) 0 bs"

lemma foldl_be_bytes:
  "foldl (\<lambda>acc b. or (push_bit 8 acc) (ucast b)) acc (be_bytes n w) =
     or (push_bit (8 * n) acc) (take_bit (8 * n) (w :: 'a::len word))"
proof (induction n arbitrary: acc)
  case 0
  then show ?case by (simp add: be_bytes_def)
next
  case (Suc n)
  have "or (push_bit (8 * n) (or (push_bit 8 acc) (ucast (ucast (drop_bit (8 * n) w) :: byte))))
          (take_bit (8 * n) w) =
        or (push_bit (8 * Suc n) acc) (take_bit (8 * Suc n) w)"
    by (rule bit_word_eqI) (auto simp: bit_simps not_le not_less algebra_simps)
  then show ?case by (simp add: be_bytes_Suc Suc.IH)
qed

lemma be_value_be_bytes [simp]:
  "LENGTH('a) \<le> 8 * n \<Longrightarrow> be_value (be_bytes n (w :: 'a::len word)) = w"
  by (simp add: be_value_def foldl_be_bytes take_bit_word_eq_self)

section \<open>Digests\<close>

type_synonym digest = "256 word"

definition digest_array :: "digest \<Rightarrow> bytes" where
  "digest_array d = be_bytes 32 d"

lemma length_digest_array [simp]: "length (digest_array d) = 32"
  by (simp add: digest_array_def)

lemma be_bytes_snoc: "be_bytes (Suc n) w = be_bytes n (drop_bit 8 w) @ [ucast w]"
proof (induction n)
  case 0
  then show ?case by (simp add: be_bytes_def)
next
  case (Suc n)
  then show ?case
    by (simp add: be_bytes_Suc [of "Suc n" w] be_bytes_Suc [of n "drop_bit 8 w"] drop_bit_drop_bit
        add.commute)
qed

lemma be_value_snoc: "be_value (bs @ [b]) = or (push_bit 8 (be_value bs)) (ucast b)"
  by (simp add: be_value_def)

lemma take_bit_be_value:
  "8 * length bs \<le> LENGTH('a) \<Longrightarrow> take_bit (8 * length bs) (be_value bs :: 'a::len word) = be_value bs"
proof (induction bs rule: rev_induct)
  case Nil
  then show ?case by (simp add: be_value_def)
next
  case (snoc b bs)
  then have IH: "take_bit (8 * length bs) (be_value bs :: 'a word) = be_value bs" by simp
  have high: "k < 8 * length bs" if "bit (be_value bs :: 'a word) k" for k
    using IH that by (metis bit_take_bit_iff)
  have "bit (be_value (bs @ [b]) :: 'a word) k \<Longrightarrow> k < 8 * length (bs @ [b])" for k
    using high [of "k - 8"] by (auto simp: be_value_snoc bit_simps dest: bit_imp_le_length)
  then show ?case
    by (intro bit_word_eqI) (auto simp: bit_take_bit_iff)
qed

lemma be_bytes_be_value:
  "8 * length bs \<le> LENGTH('a) \<Longrightarrow> be_bytes (length bs) (be_value bs :: 'a::len word) = bs"
proof (induction bs rule: rev_induct)
  case Nil
  then show ?case by (simp add: be_bytes_def)
next
  case (snoc b bs)
  then have len: "8 * length bs + 8 \<le> LENGTH('a)" by simp
  have high: "bit (be_value bs :: 'a word) k \<Longrightarrow> k < 8 * length bs" for k
    using take_bit_be_value [of bs, where 'a = 'a] len by (metis bit_take_bit_iff le_add1 order_trans)
  have "drop_bit 8 (be_value (bs @ [b])) = (be_value bs :: 'a word)"
    using len by (intro bit_word_eqI) (auto simp: be_value_snoc bit_simps dest: bit_imp_le_length high)
  moreover have "ucast (be_value (bs @ [b]) :: 'a word) = b"
    using len by (intro bit_word_eqI) (auto simp: be_value_snoc bit_simps)
  ultimately show ?case
    using snoc.IH len by (simp add: be_bytes_snoc)
qed

lemma be_bytes_inject:
  "LENGTH('a) \<le> 8 * n \<Longrightarrow> be_bytes n (v :: 'a::len word) = be_bytes n w \<longleftrightarrow> v = w"
  by (metis be_value_be_bytes)

lemma digest_array_inject [simp]: "digest_array d = digest_array e \<longleftrightarrow> d = e"
  by (simp add: digest_array_def be_bytes_inject)

text \<open>\<open>identity_factory::from_sha256\<close> keeps the text \<open>v1:sha256:<hex>\<close> beside the bytes.\<close>

definition hexadecimal_digit :: "byte \<Rightarrow> char" where
  "hexadecimal_digit v = ''0123456789abcdef'' ! unat v"

definition digest_prefix :: string where
  "digest_prefix = ''v1:sha256:''"

definition high_nibble :: "byte \<Rightarrow> byte" where
  "high_nibble b = and (drop_bit 4 b) 15"

definition low_nibble :: "byte \<Rightarrow> byte" where
  "low_nibble b = and b 15"

definition hexadecimal_text :: "bytes \<Rightarrow> string" where
  "hexadecimal_text bs =
     concat (map (\<lambda>b. [hexadecimal_digit (high_nibble b), hexadecimal_digit (low_nibble b)]) bs)"

definition digest_string :: "digest \<Rightarrow> string" where
  "digest_string d = digest_prefix @ hexadecimal_text (digest_array d)"

datatype digest_error_code =
  Malformed_representation | Unsupported_version | Unsupported_algorithm | Invalid_length
| Invalid_hexadecimal

definition hexadecimal_value :: "char \<Rightarrow> digest_error_code + byte" where
  "hexadecimal_value c =
     (let n = of_char c :: nat in
      if 48 \<le> n \<and> n \<le> 57 then Inr (word_of_nat (n - 48))
      else if 97 \<le> n \<and> n \<le> 102 then Inr (word_of_nat (n - 97 + 10))
      else Inl Invalid_hexadecimal)"

definition join_nibbles :: "byte \<Rightarrow> byte \<Rightarrow> byte" where
  "join_nibbles high low = or (push_bit 4 high) low"

fun parse_hexadecimal :: "string \<Rightarrow> digest_error_code + bytes" where
  "parse_hexadecimal (h # l # cs) =
     rbind (hexadecimal_value h) (\<lambda>high.
     rbind (hexadecimal_value l) (\<lambda>low.
     rbind (parse_hexadecimal cs) (\<lambda>bs. Inr (join_nibbles high low # bs))))"
| "parse_hexadecimal _ = Inr []"

definition digest_parse :: "string \<Rightarrow> digest_error_code + digest" where
  "digest_parse value =
     (if CHR '':'' \<notin> set value then Inl Malformed_representation
      else if takeWhile (\<lambda>c. c \<noteq> CHR '':'') value \<noteq> ''v1'' then Inl Unsupported_version
      else (let rest = tl (dropWhile (\<lambda>c. c \<noteq> CHR '':'') value) in
        if CHR '':'' \<notin> set rest then Inl Malformed_representation
        else if takeWhile (\<lambda>c. c \<noteq> CHR '':'') rest \<noteq> ''sha256'' then Inl Unsupported_algorithm
        else if length value \<noteq> length digest_prefix + 64 then Inl Invalid_length
        else rbind (parse_hexadecimal (drop (length digest_prefix) value))
               (\<lambda>bs. Inr (be_value bs))))"

text \<open>The hexadecimal alphabet is read back exactly, and only that alphabet is accepted.\<close>

lemma byte_less_16_cases:
  assumes "(v :: byte) < 16"
  shows "v \<in> set (map word_of_nat [0..<16])"
proof -
  have "unat v < 16" using assms by (simp add: word_less_nat_alt)
  then have "v = word_of_nat (unat v) \<and> unat v \<in> set [0..<16]" by simp
  then show ?thesis by (metis imageI list.set_map)
qed

lemma hexadecimal_value_digit:
  "v < 16 \<Longrightarrow> hexadecimal_value (hexadecimal_digit v) = Inr v"
  using byte_less_16_cases [of v]
  by (auto simp: upt_rec hexadecimal_digit_def hexadecimal_value_def)

lemma hexadecimal_digit_values:
  "\<forall>n \<in> set ([48..<58] @ [97..<103]).
     hexadecimal_value (char_of (n :: nat)) =
       Inr (if n < 58 then word_of_nat (n - 48) else word_of_nat (n - 87)) \<and>
     hexadecimal_digit (if n < 58 then word_of_nat (n - 48) else word_of_nat (n - 87)) = char_of n"
  by (simp add: upt_rec hexadecimal_value_def hexadecimal_digit_def char_of_def
      bit_Suc_0_iff)

lemma hexadecimal_value_Inr:
  assumes "hexadecimal_value c = Inr v"
  shows "v < 16 \<and> hexadecimal_digit v = c"
proof -
  define n where "n = (of_char c :: nat)"
  have c: "c = char_of n" by (simp add: n_def)
  have range: "48 \<le> n \<and> n \<le> 57 \<or> 97 \<le> n \<and> n \<le> 102"
    using assms by (auto simp: hexadecimal_value_def Let_def n_def split: if_splits)
  then have "n \<in> {48..<58} \<union> {97..<103}" by auto
  then have "n \<in> set ([48..<58] @ [97..<103])" by (simp only: set_append set_upt)
  with hexadecimal_digit_values have vals:
    "hexadecimal_value c = Inr (if n < 58 then word_of_nat (n - 48) else word_of_nat (n - 87))"
    "hexadecimal_digit (if n < 58 then word_of_nat (n - 48) else word_of_nat (n - 87)) = c"
    unfolding c by blast+
  define m where "m = (if n < 58 then n - 48 else n - 87)"
  have "m < 16" using range by (auto simp: m_def)
  then have "(word_of_nat m :: byte) < 16" by (simp add: word_less_nat_alt unat_of_nat)
  moreover have "v = word_of_nat m" "hexadecimal_digit (word_of_nat m) = c"
    using vals assms by (auto simp: m_def split: if_splits)
  ultimately show ?thesis by simp
qed


lemma and_15: "and (b :: byte) 15 = take_bit 4 b"
  by (simp add: take_bit_eq_mask mask_eq_exp_minus_1)

lemma take_bit_nibble: "(b :: byte) < 16 \<Longrightarrow> take_bit 4 b = b"
proof (rule word_unat_eq_iff [THEN iffD2])
  assume "b < 16"
  then have "take_bit 4 (unat b) = unat b" by (simp add: word_less_nat_alt take_bit_eq_mod)
  then show "unat (take_bit 4 b) = unat b" by (simp only: unsigned_take_bit_eq)
qed

lemma bit_nibble: "(b :: byte) < 16 \<Longrightarrow> bit b k \<Longrightarrow> k < 4"
  by (metis take_bit_nibble bit_take_bit_iff)

lemma and_15_less: "and (b :: byte) 15 < 16"
  using word_and_le1 [of b 15] by (rule order_le_less_trans) simp

lemma nibble_less: "high_nibble b < 16" "low_nibble b < 16"
  by (simp_all add: high_nibble_def low_nibble_def and_15_less)

lemma nibbles_join: "join_nibbles (high_nibble b) (low_nibble b) = b"
  unfolding join_nibbles_def high_nibble_def low_nibble_def and_15
  by (intro bit_word_eqI) (auto simp: bit_simps dest: bit_imp_le_length)

lemma nibbles_split:
  assumes "(h :: byte) < 16" and "l < 16"
  shows "high_nibble (join_nibbles h l) = h" and "low_nibble (join_nibbles h l) = l"
  unfolding join_nibbles_def high_nibble_def low_nibble_def and_15
  using bit_nibble [OF assms(1)] bit_nibble [OF assms(2)]
  by (intro bit_word_eqI; fastforce simp: bit_simps dest: bit_imp_le_length)+

lemma length_hexadecimal_text [simp]: "length (hexadecimal_text bs) = 2 * length bs"
  by (induction bs) (simp_all add: hexadecimal_text_def)

lemma parse_hexadecimal_text: "parse_hexadecimal (hexadecimal_text bs) = Inr bs"
  by (induction bs)
    (simp_all add: hexadecimal_text_def hexadecimal_value_digit nibble_less nibbles_join)

lemma hexadecimal_text_parse:
  "parse_hexadecimal cs = Inr bs \<Longrightarrow> even (length cs) \<Longrightarrow> hexadecimal_text bs = cs"
proof (induction cs arbitrary: bs rule: parse_hexadecimal.induct)
  case (1 h l cs)
  then obtain high low rest where
    hl: "hexadecimal_value h = Inr high" "hexadecimal_value l = Inr low"
    and rest: "parse_hexadecimal cs = Inr rest"
    and bs: "bs = join_nibbles high low # rest"
    by (auto simp: result_simps)
  have "hexadecimal_text rest = cs" using "1" hl rest by simp
  then show ?case
    using hl [THEN hexadecimal_value_Inr] by (simp add: bs hexadecimal_text_def nibbles_split)
qed (auto simp: hexadecimal_text_def)

text \<open>
  Parsing accepts exactly the canonical texts: \<open>parse\<close> succeeds with \<open>d\<close> on the text of \<open>d\<close> and on no other text.
\<close>

lemma digest_parse_string: "digest_parse (digest_string d) = Inr d"
proof -
  define hex where "hex = hexadecimal_text (digest_array d)"
  have "length hex = 64" by (simp add: hex_def)
  moreover have "parse_hexadecimal hex = Inr (digest_array d)"
    by (simp add: hex_def parse_hexadecimal_text)
  moreover have "be_value (digest_array d) = d" by (simp add: digest_array_def)
  moreover have "digest_string d = ''v1:sha256:'' @ hex"
    by (simp add: digest_string_def digest_prefix_def hex_def)
  ultimately show ?thesis by (simp add: digest_parse_def digest_prefix_def)
qed

lemma split_at_colon:
  assumes "CHR '':'' \<in> set s"
  shows "s = takeWhile (\<lambda>c. c \<noteq> CHR '':'') s @ CHR '':'' # tl (dropWhile (\<lambda>c. c \<noteq> CHR '':'') s)"
  using assms by (induction s) auto

lemma digest_parse_Inr:
  assumes "digest_parse s = Inr d"
  shows "s = digest_string d"
proof -
  define rest where "rest = tl (dropWhile (\<lambda>c. c \<noteq> CHR '':'') s)"
  define hex where "hex = tl (dropWhile (\<lambda>c. c \<noteq> CHR '':'') rest)"
  have c1: "CHR '':'' \<in> set s"
    using assms by (rule contrapos_pp) (simp add: digest_parse_def)
  have c2: "takeWhile (\<lambda>c. c \<noteq> CHR '':'') s = ''v1''"
    using assms by (rule contrapos_pp) (simp only: digest_parse_def c1 if_True if_False
      not_True_eq_False not_False_eq_True sum.distinct)
  have c3: "CHR '':'' \<in> set rest"
    using assms by (rule contrapos_pp) (simp only: digest_parse_def c1 c2 if_True if_False
      not_True_eq_False not_False_eq_True sum.distinct Let_def rest_def refl)
  have c4: "takeWhile (\<lambda>c. c \<noteq> CHR '':'') rest = ''sha256''"
  proof (rule ccontr)
    assume "takeWhile (\<lambda>c. c \<noteq> CHR '':'') rest \<noteq> ''sha256''"
    with c3 assms show False unfolding rest_def
      by (simp only: digest_parse_def c1 c2 if_True if_False
        not_True_eq_False not_False_eq_True sum.distinct Let_def refl)
  qed
  have parse: "digest_parse s =
      (if length s \<noteq> length digest_prefix + 64 then Inl Invalid_length
       else rbind (parse_hexadecimal (drop (length digest_prefix) s)) (\<lambda>bs. Inr (be_value bs)))"
    using c3 c4 unfolding rest_def
    by (simp only: digest_parse_def c1 c2 if_False not_True_eq_False Let_def refl)
  from assms obtain bs where len: "length s = length digest_prefix + 64"
    and bs: "parse_hexadecimal (drop (length digest_prefix) s) = Inr bs" and d: "d = be_value bs"
    unfolding parse by (auto simp: result_simps split: if_splits)
  have "s = ''v1'' @ CHR '':'' # rest"
    using split_at_colon [OF c1] unfolding c2 rest_def .
  moreover have "rest = ''sha256'' @ CHR '':'' # hex"
    using split_at_colon [OF c3] unfolding c4 hex_def .
  ultimately have s: "s = digest_prefix @ hex" unfolding digest_prefix_def by simp
  then have hex: "length hex = 64" "parse_hexadecimal hex = Inr bs" using len bs by auto
  then have body: "hexadecimal_text bs = hex" by (intro hexadecimal_text_parse) auto
  have "length bs = 32"
    using hex(1) length_hexadecimal_text [of bs] unfolding body by simp
  then have "be_bytes 32 (be_value bs :: digest) = bs"
    using be_bytes_be_value [of bs, where 'a = 256] by auto
  then show ?thesis unfolding s digest_string_def d digest_array_def by (simp only: body)
qed

lemma digest_string_inject [simp]: "digest_string d = digest_string e \<longleftrightarrow> d = e"
  by (metis digest_parse_string sum.inject(2))


section \<open>Canonical records\<close>

text \<open>
  What the library takes from outside: SHA-256, and the texts of libpkgplan's package paths
  (\<open>'p\<close>) and installed-package identities (\<open>'o\<close>).  Both types only need the linear order their
  classes define.  \<open>parse_path\<close> and \<open>is_ancestor_of\<close> are methods of the path class.  The other identities of libpkgplan are only written and compared; they are
  their texts.
\<close>

record ('p, 'o) environment =
  hash :: "bytes \<Rightarrow> digest"
  path_string :: "'p \<Rightarrow> bytes"
  owner_string :: "'o \<Rightarrow> bytes"
  parse_path :: "bytes \<Rightarrow> error + 'p"
  is_ancestor_of :: "'p \<Rightarrow> 'p \<Rightarrow> bool"

definition str_bytes :: "string \<Rightarrow> bytes" where
  "str_bytes s = map (\<lambda>c. word_of_nat (of_char c)) s"

definition append_u8 :: "bytes \<Rightarrow> u8 \<Rightarrow> bytes" where
  "append_u8 r v = r @ [v]"

definition append_u16 :: "bytes \<Rightarrow> u16 \<Rightarrow> bytes" where
  "append_u16 r v = r @ be_bytes 2 v"

definition append_u32 :: "bytes \<Rightarrow> u32 \<Rightarrow> bytes" where
  "append_u32 r v = r @ be_bytes 4 v"

definition append_u64 :: "bytes \<Rightarrow> u64 \<Rightarrow> bytes" where
  "append_u64 r v = r @ be_bytes 8 v"

definition append_bool :: "bytes \<Rightarrow> bool \<Rightarrow> bytes" where
  "append_bool r v = append_u8 r (if v then 1 else 0)"

definition append_bytes :: "bytes \<Rightarrow> bytes \<Rightarrow> bytes" where
  "append_bytes r v = append_u64 r (word_of_nat (length v)) @ v"

definition append_digest :: "bytes \<Rightarrow> digest \<Rightarrow> bytes" where
  "append_digest r d = append_u8 r 1 @ digest_array d"

definition record_magic :: bytes where
  "record_magic = str_bytes ''ZLAPPLY'' @ [0]"

definition canonical_record :: "string \<Rightarrow> bytes" where
  "canonical_record domain = append_bytes (append_u16 record_magic 1) (str_bytes domain)"

text \<open>The recurring shapes \<open>append_bool(x.has_value()); if (x) ...\<close> and count-then-elements.\<close>

definition append_optional :: "(bytes \<Rightarrow> 'a \<Rightarrow> bytes) \<Rightarrow> bytes \<Rightarrow> 'a option \<Rightarrow> bytes" where
  "append_optional app r v =
     (case v of None \<Rightarrow> append_bool r False | Some x \<Rightarrow> app (append_bool r True) x)"

definition append_counted :: "(bytes \<Rightarrow> 'a \<Rightarrow> bytes) \<Rightarrow> bytes \<Rightarrow> 'a list \<Rightarrow> bytes" where
  "append_counted app r xs = foldl app (append_u64 r (word_of_nat (length xs))) xs"

text \<open>What one append method writes, apart from the record it is appended to.\<close>

definition wire :: "(bytes \<Rightarrow> 'a \<Rightarrow> bytes) \<Rightarrow> 'a \<Rightarrow> bytes" where
  "wire app x = app [] x"

section \<open>Unambiguous appends\<close>

locale wire_code =
  fixes app :: "bytes \<Rightarrow> 'a \<Rightarrow> bytes" and ok :: "'a \<Rightarrow> bool"
  assumes app_wire: "app r x = r @ wire app x"
    and wire_cut: "ok x \<Longrightarrow> ok y \<Longrightarrow> wire app x @ s = wire app y @ t \<Longrightarrow> x = y \<and> s = t"
begin

lemma wire_iff: "ok x \<Longrightarrow> ok y \<Longrightarrow> wire app x @ s = wire app y @ t \<longleftrightarrow> x = y \<and> s = t"
  using wire_cut by blast

lemma wire_end_iff: "ok x \<Longrightarrow> ok y \<Longrightarrow> wire app x = wire app y \<longleftrightarrow> x = y"
  using wire_cut [of x y "[]" "[]"] by auto

lemma foldl_app: "foldl app r xs = r @ concat (map (wire app) xs)"
  by (induction xs arbitrary: r) (simp_all add: app_wire)

lemma concat_wire_cut:
  "list_all ok xs \<Longrightarrow> list_all ok ys \<Longrightarrow> length xs = length ys \<Longrightarrow>
   concat (map (wire app) xs) @ s = concat (map (wire app) ys) @ t \<Longrightarrow> xs = ys \<and> s = t"
  by (induction xs ys rule: list_induct2') (auto simp: wire_iff)

lemma optional_code: "wire_code (append_optional app) (pred_option ok)"
proof
  show "append_optional app r x = r @ wire (append_optional app) x" for r x
    by (simp add: append_optional_def wire_def append_bool_def append_u8_def split: option.split)
      (metis app_wire append.assoc append_Cons append_Nil)
  show "pred_option ok x \<Longrightarrow> pred_option ok y \<Longrightarrow>
      wire (append_optional app) x @ s = wire (append_optional app) y @ t \<Longrightarrow> x = y \<and> s = t"
    for x y s t
    by (cases x; cases y) (auto simp: append_optional_def wire_def append_bool_def append_u8_def
        app_wire [of "[_]"] dest: wire_cut [unfolded wire_def])
qed

lemma counted_code: "wire_code (append_counted app) (\<lambda>xs. list_all ok xs \<and> length xs < 2 ^ 64)"
proof
  show "append_counted app r xs = r @ wire (append_counted app) xs" for r xs
    by (simp add: append_counted_def wire_def append_u64_def foldl_app)
  fix xs ys s t
  assume ok: "list_all ok xs \<and> length xs < 2 ^ 64" "list_all ok ys \<and> length ys < 2 ^ 64"
    and eq: "wire (append_counted app) xs @ s = wire (append_counted app) ys @ t"
  from eq have "be_bytes 8 (word_of_nat (length xs) :: u64) = be_bytes 8 (word_of_nat (length ys) :: u64)"
    and rest: "concat (map (wire app) xs) @ s = concat (map (wire app) ys) @ t"
    by (simp_all add: append_counted_def wire_def append_u64_def foldl_app append_eq_append_conv)
  then have "(word_of_nat (length xs) :: u64) = word_of_nat (length ys)"
    by (simp add: be_bytes_inject)
  then have "length xs = length ys"
    using ok by (simp add: u64_of_nat_eq)
  with ok rest show "xs = ys \<and> s = t" by (intro concat_wire_cut) auto
qed

end


interpretation u8_code: wire_code append_u8 "\<lambda>_. True"
  by unfold_locales (simp_all add: append_u8_def wire_def)

interpretation u16_code: wire_code append_u16 "\<lambda>_. True"
  by unfold_locales (simp_all add: append_u16_def wire_def append_eq_append_conv be_bytes_inject)

interpretation u32_code: wire_code append_u32 "\<lambda>_. True"
  by unfold_locales (simp_all add: append_u32_def wire_def append_eq_append_conv be_bytes_inject)

interpretation u64_code: wire_code append_u64 "\<lambda>_. True"
  by unfold_locales (simp_all add: append_u64_def wire_def append_eq_append_conv be_bytes_inject)

interpretation bool_code: wire_code append_bool "\<lambda>_. True"
  by unfold_locales (auto simp: append_bool_def append_u8_def wire_def split: if_splits)

interpretation digest_code: wire_code append_digest "\<lambda>_. True"
  by unfold_locales
    (simp_all add: append_digest_def append_u8_def wire_def append_eq_append_conv)

abbreviation size_ok :: "'a list \<Rightarrow> bool" where
  "size_ok xs \<equiv> length xs < 2 ^ 64"

lemma append_bytes_cut:
  assumes "size_ok x" and "size_ok y" and "wire append_bytes x @ s = wire append_bytes y @ t"
  shows "x = y \<and> s = t"
proof -
  from assms(3) have "be_bytes 8 (word_of_nat (length x) :: u64) = be_bytes 8 (word_of_nat (length y) :: u64)"
    and rest: "x @ s = y @ t"
    by (simp_all add: append_bytes_def wire_def append_u64_def append_eq_append_conv)
  then have "length x = length y"
    using assms(1,2) by (simp add: be_bytes_inject u64_of_nat_eq)
  with rest show ?thesis by simp
qed

interpretation bytes_code: wire_code append_bytes size_ok
proof
  show "append_bytes r x = r @ wire append_bytes x" for r x
    by (simp add: append_bytes_def wire_def append_u64_def)
qed (rule append_bytes_cut)

interpretation digests_code: wire_code "append_counted append_digest"
  "\<lambda>xs. list_all (\<lambda>_. True) xs \<and> size_ok xs"
  by (rule digest_code.counted_code)

interpretation optional_digest_code: wire_code "append_optional append_digest"
  "pred_option (\<lambda>_. True)"
  by (rule digest_code.optional_code)

interpretation optional_u64_code: wire_code "append_optional append_u64" "pred_option (\<lambda>_. True)"
  by (rule u64_code.optional_code)

interpretation optional_bytes_code: wire_code "append_optional append_bytes" "pred_option size_ok"
  by (rule bytes_code.optional_code)

lemma pred_option_True [simp]: "pred_option (\<lambda>_. True) x"
  by (cases x) simp_all

lemma list_all_True [simp]: "list_all (\<lambda>_. True) xs"
  by (simp add: list_all_iff)

text \<open>
  The two bundles the component theories use: the first turns a chain of appends into a
  concatenation, the second cancels equal prefixes of two such concatenations.
\<close>

lemmas wire_append = u8_code.app_wire u16_code.app_wire u32_code.app_wire u64_code.app_wire
  bool_code.app_wire digest_code.app_wire bytes_code.app_wire digests_code.app_wire
  optional_digest_code.app_wire optional_u64_code.app_wire optional_bytes_code.app_wire

lemmas wire_cancel = u8_code.wire_iff u16_code.wire_iff u32_code.wire_iff u64_code.wire_iff
  bool_code.wire_iff digest_code.wire_iff bytes_code.wire_iff digests_code.wire_iff
  optional_digest_code.wire_iff optional_u64_code.wire_iff optional_bytes_code.wire_iff
  u8_code.wire_end_iff u16_code.wire_end_iff u32_code.wire_end_iff u64_code.wire_end_iff
  bool_code.wire_end_iff digest_code.wire_end_iff bytes_code.wire_end_iff
  digests_code.wire_end_iff optional_digest_code.wire_end_iff optional_u64_code.wire_end_iff
  optional_bytes_code.wire_end_iff

declare wire_cancel [wire_simps] wire_append [record_defs]

text \<open>Records of different domains never coincide, whatever follows the domain.\<close>

lemma length_str_bytes [simp]: "length (str_bytes s) = length s"
  by (simp add: str_bytes_def)

lemma str_bytes_inject [simp]: "str_bytes s = str_bytes t \<longleftrightarrow> s = t"
proof -
  have "inj (\<lambda>c. word_of_nat (of_char c) :: byte)"
    by (rule injI) (simp add: word_of_nat_eq_small)
  then show ?thesis by (simp add: str_bytes_def inj_map_eq_map)
qed

lemma canonical_record_wire:
  "canonical_record domain = record_magic @ wire append_u16 1 @ wire append_bytes (str_bytes domain)"
  by (simp add: canonical_record_def record_defs)

lemma canonical_record_cut:
  assumes "size_ok d" and "size_ok e"
  shows "canonical_record d @ s = canonical_record e @ t \<longleftrightarrow> d = e \<and> s = t"
  using assms by (simp add: canonical_record_wire wire_simps)

text \<open>
  The domain of each identity class (\<open>digest.h\<close>, one tag structure per class).  The texts are kept
  behind the tag: proofs only need that they differ and that they are short.
\<close>

datatype identity_domain =
  Managed_target_domain | Root_view_domain | Observation_backend_domain
| Mutation_backend_domain | Mutation_exclusion_domain_domain | Active_object_namespace_domain
| Rejected_object_store_domain | Staging_namespace_domain | Journal_namespace_domain
| Execution_capability_profile_domain | Lifecycle_executor_domain | Mutation_lease_instance_domain
| State_projection_evidence_domain | Lease_bound_state_projection_domain | Application_attempt_domain
| Application_target_context_domain | Application_execution_control_domain | Incoming_package_authority_domain
| Application_request_domain | Application_journal_domain | Application_journal_effect_domain
| Application_journal_declaration_domain | Application_journal_step_domain | Application_journal_cursor_domain
| Application_journal_record_domain | Application_receipt_domain | Completed_application_evidence_domain
| Completed_regular_content_domain | Rejected_object_record_domain | Application_backend_evidence_domain

fun canonical_domain :: "identity_domain \<Rightarrow> string" where
  "canonical_domain Managed_target_domain =
     ''pkgapply/managed-target-reference/v1''"
| "canonical_domain Root_view_domain =
     ''pkgapply/root-view-reference/v1''"
| "canonical_domain Observation_backend_domain =
     ''pkgapply/observation-backend-reference/v1''"
| "canonical_domain Mutation_backend_domain =
     ''pkgapply/mutation-backend-reference/v1''"
| "canonical_domain Mutation_exclusion_domain_domain =
     ''pkgapply/mutation-exclusion-domain-reference/v1''"
| "canonical_domain Active_object_namespace_domain =
     ''pkgapply/active-object-namespace-reference/v1''"
| "canonical_domain Rejected_object_store_domain =
     ''pkgapply/rejected-object-store-reference/v1''"
| "canonical_domain Staging_namespace_domain =
     ''pkgapply/staging-namespace-reference/v1''"
| "canonical_domain Journal_namespace_domain =
     ''pkgapply/journal-namespace-reference/v1''"
| "canonical_domain Execution_capability_profile_domain =
     ''pkgapply/execution-capability-profile-reference/v1''"
| "canonical_domain Lifecycle_executor_domain =
     ''pkgapply/lifecycle-executor-reference/v1''"
| "canonical_domain Mutation_lease_instance_domain =
     ''pkgapply/mutation-lease-instance-reference/v1''"
| "canonical_domain State_projection_evidence_domain =
     ''pkgapply/state-projection-evidence-reference/v1''"
| "canonical_domain Lease_bound_state_projection_domain =
     ''pkgapply/lease-bound-state-projection/v1''"
| "canonical_domain Application_attempt_domain =
     ''pkgapply/application-attempt/v1''"
| "canonical_domain Application_target_context_domain =
     ''pkgapply/application-target-context/v1''"
| "canonical_domain Application_execution_control_domain =
     ''pkgapply/application-execution-control/v1''"
| "canonical_domain Incoming_package_authority_domain =
     ''pkgapply/incoming-package-authority/v1''"
| "canonical_domain Application_request_domain =
     ''pkgapply/application-request/v1''"
| "canonical_domain Application_journal_domain =
     ''pkgapply/application-journal/v1''"
| "canonical_domain Application_journal_effect_domain =
     ''pkgapply/application-journal-effect/v1''"
| "canonical_domain Application_journal_declaration_domain =
     ''pkgapply/application-journal-declaration/v1''"
| "canonical_domain Application_journal_step_domain =
     ''pkgapply/application-journal-step/v1''"
| "canonical_domain Application_journal_cursor_domain =
     ''pkgapply/application-journal-cursor/v1''"
| "canonical_domain Application_journal_record_domain =
     ''pkgapply/application-journal-record/v1''"
| "canonical_domain Application_receipt_domain =
     ''pkgapply/application-receipt/v1''"
| "canonical_domain Completed_application_evidence_domain =
     ''pkgapply/completed-application-evidence/v1''"
| "canonical_domain Completed_regular_content_domain =
     ''pkgapply/completed-regular-content/v1''"
| "canonical_domain Rejected_object_record_domain =
     ''pkgapply/rejected-object-record/v1''"
| "canonical_domain Application_backend_evidence_domain =
     ''pkgapply/application-backend-evidence/v1''"

lemma canonical_domain_inject [simp]: "canonical_domain a = canonical_domain b \<longleftrightarrow> a = b"
  by (cases a; cases b; simp only: canonical_domain.simps identity_domain.distinct list.inject char.inject simp_thms)

lemma canonical_domain_length [simplified, simp]: "length (canonical_domain a) < 2 ^ 64"
  by (cases a) simp_all

declare canonical_domain.simps [simp del]

text \<open>Two records coincide up to what follows only if their domains are the same.\<close>

lemma canonical_record_domain [simp]:
  "canonical_record (canonical_domain a) @ s = canonical_record (canonical_domain b) @ t \<longleftrightarrow>
     a = b \<and> s = t"
  by (simp add: canonical_record_cut)

section \<open>Identity schemes\<close>

text \<open>
  Every identified class of the library stores the SHA-256 of its own canonical record.  The locale
  states the contract of one such class: \<open>valid\<close> values carry the hash of their encoding, and the
  encoding loses nothing.  The client fact: unless SHA-256 collides on the two encodings at
  hand, equal identities mean equal values, so comparing identities compares authorities.
\<close>

locale identity_scheme =
  fixes H :: "bytes \<Rightarrow> digest"
    and encode :: "'v \<Rightarrow> bytes"
    and ident :: "'v \<Rightarrow> digest"
    and valid :: "'v \<Rightarrow> bool"
  assumes ident_hash: "valid x \<Longrightarrow> ident x = H (encode x)"
    and encode_lossless: "valid x \<Longrightarrow> valid y \<Longrightarrow> encode x = encode y \<Longrightarrow> x = y"
begin

lemma same_identity:
  "valid x \<Longrightarrow> valid y \<Longrightarrow> (H (encode x) = H (encode y) \<Longrightarrow> encode x = encode y) \<Longrightarrow>
   ident x = ident y \<longleftrightarrow> x = y"
  using ident_hash encode_lossless by metis

lemma identity_collision:
  "valid x \<Longrightarrow> valid y \<Longrightarrow> ident x = ident y \<Longrightarrow> x \<noteq> y \<Longrightarrow>
   encode x \<noteq> encode y \<and> H (encode x) = H (encode y)"
  using ident_hash encode_lossless by metis

end

end
