(* ===== verification/Objects.thy ===== *)
theory Objects
  imports Canonical
begin

text \<open>
  Object facts and path consequences: \<open>object_fact.h/.cpp\<close> and \<open>path_consequence.h/.cpp\<close>, with
  the canonical encoding of both from \<open>result.cpp\<close>.  A class whose constructor validates its
  arguments is a record together with a function from the candidate record to an error or the same
  record.  The enumerations of libpkgplan that the sources switch over exhaustively
  (\<open>planned_active_outcome\<close>, \<open>planned_rejected_outcome\<close>, \<open>operation_kind\<close>) are datatypes with the
  constructors named in those switches.  Enumerators out of range are not representable, so the
  \<open>throw\<close> after such a switch has no counterpart.
\<close>

section \<open>Qualified facts\<close>

datatype fact_state = State_known | State_unknown | State_not_applicable

datatype 'a qualified_fact = Fact_known 'a | Fact_unknown | Fact_not_applicable

fun state_of_fact :: "'a qualified_fact \<Rightarrow> fact_state" where
  "state_of_fact (Fact_known v) = State_known"
| "state_of_fact Fact_unknown = State_unknown"
| "state_of_fact Fact_not_applicable = State_not_applicable"

definition is_applicable :: "'a qualified_fact \<Rightarrow> bool" where
  "is_applicable f \<longleftrightarrow> state_of_fact f \<noteq> State_not_applicable"

lemma is_applicable_simps [simp]:
  "is_applicable (Fact_known v)" "is_applicable Fact_unknown" "\<not> is_applicable Fact_not_applicable"
  by (simp_all add: is_applicable_def)

section \<open>Completed object facts\<close>

datatype completed_object_kind =
  Object_regular | Object_directory | Object_symlink | Object_fifo | Object_character_device
| Object_block_device | Object_socket | Object_other

datatype object_fact_provenance =
  Incoming_image | Planning_observation | Application_observation | Recovery_capture
| Rejected_capture

datatype object_fact_completeness = Fact_complete | Fact_partial

text \<open>Signed seconds are kept as their two's complement pattern, which is what the encodings write.\<close>

record completed_object_timestamp =
  timestamp_seconds :: u64
  timestamp_nanoseconds :: u32

record completed_device_number =
  device_major :: u64
  device_minor :: u64

record 'p completed_object_fact =
  object_path :: 'p
  object_kind :: completed_object_kind
  object_mode :: "u32 qualified_fact"
  object_uid :: "u64 qualified_fact"
  object_gid :: "u64 qualified_fact"
  object_size :: "u64 qualified_fact"
  object_mtime :: "completed_object_timestamp qualified_fact"
  object_content :: "digest qualified_fact"
  object_symlink_target :: "bytes qualified_fact"
  object_device :: "completed_device_number qualified_fact"
  object_hardlink :: "'p qualified_fact"
  object_provenance :: object_fact_provenance
  object_completeness :: object_fact_completeness

definition validate_kind_fields :: "'p completed_object_fact \<Rightarrow> error + unit" where
  "validate_kind_fields obj =
     (let regular = (object_kind obj = Object_regular);
          symlink = (object_kind obj = Object_symlink);
          device_object = (object_kind obj = Object_character_device \<or>
                           object_kind obj = Object_block_device) in
      rbind (throw_if (regular \<noteq> is_applicable (object_size obj) \<or>
                       regular \<noteq> is_applicable (object_content obj) \<or>
                       regular \<noteq> is_applicable (object_hardlink obj))
        (Invalid_argument ''regular size, content, and hard-link facts have invalid applicability'')) (\<lambda>_.
      rbind (throw_if (symlink \<noteq> is_applicable (object_symlink_target obj))
        (Invalid_argument ''symlink target has invalid applicability'')) (\<lambda>_.
      throw_if (device_object \<noteq> is_applicable (object_device obj))
        (Invalid_argument ''device number has invalid applicability''))))"

definition make_object_fact :: "'p completed_object_fact \<Rightarrow> error + 'p completed_object_fact" where
  "make_object_fact obj =
     rbind (throw_if (case object_mtime obj of
                        Fact_known t \<Rightarrow> timestamp_nanoseconds t \<ge> 1000000000 | _ \<Rightarrow> False)
       (Invalid_argument ''completed object nanoseconds are out of range'')) (\<lambda>_.
     rbind (validate_kind_fields obj) (\<lambda>_. Inr obj))"

section \<open>Path observations\<close>

record 'p path_observation =
  observation_path :: 'p
  observation_state :: fact_state
  observation_object :: "'p completed_object_fact option"

definition make_observation ::
  "'p \<Rightarrow> fact_state \<Rightarrow> 'p completed_object_fact option \<Rightarrow> error + 'p path_observation" where
  "make_observation path st obj =
     rbind (throw_if ((st = State_known) \<noteq> (obj \<noteq> None))
       (Invalid_argument ''application path observation has invalid state'')) (\<lambda>_.
     rbind (throw_if (case obj of None \<Rightarrow> False | Some f \<Rightarrow> object_path f \<noteq> path)
       (Invalid_argument ''application path observation path mismatch'')) (\<lambda>_.
     Inr \<lparr>observation_path = path, observation_state = st, observation_object = obj\<rparr>))"

definition observation_present :: "'p completed_object_fact \<Rightarrow> error + 'p path_observation" where
  "observation_present obj = make_observation (object_path obj) State_known (Some obj)"

definition observation_absent :: "'p \<Rightarrow> error + 'p path_observation" where
  "observation_absent path = make_observation path State_not_applicable None"

definition observation_unknown :: "'p \<Rightarrow> error + 'p path_observation" where
  "observation_unknown path = make_observation path State_unknown None"

definition observation_wf :: "'p path_observation \<Rightarrow> bool" where
  "observation_wf ob \<longleftrightarrow>
     (observation_state ob = State_known \<longleftrightarrow> observation_object ob \<noteq> None) \<and>
     pred_option (\<lambda>f. object_path f = observation_path ob) (observation_object ob)"

lemma make_observation_wf: "make_observation p st obj = Inr ob \<Longrightarrow> observation_wf ob"
  by (auto simp: make_observation_def observation_wf_def result_simps split: option.splits)

lemma observation_factories:
  "observation_present f =
     Inr \<lparr>observation_path = object_path f, observation_state = State_known, observation_object = Some f\<rparr>"
  "observation_absent p =
     Inr \<lparr>observation_path = p, observation_state = State_not_applicable, observation_object = None\<rparr>"
  "observation_unknown p =
     Inr \<lparr>observation_path = p, observation_state = State_unknown, observation_object = None\<rparr>"
  by (simp_all add: observation_present_def observation_absent_def observation_unknown_def
      make_observation_def)

section \<open>Path consequences\<close>

datatype operation_kind = Install | Upgrade | Remove

datatype planned_active_outcome =
  Activate_incoming | Retain_observed | Remove_observed | Remove_directory_if_empty | Remain_absent

datatype planned_rejected_outcome = No_rejected | Stage_incoming | Stage_old

datatype path_role =
  Incoming_entry | Obsolete_old_path | Structural_parent | Installed_owned_path

datatype effect_status =
  Not_attempted | Effect_completed | Conditional_retained | Effect_failed | Effect_indeterminate

datatype publication_status = Ineligible | Eligible

type_synonym entry_id = u64

text \<open>The planner's ownership transition, as far as the sources read it; owners are the
  installed-package identities \<open>'o\<close>.\<close>

record 'o ownership_transition =
  before_existing_owners :: "'o list"
  after_existing_owners :: "'o list"
  incoming_package_owns_after :: bool

record ('p, 'o) path_consequence =
  consequence_path :: 'p
  consequence_role :: path_role
  requested_active :: planned_active_outcome
  requested_rejected :: planned_rejected_outcome
  consequence_entry :: "entry_id option"
  consequence_ownership :: "'o ownership_transition"
  active_status :: effect_status
  rejected_status :: effect_status
  consequence_before :: "'p path_observation"
  consequence_after :: "'p path_observation"
  rejected_object :: "digest option"
  publication :: publication_status

definition make_consequence :: "('p, 'o) path_consequence \<Rightarrow> error + ('p, 'o) path_consequence" where
  "make_consequence c =
     (if observation_path (consequence_before c) \<noteq> consequence_path c \<or>
         observation_path (consequence_after c) \<noteq> consequence_path c
      then Inl (Invalid_argument ''application consequence observation path mismatch'')
      else if (consequence_role c = Incoming_entry) \<noteq> (consequence_entry c \<noteq> None)
      then Inl (Invalid_argument ''application consequence incoming entry mismatch'')
      else if requested_rejected c = No_rejected \<and>
              (rejected_status c \<noteq> Not_attempted \<or> rejected_object c \<noteq> None)
      then Inl (Invalid_argument ''unplanned rejected consequence'')
      else if requested_rejected c \<noteq> No_rejected \<and>
              rejected_status c = Effect_completed \<and> rejected_object c = None
      then Inl (Invalid_argument ''completed rejected consequence lacks record'')
      else if requested_rejected c \<noteq> No_rejected \<and>
              rejected_object c \<noteq> None \<and> rejected_status c \<noteq> Effect_completed
      then Inl (Invalid_argument ''rejected record lacks completed consequence'')
      else if active_status c = Conditional_retained \<and>
              requested_active c \<noteq> Remove_directory_if_empty
      then Inl (Invalid_argument ''conditional retention requires conditional directory removal'')
      else if publication c = Eligible \<and>
              active_status c \<noteq> Effect_completed \<and> active_status c \<noteq> Conditional_retained
      then Inl (Invalid_argument ''ownership publication requires a completed active consequence'')
      else if publication c = Eligible \<and> observation_state (consequence_after c) = State_unknown
      then Inl (Invalid_argument ''ownership publication requires a known resulting observation'')
      else Inr c)"

lemma make_consequence_Inr: "make_consequence c = Inr c' \<Longrightarrow> c' = c"
  by (auto simp: make_consequence_def split: if_splits)

end
