(* ===== verification/Authority.thy ===== *)
theory Authority
  imports Objects
begin

text \<open>
  The authorities an application runs under: execution control, target context, attempt, mutation
  lease and lease-bound state projection (\<open>execution_control\<close>, \<open>target_context\<close>, \<open>attempt\<close>,
  \<open>mutation_lease\<close>, \<open>state_projection\<close>, \<open>.h\<close> and \<open>.cpp\<close>).  Each is identified by the hash of a
  canonical record; the \<open>_record\<close> functions build the record and \<open>make_\<dots>\<close> is the C++ factory with
  its guards in the order of the source.  Nonces are 32-byte arrays.
\<close>

section \<open>Execution control\<close>

datatype recovery_requirement = Recovery_none | Recovery_best_effort | Recovery_exact

datatype durability_requirement = Visibility_only | Journal_and_recovery | All_application_domains

datatype cancellation_policy = Before_target_mutation_only | Recover_after_target_mutation

fun canonical_recovery :: "recovery_requirement \<Rightarrow> u8" where
  "canonical_recovery Recovery_none = 1"
| "canonical_recovery Recovery_best_effort = 2"
| "canonical_recovery Recovery_exact = 3"

fun canonical_durability :: "durability_requirement \<Rightarrow> u8" where
  "canonical_durability Visibility_only = 1"
| "canonical_durability Journal_and_recovery = 2"
| "canonical_durability All_application_domains = 3"

fun canonical_cancellation :: "cancellation_policy \<Rightarrow> u8" where
  "canonical_cancellation Before_target_mutation_only = 1"
| "canonical_cancellation Recover_after_target_mutation = 2"

record execution_control =
  control_identity :: digest
  control_recovery :: recovery_requirement
  control_durability :: durability_requirement
  control_cancellation :: cancellation_policy
  maximum_staging_bytes :: "u64 option"
  maximum_recovery_bytes :: "u64 option"

definition control_record ::
  "recovery_requirement \<Rightarrow> durability_requirement \<Rightarrow> cancellation_policy \<Rightarrow> u64 option \<Rightarrow>
   u64 option \<Rightarrow> bytes" where
  "control_record recovery durability cancellation staging recovered =
     (let r = canonical_record (canonical_domain Application_execution_control_domain);
          r = append_u16 r 1;
          r = append_u8 r (canonical_recovery recovery);
          r = append_u8 r (canonical_durability durability);
          r = append_u8 r (canonical_cancellation cancellation);
          r = append_optional append_u64 r staging in
      append_optional append_u64 r recovered)"

definition make_control ::
  "('p, 'o) environment \<Rightarrow> recovery_requirement \<Rightarrow> durability_requirement \<Rightarrow> cancellation_policy \<Rightarrow>
   u64 option \<Rightarrow> u64 option \<Rightarrow> error + execution_control" where
  "make_control E recovery durability cancellation staging recovered =
     (if staging = Some 0 then Inl (Invalid_argument ''maximum staging bytes must be nonzero'')
      else if recovered = Some 0
      then Inl (Invalid_argument ''maximum recovery bytes must be nonzero'')
      else if recovery = Recovery_exact \<and> cancellation = Before_target_mutation_only
      then Inl (Invalid_argument
        ''exact recovery requires post-mutation recovery cancellation policy'')
      else Inr \<lparr>control_identity =
                   hash E (control_record recovery durability cancellation staging recovered),
                control_recovery = recovery, control_durability = durability,
                control_cancellation = cancellation, maximum_staging_bytes = staging,
                maximum_recovery_bytes = recovered\<rparr>)"

lemma canonical_control_inject [simp]:
  shows "canonical_recovery a = canonical_recovery b \<longleftrightarrow> a = b"
    and "canonical_durability c = canonical_durability d \<longleftrightarrow> c = d"
    and "canonical_cancellation e = canonical_cancellation f \<longleftrightarrow> e = f"
  subgoal by (cases a; cases b) simp_all
  subgoal by (cases c; cases d) simp_all
  subgoal by (cases e; cases f) simp_all
  done

definition encode_control :: "execution_control \<Rightarrow> bytes" where
  "encode_control c = control_record (control_recovery c) (control_durability c)
     (control_cancellation c) (maximum_staging_bytes c) (maximum_recovery_bytes c)"

definition valid_control :: "('p, 'o) environment \<Rightarrow> execution_control \<Rightarrow> bool" where
  "valid_control E c \<longleftrightarrow>
     make_control E (control_recovery c) (control_durability c) (control_cancellation c)
       (maximum_staging_bytes c) (maximum_recovery_bytes c) = Inr c"

lemma control_record_inject [simp]:
  "control_record a b c d e = control_record a' b' c' d' e' \<longleftrightarrow>
     a = a' \<and> b = b' \<and> c = c' \<and> d = d' \<and> e = e'"
  by (simp add: control_record_def record_defs wire_simps)

lemma encode_control_inject:
  "encode_control c = encode_control d \<longleftrightarrow>
     control_recovery c = control_recovery d \<and> control_durability c = control_durability d \<and>
     control_cancellation c = control_cancellation d \<and>
     maximum_staging_bytes c = maximum_staging_bytes d \<and>
     maximum_recovery_bytes c = maximum_recovery_bytes d"
  by (simp only: encode_control_def control_record_inject)

lemma valid_control_identity: "valid_control E c \<Longrightarrow> control_identity c = hash E (encode_control c)"
  by (auto simp: valid_control_def make_control_def encode_control_def split: if_splits
      dest: arg_cong [where f = control_identity])

lemma valid_control_eqI:
  "valid_control E c \<Longrightarrow> valid_control E d \<Longrightarrow> encode_control c = encode_control d \<Longrightarrow> c = d"
  unfolding valid_control_def encode_control_inject by (metis sum.inject(2))

interpretation control_scheme:
  identity_scheme "hash E" encode_control control_identity "valid_control E" for E
  by unfold_locales (fact valid_control_identity, fact valid_control_eqI)

section \<open>Target context\<close>

record target_context =
  context_identity :: digest
  context_target :: bytes
  managed_target :: digest
  root_view :: digest
  observation_backend :: digest
  context_mutation_backend :: digest
  mutation_exclusion_domain :: digest
  active_namespace :: digest
  rejected_store :: digest
  staging_namespace :: digest
  journal_namespace :: digest
  capabilities :: digest
  lifecycle_executor :: "digest option"

text \<open>The factory's arguments are the fields of the candidate; \<open>context_identity\<close> is ignored.\<close>

definition context_record :: "target_context \<Rightarrow> bytes" where
  "context_record t =
     (let r = canonical_record (canonical_domain Application_target_context_domain);
          r = append_u16 r 1;
          r = append_bytes r (context_target t);
          r = append_digest r (managed_target t);
          r = append_digest r (root_view t);
          r = append_digest r (observation_backend t);
          r = append_digest r (context_mutation_backend t);
          r = append_digest r (mutation_exclusion_domain t);
          r = append_digest r (active_namespace t);
          r = append_digest r (rejected_store t);
          r = append_digest r (staging_namespace t);
          r = append_digest r (journal_namespace t);
          r = append_digest r (capabilities t) in
      append_optional append_digest r (lifecycle_executor t))"

definition validate_distinct_namespaces :: "target_context \<Rightarrow> error + unit" where
  "validate_distinct_namespaces t =
     (let active = digest_string (active_namespace t);
          rejected = digest_string (rejected_store t);
          staging = digest_string (staging_namespace t);
          journal = digest_string (journal_namespace t) in
      throw_if (active = rejected \<or> active = staging \<or> active = journal \<or>
                rejected = staging \<or> rejected = journal \<or> staging = journal)
        (Invalid_argument ''application target context namespaces must be distinct''))"

definition make_context :: "('p, 'o) environment \<Rightarrow> target_context \<Rightarrow> error + target_context" where
  "make_context E t =
     rbind (validate_distinct_namespaces t)
       (\<lambda>_. Inr (t\<lparr>context_identity := hash E (context_record t)\<rparr>))"

definition valid_context :: "('p, 'o) environment \<Rightarrow> target_context \<Rightarrow> bool" where
  "valid_context E t \<longleftrightarrow> make_context E t = Inr t \<and> size_ok (context_target t)"

lemma make_context_Inr:
  "make_context E t = Inr t' \<longleftrightarrow>
     distinct [active_namespace t, rejected_store t, staging_namespace t, journal_namespace t] \<and>
     t' = t\<lparr>context_identity := hash E (context_record t)\<rparr>"
  by (auto simp: make_context_def validate_distinct_namespaces_def result_simps)

lemma valid_context_identity: "valid_context E t \<Longrightarrow> context_identity t = hash E (context_record t)"
  by (auto simp: valid_context_def make_context_Inr dest: arg_cong [where f = context_identity])

lemma valid_context_eqI:
  assumes "valid_context E t" and "valid_context E u" and "context_record t = context_record u"
  shows "t = u"
proof -
  have "context_identity t = context_identity u"
    using assms by (simp add: valid_context_identity)
  then show ?thesis
    using assms by (intro target_context.equality)
      (simp_all add: valid_context_def context_record_def record_defs wire_simps)
qed

interpretation context_scheme:
  identity_scheme "hash E" context_record context_identity "valid_context E" for E
  by unfold_locales (fact valid_context_identity, fact valid_context_eqI)

section \<open>Application attempts\<close>

text \<open>A nonce is 32 random bytes; \<open>append_nonce\<close> is the byte loop of the two factories.\<close>

type_synonym nonce = "256 word"

definition append_nonce :: "bytes \<Rightarrow> nonce \<Rightarrow> bytes" where
  "append_nonce r n = foldl append_u8 r (digest_array n)"

lemma append_nonce_bytes: "append_nonce r n = r @ digest_array n"
proof -
  have "foldl append_u8 r bs = r @ bs" for bs
    by (induction bs arbitrary: r) (simp_all add: append_u8_def)
  then show ?thesis by (simp add: append_nonce_def)
qed

interpretation nonce_code: wire_code append_nonce "\<lambda>_. True"
  by unfold_locales (simp_all add: append_nonce_bytes wire_def append_eq_append_conv)

declare nonce_code.app_wire [record_defs] nonce_code.wire_iff [wire_simps]
  nonce_code.wire_end_iff [wire_simps]

record attempt =
  attempt_identity :: digest
  attempt_request :: digest
  attempt_target :: digest
  attempt_backend :: digest
  attempt_nonce :: nonce

definition attempt_record :: "digest \<Rightarrow> digest \<Rightarrow> digest \<Rightarrow> nonce \<Rightarrow> bytes" where
  "attempt_record request target backend nonce =
     (let r = canonical_record (canonical_domain Application_attempt_domain);
          r = append_u16 r 1;
          r = append_digest r request;
          r = append_digest r target;
          r = append_digest r backend in
      append_nonce r nonce)"

definition make_attempt ::
  "('p, 'o) environment \<Rightarrow> digest \<Rightarrow> digest \<Rightarrow> digest \<Rightarrow> nonce \<Rightarrow> attempt" where
  "make_attempt E request target backend nonce =
     \<lparr>attempt_identity = hash E (attempt_record request target backend nonce),
      attempt_request = request, attempt_target = target, attempt_backend = backend,
      attempt_nonce = nonce\<rparr>"

definition encode_attempt :: "attempt \<Rightarrow> bytes" where
  "encode_attempt a =
     attempt_record (attempt_request a) (attempt_target a) (attempt_backend a) (attempt_nonce a)"

definition valid_attempt :: "('p, 'o) environment \<Rightarrow> attempt \<Rightarrow> bool" where
  "valid_attempt E a \<longleftrightarrow> attempt_identity a = hash E (encode_attempt a)"

lemma make_attempt_valid: "valid_attempt E (make_attempt E req tgt bck n)"
  by (simp add: valid_attempt_def make_attempt_def encode_attempt_def)

lemma attempt_record_inject [simp]:
  "attempt_record a b c d = attempt_record a' b' c' d' \<longleftrightarrow> a = a' \<and> b = b' \<and> c = c' \<and> d = d'"
  by (simp add: attempt_record_def record_defs wire_simps)

interpretation attempt_scheme:
  identity_scheme "hash E" encode_attempt attempt_identity "valid_attempt E" for E
  by unfold_locales (auto simp: valid_attempt_def encode_attempt_def)

section \<open>State projections\<close>

datatype projection_completeness = Projection_complete | Projection_incomplete

fun canonical_completeness :: "projection_completeness \<Rightarrow> u8" where
  "canonical_completeness Projection_complete = 1"
| "canonical_completeness Projection_incomplete = 2"

lemma canonical_completeness_inject [simp]:
  "canonical_completeness a = canonical_completeness b \<longleftrightarrow> a = b"
  by (cases a; cases b) simp_all

record ('p, 'o) projected_path =
  projected_path :: 'p
  projected_owners :: "'o list"

definition make_projected_path ::
  "'p \<Rightarrow> 'o::linorder list \<Rightarrow> error + ('p, 'o) projected_path" where
  "make_projected_path path owners =
     (let owners = sort owners in
      rbind (throw_if (adjacent_equal owners)
        (Invalid_argument ''duplicate installed owner in state projection'')) (\<lambda>_.
      Inr \<lparr>projected_path = path, projected_owners = owners\<rparr>))"

record ('p, 'o) state_projection =
  projection_identity :: digest
  projection_lease :: digest
  projection_snapshot :: bytes
  projection_inventory :: bytes
  projection_completeness :: projection_completeness
  projection_paths :: "('p, 'o) projected_path list"
  projection_evidence :: digest

definition append_projected_path ::
  "('p, 'o) environment \<Rightarrow> bytes \<Rightarrow> ('p, 'o) projected_path \<Rightarrow> bytes" where
  "append_projected_path E r item =
     (let r = append_bytes r (path_string E (projected_path item)) in
      append_counted append_bytes r (map (owner_string E) (projected_owners item)))"

definition projection_record :: "('p, 'o) environment \<Rightarrow> ('p, 'o) state_projection \<Rightarrow> bytes" where
  "projection_record E p =
     (let r = canonical_record (canonical_domain Lease_bound_state_projection_domain);
          r = append_u16 r 1;
          r = append_digest r (projection_lease p);
          r = append_bytes r (projection_snapshot p);
          r = append_bytes r (projection_inventory p);
          r = append_u8 r (canonical_completeness (projection_completeness p));
          r = append_counted (append_projected_path E) r (projection_paths p) in
      append_digest r (projection_evidence p))"

text \<open>As for the target context, the candidate carries the arguments of the factory.\<close>

definition make_projection ::
  "('p::linorder, 'o) environment \<Rightarrow> ('p, 'o) state_projection \<Rightarrow> error + ('p, 'o) state_projection" where
  "make_projection E p =
     (let p = p\<lparr>projection_paths := sort_key projected_path (projection_paths p)\<rparr> in
      rbind (throw_if (adjacent_equal (map projected_path (projection_paths p)))
        (Invalid_argument ''duplicate path in state projection'')) (\<lambda>_.
      Inr (p\<lparr>projection_identity := hash E (projection_record E p)\<rparr>)))"

definition find_projected ::
  "('p::linorder, 'o) state_projection \<Rightarrow> 'p \<Rightarrow> ('p, 'o) projected_path option" where
  "find_projected p path = find_sorted projected_path (projection_paths p) path"

definition projection_sorted :: "('p::linorder, 'o) state_projection \<Rightarrow> bool" where
  "projection_sorted p \<longleftrightarrow>
     sorted (map projected_path (projection_paths p)) \<and>
     distinct (map projected_path (projection_paths p))"

lemma make_projection_sorted: "make_projection E p = Inr p' \<Longrightarrow> projection_sorted p'"
proof -
  assume made: "make_projection E p = Inr p'"
  define xs where "xs = sort_key projected_path (projection_paths p)"
  have "distinct (map projected_path (projection_paths p))" "projection_paths p' = xs"
    using made by (auto simp: make_projection_def Let_def result_simps xs_def)
  moreover have "distinct (map projected_path xs) \<longleftrightarrow> distinct (map projected_path (projection_paths p))"
    unfolding xs_def by (rule mset_eq_imp_distinct_iff) simp
  ultimately show ?thesis
    by (simp add: projection_sorted_def xs_def)
qed

interpretation projection_table:
  path_table projection_paths projected_path projection_sorted find_projected
  by unfold_locales (auto simp: projection_sorted_def find_projected_def)

text \<open>
  The encoding of a projection loses nothing as long as the texts of paths and owners determine
  them and every length fits its 64-bit count.
\<close>

definition projection_sizes :: "('p, 'o) environment \<Rightarrow> ('p, 'o) state_projection \<Rightarrow> bool" where
  "projection_sizes E p \<longleftrightarrow>
     size_ok (projection_snapshot p) \<and> size_ok (projection_inventory p) \<and>
     size_ok (projection_paths p) \<and>
     (\<forall>item \<in> set (projection_paths p).
        size_ok (path_string E (projected_path item)) \<and> size_ok (projected_owners item) \<and>
        (\<forall>x \<in> set (projected_owners item). size_ok (owner_string E x)))"

definition faithful_texts :: "('p, 'o) environment \<Rightarrow> bool" where
  "faithful_texts E \<longleftrightarrow> inj (path_string E) \<and> inj (owner_string E)"

definition projected_path_ok :: "('p, 'o) environment \<Rightarrow> ('p, 'o) projected_path \<Rightarrow> bool" where
  "projected_path_ok E item \<longleftrightarrow>
     size_ok (path_string E (projected_path item)) \<and> size_ok (projected_owners item) \<and>
     (\<forall>x \<in> set (projected_owners item). size_ok (owner_string E x))"

interpretation owner_texts_code: wire_code "append_counted append_bytes"
  "\<lambda>xs. list_all size_ok xs \<and> size_ok xs"
  by (rule bytes_code.counted_code)

lemma projected_path_code:
  assumes "faithful_texts E"
  shows "wire_code (append_projected_path E) (projected_path_ok E)"
proof
  have app: "append_projected_path E r item =
      r @ wire append_bytes (path_string E (projected_path item)) @
        wire (append_counted append_bytes) (map (owner_string E) (projected_owners item))" for r item
    by (simp add: append_projected_path_def bytes_code.app_wire owner_texts_code.app_wire)
  then show "append_projected_path E r x = r @ wire (append_projected_path E) x" for r x
    by (simp add: wire_def)
  fix x y s t
  assume ok: "projected_path_ok E x" "projected_path_ok E y"
    and eq: "wire (append_projected_path E) x @ s = wire (append_projected_path E) y @ t"
  from eq have
    "wire append_bytes (path_string E (projected_path x)) @
       wire (append_counted append_bytes) (map (owner_string E) (projected_owners x)) @ s =
     wire append_bytes (path_string E (projected_path y)) @
       wire (append_counted append_bytes) (map (owner_string E) (projected_owners y)) @ t"
    by (simp add: wire_def [of "append_projected_path E"] app)
  with ok have "path_string E (projected_path x) = path_string E (projected_path y) \<and>
      map (owner_string E) (projected_owners x) = map (owner_string E) (projected_owners y) \<and> s = t"
    by (subst (asm) bytes_code.wire_iff, simp_all add: projected_path_ok_def,
        subst (asm) owner_texts_code.wire_iff, simp_all add: list_all_iff)
  with assms show "x = y \<and> s = t"
    by (auto simp: faithful_texts_def inj_eq inj_map_eq_map intro: projected_path.equality)
qed

lemma projection_record_inject:
  assumes "faithful_texts E" and "projection_sizes E p" and "projection_sizes E q"
    and "projection_record E p = projection_record E q"
    and "projection_identity p = projection_identity q"
  shows "p = q"
proof -
  note paths = wire_code.counted_code [OF projected_path_code [OF assms(1)]]
  have "list_all (projected_path_ok E) (projection_paths x) \<and> size_ok (projection_paths x)"
    if "projection_sizes E x" for x
    using that by (auto simp: projection_sizes_def projected_path_ok_def list_all_iff)
  with assms show ?thesis
    by (intro state_projection.equality)
      (simp_all add: projection_record_def projection_sizes_def record_defs wire_simps
        wire_code.app_wire [OF paths] wire_code.wire_iff [OF paths])
qed

definition valid_projection :: "('p::linorder, 'o) environment \<Rightarrow> ('p, 'o) state_projection \<Rightarrow> bool" where
  "valid_projection E p \<longleftrightarrow> faithful_texts E \<and> projection_sizes E p \<and> make_projection E p = Inr p"

lemma valid_projection_identity:
  assumes "valid_projection E p"
  shows "projection_identity p = hash E (projection_record E p)"
proof -
  have made: "make_projection E p = Inr p" using assms by (simp add: valid_projection_def)
  then have "sort_key projected_path (projection_paths p) = projection_paths p"
    by (auto simp: make_projection_def Let_def result_simps dest: arg_cong [where f = projection_paths])
  then have "p\<lparr>projection_paths := sort_key projected_path (projection_paths p)\<rparr> = p" by simp
  with made show ?thesis
    by (auto simp: make_projection_def Let_def result_simps dest: arg_cong [where f = projection_identity])
qed

interpretation projection_scheme:
  identity_scheme "hash E" "projection_record E" projection_identity "valid_projection E" for E
proof
  show "p = q" if "valid_projection E p" "valid_projection E q"
    "projection_record E p = projection_record E q" for p q
    using that by (intro projection_record_inject [of E])
      (simp_all add: valid_projection_identity, simp_all add: valid_projection_def)
qed (fact valid_projection_identity)

section \<open>Mutation leases\<close>

record lease_acquisition =
  acquisition_identity :: digest
  acquisition_target :: digest
  acquisition_domain :: digest
  acquisition_nonce :: nonce

definition acquisition_record :: "digest \<Rightarrow> digest \<Rightarrow> nonce \<Rightarrow> bytes" where
  "acquisition_record target exclusion_domain nonce =
     (let r = canonical_record (canonical_domain Mutation_lease_instance_domain);
          r = append_u16 r 1;
          r = append_digest r target;
          r = append_digest r exclusion_domain in
      append_nonce r nonce)"

definition make_acquisition ::
  "('p, 'o) environment \<Rightarrow> digest \<Rightarrow> digest \<Rightarrow> nonce \<Rightarrow> lease_acquisition" where
  "make_acquisition E target exclusion_domain nonce =
     \<lparr>acquisition_identity = hash E (acquisition_record target exclusion_domain nonce),
      acquisition_target = target, acquisition_domain = exclusion_domain,
      acquisition_nonce = nonce\<rparr>"

definition encode_acquisition :: "lease_acquisition \<Rightarrow> bytes" where
  "encode_acquisition a =
     acquisition_record (acquisition_target a) (acquisition_domain a) (acquisition_nonce a)"

definition valid_acquisition :: "('p, 'o) environment \<Rightarrow> lease_acquisition \<Rightarrow> bool" where
  "valid_acquisition E a \<longleftrightarrow> acquisition_identity a = hash E (encode_acquisition a)"

lemma acquisition_record_inject [simp]:
  "acquisition_record a b c = acquisition_record a' b' c' \<longleftrightarrow> a = a' \<and> b = b' \<and> c = c'"
  by (simp add: acquisition_record_def record_defs wire_simps)

interpretation acquisition_scheme:
  identity_scheme "hash E" encode_acquisition acquisition_identity "valid_acquisition E" for E
  by unfold_locales (auto simp: valid_acquisition_def encode_acquisition_def)

text \<open>The observers of the abstract lease, as they answer at the moment of one check.\<close>

record mutation_lease =
  lease_held :: bool
  lease_identity :: digest
  lease_target :: digest
  lease_domain :: digest

datatype lease_error_code =
  Not_held | Target_context_mismatch | Exclusion_domain_mismatch | State_projection_mismatch

definition validate_lease_scope :: "target_context \<Rightarrow> mutation_lease \<Rightarrow> lease_error_code + unit" where
  "validate_lease_scope t l =
     (if \<not> lease_held l then Inl Not_held
      else if lease_target l \<noteq> context_identity t then Inl Target_context_mismatch
      else if lease_domain l \<noteq> mutation_exclusion_domain t then Inl Exclusion_domain_mismatch
      else Inr ())"

definition validate_lease ::
  "target_context \<Rightarrow> ('p, 'o) state_projection \<Rightarrow> mutation_lease \<Rightarrow> lease_error_code + unit" where
  "validate_lease t p l =
     rbind (validate_lease_scope t l) (\<lambda>_.
     throw_if (lease_identity l \<noteq> projection_lease p) State_projection_mismatch)"

lemma validate_lease_scope_ok [simp]:
  "validate_lease_scope t l = Inr u \<longleftrightarrow>
     lease_held l \<and> lease_target l = context_identity t \<and>
     lease_domain l = mutation_exclusion_domain t"
  by (auto simp: validate_lease_scope_def)

lemma validate_lease_ok [simp]:
  "validate_lease t p l = Inr u \<longleftrightarrow>
     lease_held l \<and> lease_target l = context_identity t \<and>
     lease_domain l = mutation_exclusion_domain t \<and> lease_identity l = projection_lease p"
  by (auto simp: validate_lease_def result_simps)

end
