(* ===== verification/Backend.thy ===== *)
theory Backend
  imports Authority
begin

text \<open>
  The values a mutation backend exchanges with the engine: \<open>backend.h\<close> and \<open>backend.cpp\<close>.  Each
  result normalises its evidence and rejects contradictory combinations; an observation batch is
  closed over the requested paths; a rejected-object request is projected from the planner's
  record.  The backend itself and its transactions are interfaces implemented outside the library.
\<close>

datatype operation_outcome =
  Outcome_completed | Outcome_conditional_retained | Outcome_failed | Outcome_indeterminate

definition normalize_backend_evidence :: "digest list \<Rightarrow> error + digest list" where
  "normalize_backend_evidence evidence =
     (let evidence = sort evidence in
      if adjacent_equal evidence
      then Inl (Invalid_argument ''duplicate backend evidence identity'')
      else Inr evidence)"

definition normalize_paths :: "'p::linorder list \<Rightarrow> error + 'p list" where
  "normalize_paths paths =
     (let paths = sort paths in
      if adjacent_equal paths
      then Inl (Invalid_argument ''duplicate backend observation request path'')
      else Inr paths)"

section \<open>Results\<close>

record operation_result =
  operation_outcome :: operation_outcome
  operation_evidence :: "digest list"

definition make_operation_result ::
  "operation_outcome \<Rightarrow> digest list \<Rightarrow> error + operation_result" where
  "make_operation_result outcome evidence =
     rbind (normalize_backend_evidence evidence) (\<lambda>evidence.
     Inr \<lparr>operation_outcome = outcome, operation_evidence = evidence\<rparr>)"

text \<open>Rejected-object and completed-evidence publications have the same shape.\<close>

record publication_result =
  publication_outcome :: operation_outcome
  publication_record :: "digest option"
  publication_evidence :: "digest list"

definition make_rejected_publication ::
  "operation_outcome \<Rightarrow> digest option \<Rightarrow> digest list \<Rightarrow> error + publication_result" where
  "make_rejected_publication outcome rec evidence =
     (if outcome = Outcome_conditional_retained
      then Inl (Invalid_argument ''invalid rejected-object publication outcome'')
      else if (outcome = Outcome_completed) \<noteq> (rec \<noteq> None)
      then Inl (Invalid_argument ''rejected-object publication record applicability mismatch'')
      else rbind (normalize_backend_evidence evidence) (\<lambda>evidence.
        Inr \<lparr>publication_outcome = outcome, publication_record = rec,
             publication_evidence = evidence\<rparr>))"

definition make_evidence_publication ::
  "operation_outcome \<Rightarrow> digest option \<Rightarrow> digest list \<Rightarrow> error + publication_result" where
  "make_evidence_publication outcome rec evidence =
     (if outcome = Outcome_conditional_retained
      then Inl (Invalid_argument ''invalid completed-evidence publication outcome'')
      else if (outcome = Outcome_completed) \<noteq> (rec \<noteq> None)
      then Inl (Invalid_argument ''completed-evidence publication record applicability mismatch'')
      else rbind (normalize_backend_evidence evidence) (\<lambda>evidence.
        Inr \<lparr>publication_outcome = outcome, publication_record = rec,
             publication_evidence = evidence\<rparr>))"

section \<open>Observation batches\<close>

record 'p observation_batch =
  batch_requested :: "'p list"
  batch_observations :: "'p path_observation list"
  batch_evidence :: "digest list"

definition make_batch ::
  "'p::linorder list \<Rightarrow> 'p path_observation list \<Rightarrow> digest list \<Rightarrow> error + 'p observation_batch" where
  "make_batch requested observations evidence =
     rbind (normalize_paths requested) (\<lambda>requested.
     let observations = sort_key observation_path observations in
     if length observations \<noteq> length requested
     then Inl (Invalid_argument ''backend observation closure is incomplete'')
     else if \<not> list_all2 (\<lambda>ob path. observation_path ob = path) observations requested
     then Inl (Invalid_argument ''backend observation closure path mismatch'')
     else rbind (normalize_backend_evidence evidence) (\<lambda>evidence.
       Inr \<lparr>batch_requested = requested, batch_observations = observations,
            batch_evidence = evidence\<rparr>))"

definition find_observation ::
  "'p::linorder observation_batch \<Rightarrow> 'p \<Rightarrow> 'p path_observation option" where
  "find_observation batch path = find_sorted observation_path (batch_observations batch) path"

definition batch_ok :: "'p::linorder observation_batch \<Rightarrow> bool" where
  "batch_ok b \<longleftrightarrow>
     map observation_path (batch_observations b) = batch_requested b \<and>
     sorted (batch_requested b) \<and> distinct (batch_requested b)"

lemma list_all2_map_eq: "list_all2 (\<lambda>x y. f x = y) xs ys \<longleftrightarrow> map f xs = ys"
  by (induction xs ys rule: list_induct2') auto

lemma make_batch_ok: "make_batch requested observations evidence = Inr b \<Longrightarrow> batch_ok b"
  by (auto simp: make_batch_def normalize_paths_def batch_ok_def result_simps Let_def list_all2_map_eq
      split: if_splits)

lemma make_batch_requested:
  "make_batch requested observations evidence = Inr b \<Longrightarrow> batch_requested b = sort requested"
  by (auto simp: make_batch_def normalize_paths_def result_simps Let_def split: if_splits)

interpretation batch_table:
  path_table batch_observations observation_path batch_ok find_observation
  by unfold_locales (simp_all add: batch_ok_def find_observation_def)

lemma batch_lookup_total:
  assumes "batch_ok b" and "path \<in> set (batch_requested b)"
  obtains ob where "find_observation b path = Some ob" and "observation_path ob = path"
proof -
  have "path \<in> observation_path ` set (batch_observations b)"
    using assms by (auto simp: batch_ok_def dest: arg_cong [where f = set])
  then obtain ob where "ob \<in> set (batch_observations b)" "observation_path ob = path" by auto
  with batch_table.lookup_Some_iff [OF assms(1)] that show thesis by blast
qed

section \<open>Old-object captures\<close>

record 'p capture_request =
  capture_path :: 'p
  for_rejected_object :: bool
  for_recovery :: bool

definition make_capture_request :: "'p \<Rightarrow> bool \<Rightarrow> bool \<Rightarrow> error + 'p capture_request" where
  "make_capture_request path for_rejected recovered =
     (if \<not> for_rejected \<and> \<not> recovered
      then Inl (Invalid_argument ''old object capture has no purpose'')
      else Inr \<lparr>capture_path = path, for_rejected_object = for_rejected, for_recovery = recovered\<rparr>)"

record 'p capture_result =
  capture_outcome :: operation_outcome
  captured_observation :: "'p path_observation"
  exact_recovery_possible :: bool
  capture_evidence :: "digest list"

definition make_capture_result ::
  "operation_outcome \<Rightarrow> 'p path_observation \<Rightarrow> bool \<Rightarrow> digest list \<Rightarrow> error + 'p capture_result" where
  "make_capture_result outcome captured exact evidence =
     (if outcome = Outcome_completed \<and> observation_state captured \<noteq> State_known
      then Inl (Invalid_argument ''completed old-object capture lacks a present object'')
      else if exact \<and> outcome \<noteq> Outcome_completed
      then Inl (Invalid_argument ''failed old-object capture claims exact recoverability'')
      else rbind (normalize_backend_evidence evidence) (\<lambda>evidence.
        Inr \<lparr>capture_outcome = outcome, captured_observation = captured,
             exact_recovery_possible = exact, capture_evidence = evidence\<rparr>))"

section \<open>Effect requests\<close>

record 'p active_effect_request =
  active_path :: 'p
  active_outcome :: planned_active_outcome
  active_entry :: "entry_id option"

definition make_active_request ::
  "'p \<Rightarrow> planned_active_outcome \<Rightarrow> entry_id option \<Rightarrow> error + 'p active_effect_request" where
  "make_active_request path outcome incoming_entry =
     (let requires_incoming = (outcome = Activate_incoming) in
      if requires_incoming \<noteq> (incoming_entry \<noteq> None)
      then Inl (Invalid_argument ''active effect incoming entry mismatch'')
      else Inr \<lparr>active_path = path, active_outcome = outcome, active_entry = incoming_entry\<rparr>)"

text \<open>The sources only test whether the side is the incoming one.\<close>

datatype rejected_source_side = Side_incoming | Side_not_incoming

record ('p, 'o) rejected_effect_request =
  rejected_path :: 'p
  rejected_side :: rejected_source_side
  rejected_reason :: u8
  rejected_release :: bytes
  rejected_artifact :: "bytes option"
  rejected_manifest :: "bytes option"
  rejected_image :: "bytes option"
  rejected_entry :: "entry_id option"
  rejected_package :: "'o option"
  rejected_control :: "bytes option"
  rejected_observations :: bytes

definition make_rejected_request ::
  "('p, 'o) rejected_effect_request \<Rightarrow> error + ('p, 'o) rejected_effect_request" where
  "make_rejected_request r =
     (let incoming = (rejected_side r = Side_incoming) in
      if incoming \<noteq> (rejected_artifact r \<noteq> None \<and> rejected_manifest r \<noteq> None \<and>
                       rejected_image r \<noteq> None \<and> rejected_entry r \<noteq> None)
      then Inl (Invalid_argument ''rejected-object incoming provenance is incomplete'')
      else if incoming = (rejected_package r \<noteq> None \<or> rejected_control r \<noteq> None)
      then Inl (Invalid_argument
        ''rejected-object installed provenance applicability is invalid'')
      else if \<not> incoming \<and> (rejected_package r = None \<or> rejected_control r = None)
      then Inl (Invalid_argument ''rejected-object old provenance is incomplete'')
      else Inr r)"

definition rejected_outcome :: "('p, 'o) rejected_effect_request \<Rightarrow> planned_rejected_outcome" where
  "rejected_outcome r = (if rejected_side r = Side_incoming then Stage_incoming else Stage_old)"

end
