(* ===== verification/Plan.thy ===== *)
theory Plan
  imports Backend
begin

text \<open>
  The planner's and the image reader's values, as the sources read them.  libpkgplan and libpkgimage
  are not part of the repository: their classes are records of the observers the sources call, and
  an observer that computes (\<open>operation_preconditions::find\<close>, \<open>package_image::entry\<close>,
  \<open>package_image::find\<close>) is a function in the record.  What the sources rely on of such an observer
  is a named hypothesis (\<open>preconditions_lookup\<close>, \<open>image_lookup\<close>).  The enumerations carry the
  enumerators of the exhaustive switches in the sources.
\<close>

section \<open>Path preconditions\<close>

datatype planned_object_kind =
  Planned_regular | Planned_directory | Planned_symlink | Planned_fifo | Planned_character_device
| Planned_block_device | Planned_socket | Planned_other

record planned_object =
  planned_kind :: planned_object_kind
  planned_mode :: u32
  planned_uid :: u64
  planned_gid :: u64
  planned_size :: "u64 option"
  planned_mtime :: "(u64 \<times> u32) option"
  planned_content :: "bytes option"
  planned_target :: "bytes option"
  planned_device :: "(u64 \<times> u64) option"

text \<open>\<open>target_path_observation\<close>: \<open>is_present()\<close> and the pointer \<open>object()\<close>.\<close>

record planned_observation =
  planned_present :: bool
  planned_object :: "planned_object option"

record ('p, 'o) path_precondition =
  precondition_path :: 'p
  precondition_owners :: "'o list"
  precondition_observation :: planned_observation

record archive_precondition =
  precondition_archive :: bytes
  precondition_image :: bytes
  precondition_inspection :: bytes

record ('p, 'o) preconditions =
  preconditions_target :: bytes
  preconditions_snapshot :: bytes
  preconditions_inventory :: bytes
  preconditions_paths :: "('p, 'o) path_precondition list"
  preconditions_incoming :: "archive_precondition option"
  preconditions_find :: "'p \<Rightarrow> ('p, 'o) path_precondition option"

definition preconditions_lookup :: "('p, 'o) preconditions \<Rightarrow> bool" where
  "preconditions_lookup pre \<longleftrightarrow>
     (\<forall>path item. preconditions_find pre path = Some item \<longleftrightarrow>
        item \<in> set (preconditions_paths pre) \<and> precondition_path item = path)"

section \<open>Decisions and plans\<close>

text \<open>
  \<open>rejected_object_plan\<close>, the structured provenance of a rejected object, and the request the
  backend receives for it (\<open>backend_rejected_effect_request::from_plan\<close>): the pointer
  \<open>incoming_source()\<close> is read first.
\<close>

record incoming_source =
  source_release :: bytes
  source_artifact :: bytes
  source_manifest :: bytes
  source_image :: bytes
  source_entry :: entry_id

record 'o installed_source =
  installed_release :: bytes
  installed_package :: 'o
  installed_control :: bytes

record ('p, 'o) rejected_object_plan =
  object_plan_path :: 'p
  object_side :: rejected_source_side
  object_reason :: u8
  object_incoming :: "incoming_source option"
  object_installed :: "'o installed_source option"
  object_observations :: bytes

definition from_plan :: "('p, 'o) rejected_object_plan \<Rightarrow> error + ('p, 'o) rejected_effect_request" where
  "from_plan plan =
     (case object_incoming plan of
        Some i \<Rightarrow> make_rejected_request
          \<lparr>rejected_path = object_plan_path plan, rejected_side = object_side plan,
           rejected_reason = object_reason plan, rejected_release = source_release i,
           rejected_artifact = Some (source_artifact i), rejected_manifest = Some (source_manifest i),
           rejected_image = Some (source_image i), rejected_entry = Some (source_entry i),
           rejected_package = None, rejected_control = None,
           rejected_observations = object_observations plan\<rparr>
      | None \<Rightarrow>
          (case object_installed plan of
             Some old \<Rightarrow> make_rejected_request
               \<lparr>rejected_path = object_plan_path plan, rejected_side = object_side plan,
                rejected_reason = object_reason plan, rejected_release = installed_release old,
                rejected_artifact = None, rejected_manifest = None, rejected_image = None,
                rejected_entry = None, rejected_package = Some (installed_package old),
                rejected_control = Some (installed_control old),
                rejected_observations = object_observations plan\<rparr>
           | None \<Rightarrow> Inl (Invalid_argument
               ''rejected-object plan lacks structured source provenance'')))"

text \<open>Roles of installation and upgrade decisions; a removal decision has none.\<close>

datatype planned_role = Plan_incoming_entry | Plan_obsolete_old_path | Plan_structural_parent

record ('p, 'o) path_decision =
  decision_path :: 'p
  decision_role :: "planned_role option"
  decision_active :: planned_active_outcome
  decision_rejected :: planned_rejected_outcome
  decision_entry :: "entry_id option"
  decision_ownership :: "'o ownership_transition"
  decision_object :: "('p, 'o) rejected_object_plan option"

record ('p, 'o) operation_plan =
  plan_kind :: operation_kind
  plan_schema :: u16
  plan_identity :: bytes
  plan_preconditions :: "('p, 'o) preconditions"
  plan_paths :: "('p, 'o) path_decision list"

section \<open>Package images\<close>

datatype image_entry_type =
  Entry_regular | Entry_hardlink | Entry_directory | Entry_symlink | Entry_fifo
| Entry_character_device | Entry_block_device

record image_entry =
  entry_number :: entry_id
  entry_type :: image_entry_type
  entry_path :: bytes
  entry_hardlink :: "bytes option"
  entry_mode :: u32
  entry_uid :: u64
  entry_gid :: u64
  entry_mtime :: u64
  entry_mtime_nanoseconds :: u32
  entry_size :: u64
  entry_content :: "bytes option"
  entry_symlink_target :: "bytes option"
  entry_device :: "(u64 \<times> u64) option"

record package_image =
  image_identity :: bytes
  image_size :: u64
  image_entry :: "entry_id \<Rightarrow> image_entry option"
  image_find :: "bytes \<Rightarrow> image_entry option"

definition image_lookup :: "package_image \<Rightarrow> bool" where
  "image_lookup img \<longleftrightarrow>
     (\<forall>i e. image_entry img i = Some e \<longrightarrow> entry_number e = i) \<and>
     (\<forall>t e. image_find img t = Some e \<longrightarrow> entry_path e = t \<and> image_entry img (entry_number e) = Some e)"

text \<open>An opened archive: its image and the receipt of its inspection.\<close>

record inspection_receipt =
  receipt_archive :: bytes
  receipt_image :: bytes
  receipt_entries :: u64
  receipt_identity :: bytes

record package_archive =
  archive_image :: package_image
  archive_receipt :: inspection_receipt

end
