(* ===== verification/Journal.thy ===== *)
theory Journal
  imports Authority
begin

text \<open>
  Journal values: \<open>journal.h\<close> and \<open>journal.cpp\<close>.  The header, the effects, the events and the complete
  record with its validation.  Effects and events are identified and normalised by their factories;
  the record factory checks consecutive ordinals, replays the events over one progress cell per
  effect and then checks that the terminal authorities fit the state.
\<close>

section \<open>States and kinds\<close>

datatype journal_state =
  Preparing | Prepared | Mutating | Effects_visible | Result_observed | Application_completed
| External_resolution_pending | Recovering | Recovered | Finalized | Abandoned | Indeterminate
| Recovery_pending

datatype effect_kind =
  Capture_old_object | Stage_incoming_payload | Publish_active_object | Publish_rejected_object
| Observe_result | Synchronize_active_namespace | Synchronize_rejected_store | Seal_receipt
| Synchronize_incoming_staging | Synchronize_recovery_staging | Synchronize_completed_evidence
| Recover_active_object | Synchronize_recovered_namespace | Publish_completed_evidence

datatype event_kind = Intent | Completed | Failed | Indeterminate_event

fun canonical_kind :: "operation_kind \<Rightarrow> u8" where
  "canonical_kind Install = 1"
| "canonical_kind Upgrade = 2"
| "canonical_kind Remove = 3"

fun canonical_state :: "journal_state \<Rightarrow> u8" where
  "canonical_state Preparing = 1"
| "canonical_state Prepared = 2"
| "canonical_state Mutating = 3"
| "canonical_state Effects_visible = 4"
| "canonical_state Result_observed = 5"
| "canonical_state Application_completed = 6"
| "canonical_state External_resolution_pending = 7"
| "canonical_state Recovering = 8"
| "canonical_state Recovered = 9"
| "canonical_state Finalized = 10"
| "canonical_state Abandoned = 11"
| "canonical_state Indeterminate = 12"
| "canonical_state Recovery_pending = 13"

fun canonical_effect :: "effect_kind \<Rightarrow> u8" where
  "canonical_effect Capture_old_object = 1"
| "canonical_effect Stage_incoming_payload = 2"
| "canonical_effect Publish_active_object = 3"
| "canonical_effect Publish_rejected_object = 4"
| "canonical_effect Observe_result = 5"
| "canonical_effect Synchronize_active_namespace = 7"
| "canonical_effect Synchronize_rejected_store = 8"
| "canonical_effect Seal_receipt = 9"
| "canonical_effect Synchronize_incoming_staging = 10"
| "canonical_effect Synchronize_recovery_staging = 11"
| "canonical_effect Synchronize_completed_evidence = 12"
| "canonical_effect Recover_active_object = 13"
| "canonical_effect Synchronize_recovered_namespace = 14"
| "canonical_effect Publish_completed_evidence = 15"

fun canonical_event :: "event_kind \<Rightarrow> u8" where
  "canonical_event Intent = 1"
| "canonical_event Completed = 2"
| "canonical_event Failed = 3"
| "canonical_event Indeterminate_event = 4"

fun requires_path :: "effect_kind \<Rightarrow> bool" where
  "requires_path Capture_old_object = True"
| "requires_path Stage_incoming_payload = True"
| "requires_path Publish_active_object = True"
| "requires_path Publish_rejected_object = True"
| "requires_path Observe_result = True"
| "requires_path Recover_active_object = True"
| "requires_path Synchronize_active_namespace = False"
| "requires_path Synchronize_rejected_store = False"
| "requires_path Seal_receipt = False"
| "requires_path Synchronize_incoming_staging = False"
| "requires_path Synchronize_recovery_staging = False"
| "requires_path Synchronize_completed_evidence = False"
| "requires_path Synchronize_recovered_namespace = False"
| "requires_path Publish_completed_evidence = False"

lemma canonical_kind_inject [simp]: "canonical_kind a = canonical_kind b \<longleftrightarrow> a = b"
  by (cases a; cases b) simp_all

lemma canonical_state_inject [simp]: "canonical_state a = canonical_state b \<longleftrightarrow> a = b"
  by (cases a; cases b) simp_all

lemma canonical_effect_inject [simp]: "canonical_effect a = canonical_effect b \<longleftrightarrow> a = b"
  by (cases a; cases b) simp_all

lemma canonical_event_inject [simp]: "canonical_event a = canonical_event b \<longleftrightarrow> a = b"
  by (cases a; cases b) simp_all

section \<open>Headers\<close>

record ('p, 'o) journal_header =
  header_identity :: digest
  header_kind :: operation_kind
  header_request :: digest
  header_plan :: bytes
  header_attempt :: attempt
  header_target :: digest
  header_control :: digest
  header_projection :: "('p, 'o) state_projection"
  header_lease :: digest
  header_backend :: digest

definition header_record :: "('p, 'o) journal_header \<Rightarrow> bytes" where
  "header_record h =
     (let r = canonical_record (canonical_domain Application_journal_domain);
          r = append_u16 r 1;
          r = append_u8 r (canonical_kind (header_kind h));
          r = append_digest r (header_request h);
          r = append_bytes r (header_plan h);
          r = append_digest r (attempt_identity (header_attempt h));
          r = append_digest r (header_target h);
          r = append_digest r (header_control h);
          r = append_digest r (projection_identity (header_projection h));
          r = append_digest r (header_lease h) in
      append_digest r (header_backend h))"

definition make_header ::
  "('p, 'o) environment \<Rightarrow> ('p, 'o) journal_header \<Rightarrow> error + ('p, 'o) journal_header" where
  "make_header E h =
     (if attempt_request (header_attempt h) \<noteq> header_request h
      then Inl (Invalid_argument ''application journal attempt belongs to another request'')
      else if attempt_target (header_attempt h) \<noteq> header_target h
      then Inl (Invalid_argument ''application journal attempt belongs to another target'')
      else if attempt_backend (header_attempt h) \<noteq> header_backend h
      then Inl (Invalid_argument ''application journal attempt belongs to another backend'')
      else if projection_lease (header_projection h) \<noteq> header_lease h
      then Inl (Invalid_argument ''application journal state projection belongs to another lease'')
      else Inr (h\<lparr>header_identity := hash E (header_record h)\<rparr>))"

section \<open>Effects\<close>

record 'p journal_effect =
  effect_identity :: digest
  effect_ordinal :: u64
  effect_kind :: effect_kind
  effect_path :: "'p option"

definition effect_record ::
  "('p, 'o) environment \<Rightarrow> u64 \<Rightarrow> effect_kind \<Rightarrow> 'p option \<Rightarrow> bytes" where
  "effect_record E ordinal kind path =
     (let r = canonical_record (canonical_domain Application_journal_effect_domain);
          r = append_u16 r 1;
          r = append_u64 r ordinal;
          r = append_u8 r (canonical_effect kind) in
      append_optional append_bytes r (map_option (path_string E) path))"

definition make_effect ::
  "('p, 'o) environment \<Rightarrow> u64 \<Rightarrow> effect_kind \<Rightarrow> 'p option \<Rightarrow> error + 'p journal_effect" where
  "make_effect E ordinal kind path =
     (if requires_path kind \<noteq> (path \<noteq> None)
      then Inl (Invalid_argument ''journal effect path applicability mismatch'')
      else Inr \<lparr>effect_identity = hash E (effect_record E ordinal kind path),
                effect_ordinal = ordinal, effect_kind = kind, effect_path = path\<rparr>)"

section \<open>Events\<close>

record journal_event =
  event_sequence :: u64
  event_kind :: event_kind
  event_effect :: digest
  event_evidence :: "digest list"

definition normalize_evidence :: "digest list \<Rightarrow> error + digest list" where
  "normalize_evidence evidence =
     (let evidence = sort evidence in
      if adjacent_equal evidence then Inl (Invalid_argument ''duplicate journal backend evidence'')
      else Inr evidence)"

definition make_event :: "u64 \<Rightarrow> event_kind \<Rightarrow> digest \<Rightarrow> digest list \<Rightarrow> error + journal_event" where
  "make_event sequence kind eff evidence =
     rbind (normalize_evidence evidence) (\<lambda>evidence.
     Inr \<lparr>event_sequence = sequence, event_kind = kind, event_effect = eff,
          event_evidence = evidence\<rparr>)"

section \<open>Complete records\<close>

record effect_progress =
  intended :: bool
  terminal :: "event_kind option"

definition fresh_progress :: effect_progress where
  "fresh_progress = \<lparr>intended = False, terminal = None\<rparr>"

text \<open>The hash map from effect identity to ordinal; a repeated identity throws.\<close>

fun index_effects :: "(digest \<rightharpoonup> nat) \<Rightarrow> 'p journal_effect list \<Rightarrow> error + (digest \<rightharpoonup> nat)" where
  "index_effects ordinals [] = Inr ordinals"
| "index_effects ordinals (e # es) =
     (if ordinals (effect_identity e) \<noteq> None
      then Inl (Invalid_argument ''journal effect identity is duplicated'')
      else index_effects (ordinals(effect_identity e \<mapsto> unat (effect_ordinal e))) es)"

fun scan_events ::
  "(digest \<rightharpoonup> nat) \<Rightarrow> nat \<Rightarrow> effect_progress list \<Rightarrow> journal_event list \<Rightarrow>
   error + effect_progress list" where
  "scan_events ordinals index progress [] = Inr progress"
| "scan_events ordinals index progress (e # es) =
     (if event_sequence e \<noteq> word_of_nat index
      then Inl (Invalid_argument ''journal event sequence is not consecutive'')
      else case ordinals (event_effect e) of
        None \<Rightarrow> Inl (Invalid_argument ''journal event cites an unknown effect'')
      | Some i \<Rightarrow>
          let state = progress ! i in
          if event_kind e = Intent
          then (if intended state \<or> terminal state \<noteq> None
                then Inl (Invalid_argument ''duplicate or late journal effect intent'')
                else scan_events ordinals (Suc index)
                       (progress[i := state\<lparr>intended := True\<rparr>]) es)
          else if \<not> intended state
          then Inl (Invalid_argument ''journal terminal event precedes intent'')
          else if terminal state \<noteq> None
          then Inl (Invalid_argument ''journal effect has multiple terminal events'')
          else scan_events ordinals (Suc index)
                 (progress[i := state\<lparr>terminal := Some (event_kind e)\<rparr>]) es)"

definition validate_events ::
  "'p journal_effect list \<Rightarrow> journal_event list \<Rightarrow> error + effect_progress list" where
  "validate_events effects events =
     rbind (index_effects (\<lambda>_. None) effects) (\<lambda>ordinals.
     scan_events ordinals 0 (replicate (length effects) fresh_progress) events)"

definition success_effect_required :: "effect_kind \<Rightarrow> bool" where
  "success_effect_required kind \<longleftrightarrow>
     kind \<noteq> Recover_active_object \<and> kind \<noteq> Synchronize_recovered_namespace"

definition success_effects_completed ::
  "'p journal_effect list \<Rightarrow> effect_progress list \<Rightarrow> bool" where
  "success_effects_completed effects progress \<longleftrightarrow>
     (\<forall>i \<in> {0..<length effects}.
        success_effect_required (effect_kind (effects ! i)) \<longrightarrow>
        intended (progress ! i) \<and> terminal (progress ! i) = Some Completed)"

definition successful_state :: "journal_state \<Rightarrow> bool" where
  "successful_state s \<longleftrightarrow>
     s = Application_completed \<or> s = External_resolution_pending \<or> s = Finalized"

definition validate_resolution ::
  "journal_state \<Rightarrow> 'p journal_effect list \<Rightarrow> effect_progress list \<Rightarrow> digest option \<Rightarrow>
   digest option \<Rightarrow> error + unit" where
  "validate_resolution state effects progress receipt evidence =
     (if evidence \<noteq> None \<and> receipt = None
      then Inl (Invalid_argument ''journal completed evidence lacks its application receipt'')
      else rbind
        (if successful_state state
         then (if receipt = None \<or> evidence = None
               then Inl (Invalid_argument
                 ''completed journal state lacks receipt or completed evidence'')
               else if \<not> success_effects_completed effects progress
               then Inl (Invalid_argument ''completed journal state has unfinished effects'')
               else Inr ())
         else throw_if (evidence \<noteq> None) (Invalid_argument
           ''non-completed journal state contains completed evidence'')) (\<lambda>_.
      if state = Recovered \<and> receipt = None
      then Inl (Invalid_argument ''recovered journal state lacks failure receipt'')
      else throw_if (state = Abandoned \<and> evidence \<noteq> None)
             (Invalid_argument ''abandoned journal contains completed evidence'')))"

record ('p, 'o) journal_record =
  record_identity :: digest
  record_header :: "('p, 'o) journal_header"
  record_state :: journal_state
  record_effects :: "'p journal_effect list"
  record_events :: "journal_event list"
  record_receipt :: "digest option"
  record_completed :: "digest option"

definition append_event :: "bytes \<Rightarrow> journal_event \<Rightarrow> bytes" where
  "append_event r e =
     (let r = append_u64 r (event_sequence e);
          r = append_u8 r (canonical_event (event_kind e));
          r = append_digest r (event_effect e) in
      append_counted append_digest r (event_evidence e))"

definition journal_record_encoding ::
  "('p, 'o) journal_header \<Rightarrow> journal_state \<Rightarrow> 'p journal_effect list \<Rightarrow> journal_event list \<Rightarrow>
   digest option \<Rightarrow> digest option \<Rightarrow> bytes" where
  "journal_record_encoding header state effects events receipt evidence =
     (let r = canonical_record (canonical_domain Application_journal_record_domain);
          r = append_u16 r 1;
          r = append_digest r (header_identity header);
          r = append_u8 r (canonical_state state);
          r = append_counted append_digest r (map effect_identity effects);
          r = append_counted append_event r events;
          r = append_optional append_digest r receipt in
      append_optional append_digest r evidence)"

fun consecutive_ordinals :: "nat \<Rightarrow> 'p journal_effect list \<Rightarrow> bool" where
  "consecutive_ordinals index [] \<longleftrightarrow> True"
| "consecutive_ordinals index (e # es) \<longleftrightarrow>
     effect_ordinal e = word_of_nat index \<and> consecutive_ordinals (Suc index) es"

definition make_record ::
  "('p, 'o) environment \<Rightarrow> ('p, 'o) journal_header \<Rightarrow> journal_state \<Rightarrow> 'p journal_effect list \<Rightarrow>
   journal_event list \<Rightarrow> digest option \<Rightarrow> digest option \<Rightarrow> error + ('p, 'o) journal_record" where
  "make_record E header state effects events receipt evidence =
     (let effects = sort_key effect_ordinal effects in
      rbind (throw_if (\<not> consecutive_ordinals 0 effects)
        (Invalid_argument ''journal effect ordinals are not consecutive'')) (\<lambda>_.
      rbind (validate_events effects events) (\<lambda>progress.
      rbind (validate_resolution state effects progress receipt evidence) (\<lambda>_.
      Inr \<lparr>record_identity =
             hash E (journal_record_encoding header state effects events receipt evidence),
           record_header = header, record_state = state, record_effects = effects,
           record_events = events, record_receipt = receipt, record_completed = evidence\<rparr>))))"

lemma scan_events_append:
  "scan_events m k p (es @ fs) = rbind (scan_events m k p es) (\<lambda>q. scan_events m (k + length es) q fs)"
  by (induction m k p es rule: scan_events.induct) (auto simp: Let_def split: option.splits)

lemma scan_events_length: "scan_events m k p es = Inr q \<Longrightarrow> length q = length p"
  by (induction m k p es rule: scan_events.induct) (auto simp: Let_def split: option.splits if_splits)

text \<open>
  The specification of an event log: sequence numbers count from zero, every event names a known
  effect, and the events of one effect are nothing, one intent, or one intent and one terminal
  event.  A progress cell is a function of the kinds its effect has seen.
\<close>

definition kinds_of :: "journal_event list \<Rightarrow> digest \<Rightarrow> event_kind list" where
  "kinds_of events d = map event_kind (filter (\<lambda>e. event_effect e = d) events)"

fun follows_protocol :: "event_kind list \<Rightarrow> bool" where
  "follows_protocol [] \<longleftrightarrow> True"
| "follows_protocol [k] \<longleftrightarrow> k = Intent"
| "follows_protocol [k, t] \<longleftrightarrow> k = Intent \<and> t \<noteq> Intent"
| "follows_protocol _ \<longleftrightarrow> False"

definition progress_of :: "event_kind list \<Rightarrow> effect_progress" where
  "progress_of ks = \<lparr>intended = ks \<noteq> [], terminal = (case ks of [_, t] \<Rightarrow> Some t | _ \<Rightarrow> None)\<rparr>"

definition event_log_ok :: "digest set \<Rightarrow> journal_event list \<Rightarrow> bool" where
  "event_log_ok known es \<longleftrightarrow>
     (\<forall>i < length es. event_sequence (es ! i) = word_of_nat i) \<and>
     (\<forall>e \<in> set es. event_effect e \<in> known) \<and>
     (\<forall>d. follows_protocol (kinds_of es d))"

lemma kinds_of_snoc:
  "kinds_of (es @ [e]) d = kinds_of es d @ (if event_effect e = d then [event_kind e] else [])"
  by (simp add: kinds_of_def)

lemma follows_protocol_snoc:
  "follows_protocol (ks @ [k]) \<longleftrightarrow> follows_protocol ks \<and>
     (if k = Intent then \<not> intended (progress_of ks) \<and> terminal (progress_of ks) = None
      else intended (progress_of ks) \<and> terminal (progress_of ks) = None)"
  by (cases ks rule: follows_protocol.cases) (auto simp: progress_of_def)

lemma progress_of_snoc:
  "follows_protocol (ks @ [k]) \<Longrightarrow>
   progress_of (ks @ [k]) =
     (if k = Intent then (progress_of ks)\<lparr>intended := True\<rparr>
      else (progress_of ks)\<lparr>terminal := Some k\<rparr>)"
  by (cases ks rule: follows_protocol.cases) (auto simp: progress_of_def)

lemma event_log_ok_snoc:
  "event_log_ok known (es @ [e]) \<longleftrightarrow> event_log_ok known es \<and>
     event_sequence e = word_of_nat (length es) \<and> event_effect e \<in> known \<and> follows_protocol (kinds_of es (event_effect e) @ [event_kind e])"
  by (auto simp: event_log_ok_def kinds_of_snoc nth_append less_Suc_eq follows_protocol_snoc
      split: if_splits)

definition progress_matches :: "(digest \<rightharpoonup> nat) \<Rightarrow> journal_event list \<Rightarrow> effect_progress list \<Rightarrow> bool" where
  "progress_matches m es p \<longleftrightarrow>
     (\<forall>d i. m d = Some i \<longrightarrow> i < length p \<and> p ! i = progress_of (kinds_of es d))"

lemma progress_matches_step:
  assumes "inj_on m (dom m)" and "progress_matches m es p" and "m (event_effect e) = Some i"
    and "progress_of (kinds_of es (event_effect e) @ [event_kind e]) = c"
  shows "progress_matches m (es @ [e]) (p[i := c])"
proof -
  have same: "d = event_effect e" if "m d = Some i" for d
    using assms(1,3) that by (auto dest: inj_onD [of m "dom m" d "event_effect e"])
  show ?thesis
    using assms(2-4) unfolding progress_matches_def
    by (auto simp: kinds_of_snoc nth_list_update dest: same)
qed

lemma scan_event_step:
  assumes "inj_on m (dom m)" and "progress_matches m es p" and "event_log_ok (dom m) es"
  shows "scan_events m (length es) p [e] = Inr q \<longleftrightarrow>
     event_log_ok (dom m) (es @ [e]) \<and>
     (\<exists>i. m (event_effect e) = Some i \<and>
          q = p[i := progress_of (kinds_of (es @ [e]) (event_effect e))])"
proof (cases "m (event_effect e)")
  case None
  then show ?thesis by (auto simp: event_log_ok_snoc)
next
  case (Some i)
  with assms(2) have "p ! i = progress_of (kinds_of es (event_effect e))"
    by (simp add: progress_matches_def)
  moreover have ok: "follows_protocol (kinds_of es (event_effect e))"
    using assms(3) by (simp add: event_log_ok_def)
  ultimately show ?thesis
    using Some assms(3) progress_of_snoc [of "kinds_of es (event_effect e)" "event_kind e"]
    by (auto simp: event_log_ok_snoc Let_def follows_protocol_snoc kinds_of_snoc)
qed

lemma scan_events_iff:
  assumes inj: "inj_on m (dom m)" and ran: "ran m \<subseteq> {..<n}"
  shows "(\<exists>p. scan_events m 0 (replicate n fresh_progress) es = Inr p) \<longleftrightarrow> event_log_ok (dom m) es"
    and "scan_events m 0 (replicate n fresh_progress) es = Inr p \<Longrightarrow> progress_matches m es p"
proof (induction es arbitrary: p rule: rev_induct)
  case Nil
  have nil: "progress_of [] = fresh_progress" by (simp add: progress_of_def fresh_progress_def)
  have range: "i < n" if "m d = Some i" for d i using that ran by (auto intro: ranI)
  { case 1 show ?case by (simp add: event_log_ok_def kinds_of_def) }
  { case 2 then show ?case
      by (auto simp: progress_matches_def kinds_of_def nil range) }
next
  case (snoc e es)
  have step: "scan_events m 0 (replicate n fresh_progress) (es @ [e]) = Inr q \<longleftrightarrow>
      (\<exists>p. scan_events m 0 (replicate n fresh_progress) es = Inr p \<and>
           event_log_ok (dom m) (es @ [e]) \<and>
           (\<exists>i. m (event_effect e) = Some i \<and>
                q = p[i := progress_of (kinds_of (es @ [e]) (event_effect e))]))" for q
    using snoc.IH scan_event_step [OF inj, of es]
    by (force simp: scan_events_append result_simps simp del: scan_events.simps(2))
  { case 1 show ?case
      using snoc.IH(1) by (auto simp: step) (auto simp: event_log_ok_snoc) }
  { case 2 then show ?case
      using snoc.IH(2) by (auto simp: step kinds_of_snoc intro: progress_matches_step [OF inj]) }
qed

lemma consecutive_ordinals_iff:
  "consecutive_ordinals k es \<longleftrightarrow> (\<forall>i < length es. effect_ordinal (es ! i) = word_of_nat (k + i))"
  by (induction k es rule: consecutive_ordinals.induct) (auto simp: All_less_Suc2)

definition ordinal_map :: "'p journal_effect list \<Rightarrow> digest \<rightharpoonup> nat" where
  "ordinal_map effects = map_of (map (\<lambda>e. (effect_identity e, unat (effect_ordinal e))) effects)"

lemma index_effects_iff:
  "index_effects m es = Inr m' \<longleftrightarrow>
     distinct (map effect_identity es) \<and> (\<forall>e \<in> set es. m (effect_identity e) = None) \<and>
     m' = m ++ ordinal_map es"
proof (induction m es rule: index_effects.induct)
  case (1 m)
  then show ?case by (auto simp: ordinal_map_def)
next
  case (2 m e es)
  define m2 where "m2 = m(effect_identity e \<mapsto> unat (effect_ordinal e))"
  have add: "m2 ++ ordinal_map es = m ++ ordinal_map (e # es)"
    if "effect_identity e \<notin> effect_identity ` set es"
  proof -
    have "ordinal_map es (effect_identity e) = None"
      using that by (force simp: ordinal_map_def map_of_eq_None_iff)
    then show ?thesis
      by (auto simp: m2_def fun_eq_iff map_add_def ordinal_map_def split: option.splits)
  qed
  have fresh: "(\<forall>x \<in> set es. m2 (effect_identity x) = None) \<longleftrightarrow>
      effect_identity e \<notin> effect_identity ` set es \<and> (\<forall>x \<in> set es. m (effect_identity x) = None)"
    by (auto simp: m2_def image_iff)
  show ?case
  proof (cases "m (effect_identity e) = None")
    case True
    then have "index_effects m2 es = Inr m' \<longleftrightarrow>
        distinct (map effect_identity es) \<and> (\<forall>x \<in> set es. m2 (effect_identity x) = None) \<and>
        m' = m2 ++ ordinal_map es"
      using "2.IH" by (simp only: m2_def not_True_eq_False simp_thms)
    then show ?thesis
      using True add unfolding fresh by (auto simp: m2_def [symmetric])
  qed auto
qed

lemma dom_ordinal_map: "dom (ordinal_map effects) = effect_identity ` set effects"
  by (force simp: ordinal_map_def dom_map_of_conv_image_fst)

lemma ordinal_map_nth:
  assumes "distinct (map effect_identity effects)" and "consecutive_ordinals 0 effects"
    and "size_ok effects"
  shows "ordinal_map effects d = Some i \<longleftrightarrow> i < length effects \<and> effect_identity (effects ! i) = d"
proof -
  have ord: "unat (effect_ordinal (effects ! i)) = i" if "i < length effects" for i
    using that assms(2,3) by (simp add: consecutive_ordinals_iff unat_of_nat take_bit_nat_eq_self unsigned_of_nat)
  have "ordinal_map effects d = Some i \<longleftrightarrow>
      (d, i) \<in> set (map (\<lambda>e. (effect_identity e, unat (effect_ordinal e))) effects)"
    unfolding ordinal_map_def by (rule eq_commute [THEN trans], rule Some_eq_map_of_iff)
      (use assms(1) in \<open>simp add: comp_def\<close>)
  also have "\<dots> \<longleftrightarrow> (\<exists>j < length effects. d = effect_identity (effects ! j) \<and> i = j)"
    by (force simp: in_set_conv_nth ord)
  finally show ?thesis by auto
qed

lemma ordinal_map_inj:
  assumes "distinct (map effect_identity effects)" and "consecutive_ordinals 0 effects"
    and "size_ok effects"
  shows "inj_on (ordinal_map effects) (dom (ordinal_map effects))"
    and "ran (ordinal_map effects) \<subseteq> {..<length effects}"
  using ordinal_map_nth [OF assms] by (auto intro!: inj_onI simp: ran_def)

lemma validate_events_iff:
  assumes "consecutive_ordinals 0 effects" and "size_ok effects"
  shows "(\<exists>p. validate_events effects events = Inr p) \<longleftrightarrow>
     distinct (map effect_identity effects) \<and>
     event_log_ok (effect_identity ` set effects) events"
    and "validate_events effects events = Inr p \<Longrightarrow>
     length p = length effects \<and>
     (\<forall>i < length effects. p ! i = progress_of (kinds_of events (effect_identity (effects ! i))))"
proof -
  let ?m = "ordinal_map effects"
  have valid: "validate_events effects events = Inr q \<longleftrightarrow> distinct (map effect_identity effects) \<and>
      scan_events ?m 0 (replicate (length effects) fresh_progress) events = Inr q" for q
    by (auto simp: validate_events_def result_simps index_effects_iff)
  show "(\<exists>p. validate_events effects events = Inr p) \<longleftrightarrow>
      distinct (map effect_identity effects) \<and> event_log_ok (effect_identity ` set effects) events"
    using scan_events_iff(1) [OF ordinal_map_inj [OF _ assms], where es = events]
    by (auto simp: valid dom_ordinal_map)
  assume "validate_events effects events = Inr p"
  then have distinct: "distinct (map effect_identity effects)"
    and scan: "scan_events ?m 0 (replicate (length effects) fresh_progress) events = Inr p"
    by (simp_all add: valid)
  have "progress_matches ?m events p"
    by (rule scan_events_iff(2) [OF ordinal_map_inj [OF distinct assms] scan])
  then show "length p = length effects \<and>
     (\<forall>i < length effects. p ! i = progress_of (kinds_of events (effect_identity (effects ! i))))"
    using ordinal_map_nth [OF distinct assms] scan_events_length [OF scan]
    by (simp add: progress_matches_def)
qed

text \<open>
  What a terminal state must carry: completed evidence exactly in the successful states, a receipt
  with it and in the recovered state, and in a successful state one intent followed by one
  completion for every effect that is not a recovery effect.
\<close>

definition effects_done :: "'p journal_effect list \<Rightarrow> journal_event list \<Rightarrow> bool" where
  "effects_done effects events \<longleftrightarrow>
     (\<forall>e \<in> set effects. success_effect_required (effect_kind e) \<longrightarrow>
        kinds_of events (effect_identity e) = [Intent, Completed])"

definition resolution_ok ::
  "journal_state \<Rightarrow> 'p journal_effect list \<Rightarrow> journal_event list \<Rightarrow> digest option \<Rightarrow>
   digest option \<Rightarrow> bool" where
  "resolution_ok state effects events receipt evidence \<longleftrightarrow>
     (evidence \<noteq> None \<longleftrightarrow> successful_state state) \<and>
     (evidence \<noteq> None \<or> state = Recovered \<longrightarrow> receipt \<noteq> None) \<and>
     (successful_state state \<longrightarrow> effects_done effects events)"

lemma progress_of_done:
  "follows_protocol ks \<Longrightarrow>
   intended (progress_of ks) \<and> terminal (progress_of ks) = Some Completed \<longleftrightarrow>
   ks = [Intent, Completed]"
  by (cases ks rule: follows_protocol.cases) (auto simp: progress_of_def)

lemma success_effects_completed_iff:
  assumes "\<forall>i < length effects. p ! i = progress_of (kinds_of events (effect_identity (effects ! i)))"
    and "event_log_ok known events"
  shows "success_effects_completed effects p \<longleftrightarrow> effects_done effects events"
  using assms
  by (auto simp: success_effects_completed_def effects_done_def progress_of_done event_log_ok_def
      all_set_conv_all_nth)

lemma not_successful [simp]: "\<not> successful_state Recovered" "\<not> successful_state Abandoned"
  by (simp_all add: successful_state_def)

lemma validate_resolution_iff:
  assumes "\<forall>i < length effects. p ! i = progress_of (kinds_of events (effect_identity (effects ! i)))"
    and "event_log_ok known events"
  shows "validate_resolution state effects p receipt evidence = Inr u \<longleftrightarrow>
     resolution_ok state effects events receipt evidence"
  using success_effects_completed_iff [OF assms]
  by (auto simp: validate_resolution_def resolution_ok_def result_simps split: if_splits)

definition record_ok ::
  "journal_state \<Rightarrow> 'p journal_effect list \<Rightarrow> journal_event list \<Rightarrow> digest option \<Rightarrow>
   digest option \<Rightarrow> bool" where
  "record_ok state effects events receipt evidence \<longleftrightarrow>
     consecutive_ordinals 0 effects \<and> distinct (map effect_identity effects) \<and>
     event_log_ok (effect_identity ` set effects) events \<and>
     resolution_ok state effects events receipt evidence"

lemma make_record_iff:
  assumes "size_ok effects"
  shows "(\<exists>r. make_record E h state effects events receipt evidence = Inr r) \<longleftrightarrow>
     record_ok state (sort_key effect_ordinal effects) events receipt evidence"
proof -
  define es where "es = sort_key effect_ordinal effects"
  have size: "size_ok es" using assms by (simp add: es_def)
  show ?thesis
  proof (cases "consecutive_ordinals 0 es")
    case True
    note valid = validate_events_iff [OF True size]
    have "(\<exists>r. make_record E h state effects events receipt evidence = Inr r) \<longleftrightarrow>
        (\<exists>p. validate_events es events = Inr p \<and>
             validate_resolution state es p receipt evidence = Inr ())"
      using True by (auto simp: make_record_def es_def Let_def result_simps)
    also have "\<dots> \<longleftrightarrow> record_ok state es events receipt evidence"
      using valid validate_resolution_iff [of es _ events]
      by (metis record_ok_def True)
    finally show ?thesis by (simp add: es_def)
  qed (simp add: make_record_def es_def [symmetric] record_ok_def Let_def result_simps)
qed

lemma make_record_fields:
  "make_record E h state effects events receipt evidence = Inr r \<Longrightarrow>
   record_header r = h \<and> record_state r = state \<and> record_events r = events \<and>
   record_receipt r = receipt \<and> record_completed r = evidence \<and>
   record_effects r = sort_key effect_ordinal effects"
  by (auto simp: make_record_def Let_def result_simps)

lemma consecutive_sorted:
  assumes "consecutive_ordinals 0 effects" and "size_ok effects"
  shows "sort_key effect_ordinal effects = effects"
proof (rule sort_key_id_if_sorted)
  show "sorted (map effect_ordinal effects)"
    using assms by (auto simp: sorted_iff_nth_mono consecutive_ordinals_iff word_le_nat_alt
        unsigned_of_nat take_bit_nat_eq_self)
qed

section \<open>Lossless identities\<close>

definition encode_effect :: "('p, 'o) environment \<Rightarrow> 'p journal_effect \<Rightarrow> bytes" where
  "encode_effect E e = effect_record E (effect_ordinal e) (effect_kind e) (effect_path e)"

definition valid_effect :: "('p, 'o) environment \<Rightarrow> 'p journal_effect \<Rightarrow> bool" where
  "valid_effect E e \<longleftrightarrow>
     inj (path_string E) \<and> pred_option (\<lambda>x. size_ok (path_string E x)) (effect_path e) \<and>
     make_effect E (effect_ordinal e) (effect_kind e) (effect_path e) = Inr e"

lemma effect_record_inject:
  assumes "inj (path_string E)"
    and "pred_option (\<lambda>x. size_ok (path_string E x)) p"
    and "pred_option (\<lambda>x. size_ok (path_string E x)) q"
  shows "effect_record E n k p = effect_record E m l q \<longleftrightarrow> n = m \<and> k = l \<and> p = q"
proof -
  have "pred_option size_ok (map_option (path_string E) x)"
    if "pred_option (\<lambda>x. size_ok (path_string E x)) x" for x
    using that by (cases x) auto
  with assms show ?thesis
    by (simp add: effect_record_def record_defs wire_simps inj_eq option.inj_map inj_map_eq_map)
qed

lemma make_effect_Inr:
  "make_effect E n k p = Inr e \<longleftrightarrow> requires_path k = (p \<noteq> None) \<and>
     e = \<lparr>effect_identity = hash E (effect_record E n k p), effect_ordinal = n, effect_kind = k,
          effect_path = p\<rparr>"
  by (auto simp: make_effect_def)

lemma valid_effect_identity: "valid_effect E e \<Longrightarrow> effect_identity e = hash E (encode_effect E e)"
  by (auto simp: valid_effect_def make_effect_Inr encode_effect_def
      dest: arg_cong [where f = effect_identity])

interpretation effect_scheme:
  identity_scheme "hash E" "encode_effect E" effect_identity "valid_effect E" for E
proof
  fix e f assume e: "valid_effect E e" and f: "valid_effect E f"
    and eq: "encode_effect E e = encode_effect E f"
  then have "effect_ordinal e = effect_ordinal f \<and> effect_kind e = effect_kind f \<and>
      effect_path e = effect_path f"
    unfolding encode_effect_def valid_effect_def using effect_record_inject [of E] by blast
  moreover have "effect_identity e = effect_identity f"
    unfolding valid_effect_identity [OF e] valid_effect_identity [OF f] eq ..
  ultimately show "e = f" by (intro journal_effect.equality) auto
qed (fact valid_effect_identity)

definition event_size_ok :: "journal_event \<Rightarrow> bool" where
  "event_size_ok e \<longleftrightarrow> size_ok (event_evidence e)"

interpretation event_code: wire_code append_event event_size_ok
proof
  show "append_event r x = r @ wire append_event x" for r x
    by (simp add: append_event_def wire_def [of append_event] record_defs)
  show "event_size_ok x \<Longrightarrow> event_size_ok y \<Longrightarrow> wire append_event x @ s = wire append_event y @ t \<Longrightarrow>
      x = y \<and> s = t" for x y s t
    by (simp add: append_event_def wire_def [of append_event] record_defs wire_simps
        event_size_ok_def journal_event.equality)
qed

interpretation events_code: wire_code "append_counted append_event"
  "\<lambda>xs. list_all event_size_ok xs \<and> size_ok xs"
  by (rule event_code.counted_code)

interpretation optional_event_code: wire_code "append_optional append_event"
  "pred_option event_size_ok"
  by (rule event_code.optional_code)

lemmas event_append = event_code.app_wire events_code.app_wire optional_event_code.app_wire

lemmas event_cancel = event_code.wire_iff events_code.wire_iff optional_event_code.wire_iff
  event_code.wire_end_iff events_code.wire_end_iff optional_event_code.wire_end_iff

declare event_append [record_defs] event_cancel [wire_simps]

lemma header_record_inject:
  "size_ok (header_plan h) \<Longrightarrow> size_ok (header_plan k) \<Longrightarrow>
   header_record h = header_record k \<longleftrightarrow>
     header_kind h = header_kind k \<and> header_request h = header_request k \<and>
     header_plan h = header_plan k \<and>
     attempt_identity (header_attempt h) = attempt_identity (header_attempt k) \<and>
     header_target h = header_target k \<and> header_control h = header_control k \<and>
     projection_identity (header_projection h) = projection_identity (header_projection k) \<and>
     header_lease h = header_lease k \<and> header_backend h = header_backend k"
  by (simp add: header_record_def record_defs wire_simps)

lemma make_header_Inr:
  "make_header E h = Inr k \<longleftrightarrow>
     attempt_request (header_attempt h) = header_request h \<and>
     attempt_target (header_attempt h) = header_target h \<and>
     attempt_backend (header_attempt h) = header_backend h \<and>
     projection_lease (header_projection h) = header_lease h \<and>
     k = h\<lparr>header_identity := hash E (header_record h)\<rparr>"
  by (auto simp: make_header_def)

definition valid_header :: "('p::linorder, 'o) environment \<Rightarrow> ('p, 'o) journal_header \<Rightarrow> bool" where
  "valid_header E h \<longleftrightarrow>
     make_header E h = Inr h \<and> size_ok (header_plan h) \<and>
     valid_attempt E (header_attempt h) \<and> valid_projection E (header_projection h)"

lemma valid_header_identity: "valid_header E h \<Longrightarrow> header_identity h = hash E (header_record h)"
  by (auto simp: valid_header_def make_header_Inr dest: arg_cong [where f = header_identity])

text \<open>
  A header records its attempt and its projection by identity, so two headers with the same
  encoding are equal unless SHA-256 collides on one of those two nested encodings.
\<close>

lemma header_encoding_inject:
  assumes h: "valid_header E h" and k: "valid_header E k"
    and attempt: "hash E (encode_attempt (header_attempt h)) = hash E (encode_attempt (header_attempt k)) \<Longrightarrow>
      encode_attempt (header_attempt h) = encode_attempt (header_attempt k)"
    and projection: "hash E (projection_record E (header_projection h)) =
        hash E (projection_record E (header_projection k)) \<Longrightarrow>
      projection_record E (header_projection h) = projection_record E (header_projection k)"
    and eq: "header_record h = header_record k"
  shows "h = k"
proof -
  have sizes: "size_ok (header_plan h)" "size_ok (header_plan k)"
    and attempts: "valid_attempt E (header_attempt h)" "valid_attempt E (header_attempt k)"
    and projections: "valid_projection E (header_projection h)" "valid_projection E (header_projection k)"
    using h k unfolding valid_header_def by blast+
  note fields = eq [unfolded header_record_inject [OF sizes]]
  have "header_attempt h = header_attempt k"
    using attempt_scheme.same_identity [OF attempts attempt] fields by blast
  moreover have "header_projection h = header_projection k"
    using projection_scheme.same_identity [OF projections projection] fields by blast
  moreover have "header_identity h = header_identity k"
    unfolding valid_header_identity [OF h] valid_header_identity [OF k] eq ..
  ultimately show ?thesis
    using fields by (intro journal_header.equality) auto
qed

end
