(* ===== verification/Request.thy ===== *)
theory Request
  imports Plan Journal
begin

text \<open>
  Incoming package authority (\<open>incoming_package.h/.cpp\<close>) and application requests
  (\<open>request.h/.cpp\<close>).  The projections of libpkgbuild and the inputs and publication of an accepted
  plan are records of the observers the sources compare; a release is its identity together with the
  rest of the value its equality compares.
\<close>

section \<open>Incoming package authority\<close>

record package_release =
  release_identity :: bytes
  release_value :: bytes

record candidate_fact =
  candidate_identity :: bytes
  candidate_release :: package_release
  candidate_control :: bytes

record artifact_fact =
  artifact_digest :: bytes
  artifact_manifest :: bytes
  artifact_release :: package_release

record artifact_projection =
  projection_authority :: bytes
  projection_source :: bytes
  projection_candidate :: candidate_fact
  projection_artifact :: artifact_fact
  projection_image :: package_archive

record incoming_authority =
  incoming_identity :: digest
  incoming_projection :: artifact_projection

definition incoming_record :: "artifact_projection \<Rightarrow> bytes" where
  "incoming_record p =
     (let r = canonical_record (canonical_domain Incoming_package_authority_domain);
          r = append_u16 r 1;
          r = append_bytes r (projection_authority p);
          r = append_bytes r (projection_source p);
          r = append_bytes r (candidate_identity (projection_candidate p));
          r = append_bytes r (artifact_digest (projection_artifact p));
          r = append_bytes r (artifact_manifest (projection_artifact p)) in
      append_bytes r (release_identity (artifact_release (projection_artifact p))))"

definition admit_incoming :: "('p, 'o) environment \<Rightarrow> artifact_projection \<Rightarrow> incoming_authority" where
  "admit_incoming E p = \<lparr>incoming_identity = hash E (incoming_record p), incoming_projection = p\<rparr>"

section \<open>Requests\<close>

text \<open>What \<open>validate_incoming\<close> reads of an accepted plan beside its decisions.\<close>

record plan_inputs =
  inputs_candidate_release :: bytes
  inputs_artifact_release :: bytes
  inputs_candidate :: bytes
  inputs_candidate_control :: bytes
  inputs_artifact :: bytes
  inputs_artifact_manifest :: bytes
  inputs_expected_archive :: bytes
  inputs_observed_archive :: bytes
  inputs_image :: bytes
  inputs_receipt :: bytes

record plan_publication =
  publication_release :: package_release
  publication_candidate :: bytes
  publication_control :: bytes
  publication_artifact :: bytes
  publication_manifest :: bytes

record plan_facts =
  facts_release :: package_release
  facts_inputs :: plan_inputs
  facts_publication :: plan_publication

text \<open>
  The three request classes share one record: the class is \<open>request_kind\<close>, and a removal request
  has no incoming authority.
\<close>

record ('p, 'o) application_request =
  request_schema :: u16
  request_identity :: digest
  request_kind :: operation_kind
  request_plan :: "('p, 'o) operation_plan"
  request_incoming :: "incoming_authority option"
  request_target :: target_context
  request_control :: execution_control

datatype request_error = Request_invalid error | Plan_binding string

definition incoming_request_record ::
  "operation_kind \<Rightarrow> ('p, 'o) operation_plan \<Rightarrow> incoming_authority \<Rightarrow> target_context \<Rightarrow>
   execution_control \<Rightarrow> bytes" where
  "incoming_request_record kind plan incoming target control =
     (let r = canonical_record (canonical_domain Application_request_domain);
          r = append_u16 r 1;
          r = append_u8 r (canonical_kind kind);
          r = append_bytes r (plan_identity plan);
          r = append_bool r True;
          r = append_digest r (incoming_identity incoming);
          r = append_digest r (context_identity target) in
      append_digest r (control_identity control))"

definition removal_request_record ::
  "operation_kind \<Rightarrow> ('p, 'o) operation_plan \<Rightarrow> target_context \<Rightarrow> execution_control \<Rightarrow> bytes" where
  "removal_request_record kind plan target control =
     (let r = canonical_record (canonical_domain Application_request_domain);
          r = append_u16 r 1;
          r = append_u8 r (canonical_kind kind);
          r = append_bytes r (plan_identity plan);
          r = append_bool r False;
          r = append_digest r (context_identity target) in
      append_digest r (control_identity control))"

definition validate_target :: "('p, 'o) operation_plan \<Rightarrow> target_context \<Rightarrow> request_error + unit" where
  "validate_target plan target =
     throw_if (preconditions_target (plan_preconditions plan) \<noteq> context_target target)
       (Request_invalid (Invalid_argument ''application target does not match accepted plan''))"

definition require_plan_binding :: "bool \<Rightarrow> string \<Rightarrow> request_error + unit" where
  "require_plan_binding condition message = throw_if (\<not> condition) (Plan_binding message)"

definition validate_incoming ::
  "('p, 'o) operation_plan \<Rightarrow> plan_facts \<Rightarrow> incoming_authority \<Rightarrow> request_error + unit" where
  "validate_incoming plan facts incoming =
     (let candidate = projection_candidate (incoming_projection incoming);
          artifact = projection_artifact (incoming_projection incoming);
          inputs = facts_inputs facts;
          publication = facts_publication facts;
          img = projection_image (incoming_projection incoming);
          archive = preconditions_incoming (plan_preconditions plan) in
      rbind (require_plan_binding
        (inputs_candidate_release inputs = release_identity (candidate_release candidate) \<and>
         inputs_artifact_release inputs = release_identity (candidate_release candidate) \<and>
         facts_release facts = candidate_release candidate \<and>
         publication_release publication = candidate_release candidate)
        ''accepted plan release differs from sealed build source'') (\<lambda>_.
      rbind (require_plan_binding
        (inputs_candidate inputs = candidate_identity candidate \<and>
         inputs_candidate_control inputs = candidate_control candidate \<and>
         publication_candidate publication = candidate_identity candidate \<and>
         publication_control publication = candidate_control candidate)
        ''accepted plan candidate control differs from sealed build source'') (\<lambda>_.
      rbind (require_plan_binding
        (inputs_artifact inputs = artifact_digest artifact \<and>
         publication_artifact publication = artifact_digest artifact \<and>
         inputs_artifact_manifest inputs = artifact_manifest artifact \<and>
         publication_manifest publication = artifact_manifest artifact \<and>
         inputs_expected_archive inputs = receipt_archive (archive_receipt img) \<and>
         inputs_observed_archive inputs = receipt_archive (archive_receipt img) \<and>
         inputs_image inputs = image_identity (archive_image img) \<and>
         inputs_receipt inputs = receipt_identity (archive_receipt img))
        ''accepted plan artifact facts differ from verified build image'') (\<lambda>_.
      require_plan_binding
        (case archive of
           None \<Rightarrow> False
         | Some a \<Rightarrow> precondition_archive a = receipt_archive (archive_receipt img) \<and>
             precondition_image a = image_identity (archive_image img) \<and>
             precondition_inspection a = receipt_identity (archive_receipt img))
        ''accepted plan precondition differs from verified build image''))))"

definition make_incoming_request ::
  "('p, 'o) environment \<Rightarrow> operation_kind \<Rightarrow> ('p, 'o) operation_plan \<Rightarrow> plan_facts \<Rightarrow>
   incoming_authority \<Rightarrow> target_context \<Rightarrow> execution_control \<Rightarrow>
   request_error + ('p, 'o) application_request" where
  "make_incoming_request E kind plan facts incoming target control =
     rbind (validate_target plan target) (\<lambda>_.
     rbind (validate_incoming plan facts incoming) (\<lambda>_.
     Inr \<lparr>request_schema = 1,
          request_identity = hash E (incoming_request_record kind plan incoming target control),
          request_kind = kind, request_plan = plan, request_incoming = Some incoming,
          request_target = target, request_control = control\<rparr>))"

definition make_removal_request ::
  "('p, 'o) environment \<Rightarrow> ('p, 'o) operation_plan \<Rightarrow> target_context \<Rightarrow> execution_control \<Rightarrow>
   request_error + ('p, 'o) application_request" where
  "make_removal_request E plan target control =
     rbind (validate_target plan target) (\<lambda>_.
     if preconditions_incoming (plan_preconditions plan) \<noteq> None
     then Inl (Request_invalid (Invalid_argument
       ''removal plan carries incoming archive authority''))
     else Inr \<lparr>request_schema = 1,
          request_identity = hash E (removal_request_record Remove plan target control),
          request_kind = Remove, request_plan = plan, request_incoming = None,
          request_target = target, request_control = control\<rparr>)"

section \<open>Identity of a request\<close>

definition encode_request :: "('p, 'o) application_request \<Rightarrow> bytes" where
  "encode_request r =
     (case request_incoming r of
        Some incoming \<Rightarrow> incoming_request_record (request_kind r) (request_plan r) incoming
          (request_target r) (request_control r)
      | None \<Rightarrow> removal_request_record (request_kind r) (request_plan r) (request_target r)
          (request_control r))"

text \<open>What the record of a request carries.\<close>

definition request_view ::
  "('p, 'o) application_request \<Rightarrow>
   operation_kind \<times> bytes \<times> digest option \<times> digest \<times> digest" where
  "request_view r = (request_kind r, plan_identity (request_plan r),
     map_option incoming_identity (request_incoming r), context_identity (request_target r),
     control_identity (request_control r))"

definition valid_request :: "('p, 'o) environment \<Rightarrow> ('p, 'o) application_request \<Rightarrow> bool" where
  "valid_request E r \<longleftrightarrow> request_identity r = hash E (encode_request r) \<and>
     size_ok (plan_identity (request_plan r))"

lemma encode_request_view:
  assumes "size_ok (plan_identity (request_plan r))" and "size_ok (plan_identity (request_plan q))"
  shows "encode_request r = encode_request q \<longleftrightarrow> request_view r = request_view q"
  using assms
  by (cases "request_incoming r"; cases "request_incoming q")
    (auto simp: encode_request_def request_view_def incoming_request_record_def
      removal_request_record_def record_defs wire_simps)

end
