(* ===== verification/Capture.thy ===== *)
theory Capture
  imports Plan
begin

text \<open>
  The old-object capture plan (\<open>capture.h\<close>, \<open>capture.cpp\<close>): which present objects are captured prior
  the application touches them, for recovery or for staging into the rejected-object store.
\<close>

definition recovery_selected :: "execution_control \<Rightarrow> bool" where
  "recovery_selected control =
     (case control_recovery control of
        Recovery_none \<Rightarrow> False | Recovery_best_effort \<Rightarrow> True | Recovery_exact \<Rightarrow> True)"

definition active_effect_may_destroy_old ::
  "planned_active_outcome \<Rightarrow> planned_observation \<Rightarrow> bool" where
  "active_effect_may_destroy_old outcome prior =
     (if \<not> planned_present prior then False
      else case outcome of
        Activate_incoming \<Rightarrow> True | Remove_observed \<Rightarrow> True | Remove_directory_if_empty \<Rightarrow> True
      | Retain_observed \<Rightarrow> False | Remain_absent \<Rightarrow> False)"

record 'p capture_plan =
  capture_requests :: "'p capture_request list"

definition make_capture_plan :: "'p::linorder capture_request list \<Rightarrow> error + 'p capture_plan" where
  "make_capture_plan requests =
     (let requests = sort_key capture_path requests in
      if adjacent_equal (map capture_path requests)
      then Inl (Invalid_argument ''duplicate old-object capture path'')
      else Inr \<lparr>capture_requests = requests\<rparr>)"

definition find_capture :: "'p::linorder capture_plan \<Rightarrow> 'p \<Rightarrow> 'p capture_request option" where
  "find_capture plan path = find_sorted capture_path (capture_requests plan) path"

text \<open>The body of the loop: the request of one decision, if it needs one.\<close>

definition capture_decision ::
  "('p, 'o) preconditions \<Rightarrow> bool \<Rightarrow> ('p, 'o) path_decision \<Rightarrow> error + 'p capture_request option" where
  "capture_decision pre recovery decision =
     (case preconditions_find pre (decision_path decision) of
        None \<Rightarrow> Inl (Invalid_argument ''plan decision lacks its path precondition'')
      | Some prior \<Rightarrow>
          let for_rejected = (decision_rejected decision = Stage_old);
              recovered = (recovery \<and> active_effect_may_destroy_old (decision_active decision)
                                        (precondition_observation prior)) in
          if for_rejected \<and> \<not> planned_present (precondition_observation prior)
          then Inl (Invalid_argument ''old-object staging requires a present planning observation'')
          else if for_rejected \<or> recovered
          then rbind (make_capture_request (decision_path decision) for_rejected recovered)
                 (\<lambda>r. Inr (Some r))
          else Inr None)"

definition prepare_captures ::
  "('p::linorder, 'o) operation_plan \<Rightarrow> execution_control \<Rightarrow> error + 'p capture_plan" where
  "prepare_captures plan control =
     rbind (rmap (capture_decision (plan_preconditions plan) (recovery_selected control)) (plan_paths plan))
       (\<lambda>requests. make_capture_plan (List.map_filter id requests))"

definition capture_plan_ok :: "'p::linorder capture_plan \<Rightarrow> bool" where
  "capture_plan_ok c \<longleftrightarrow>
     sorted (map capture_path (capture_requests c)) \<and> distinct (map capture_path (capture_requests c))"

lemma make_capture_plan_Inr:
  "make_capture_plan rs = Inr c \<longleftrightarrow> distinct (map capture_path rs) \<and>
     c = \<lparr>capture_requests = sort_key capture_path rs\<rparr>"
  by (auto simp: make_capture_plan_def Let_def)

lemma make_capture_plan_ok: "make_capture_plan rs = Inr c \<Longrightarrow> capture_plan_ok c"
proof -
  have "distinct (map capture_path (sort_key capture_path rs)) \<longleftrightarrow> distinct (map capture_path rs)"
    by (rule mset_eq_imp_distinct_iff) simp
  then show "make_capture_plan rs = Inr c \<Longrightarrow> capture_plan_ok c"
    by (auto simp: make_capture_plan_Inr capture_plan_ok_def)
qed

interpretation capture_table:
  path_table capture_requests capture_path capture_plan_ok find_capture
  by unfold_locales (simp_all add: capture_plan_ok_def find_capture_def)

lemma capture_decision_Some:
  "capture_decision pre recovery d = Inr (Some r) \<longleftrightarrow>
     (\<exists>prior. preconditions_find pre (decision_path d) = Some prior \<and>
        planned_present (precondition_observation prior) \<and>
        (decision_rejected d = Stage_old \<or>
         recovery \<and> active_effect_may_destroy_old (decision_active d) (precondition_observation prior)) \<and>
        r = \<lparr>capture_path = decision_path d, for_rejected_object = (decision_rejected d = Stage_old),
             for_recovery = (recovery \<and> active_effect_may_destroy_old (decision_active d)
                                          (precondition_observation prior))\<rparr>)"
  by (auto simp: capture_decision_def make_capture_request_def Let_def result_simps
      active_effect_may_destroy_old_def split: option.splits)

lemma capture_decision_None:
  "capture_decision pre recovery d = Inr None \<longleftrightarrow>
     (\<exists>prior. preconditions_find pre (decision_path d) = Some prior \<and>
        decision_rejected d \<noteq> Stage_old \<and>
        \<not> (recovery \<and> active_effect_may_destroy_old (decision_active d) (precondition_observation prior)))"
  by (auto simp: capture_decision_def make_capture_request_def Let_def result_simps split: option.splits)

lemma prepare_captures_requests:
  assumes "prepare_captures plan control = Inr c"
  shows "capture_plan_ok c"
    and "r \<in> set (capture_requests c) \<longleftrightarrow> (\<exists>d \<in> set (plan_paths plan).
       capture_decision (plan_preconditions plan) (recovery_selected control) d = Inr (Some r))"
    and "d \<in> set (plan_paths plan) \<Longrightarrow>
       \<exists>x. capture_decision (plan_preconditions plan) (recovery_selected control) d = Inr x"
proof -
  let ?f = "capture_decision (plan_preconditions plan) (recovery_selected control)"
  obtain xs where xs: "rmap ?f (plan_paths plan) = Inr xs"
    and made: "make_capture_plan (List.map_filter id xs) = Inr c"
    using assms by (auto simp: prepare_captures_def result_simps)
  show "capture_plan_ok c" by (rule make_capture_plan_ok [OF made])
  have "set (capture_requests c) = {r. Some r \<in> set xs}"
    using made by (force simp: make_capture_plan_Inr List.map_filter_def image_iff)
  then show "r \<in> set (capture_requests c) \<longleftrightarrow> (\<exists>d \<in> set (plan_paths plan). ?f d = Inr (Some r))"
    using rmap_member [OF xs] rmap_origin [OF xs] by (metis mem_Collect_eq sum.inject(2))
  show "\<exists>x. ?f d = Inr x" if "d \<in> set (plan_paths plan)"
    using rmap_member [OF xs that] by blast
qed

section \<open>Properties\<close>

text \<open>
  C24: the capture plan is exact.  Every decision has its precondition.  An old object is captured for
  recovery whenever recovery is selected and the decision may destroy a present object, and for the
  rejected store whenever staging of the old object is planned, which then is present; and nothing
  else is captured: each request belongs to a decision of its path, on a present object, for
  exactly those purposes.
\<close>

theorem captures_exact:
  assumes "prepare_captures plan control = Inr c"
  shows "(\<forall>d \<in> set (plan_paths plan). \<exists>prior.
       preconditions_find (plan_preconditions plan) (decision_path d) = Some prior \<and>
       (recovery_selected control \<and>
          active_effect_may_destroy_old (decision_active d) (precondition_observation prior) \<longrightarrow>
        (\<exists>r. find_capture c (decision_path d) = Some r \<and> for_recovery r)) \<and>
       (decision_rejected d = Stage_old \<longrightarrow> planned_present (precondition_observation prior) \<and>
        (\<exists>r. find_capture c (decision_path d) = Some r \<and> for_rejected_object r))) \<and>
     (\<forall>r \<in> set (capture_requests c). \<exists>d \<in> set (plan_paths plan). \<exists>prior.
       decision_path d = capture_path r \<and>
       preconditions_find (plan_preconditions plan) (decision_path d) = Some prior \<and>
       planned_present (precondition_observation prior) \<and>
       for_rejected_object r = (decision_rejected d = Stage_old) \<and>
       for_recovery r = (recovery_selected control \<and>
         active_effect_may_destroy_old (decision_active d) (precondition_observation prior)) \<and>
       (for_rejected_object r \<or> for_recovery r))"
proof -
  note requests = prepare_captures_requests [OF assms]
  have found: "find_capture c (capture_path r) = Some r" if "r \<in> set (capture_requests c)" for r
    using capture_table.lookup_member [OF requests(1) that] .
  have "\<exists>prior. preconditions_find (plan_preconditions plan) (decision_path d) = Some prior \<and>
       (recovery_selected control \<and>
          active_effect_may_destroy_old (decision_active d) (precondition_observation prior) \<longrightarrow>
        (\<exists>r. find_capture c (decision_path d) = Some r \<and> for_recovery r)) \<and>
       (decision_rejected d = Stage_old \<longrightarrow> planned_present (precondition_observation prior) \<and>
        (\<exists>r. find_capture c (decision_path d) = Some r \<and> for_rejected_object r))"
    if d: "d \<in> set (plan_paths plan)" for d
  proof -
    from requests(3) [OF d] obtain x where
      x: "capture_decision (plan_preconditions plan) (recovery_selected control) d = Inr x" by blast
    show ?thesis
    proof (cases x)
      case None
      with x show ?thesis by (auto simp: capture_decision_None)
    next
      case (Some r)
      with x d requests(2) have "r \<in> set (capture_requests c)" by blast
      from found [OF this] x Some show ?thesis by (auto simp: capture_decision_Some)
    qed
  qed
  moreover have "\<exists>d \<in> set (plan_paths plan). \<exists>prior.
       decision_path d = capture_path r \<and>
       preconditions_find (plan_preconditions plan) (decision_path d) = Some prior \<and>
       planned_present (precondition_observation prior) \<and>
       for_rejected_object r = (decision_rejected d = Stage_old) \<and>
       for_recovery r = (recovery_selected control \<and>
         active_effect_may_destroy_old (decision_active d) (precondition_observation prior)) \<and>
       (for_rejected_object r \<or> for_recovery r)" if "r \<in> set (capture_requests c)" for r
    using that unfolding requests(2) capture_decision_Some by fastforce
  ultimately show ?thesis by blast
qed

text \<open>A plan that removes one present path under exact recovery.\<close>

definition sample_control :: execution_control where
  "sample_control = \<lparr>control_identity = 0, control_recovery = Recovery_exact,
     control_durability = All_application_domains,
     control_cancellation = Recover_after_target_mutation, maximum_staging_bytes = None,
     maximum_recovery_bytes = None\<rparr>"

definition sample_precondition :: "(8 word, 8 word) path_precondition" where
  "sample_precondition = \<lparr>precondition_path = 1, precondition_owners = [7],
     precondition_observation = \<lparr>planned_present = True, planned_object = Some
       \<lparr>planned_kind = Planned_fifo, planned_mode = 0, planned_uid = 0, planned_gid = 0,
        planned_size = None, planned_mtime = None, planned_content = None, planned_target = None,
        planned_device = None\<rparr>\<rparr>\<rparr>"

definition sample_plan :: "(8 word, 8 word) operation_plan" where
  "sample_plan = \<lparr>plan_kind = Remove, plan_schema = 1, plan_identity = [],
     plan_preconditions = \<lparr>preconditions_target = [], preconditions_snapshot = [],
       preconditions_inventory = [], preconditions_paths = [sample_precondition],
       preconditions_incoming = None,
       preconditions_find = (\<lambda>p. if p = 1 then Some sample_precondition else None)\<rparr>,
     plan_paths = [\<lparr>decision_path = 1, decision_role = None, decision_active = Remove_observed,
       decision_rejected = No_rejected, decision_entry = None,
       decision_ownership = \<lparr>before_existing_owners = [7], after_existing_owners = [],
         incoming_package_owns_after = False\<rparr>, decision_object = None\<rparr>]\<rparr>"

definition sample_captures :: "8 word capture_plan" where
  "sample_captures = \<lparr>capture_requests =
     [\<lparr>capture_path = 1, for_rejected_object = False, for_recovery = True\<rparr>]\<rparr>"

lemma sample_captures_prepared: "prepare_captures sample_plan sample_control = Inr sample_captures"
  by (simp add: prepare_captures_def sample_plan_def sample_control_def sample_captures_def
      capture_decision_def sample_precondition_def make_capture_request_def make_capture_plan_def
      active_effect_may_destroy_old_def recovery_selected_def List.map_filter_def)

theorem captures_exact_witness:
  "\<exists>r. find_capture sample_captures 1 = Some r \<and> for_recovery r"
  using captures_exact [OF sample_captures_prepared]
  by (auto simp: sample_plan_def sample_precondition_def active_effect_may_destroy_old_def
      recovery_selected_def sample_control_def)

end
