(* ===== verification/Precondition.thy ===== *)
theory Precondition
  imports Capture "HOL-Library.Product_Lexorder"
begin

text \<open>
  The precondition check (\<open>precondition.h\<close>, \<open>precondition.cpp\<close>): the fresh observations of an
  admission are compared field by field with what the planner assumed.  A field the backend could not
  establish fails like a field it established differently.
\<close>

section \<open>Failures and their order\<close>

datatype precondition_field =
  Field_presence | Field_object_kind | Field_mode | Field_uid | Field_gid | Field_size | Field_mtime
| Field_regular_content | Field_symlink_target | Field_device_number

datatype failure_kind = Kind_unknown | Kind_mismatch

fun field_value :: "precondition_field \<Rightarrow> nat" where
  "field_value Field_presence = 1"
| "field_value Field_object_kind = 2"
| "field_value Field_mode = 3"
| "field_value Field_uid = 4"
| "field_value Field_gid = 5"
| "field_value Field_size = 6"
| "field_value Field_mtime = 7"
| "field_value Field_regular_content = 8"
| "field_value Field_symlink_target = 9"
| "field_value Field_device_number = 10"

fun kind_value :: "failure_kind \<Rightarrow> nat" where
  "kind_value Kind_unknown = 1"
| "kind_value Kind_mismatch = 2"

datatype 'p precondition_failure =
  Failure (failed_path: 'p) (failed_field: precondition_field) (failure_kind: failure_kind)

definition failure_key :: "'p precondition_failure \<Rightarrow> 'p \<times> nat \<times> nat" where
  "failure_key f = (failed_path f, field_value (failed_field f), kind_value (failure_kind f))"

lemma field_value_inject [simp]: "field_value a = field_value b \<longleftrightarrow> a = b"
  by (cases a; cases b) simp_all

lemma kind_value_inject [simp]: "kind_value a = kind_value b \<longleftrightarrow> a = b"
  by (cases a; cases b) simp_all

lemma failure_key_inject [simp]: "failure_key f = failure_key g \<longleftrightarrow> f = g"
  by (cases f; cases g) (simp add: failure_key_def)

instantiation precondition_failure :: (linorder) linorder
begin

definition less_eq_precondition_failure ::
  "'a precondition_failure \<Rightarrow> 'a precondition_failure \<Rightarrow> bool" where
  "less_eq_precondition_failure f g \<longleftrightarrow> failure_key f \<le> failure_key g"

definition less_precondition_failure ::
  "'a precondition_failure \<Rightarrow> 'a precondition_failure \<Rightarrow> bool" where
  "less_precondition_failure f g \<longleftrightarrow> failure_key f < failure_key g"

instance
  by standard (auto simp: less_eq_precondition_failure_def less_precondition_failure_def
      simp del: less_eq_prod_simp less_prod_simp dest: antisym)

end

section \<open>Comparison\<close>

fun completed_kind :: "planned_object_kind \<Rightarrow> completed_object_kind" where
  "completed_kind Planned_regular = Object_regular"
| "completed_kind Planned_directory = Object_directory"
| "completed_kind Planned_symlink = Object_symlink"
| "completed_kind Planned_fifo = Object_fifo"
| "completed_kind Planned_character_device = Object_character_device"
| "completed_kind Planned_block_device = Object_block_device"
| "completed_kind Planned_socket = Object_socket"
| "completed_kind Planned_other = Object_other"

definition compare_required ::
  "'p \<Rightarrow> precondition_field \<Rightarrow> 'v qualified_fact \<Rightarrow> 'v \<Rightarrow> 'p precondition_failure list" where
  "compare_required path field observed expected =
     (case observed of
        Fact_known v \<Rightarrow> if v \<noteq> expected then [Failure path field Kind_mismatch] else []
      | Fact_unknown \<Rightarrow> [Failure path field Kind_unknown]
      | Fact_not_applicable \<Rightarrow> [Failure path field Kind_unknown])"

definition equal_regular_content :: "digest \<Rightarrow> bytes \<Rightarrow> bool" where
  "equal_regular_content observed expected \<longleftrightarrow> digest_array observed = expected"

definition compare_regular_content ::
  "'p \<Rightarrow> digest qualified_fact \<Rightarrow> bytes \<Rightarrow> 'p precondition_failure list" where
  "compare_regular_content path observed expected =
     (case observed of
        Fact_known v \<Rightarrow> if \<not> equal_regular_content v expected
          then [Failure path Field_regular_content Kind_mismatch] else []
      | Fact_unknown \<Rightarrow> [Failure path Field_regular_content Kind_unknown]
      | Fact_not_applicable \<Rightarrow> [Failure path Field_regular_content Kind_unknown])"

definition compare_optional :: "'v option \<Rightarrow> ('v \<Rightarrow> 'f list) \<Rightarrow> 'f list" where
  "compare_optional expected compare = (case expected of None \<Rightarrow> [] | Some v \<Rightarrow> compare v)"

definition compare_object ::
  "planned_object \<Rightarrow> 'p completed_object_fact \<Rightarrow> 'p precondition_failure list" where
  "compare_object expected observed =
     (let path = object_path observed in
      if completed_kind (planned_kind expected) \<noteq> object_kind observed
      then [Failure path Field_object_kind Kind_mismatch]
      else compare_required path Field_mode (object_mode observed) (planned_mode expected) @
        compare_required path Field_uid (object_uid observed) (planned_uid expected) @
        compare_required path Field_gid (object_gid observed) (planned_gid expected) @
        compare_optional (planned_size expected)
          (compare_required path Field_size (object_size observed)) @
        compare_optional (planned_mtime expected) (\<lambda>t.
          compare_required path Field_mtime (object_mtime observed)
            \<lparr>timestamp_seconds = fst t, timestamp_nanoseconds = snd t\<rparr>) @
        compare_optional (planned_content expected)
          (compare_regular_content path (object_content observed)) @
        compare_optional (planned_target expected)
          (compare_required path Field_symlink_target (object_symlink_target observed)) @
        compare_optional (planned_device expected) (\<lambda>d.
          compare_required path Field_device_number (object_device observed)
            \<lparr>device_major = fst d, device_minor = snd d\<rparr>))"

definition compare_path ::
  "('p, 'o) path_precondition \<Rightarrow> 'p path_observation \<Rightarrow> error + 'p precondition_failure list" where
  "compare_path expected observed =
     (let planned = precondition_observation expected in
      if observation_state observed = State_unknown
      then Inr [Failure (precondition_path expected) Field_presence Kind_unknown]
      else if planned_present planned \<noteq> (observation_state observed = State_known)
      then Inr [Failure (precondition_path expected) Field_presence Kind_mismatch]
      else if \<not> planned_present planned then Inr []
      else case observation_object observed of
        None \<Rightarrow> Inl (Logic_error ''known application observation lacks object fact'')
      | Some current \<Rightarrow>
          (case planned_object planned of
             None \<Rightarrow> Inl (Logic_error ''present planning observation lacks object metadata'')
           | Some metadata \<Rightarrow> Inr (compare_object metadata current)))"

record 'p precondition_check =
  check_observations :: "'p observation_batch"
  check_failures :: "'p precondition_failure list"

definition check_path ::
  "'p::linorder observation_batch \<Rightarrow> ('p, 'o) path_precondition \<Rightarrow> error + 'p precondition_failure list" where
  "check_path observed item =
     (case find_observation observed (precondition_path item) of
        None \<Rightarrow> Inl (Logic_error ''exact backend observation closure lost a path'')
      | Some current \<Rightarrow> compare_path item current)"

definition make_check ::
  "('p::linorder, 'o) preconditions \<Rightarrow> 'p observation_batch \<Rightarrow> error + 'p precondition_check" where
  "make_check expected observed =
     (let paths = preconditions_paths expected in
      if length paths \<noteq> length (batch_requested observed)
      then Inl (Invalid_argument
        ''fresh observation request does not match plan path universe'')
      else if map precondition_path paths \<noteq> batch_requested observed
      then Inl (Invalid_argument
        ''fresh observation request path differs from plan precondition'')
      else rbind (rmap (check_path observed) paths) (\<lambda>failures.
        Inr \<lparr>check_observations = observed, check_failures = sort (concat failures)\<rparr>))"

definition satisfied :: "'p precondition_check \<Rightarrow> bool" where
  "satisfied check \<longleftrightarrow> check_failures check = []"

section \<open>What a satisfied check means\<close>

text \<open>An observation confirms a planned object: equal kind, and every planned field known and equal.\<close>

definition object_confirms :: "planned_object \<Rightarrow> 'p completed_object_fact \<Rightarrow> bool" where
  "object_confirms m f \<longleftrightarrow>
     object_kind f = completed_kind (planned_kind m) \<and>
     object_mode f = Fact_known (planned_mode m) \<and>
     object_uid f = Fact_known (planned_uid m) \<and>
     object_gid f = Fact_known (planned_gid m) \<and>
     pred_option (\<lambda>v. object_size f = Fact_known v) (planned_size m) \<and>
     pred_option (\<lambda>(s, n). object_mtime f =
        Fact_known \<lparr>timestamp_seconds = s, timestamp_nanoseconds = n\<rparr>) (planned_mtime m) \<and>
     pred_option (\<lambda>bs. \<exists>d. object_content f = Fact_known d \<and> digest_array d = bs) (planned_content m) \<and>
     pred_option (\<lambda>v. object_symlink_target f = Fact_known v) (planned_target m) \<and>
     pred_option (\<lambda>(a, b). object_device f =
        Fact_known \<lparr>device_major = a, device_minor = b\<rparr>) (planned_device m)"

definition observation_confirms :: "planned_observation \<Rightarrow> 'p path_observation \<Rightarrow> bool" where
  "observation_confirms planned ob \<longleftrightarrow>
     (if planned_present planned
      then observation_state ob = State_known \<and> (\<exists>m f. planned_object planned = Some m \<and>
             observation_object ob = Some f \<and> object_confirms m f)
      else observation_state ob = State_not_applicable)"

lemma compare_required_Nil [simp]:
  "compare_required path field observed expected = [] \<longleftrightarrow> observed = Fact_known expected"
  by (auto simp: compare_required_def split: qualified_fact.splits)

lemma compare_regular_content_Nil [simp]:
  "compare_regular_content path observed expected = [] \<longleftrightarrow>
     (\<exists>d. observed = Fact_known d \<and> digest_array d = expected)"
  by (auto simp: compare_regular_content_def equal_regular_content_def split: qualified_fact.splits)

lemma compare_optional_Nil [simp]:
  "compare_optional v f = [] \<longleftrightarrow> pred_option (\<lambda>x. f x = []) v"
  by (cases v) (auto simp: compare_optional_def)

lemma compare_object_Nil: "compare_object m f = [] \<longleftrightarrow> object_confirms m f"
  by (auto simp: compare_object_def object_confirms_def Let_def case_prod_unfold split: if_splits)

lemma compare_path_Nil:
  "compare_path item ob = Inr [] \<longleftrightarrow> observation_confirms (precondition_observation item) ob"
  by (cases "observation_state ob")
    (auto simp: compare_path_def observation_confirms_def compare_object_Nil Let_def split: option.splits)

lemma make_check_Inr:
  "make_check pre batch = Inr chk \<longleftrightarrow>
     map precondition_path (preconditions_paths pre) = batch_requested batch \<and>
     (\<exists>fs. rmap (check_path batch) (preconditions_paths pre) = Inr fs \<and>
        chk = \<lparr>check_observations = batch, check_failures = sort (concat fs)\<rparr>)"
  by (auto simp: make_check_def Let_def rbind_Inr_iff dest: arg_cong [where f = length])

lemma failure_paths:
  "x \<in> set (compare_required path field observed expected) \<Longrightarrow> failed_path x = path"
  "x \<in> set (compare_regular_content path digest content) \<Longrightarrow> failed_path x = path"
  by (auto simp: compare_required_def compare_regular_content_def split: qualified_fact.splits if_splits)

lemma compare_object_paths:
  "x \<in> set (compare_object m f) \<Longrightarrow> failed_path x = object_path f"
  by (auto simp: compare_object_def compare_optional_def Let_def
      dest: failure_paths split: option.splits if_splits)

lemma compare_path_paths:
  assumes "compare_path item ob = Inr fs" and "x \<in> set fs" and "observation_wf ob"
    and "observation_path ob = precondition_path item"
  shows "failed_path x = precondition_path item"
  using assms compare_object_paths [of x]
  by (auto simp: compare_path_def Let_def observation_wf_def split: option.splits if_splits)

lemma check_path_lookup:
  assumes "batch_ok batch" and "path \<in> set (batch_requested batch)"
  shows "find_observation batch path = Some ob \<longleftrightarrow>
    ob \<in> set (batch_observations batch) \<and> observation_path ob = path"
  using batch_table.lookup_Some_iff [OF assms(1)] by auto

text \<open>
  C21: a check is satisfied exactly when every precondition path is confirmed by the fresh
  observation of that path: absent paths are observed absent, and a present object has the planned
  kind and every planned field known with the planned value, so an unknown fact never passes.
  Failures are reported in the canonical order and only for precondition paths, and a path has a
  failure exactly when it is not confirmed.
\<close>

theorem precondition_check_exact:
  assumes "make_check pre batch = Inr chk" and "batch_ok batch"
    and "\<forall>ob \<in> set (batch_observations batch). observation_wf ob"
  shows "(satisfied chk \<longleftrightarrow> (\<forall>item \<in> set (preconditions_paths pre). \<exists>ob.
        find_observation batch (precondition_path item) = Some ob \<and>
        observation_confirms (precondition_observation item) ob)) \<and>
    sorted (check_failures chk) \<and>
    (\<forall>path. (\<exists>x \<in> set (check_failures chk). failed_path x = path) \<longleftrightarrow>
       (\<exists>item \<in> set (preconditions_paths pre). precondition_path item = path \<and>
          \<not> (\<exists>ob. find_observation batch path = Some ob \<and>
               observation_confirms (precondition_observation item) ob)))"
proof -
  let ?items = "preconditions_paths pre"
  from assms(1) obtain fs where paths: "map precondition_path ?items = batch_requested batch"
    and fs: "rmap (check_path batch) ?items = Inr fs"
    and chk: "chk = \<lparr>check_observations = batch, check_failures = sort (concat fs)\<rparr>"
    unfolding make_check_Inr by blast
  have item: "\<exists>ob f. find_observation batch (precondition_path item) = Some ob \<and>
      compare_path item ob = Inr f \<and> f \<in> set fs \<and> (\<forall>x \<in> set f. failed_path x = precondition_path item) \<and>
      (f = [] \<longleftrightarrow> observation_confirms (precondition_observation item) ob)"
    if "item \<in> set ?items" for item
  proof -
    from rmap_member [OF fs that] obtain f where f: "f \<in> set fs" "check_path batch item = Inr f" by blast
    then obtain ob where ob: "find_observation batch (precondition_path item) = Some ob"
      and cmp: "compare_path item ob = Inr f"
      by (auto simp: check_path_def split: option.splits)
    have "precondition_path item \<in> set (batch_requested batch)"
      using that by (auto simp flip: paths)
    then have "observation_wf ob" "observation_path ob = precondition_path item"
      using ob assms(3) check_path_lookup [OF assms(2)] by auto
    with compare_path_paths [OF cmp] have "\<forall>x \<in> set f. failed_path x = precondition_path item" by blast
    moreover have "f = [] \<longleftrightarrow> observation_confirms (precondition_observation item) ob"
      using cmp compare_path_Nil [of item ob] by auto
    ultimately show ?thesis using ob cmp f(1) by blast
  qed
  have origin: "\<exists>item \<in> set ?items. \<exists>ob. find_observation batch (precondition_path item) = Some ob \<and>
      compare_path item ob = Inr f" if "f \<in> set fs" for f
    using rmap_origin [OF fs that] by (auto simp: check_path_def split: option.splits)
  have fails: "(\<exists>x \<in> set (check_failures chk). failed_path x = path) \<longleftrightarrow>
       (\<exists>item \<in> set ?items. precondition_path item = path \<and>
          \<not> (\<exists>ob. find_observation batch path = Some ob \<and>
               observation_confirms (precondition_observation item) ob))" for path
  proof
    assume "\<exists>x \<in> set (check_failures chk). failed_path x = path"
    then obtain x f where x: "x \<in> set f" "f \<in> set fs" "failed_path x = path" by (auto simp: chk)
    from origin [OF x(2)] obtain it ob where it: "it \<in> set ?items"
      "find_observation batch (precondition_path it) = Some ob" "compare_path it ob = Inr f" by blast
    from item [OF it(1)] it x show "\<exists>item \<in> set ?items. precondition_path item = path \<and>
          \<not> (\<exists>ob. find_observation batch path = Some ob \<and>
               observation_confirms (precondition_observation item) ob)" by fastforce
  next
    assume "\<exists>item \<in> set ?items. precondition_path item = path \<and>
          \<not> (\<exists>ob. find_observation batch path = Some ob \<and>
               observation_confirms (precondition_observation item) ob)"
    then obtain it where it: "it \<in> set ?items" "precondition_path it = path"
      "\<not> (\<exists>ob. find_observation batch path = Some ob \<and>
               observation_confirms (precondition_observation it) ob)" by blast
    from item [OF it(1)] it(2,3) obtain f where "f \<in> set fs" "f \<noteq> []"
      "\<forall>x \<in> set f. failed_path x = path" by blast
    then show "\<exists>x \<in> set (check_failures chk). failed_path x = path"
      by (metis (no_types, lifting) UN_I chk list.set_intros(1) neq_Nil_conv precondition_check.select_convs(2)
          set_concat set_sort)
  qed
  have "satisfied chk \<longleftrightarrow> (\<forall>path. \<not> (\<exists>x \<in> set (check_failures chk). failed_path x = path))"
    by (cases "check_failures chk") (auto simp: satisfied_def)
  with fails show ?thesis by (auto simp: chk)
qed

definition sample_fifo :: "8 word path_observation" where
  "sample_fifo = \<lparr>observation_path = 1, observation_state = State_known, observation_object = Some
     \<lparr>object_path = 1, object_kind = Object_fifo, object_mode = Fact_known 0, object_uid = Fact_known 0,
      object_gid = Fact_unknown, object_size = Fact_not_applicable, object_mtime = Fact_unknown,
      object_content = Fact_not_applicable, object_symlink_target = Fact_not_applicable,
      object_device = Fact_not_applicable, object_hardlink = Fact_not_applicable,
      object_provenance = Application_observation, object_completeness = Fact_complete\<rparr>\<rparr>"

definition sample_batch :: "8 word observation_batch" where
  "sample_batch = \<lparr>batch_requested = [1], batch_observations = [sample_fifo], batch_evidence = []\<rparr>"

definition sample_check :: "8 word precondition_check" where
  "sample_check = \<lparr>check_observations = sample_batch,
     check_failures = [Failure 1 Field_gid Kind_unknown]\<rparr>"

lemma sample_check_made: "make_check (plan_preconditions sample_plan) sample_batch = Inr sample_check"
  by code_simp

theorem precondition_check_exact_witness:
  "\<not> satisfied sample_check \<and> (\<exists>item \<in> set (preconditions_paths (plan_preconditions sample_plan)).
     precondition_path item = 1)"
proof -
  have "batch_ok sample_batch" "\<forall>ob \<in> set (batch_observations sample_batch). observation_wf ob"
    by (simp_all add: batch_ok_def sample_batch_def observation_wf_def sample_fifo_def)
  from precondition_check_exact [OF sample_check_made this] show ?thesis
    by (auto simp: satisfied_def sample_check_def)
qed

end
