(* ===== verification/Payload.thy ===== *)
theory Payload
  imports Plan
begin

text \<open>
  The incoming payload plan (\<open>payload.h\<close>, \<open>payload.cpp\<close>): which image entries a plan consumes and
  which regular entries must be decoded for them.  A hard link consumes the payload of its anchor.
  \<open>entry_selection::from_ids\<close> is libpkgimage code: the argument \<open>from_ids\<close>.
\<close>

definition regular_payload_entry :: "package_image \<Rightarrow> image_entry \<Rightarrow> error + entry_id option" where
  "regular_payload_entry img e =
     (case entry_type e of
        Entry_regular \<Rightarrow> Inr (Some (entry_number e))
      | Entry_hardlink \<Rightarrow>
          (case entry_hardlink e of
             None \<Rightarrow> Inl (Invalid_argument ''incoming hard link lacks its regular payload anchor'')
           | Some t \<Rightarrow>
               (case image_find img t of
                  Some target \<Rightarrow>
                    if entry_type target = Entry_regular then Inr (Some (entry_number target))
                    else Inl (Invalid_argument
                      ''incoming hard-link payload anchor is not a regular entry'')
                | None \<Rightarrow> Inl (Invalid_argument
                      ''incoming hard-link payload anchor is not a regular entry'')))
      | Entry_directory \<Rightarrow> Inr None
      | Entry_symlink \<Rightarrow> Inr None
      | Entry_fifo \<Rightarrow> Inr None
      | Entry_character_device \<Rightarrow> Inr None
      | Entry_block_device \<Rightarrow> Inr None)"

record 'p payload_requirement =
  requirement_path :: 'p
  requirement_entry :: entry_id
  requirement_payload :: "entry_id option"
  required_for_active :: bool
  required_for_rejected :: bool

definition make_requirement ::
  "'p \<Rightarrow> entry_id \<Rightarrow> entry_id option \<Rightarrow> bool \<Rightarrow> bool \<Rightarrow> error + 'p payload_requirement" where
  "make_requirement path entry payload active rejected =
     (if \<not> active \<and> \<not> rejected
      then Inl (Invalid_argument ''incoming payload requirement has no consumer'')
      else Inr \<lparr>requirement_path = path, requirement_entry = entry, requirement_payload = payload,
                required_for_active = active, required_for_rejected = rejected\<rparr>)"

definition payload_decision ::
  "('p, 'o) environment \<Rightarrow> package_image \<Rightarrow> ('p, 'o) path_decision \<Rightarrow>
   error + 'p payload_requirement option" where
  "payload_decision E img decision =
     (let active = (decision_active decision = Activate_incoming);
          rejected = (decision_rejected decision = Stage_incoming) in
      if \<not> active \<and> \<not> rejected then Inr None
      else case decision_entry decision of
        None \<Rightarrow> Inl (Invalid_argument ''incoming effect lacks an image entry identifier'')
      | Some number \<Rightarrow>
          (case image_entry img number of
             None \<Rightarrow> Inl (Invalid_argument ''incoming effect cites an absent image entry'')
           | Some entry \<Rightarrow>
               if entry_path entry \<noteq> path_string E (decision_path decision)
               then Inl (Invalid_argument
                 ''incoming effect entry resolves to another logical path'')
               else rbind (regular_payload_entry img entry) (\<lambda>payload.
                 rbind (make_requirement (decision_path decision) (entry_number entry) payload
                          active rejected) (\<lambda>r. Inr (Some r)))))"

record ('p, 'sel) payload_plan =
  payload_image :: bytes
  payload_selection :: 'sel
  payload_requirements :: "'p payload_requirement list"

definition prepare_payloads ::
  "('p, 'o) environment \<Rightarrow> (package_image \<Rightarrow> entry_id list \<Rightarrow> error + 'sel) \<Rightarrow> ('p, 'o) operation_plan \<Rightarrow>
   package_image \<Rightarrow> error + ('p, 'sel) payload_plan" where
  "prepare_payloads E from_ids plan img =
     rbind (rmap (payload_decision E img) (plan_paths plan)) (\<lambda>found.
     let requirements = List.map_filter id found;
         regular_entries = List.map_filter requirement_payload requirements in
     rbind (from_ids img (sort_unique regular_entries)) (\<lambda>selection.
     Inr \<lparr>payload_image = image_identity img, payload_selection = selection,
          payload_requirements = requirements\<rparr>))"

section \<open>Properties\<close>

lemma regular_payload_Some:
  assumes "image_lookup img" and "image_entry img (entry_number e) = Some e"
    and "regular_payload_entry img e = Inr (Some i)"
  shows "\<exists>target. image_entry img i = Some target \<and> entry_type target = Entry_regular \<and>
     (target = e \<or> entry_type e = Entry_hardlink \<and> entry_hardlink e = Some (entry_path target))"
proof (cases "entry_type e")
  case Entry_hardlink
  with assms(3) obtain t target where t: "entry_hardlink e = Some t" "image_find img t = Some target"
    "entry_type target = Entry_regular" "i = entry_number target"
    by (auto simp: regular_payload_entry_def split: option.splits if_splits)
  with assms(1) have "entry_path target = t" "image_entry img i = Some target"
    unfolding image_lookup_def by blast+
  with t Entry_hardlink show ?thesis by auto
qed (use assms in \<open>simp_all add: regular_payload_entry_def\<close>)

lemma payload_decision_Some:
  "payload_decision E img d = Inr (Some r) \<longleftrightarrow>
     (decision_active d = Activate_incoming \<or> decision_rejected d = Stage_incoming) \<and>
     (\<exists>i e payload. decision_entry d = Some i \<and> image_entry img i = Some e \<and>
        entry_path e = path_string E (decision_path d) \<and> regular_payload_entry img e = Inr payload \<and>
        r = \<lparr>requirement_path = decision_path d, requirement_entry = entry_number e,
             requirement_payload = payload,
             required_for_active = (decision_active d = Activate_incoming),
             required_for_rejected = (decision_rejected d = Stage_incoming)\<rparr>)"
  by (auto simp: payload_decision_def Let_def result_simps make_requirement_def
      split: option.splits if_splits)

lemma payload_decision_None:
  "payload_decision E img d = Inr None \<longleftrightarrow>
     decision_active d \<noteq> Activate_incoming \<and> decision_rejected d \<noteq> Stage_incoming"
  by (auto simp: payload_decision_def Let_def result_simps make_requirement_def
      split: option.splits if_splits)

lemma map_filter_set: "set (List.map_filter f xs) = {y. \<exists>x \<in> set xs. f x = Some y}"
  by (force simp: List.map_filter_def image_iff)

lemma prepare_payloads_requirements:
  assumes "prepare_payloads E from_ids plan img = Inr p"
  shows "r \<in> set (payload_requirements p) \<longleftrightarrow>
     (\<exists>d \<in> set (plan_paths plan). payload_decision E img d = Inr (Some r))"
    and "d \<in> set (plan_paths plan) \<Longrightarrow> \<exists>x. payload_decision E img d = Inr x"
    and "from_ids img (sort_unique (List.map_filter requirement_payload (payload_requirements p))) =
           Inr (payload_selection p)"
    and "payload_image p = image_identity img"
proof -
  obtain xs sel where xs: "rmap (payload_decision E img) (plan_paths plan) = Inr xs"
    and sel: "from_ids img (sort_unique (List.map_filter requirement_payload (List.map_filter id xs))) =
         Inr sel"
    and p: "p = \<lparr>payload_image = image_identity img, payload_selection = sel,
                payload_requirements = List.map_filter id xs\<rparr>"
    using assms unfolding prepare_payloads_def Let_def rbind_Inr_iff by blast
  show "r \<in> set (payload_requirements p) \<longleftrightarrow>
     (\<exists>d \<in> set (plan_paths plan). payload_decision E img d = Inr (Some r))"
    using rmap_member [OF xs] rmap_origin [OF xs]
    by (simp add: p map_filter_set) (metis sum.inject(2))
  show "\<exists>x. payload_decision E img d = Inr x" if "d \<in> set (plan_paths plan)"
    using rmap_member [OF xs that] by blast
  show "from_ids img (sort_unique (List.map_filter requirement_payload (payload_requirements p))) =
           Inr (payload_selection p)"
    "payload_image p = image_identity img"
    using sel by (simp_all add: p)
qed

text \<open>
  What a decision must be given: an entry is served by its own payload when it is regular, by the
  regular entry its target names when it is a hard link, and by none otherwise.
\<close>

definition takes_incoming :: "('p, 'o) path_decision \<Rightarrow> bool" where
  "takes_incoming d \<longleftrightarrow> decision_active d = Activate_incoming \<or> decision_rejected d = Stage_incoming"

definition payload_served :: "package_image \<Rightarrow> image_entry \<Rightarrow> entry_id option \<Rightarrow> bool" where
  "payload_served img e payload \<longleftrightarrow>
     (if entry_type e = Entry_regular then payload = Some (entry_number e)
      else if entry_type e = Entry_hardlink
      then \<exists>i target. payload = Some i \<and> image_entry img i = Some target \<and>
        entry_type target = Entry_regular \<and> entry_hardlink e = Some (entry_path target)
      else payload = None)"

definition requirement_serves ::
  "('p, 'o) environment \<Rightarrow> package_image \<Rightarrow> ('p, 'o) path_decision \<Rightarrow> 'p payload_requirement \<Rightarrow> bool" where
  "requirement_serves E img d r \<longleftrightarrow>
     requirement_path r = decision_path d \<and> decision_entry d = Some (requirement_entry r) \<and>
     required_for_active r = (decision_active d = Activate_incoming) \<and>
     required_for_rejected r = (decision_rejected d = Stage_incoming) \<and>
     (\<exists>e. image_entry img (requirement_entry r) = Some e \<and> entry_path e = path_string E (decision_path d) \<and>
        payload_served img e (requirement_payload r))"

lemma regular_payload_served:
  assumes "image_lookup img" and "image_entry img (entry_number e) = Some e"
    and "regular_payload_entry img e = Inr payload"
  shows "payload_served img e payload"
proof (cases "entry_type e")
  case Entry_hardlink
  with assms(3) obtain i where "payload = Some i"
    by (auto simp: regular_payload_entry_def split: option.splits if_splits)
  with regular_payload_Some [OF assms(1,2), of i] assms(3) Entry_hardlink show ?thesis
    by (auto simp: payload_served_def)
qed (use assms in \<open>simp_all add: regular_payload_entry_def payload_served_def\<close>)

lemma payload_decision_serves:
  assumes "image_lookup img" and "payload_decision E img d = Inr (Some r)"
  shows "requirement_serves E img d r"
proof -
  from assms(2) obtain i e payload where e: "decision_entry d = Some i" "image_entry img i = Some e"
      "entry_path e = path_string E (decision_path d)" "regular_payload_entry img e = Inr payload"
    and r: "r = \<lparr>requirement_path = decision_path d, requirement_entry = entry_number e,
      requirement_payload = payload, required_for_active = (decision_active d = Activate_incoming),
      required_for_rejected = (decision_rejected d = Stage_incoming)\<rparr>"
    unfolding payload_decision_Some by blast
  have number: "entry_number e = i" using assms(1) e(2) by (auto simp: image_lookup_def)
  with e(2) have "image_entry img (entry_number e) = Some e" by simp
  with regular_payload_served [OF assms(1) this e(4)] e number show ?thesis
    by (simp add: requirement_serves_def r)
qed

lemma payload_decisions_serve:
  assumes "image_lookup img" and "rmap (payload_decision E img) ds = Inr found"
  shows "list_all2 (requirement_serves E img) (filter takes_incoming ds) (List.map_filter id found)"
  using assms(2)
proof (induction ds arbitrary: found)
  case (Cons d ds)
  then obtain x xs where x: "payload_decision E img d = Inr x" "rmap (payload_decision E img) ds = Inr xs"
    "found = x # xs" by (auto simp: rbind_Inr_iff)
  show ?case
  proof (cases x)
    case None
    then have "\<not> takes_incoming d" using x(1) by (simp add: payload_decision_None takes_incoming_def)
    with Cons.IH [OF x(2)] None x(3) show ?thesis by (simp add: List.map_filter_def)
  next
    case (Some r)
    then have "takes_incoming d" using x(1) unfolding Some payload_decision_Some takes_incoming_def by blast
    with Cons.IH [OF x(2)] Some x(3) payload_decision_serves [OF assms(1), of E d r] x(1) show ?thesis
      by (simp add: List.map_filter_def)
  qed
qed (simp add: List.map_filter_def)

text \<open>
  C25: the payload closure.  The requirements of the payload plan correspond, one for one and in the
  order of the plan, to the decisions that activate or stage an incoming entry: each names the path and
  the image entry of its decision, that entry has the path of the decision, and the requirement cites
  the entry itself when it is regular, the regular entry its target names when it is a hard link, and
  no payload otherwise.  The selection is made from the sorted list, without duplicates, of exactly
  the payloads the requirements cite, all of them regular entries of the image.
\<close>

theorem payload_closure:
  assumes "prepare_payloads E from_ids plan img = Inr p" and "image_lookup img"
  shows "payload_image p = image_identity img \<and>
     list_all2 (requirement_serves E img) (filter takes_incoming (plan_paths plan)) (payload_requirements p) \<and>
     (\<exists>ids. from_ids img ids = Inr (payload_selection p) \<and> sorted ids \<and> distinct ids \<and>
        set ids = {i. \<exists>r \<in> set (payload_requirements p). requirement_payload r = Some i} \<and>
        (\<forall>i \<in> set ids. \<exists>e. image_entry img i = Some e \<and> entry_type e = Entry_regular))"
proof -
  note reqs = prepare_payloads_requirements [OF assms(1)]
  obtain found where "rmap (payload_decision E img) (plan_paths plan) = Inr found"
    and "payload_requirements p = List.map_filter id found"
    using assms(1) by (auto simp: prepare_payloads_def Let_def rbind_Inr_iff)
  with payload_decisions_serve [OF assms(2)] have serves: "list_all2 (requirement_serves E img)
      (filter takes_incoming (plan_paths plan)) (payload_requirements p)" by metis
  define ids where "ids = sort_unique (List.map_filter requirement_payload (payload_requirements p))"
  have ids: "set ids = {i. \<exists>r \<in> set (payload_requirements p). requirement_payload r = Some i}"
    by (auto simp: ids_def map_filter_set)
  have regular: "\<exists>e. image_entry img i = Some e \<and> entry_type e = Entry_regular" if i: "i \<in> set ids" for i
  proof -
    from i obtain r where r: "r \<in> set (payload_requirements p)" "requirement_payload r = Some i"
      unfolding ids by blast
    with serves obtain d where "requirement_serves E img d r"
      by (metis in_set_conv_nth list_all2_conv_all_nth)
    then obtain e where "image_entry img (requirement_entry r) = Some e" "payload_served img e (Some i)"
      by (auto simp: requirement_serves_def r(2))
    then show ?thesis using assms(2) by (auto simp: payload_served_def image_lookup_def split: if_splits)
  qed
  have "from_ids img ids = Inr (payload_selection p)" "sorted ids" "distinct ids"
    using reqs(3) by (simp_all add: ids_def)
  with reqs(4) serves ids regular show ?thesis by blast
qed

definition sample_paths :: "(8 word, 8 word) environment" where
  "sample_paths = \<lparr>hash = (\<lambda>_. 0), path_string = (\<lambda>w. [w]), owner_string = (\<lambda>w. [w]),
     parse_path = (\<lambda>bs. Inr (case bs of [] \<Rightarrow> 0 | w # _ \<Rightarrow> w)), is_ancestor_of = (\<lambda>_ _. False)\<rparr>"

definition sample_entry :: image_entry where
  "sample_entry = \<lparr>entry_number = 3, entry_type = Entry_regular, entry_path = [1],
     entry_hardlink = None, entry_mode = 0, entry_uid = 0, entry_gid = 0,
       entry_mtime = 0, entry_mtime_nanoseconds = 0, entry_size = 0, entry_content = Some [],
       entry_symlink_target = None, entry_device = None\<rparr>"

definition sample_image :: package_image where
  "sample_image = \<lparr>image_identity = [5], image_size = 1,
     image_entry = (\<lambda>i. if i = 3 then Some sample_entry else None),
     image_find = (\<lambda>t. if t = [1] then Some sample_entry else None)\<rparr>"

definition sample_install :: "(8 word, 8 word) operation_plan" where
  "sample_install = \<lparr>plan_kind = Install, plan_schema = 1, plan_identity = [],
     plan_preconditions = \<lparr>preconditions_target = [], preconditions_snapshot = [],
       preconditions_inventory = [], preconditions_paths = [], preconditions_incoming = None,
       preconditions_find = (\<lambda>_. None)\<rparr>,
     plan_paths = [\<lparr>decision_path = 1, decision_role = Some Plan_incoming_entry,
       decision_active = Activate_incoming, decision_rejected = No_rejected,
       decision_entry = Some 3, decision_ownership = \<lparr>before_existing_owners = [],
         after_existing_owners = [], incoming_package_owns_after = True\<rparr>, decision_object = None\<rparr>]\<rparr>"

definition sample_payloads :: "(8 word, entry_id list) payload_plan" where
  "sample_payloads = \<lparr>payload_image = [5], payload_selection = [3],
     payload_requirements = [\<lparr>requirement_path = 1, requirement_entry = 3,
       requirement_payload = Some 3, required_for_active = True, required_for_rejected = False\<rparr>]\<rparr>"

lemma sample_payloads_prepared:
  "prepare_payloads sample_paths (\<lambda>_ ids. Inr ids) sample_install sample_image = Inr sample_payloads"
  by (simp add: prepare_payloads_def sample_install_def payload_decision_def sample_image_def
      sample_paths_def sample_entry_def regular_payload_entry_def make_requirement_def
      List.map_filter_def sort_unique_def sample_payloads_def)

lemma sample_image_lookup: "image_lookup sample_image"
  by (auto simp: image_lookup_def sample_image_def sample_entry_def split: if_splits)

text \<open>
  An image of two regular entries and a hard link to the first, and a plan that activates the first
  and stages the hard link as a rejected object: the second regular entry is not selected.
\<close>

definition linked_entry :: image_entry where
  "linked_entry = sample_entry\<lparr>entry_number := 5, entry_type := Entry_hardlink, entry_path := [3],
     entry_hardlink := Some [1], entry_content := None\<rparr>"

definition unused_entry :: image_entry where
  "unused_entry = sample_entry\<lparr>entry_number := 4, entry_path := [2]\<rparr>"

definition linked_image :: package_image where
  "linked_image = \<lparr>image_identity = [5], image_size = 3,
     image_entry = map_of [(3, sample_entry), (4, unused_entry), (5, linked_entry)],
     image_find = map_of [([1], sample_entry), ([2], unused_entry), ([3], linked_entry)]\<rparr>"

definition linked_install :: "(8 word, 8 word) operation_plan" where
  "linked_install = sample_install\<lparr>plan_paths := plan_paths sample_install @
     [\<lparr>decision_path = 3, decision_role = Some Plan_incoming_entry,
       decision_active = Retain_observed, decision_rejected = Stage_incoming,
       decision_entry = Some 5, decision_ownership = \<lparr>before_existing_owners = [],
         after_existing_owners = [], incoming_package_owns_after = True\<rparr>, decision_object = None\<rparr>]\<rparr>"

definition linked_payloads :: "(8 word, entry_id list) payload_plan" where
  "linked_payloads = \<lparr>payload_image = [5], payload_selection = [3],
     payload_requirements =
       [\<lparr>requirement_path = 1, requirement_entry = 3, requirement_payload = Some 3,
         required_for_active = True, required_for_rejected = False\<rparr>,
        \<lparr>requirement_path = 3, requirement_entry = 5, requirement_payload = Some 3,
         required_for_active = False, required_for_rejected = True\<rparr>]\<rparr>"

lemma linked_payloads_prepared:
  "prepare_payloads sample_paths (\<lambda>_ ids. Inr ids) linked_install linked_image = Inr linked_payloads"
  by (simp add: prepare_payloads_def linked_install_def sample_install_def payload_decision_def
      linked_image_def sample_paths_def sample_entry_def linked_entry_def unused_entry_def
      regular_payload_entry_def make_requirement_def List.map_filter_def sort_unique_def
      linked_payloads_def)

lemma linked_image_lookup: "image_lookup linked_image"
  by (auto simp: image_lookup_def linked_image_def sample_entry_def linked_entry_def unused_entry_def
      split: if_splits)

theorem payload_closure_witness:
  "map requirement_path (payload_requirements linked_payloads) = [1, 3] \<and>
   list_all2 (requirement_serves sample_paths linked_image) (plan_paths linked_install)
     (payload_requirements linked_payloads) \<and>
   set (payload_selection linked_payloads) = {3}"
proof -
  have takes: "filter takes_incoming (plan_paths linked_install) = plan_paths linked_install"
    by (simp add: linked_install_def sample_install_def takes_incoming_def)
  have cited: "{i. \<exists>r \<in> set (payload_requirements linked_payloads). requirement_payload r = Some i} = {3}"
    by (auto simp: linked_payloads_def)
  from payload_closure [OF linked_payloads_prepared linked_image_lookup, unfolded takes cited]
  show ?thesis by (auto simp: linked_payloads_def)
qed

end
