(* ===== verification/Ordering.thy ===== *)
theory Ordering
  imports Capture Payload "HOL-Library.Product_Lexorder"
begin

text \<open>
  The order of the active effects (\<open>schedule.cpp\<close>): Kahn's algorithm over parent/child and hard-link
  dependencies, always taking the least ready path.  The edge sets are lists of successors in
  ascending order (\<open>std::set<std::size_t>\<close>), the ready set a list in the order of its comparator.
\<close>

section \<open>Active nodes\<close>

definition active_mechanism_required :: "planned_active_outcome \<Rightarrow> bool" where
  "active_mechanism_required outcome =
     (case outcome of
        Activate_incoming \<Rightarrow> True | Remove_observed \<Rightarrow> True | Remove_directory_if_empty \<Rightarrow> True
      | Retain_observed \<Rightarrow> False | Remain_absent \<Rightarrow> False)"

definition incoming_entry ::
  "('p, 'o) environment \<Rightarrow> ('p, 'o) path_decision \<Rightarrow> package_image \<Rightarrow> error + image_entry option" where
  "incoming_entry E decision img =
     (case decision_entry decision of
        None \<Rightarrow> Inr None
      | Some number \<Rightarrow>
          (case image_entry img number of
             None \<Rightarrow> Inl (Invalid_argument ''application schedule incoming entry binding mismatch'')
           | Some entry \<Rightarrow>
               if entry_path entry \<noteq> path_string E (decision_path decision)
               then Inl (Invalid_argument ''application schedule incoming entry binding mismatch'')
               else Inr (Some entry)))"

record 'p active_node =
  node_path :: 'p
  node_outcome :: planned_active_outcome
  node_incoming :: "entry_id option"
  node_entry :: "image_entry option"

definition active_node_of ::
  "('p, 'o) environment \<Rightarrow> package_image option \<Rightarrow> ('p, 'o) path_decision \<Rightarrow>
   error + 'p active_node option" where
  "active_node_of E img decision =
     (if \<not> active_mechanism_required (decision_active decision) then Inr None
      else rbind
        (if decision_active decision = Activate_incoming
         then (case img of
                 None \<Rightarrow> Inl (Invalid_argument
                   ''incoming active effect lacks package image authority'')
               | Some i \<Rightarrow> rbind (incoming_entry E decision i) (\<lambda>entry.
                   case entry of
                     None \<Rightarrow> Inl (Invalid_argument
                       ''incoming active effect lacks image entry identifier'')
                   | Some e \<Rightarrow> Inr (Some e)))
         else Inr None) (\<lambda>entry.
        Inr (Some \<lparr>node_path = decision_path decision, node_outcome = decision_active decision,
                   node_incoming = decision_entry decision, node_entry = entry\<rparr>)))"

definition active_nodes ::
  "('p, 'o) environment \<Rightarrow> ('p, 'o) operation_plan \<Rightarrow> package_image option \<Rightarrow>
   error + 'p active_node list" where
  "active_nodes E plan img =
     rbind (rmap (active_node_of E img) (plan_paths plan)) (\<lambda>found. Inr (List.map_filter id found))"

section \<open>Dependencies\<close>

definition parent_before_child :: "'p active_node \<Rightarrow> error + bool" where
  "parent_before_child parent =
     (if node_outcome parent \<noteq> Activate_incoming then Inr False
      else case node_entry parent of
        None \<Rightarrow> Inl (Logic_error ''incoming active node lacks image entry'')
      | Some e \<Rightarrow> Inr (entry_type e = Entry_directory))"

text \<open>Successor sets and in-degrees, both indexed by node.\<close>

type_synonym dependency_graph = "nat list list \<times> nat list"

definition add_edge :: "nat \<Rightarrow> nat \<Rightarrow> dependency_graph \<Rightarrow> dependency_graph" where
  "add_edge prior after graph =
     (let (edges, indegree) = graph in
      if prior = after then graph
      else if after \<in> set (edges ! prior) then graph
      else (edges[prior := insort after (edges ! prior)],
            indegree[after := Suc (indegree ! after)]))"

definition path_edge ::
  "('p, 'o) environment \<Rightarrow> 'p active_node list \<Rightarrow> nat \<times> nat \<Rightarrow> dependency_graph \<Rightarrow>
   error + dependency_graph" where
  "path_edge E nodes pc graph =
     (let (parent, child) = pc in
      if parent = child \<or> \<not> is_ancestor_of E (node_path (nodes ! parent)) (node_path (nodes ! child))
      then Inr graph
      else rbind (parent_before_child (nodes ! parent)) (\<lambda>first.
        Inr (if first then add_edge parent child graph else add_edge child parent graph)))"

definition hardlink_edges ::
  "('p, 'o) environment \<Rightarrow> 'p active_node list \<Rightarrow> nat \<Rightarrow> dependency_graph \<Rightarrow> error + dependency_graph" where
  "hardlink_edges E nodes hardlink graph =
     (case node_entry (nodes ! hardlink) of
        None \<Rightarrow> Inr graph
      | Some entry \<Rightarrow>
          if entry_type entry \<noteq> Entry_hardlink then Inr graph
          else (case entry_hardlink entry of
              None \<Rightarrow> Inl (Invalid_argument ''active hard link lacks its regular anchor'')
            | Some anchor \<Rightarrow>
                Inr (fold (\<lambda>candidate graph.
                       if path_string E (node_path (nodes ! candidate)) = anchor
                       then add_edge candidate hardlink graph else graph)
                     [0..<length nodes] graph)))"

fun rfold :: "('a \<Rightarrow> 's \<Rightarrow> error + 's) \<Rightarrow> 'a list \<Rightarrow> 's \<Rightarrow> error + 's" where
  "rfold f [] s = Inr s"
| "rfold f (x # xs) s = rbind (f x s) (rfold f xs)"

definition dependency_edges ::
  "('p, 'o) environment \<Rightarrow> 'p active_node list \<Rightarrow> package_image option \<Rightarrow> error + dependency_graph" where
  "dependency_edges E nodes img =
     (let count = length nodes in
      rbind (rfold (path_edge E nodes) (List.product [0..<count] [0..<count])
               (replicate count [], replicate count 0)) (\<lambda>graph.
      case img of
        None \<Rightarrow> Inr graph
      | Some _ \<Rightarrow> rfold (hardlink_edges E nodes) [0..<count] graph))"

section \<open>Kahn's algorithm\<close>

definition insert_ready :: "('p::linorder) active_node list \<Rightarrow> nat \<Rightarrow> nat list \<Rightarrow> nat list" where
  "insert_ready nodes i ready =
     (if i \<in> set ready then ready else insort_key (\<lambda>j. (node_path (nodes ! j), j)) i ready)"

text \<open>
  One successor of the node just ordered: \<open>if (--indegree[next] == 0) ready.insert(next)\<close>.  The test
  that \<open>next\<close> is in range always holds for the graphs built above; with it the loop terminates on
  any graph.
\<close>

definition release ::
  "('p::linorder) active_node list \<Rightarrow> nat \<Rightarrow> nat list \<times> nat list \<Rightarrow> nat list \<times> nat list" where
  "release nodes next state =
     (let (indegree, ready) = state in
      if next < length indegree \<and> indegree ! next = 1
      then (indegree[next := 0], insert_ready nodes next ready)
      else (indegree[next := indegree ! next - 1], ready))"

lemma sum_list_update_le: "sum_list (xs[i := xs ! i - k]) \<le> sum_list (xs :: nat list)"
  by (induction xs arbitrary: i) (auto split: nat.splits)

lemma release_weight:
  "2 * sum_list (fst (release nodes j st)) + length (snd (release nodes j st)) \<le>
   2 * sum_list (fst st) + length (snd st)"
proof -
  obtain ind ready where st: "st = (ind, ready)" by (cases st)
  have "length (insert_ready nodes j ready) \<le> Suc (length ready)"
    by (simp add: insert_ready_def)
  moreover have "sum_list (ind[j := 0]) + 1 = sum_list ind" if "j < length ind" "ind ! j = 1"
    using that by (induction ind arbitrary: j) (auto simp: less_Suc_eq_0_disj)
  ultimately show ?thesis
    using sum_list_update_le [of ind j 1] by (auto simp: release_def st)
qed

lemma fold_release_weight:
  "2 * sum_list (fst (fold (release nodes) js st)) + length (snd (fold (release nodes) js st)) \<le>
   2 * sum_list (fst st) + length (snd st)"
proof (induction js arbitrary: st)
  case (Cons j js)
  show ?case using Cons [of "release nodes j st"] release_weight [of nodes j st] by simp
qed simp

function kahn ::
  "('p::linorder) active_node list \<Rightarrow> nat list list \<Rightarrow> nat list \<Rightarrow> nat list \<Rightarrow> nat list \<Rightarrow> nat list" where
  "kahn nodes edges indegree [] ordered = ordered"
| "kahn nodes edges indegree (current # ready) ordered =
     (let (indegree', ready') = fold (release nodes) (edges ! current) (indegree, ready) in
      kahn nodes edges indegree' ready' (ordered @ [current]))"
  by pat_completeness auto

termination
proof (relation "measure (\<lambda>(nodes, edges, ind, ready, ordered). 2 * sum_list ind + length ready)")
  fix nodes :: "'p::linorder active_node list" and edges ind current ready ordered x ind' ready'
  assume "x = fold (release nodes) (edges ! current) (ind, ready)" "(ind', ready') = x"
  then show "((nodes, edges, ind', ready', ordered @ [current]), nodes, edges, ind, current # ready, ordered)
      \<in> measure (\<lambda>(nodes, edges, ind, ready, ordered). 2 * sum_list ind + length ready)"
    using fold_release_weight [of nodes "edges ! current" "(ind, ready)"] by (metis (no_types, lifting)
      case_prod_conv fst_conv in_measure le_imp_less_Suc length_Cons add_Suc_right snd_conv)
qed simp

definition order_active_nodes ::
  "('p::linorder, 'o) environment \<Rightarrow> 'p active_node list \<Rightarrow> package_image option \<Rightarrow>
   error + 'p active_node list" where
  "order_active_nodes E nodes img =
     rbind (dependency_edges E nodes img) (\<lambda>(edges, indegree).
     let ready = fold (insert_ready nodes) (filter (\<lambda>i. indegree ! i = 0) [0..<length nodes]) [];
         ordered = kahn nodes edges indegree ready [] in
     if length ordered \<noteq> length nodes
     then Inl (Invalid_argument ''application active-effect dependencies contain a cycle'')
     else Inr (map ((!) nodes) ordered))"

section \<open>Correctness of the order\<close>

text \<open>A well-formed graph over \<open>n\<close> nodes: in-range successors without repetition, exact in-degrees.\<close>

definition predecessors :: "nat list list \<Rightarrow> nat \<Rightarrow> nat set" where
  "predecessors edges j = {i. i < length edges \<and> j \<in> set (edges ! i)}"

definition graph_ok :: "nat \<Rightarrow> dependency_graph \<Rightarrow> bool" where
  "graph_ok n graph \<longleftrightarrow>
     (let (edges, indegree) = graph in
      length edges = n \<and> length indegree = n \<and>
      (\<forall>i < n. set (edges ! i) \<subseteq> {..<n} \<and> distinct (edges ! i)) \<and>
      (\<forall>j < n. indegree ! j = card (predecessors edges j)))"

lemma predecessors_finite [simp]: "finite (predecessors edges j)"
  by (simp add: predecessors_def)

lemma predecessors_update:
  assumes "b < length edges"
  shows "predecessors (edges[b := insort a (edges ! b)]) j =
    (if j = a then insert b (predecessors edges j) else predecessors edges j)"
  using assms by (auto simp: predecessors_def nth_list_update set_insort_key)

lemma add_edge_ok:
  assumes "graph_ok n graph" and "b < n" and "a < n"
  shows "graph_ok n (add_edge b a graph)"
    and "j \<in> set (fst (add_edge b a graph) ! i) \<longleftrightarrow>
           j \<in> set (fst graph ! i) \<or> (i = b \<and> j = a \<and> a \<noteq> b)"
proof -
  obtain edges ind where g: "graph = (edges, ind)" by (cases graph)
  have ok: "length edges = n" "length ind = n" "set (edges ! b) \<subseteq> {..<n}" "distinct (edges ! b)"
    "ind ! a = card (predecessors edges a)"
    using assms by (auto simp: graph_ok_def g)
  show "j \<in> set (fst (add_edge b a graph) ! i) \<longleftrightarrow>
           j \<in> set (fst graph ! i) \<or> (i = b \<and> j = a \<and> a \<noteq> b)"
    using ok(1) assms(2) by (auto simp: add_edge_def g nth_list_update set_insort_key)
  have "b \<notin> predecessors edges a" if "a \<notin> set (edges ! b)"
    using that by (simp add: predecessors_def)
  then show "graph_ok n (add_edge b a graph)"
    using assms ok
    by (auto simp: graph_ok_def g add_edge_def nth_list_update set_insort_key distinct_insort
        predecessors_update)
qed

text \<open>
  The loop invariant: an in-degree counts the predecessors not yet ordered, a node is ordered or
  ready exactly when its in-degree is zero, every ordered node comes after its predecessors, and at
  each position the node taken was the least of the nodes that could be taken.
\<close>

definition node_key :: "('p::linorder) active_node list \<Rightarrow> nat \<Rightarrow> 'p \<times> nat" where
  "node_key nodes i = (node_path (nodes ! i), i)"

definition topological :: "nat list list \<Rightarrow> nat list \<Rightarrow> bool" where
  "topological edges ordered \<longleftrightarrow>
     (\<forall>k < length ordered. predecessors edges (ordered ! k) \<subseteq> set (take k ordered))"

definition greedy :: "('p::linorder) active_node list \<Rightarrow> nat list list \<Rightarrow> nat list \<Rightarrow> bool" where
  "greedy nodes edges ordered \<longleftrightarrow>
     (\<forall>k < length ordered. \<forall>j < length edges.
        j \<notin> set (take k ordered) \<and> predecessors edges j \<subseteq> set (take k ordered) \<longrightarrow>
        node_key nodes (ordered ! k) \<le> node_key nodes j)"

definition kahn_inv ::
  "('p::linorder) active_node list \<Rightarrow> nat list list \<Rightarrow> nat list \<Rightarrow> nat list \<Rightarrow> nat list \<Rightarrow> bool" where
  "kahn_inv nodes edges ind ready ordered \<longleftrightarrow>
     length ind = length edges \<and> distinct (ordered @ ready) \<and>
     set (ordered @ ready) \<subseteq> {..<length edges} \<and>
     (\<forall>j < length edges. ind ! j = card (predecessors edges j - set ordered)) \<and>
     (\<forall>j < length edges. j \<in> set (ordered @ ready) \<longleftrightarrow> ind ! j = 0) \<and>
     sorted (map (node_key nodes) ready) \<and>
     topological edges ordered \<and> greedy nodes edges ordered"

lemma insert_ready_simps [simp]:
  "set (insert_ready nodes i ready) = insert i (set ready)"
  "distinct ready \<Longrightarrow> distinct (insert_ready nodes i ready)"
  "sorted (map (node_key nodes) ready) \<Longrightarrow> sorted (map (node_key nodes) (insert_ready nodes i ready))"
proof -
  have key: "node_key nodes = (\<lambda>j. (node_path (nodes ! j), j))" by (simp add: node_key_def fun_eq_iff)
  show "set (insert_ready nodes i ready) = insert i (set ready)"
    by (auto simp: insert_ready_def set_insort_key)
  show "distinct (insert_ready nodes i ready)" if "distinct ready"
    using that by (simp add: insert_ready_def distinct_insort)
  show "sorted (map (node_key nodes) (insert_ready nodes i ready))"
    if "sorted (map (node_key nodes) ready)"
    using that unfolding key by (simp add: insert_ready_def sorted_insort_key)
qed

lemma fold_release:
  assumes "distinct js" and "set js \<subseteq> {..<length ind}"
    and "distinct ready" and "sorted (map (node_key nodes) ready)"
    and "fold (release nodes) js (ind, ready) = (ind', ready')"
  shows "length ind' = length ind \<and>
    (\<forall>j < length ind. ind' ! j = (if j \<in> set js then ind ! j - 1 else ind ! j)) \<and>
    set ready' = set ready \<union> {j \<in> set js. ind ! j = 1} \<and>
    distinct ready' \<and> sorted (map (node_key nodes) ready')"
  using assms
proof (induction js arbitrary: ind ready)
  case (Cons j js)
  obtain ind1 ready1 where one: "release nodes j (ind, ready) = (ind1, ready1)"
    by (cases "release nodes j (ind, ready)")
  have j: "j < length ind" "j \<notin> set js" using Cons.prems by auto
  have first: "length ind1 = length ind" "\<And>k. k < length ind \<Longrightarrow> k \<noteq> j \<Longrightarrow> ind1 ! k = ind ! k"
    "ind1 ! j = ind ! j - 1" "set ready1 = set ready \<union> (if ind ! j = 1 then {j} else {})"
    "distinct ready1" "sorted (map (node_key nodes) ready1)"
    using one j Cons.prems(3,4) by (auto simp: release_def split: if_splits)
  have "fold (release nodes) js (ind1, ready1) = (ind', ready')"
    using Cons.prems(5) one by simp
  with Cons.IH [of ind1 ready1] Cons.prems first have rest:
    "length ind' = length ind1"
    "\<forall>k < length ind1. ind' ! k = (if k \<in> set js then ind1 ! k - 1 else ind1 ! k)"
    "set ready' = set ready1 \<union> {k \<in> set js. ind1 ! k = 1}"
    "distinct ready'" "sorted (map (node_key nodes) ready')" by auto
  have "{k \<in> set js. ind1 ! k = 1} = {k \<in> set js. ind ! k = 1}"
    using first(2) j(2) Cons.prems(2) by (metis (mono_tags) lessThan_iff list.set_intros(2) subsetD)
  then have "set ready' = set ready \<union> {k \<in> set (j # js). ind ! k = 1}"
    using rest(3) first(4) by auto
  moreover have "\<forall>k < length ind. ind' ! k = (if k \<in> set (j # js) then ind ! k - 1 else ind ! k)"
  proof (intro allI impI)
    fix k assume "k < length ind"
    then show "ind' ! k = (if k \<in> set (j # js) then ind ! k - 1 else ind ! k)"
      using rest(2) first(1-3) j by (cases "k = j") auto
  qed
  ultimately show ?case using rest first(1) by simp
qed simp

lemma kahn_inv_step:
  assumes ok: "graph_ok (length edges) (edges, indegree)"
    and inv: "kahn_inv nodes edges ind (c # ready) ordered"
    and run: "fold (release nodes) (edges ! c) (ind, ready) = (ind', ready')"
  shows "kahn_inv nodes edges ind' ready' (ordered @ [c])"
proof -
  let ?n = "length edges"
  from inv [unfolded kahn_inv_def] have len: "length ind = ?n"
    and d: "distinct (ordered @ c # ready)" and r: "set (ordered @ c # ready) \<subseteq> {..<?n}"
    and count: "\<forall>j < ?n. ind ! j = card (predecessors edges j - set ordered)"
    and z: "\<forall>j < ?n. j \<in> set (ordered @ c # ready) \<longleftrightarrow> ind ! j = 0"
    and s: "sorted (map (node_key nodes) (c # ready))"
    and topo: "topological edges ordered" and grd: "greedy nodes edges ordered"
    by - (elim conjE, assumption)+
  have dist: "distinct ordered" "distinct ready" "set ordered \<inter> set ready = {}"
    and c: "c \<notin> set ordered" "c \<notin> set ready" "c < ?n" using d r by auto
  have range: "set ordered \<subseteq> {..<?n}" "set ready \<subseteq> {..<?n}" using r by auto
  have zero: "j \<in> set ordered \<or> j = c \<or> j \<in> set ready \<longleftrightarrow> ind ! j = 0" if "j < ?n" for j
    using z that by auto
  have c0: "ind ! c = 0" using zero [OF c(3)] by simp
  have srt: "sorted (map (node_key nodes) ready)"
    and least: "\<And>j. j \<in> set ready \<Longrightarrow> node_key nodes c \<le> node_key nodes j"
    using s by auto
  have succ: "distinct (edges ! c)" "set (edges ! c) \<subseteq> {..<length ind}"
    using ok c(3) len by (auto simp: graph_ok_def)
  note rel = fold_release [OF succ dist(2) srt run]
  have pred_c: "c \<in> predecessors edges j \<longleftrightarrow> j \<in> set (edges ! c)" for j
    using c(3) by (simp add: predecessors_def)
  have ready_c: "predecessors edges c \<subseteq> set ordered"
    using count [rule_format, OF c(3)] c0 by simp
  have count': "ind' ! j = card (predecessors edges j - set (ordered @ [c]))" if "j < ?n" for j
  proof -
    have "predecessors edges j - set (ordered @ [c]) = (predecessors edges j - set ordered) - {c}"
      by auto
    then show ?thesis
      using rel count [rule_format, OF that] that len pred_c [of j] c(1) by (auto simp: card_Diff_singleton_if)
  qed
  have pos: "ind ! j > 0" if "j \<in> set (edges ! c)" for j
  proof -
    have "j < ?n" using that succ len by auto
    moreover have "c \<in> predecessors edges j - set ordered" using that pred_c c(1) by simp
    ultimately show ?thesis using count by (metis card_gt_0_iff empty_iff finite_Diff predecessors_finite)
  qed
  have zero': "j \<in> set (ordered @ [c]) \<or> j \<in> set ready' \<longleftrightarrow> ind' ! j = 0" if "j < ?n" for j
    using zero [OF that] rel that len pos [of j] by auto
  have fresh: "set (ordered @ [c]) \<inter> set ready' = {}"
  proof -
    have "ind ! j \<noteq> 1" if "j \<in> set (ordered @ [c])" for j
      using that range(1) c(3) zero [of j] by fastforce
    then show ?thesis using rel dist(3) c(2) by auto
  qed
  have topo': "topological edges (ordered @ [c])"
    using topo ready_c by (auto simp: topological_def nth_append less_Suc_eq)
  have "node_key nodes c \<le> node_key nodes j"
    if "j < ?n" "j \<notin> set ordered" "predecessors edges j \<subseteq> set ordered" for j
  proof -
    have "ind ! j = 0" using count [rule_format, OF that(1)] that(3) by (metis Diff_eq_empty_iff card.empty)
    then show ?thesis using zero [OF that(1)] that(2) least by auto
  qed
  then have grd': "greedy nodes edges (ordered @ [c])"
    using grd by (auto simp: greedy_def nth_append less_Suc_eq)
  show ?thesis
    unfolding kahn_inv_def
    using rel len dist c range succ count' zero' fresh topo' grd' by auto
qed

lemma kahn_inv_final:
  assumes "graph_ok (length edges) (edges, indegree)" and "kahn_inv nodes edges ind ready ordered"
  shows "\<exists>ind'. kahn_inv nodes edges ind' [] (kahn nodes edges ind ready ordered)"
  using assms
proof (induction nodes edges ind ready ordered rule: kahn.induct)
  case (1 nodes edges ind ordered)
  then show ?case by auto
next
  case (2 nodes edges ind c ready ordered)
  obtain ind' ready' where run: "fold (release nodes) (edges ! c) (ind, ready) = (ind', ready')"
    by (cases "fold (release nodes) (edges ! c) (ind, ready)")
  have "kahn_inv nodes edges ind' ready' (ordered @ [c])"
    by (rule kahn_inv_step [OF 2(2) 2(3) run])
  from 2(1) [OF run [symmetric] refl 2(2) this] show ?case using run by simp
qed

section \<open>The dependency relation\<close>

definition edge_set :: "dependency_graph \<Rightarrow> (nat \<times> nat) set" where
  "edge_set graph = {(i, j). i < length (fst graph) \<and> j \<in> set (fst graph ! i)}"

definition path_dependencies ::
  "('p, 'o) environment \<Rightarrow> 'p active_node list \<Rightarrow> nat \<times> nat \<Rightarrow> (nat \<times> nat) set" where
  "path_dependencies E nodes pc =
     (let (p, c) = pc in
      if p \<noteq> c \<and> is_ancestor_of E (node_path (nodes ! p)) (node_path (nodes ! c))
      then case parent_before_child (nodes ! p) of
          Inl _ \<Rightarrow> {} | Inr first \<Rightarrow> if first then {(p, c)} else {(c, p)}
      else {})"

definition hardlink_dependencies ::
  "('p, 'o) environment \<Rightarrow> 'p active_node list \<Rightarrow> nat \<Rightarrow> (nat \<times> nat) set" where
  "hardlink_dependencies E nodes h =
     (case node_entry (nodes ! h) of
        None \<Rightarrow> {}
      | Some e \<Rightarrow> if entry_type e \<noteq> Entry_hardlink then {}
          else {(i, h) |i. i < length nodes \<and> i \<noteq> h \<and>
                  entry_hardlink e = Some (path_string E (node_path (nodes ! i)))})"

text \<open>\<open>(i, j)\<close>: effect \<open>i\<close> must be published prior effect \<open>j\<close>.\<close>

definition effect_dependencies ::
  "('p, 'o) environment \<Rightarrow> 'p active_node list \<Rightarrow> package_image option \<Rightarrow> (nat \<times> nat) set" where
  "effect_dependencies E nodes img =
     (\<Union>pc \<in> {..<length nodes} \<times> {..<length nodes}. path_dependencies E nodes pc) \<union>
     (if img = None then {} else \<Union>h < length nodes. hardlink_dependencies E nodes h)"

lemma edge_set_add:
  assumes "graph_ok n graph" and "b < n" and "a < n"
  shows "edge_set (add_edge b a graph) = edge_set graph \<union> (if a = b then {} else {(b, a)})"
proof -
  have "length (fst graph) = n" "length (fst (add_edge b a graph)) = n"
    using assms add_edge_ok(1) [OF assms] by (auto simp: graph_ok_def)
  then show ?thesis using add_edge_ok(2) [OF assms] assms(2) by (auto simp: edge_set_def)
qed

lemma rfold_edges:
  assumes "\<And>x g g'. x \<in> set xs \<Longrightarrow> graph_ok n g \<Longrightarrow> f x g = Inr g' \<Longrightarrow>
      graph_ok n g' \<and> edge_set g' = edge_set g \<union> D x"
    and "graph_ok n g" and "rfold f xs g = Inr g'"
  shows "graph_ok n g' \<and> edge_set g' = edge_set g \<union> (\<Union>x \<in> set xs. D x)"
  using assms
proof (induction xs arbitrary: g)
  case (Cons x xs)
  from Cons.prems(3) obtain g1 where one: "f x g = Inr g1" and rest: "rfold f xs g1 = Inr g'"
    by (auto simp: rbind_Inr_iff)
  have g1: "graph_ok n g1" "edge_set g1 = edge_set g \<union> D x"
    using Cons.prems(1) [of x g g1] Cons.prems(2) one by auto
  have "graph_ok n g' \<and> edge_set g' = edge_set g1 \<union> (\<Union>x \<in> set xs. D x)"
    using Cons.IH [OF _ g1(1) rest] Cons.prems(1) by (meson list.set_intros(2))
  then show ?case using g1 by auto
qed simp

lemma path_edge_dependencies:
  assumes "pc \<in> {..<length nodes} \<times> {..<length nodes}" and "graph_ok (length nodes) g"
    and "path_edge E nodes pc g = Inr g'"
  shows "graph_ok (length nodes) g' \<and> edge_set g' = edge_set g \<union> path_dependencies E nodes pc"
proof (cases pc)
  case (Pair p c)
  then have "p < length nodes" "c < length nodes" using assms(1) by auto
  note add = add_edge_ok(1) [OF assms(2)] edge_set_add [OF assms(2)] and pc = this
  show ?thesis
  proof (cases "p \<noteq> c \<and> is_ancestor_of E (node_path (nodes ! p)) (node_path (nodes ! c))")
    case True
    then obtain first where first: "parent_before_child (nodes ! p) = Inr first"
      and g': "g' = (if first then add_edge p c g else add_edge c p g)"
      using assms(3) by (auto simp: path_edge_def Pair rbind_Inr_iff)
    show ?thesis using add pc True by (cases first) (auto simp: g' path_dependencies_def Pair first)
  next
    case False
    then show ?thesis using assms(2,3) by (auto simp: path_edge_def path_dependencies_def Pair)
  qed
qed

lemma hardlink_edges_dependencies:
  assumes "h < length nodes" and "graph_ok (length nodes) g"
    and "hardlink_edges E nodes h g = Inr g'"
  shows "graph_ok (length nodes) g' \<and> edge_set g' = edge_set g \<union> hardlink_dependencies E nodes h"
proof -
  have anchored: "graph_ok (length nodes) (fold (\<lambda>i g. if P i then add_edge i h g else g) is g) \<and>
      edge_set (fold (\<lambda>i g. if P i then add_edge i h g else g) is g) =
        edge_set g \<union> {(i, h) |i. i \<in> set is \<and> i \<noteq> h \<and> P i}"
    if "graph_ok (length nodes) g" "set is \<subseteq> {..<length nodes}" for P "is" g
    using that
  proof (induction "is" arbitrary: g)
    case (Cons i "is")
    then show ?case
      using add_edge_ok(1) [OF Cons.prems(1) _ assms(1), of i]
        edge_set_add [OF Cons.prems(1) _ assms(1), of i] by auto
  qed simp
  show ?thesis
  proof (cases "\<exists>e a. node_entry (nodes ! h) = Some e \<and> entry_type e = Entry_hardlink \<and>
      entry_hardlink e = Some a")
    case True
    then obtain e a where e: "node_entry (nodes ! h) = Some e" "entry_type e = Entry_hardlink"
      "entry_hardlink e = Some a" by auto
    have "set [0..<length nodes] \<subseteq> {..<length nodes}" by auto
    note all = anchored [OF assms(2) this, of "\<lambda>i. path_string E (node_path (nodes ! i)) = a"]
    show ?thesis using assms(3) all by (simp add: hardlink_edges_def hardlink_dependencies_def e) auto
  next
    case False
    then show ?thesis
      using assms(2,3) by (auto simp: hardlink_edges_def hardlink_dependencies_def
          split: option.splits if_splits)
  qed
qed

lemma dependency_edges_correct:
  assumes "dependency_edges E nodes img = Inr g"
  shows "graph_ok (length nodes) g" and "edge_set g = effect_dependencies E nodes img"
proof -
  let ?n = "length nodes"
  let ?g0 = "(replicate ?n [], replicate ?n 0) :: dependency_graph"
  have g0: "graph_ok ?n ?g0" "edge_set ?g0 = {}"
    by (auto simp: graph_ok_def edge_set_def predecessors_def)
  from assms obtain g1 where one: "rfold (path_edge E nodes) (List.product [0..<?n] [0..<?n]) ?g0 = Inr g1"
    and two: "(case img of None \<Rightarrow> Inr g1 | Some _ \<Rightarrow> rfold (hardlink_edges E nodes) [0..<?n] g1) = Inr g"
    by (auto simp: dependency_edges_def rbind_Inr_iff Let_def)
  have g1: "graph_ok ?n g1 \<and> edge_set g1 = {} \<union>
      (\<Union>pc \<in> set (List.product [0..<?n] [0..<?n]). path_dependencies E nodes pc)"
    unfolding g0(2) [symmetric]
    by (rule rfold_edges [OF _ g0(1) one]) (rule path_edge_dependencies, auto)
  have "graph_ok ?n g \<and> edge_set g = effect_dependencies E nodes img"
  proof (cases img)
    case None
    then show ?thesis using g1 two by (simp add: effect_dependencies_def lessThan_atLeast0)
  next
    case (Some i)
    then have "graph_ok ?n g \<and> edge_set g = edge_set g1 \<union>
        (\<Union>h \<in> set [0..<?n]. hardlink_dependencies E nodes h)"
      by (intro rfold_edges [of "[0..<?n]" ?n "hardlink_edges E nodes"])
        (use two g1 in \<open>simp_all add: hardlink_edges_dependencies\<close>)
    then show ?thesis using g1 Some by (simp add: effect_dependencies_def lessThan_atLeast0)
  qed
  then show "graph_ok ?n g" "edge_set g = effect_dependencies E nodes img" by auto
qed

lemma fold_insert_ready:
  assumes "distinct ready" and "sorted (map (node_key nodes) ready)"
  shows "distinct (fold (insert_ready nodes) js ready) \<and>
    sorted (map (node_key nodes) (fold (insert_ready nodes) js ready)) \<and>
    set (fold (insert_ready nodes) js ready) = set js \<union> set ready"
  using assms by (induction js arbitrary: ready) auto

lemma kahn_inv_initial:
  assumes "graph_ok n (edges, ind)"
  shows "kahn_inv nodes edges ind (fold (insert_ready nodes) (filter (\<lambda>i. ind ! i = 0) [0..<n]) []) []"
proof -
  have len: "length edges = n" "length ind = n"
    and count: "\<forall>j < n. ind ! j = card (predecessors edges j)"
    using assms by (auto simp: graph_ok_def)
  note start = fold_insert_ready [of "[]" nodes "filter (\<lambda>i. ind ! i = 0) [0..<n]"]
  show ?thesis
    unfolding kahn_inv_def using start len count by (auto simp: topological_def greedy_def)
qed

lemma predecessors_edge_set: "predecessors (fst g) j = {i. (i, j) \<in> edge_set g}"
  by (auto simp: predecessors_def edge_set_def)

text \<open>The list of positions the loop returns, with what the invariant says of it at the end.\<close>

definition kahn_order :: "('p::linorder) active_node list \<Rightarrow> dependency_graph \<Rightarrow> nat list" where
  "kahn_order nodes g =
     kahn nodes (fst g) (snd g)
       (fold (insert_ready nodes) (filter (\<lambda>i. snd g ! i = 0) [0..<length nodes]) []) []"

lemma kahn_order_invariant:
  assumes "graph_ok (length nodes) g"
  obtains ind where "kahn_inv nodes (fst g) ind [] (kahn_order nodes g)" and "length (fst g) = length nodes"
proof -
  obtain edges ind where g: "g = (edges, ind)" by (cases g)
  have len: "length edges = length nodes" using assms by (simp add: graph_ok_def g)
  have "graph_ok (length edges) (edges, ind)" using assms len by (simp add: g)
  from kahn_inv_final [OF this kahn_inv_initial [OF this, of nodes]] that len show ?thesis
    by (auto simp: kahn_order_def g)
qed

lemma kahn_order_facts:
  assumes "graph_ok (length nodes) g"
  shows "distinct (kahn_order nodes g)" and "set (kahn_order nodes g) \<subseteq> {..<length nodes}"
    and "topological (fst g) (kahn_order nodes g)" and "greedy nodes (fst g) (kahn_order nodes g)"
    and "j < length nodes \<Longrightarrow> predecessors (fst g) j \<subseteq> set (kahn_order nodes g) \<Longrightarrow>
           j \<in> set (kahn_order nodes g)"
proof -
  obtain ind where inv: "kahn_inv nodes (fst g) ind [] (kahn_order nodes g)"
    and len: "length (fst g) = length nodes"
    by (rule kahn_order_invariant [OF assms])
  from inv show "distinct (kahn_order nodes g)" "set (kahn_order nodes g) \<subseteq> {..<length nodes}"
    "topological (fst g) (kahn_order nodes g)" "greedy nodes (fst g) (kahn_order nodes g)"
    using len by (auto simp: kahn_inv_def)
  show "j \<in> set (kahn_order nodes g)"
    if "j < length nodes" "predecessors (fst g) j \<subseteq> set (kahn_order nodes g)"
    using inv that len unfolding kahn_inv_def
    by (metis Diff_eq_empty_iff append_Nil2 card.empty)
qed

lemma topological_acyclic:
  assumes "topological (fst g) order" and "distinct order"
    and "\<And>i j. (i, j) \<in> edge_set g \<Longrightarrow> j \<in> set order"
  shows "acyclic (edge_set g)"
proof -
  define pos where "pos = (\<lambda>i. THE k. k < length order \<and> order ! k = i)"
  have pos: "pos (order ! k) = k" if "k < length order" for k
    unfolding pos_def using that assms(2) by (auto simp: nth_eq_iff_index_eq)
  have "edge_set g \<subseteq> inv_image less_than pos"
  proof clarify
    fix i j assume e: "(i, j) \<in> edge_set g"
    then obtain k where k: "k < length order" "order ! k = j"
      using assms(3) by (metis in_set_conv_nth)
    have "i \<in> set (take k order)"
      using assms(1) k e by (auto simp: topological_def predecessors_edge_set)
    then obtain m where "m < k" "order ! m = i" "m < length order" by (auto simp: in_set_conv_nth)
    then show "(i, j) \<in> inv_image less_than pos" using pos k by auto
  qed
  then show ?thesis by (meson acyclic_subset wf_acyclic wf_inv_image wf_less_than)
qed

lemma kahn_order_complete_iff:
  assumes ok: "graph_ok (length nodes) g"
  shows "length (kahn_order nodes g) = length nodes \<longleftrightarrow> acyclic (edge_set g)"
proof
  note f = kahn_order_facts [OF ok]
  have size: "length (kahn_order nodes g) = card (set (kahn_order nodes g))"
    using f(1) by (simp add: distinct_card)
  have sub: "(i, j) \<in> edge_set g \<Longrightarrow> i < length nodes \<and> j < length nodes" for i j
    using ok by (cases g) (auto simp: graph_ok_def edge_set_def)
  {
    assume "length (kahn_order nodes g) = length nodes"
    then have "set (kahn_order nodes g) = {..<length nodes}"
      using f(2) size by (simp add: card_subset_eq)
    then show "acyclic (edge_set g)"
      using topological_acyclic [OF f(3,1)] sub by blast
  }
  {
    assume "acyclic (edge_set g)"
    moreover have "finite (edge_set g)"
      by (rule finite_subset [of _ "{..<length nodes} \<times> {..<length nodes}"]) (use sub in auto)
    ultimately have wf: "wf (edge_set g)" by (rule finite_acyclic_wf [rotated])
    have "j \<in> set (kahn_order nodes g)" if "j < length nodes" for j
      using that
    proof (induction j rule: wf_induct_rule [OF wf])
      case (1 j)
      then show ?case using f(5) [of j] sub by (auto simp: predecessors_edge_set)
    qed
    then have "set (kahn_order nodes g) = {..<length nodes}" using f(2) by auto
    then show "length (kahn_order nodes g) = length nodes" using size by simp
  }
qed

lemma order_active_nodes_unfold:
  assumes "dependency_edges E nodes img = Inr g"
  shows "order_active_nodes E nodes img =
    (if length (kahn_order nodes g) \<noteq> length nodes
     then Inl (Invalid_argument ''application active-effect dependencies contain a cycle'')
     else Inr (map ((!) nodes) (kahn_order nodes g)))"
  using assms by (cases g) (simp add: order_active_nodes_def kahn_order_def)

lemma order_active_nodes_order:
  assumes "order_active_nodes E nodes img = Inr out"
  obtains g where "dependency_edges E nodes img = Inr g"
    and "out = map ((!) nodes) (kahn_order nodes g)" and "set (kahn_order nodes g) = {..<length nodes}"
    and "distinct (kahn_order nodes g)"
proof -
  from assms obtain g where dep: "dependency_edges E nodes img = Inr g"
    by (auto simp: order_active_nodes_def rbind_Inr_iff)
  note f = kahn_order_facts [OF dependency_edges_correct(1) [OF dep]]
  have "length (kahn_order nodes g) = length nodes" and out: "out = map ((!) nodes) (kahn_order nodes g)"
    using assms by (auto simp: order_active_nodes_unfold [OF dep] split: if_splits)
  then have "set (kahn_order nodes g) = {..<length nodes}"
    using f(1,2) by (simp add: card_subset_eq distinct_card)
  with dep out f(1) that show ?thesis by blast
qed

lemma order_active_nodes_mset:
  assumes "order_active_nodes E nodes img = Inr out"
  shows "mset out = mset nodes"
proof -
  obtain g where g: "out = map ((!) nodes) (kahn_order nodes g)"
    "set (kahn_order nodes g) = {..<length nodes}" "distinct (kahn_order nodes g)"
    by (rule order_active_nodes_order [OF assms]) blast
  have "mset (kahn_order nodes g) = mset [0..<length nodes]"
    using g(2,3) by (subst set_eq_iff_mset_eq_distinct [symmetric]) (simp_all add: lessThan_atLeast0)
  then have "mset (map ((!) nodes) (kahn_order nodes g)) = mset (map ((!) nodes) [0..<length nodes])"
    by simp
  then show ?thesis unfolding g(1) map_nth .
qed

section \<open>What the ordering promises\<close>

text \<open>
  C13: a successful ordering is a permutation of the active nodes in which every effect comes after
  all the effects it depends on, and each position holds the least path among the nodes whose
  dependencies were already placed.
\<close>

theorem active_order_sound:
  assumes "order_active_nodes E nodes img = Inr out"
  shows "\<exists>order. distinct order \<and> set order = {..<length nodes} \<and> out = map ((!) nodes) order \<and>
    (\<forall>k < length order. {i. (i, order ! k) \<in> effect_dependencies E nodes img} \<subseteq> set (take k order)) \<and>
    (\<forall>k < length order. \<forall>j < length nodes.
       j \<notin> set (take k order) \<and> {i. (i, j) \<in> effect_dependencies E nodes img} \<subseteq> set (take k order) \<longrightarrow>
       node_path (nodes ! (order ! k)) \<le> node_path (nodes ! j))"
proof -
  obtain g where dep: "dependency_edges E nodes img = Inr g"
    and out: "out = map ((!) nodes) (kahn_order nodes g)"
    and set: "set (kahn_order nodes g) = {..<length nodes}"
    by (rule order_active_nodes_order [OF assms])
  note ok = dependency_edges_correct [OF dep]
  note f = kahn_order_facts [OF ok(1)]
  have len: "length (fst g) = length nodes" using ok(1) by (cases g) (simp add: graph_ok_def)
  have le: "node_path (nodes ! i) \<le> node_path (nodes ! j)" if "node_key nodes i \<le> node_key nodes j" for i j
    using that by (auto simp: node_key_def)
  have least: "\<forall>k < length (kahn_order nodes g). \<forall>j < length nodes.
       j \<notin> set (take k (kahn_order nodes g)) \<and>
       {i. (i, j) \<in> effect_dependencies E nodes img} \<subseteq> set (take k (kahn_order nodes g)) \<longrightarrow>
       node_path (nodes ! (kahn_order nodes g ! k)) \<le> node_path (nodes ! j)"
    using f(4) unfolding greedy_def predecessors_edge_set ok(2) len by (meson le)
  show ?thesis
    using f(1) set out f(3) least
    by (intro exI [of _ "kahn_order nodes g"]) (simp add: topological_def predecessors_edge_set ok(2))
qed

text \<open>
  C14: once the dependencies of the active nodes are known, ordering them fails with the cycle error
  exactly when the dependency relation has a cycle, and succeeds otherwise.
\<close>

theorem active_order_fails_iff_cyclic:
  assumes "dependency_edges E nodes img = Inr g"
  shows "(order_active_nodes E nodes img =
      Inl (Invalid_argument ''application active-effect dependencies contain a cycle'') \<longleftrightarrow>
      \<not> acyclic (effect_dependencies E nodes img)) \<and>
    ((\<exists>out. order_active_nodes E nodes img = Inr out) \<longleftrightarrow>
      acyclic (effect_dependencies E nodes img))"
  using kahn_order_complete_iff [OF dependency_edges_correct(1) [OF assms]]
    dependency_edges_correct(2) [OF assms]
  by (simp_all add: order_active_nodes_unfold [OF assms])

definition sample_tree :: "(8 word, 8 word) environment" where
  "sample_tree = sample_paths\<lparr>is_ancestor_of := (\<lambda>a b. a = 1 \<and> b = 2)\<rparr>"

definition sample_directory :: "8 word active_node" where
  "sample_directory = \<lparr>node_path = 1, node_outcome = Remove_directory_if_empty, node_incoming = None,
     node_entry = None\<rparr>"

definition sample_child :: "8 word active_node" where
  "sample_child = \<lparr>node_path = 2, node_outcome = Remove_observed, node_incoming = None,
     node_entry = None\<rparr>"

lemma sample_removal_order:
  "order_active_nodes sample_tree [sample_directory, sample_child] None =
     Inr [sample_child, sample_directory]"
  by (simp add: order_active_nodes_def dependency_edges_def path_edge_def parent_before_child_def
      add_edge_def sample_tree_def sample_directory_def sample_child_def insert_ready_def release_def
      upt_rec)

theorem active_order_sound_witness:
  "\<exists>order. set order = {..<2} \<and>
     [sample_child, sample_directory] = map ((!) [sample_directory, sample_child]) order"
  using active_order_sound [OF sample_removal_order] by (auto simp: numeral_2_eq_2)

text \<open>A hard link below its own anchor: the anchor would have to be published on both sides of it.\<close>

definition sample_anchor :: "8 word active_node" where
  "sample_anchor = \<lparr>node_path = 1, node_outcome = Activate_incoming, node_incoming = Some 3,
     node_entry = Some sample_entry\<rparr>"

definition sample_link :: "8 word active_node" where
  "sample_link = \<lparr>node_path = 2, node_outcome = Activate_incoming, node_incoming = Some 4,
     node_entry = Some \<lparr>entry_number = 4, entry_type = Entry_hardlink, entry_path = [2],
       entry_hardlink = Some [1], entry_mode = 0, entry_uid = 0, entry_gid = 0,
       entry_mtime = 0, entry_mtime_nanoseconds = 0, entry_size = 0, entry_content = Some [],
       entry_symlink_target = None, entry_device = None\<rparr>\<rparr>"

lemma sample_cycle:
  "dependency_edges sample_tree [sample_anchor, sample_link] (Some sample_image) =
     Inr ([[1], [0]], [1, 1])"
  by (simp add: dependency_edges_def path_edge_def parent_before_child_def hardlink_edges_def
      add_edge_def sample_tree_def sample_paths_def sample_anchor_def sample_link_def sample_entry_def
      upt_rec)

theorem active_order_fails_iff_cyclic_witness:
  "\<not> acyclic (effect_dependencies sample_tree [sample_anchor, sample_link] (Some sample_image))"
  using active_order_fails_iff_cyclic [OF sample_cycle]
  by (simp add: order_active_nodes_def sample_cycle upt_rec)

end
