(* ===== verification/Schedule.thy ===== *)
theory Schedule
  imports Ordering
begin

text \<open>
  The effect schedule (\<open>schedule.h\<close>, \<open>schedule.cpp\<close>): captures, payload staging, rejected objects,
  active effects and observations, in that order.
\<close>

section \<open>Schedule steps\<close>

datatype effect_step_kind =
  Step_capture_old | Step_stage_payload | Step_publish_rejected | Step_publish_active
| Step_observe_result

record 'p effect_step =
  schedule_ordinal :: u64
  schedule_kind :: effect_step_kind
  schedule_path :: 'p
  schedule_entry :: "entry_id option"

definition make_effect_step ::
  "u64 \<Rightarrow> effect_step_kind \<Rightarrow> 'p \<Rightarrow> entry_id option \<Rightarrow> error + 'p effect_step" where
  "make_effect_step ordinal kind path entry =
     (let incoming_applicable = (kind = Step_stage_payload \<or> kind = Step_publish_rejected \<or>
                                 kind = Step_publish_active) in
      if \<not> incoming_applicable \<and> entry \<noteq> None
      then Inl (Invalid_argument ''application effect step has an inapplicable incoming entry'')
      else if kind = Step_stage_payload \<and> entry = None
      then Inl (Invalid_argument ''regular payload staging step lacks an incoming entry'')
      else Inr \<lparr>schedule_ordinal = ordinal, schedule_kind = kind, schedule_path = path,
                schedule_entry = entry\<rparr>)"

definition make_schedule :: "'p effect_step list \<Rightarrow> error + 'p effect_step list" where
  "make_schedule steps =
     (if map schedule_ordinal steps \<noteq> map word_of_nat [0..<length steps]
      then Inl (Invalid_argument ''application effect ordinals are not consecutive'')
      else Inr steps)"

section \<open>The schedule\<close>

definition append_schedule_step ::
  "effect_step_kind \<Rightarrow> 'p \<Rightarrow> entry_id option \<Rightarrow> 'p effect_step list \<Rightarrow> error + 'p effect_step list" where
  "append_schedule_step kind path entry steps =
     rbind (make_effect_step (word_of_nat (length steps)) kind path entry) (\<lambda>step.
     Inr (steps @ [step]))"

definition stage_payload_step ::
  "('p, 'o) environment \<Rightarrow> package_image \<Rightarrow> entry_id \<Rightarrow> 'p effect_step list \<Rightarrow>
   error + 'p effect_step list" where
  "stage_payload_step E img number steps =
     (let absent = Inl (Invalid_argument ''payload closure regular entry is absent or non-regular'') in
      case image_entry img number of
        None \<Rightarrow> absent
      | Some entry \<Rightarrow>
          if entry_type entry \<noteq> Entry_regular then absent
          else rbind (parse_path E (entry_path entry)) (\<lambda>path.
            append_schedule_step Step_stage_payload path (Some number) steps))"

definition stage_payload_steps ::
  "('p, 'o) environment \<Rightarrow> package_image option \<Rightarrow> ('p, 'sel) payload_plan option \<Rightarrow>
   'p effect_step list \<Rightarrow> error + 'p effect_step list" where
  "stage_payload_steps E img payloads steps =
     (case payloads of
        None \<Rightarrow> Inr steps
      | Some p \<Rightarrow>
          let mismatch = Inl (Invalid_argument ''payload closure belongs to another package image'') in
          (case img of
             None \<Rightarrow> mismatch
           | Some i \<Rightarrow>
               if payload_image p \<noteq> image_identity i then mismatch
               else rfold (stage_payload_step E i)
                 (sort_unique (List.map_filter requirement_payload (payload_requirements p))) steps))"

definition prepare_schedule ::
  "('p::linorder, 'o) environment \<Rightarrow> ('p, 'o) operation_plan \<Rightarrow> package_image option \<Rightarrow>
   ('p, 'sel) payload_plan option \<Rightarrow> 'p capture_plan \<Rightarrow> error + 'p effect_step list" where
  "prepare_schedule E plan img payloads captures =
     rbind (rfold (\<lambda>c. append_schedule_step Step_capture_old (capture_path c) None)
              (capture_requests captures) []) (\<lambda>steps.
     rbind (stage_payload_steps E img payloads steps) (\<lambda>steps.
     rbind (rfold (\<lambda>d steps. if decision_rejected d = No_rejected then Inr steps
              else append_schedule_step Step_publish_rejected (decision_path d) (decision_entry d) steps)
              (plan_paths plan) steps) (\<lambda>steps.
     rbind (active_nodes E plan img) (\<lambda>nodes.
     rbind (order_active_nodes E nodes img) (\<lambda>ordered.
     rbind (rfold (\<lambda>n. append_schedule_step Step_publish_active (node_path n) (node_incoming n))
              ordered steps) (\<lambda>steps.
     rbind (rfold (\<lambda>d. append_schedule_step Step_observe_result (decision_path d) None)
              (plan_paths plan) steps) make_schedule))))))"

text \<open>What a phase appends: the steps without their ordinals.\<close>

type_synonym 'p planned_step = "effect_step_kind \<times> 'p \<times> entry_id option"

definition planned_step :: "'p effect_step \<Rightarrow> 'p planned_step" where
  "planned_step s = (schedule_kind s, schedule_path s, schedule_entry s)"

definition numbered :: "'p effect_step list \<Rightarrow> bool" where
  "numbered steps \<longleftrightarrow> map schedule_ordinal steps = map word_of_nat [0..<length steps]"

lemma numbered_Nil [simp]: "numbered []"
  by (simp add: numbered_def)

lemma append_schedule_step_Inr:
  assumes "append_schedule_step k p e steps = Inr steps'" and "numbered steps"
  shows "numbered steps' \<and> map planned_step steps' = map planned_step steps @ [(k, p, e)]"
  using assms by (auto simp: append_schedule_step_def make_effect_step_def numbered_def planned_step_def
      Let_def rbind_Inr_iff split: if_splits)

lemma rfold_schedule_steps:
  assumes "\<And>x steps steps'. x \<in> set xs \<Longrightarrow> numbered steps \<Longrightarrow> f x steps = Inr steps' \<Longrightarrow>
      numbered steps' \<and> map planned_step steps' = map planned_step steps @ g x"
    and "numbered steps" and "rfold f xs steps = Inr steps'"
  shows "numbered steps' \<and> map planned_step steps' = map planned_step steps @ concat (map g xs)"
  using assms
proof (induction xs arbitrary: steps)
  case (Cons x xs)
  from Cons.prems(3) obtain s1 where one: "f x steps = Inr s1" and rest: "rfold f xs s1 = Inr steps'"
    by (auto simp: rbind_Inr_iff)
  have s1: "numbered s1 \<and> map planned_step s1 = map planned_step steps @ g x"
    using Cons.prems(1) [of x steps s1] Cons.prems(2) one by simp
  have "numbered steps' \<and> map planned_step steps' = map planned_step s1 @ concat (map g xs)"
    using Cons.IH [OF _ _ rest] Cons.prems(1) s1 by (meson list.set_intros(2))
  then show ?case using s1 by simp
qed simp

definition capture_phase :: "'p capture_plan \<Rightarrow> 'p planned_step list" where
  "capture_phase captures = map (\<lambda>c. (Step_capture_old, capture_path c, None)) (capture_requests captures)"

definition staging_phase ::
  "('p, 'o) environment \<Rightarrow> package_image option \<Rightarrow> ('p, 'sel) payload_plan option \<Rightarrow>
   'p planned_step list" where
  "staging_phase E img payloads =
     (case (payloads, img) of
        (Some p, Some i) \<Rightarrow>
          map (\<lambda>n. (Step_stage_payload, projr (parse_path E (entry_path (the (image_entry i n)))), Some n))
            (sort_unique (List.map_filter requirement_payload (payload_requirements p)))
      | _ \<Rightarrow> [])"

definition rejected_phase :: "('p, 'o) operation_plan \<Rightarrow> 'p planned_step list" where
  "rejected_phase plan = map (\<lambda>d. (Step_publish_rejected, decision_path d, decision_entry d))
     (filter (\<lambda>d. decision_rejected d \<noteq> No_rejected) (plan_paths plan))"

definition active_phase :: "'p active_node list \<Rightarrow> 'p planned_step list" where
  "active_phase ordered = map (\<lambda>n. (Step_publish_active, node_path n, node_incoming n)) ordered"

definition observation_phase :: "('p, 'o) operation_plan \<Rightarrow> 'p planned_step list" where
  "observation_phase plan = map (\<lambda>d. (Step_observe_result, decision_path d, None)) (plan_paths plan)"

lemma stage_payload_steps_Inr:
  assumes "stage_payload_steps E img payloads steps = Inr steps'" and "numbered steps"
  shows "numbered steps' \<and> map planned_step steps' = map planned_step steps @ staging_phase E img payloads"
proof (cases payloads)
  case (Some p)
  then obtain i where i: "img = Some i"
    using assms(1) by (auto simp: stage_payload_steps_def Let_def split: option.splits)
  have run: "rfold (stage_payload_step E i)
      (sort_unique (List.map_filter requirement_payload (payload_requirements p))) steps = Inr steps'"
    using assms(1) by (auto simp: stage_payload_steps_def Some i Let_def split: if_splits)
  have one: "numbered s' \<and> map planned_step s' = map planned_step s @
      [(Step_stage_payload, projr (parse_path E (entry_path (the (image_entry i n)))), Some n)]"
    if "numbered s" "stage_payload_step E i n s = Inr s'" for n s s'
    using that append_schedule_step_Inr [of Step_stage_payload _ "Some n" s s']
    by (auto simp: stage_payload_step_def Let_def rbind_Inr_iff split: option.splits if_splits)
  show ?thesis
    using rfold_schedule_steps [OF one assms(2) run] by (simp add: staging_phase_def Some i concat_map_singleton)
qed (use assms in \<open>simp add: stage_payload_steps_def staging_phase_def\<close>)

lemma make_schedule_Inr: "make_schedule steps = Inr s \<longleftrightarrow> numbered steps \<and> s = steps"
  by (auto simp: make_schedule_def numbered_def)

lemma prepare_schedule_phases:
  assumes "prepare_schedule E plan img payloads captures = Inr steps"
  obtains nodes ordered where "active_nodes E plan img = Inr nodes"
    and "order_active_nodes E nodes img = Inr ordered" and "numbered steps"
    and "map planned_step steps = capture_phase captures @ staging_phase E img payloads @
      rejected_phase plan @ active_phase ordered @ observation_phase plan"
proof -
  from assms obtain s1 s2 s3 nodes ordered s4 where
    r1: "rfold (\<lambda>c. append_schedule_step Step_capture_old (capture_path c) None)
           (capture_requests captures) [] = Inr s1"
    and r2: "stage_payload_steps E img payloads s1 = Inr s2"
    and r3: "rfold (\<lambda>d steps. if decision_rejected d = No_rejected then Inr steps
              else append_schedule_step Step_publish_rejected (decision_path d) (decision_entry d) steps)
              (plan_paths plan) s2 = Inr s3"
    and nodes: "active_nodes E plan img = Inr nodes" "order_active_nodes E nodes img = Inr ordered"
    and r4: "rfold (\<lambda>n. append_schedule_step Step_publish_active (node_path n) (node_incoming n))
              ordered s3 = Inr s4"
    and r5: "rfold (\<lambda>d. append_schedule_step Step_observe_result (decision_path d) None)
              (plan_paths plan) s4 = Inr steps"
    unfolding prepare_schedule_def rbind_Inr_iff make_schedule_Inr by blast
  have 1: "numbered s1 \<and> map planned_step s1 = capture_phase captures"
    using rfold_schedule_steps [OF append_schedule_step_Inr numbered_Nil r1]
    by (simp add: capture_phase_def concat_map_singleton)
  have 2: "numbered s2 \<and> map planned_step s2 = map planned_step s1 @ staging_phase E img payloads"
    using stage_payload_steps_Inr [OF r2] 1 by simp
  have one: "numbered s' \<and> map planned_step s' = map planned_step s @
      (if decision_rejected d = No_rejected then []
       else [(Step_publish_rejected, decision_path d, decision_entry d)])"
    if "numbered s" "(if decision_rejected d = No_rejected then Inr s
      else append_schedule_step Step_publish_rejected (decision_path d) (decision_entry d) s) = Inr s'"
    for d s s'
    using that by (auto split: if_splits dest: append_schedule_step_Inr)
  have flat: "concat (map (\<lambda>d. if decision_rejected d = No_rejected then []
       else [(Step_publish_rejected, decision_path d, decision_entry d)]) ds) =
     map (\<lambda>d. (Step_publish_rejected, decision_path d, decision_entry d))
       (filter (\<lambda>d. decision_rejected d \<noteq> No_rejected) ds)" for ds :: "('a, 'b) path_decision list"
    by (induction ds) auto
  have "numbered s3 \<and> map planned_step s3 = map planned_step s2 @
      concat (map (\<lambda>d. if decision_rejected d = No_rejected then []
        else [(Step_publish_rejected, decision_path d, decision_entry d)]) (plan_paths plan))"
    by (rule rfold_schedule_steps [OF _ _ r3]) (use one 2 in blast)+
  then have 3: "numbered s3 \<and> map planned_step s3 = map planned_step s2 @ rejected_phase plan"
    unfolding flat rejected_phase_def .
  have 4: "numbered s4 \<and> map planned_step s4 = map planned_step s3 @ active_phase ordered"
    using rfold_schedule_steps [OF append_schedule_step_Inr _ r4] 3
    by (simp add: active_phase_def concat_map_singleton)
  have "numbered steps \<and> map planned_step steps = map planned_step s4 @ observation_phase plan"
    using rfold_schedule_steps [OF append_schedule_step_Inr _ r5] 4
    by (simp add: observation_phase_def concat_map_singleton)
  with 1 2 3 4 nodes that show ?thesis by simp
qed

lemma active_node_of_Inr:
  "active_node_of E img d = Inr x \<Longrightarrow>
     (if active_mechanism_required (decision_active d)
      then \<exists>n. x = Some n \<and> node_path n = decision_path d \<and> node_incoming n = decision_entry d \<and>
             node_outcome n = decision_active d
      else x = None)"
  by (auto simp: active_node_of_def rbind_Inr_iff split: if_splits)

lemma active_nodes_decisions:
  assumes "active_nodes E plan img = Inr nodes"
  shows "map (\<lambda>n. (node_path n, node_incoming n, node_outcome n)) nodes =
    map (\<lambda>d. (decision_path d, decision_entry d, decision_active d))
      (filter (\<lambda>d. active_mechanism_required (decision_active d)) (plan_paths plan))"
proof -
  have "map (\<lambda>n. (node_path n, node_incoming n, node_outcome n)) (List.map_filter id xs) =
    map (\<lambda>d. (decision_path d, decision_entry d, decision_active d))
      (filter (\<lambda>d. active_mechanism_required (decision_active d)) ds)"
    if "rmap (active_node_of E img) ds = Inr xs" for ds xs
    using that
  proof (induction ds arbitrary: xs)
    case (Cons d ds)
    from Cons.prems obtain x ys where x: "active_node_of E img d = Inr x"
      and ys: "rmap (active_node_of E img) ds = Inr ys" and xs: "xs = x # ys"
      by (auto simp: result_simps)
    show ?case using Cons.IH [OF ys] active_node_of_Inr [OF x]
      by (auto simp: xs List.map_filter_simps split: if_splits)
  qed (simp add: List.map_filter_simps)
  then show ?thesis using assms by (auto simp: active_nodes_def rbind_Inr_iff)
qed

section \<open>Order across the phases\<close>

fun phase_rank :: "effect_step_kind \<Rightarrow> nat" where
  "phase_rank Step_capture_old = 0"
| "phase_rank Step_stage_payload = 1"
| "phase_rank Step_publish_rejected = 2"
| "phase_rank Step_publish_active = 3"
| "phase_rank Step_observe_result = 4"

lemmas phase_defs = capture_phase_def staging_phase_def rejected_phase_def active_phase_def
  observation_phase_def

lemma phase_kinds:
  "x \<in> set (capture_phase c) \<Longrightarrow> fst x = Step_capture_old"
  "x \<in> set (staging_phase E img p) \<Longrightarrow> fst x = Step_stage_payload"
  "x \<in> set (rejected_phase plan) \<Longrightarrow> fst x = Step_publish_rejected"
  "x \<in> set (active_phase ordered) \<Longrightarrow> fst x = Step_publish_active"
  "x \<in> set (observation_phase plan) \<Longrightarrow> fst x = Step_observe_result"
  by (auto simp: phase_defs split: option.splits)

lemma sorted_ranks:
  assumes "\<And>x. x \<in> set xs \<Longrightarrow> r x = a"
    and "sorted (map r ys) \<and> (\<forall>y \<in> set ys. b \<le> r y)" and "a \<le> (b::nat)"
  shows "sorted (map r (xs @ ys)) \<and> (\<forall>y \<in> set (xs @ ys). a \<le> r y)"
proof -
  have "sorted (map r xs)" using assms(1) by (induction xs) auto
  then show ?thesis using assms by (auto simp: sorted_append intro: order_trans)
qed

lemma schedule_ranked:
  assumes "prepare_schedule E plan img payloads captures = Inr steps"
  shows "sorted (map (\<lambda>s. phase_rank (schedule_kind s)) steps)"
proof -
  obtain ordered where steps: "map planned_step steps = capture_phase captures @
      staging_phase E img payloads @ rejected_phase plan @ active_phase ordered @ observation_phase plan"
    by (rule prepare_schedule_phases [OF assms])
  let ?r = "\<lambda>x :: 'a planned_step. phase_rank (fst x)"
  have 5: "sorted (map ?r (observation_phase plan @ [])) \<and> (\<forall>y \<in> set (observation_phase plan @ []). 4 \<le> ?r y)"
    by (rule sorted_ranks [where b = 4]) (simp_all add: phase_kinds)
  have 4: "sorted (map ?r (active_phase ordered @ observation_phase plan)) \<and>
      (\<forall>y \<in> set (active_phase ordered @ observation_phase plan). 3 \<le> ?r y)"
    by (rule sorted_ranks [OF _ 5 [unfolded append_Nil2]]) (simp_all add: phase_kinds)
  have 3: "sorted (map ?r (rejected_phase plan @ active_phase ordered @ observation_phase plan)) \<and>
      (\<forall>y \<in> set (rejected_phase plan @ active_phase ordered @ observation_phase plan). 2 \<le> ?r y)"
    by (rule sorted_ranks [OF _ 4]) (simp_all add: phase_kinds)
  have 2: "sorted (map ?r (staging_phase E img payloads @ rejected_phase plan @ active_phase ordered @
        observation_phase plan)) \<and>
      (\<forall>y \<in> set (staging_phase E img payloads @ rejected_phase plan @ active_phase ordered @
        observation_phase plan). 1 \<le> ?r y)"
    by (rule sorted_ranks [OF _ 3]) (simp_all add: phase_kinds)
  have "sorted (map ?r (map planned_step steps)) \<and> (\<forall>y \<in> set (map planned_step steps). 0 \<le> ?r y)"
    unfolding steps by (rule sorted_ranks [OF _ 2]) (simp_all add: phase_kinds)
  then show ?thesis by (simp add: comp_def planned_step_def)
qed

lemma earlier_phase_precedes:
  assumes "prepare_schedule E plan img payloads captures = Inr steps" and "i < length steps"
    and "x \<in> set (map planned_step steps)" and "phase_rank (fst x) < phase_rank (schedule_kind (steps ! i))"
  shows "\<exists>j < i. planned_step (steps ! j) = x"
proof -
  obtain j where j: "j < length steps" "planned_step (steps ! j) = x"
    using assms(3) by (auto simp: in_set_conv_nth)
  have "\<not> i \<le> j"
  proof
    assume "i \<le> j"
    then have "phase_rank (schedule_kind (steps ! i)) \<le> phase_rank (schedule_kind (steps ! j))"
      using sorted_nth_mono [OF schedule_ranked [OF assms(1)], of i j] j(1) assms(2) by simp
    then show False using assms(4) j(2) by (auto simp: planned_step_def)
  qed
  then show ?thesis using j(2) by (intro exI [of _ j]) simp
qed

lemma prepare_schedule_image:
  assumes "prepare_schedule E plan img payloads captures = Inr steps" and "payloads = Some p"
  shows "img \<noteq> None"
proof
  assume "img = None"
  then have "stage_payload_steps E img payloads s \<noteq> Inr s'" for s s'
    by (simp add: stage_payload_steps_def assms(2) Let_def)
  then show False using assms(1) by (auto simp: prepare_schedule_def rbind_Inr_iff)
qed

text \<open>
  C26: a prepared schedule numbers its steps consecutively and consists of the captures of the
  capture plan, the staging of the payloads, one publication for every decision with a rejected
  outcome, the publications of the active nodes, which are exactly the decisions that require the
  active mechanism, and one observation for every decision, in this order.
\<close>

theorem schedule_complete:
  assumes "prepare_schedule E plan img payloads captures = Inr steps"
  shows "map schedule_ordinal steps = map word_of_nat [0..<length steps] \<and>
    (\<exists>staged active. map planned_step steps =
       map (\<lambda>c. (Step_capture_old, capture_path c, None)) (capture_requests captures) @ staged @
       map (\<lambda>d. (Step_publish_rejected, decision_path d, decision_entry d))
         (filter (\<lambda>d. decision_rejected d \<noteq> No_rejected) (plan_paths plan)) @ active @
       map (\<lambda>d. (Step_observe_result, decision_path d, None)) (plan_paths plan) \<and>
       (\<forall>x \<in> set staged. fst x = Step_stage_payload) \<and>
       (payloads = None \<longrightarrow> staged = []) \<and>
       (\<forall>p. payloads = Some p \<longrightarrow> map (\<lambda>x. snd (snd x)) staged =
          map Some (sort_unique (List.map_filter requirement_payload (payload_requirements p)))) \<and>
       mset active = mset (map (\<lambda>d. (Step_publish_active, decision_path d, decision_entry d))
         (filter (\<lambda>d. active_mechanism_required (decision_active d)) (plan_paths plan))))"
proof -
  obtain nodes ordered where nodes: "active_nodes E plan img = Inr nodes"
    and ordered: "order_active_nodes E nodes img = Inr ordered" and num: "numbered steps"
    and steps: "map planned_step steps = capture_phase captures @ staging_phase E img payloads @
      rejected_phase plan @ active_phase ordered @ observation_phase plan"
    by (rule prepare_schedule_phases [OF assms])
  have "active_phase nodes = map (\<lambda>(p, e, t). (Step_publish_active, p, e))
      (map (\<lambda>n. (node_path n, node_incoming n, node_outcome n)) nodes)"
    by (simp add: active_phase_def)
  also have "\<dots> = map (\<lambda>d. (Step_publish_active, decision_path d, decision_entry d))
         (filter (\<lambda>d. active_mechanism_required (decision_active d)) (plan_paths plan))"
    unfolding active_nodes_decisions [OF nodes] by simp
  finally have nodes_phase: "active_phase nodes = \<dots>" .
  have "mset (active_phase ordered) = mset (active_phase nodes)"
    using order_active_nodes_mset [OF ordered] by (simp add: active_phase_def)
  note active = this [unfolded nodes_phase]
  have staged: "staging_phase E img None = []" by (simp add: staging_phase_def)
  have ids: "map (\<lambda>x. snd (snd x)) (staging_phase E img payloads) =
      map Some (sort_unique (List.map_filter requirement_payload (payload_requirements p)))"
    if "payloads = Some p" for p
  proof -
    have "img \<noteq> None" by (rule prepare_schedule_image [OF assms that])
    then show ?thesis using that by (auto simp: staging_phase_def)
  qed
  show ?thesis
    using num steps active phase_kinds(2) [of _ E img payloads] staged ids
    unfolding numbered_def capture_phase_def rejected_phase_def observation_phase_def by blast
qed

lemma schedule_members:
  assumes "prepare_schedule E plan img payloads captures = Inr steps"
  shows "r \<in> set (capture_requests captures) \<Longrightarrow>
      (Step_capture_old, capture_path r, None) \<in> set (map planned_step steps)"
    and "payloads = Some p \<Longrightarrow> img = Some i \<Longrightarrow> q \<in> set (payload_requirements p) \<Longrightarrow>
      requirement_payload q = Some n \<Longrightarrow>
      \<exists>path. (Step_stage_payload, path, Some n) \<in> set (map planned_step steps)"
    and "(Step_publish_active, path, e) \<in> set (map planned_step steps) \<Longrightarrow>
      \<exists>d \<in> set (plan_paths plan). decision_path d = path \<and>
        active_mechanism_required (decision_active d)"
proof -
  obtain nodes ordered where nodes: "active_nodes E plan img = Inr nodes"
    and ordered: "order_active_nodes E nodes img = Inr ordered"
    and steps: "map planned_step steps = capture_phase captures @ staging_phase E img payloads @
      rejected_phase plan @ active_phase ordered @ observation_phase plan"
    by (rule prepare_schedule_phases [OF assms])
  show "(Step_capture_old, capture_path r, None) \<in> set (map planned_step steps)"
    if "r \<in> set (capture_requests captures)"
    using that unfolding steps by (auto simp: capture_phase_def)
  show "\<exists>path. (Step_stage_payload, path, Some n) \<in> set (map planned_step steps)"
    if "payloads = Some p" "img = Some i" "q \<in> set (payload_requirements p)"
      "requirement_payload q = Some n"
    using that unfolding steps by (force simp: staging_phase_def map_filter_set)
  show "\<exists>d \<in> set (plan_paths plan). decision_path d = path \<and>
        active_mechanism_required (decision_active d)"
    if mem: "(Step_publish_active, path, e) \<in> set (map planned_step steps)"
  proof -
    from mem obtain n where n: "n \<in> set ordered" "node_path n = path"
      unfolding steps by (auto simp: active_phase_def dest: phase_kinds)
    have "set ordered = set nodes"
      using order_active_nodes_mset [OF ordered] by (metis set_mset_mset)
    with n have "path \<in> fst ` set (map (\<lambda>n. (node_path n, node_incoming n, node_outcome n)) nodes)"
      by (force simp: image_image)
    then show ?thesis unfolding active_nodes_decisions [OF nodes] by auto
  qed
qed

text \<open>
  C11: nothing is overwritten before it is saved.  In the schedule of a prepared plan with recovery
  selected, the publication of an active effect on a path whose object was present when planned
  comes after a capture of that path; and, whatever the recovery policy, the publication of an old
  object into the rejected store comes after its capture.
\<close>

theorem capture_precedes_publication:
  assumes "prepare_captures plan control = Inr c"
    and "prepare_schedule E plan img payloads c = Inr steps" and "i < length steps"
    and "preconditions_find (plan_preconditions plan) (schedule_path (steps ! i)) = Some prior"
    and "(schedule_kind (steps ! i) = Step_publish_active \<and> recovery_selected control \<and>
            planned_present (precondition_observation prior)) \<or>
         (schedule_kind (steps ! i) = Step_publish_rejected \<and>
            (\<exists>d \<in> set (plan_paths plan). decision_path d = schedule_path (steps ! i) \<and>
               decision_rejected d = Stage_old))"
  shows "\<exists>j < i. schedule_kind (steps ! j) = Step_capture_old \<and>
    schedule_path (steps ! j) = schedule_path (steps ! i)"
proof -
  note cap = prepare_captures_requests [OF assms(1)]
  have later: "0 < phase_rank (schedule_kind (steps ! i))" using assms(5) by auto
  have "\<exists>d \<in> set (plan_paths plan). decision_path d = schedule_path (steps ! i) \<and>
      (decision_rejected d = Stage_old \<or> recovery_selected control \<and>
         active_effect_may_destroy_old (decision_active d) (precondition_observation prior))"
  proof (cases "schedule_kind (steps ! i) = Step_publish_active")
    case True
    have "planned_step (steps ! i) \<in> set (map planned_step steps)" using assms(3) by simp
    then obtain d where "d \<in> set (plan_paths plan)" "decision_path d = schedule_path (steps ! i)"
      "active_mechanism_required (decision_active d)"
      using schedule_members(3) [OF assms(2)] True by (fastforce simp: planned_step_def)
    moreover from this have "active_effect_may_destroy_old (decision_active d) (precondition_observation prior)"
      using assms(5) True by (auto simp: active_effect_may_destroy_old_def active_mechanism_required_def
          split: planned_active_outcome.splits)
    ultimately show ?thesis using assms(5) True by auto
  qed (use assms(5) in auto)
  then obtain d where d: "d \<in> set (plan_paths plan)" "decision_path d = schedule_path (steps ! i)"
    "decision_rejected d = Stage_old \<or> recovery_selected control \<and>
       active_effect_may_destroy_old (decision_active d) (precondition_observation prior)" by blast
  from cap(3) [OF d(1)] obtain x
    where x: "capture_decision (plan_preconditions plan) (recovery_selected control) d = Inr x" by blast
  have "x \<noteq> None"
  proof
    assume "x = None"
    from x [unfolded this capture_decision_None] d(2,3) assms(4) show False by auto
  qed
  then obtain r where r: "x = Some r" by blast
  have path: "capture_path r = schedule_path (steps ! i)"
    using x d(2) by (auto simp: r capture_decision_Some)
  have "r \<in> set (capture_requests c)" using cap(2) d(1) x r by blast
  from earlier_phase_precedes [OF assms(2,3) schedule_members(1) [OF assms(2) this]] later
  show ?thesis by (auto simp: planned_step_def path)
qed

text \<open>
  C12: no incoming object is published before its content is staged: when the entry of a decision
  needs the payload of a regular entry, be it its own or its anchor's, the staging step of that
  payload comes before the decision's publication, active or rejected.
\<close>

theorem payload_staged_before_publication:
  assumes "prepare_payloads E from_ids plan img = Inr p"
    and "prepare_schedule E plan (Some img) (Some p) c = Inr steps" and "i < length steps"
    and "schedule_kind (steps ! i) \<in> {Step_publish_active, Step_publish_rejected}"
    and "d \<in> set (plan_paths plan)" and "decision_path d = schedule_path (steps ! i)"
    and "decision_active d = Activate_incoming \<or> decision_rejected d = Stage_incoming"
    and "decision_entry d = Some number" and "image_entry img number = Some entry"
    and "regular_payload_entry img entry = Inr (Some n)"
  shows "\<exists>j < i. schedule_kind (steps ! j) = Step_stage_payload \<and> schedule_entry (steps ! j) = Some n"
proof -
  note req = prepare_payloads_requirements [OF assms(1)]
  from req(2) [OF assms(5)] assms(7) obtain r where r: "payload_decision E img d = Inr (Some r)"
    by (metis option.exhaust payload_decision_None)
  then have payload: "requirement_payload r = Some n"
    using assms(8-10) by (auto simp: payload_decision_Some)
  have "r \<in> set (payload_requirements p)" using req(1) assms(5) r by blast
  then obtain path where "(Step_stage_payload, path, Some n) \<in> set (map planned_step steps)"
    using schedule_members(2) [OF assms(2) refl refl _ payload] by blast
  from earlier_phase_precedes [OF assms(2,3) this] assms(4) show ?thesis
    by (auto simp: planned_step_def)
qed

definition sample_remove_steps :: "8 word effect_step list" where
  "sample_remove_steps =
     [\<lparr>schedule_ordinal = 0, schedule_kind = Step_capture_old, schedule_path = 1, schedule_entry = None\<rparr>,
      \<lparr>schedule_ordinal = 1, schedule_kind = Step_publish_active, schedule_path = 1, schedule_entry = None\<rparr>,
      \<lparr>schedule_ordinal = 2, schedule_kind = Step_observe_result, schedule_path = 1, schedule_entry = None\<rparr>]"

lemma sample_remove_schedule:
  "prepare_schedule sample_paths sample_plan None (None :: (8 word, unit) payload_plan option)
     sample_captures = Inr sample_remove_steps"
  by code_simp

theorem schedule_complete_witness:
  "\<exists>active. mset active = {#(Step_publish_active, 1 :: 8 word, None :: entry_id option)#} \<and>
     map planned_step sample_remove_steps =
       [(Step_capture_old, 1, None)] @ active @ [(Step_observe_result, 1, None)]"
  using schedule_complete [OF sample_remove_schedule]
  by (auto simp: sample_plan_def active_mechanism_required_def sample_captures_def)

theorem capture_precedes_publication_witness:
  "\<exists>j < 1. schedule_kind (sample_remove_steps ! j) = Step_capture_old \<and>
     schedule_path (sample_remove_steps ! j) = 1"
  using capture_precedes_publication [OF sample_captures_prepared sample_remove_schedule, of 1]
  by (auto simp: sample_plan_def sample_precondition_def recovery_selected_def sample_control_def
      sample_remove_steps_def)

definition sample_install_steps :: "8 word effect_step list" where
  "sample_install_steps =
     [\<lparr>schedule_ordinal = 0, schedule_kind = Step_stage_payload, schedule_path = 1, schedule_entry = Some 3\<rparr>,
      \<lparr>schedule_ordinal = 1, schedule_kind = Step_publish_active, schedule_path = 1, schedule_entry = Some 3\<rparr>,
      \<lparr>schedule_ordinal = 2, schedule_kind = Step_observe_result, schedule_path = 1, schedule_entry = None\<rparr>]"

lemma sample_install_schedule:
  "prepare_schedule sample_paths sample_install (Some sample_image) (Some sample_payloads)
     \<lparr>capture_requests = []\<rparr> = Inr sample_install_steps"
  by code_simp

theorem payload_staged_before_publication_witness:
  "\<exists>j < 1. schedule_kind (sample_install_steps ! j) = Step_stage_payload \<and>
     schedule_entry (sample_install_steps ! j) = Some 3"
  using payload_staged_before_publication [OF sample_payloads_prepared sample_install_schedule, of 1
    "hd (plan_paths sample_install)" 3 sample_entry 3]
  by (simp add: sample_install_def sample_image_def sample_entry_def regular_payload_entry_def
      sample_install_steps_def)

end
