(* ===== verification/Admission.thy ===== *)
theory Admission
  imports Request Precondition Schedule
begin

text \<open>
  Admission (\<open>admission.h\<close>, \<open>admission.cpp\<close>): before a backend transaction is opened, the request,
  the leased state projection, the lease, the backend and the archive must all name the same
  authorities, checked in a fixed order with the first difference reported.  The backend and its
  transaction are records of the observers the checks read.
\<close>

datatype admission_error_code =
  Unsupported_request_schema | Unsupported_plan_schema | Operation_kind_mismatch
| Admission_target_mismatch | Backend_identity_mismatch | Observation_backend_mismatch
| Capability_profile_mismatch | Incomplete_state_projection | Installed_snapshot_mismatch
| Ownership_inventory_mismatch | State_path_universe_mismatch | State_path_owners_mismatch
| Incoming_archive_precondition_missing | Unexpected_incoming_archive_precondition
| Archive_digest_mismatch | Package_image_mismatch | Inspection_receipt_mismatch
| Incoming_entry_missing | Incoming_entry_path_mismatch | Transaction_backend_mismatch
| Transaction_observation_backend_mismatch | Transaction_capability_mismatch
| Transaction_target_mismatch | Transaction_lease_mismatch

datatype 'p admission_error =
  Admission_refused admission_error_code string "'p list"
| Lease_refused lease_error_code

text \<open>The error class sorts its paths and drops repetitions.\<close>

definition refuse_admission ::
  "admission_error_code \<Rightarrow> string \<Rightarrow> 'p::linorder list \<Rightarrow> 'p admission_error + 'v" where
  "refuse_admission code message paths = Inl (Admission_refused code message (sort_unique paths))"

record mutation_backend =
  backend_identity :: digest
  backend_observation :: digest
  backend_capabilities :: digest

record backend_transaction =
  transaction_backend :: digest
  transaction_observation :: digest
  transaction_capabilities :: digest
  transaction_target :: digest
  transaction_lease :: digest
  transaction_nonce :: nonce

definition validate_backend ::
  "target_context \<Rightarrow> mutation_backend \<Rightarrow> 'p::linorder admission_error + unit" where
  "validate_backend target backend =
     (if backend_identity backend \<noteq> context_mutation_backend target
      then refuse_admission Backend_identity_mismatch
        ''application backend does not match target context'' []
      else if backend_observation backend \<noteq> observation_backend target
      then refuse_admission Observation_backend_mismatch
        ''observation backend does not match target context'' []
      else if backend_capabilities backend \<noteq> capabilities target
      then refuse_admission Capability_profile_mismatch
        ''backend capabilities do not match target context'' []
      else Inr ())"

fun validate_state_paths ::
  "('p::linorder, 'o) path_precondition list \<Rightarrow> ('p, 'o) projected_path list \<Rightarrow>
   'p admission_error + unit" where
  "validate_state_paths (e # es) (a # as) =
     (if precondition_path e \<noteq> projected_path a
      then refuse_admission State_path_universe_mismatch
        ''state projection path differs from accepted plan''
        [precondition_path e, projected_path a]
      else if precondition_owners e \<noteq> projected_owners a
      then refuse_admission State_path_owners_mismatch
        ''state projection owners differ from accepted plan'' [precondition_path e]
      else validate_state_paths es as)"
| "validate_state_paths _ _ = Inr ()"

definition validate_state ::
  "('p::linorder, 'o) preconditions \<Rightarrow> ('p, 'o) state_projection \<Rightarrow> 'p admission_error + unit" where
  "validate_state pre state =
     (if projection_completeness state \<noteq> Projection_complete
      then refuse_admission Incomplete_state_projection
        ''application state projection is incomplete'' []
      else if projection_snapshot state \<noteq> preconditions_snapshot pre
      then refuse_admission Installed_snapshot_mismatch
        ''installed snapshot does not match accepted plan'' []
      else if projection_inventory state \<noteq> preconditions_inventory pre
      then refuse_admission Ownership_inventory_mismatch
        ''ownership inventory does not match accepted plan'' []
      else if length (preconditions_paths pre) \<noteq> length (projection_paths state)
      then refuse_admission State_path_universe_mismatch
        ''state projection does not cover the exact plan path universe''
        (map precondition_path (preconditions_paths pre) @ map projected_path (projection_paths state))
      else validate_state_paths (preconditions_paths pre) (projection_paths state))"

definition lift_lease :: "lease_error_code + unit \<Rightarrow> 'p admission_error + unit" where
  "lift_lease r = (case r of Inl e \<Rightarrow> Inl (Lease_refused e) | Inr u \<Rightarrow> Inr u)"

definition validate_common ::
  "('p::linorder, 'o) application_request \<Rightarrow> operation_kind \<Rightarrow> ('p, 'o) state_projection \<Rightarrow>
   mutation_lease \<Rightarrow> mutation_backend \<Rightarrow> 'p admission_error + unit" where
  "validate_common request expected_kind state lease backend =
     (if request_schema request \<noteq> 1
      then refuse_admission Unsupported_request_schema ''unsupported application request schema'' []
      else if plan_schema (request_plan request) \<noteq> 1
      then refuse_admission Unsupported_plan_schema
        ''unsupported package operation plan schema'' []
      else if plan_kind (request_plan request) \<noteq> expected_kind
      then refuse_admission Operation_kind_mismatch
        ''application request contains another operation kind'' []
      else if preconditions_target (plan_preconditions (request_plan request)) \<noteq>
              context_target (request_target request)
      then refuse_admission Admission_target_mismatch
        ''application target no longer matches accepted plan'' []
      else rbind (lift_lease (validate_lease (request_target request) state lease)) (\<lambda>_.
        rbind (validate_backend (request_target request) backend) (\<lambda>_.
        validate_state (plan_preconditions (request_plan request)) state)))"

fun validate_entries ::
  "('p::linorder, 'o) environment \<Rightarrow> package_image \<Rightarrow> ('p, 'o) path_decision list \<Rightarrow>
   'p admission_error + unit" where
  "validate_entries E img [] = Inr ()"
| "validate_entries E img (d # ds) =
     (case decision_entry d of
        None \<Rightarrow> validate_entries E img ds
      | Some number \<Rightarrow>
          (case image_entry img number of
             None \<Rightarrow> refuse_admission Incoming_entry_missing
               ''plan cites an absent incoming image entry'' [decision_path d]
           | Some entry \<Rightarrow>
               if entry_path entry \<noteq> path_string E (decision_path d)
               then refuse_admission Incoming_entry_path_mismatch
                 ''plan incoming entry resolves to another logical path'' [decision_path d]
               else validate_entries E img ds))"

definition validate_incoming_archive ::
  "('p::linorder, 'o) environment \<Rightarrow> ('p, 'o) operation_plan \<Rightarrow> incoming_authority \<Rightarrow> package_archive \<Rightarrow>
   'p admission_error + unit" where
  "validate_incoming_archive E plan incoming archive =
     (let admitted = projection_image (incoming_projection incoming);
          img = archive_image archive;
          receipt = archive_receipt archive in
      case preconditions_incoming (plan_preconditions plan) of
        None \<Rightarrow> refuse_admission Incoming_archive_precondition_missing
          ''incoming operation plan lacks archive preconditions'' []
      | Some expected \<Rightarrow>
          if receipt_archive receipt \<noteq> receipt_archive (archive_receipt admitted)
          then refuse_admission Archive_digest_mismatch
            ''replay archive differs from request-bound build authority'' []
          else if image_identity img \<noteq> image_identity (archive_image admitted)
          then refuse_admission Package_image_mismatch
            ''replay image differs from request-bound build authority'' []
          else if receipt_identity receipt \<noteq> receipt_identity (archive_receipt admitted)
          then refuse_admission Inspection_receipt_mismatch
            ''replay inspection differs from request-bound build authority'' []
          else if receipt_archive receipt \<noteq> precondition_archive expected
          then refuse_admission Archive_digest_mismatch
            ''replay source archive digest differs from accepted plan'' []
          else if image_identity img \<noteq> precondition_image expected \<or>
                  receipt_image receipt \<noteq> image_identity img \<or>
                  receipt_entries receipt \<noteq> image_size img
          then refuse_admission Package_image_mismatch
            ''replay source image differs from accepted plan'' []
          else if receipt_identity receipt \<noteq> precondition_inspection expected
          then refuse_admission Inspection_receipt_mismatch
            ''archive inspection receipt differs from accepted plan'' []
          else validate_entries E img (plan_paths plan))"

text \<open>The overloads for installation and upgrade requests, and the one for removals.\<close>

definition validate_incoming_admission ::
  "('p::linorder, 'o) environment \<Rightarrow> ('p, 'o) application_request \<Rightarrow> incoming_authority \<Rightarrow>
   ('p, 'o) state_projection \<Rightarrow> mutation_lease \<Rightarrow> mutation_backend \<Rightarrow> package_archive \<Rightarrow>
   'p admission_error + unit" where
  "validate_incoming_admission E request incoming state lease backend archive =
     rbind (validate_common request (request_kind request) state lease backend) (\<lambda>_.
     validate_incoming_archive E (request_plan request) incoming archive)"

definition validate_removal_admission ::
  "('p::linorder, 'o) application_request \<Rightarrow> ('p, 'o) state_projection \<Rightarrow> mutation_lease \<Rightarrow>
   mutation_backend \<Rightarrow> 'p admission_error + unit" where
  "validate_removal_admission request state lease backend =
     rbind (validate_common request Remove state lease backend) (\<lambda>_.
     if preconditions_incoming (plan_preconditions (request_plan request)) \<noteq> None
     then refuse_admission Unexpected_incoming_archive_precondition
       ''removal plan contains incoming archive authority'' []
     else Inr ())"

definition validate_transaction ::
  "target_context \<Rightarrow> mutation_lease \<Rightarrow> mutation_backend \<Rightarrow> backend_transaction \<Rightarrow>
   'p::linorder admission_error + unit" where
  "validate_transaction target lease backend transaction =
     rbind (validate_backend target backend) (\<lambda>_.
     if transaction_backend transaction \<noteq> context_mutation_backend target
     then refuse_admission Transaction_backend_mismatch
       ''backend transaction reports another mutation backend'' []
     else if transaction_observation transaction \<noteq> observation_backend target
     then refuse_admission Transaction_observation_backend_mismatch
       ''backend transaction reports another observation backend'' []
     else if transaction_capabilities transaction \<noteq> capabilities target
     then refuse_admission Transaction_capability_mismatch
       ''backend transaction reports another capability profile'' []
     else if transaction_target transaction \<noteq> context_identity target
     then refuse_admission Transaction_target_mismatch
       ''backend transaction belongs to another target context'' []
     else if transaction_lease transaction \<noteq> lease_identity lease
     then refuse_admission Transaction_lease_mismatch
       ''backend transaction belongs to another lease acquisition'' []
     else Inr ())"

section \<open>What admission establishes\<close>

definition state_agrees :: "('p::linorder, 'o) preconditions \<Rightarrow> ('p, 'o) state_projection \<Rightarrow> bool" where
  "state_agrees pre state \<longleftrightarrow>
     projection_completeness state = Projection_complete \<and>
     projection_snapshot state = preconditions_snapshot pre \<and>
     projection_inventory state = preconditions_inventory pre \<and>
     map (\<lambda>e. (precondition_path e, precondition_owners e)) (preconditions_paths pre) =
       map (\<lambda>a. (projected_path a, projected_owners a)) (projection_paths state)"

definition backend_agrees :: "target_context \<Rightarrow> mutation_backend \<Rightarrow> bool" where
  "backend_agrees target backend \<longleftrightarrow>
     backend_identity backend = context_mutation_backend target \<and>
     backend_observation backend = observation_backend target \<and>
     backend_capabilities backend = capabilities target"

definition entry_resolves :: "('p, 'o) environment \<Rightarrow> package_image \<Rightarrow> ('p, 'o) path_decision \<Rightarrow> bool" where
  "entry_resolves E img d \<longleftrightarrow>
     pred_option (\<lambda>n. \<exists>e. image_entry img n = Some e \<and> entry_path e = path_string E (decision_path d))
       (decision_entry d)"

lemma refuse_admission_Inr [simp]: "refuse_admission code message paths \<noteq> Inr u"
  by (simp add: refuse_admission_def)

lemma validate_state_paths_Inr:
  "length es = length as \<Longrightarrow> validate_state_paths es as = Inr u \<longleftrightarrow>
     map (\<lambda>e. (precondition_path e, precondition_owners e)) es =
       map (\<lambda>a. (projected_path a, projected_owners a)) as"
  by (induction es as rule: list_induct2) auto

lemma validate_state_Inr: "validate_state pre state = Inr u \<longleftrightarrow> state_agrees pre state"
  by (auto simp: validate_state_def state_agrees_def validate_state_paths_Inr
      dest: arg_cong [where f = length])

lemma validate_backend_Inr: "validate_backend target backend = Inr u \<longleftrightarrow> backend_agrees target backend"
  by (auto simp: validate_backend_def backend_agrees_def)

lemma lift_lease_Inr [simp]: "lift_lease r = Inr u \<longleftrightarrow> r = Inr u"
  by (auto simp: lift_lease_def split: sum.splits)

lemma validate_entries_Inr: "validate_entries E img ds = Inr u \<longleftrightarrow> (\<forall>d \<in> set ds. entry_resolves E img d)"
  by (induction ds) (auto simp: entry_resolves_def split: option.splits)

lemma validate_common_Inr:
  "validate_common request kind state lease backend = Inr u \<longleftrightarrow>
     request_schema request = 1 \<and> plan_schema (request_plan request) = 1 \<and>
     plan_kind (request_plan request) = kind \<and>
     preconditions_target (plan_preconditions (request_plan request)) =
       context_target (request_target request) \<and>
     validate_lease (request_target request) state lease = Inr () \<and>
     backend_agrees (request_target request) backend \<and>
     state_agrees (plan_preconditions (request_plan request)) state"
  by (auto simp: validate_common_def rbind_Inr_iff validate_backend_Inr validate_state_Inr)

lemma validate_incoming_archive_Inr:
  "validate_incoming_archive E plan incoming archive = Inr u \<longleftrightarrow>
     (\<exists>expected. preconditions_incoming (plan_preconditions plan) = Some expected \<and>
        receipt_archive (archive_receipt archive) =
          receipt_archive (archive_receipt (projection_image (incoming_projection incoming))) \<and>
        image_identity (archive_image archive) =
          image_identity (archive_image (projection_image (incoming_projection incoming))) \<and>
        receipt_identity (archive_receipt archive) =
          receipt_identity (archive_receipt (projection_image (incoming_projection incoming))) \<and>
        receipt_archive (archive_receipt archive) = precondition_archive expected \<and>
        image_identity (archive_image archive) = precondition_image expected \<and>
        receipt_image (archive_receipt archive) = image_identity (archive_image archive) \<and>
        receipt_entries (archive_receipt archive) = image_size (archive_image archive) \<and>
        receipt_identity (archive_receipt archive) = precondition_inspection expected \<and>
        (\<forall>d \<in> set (plan_paths plan). entry_resolves E (archive_image archive) d))"
  by (auto simp: validate_incoming_archive_def Let_def validate_entries_Inr split: option.splits)

lemma validate_transaction_Inr:
  "validate_transaction target lease backend t = Inr u \<longleftrightarrow>
     backend_agrees target backend \<and> transaction_backend t = context_mutation_backend target \<and>
     transaction_observation t = observation_backend target \<and>
     transaction_capabilities t = capabilities target \<and>
     transaction_target t = context_identity target \<and> transaction_lease t = lease_identity lease"
  by (auto simp: validate_transaction_def rbind_Inr_iff validate_backend_Inr)

text \<open>A projection that agrees with the preconditions answers every path with the planned owners.\<close>

lemma agreeing_owners:
  assumes "state_agrees pre state" and "projection_sorted state" and "item \<in> set (preconditions_paths pre)"
  shows "\<exists>a. find_projected state (precondition_path item) = Some a \<and>
    projected_path a = precondition_path item \<and> projected_owners a = precondition_owners item"
proof -
  have "(precondition_path item, precondition_owners item) \<in>
      set (map (\<lambda>a. (projected_path a, projected_owners a)) (projection_paths state))"
    using assms(1,3) unfolding state_agrees_def by (metis (no_types, lifting) image_eqI list.set_map)
  then obtain a where a: "a \<in> set (projection_paths state)" "projected_path a = precondition_path item"
    "projected_owners a = precondition_owners item" by auto
  then have "find_projected state (precondition_path item) = Some a"
    using projection_table.lookup_Some_iff [OF assms(2)] by blast
  then show ?thesis using a by blast
qed

text \<open>
  C22: one universe of authorities.  When an install or upgrade request was built, its admission
  succeeds and the transaction is accepted, then the lease is held on the request's target, the
  projection was established under the same lease acquisition the transaction reports, the projection
  is complete and gives every planned path its planned owners, the backend, the transaction and the
  target context name the same backends and capabilities, the archive is the one the sealed build
  produced and the plan expects, and every incoming entry the plan cites exists in the archive at the
  decision's own path.
\<close>

theorem admission_binds_one_universe:
  assumes "make_incoming_request E kind plan facts incoming target control = Inr request"
    and "validate_incoming_admission E request incoming state lease backend archive = Inr ()"
    and "validate_transaction target lease backend t = Inr ()" and "projection_sorted state"
  shows "plan_kind plan = kind \<and> lease_held lease \<and> lease_target lease = context_identity target \<and>
    transaction_lease t = projection_lease state \<and> transaction_target t = context_identity target \<and>
    transaction_backend t = backend_identity backend \<and>
    transaction_capabilities t = backend_capabilities backend \<and>
    projection_completeness state = Projection_complete \<and>
    (\<forall>item \<in> set (preconditions_paths (plan_preconditions plan)). \<exists>a.
       find_projected state (precondition_path item) = Some a \<and>
       projected_owners a = precondition_owners item) \<and>
    receipt_archive (archive_receipt archive) = inputs_expected_archive (facts_inputs facts) \<and>
    image_identity (archive_image archive) = inputs_image (facts_inputs facts) \<and>
    receipt_image (archive_receipt archive) = image_identity (archive_image archive) \<and>
    (\<forall>d \<in> set (plan_paths plan). entry_resolves E (archive_image archive) d)"
proof -
  from assms(1) have request: "request_plan request = plan" "request_target request = target"
    "request_kind request = kind" and incoming: "validate_incoming plan facts incoming = Inr ()"
    by (auto simp: make_incoming_request_def rbind_Inr_iff)
  from assms(2) have common: "validate_common request kind state lease backend = Inr ()"
    and archive: "validate_incoming_archive E plan incoming archive = Inr ()"
    by (auto simp: validate_incoming_admission_def rbind_Inr_iff request)
  from incoming have built:
    "inputs_expected_archive (facts_inputs facts) =
       receipt_archive (archive_receipt (projection_image (incoming_projection incoming)))"
    "inputs_image (facts_inputs facts) =
       image_identity (archive_image (projection_image (incoming_projection incoming)))"
    by (auto simp: validate_incoming_def require_plan_binding_def Let_def rbind_Inr_iff)
  have owners: "\<forall>item \<in> set (preconditions_paths (plan_preconditions plan)). \<exists>a.
       find_projected state (precondition_path item) = Some a \<and>
       projected_owners a = precondition_owners item"
    using common agreeing_owners [OF _ assms(4)] by (auto simp: validate_common_Inr request)
  have complete: "projection_completeness state = Projection_complete"
    using common by (simp add: validate_common_Inr state_agrees_def)
  show ?thesis
    using common archive assms(3) built owners complete
    unfolding validate_common_Inr validate_incoming_archive_Inr validate_transaction_Inr request
    by (auto simp: validate_lease_def rbind_Inr_iff backend_agrees_def)
qed

text \<open>
  C23: the identity of a request binds what it names: for two requests whose records do not collide,
  equal identities mean the same operation class, the same plan, the same incoming authority, or none
  in both, the same target context and the same execution control.
\<close>

theorem request_identity_binds:
  assumes "valid_request E r" and "valid_request E q"
    and "hash E (encode_request r) = hash E (encode_request q) \<longrightarrow> encode_request r = encode_request q"
  shows "request_identity r = request_identity q \<longleftrightarrow>
    request_kind r = request_kind q \<and> plan_identity (request_plan r) = plan_identity (request_plan q) \<and>
    map_option incoming_identity (request_incoming r) = map_option incoming_identity (request_incoming q) \<and>
    context_identity (request_target r) = context_identity (request_target q) \<and>
    control_identity (request_control r) = control_identity (request_control q)"
proof -
  have "request_identity r = request_identity q \<longleftrightarrow> encode_request r = encode_request q"
    using assms by (auto simp: valid_request_def)
  also have "\<dots> \<longleftrightarrow> request_view r = request_view q"
    using assms(1,2) by (intro encode_request_view) (auto simp: valid_request_def)
  finally show ?thesis by (auto simp: request_view_def)
qed

section \<open>A sample universe\<close>

definition sample_release :: package_release where
  "sample_release = \<lparr>release_identity = [1], release_value = [2]\<rparr>"

definition sample_archive :: package_archive where
  "sample_archive = \<lparr>archive_image = sample_image, archive_receipt =
     \<lparr>receipt_archive = [3], receipt_image = [5], receipt_entries = 1, receipt_identity = [4]\<rparr>\<rparr>"

definition sample_incoming :: incoming_authority where
  "sample_incoming = admit_incoming sample_paths
     \<lparr>projection_authority = [], projection_source = [],
      projection_candidate = \<lparr>candidate_identity = [6], candidate_release = sample_release,
        candidate_control = [7]\<rparr>,
      projection_artifact = \<lparr>artifact_digest = [8], artifact_manifest = [9],
        artifact_release = sample_release\<rparr>,
      projection_image = sample_archive\<rparr>"

definition sample_facts :: plan_facts where
  "sample_facts = \<lparr>facts_release = sample_release,
     facts_inputs = \<lparr>inputs_candidate_release = [1], inputs_artifact_release = [1],
       inputs_candidate = [6], inputs_candidate_control = [7], inputs_artifact = [8],
       inputs_artifact_manifest = [9], inputs_expected_archive = [3], inputs_observed_archive = [3],
       inputs_image = [5], inputs_receipt = [4]\<rparr>,
     facts_publication = \<lparr>publication_release = sample_release, publication_candidate = [6],
       publication_control = [7], publication_artifact = [8], publication_manifest = [9]\<rparr>\<rparr>"

definition sample_owned :: "(8 word, 8 word) path_precondition" where
  "sample_owned = \<lparr>precondition_path = 1, precondition_owners = [7],
     precondition_observation = \<lparr>planned_present = False, planned_object = None\<rparr>\<rparr>"

definition sample_admitted_plan :: "(8 word, 8 word) operation_plan" where
  "sample_admitted_plan = sample_install\<lparr>plan_preconditions :=
     \<lparr>preconditions_target = [1], preconditions_snapshot = [2], preconditions_inventory = [3],
      preconditions_paths = [sample_owned],
      preconditions_incoming = Some \<lparr>precondition_archive = [3], precondition_image = [5],
        precondition_inspection = [4]\<rparr>,
      preconditions_find = (\<lambda>p. if p = 1 then Some sample_owned else None)\<rparr>\<rparr>"

definition sample_target :: target_context where
  "sample_target = \<lparr>context_identity = 10, context_target = [1], managed_target = 1, root_view = 2,
     observation_backend = 3, context_mutation_backend = 4, mutation_exclusion_domain = 5,
     active_namespace = 6, rejected_store = 7, staging_namespace = 8, journal_namespace = 9,
     capabilities = 11, lifecycle_executor = None\<rparr>"

definition sample_projected_state :: "(8 word, 8 word) state_projection" where
  "sample_projected_state = \<lparr>projection_identity = 0, projection_lease = 12, projection_snapshot = [2],
     projection_inventory = [3], projection_completeness = Projection_complete,
     projection_paths = [\<lparr>projected_path = 1, projected_owners = [7]\<rparr>], projection_evidence = 0\<rparr>"

definition sample_lease :: mutation_lease where
  "sample_lease = \<lparr>lease_held = True, lease_identity = 12, lease_target = 10, lease_domain = 5\<rparr>"

definition sample_backend :: mutation_backend where
  "sample_backend = \<lparr>backend_identity = 4, backend_observation = 3, backend_capabilities = 11\<rparr>"

definition sample_transaction :: backend_transaction where
  "sample_transaction = \<lparr>transaction_backend = 4, transaction_observation = 3,
     transaction_capabilities = 11, transaction_target = 10, transaction_lease = 12,
     transaction_nonce = 0\<rparr>"

definition sample_request :: "(8 word, 8 word) application_request" where
  "sample_request = \<lparr>request_schema = 1, request_identity = 0, request_kind = Install,
     request_plan = sample_admitted_plan, request_incoming = Some sample_incoming,
     request_target = sample_target, request_control = sample_control\<rparr>"

lemmas sample_universe = sample_release_def sample_archive_def sample_incoming_def sample_facts_def
  sample_owned_def sample_admitted_plan_def sample_target_def sample_projected_state_def sample_lease_def
  sample_backend_def sample_transaction_def sample_request_def admit_incoming_def

lemma sample_request_made:
  "make_incoming_request sample_paths Install sample_admitted_plan sample_facts sample_incoming
     sample_target sample_control = Inr sample_request"
  by (simp add: make_incoming_request_def validate_target_def validate_incoming_def
      require_plan_binding_def sample_universe sample_image_def sample_paths_def)

lemma sample_request_admitted:
  "validate_incoming_admission sample_paths sample_request sample_incoming sample_projected_state sample_lease
     sample_backend sample_archive = Inr ()"
  unfolding validate_incoming_admission_def rbind_Inr_iff validate_common_Inr validate_incoming_archive_Inr
  by (simp add: sample_universe sample_image_def sample_install_def sample_entry_def sample_paths_def
      validate_lease_def validate_lease_scope_def backend_agrees_def state_agrees_def entry_resolves_def)

lemma sample_transaction_accepted:
  "validate_transaction sample_target sample_lease sample_backend sample_transaction =
     (Inr () :: (8 word) admission_error + unit)"
  by (simp add: validate_transaction_Inr sample_universe backend_agrees_def)

theorem admission_binds_one_universe_witness:
  "transaction_lease sample_transaction = projection_lease sample_projected_state \<and>
   receipt_archive (archive_receipt sample_archive) = inputs_expected_archive (facts_inputs sample_facts)"
proof -
  have "projection_sorted sample_projected_state" by (simp add: projection_sorted_def sample_projected_state_def)
  from admission_binds_one_universe [OF sample_request_made sample_request_admitted
      sample_transaction_accepted this]
  show ?thesis by blast
qed

definition sample_removal_request :: "(8 word, 8 word) application_request" where
  "sample_removal_request = \<lparr>request_schema = 1, request_identity = 1, request_kind = Remove,
     request_plan = sample_plan, request_incoming = None,
     request_target = sample_target, request_control = sample_control\<rparr>"

definition request_digest :: "bytes \<Rightarrow> digest" where
  "request_digest bs = (if bs = encode_request sample_removal_request then 1 else 0)"

theorem request_identity_binds_witness:
  "request_identity sample_request \<noteq> request_identity sample_removal_request"
proof -
  have differ: "encode_request sample_request \<noteq> encode_request sample_removal_request"
    by (subst encode_request_view) (simp_all add: request_view_def sample_request_def
        sample_removal_request_def sample_admitted_plan_def sample_install_def sample_plan_def)
  have "valid_request (sample_paths\<lparr>hash := request_digest\<rparr>) sample_request"
    "valid_request (sample_paths\<lparr>hash := request_digest\<rparr>) sample_removal_request"
    using differ by (simp_all add: valid_request_def request_digest_def)
      (simp_all add: sample_request_def sample_removal_request_def sample_admitted_plan_def
        sample_install_def sample_plan_def)
  from request_identity_binds [OF this] differ show ?thesis
    by (simp add: request_digest_def sample_request_def sample_removal_request_def)
qed

end
