(* ===== verification/Transport.thy ===== *)
theory Transport
  imports Journal
begin

text \<open>
  The append-only form of a journal: \<open>journal_transport.h\<close> and \<open>journal_transport.cpp\<close>.  A declaration
  fixes header, effect graph and replay seed; steps form a chain by predecessor identity; a cursor
  names the last committed step.  \<open>state_may_follow\<close> is the state machine of an application.
\<close>

section \<open>Declarations\<close>

record ('p, 'o) journal_declaration =
  declaration_identity :: digest
  declaration_header :: "('p, 'o) journal_header"
  declaration_effects :: "'p journal_effect list"
  declaration_seed :: bytes

fun validate_effect_graph_from ::
  "nat \<Rightarrow> 'p journal_effect option \<Rightarrow> 'p journal_effect list \<Rightarrow> error + unit" where
  "validate_effect_graph_from index previous [] = Inr ()"
| "validate_effect_graph_from index previous (e # es) =
     (if effect_ordinal e \<noteq> word_of_nat index
      then Inl (Invalid_argument ''application journal declaration effects are not consecutive'')
      else if map_option effect_identity previous = Some (effect_identity e)
      then Inl (Invalid_argument ''application journal declaration repeats an effect identity'')
      else validate_effect_graph_from (Suc index) (Some e) es)"

definition validate_effect_graph :: "'p journal_effect list \<Rightarrow> error + unit" where
  "validate_effect_graph effects = validate_effect_graph_from 0 None effects"

definition declaration_record ::
  "('p, 'o) journal_header \<Rightarrow> 'p journal_effect list \<Rightarrow> bytes \<Rightarrow> bytes" where
  "declaration_record header effects replay_seed =
     (let r = canonical_record (canonical_domain Application_journal_declaration_domain);
          r = append_u16 r 1;
          r = append_digest r (header_identity header);
          r = append_counted append_digest r (map effect_identity effects);
          r = append_u64 r (word_of_nat (length replay_seed)) in
      append_bytes r replay_seed)"

definition make_declaration ::
  "('p, 'o) environment \<Rightarrow> ('p, 'o) journal_header \<Rightarrow> 'p journal_effect list \<Rightarrow> bytes \<Rightarrow>
   error + ('p, 'o) journal_declaration" where
  "make_declaration E header effects replay_seed =
     rbind (validate_effect_graph effects) (\<lambda>_.
     Inr \<lparr>declaration_identity = hash E (declaration_record header effects replay_seed),
          declaration_header = header, declaration_effects = effects,
          declaration_seed = replay_seed\<rparr>)"

lemma validate_effect_graph_from_iff:
  "validate_effect_graph_from k p es = Inr u \<longleftrightarrow>
     consecutive_ordinals k es \<and>
     \<not> adjacent_equal (map effect_identity ((case p of None \<Rightarrow> [] | Some e \<Rightarrow> [e]) @ es))"
  by (induction k p es rule: validate_effect_graph_from.induct) (auto split: option.splits)

lemma make_declaration_Inr:
  "make_declaration E h es seed = Inr d \<longleftrightarrow>
     consecutive_ordinals 0 es \<and> \<not> adjacent_equal (map effect_identity es) \<and>
     d = \<lparr>declaration_identity = hash E (declaration_record h es seed), declaration_header = h,
          declaration_effects = es, declaration_seed = seed\<rparr>"
  by (auto simp: make_declaration_def validate_effect_graph_def validate_effect_graph_from_iff
      result_simps)

section \<open>Steps\<close>

record journal_step =
  step_identity :: digest
  step_declaration :: digest
  step_sequence :: u64
  step_predecessor :: "digest option"
  step_state :: journal_state
  step_event :: "journal_event option"
  step_fact :: bytes
  step_receipt :: "digest option"
  step_completed :: "digest option"

text \<open>The candidate carries the arguments of the factory; its identity is ignored.\<close>

definition step_record :: "journal_step \<Rightarrow> bytes" where
  "step_record s =
     (let r = canonical_record (canonical_domain Application_journal_step_domain);
          r = append_u16 r 1;
          r = append_digest r (step_declaration s);
          r = append_u64 r (step_sequence s);
          r = append_optional append_digest r (step_predecessor s);
          r = append_u8 r (canonical_state (step_state s));
          r = append_optional append_event r (step_event s);
          r = append_u64 r (word_of_nat (length (step_fact s)));
          r = append_bytes r (step_fact s);
          r = append_optional append_digest r (step_receipt s) in
      append_optional append_digest r (step_completed s))"

definition make_step :: "('p, 'o) environment \<Rightarrow> journal_step \<Rightarrow> error + journal_step" where
  "make_step E s =
     (if (step_sequence s = 0) \<noteq> (step_predecessor s = None)
      then Inl (Invalid_argument ''application journal step predecessor contradicts its sequence'')
      else if step_completed s \<noteq> None \<and> step_receipt s = None
      then Inl (Invalid_argument
        ''application journal step completed evidence lacks receipt authority'')
      else Inr (s\<lparr>step_identity := hash E (step_record s)\<rparr>))"

section \<open>Cursors\<close>

record journal_cursor =
  cursor_identity :: digest
  cursor_declaration :: digest
  cursor_count :: u64
  cursor_latest :: "digest option"
  cursor_state :: journal_state
  cursor_receipt :: "digest option"
  cursor_completed :: "digest option"

definition cursor_record ::
  "digest \<Rightarrow> u64 \<Rightarrow> digest option \<Rightarrow> journal_state \<Rightarrow> digest option \<Rightarrow> digest option \<Rightarrow> bytes" where
  "cursor_record declaration step_count latest_step state receipt completed =
     (let r = canonical_record (canonical_domain Application_journal_cursor_domain);
          r = append_u16 r 1;
          r = append_digest r declaration;
          r = append_u64 r step_count;
          r = append_optional append_digest r latest_step;
          r = append_u8 r (canonical_state state);
          r = append_optional append_digest r receipt in
      append_optional append_digest r completed)"

definition identified_cursor ::
  "('p, 'o) environment \<Rightarrow> digest \<Rightarrow> u64 \<Rightarrow> digest option \<Rightarrow> journal_state \<Rightarrow> digest option \<Rightarrow>
   digest option \<Rightarrow> journal_cursor" where
  "identified_cursor E declaration step_count latest_step state receipt completed =
     \<lparr>cursor_identity =
        hash E (cursor_record declaration step_count latest_step state receipt completed),
      cursor_declaration = declaration, cursor_count = step_count, cursor_latest = latest_step,
      cursor_state = state, cursor_receipt = receipt, cursor_completed = completed\<rparr>"

fun state_may_follow :: "journal_state \<Rightarrow> journal_state \<Rightarrow> bool" where
  "state_may_follow previous next \<longleftrightarrow> previous = next \<or>
     (case previous of
        Preparing \<Rightarrow> next \<in> {Prepared, Abandoned}
      | Prepared \<Rightarrow> next = Mutating
      | Mutating \<Rightarrow> next \<in> {Effects_visible, Recovery_pending, Indeterminate, Abandoned}
      | Effects_visible \<Rightarrow> next \<in> {Result_observed, Recovery_pending, Indeterminate, Abandoned}
      | Result_observed \<Rightarrow>
          next \<in> {Application_completed, Effects_visible, Recovery_pending, Indeterminate}
      | Recovery_pending \<Rightarrow>
          next \<in> {Recovering, Recovered, Effects_visible, Indeterminate, Abandoned}
      | Indeterminate \<Rightarrow> next \<in> {Recovering, Effects_visible, Abandoned}
      | Recovering \<Rightarrow> next \<in> {Recovered, Effects_visible, Indeterminate, Abandoned}
      | Application_completed \<Rightarrow> False
      | External_resolution_pending \<Rightarrow> False
      | Recovered \<Rightarrow> False
      | Finalized \<Rightarrow> False
      | Abandoned \<Rightarrow> False)"

definition initial_cursor ::
  "('p, 'o) environment \<Rightarrow> ('p, 'o) journal_declaration \<Rightarrow> journal_cursor" where
  "initial_cursor E d = identified_cursor E (declaration_identity d) 0 None Preparing None None"

text \<open>\<open>application_journal_cursor::initial\<close> with an explicit state.\<close>

definition initial_cursor_in ::
  "('p, 'o) environment \<Rightarrow> ('p, 'o) journal_declaration \<Rightarrow> journal_state \<Rightarrow> error + journal_cursor" where
  "initial_cursor_in E d state =
     rbind (throw_if (state \<noteq> Preparing)
       (Invalid_argument ''initial application journal cursor must begin in preparing state'')) (\<lambda>_.
     Inr (identified_cursor E (declaration_identity d) 0 None state None None))"

definition advance_cursor ::
  "('p, 'o) environment \<Rightarrow> journal_cursor \<Rightarrow> journal_step \<Rightarrow> error + journal_cursor" where
  "advance_cursor E current step =
     (if step_declaration step \<noteq> cursor_declaration current
      then Inl (Invalid_argument ''application journal step belongs to another declaration'')
      else if step_sequence step \<noteq> cursor_count current
      then Inl (Invalid_argument ''application journal step is not the exact cursor successor'')
      else if step_predecessor step \<noteq> cursor_latest current
      then Inl (Invalid_argument
        ''application journal step predecessor differs from the cursor head'')
      else if \<not> state_may_follow (cursor_state current) (step_state step)
      then Inl (Invalid_argument ''application journal step has an invalid state transition'')
      else if cursor_receipt current \<noteq> None \<and> step_receipt step \<noteq> cursor_receipt current
      then Inl (Invalid_argument ''application journal step changes retained receipt authority'')
      else if cursor_completed current \<noteq> None \<and> step_completed step \<noteq> cursor_completed current
      then Inl (Invalid_argument ''application journal step changes retained completed evidence'')
      else Inr (identified_cursor E (cursor_declaration current) (cursor_count current + 1)
                 (Some (step_identity step)) (step_state step) (step_receipt step)
                 (step_completed step)))"

definition restore_cursor ::
  "('p, 'o) environment \<Rightarrow> digest \<Rightarrow> u64 \<Rightarrow> digest option \<Rightarrow> journal_state \<Rightarrow> digest option \<Rightarrow>
   digest option \<Rightarrow> error + journal_cursor" where
  "restore_cursor E declaration step_count latest_step state receipt completed =
     (if (step_count = 0) \<noteq> (latest_step = None)
      then Inl (Invalid_argument ''application journal cursor head contradicts its step count'')
      else if step_count = 0 \<and> (state \<noteq> Preparing \<or> receipt \<noteq> None \<or> completed \<noteq> None)
      then Inl (Invalid_argument ''empty application journal cursor is not initial'')
      else if completed \<noteq> None \<and> receipt = None
      then Inl (Invalid_argument
        ''application journal cursor completed evidence lacks receipt authority'')
      else Inr (identified_cursor E declaration step_count latest_step state receipt completed))"

section \<open>Lossless identities\<close>

definition step_sizes :: "journal_step \<Rightarrow> bool" where
  "step_sizes s \<longleftrightarrow> size_ok (step_fact s) \<and> pred_option event_size_ok (step_event s)"

definition valid_step :: "('p, 'o) environment \<Rightarrow> journal_step \<Rightarrow> bool" where
  "valid_step E s \<longleftrightarrow> make_step E s = Inr s \<and> step_sizes s"

lemma step_record_inject:
  assumes "step_sizes s" and "step_sizes t"
  shows "step_record s = step_record t \<longleftrightarrow>
     step_declaration s = step_declaration t \<and> step_sequence s = step_sequence t \<and>
     step_predecessor s = step_predecessor t \<and> step_state s = step_state t \<and>
     step_event s = step_event t \<and> step_fact s = step_fact t \<and>
     step_receipt s = step_receipt t \<and> step_completed s = step_completed t"
  using assms by (auto simp: step_record_def record_defs wire_simps step_sizes_def)

lemma make_step_Inr:
  "make_step E s = Inr t \<longleftrightarrow>
     (step_sequence s = 0 \<longleftrightarrow> step_predecessor s = None) \<and>
     (step_completed s \<noteq> None \<longrightarrow> step_receipt s \<noteq> None) \<and>
     t = s\<lparr>step_identity := hash E (step_record s)\<rparr>"
  by (auto simp: make_step_def)

lemma valid_step_identity: "valid_step E s \<Longrightarrow> step_identity s = hash E (step_record s)"
  by (auto simp: valid_step_def make_step_Inr dest: arg_cong [where f = step_identity])

lemma step_record_identity [simp]: "step_record (s\<lparr>step_identity := i\<rparr>) = step_record s"
  by (simp add: step_record_def)

lemma make_step_valid: "make_step E s = Inr t \<Longrightarrow> step_sizes s \<Longrightarrow> valid_step E t"
  by (auto simp: valid_step_def make_step_Inr step_sizes_def)

interpretation step_scheme:
  identity_scheme "hash E" step_record step_identity "valid_step E" for E
proof
  fix s t assume s: "valid_step E s" and t: "valid_step E t" and eq: "step_record s = step_record t"
  have sizes: "step_sizes s" "step_sizes t"
    using s t unfolding valid_step_def by blast+
  have "step_identity s = step_identity t"
    unfolding valid_step_identity [OF s] valid_step_identity [OF t] eq ..
  then show "s = t"
    using eq [unfolded step_record_inject [OF sizes]] by (intro journal_step.equality) auto
qed (fact valid_step_identity)

lemma cursor_record_inject [simp]:
  "cursor_record d n l s r c = cursor_record d' n' l' s' r' c' \<longleftrightarrow>
     d = d' \<and> n = n' \<and> l = l' \<and> s = s' \<and> r = r' \<and> c = c'"
  by (simp add: cursor_record_def record_defs wire_simps)

definition encode_cursor :: "journal_cursor \<Rightarrow> bytes" where
  "encode_cursor c = cursor_record (cursor_declaration c) (cursor_count c) (cursor_latest c)
     (cursor_state c) (cursor_receipt c) (cursor_completed c)"

definition valid_cursor :: "('p, 'o) environment \<Rightarrow> journal_cursor \<Rightarrow> bool" where
  "valid_cursor E c \<longleftrightarrow> cursor_identity c = hash E (encode_cursor c)"

lemma identified_cursor_valid [simp]: "valid_cursor E (identified_cursor E d n l s r c)"
  by (simp add: valid_cursor_def identified_cursor_def encode_cursor_def)

interpretation cursor_scheme:
  identity_scheme "hash E" encode_cursor cursor_identity "valid_cursor E" for E
  by unfold_locales (auto simp: valid_cursor_def encode_cursor_def)

lemma declaration_record_inject:
  "size_ok es \<Longrightarrow> size_ok fs \<Longrightarrow> size_ok s \<Longrightarrow> size_ok t \<Longrightarrow>
   declaration_record h es s = declaration_record k fs t \<longleftrightarrow>
     header_identity h = header_identity k \<and>
     map effect_identity es = map effect_identity fs \<and> s = t"
  by (auto simp: declaration_record_def record_defs wire_simps)

section \<open>Advancing a cursor\<close>

lemma identified_cursor_sel [simp]:
  "cursor_identity (identified_cursor E d n l s r c) = hash E (cursor_record d n l s r c)"
  "cursor_declaration (identified_cursor E d n l s r c) = d"
  "cursor_count (identified_cursor E d n l s r c) = n"
  "cursor_latest (identified_cursor E d n l s r c) = l"
  "cursor_state (identified_cursor E d n l s r c) = s"
  "cursor_receipt (identified_cursor E d n l s r c) = r"
  "cursor_completed (identified_cursor E d n l s r c) = c"
  by (simp_all add: identified_cursor_def)

definition successor_ok :: "journal_cursor \<Rightarrow> journal_step \<Rightarrow> bool" where
  "successor_ok c s \<longleftrightarrow>
     step_declaration s = cursor_declaration c \<and> step_sequence s = cursor_count c \<and>
     step_predecessor s = cursor_latest c \<and> state_may_follow (cursor_state c) (step_state s) \<and>
     (cursor_receipt c \<noteq> None \<longrightarrow> step_receipt s = cursor_receipt c) \<and>
     (cursor_completed c \<noteq> None \<longrightarrow> step_completed s = cursor_completed c)"

lemma advance_cursor_Inr:
  "advance_cursor E c s = Inr c' \<longleftrightarrow> successor_ok c s \<and>
     c' = identified_cursor E (cursor_declaration c) (cursor_count c + 1) (Some (step_identity s))
            (step_state s) (step_receipt s) (step_completed s)"
  by (auto simp: advance_cursor_def successor_ok_def simp del: state_may_follow.simps)

lemma initial_cursor_in_preparing:
  "initial_cursor_in E d s = Inr c \<longleftrightarrow> s = Preparing \<and> c = initial_cursor E d"
  by (auto simp: initial_cursor_in_def initial_cursor_def result_simps)

section \<open>The state machine\<close>

abbreviation state_reachable :: "journal_state \<Rightarrow> journal_state \<Rightarrow> bool" where
  "state_reachable \<equiv> state_may_follow\<^sup>*\<^sup>*"

definition terminal_state :: "journal_state \<Rightarrow> bool" where
  "terminal_state s \<longleftrightarrow>
     s \<in> {Application_completed, External_resolution_pending, Recovered, Finalized, Abandoned}"

lemma terminal_state_final: "terminal_state s \<Longrightarrow> state_may_follow s t \<longleftrightarrow> t = s"
  by (auto simp: terminal_state_def)

lemma terminal_state_absorbing:
  "state_reachable s t \<Longrightarrow> terminal_state s \<Longrightarrow> t = s"
  by (induction rule: rtranclp_induct) (auto simp only: terminal_state_final)

lemma state_may_follow_closed:
  "state_may_follow s t \<Longrightarrow> s \<notin> {External_resolution_pending, Finalized} \<Longrightarrow>
   t \<notin> {External_resolution_pending, Finalized}"
  by (cases s) auto

declare state_may_follow.simps [simp del]

end
