(* ===== verification/History.thy ===== *)
theory History
  imports Transport
begin

text \<open>
  The owner-side history of one application (\<open>journal_history.h\<close>, \<open>journal_history.cpp\<close>): the
  incremental validator of steps and the in-memory projection it maintains.  The lookup table of the
  source is the map \<open>history_ordinals\<close>; its hash function only accelerates the lookup.
\<close>

record ('p, 'o) history =
  history_declaration :: "('p, 'o) journal_declaration"
  history_cursor :: journal_cursor
  history_events :: "journal_event list"
  history_steps :: "journal_step list"
  history_ordinals :: "digest \<rightharpoonup> nat"
  history_progress :: "effect_progress list"
  history_required :: nat
  history_done :: nat

text \<open>The constructor's loop: position in the vector, table, count of required effects.\<close>

fun index_declaration ::
  "nat \<Rightarrow> (digest \<rightharpoonup> nat) \<Rightarrow> nat \<Rightarrow> 'p journal_effect list \<Rightarrow> error + (digest \<rightharpoonup> nat) \<times> nat" where
  "index_declaration ordinal ordinals required [] = Inr (ordinals, required)"
| "index_declaration ordinal ordinals required (e # es) =
     (if ordinals (effect_identity e) \<noteq> None
      then Inl (Invalid_argument ''application journal declaration repeats an effect identity'')
      else index_declaration (Suc ordinal) (ordinals(effect_identity e \<mapsto> ordinal))
             (if success_effect_required (effect_kind e) then Suc required else required) es)"

definition initial_history ::
  "('p, 'o) environment \<Rightarrow> ('p, 'o) journal_declaration \<Rightarrow> error + ('p, 'o) history" where
  "initial_history E d =
     rbind (index_declaration 0 (\<lambda>_. None) 0 (declaration_effects d)) (\<lambda>(ordinals, required).
     Inr \<lparr>history_declaration = d, history_cursor = initial_cursor E d, history_events = [],
          history_steps = [], history_ordinals = ordinals,
          history_progress = replicate (length (declaration_effects d)) fresh_progress,
          history_required = required, history_done = 0\<rparr>)"

definition validate_event :: "('p, 'o) history \<Rightarrow> journal_event \<Rightarrow> error + nat" where
  "validate_event h e =
     (if event_sequence e \<noteq> word_of_nat (length (history_events h))
      then Inl (Invalid_argument ''application journal step event sequence is not consecutive'')
      else case history_ordinals h (event_effect e) of
        None \<Rightarrow> Inl (Invalid_argument ''application journal step event cites an unknown effect'')
      | Some i \<Rightarrow>
          let progress = history_progress h ! i in
          if event_kind e = Intent
          then (if intended progress \<or> terminal progress \<noteq> None
                then Inl (Invalid_argument
                  ''application journal step repeats or delays an effect intent'')
                else Inr i)
          else if \<not> intended progress
          then Inl (Invalid_argument ''application journal step terminal event precedes intent'')
          else if terminal progress \<noteq> None
          then Inl (Invalid_argument ''application journal step repeats an effect terminal event'')
          else Inr i)"

definition validate_candidate ::
  "('p, 'o) history \<Rightarrow> journal_cursor \<Rightarrow> nat \<Rightarrow> error + unit" where
  "validate_candidate h candidate completed =
     (if cursor_completed candidate \<noteq> None \<and> cursor_receipt candidate = None
      then Inl (Invalid_argument ''application journal completed evidence lacks its receipt'')
      else rbind
        (if successful_state (cursor_state candidate)
         then (if cursor_receipt candidate = None \<or> cursor_completed candidate = None
               then Inl (Invalid_argument
                 ''completed application journal state lacks terminal authority'')
               else throw_if (completed \<noteq> history_required h) (Invalid_argument
                 ''completed application journal state has unfinished effects''))
         else throw_if (cursor_completed candidate \<noteq> None) (Invalid_argument
           ''non-completed application journal state retains completed evidence'')) (\<lambda>_.
      throw_if (cursor_state candidate = Recovered \<and> cursor_receipt candidate = None)
        (Invalid_argument ''recovered application journal state lacks a failure receipt'')))"

record step_validation =
  validated_cursor :: journal_cursor
  validated_ordinal :: "nat option"
  validated_done :: nat

definition effect_at :: "('p, 'o) history \<Rightarrow> nat \<Rightarrow> 'p journal_effect" where
  "effect_at h i = declaration_effects (history_declaration h) ! i"

definition validate_step_event ::
  "('p, 'o) history \<Rightarrow> journal_step \<Rightarrow> error + nat option \<times> nat" where
  "validate_step_event h s =
     (case step_event s of
        None \<Rightarrow> Inr (None, history_done h)
      | Some e \<Rightarrow> rbind (validate_event h e) (\<lambda>i.
          Inr (Some i,
               if event_kind e = Completed \<and> success_effect_required (effect_kind (effect_at h i))
               then Suc (history_done h) else history_done h)))"

definition validate_step ::
  "('p, 'o) environment \<Rightarrow> ('p, 'o) history \<Rightarrow> journal_step \<Rightarrow> error + step_validation" where
  "validate_step E h s =
     rbind (advance_cursor E (history_cursor h) s) (\<lambda>candidate.
     rbind (validate_step_event h s) (\<lambda>(ordinal, completed).
     rbind (throw_if ((case step_event s of None \<Rightarrow> True | Some e \<Rightarrow> event_kind e = Intent) \<and>
                      step_fact s \<noteq> [])
       (Invalid_argument ''application journal replay fact is not a terminal effect result'')) (\<lambda>_.
     let introduces_receipt =
           (cursor_receipt (history_cursor h) = None \<and> cursor_receipt candidate \<noteq> None) in
     rbind (throw_if (introduces_receipt \<and>
              (case (step_event s, ordinal) of
                 (Some e, Some i) \<Rightarrow>
                   event_kind e \<noteq> Completed \<or> effect_kind (effect_at h i) \<noteq> Seal_receipt
               | _ \<Rightarrow> False))
       (Invalid_argument ''application journal receipt event is not receipt sealing'')) (\<lambda>_.
     rbind (throw_if (introduces_receipt \<and> successful_state (cursor_state candidate) \<and>
              step_event s = None)
       (Invalid_argument ''successful application journal receipt lacks receipt sealing'')) (\<lambda>_.
     rbind (validate_candidate h candidate completed) (\<lambda>_.
     Inr \<lparr>validated_cursor = candidate, validated_ordinal = ordinal,
          validated_done = completed\<rparr>))))))"

definition validate_successor ::
  "('p, 'o) environment \<Rightarrow> ('p, 'o) history \<Rightarrow> journal_step \<Rightarrow> error + journal_cursor" where
  "validate_successor E h s = rbind (validate_step E h s) (\<lambda>v. Inr (validated_cursor v))"

definition record_event :: "('p, 'o) history \<Rightarrow> nat option \<Rightarrow> journal_event option \<Rightarrow> ('p, 'o) history" where
  "record_event h ordinal event =
     (case (event, ordinal) of
        (Some e, Some i) \<Rightarrow>
          let progress = history_progress h ! i in
          h\<lparr>history_progress := (history_progress h)[i :=
              (if event_kind e = Intent then progress\<lparr>intended := True\<rparr>
               else progress\<lparr>terminal := Some (event_kind e)\<rparr>)],
            history_events := history_events h @ [e]\<rparr>
      | _ \<Rightarrow> h)"

definition append_step ::
  "('p, 'o) environment \<Rightarrow> ('p, 'o) history \<Rightarrow> journal_step \<Rightarrow> error + ('p, 'o) history" where
  "append_step E h s =
     rbind (validate_step E h s) (\<lambda>v.
     let h = record_event h (validated_ordinal v) (step_event s) in
     Inr (h\<lparr>history_done := validated_done v, history_steps := history_steps h @ [s],
            history_cursor := validated_cursor v\<rparr>))"

definition history_effect ::
  "('p, 'o) history \<Rightarrow> digest \<Rightarrow> error + 'p journal_effect" where
  "history_effect h identity =
     (case history_ordinals h identity of
        None \<Rightarrow> Inl (Logic_error ''application history lost an effect identity'')
      | Some i \<Rightarrow> Inr (effect_at h i))"

definition history_snapshot ::
  "('p, 'o) environment \<Rightarrow> ('p, 'o) history \<Rightarrow> error + ('p, 'o) journal_record" where
  "history_snapshot E h =
     make_record E (declaration_header (history_declaration h)) (cursor_state (history_cursor h))
       (declaration_effects (history_declaration h)) (history_events h)
       (cursor_receipt (history_cursor h)) (cursor_completed (history_cursor h))"

section \<open>What a history represents\<close>

lemma index_declaration_iff:
  "index_declaration k m r es = Inr (m', r') \<longleftrightarrow>
     distinct (map effect_identity es) \<and> (\<forall>e \<in> set es. m (effect_identity e) = None) \<and>
     m' = m ++ map_of (zip (map effect_identity es) [k..<k + length es]) \<and>
     r' = r + length (filter (\<lambda>e. success_effect_required (effect_kind e)) es)"
proof (induction k m r es rule: index_declaration.induct)
  case (2 k m r e es)
  define m2 where "m2 = m(effect_identity e \<mapsto> k)"
  let ?z = "map_of (zip (map effect_identity es) [Suc k..<Suc k + length es])"
  have add: "m2 ++ ?z = m ++ map_of (zip (map effect_identity (e # es)) [k..<k + length (e # es)])"
    if "effect_identity e \<notin> effect_identity ` set es"
  proof -
    have "?z (effect_identity e) = None"
      using that by (simp add: map_of_zip_is_None)
    moreover have "map_of (zip (map effect_identity (e # es)) [k..<k + length (e # es)]) =
        ?z(effect_identity e \<mapsto> k)"
      by (simp add: upt_conv_Cons del: upt_Suc)
    ultimately show ?thesis by (simp only: m2_def map_add_upd_left)
  qed
  have fresh: "(\<forall>x \<in> set es. m2 (effect_identity x) = None) \<longleftrightarrow>
      effect_identity e \<notin> effect_identity ` set es \<and> (\<forall>x \<in> set es. m (effect_identity x) = None)"
    by (auto simp: m2_def image_iff)
  show ?case
  proof (cases "m (effect_identity e) = None")
    case True
    then show ?thesis
      using "2.IH" add unfolding m2_def [symmetric]
      by (simp add: fresh) (auto simp: m2_def)
  qed auto
qed auto

lemma initial_history_Inr:
  "initial_history E d = Inr h \<longleftrightarrow> distinct (map effect_identity (declaration_effects d)) \<and>
     h = \<lparr>history_declaration = d, history_cursor = initial_cursor E d, history_events = [],
          history_steps = [],
          history_ordinals = map_of (zip (map effect_identity (declaration_effects d))
                               [0..<length (declaration_effects d)]),
          history_progress = replicate (length (declaration_effects d)) fresh_progress,
          history_required =
            length (filter (\<lambda>e. success_effect_required (effect_kind e)) (declaration_effects d)),
          history_done = 0\<rparr>"
  by (auto simp: initial_history_def result_simps index_declaration_iff split: prod.splits)

definition history_effects :: "('p, 'o) history \<Rightarrow> 'p journal_effect list" where
  "history_effects h = declaration_effects (history_declaration h)"

definition done_set :: "'p journal_effect list \<Rightarrow> journal_event list \<Rightarrow> nat set" where
  "done_set effects events =
     {i. i < length effects \<and> success_effect_required (effect_kind (effects ! i)) \<and>
         kinds_of events (effect_identity (effects ! i)) = [Intent, Completed]}"

text \<open>
  The memory of a history: table, progress and counters are functions of the declared effects and
  of the events seen so far.
\<close>

definition history_memory_ok :: "('p, 'o) history \<Rightarrow> bool" where
  "history_memory_ok h \<longleftrightarrow>
     distinct (map effect_identity (history_effects h)) \<and>
     (\<forall>d i. history_ordinals h d = Some i \<longleftrightarrow>
        i < length (history_effects h) \<and> effect_identity (history_effects h ! i) = d) \<and>
     length (history_progress h) = length (history_effects h) \<and>
     (\<forall>i < length (history_effects h).
        history_progress h ! i =
          progress_of (kinds_of (history_events h) (effect_identity (history_effects h ! i)))) \<and>
     event_log_ok (effect_identity ` set (history_effects h)) (history_events h) \<and>
     history_required h =
       length (filter (\<lambda>e. success_effect_required (effect_kind e)) (history_effects h)) \<and>
     history_done h = card (done_set (history_effects h) (history_events h))"

lemma done_set_all:
  assumes "distinct (map effect_identity effects)"
  shows "card (done_set effects events) =
       length (filter (\<lambda>e. success_effect_required (effect_kind e)) effects) \<longleftrightarrow>
     effects_done effects events"
proof -
  let ?R = "{i. i < length effects \<and> success_effect_required (effect_kind (effects ! i))}"
  have "done_set effects events \<subseteq> ?R" "finite ?R" by (auto simp: done_set_def)
  then have "card (done_set effects events) = card ?R \<longleftrightarrow> done_set effects events = ?R"
    by (metis card_subset_eq)
  also have "\<dots> \<longleftrightarrow> effects_done effects events"
    by (auto simp: done_set_def effects_done_def all_set_conv_all_nth)
  finally show ?thesis by (simp add: length_filter_conv_card)
qed

lemma done_set_finite [simp]: "finite (done_set effects events)"
  by (simp add: done_set_def)

lemma done_set_step:
  assumes "distinct (map effect_identity effects)" and "i < length effects"
    and "event_effect e = effect_identity (effects ! i)"
    and "event_log_ok known events"
    and "follows_protocol (kinds_of events (event_effect e) @ [event_kind e])"
  shows "card (done_set effects (events @ [e])) =
     (if event_kind e = Completed \<and> success_effect_required (effect_kind (effects ! i))
      then Suc (card (done_set effects events)) else card (done_set effects events))"
proof -
  have other: "effect_identity (effects ! j) = event_effect e \<longleftrightarrow> j = i" if "j < length effects" for j
    using assms(1-3) that by (auto simp: distinct_conv_nth)
  have fresh: "i \<notin> done_set effects events"
    using assms(3,5) by (auto simp: done_set_def)
  have last: "kinds_of events (event_effect e) @ [event_kind e] = [Intent, Completed] \<longleftrightarrow>
      event_kind e = Completed"
    using assms(5) by (cases "kinds_of events (event_effect e)" rule: follows_protocol.cases) auto
  have mem: "j \<in> done_set effects (events @ [e]) \<longleftrightarrow>
      (if j = i then event_kind e = Completed \<and> success_effect_required (effect_kind (effects ! i))
       else j \<in> done_set effects events)" for j
  proof (cases "j = i")
    case True
    have "kinds_of (events @ [e]) (effect_identity (effects ! i)) =
        kinds_of events (event_effect e) @ [event_kind e]"
      unfolding assms(3) [symmetric] by (simp add: kinds_of_snoc)
    then show ?thesis using True assms(2) last by (simp add: done_set_def conj_commute)
  next
    case False
    then have "kinds_of (events @ [e]) (effect_identity (effects ! j)) =
        kinds_of events (effect_identity (effects ! j))" if "j < length effects"
      using other [OF that] by (auto simp: kinds_of_snoc)
    then show ?thesis using False by (auto simp: done_set_def)
  qed
  have "done_set effects (events @ [e]) =
      (if event_kind e = Completed \<and> success_effect_required (effect_kind (effects ! i))
       then insert i (done_set effects events) else done_set effects events)"
    (is "?new = ?set")
  proof (rule set_eqI)
    show "j \<in> ?new \<longleftrightarrow> j \<in> ?set" for j
      unfolding mem by (cases "j = i") (simp_all only: fresh insert_iff simp_thms if_True if_False split: if_split)
  qed
  with fresh show ?thesis by simp
qed

lemma initial_history_memory: "initial_history E d = Inr h \<Longrightarrow> history_memory_ok h"
  by (auto simp: initial_history_Inr history_memory_ok_def history_effects_def event_log_ok_def
      kinds_of_def progress_of_def fresh_progress_def done_set_def map_of_enumeration
      simp del: map_of_eq_Some_iff)

lemma validate_event_iff:
  assumes "history_memory_ok h"
  shows "validate_event h e = Inr i \<longleftrightarrow>
     i < length (history_effects h) \<and> effect_identity (history_effects h ! i) = event_effect e \<and>
     event_log_ok (effect_identity ` set (history_effects h)) (history_events h @ [e])"
proof -
  have ok: "event_log_ok (effect_identity ` set (history_effects h)) (history_events h)"
    using assms by (simp add: history_memory_ok_def)
  have kinds: "follows_protocol (kinds_of (history_events h) (event_effect e))"
    using ok by (simp add: event_log_ok_def)
  have table: "history_ordinals h (event_effect e) = Some j \<longleftrightarrow>
      j < length (history_effects h) \<and> effect_identity (history_effects h ! j) = event_effect e" for j
    using assms by (simp add: history_memory_ok_def)
  show ?thesis
  proof (cases "history_ordinals h (event_effect e)")
    case None
    then show ?thesis using table [of i] by (auto simp: validate_event_def)
  next
    case (Some j)
    then have j: "j < length (history_effects h)"
        "effect_identity (history_effects h ! j) = event_effect e"
      by (simp_all add: table)
    then have known: "event_effect e \<in> effect_identity ` set (history_effects h)"
      by (metis image_eqI nth_mem)
    have cell: "history_progress h ! j = progress_of (kinds_of (history_events h) (event_effect e))"
      using assms j by (simp add: history_memory_ok_def)
    have same: "i < length (history_effects h) \<and>
        effect_identity (history_effects h ! i) = event_effect e \<longleftrightarrow> i = j"
      using table [of i] Some by auto
    show ?thesis
      using Some ok kinds known cell same
      by (auto simp: validate_event_def Let_def event_log_ok_snoc follows_protocol_snoc)
  qed
qed

definition record_events_of :: "('p, 'o) history \<Rightarrow> journal_step \<Rightarrow> journal_event list" where
  "record_events_of h s = history_events h @ (case step_event s of None \<Rightarrow> [] | Some e \<Rightarrow> [e])"

lemma validate_step_event_iff:
  assumes "history_memory_ok h"
  shows "validate_step_event h s = Inr (ordinal, completed) \<longleftrightarrow>
     event_log_ok (effect_identity ` set (history_effects h)) (record_events_of h s) \<and>
     completed = card (done_set (history_effects h) (record_events_of h s)) \<and>
     (case step_event s of None \<Rightarrow> ordinal = None
      | Some e \<Rightarrow> (\<exists>i. ordinal = Some i \<and> i < length (history_effects h) \<and>
                   effect_identity (history_effects h ! i) = event_effect e))"
proof (cases "step_event s")
  case None
  with assms show ?thesis
    by (auto simp: validate_step_event_def record_events_of_def history_memory_ok_def)
next
  case (Some e)
  let ?fx = "history_effects h"
  have ok: "distinct (map effect_identity ?fx)" "history_done h = card (done_set ?fx (history_events h))"
    using assms by (simp_all add: history_memory_ok_def)
  have count: "card (done_set ?fx (history_events h @ [e])) =
      (if event_kind e = Completed \<and> success_effect_required (effect_kind (?fx ! i))
       then Suc (card (done_set ?fx (history_events h))) else card (done_set ?fx (history_events h)))"
    if "i < length ?fx" "effect_identity (?fx ! i) = event_effect e"
      "event_log_ok (effect_identity ` set ?fx) (history_events h @ [e])" for i
  proof -
    have "event_log_ok (effect_identity ` set ?fx) (history_events h)"
      "follows_protocol (kinds_of (history_events h) (event_effect e) @ [event_kind e])"
      using that(3) by (simp_all add: event_log_ok_snoc)
    from done_set_step [OF ok(1) that(1) that(2) [symmetric] this] show ?thesis .
  qed
  show ?thesis
    using Some ok(2) count
    by (auto simp: validate_step_event_def record_events_of_def result_simps
        validate_event_iff [OF assms] effect_at_def history_effects_def [symmetric])
qed
text \<open>
  Validation of one step, without the memory: the step continues the cursor, the log with its event
  and its terminal authorities passes the rules of a complete record, a replay fact comes only with
  a terminal event, and a first receipt comes with the completion of receipt sealing or, outside
  success, with a step that has no event.
\<close>

definition receipt_rule :: "('p, 'o) history \<Rightarrow> journal_step \<Rightarrow> bool" where
  "receipt_rule h s \<longleftrightarrow>
     (cursor_receipt (history_cursor h) = None \<and> step_receipt s \<noteq> None \<longrightarrow>
        (case step_event s of
           None \<Rightarrow> \<not> successful_state (step_state s)
         | Some e \<Rightarrow> event_kind e = Completed \<and>
             (\<exists>f \<in> set (history_effects h).
                effect_identity f = event_effect e \<and> effect_kind f = Seal_receipt)))"

definition fact_rule :: "journal_step \<Rightarrow> bool" where
  "fact_rule s \<longleftrightarrow>
     (step_fact s \<noteq> [] \<longrightarrow> (\<exists>e. step_event s = Some e \<and> event_kind e \<noteq> Intent))"

definition step_admitted :: "('p, 'o) history \<Rightarrow> journal_step \<Rightarrow> bool" where
  "step_admitted h s \<longleftrightarrow>
     successor_ok (history_cursor h) s \<and>
     event_log_ok (effect_identity ` set (history_effects h)) (record_events_of h s) \<and>
     resolution_ok (step_state s) (history_effects h) (record_events_of h s) (step_receipt s)
       (step_completed s) \<and>
     fact_rule s \<and> receipt_rule h s"

lemma validate_candidate_iff:
  assumes "history_memory_ok h"
    and "completed = card (done_set (history_effects h) events)"
  shows "validate_candidate h c completed = Inr u \<longleftrightarrow>
     resolution_ok (cursor_state c) (history_effects h) events (cursor_receipt c)
       (cursor_completed c)"
proof -
  have "completed = history_required h \<longleftrightarrow> effects_done (history_effects h) events"
    using assms done_set_all by (auto simp: history_memory_ok_def)
  then show ?thesis
    by (auto simp: validate_candidate_def resolution_ok_def result_simps split: if_splits)
qed

definition validation_of ::
  "('p, 'o) environment \<Rightarrow> ('p, 'o) history \<Rightarrow> journal_step \<Rightarrow> nat option \<Rightarrow> step_validation" where
  "validation_of E h s ordinal =
     \<lparr>validated_cursor =
        identified_cursor E (cursor_declaration (history_cursor h)) (cursor_count (history_cursor h) + 1)
          (Some (step_identity s)) (step_state s) (step_receipt s) (step_completed s),
      validated_ordinal = ordinal,
      validated_done = card (done_set (history_effects h) (record_events_of h s))\<rparr>"

lemma validate_step_iff:
  assumes mem: "history_memory_ok h"
  shows "validate_step E h s = Inr v \<longleftrightarrow> step_admitted h s \<and>
     (\<exists>ordinal. v = validation_of E h s ordinal \<and>
        (case step_event s of None \<Rightarrow> ordinal = None
         | Some e \<Rightarrow> (\<exists>i. ordinal = Some i \<and> i < length (history_effects h) \<and>
                      effect_identity (history_effects h ! i) = event_effect e)))"
proof -
  have distinct: "distinct (map effect_identity (history_effects h))"
    using mem by (simp add: history_memory_ok_def)
  have unique: "f = history_effects h ! i"
    if "f \<in> set (history_effects h)" "effect_identity f = d"
      "i < length (history_effects h)" "effect_identity (history_effects h ! i) = d" for f i d
    using distinct that by (simp add: distinct_map inj_on_def)
  show ?thesis
    by (cases "step_event s")
      (auto simp: validate_step_def result_simps advance_cursor_Inr validate_step_event_iff [OF mem]
        validate_candidate_iff [OF mem refl] step_admitted_def fact_rule_def receipt_rule_def Let_def
        effect_at_def history_effects_def [symmetric] validation_of_def dest: unique)
qed

section \<open>Appending\<close>

lemma record_event_fields [simp]:
  "history_declaration (record_event h i e) = history_declaration h"
  "history_cursor (record_event h i e) = history_cursor h"
  "history_steps (record_event h i e) = history_steps h"
  "history_ordinals (record_event h i e) = history_ordinals h"
  "history_required (record_event h i e) = history_required h"
  by (simp_all add: record_event_def Let_def split: option.splits)

lemma progress_step:
  assumes "history_memory_ok h"
    and "event_log_ok (effect_identity ` set (history_effects h)) (history_events h @ [e])"
    and "i < length (history_effects h)" and "effect_identity (history_effects h ! i) = event_effect e"
    and "j < length (history_effects h)"
  shows "history_progress (record_event h (Some i) (Some e)) ! j =
     progress_of (kinds_of (history_events h @ [e]) (effect_identity (history_effects h ! j)))"
proof -
  have cells: "length (history_progress h) = length (history_effects h)"
    "history_progress h ! k = progress_of (kinds_of (history_events h) (effect_identity (history_effects h ! k)))"
    if "k < length (history_effects h)" for k
    using assms(1) that by (simp_all add: history_memory_ok_def)
  have "follows_protocol (kinds_of (history_events h) (event_effect e) @ [event_kind e])"
    using assms(2) by (simp add: event_log_ok_snoc)
  note new = progress_of_snoc [OF this]
  show ?thesis
  proof (cases "j = i")
    case True
    then show ?thesis
      using cells [OF assms(3)] assms(3,4) new
      by (simp add: record_event_def Let_def kinds_of_snoc)
  next
    case False
    then have "effect_identity (history_effects h ! j) \<noteq> event_effect e"
      using assms(1,3,5) unfolding assms(4) [symmetric]
      by (simp add: history_memory_ok_def distinct_conv_nth)
    with False show ?thesis
      using cells(2) [OF assms(5)] by (simp add: record_event_def Let_def kinds_of_snoc)
  qed
qed

lemma append_step_Inr:
  assumes mem: "history_memory_ok h" and app: "append_step E h s = Inr h'"
  shows "step_admitted h s" and "history_memory_ok h'"
    and "history_declaration h' = history_declaration h"
    and "history_events h' = record_events_of h s"
    and "history_steps h' = history_steps h @ [s]"
    and "history_cursor h' = validated_cursor (validation_of E h s None)"
proof -
  from app obtain ordinal where adm: "step_admitted h s"
    and ord: "case step_event s of None \<Rightarrow> ordinal = None
         | Some e \<Rightarrow> (\<exists>i. ordinal = Some i \<and> i < length (history_effects h) \<and>
                      effect_identity (history_effects h ! i) = event_effect e)"
    and h': "h' = (record_event h ordinal (step_event s))
        \<lparr>history_done := card (done_set (history_effects h) (record_events_of h s)),
         history_steps := history_steps h @ [s],
         history_cursor := validated_cursor (validation_of E h s None)\<rparr>"
    unfolding append_step_def
    by (auto simp: result_simps validate_step_iff [OF mem] validation_of_def Let_def)
  show "step_admitted h s" by (rule adm)
  have events: "history_events (record_event h ordinal (step_event s)) = record_events_of h s"
    using ord by (auto simp: record_event_def record_events_of_def Let_def split: option.splits)
  then show "history_declaration h' = history_declaration h"
    "history_events h' = record_events_of h s" "history_steps h' = history_steps h @ [s]"
    "history_cursor h' = validated_cursor (validation_of E h s None)"
    by (simp_all add: h')
  have log: "event_log_ok (effect_identity ` set (history_effects h)) (record_events_of h s)"
    using adm by (simp add: step_admitted_def)
  have "length (history_progress (record_event h ordinal (step_event s))) = length (history_effects h)"
    using mem by (auto simp: history_memory_ok_def record_event_def Let_def split: option.splits)
  moreover have "history_progress (record_event h ordinal (step_event s)) ! j =
      progress_of (kinds_of (record_events_of h s) (effect_identity (history_effects h ! j)))"
    if "j < length (history_effects h)" for j
  proof (cases "step_event s")
    case None
    with mem that show ?thesis
      by (simp add: record_event_def record_events_of_def history_memory_ok_def)
  next
    case (Some e)
    with ord obtain i where "ordinal = Some i" "i < length (history_effects h)"
      "effect_identity (history_effects h ! i) = event_effect e" by auto
    with Some log that progress_step [OF mem, of e i j] show ?thesis
      by (simp add: record_events_of_def)
  qed
  ultimately show "history_memory_ok h'"
    using mem log events unfolding history_memory_ok_def
    by (simp add: h' history_effects_def)
qed

lemma append_step_total:
  assumes mem: "history_memory_ok h" and adm: "step_admitted h s"
  obtains h' where "append_step E h s = Inr h'"
proof -
  have "\<exists>ordinal. case step_event s of None \<Rightarrow> ordinal = None
         | Some e \<Rightarrow> (\<exists>i. ordinal = Some i \<and> i < length (history_effects h) \<and>
                      effect_identity (history_effects h ! i) = event_effect e)"
  proof (cases "step_event s")
    case (Some e)
    then have "event_effect e \<in> effect_identity ` set (history_effects h)"
      using adm by (auto simp: step_admitted_def record_events_of_def event_log_ok_def)
    with Some show ?thesis by (auto simp: in_set_conv_nth)
  qed simp
  then obtain ordinal where "validate_step E h s = Inr (validation_of E h s ordinal)"
    using adm validate_step_iff [OF mem] by blast
  then show thesis by (simp add: append_step_def that)
qed

lemma history_eqI:
  assumes "history_memory_ok h" and "history_memory_ok k"
    and "history_declaration h = history_declaration k" and "history_cursor h = history_cursor k"
    and "history_events h = history_events k" and "history_steps h = history_steps k"
  shows "h = k"
proof (rule history.equality)
  have same: "history_effects h = history_effects k" using assms by (simp add: history_effects_def)
  show "history_ordinals h = history_ordinals k"
  proof
    show "history_ordinals h d = history_ordinals k d" for d
      using assms(1,2) same unfolding history_memory_ok_def by (metis option.exhaust)
  qed
  show "history_progress h = history_progress k"
    using assms(1,2,5) same by (intro nth_equalityI) (simp_all add: history_memory_ok_def)
qed (use assms in \<open>auto simp: history_memory_ok_def history_effects_def\<close>)

section \<open>Reachable histories\<close>

text \<open>
  The histories the library can hold: an initial one, extended by accepted steps.  Reachability
  carries the list of steps, so that two histories with the same declaration and steps can be
  compared.
\<close>

inductive reachable_history ::
  "('p, 'o) environment \<Rightarrow> ('p, 'o) journal_declaration \<Rightarrow> ('p, 'o) history \<Rightarrow> bool"
  for E and d where
  reach_initial: "initial_history E d = Inr h \<Longrightarrow> reachable_history E d h"
| reach_append: "reachable_history E d h \<Longrightarrow> append_step E h s = Inr h' \<Longrightarrow> reachable_history E d h'"

definition history_cursor_ok ::
  "('p, 'o) environment \<Rightarrow> ('p, 'o) journal_declaration \<Rightarrow> ('p, 'o) history \<Rightarrow> bool" where
  "history_cursor_ok E d h \<longleftrightarrow>
     history_declaration h = d \<and> valid_cursor E (history_cursor h) \<and>
     cursor_declaration (history_cursor h) = declaration_identity d \<and>
     cursor_count (history_cursor h) = word_of_nat (length (history_steps h)) \<and>
     cursor_latest (history_cursor h) =
       (if history_steps h = [] then None else Some (step_identity (last (history_steps h)))) \<and>
     history_events h = List.map_filter step_event (history_steps h) \<and>
     (\<forall>i < length (history_steps h).
        step_declaration (history_steps h ! i) = declaration_identity d \<and>
        step_sequence (history_steps h ! i) = word_of_nat i \<and>
        step_predecessor (history_steps h ! i) =
          (if i = 0 then None else Some (step_identity (history_steps h ! (i - 1)))))"

definition history_resolution_ok :: "('p, 'o) history \<Rightarrow> bool" where
  "history_resolution_ok h \<longleftrightarrow>
     resolution_ok (cursor_state (history_cursor h)) (history_effects h) (history_events h)
       (cursor_receipt (history_cursor h)) (cursor_completed (history_cursor h))"

lemma validation_of_cursor [simp]:
  "validated_cursor (validation_of E h s i) =
     identified_cursor E (cursor_declaration (history_cursor h)) (cursor_count (history_cursor h) + 1)
       (Some (step_identity s)) (step_state s) (step_receipt s) (step_completed s)"
  by (simp add: validation_of_def)

lemma reachable_memory: "reachable_history E d h \<Longrightarrow> history_memory_ok h"
  by (induction rule: reachable_history.induct)
    (auto intro: initial_history_memory append_step_Inr(2))

lemma reachable_cursor: "reachable_history E d h \<Longrightarrow> history_cursor_ok E d h"
proof (induction rule: reachable_history.induct)
  case (reach_initial h)
  then show ?case
    by (auto simp: initial_history_Inr history_cursor_ok_def initial_cursor_def map_filter_simps)
next
  case (reach_append h s h')
  note fields = append_step_Inr [OF reachable_memory [OF reach_append(1)] reach_append(2)]
  have next_step: "step_declaration s = declaration_identity d"
    "step_sequence s = word_of_nat (length (history_steps h))"
    "step_predecessor s =
       (if history_steps h = [] then None else Some (step_identity (last (history_steps h))))"
    using fields(1) reach_append.IH
    by (simp_all add: step_admitted_def successor_ok_def history_cursor_ok_def)
  have "List.map_filter step_event (history_steps h @ [s]) = record_events_of h s"
    using reach_append.IH
    by (simp add: List.map_filter_def record_events_of_def history_cursor_ok_def split: option.split)
  moreover have "step_predecessor ((history_steps h @ [s]) ! i) =
      (if i = 0 then None else Some (step_identity ((history_steps h @ [s]) ! (i - 1))))"
    if "i < Suc (length (history_steps h))" for i
    using that next_step(3) reach_append.IH
    by (auto simp: history_cursor_ok_def nth_append last_conv_nth less_Suc_eq)
  ultimately show ?case
    using next_step reach_append.IH
    by (auto simp: history_cursor_ok_def fields nth_append less_Suc_eq)
qed

lemma reachable_resolution: "reachable_history E d h \<Longrightarrow> history_resolution_ok h"
proof (induction rule: reachable_history.induct)
  case (reach_initial h)
  then show ?case
    by (auto simp: initial_history_Inr history_resolution_ok_def initial_cursor_def resolution_ok_def
        successful_state_def)
next
  case (reach_append h s h')
  note fields = append_step_Inr [OF reachable_memory [OF reach_append(1)] reach_append(2)]
  show ?case
    using fields(1) by (simp add: history_resolution_ok_def fields history_effects_def step_admitted_def)
qed

text \<open>The steps determine a reachable history.\<close>

lemma reachable_determined:
  assumes "reachable_history E d h" and "reachable_history E d k"
    and "history_steps h = history_steps k"
    and "cursor_state (history_cursor h) = cursor_state (history_cursor k)"
    and "cursor_receipt (history_cursor h) = cursor_receipt (history_cursor k)"
    and "cursor_completed (history_cursor h) = cursor_completed (history_cursor k)"
  shows "h = k"
proof (rule history_eqI)
  have ok: "history_cursor_ok E d h" "history_cursor_ok E d k"
    using assms(1,2) by (auto intro: reachable_cursor)
  show "history_cursor h = history_cursor k"
    using ok assms(3-6)
    by (intro journal_cursor.equality)
      (simp_all add: history_cursor_ok_def valid_cursor_def encode_cursor_def)
  show "history_events h = history_events k" "history_declaration h = history_declaration k"
    using ok assms(3) by (simp_all add: history_cursor_ok_def)
qed (use assms in \<open>auto intro: reachable_memory\<close>)

section \<open>Extension of histories\<close>

definition extends_by_step ::
  "('p, 'o) environment \<Rightarrow> ('p, 'o) history \<Rightarrow> ('p, 'o) history \<Rightarrow> bool" where
  "extends_by_step E h h' \<longleftrightarrow> (\<exists>s. append_step E h s = Inr h')"

definition history_prefix :: "('p, 'o) history \<Rightarrow> ('p, 'o) history \<Rightarrow> bool" where
  "history_prefix h h' \<longleftrightarrow>
     history_declaration h' = history_declaration h \<and>
     (\<exists>ts. history_steps h' = history_steps h @ ts) \<and>
     (\<exists>es. history_events h' = history_events h @ es) \<and>
     (cursor_receipt (history_cursor h) \<noteq> None \<longrightarrow>
        cursor_receipt (history_cursor h') = cursor_receipt (history_cursor h)) \<and>
     (cursor_completed (history_cursor h) \<noteq> None \<longrightarrow>
        cursor_completed (history_cursor h') = cursor_completed (history_cursor h)) \<and>
     state_reachable (cursor_state (history_cursor h)) (cursor_state (history_cursor h'))"

lemma history_prefix_refl: "history_prefix h h"
  by (simp add: history_prefix_def)

lemma history_prefix_trans: "history_prefix h i \<Longrightarrow> history_prefix i j \<Longrightarrow> history_prefix h j"
  by (force simp: history_prefix_def intro: rtranclp_trans)

lemma append_step_prefix:
  assumes "history_memory_ok h" and "append_step E h s = Inr h'"
  shows "history_prefix h h'"
proof -
  note fields = append_step_Inr [OF assms]
  have "successor_ok (history_cursor h) s" using fields(1) by (simp add: step_admitted_def)
  then show ?thesis
    by (auto simp: history_prefix_def fields record_events_of_def successor_ok_def)
qed

lemma extension_prefix:
  assumes "(extends_by_step E)\<^sup>*\<^sup>* h h'" and "reachable_history E d h"
  shows "reachable_history E d h' \<and> history_prefix h h'"
  using assms
proof (induction rule: rtranclp_induct)
  case base
  then show ?case by (simp add: history_prefix_refl)
next
  case (step i j)
  then obtain s where app: "append_step E i s = Inr j" and i: "reachable_history E d i"
    and pre: "history_prefix h i"
    by (auto simp: extends_by_step_def)
  show ?case
    using reach_append [OF i app]
      history_prefix_trans [OF pre append_step_prefix [OF reachable_memory [OF i] app]] by simp
qed

lemma made_declaration:
  "make_declaration E header es seed = Inr d \<Longrightarrow>
   declaration_effects d = es \<and> declaration_header d = header \<and> consecutive_ordinals 0 es"
  by (auto simp: make_declaration_Inr)

lemma reachable_record_ok:
  assumes "reachable_history E d h" and "consecutive_ordinals 0 (declaration_effects d)"
  shows "record_ok (cursor_state (history_cursor h)) (declaration_effects d) (history_events h)
    (cursor_receipt (history_cursor h)) (cursor_completed (history_cursor h))"
  using reachable_memory [OF assms(1)] reachable_cursor [OF assms(1)] reachable_resolution [OF assms(1)]
    assms(2)
  by (simp add: record_ok_def history_memory_ok_def history_resolution_ok_def history_effects_def
      history_cursor_ok_def)

lemma reachable_effects: "reachable_history E d h \<Longrightarrow> history_effects h = declaration_effects d"
  using reachable_cursor by (auto simp: history_cursor_ok_def history_effects_def)

lemma append_step_iff:
  assumes "reachable_history E d h"
  shows "(\<exists>h'. append_step E h s = Inr h') \<longleftrightarrow> step_admitted h s"
  using append_step_total [OF reachable_memory [OF assms]] append_step_Inr(1) [OF reachable_memory [OF assms]]
  by metis

section \<open>Properties\<close>

text \<open>
  A small journal the witnesses run: no paths, the single effect of sealing the receipt.  The hash
  is a constant, so every identity is the same; nothing in the protocol needs more.
\<close>

definition sample_environment :: "(8 word, 8 word) environment" where
  "sample_environment = \<lparr>hash = (\<lambda>_. 0), path_string = (\<lambda>w. [w]), owner_string = (\<lambda>w. [w]),
     parse_path = (\<lambda>bs. Inr (case bs of [] \<Rightarrow> 0 | w # _ \<Rightarrow> w)), is_ancestor_of = (\<lambda>_ _. False)\<rparr>"

definition sample_header :: "(8 word, 8 word) journal_header" where
  "sample_header =
     \<lparr>header_identity = 0, header_kind = Install, header_request = 1, header_plan = [],
      header_attempt = \<lparr>attempt_identity = 0, attempt_request = 1, attempt_target = 2,
        attempt_backend = 3, attempt_nonce = 4\<rparr>,
      header_target = 2, header_control = 5,
      header_projection = \<lparr>projection_identity = 0, projection_lease = 6, projection_snapshot = [],
        projection_inventory = [], projection_completeness = Projection_complete,
        projection_paths = [], projection_evidence = 7\<rparr>,
      header_lease = 6, header_backend = 3\<rparr>"

definition sample_seal :: "8 word journal_effect" where
  "sample_seal = \<lparr>effect_identity = 0, effect_ordinal = 0, effect_kind = Seal_receipt,
     effect_path = None\<rparr>"

definition sample_declaration :: "(8 word, 8 word) journal_declaration" where
  "sample_declaration = \<lparr>declaration_identity = 0, declaration_header = sample_header,
     declaration_effects = [sample_seal], declaration_seed = []\<rparr>"

definition sample_history :: "(8 word, 8 word) history" where
  "sample_history = \<lparr>history_declaration = sample_declaration,
     history_cursor = initial_cursor sample_environment sample_declaration, history_events = [],
     history_steps = [], history_ordinals = [0 \<mapsto> 0], history_progress = [fresh_progress],
     history_required = 1, history_done = 0\<rparr>"

definition sample_step :: journal_step where
  "sample_step = \<lparr>step_identity = 0, step_declaration = 0, step_sequence = 0,
     step_predecessor = None, step_state = Prepared, step_event = None, step_fact = [],
     step_receipt = None, step_completed = None\<rparr>"

definition sample_successor :: "(8 word, 8 word) history" where
  "sample_successor = sample_history\<lparr>history_steps := [sample_step], history_cursor :=
     identified_cursor sample_environment 0 1 (Some 0) Prepared None None\<rparr>"

lemma sample_declaration_made:
  "make_declaration sample_environment sample_header [sample_seal] [] = Inr sample_declaration"
  by (simp add: make_declaration_Inr sample_environment_def sample_declaration_def sample_seal_def)

lemma sample_reachable: "reachable_history sample_environment sample_declaration sample_history"
proof (rule reach_initial)
  show "initial_history sample_environment sample_declaration = Inr sample_history"
    by (simp add: initial_history_def sample_history_def sample_declaration_def sample_seal_def
        success_effect_required_def)
qed

lemma sample_append: "append_step sample_environment sample_history sample_step = Inr sample_successor"
  by (simp add: append_step_def validate_step_def advance_cursor_def validate_step_event_def
      validate_candidate_def record_event_def sample_history_def sample_step_def sample_successor_def
      sample_declaration_def initial_cursor_def state_may_follow.simps successful_state_def)
text \<open>
  C7: the incremental validator and the complete one agree.  On any reachable history a step is
  accepted exactly when it continues the cursor, the complete-record factory accepts the record it
  would produce, its replay fact belongs to a terminal event, and a first receipt comes with the
  completion of receipt sealing (or, outside success, without an event).
\<close>

theorem incremental_agrees_with_complete:
  assumes "make_declaration E header es seed = Inr d" and "size_ok es"
    and "reachable_history E d h"
  shows "(\<exists>h'. append_step E h s = Inr h') \<longleftrightarrow>
     successor_ok (history_cursor h) s \<and>
     (\<exists>r. make_record E header (step_state s) es (record_events_of h s) (step_receipt s)
            (step_completed s) = Inr r) \<and>
     fact_rule s \<and> receipt_rule h s"
proof -
  note made = made_declaration [OF assms(1)]
  have "distinct (map effect_identity es)"
    using reachable_memory [OF assms(3)] reachable_effects [OF assms(3)] made
    by (simp add: history_memory_ok_def)
  then have "(\<exists>r. make_record E header (step_state s) es (record_events_of h s) (step_receipt s)
      (step_completed s) = Inr r) \<longleftrightarrow>
      event_log_ok (effect_identity ` set es) (record_events_of h s) \<and>
      resolution_ok (step_state s) es (record_events_of h s) (step_receipt s) (step_completed s)"
    using made assms(2) by (simp add: make_record_iff consecutive_sorted record_ok_def)
  then show ?thesis
    unfolding append_step_iff [OF assms(3)] step_admitted_def reachable_effects [OF assms(3)]
    using made by auto
qed

theorem incremental_agrees_witness:
  "successor_ok (history_cursor sample_history) sample_step \<and>
   (\<exists>r. make_record sample_environment sample_header Prepared [sample_seal] [] None None = Inr r)"
  using incremental_agrees_with_complete [OF sample_declaration_made _ sample_reachable, of sample_step]
    sample_append
  by (simp add: sample_step_def record_events_of_def sample_history_def)

text \<open>
  C8: every reachable history has a complete record: the derived snapshot never throws, and it
  shows exactly the state, events and authorities of the history.
\<close>

theorem snapshot_of_reachable:
  assumes "make_declaration E header es seed = Inr d" and "size_ok es"
    and "reachable_history E d h"
  shows "\<exists>r. history_snapshot E h = Inr r \<and> record_header r = header \<and> record_effects r = es \<and>
     record_state r = cursor_state (history_cursor h) \<and>
     record_events r = List.map_filter step_event (history_steps h) \<and>
     record_receipt r = cursor_receipt (history_cursor h) \<and>
     record_completed r = cursor_completed (history_cursor h)"
proof -
  note made = made_declaration [OF assms(1)]
  have cursor: "history_declaration h = d" "history_events h = List.map_filter step_event (history_steps h)"
    using reachable_cursor [OF assms(3)] by (simp_all add: history_cursor_ok_def)
  have "record_ok (cursor_state (history_cursor h)) es (history_events h)
      (cursor_receipt (history_cursor h)) (cursor_completed (history_cursor h))"
    using reachable_record_ok [OF assms(3)] made by simp
  then obtain r where "history_snapshot E h = Inr r"
    using made assms(2) make_record_iff [of es E] consecutive_sorted [of es]
    unfolding history_snapshot_def cursor by metis
  with made_declaration [OF assms(1)] make_record_fields show ?thesis
    unfolding history_snapshot_def cursor using consecutive_sorted [of es] assms(2) by metis
qed

theorem snapshot_witness:
  "\<exists>r. history_snapshot sample_environment sample_successor = Inr r \<and> record_state r = Prepared"
proof -
  have "reachable_history sample_environment sample_declaration sample_successor"
    by (rule reach_append [OF sample_reachable sample_append])
  from snapshot_of_reachable [OF sample_declaration_made _ this] show ?thesis
    by (auto simp: sample_successor_def)
qed

text \<open>
  C9: write-ahead discipline.  In every reachable history the events of one effect are nothing, one
  intent, or one intent followed by one terminal event; every event names a declared effect; and
  once the state is successful the history carries a receipt, completed evidence and, for every
  effect outside recovery, an intent followed by its completion.
\<close>

theorem reachable_write_ahead:
  assumes "reachable_history E d h"
  shows "follows_protocol (kinds_of (history_events h) f) \<and>
     event_effect ` set (history_events h) \<subseteq> effect_identity ` set (declaration_effects d) \<and>
     (successful_state (cursor_state (history_cursor h)) \<longrightarrow>
        cursor_receipt (history_cursor h) \<noteq> None \<and> cursor_completed (history_cursor h) \<noteq> None \<and>
        (\<forall>e \<in> set (declaration_effects d). success_effect_required (effect_kind e) \<longrightarrow>
           kinds_of (history_events h) (effect_identity e) = [Intent, Completed]))"
  using reachable_memory [OF assms] reachable_resolution [OF assms] reachable_effects [OF assms]
  by (auto simp: history_memory_ok_def event_log_ok_def history_resolution_ok_def resolution_ok_def
      effects_done_def)

theorem reachable_write_ahead_witness:
  "follows_protocol (kinds_of (history_events sample_successor) 0)"
  using reachable_write_ahead [OF reach_append [OF sample_reachable sample_append]] by blast

text \<open>
  C10: a history only grows.  Whatever steps are accepted later, declaration, steps and events
  remain as a prefix, a receipt and completed evidence never change once present, the states follow
  the transition relation, and a terminal state is final.
\<close>

theorem history_only_grows:
  assumes "reachable_history E d h" and "(extends_by_step E)\<^sup>*\<^sup>* h h'"
  shows "history_prefix h h' \<and>
     (terminal_state (cursor_state (history_cursor h)) \<longrightarrow>
        cursor_state (history_cursor h') = cursor_state (history_cursor h))"
  using extension_prefix [OF assms(2,1)] terminal_state_absorbing
  by (auto simp: history_prefix_def)

theorem history_only_grows_witness:
  "history_prefix sample_history sample_successor"
proof -
  have "(extends_by_step sample_environment)\<^sup>*\<^sup>* sample_history sample_successor"
    using sample_append by (intro r_into_rtranclp) (auto simp: extends_by_step_def)
  from history_only_grows [OF sample_reachable this] show ?thesis by simp
qed

end
