(* ===== verification/Store.thy ===== *)
theory Store
  imports History
begin

text \<open>
  Durable journals.  The store interface of \<open>journal_transport.h\<close> is a record of operations, the
  rehydration of a history (\<open>application_journal_history::load\<close>, \<open>journal_history.cpp\<close>) and the
  write-ahead append of the engine (\<open>append_journal_step\<close>, \<open>application_engine.cpp\<close>) are functions of
  that record.  The locale \<open>journal_store_laws\<close> states the documented contract of a store; it is
  interpreted on the scripted store of the test suite.  Crashes are modelled by a wrapper that lets
  only a given number of writes through.
\<close>

section \<open>The interface\<close>

record ('s, 'p, 'o) journal_store =
  publish_declaration :: "('p, 'o) journal_declaration \<Rightarrow> ('s, ('p, 'o) journal_declaration) io"
  publish_step :: "journal_step \<Rightarrow> ('s, journal_step) io"
  compare_and_publish_cursor :: "digest option \<Rightarrow> journal_cursor \<Rightarrow> ('s, journal_cursor) io"
  load_declaration :: "digest \<Rightarrow> ('s, ('p, 'o) journal_declaration option) io"
  load_cursor :: "digest \<Rightarrow> ('s, journal_cursor option) io"
  load_step :: "digest \<Rightarrow> u64 \<Rightarrow> ('s, journal_step option) io"

section \<open>Rehydration\<close>

text \<open>The loop over the committed sequence numbers.\<close>

fun load_committed ::
  "('p, 'o) environment \<Rightarrow> ('s, 'p, 'o) journal_store \<Rightarrow> digest \<Rightarrow> u64 list \<Rightarrow> ('p, 'o) history \<Rightarrow>
   ('s, ('p, 'o) history) io" where
  "load_committed E store identity [] h = io_return h"
| "load_committed E store identity (sequence # rest) h =
     io_bind (load_step store identity sequence) (\<lambda>loaded.
     case loaded of
       None \<Rightarrow> io_lift (Inl (Invalid_argument
         ''application journal committed sequence contains a missing step''))
     | Some step \<Rightarrow>
         io_bind (io_lift (append_step E h step)) (\<lambda>h.
         load_committed E store identity rest h))"

definition load_or_create_cursor ::
  "('p, 'o) environment \<Rightarrow> ('s, 'p, 'o) journal_store \<Rightarrow> ('p, 'o) journal_declaration \<Rightarrow> digest \<Rightarrow>
   ('s, journal_cursor) io" where
  "load_or_create_cursor E store declaration identity =
     io_bind (load_cursor store identity) (\<lambda>loaded.
     case loaded of
       Some cursor \<Rightarrow> io_return cursor
     | None \<Rightarrow>
         (let initial = initial_cursor E declaration in
          io_bind (compare_and_publish_cursor store None initial) (\<lambda>published.
          if cursor_identity published \<noteq> cursor_identity initial
          then io_lift (Inl (Logic_error ''journal store changed the initial application cursor''))
          else io_return published)))"

definition adopt_orphan ::
  "('p, 'o) environment \<Rightarrow> ('s, 'p, 'o) journal_store \<Rightarrow> digest \<Rightarrow> journal_cursor \<Rightarrow>
   ('p, 'o) history \<Rightarrow> ('s, ('p, 'o) history) io" where
  "adopt_orphan E store identity committed h =
     io_bind (load_step store identity (cursor_count committed)) (\<lambda>orphan.
     case orphan of
       None \<Rightarrow> io_return h
     | Some step \<Rightarrow>
         io_bind (io_lift (validate_successor E h step)) (\<lambda>candidate.
         io_bind (compare_and_publish_cursor store (Some (cursor_identity committed)) candidate)
           (\<lambda>adopted.
         if cursor_identity adopted \<noteq> cursor_identity candidate
         then io_lift (Inl (Logic_error ''journal store changed an adopted application cursor''))
         else io_lift (append_step E h step))))"

definition load_history ::
  "('p, 'o) environment \<Rightarrow> ('s, 'p, 'o) journal_store \<Rightarrow> digest \<Rightarrow> ('s, ('p, 'o) history) io" where
  "load_history E store identity =
     io_bind (load_declaration store identity) (\<lambda>loaded.
     case loaded of
       None \<Rightarrow> io_lift (Inl (Invalid_argument
         ''application journal declaration is missing or changed''))
     | Some declaration \<Rightarrow>
         if declaration_identity declaration \<noteq> identity
         then io_lift (Inl (Invalid_argument
           ''application journal declaration is missing or changed''))
         else
           io_bind (load_or_create_cursor E store declaration identity) (\<lambda>committed.
           if cursor_declaration committed \<noteq> identity
           then io_lift (Inl (Invalid_argument
             ''application journal cursor belongs to another declaration''))
           else
             io_bind (io_lift (initial_history E declaration)) (\<lambda>h.
             io_bind (load_committed E store identity
                        (map word_of_nat [0..<unat (cursor_count committed)]) h) (\<lambda>h.
             if cursor_identity (history_cursor h) \<noteq> cursor_identity committed
             then io_lift (Inl (Invalid_argument
               ''application journal cursor disagrees with committed step history''))
             else adopt_orphan E store identity committed h))))"

section \<open>The write-ahead append\<close>

definition append_journal_step ::
  "('p, 'o) environment \<Rightarrow> ('s, 'p, 'o) journal_store \<Rightarrow> ('p, 'o) history \<Rightarrow> journal_state \<Rightarrow>
   journal_event option \<Rightarrow> bytes \<Rightarrow> digest option \<Rightarrow> digest option \<Rightarrow> ('s, ('p, 'o) history) io" where
  "append_journal_step E store h state event replay_fact receipt completed_evidence =
     (let previous = history_cursor h in
      io_bind (io_lift (make_step E
        \<lparr>step_identity = 0,
         step_declaration = declaration_identity (history_declaration h),
         step_sequence = cursor_count previous, step_predecessor = cursor_latest previous,
         step_state = state, step_event = event, step_fact = replay_fact,
         step_receipt = receipt, step_completed = completed_evidence\<rparr>)) (\<lambda>intended.
      io_bind (io_lift (validate_successor E h intended)) (\<lambda>candidate.
      io_bind (publish_step store intended) (\<lambda>durable.
      if step_identity durable \<noteq> step_identity intended
      then io_lift (Inl (Logic_error ''journal store changed an application step''))
      else
        io_bind (compare_and_publish_cursor store (Some (cursor_identity previous)) candidate)
          (\<lambda>durable_cursor.
        if cursor_identity durable_cursor \<noteq> cursor_identity candidate
        then io_lift (Inl (Logic_error ''journal store changed the application cursor''))
        else
          io_bind (io_lift (append_step E h durable)) (\<lambda>h'.
          if cursor_identity (history_cursor h') \<noteq> cursor_identity candidate
          then io_lift (Inl (Logic_error ''application history changed a durable cursor''))
          else io_return h'))))))"

text \<open>
  The two wrappers the engine uses: a state change without an event, and an event numbered by the
  events already in the history.
\<close>

definition publish_state ::
  "('p, 'o) environment \<Rightarrow> ('s, 'p, 'o) journal_store \<Rightarrow> ('p, 'o) history \<Rightarrow> journal_state \<Rightarrow>
   digest option \<Rightarrow> digest option \<Rightarrow> ('s, ('p, 'o) history) io" where
  "publish_state E store h state receipt completed_evidence =
     append_journal_step E store h state None [] receipt completed_evidence"

definition publish_event ::
  "('p, 'o) environment \<Rightarrow> ('s, 'p, 'o) journal_store \<Rightarrow> ('p, 'o) history \<Rightarrow> journal_state \<Rightarrow>
   digest \<Rightarrow> event_kind \<Rightarrow> digest list \<Rightarrow> bytes \<Rightarrow> digest option \<Rightarrow> digest option \<Rightarrow>
   ('s, ('p, 'o) history) io" where
  "publish_event E store h state eff kind evidence replay_fact receipt completed_evidence =
     io_bind (io_lift (make_event (word_of_nat (length (history_events h))) kind eff evidence))
       (\<lambda>event. append_journal_step E store h state (Some event) replay_fact receipt
          completed_evidence)"

text \<open>\<open>publish_initial_journal\<close>, from the moment the intended declaration has been made.\<close>

definition publish_initial_declaration ::
  "('p, 'o) environment \<Rightarrow> ('s, 'p, 'o) journal_store \<Rightarrow> ('p, 'o) journal_declaration \<Rightarrow>
   ('s, ('p, 'o) history) io" where
  "publish_initial_declaration E store declared =
     io_bind (publish_declaration store declared) (\<lambda>durable.
     if declaration_identity durable \<noteq> declaration_identity declared
     then io_lift (Inl (Logic_error ''journal store changed the application declaration''))
     else
       io_bind (io_lift (initial_history E durable)) (\<lambda>h.
       io_bind (compare_and_publish_cursor store None (history_cursor h)) (\<lambda>durable_cursor.
       if cursor_identity durable_cursor \<noteq> cursor_identity (history_cursor h)
       then io_lift (Inl (Logic_error ''journal store changed the initial application cursor''))
       else io_return h)))"

section \<open>The contract of a store\<close>

text \<open>
  What a store holds for one declaration identity, and the documented contract over that view
  (\<open>journal_transport.h\<close>): loads return what is retained; declarations and steps are immutable, so
  that publishing onto an occupied name returns the retained value or throws; a cursor is replaced
  exactly when the expected identity is the retained one; a journal without declaration is empty.
\<close>

record ('p, 'o) journal_view =
  view_declaration :: "('p, 'o) journal_declaration option"
  view_steps :: "u64 \<rightharpoonup> journal_step"
  view_cursor :: "journal_cursor option"

definition returns :: "'s \<Rightarrow> ('s \<Rightarrow> 'v) \<Rightarrow> ('s, 'a) io \<Rightarrow> 'a \<Rightarrow> 'v \<Rightarrow> bool" where
  "returns s view op x v \<longleftrightarrow> (\<exists>s'. op s = (Inr x, s') \<and> view s' = v)"

definition fails :: "'s \<Rightarrow> ('s \<Rightarrow> 'v) \<Rightarrow> ('s, 'a) io \<Rightarrow> bool" where
  "fails s view op \<longleftrightarrow> (\<exists>e s'. op s = (Inl e, s') \<and> view s' = view s)"

locale journal_store_laws =
  fixes store :: "('s, 'p, 'o) journal_store"
    and view :: "'s \<Rightarrow> digest \<Rightarrow> ('p, 'o) journal_view"
  assumes load_declaration_law:
      "returns s view (load_declaration store i) (view_declaration (view s i)) (view s)"
    and load_cursor_law: "returns s view (load_cursor store i) (view_cursor (view s i)) (view s)"
    and load_step_law: "returns s view (load_step store i n) (view_steps (view s i) n) (view s)"
    and publish_declaration_new:
      "view_declaration (view s (declaration_identity d)) = None \<Longrightarrow>
       returns s view (publish_declaration store d) d ((view s)(declaration_identity d :=
         \<lparr>view_declaration = Some d, view_steps = (\<lambda>_. None), view_cursor = None\<rparr>))"
    and publish_declaration_same:
      "view_declaration (view s (declaration_identity d)) = Some d' \<Longrightarrow>
       declaration_identity d' = declaration_identity d \<Longrightarrow>
       returns s view (publish_declaration store d) d' (view s)"
    and publish_step_new:
      "view_declaration (view s (step_declaration t)) \<noteq> None \<Longrightarrow>
       view_steps (view s (step_declaration t)) (step_sequence t) = None \<Longrightarrow>
       returns s view (publish_step store t) t ((view s)(step_declaration t :=
         (view s (step_declaration t))\<lparr>view_steps :=
           (view_steps (view s (step_declaration t)))(step_sequence t \<mapsto> t)\<rparr>))"
    and publish_step_same:
      "view_declaration (view s (step_declaration t)) \<noteq> None \<Longrightarrow>
       view_steps (view s (step_declaration t)) (step_sequence t) = Some u \<Longrightarrow>
       step_identity u = step_identity t \<Longrightarrow>
       returns s view (publish_step store t) u (view s)"
    and publish_step_conflict:
      "view_declaration (view s (step_declaration t)) = None \<or>
       (\<exists>u. view_steps (view s (step_declaration t)) (step_sequence t) = Some u \<and>
            step_identity u \<noteq> step_identity t) \<Longrightarrow>
       fails s view (publish_step store t)"
    and cursor_swap:
      "view_declaration (view s (cursor_declaration c)) \<noteq> None \<Longrightarrow>
       map_option cursor_identity (view_cursor (view s (cursor_declaration c))) = expected \<Longrightarrow>
       returns s view (compare_and_publish_cursor store expected c) c
         ((view s)(cursor_declaration c := (view s (cursor_declaration c))\<lparr>view_cursor := Some c\<rparr>))"
    and cursor_mismatch:
      "map_option cursor_identity (view_cursor (view s (cursor_declaration c))) \<noteq> expected \<Longrightarrow>
       fails s view (compare_and_publish_cursor store expected c)"
    and absent_is_empty:
      "view_declaration (view s i) = None \<Longrightarrow>
       view_steps (view s i) n = None \<and> view_cursor (view s i) = None"

section \<open>The scripted store\<close>

text \<open>\<open>tests/support/scripted_journal_store.cpp\<close>: an in-memory map from declaration text to journal.\<close>

record ('p, 'o) scripted_journal =
  scripted_declaration :: "('p, 'o) journal_declaration"
  scripted_steps :: "u64 \<rightharpoonup> journal_step"
  scripted_cursor :: "journal_cursor option"

record ('p, 'o) scripted_state =
  scripted_journals :: "string \<rightharpoonup> ('p, 'o) scripted_journal"
  declaration_publications :: nat
  step_publications :: nat
  cursor_publications :: nat
  latest_declaration :: "digest option"

definition scripted_publish_declaration ::
  "('p, 'o) journal_declaration \<Rightarrow> (('p, 'o) scripted_state, ('p, 'o) journal_declaration) io" where
  "scripted_publish_declaration d s =
     (let s = s\<lparr>declaration_publications := Suc (declaration_publications s)\<rparr>;
          name = digest_string (declaration_identity d) in
      case scripted_journals s name of
        Some found \<Rightarrow>
          if declaration_identity (scripted_declaration found) \<noteq> declaration_identity d
          then (Inl (Logic_error ''scripted journal declaration changed''), s)
          else (Inr (scripted_declaration found),
                s\<lparr>latest_declaration := Some (declaration_identity d)\<rparr>)
      | None \<Rightarrow>
          (Inr d, s\<lparr>scripted_journals := (scripted_journals s)(name \<mapsto>
                       \<lparr>scripted_declaration = d, scripted_steps = (\<lambda>_. None),
                        scripted_cursor = None\<rparr>),
                    latest_declaration := Some (declaration_identity d)\<rparr>))"

definition scripted_publish_step :: "journal_step \<Rightarrow> (('p, 'o) scripted_state, journal_step) io" where
  "scripted_publish_step step s =
     (let s = s\<lparr>step_publications := Suc (step_publications s)\<rparr>;
          name = digest_string (step_declaration step) in
      case scripted_journals s name of
        None \<Rightarrow> (Inl (Logic_error ''scripted journal step lacks declaration''), s)
      | Some journal \<Rightarrow>
          (case scripted_steps journal (step_sequence step) of
             Some found \<Rightarrow>
               if step_identity found \<noteq> step_identity step
               then (Inl (Logic_error ''scripted journal step conflicts''), s)
               else (Inr found, s)
           | None \<Rightarrow>
               (Inr step, s\<lparr>scripted_journals := (scripted_journals s)(name \<mapsto>
                  journal\<lparr>scripted_steps := (scripted_steps journal)(step_sequence step \<mapsto> step)\<rparr>)\<rparr>)))"

definition scripted_compare_and_publish ::
  "digest option \<Rightarrow> journal_cursor \<Rightarrow> (('p, 'o) scripted_state, journal_cursor) io" where
  "scripted_compare_and_publish expected cursor s =
     (let s = s\<lparr>cursor_publications := Suc (cursor_publications s)\<rparr>;
          name = digest_string (cursor_declaration cursor) in
      case scripted_journals s name of
        None \<Rightarrow> (Inl (Logic_error ''scripted journal cursor lacks declaration''), s)
      | Some journal \<Rightarrow>
          if map_option cursor_identity (scripted_cursor journal) \<noteq> expected
          then (Inl (Logic_error ''scripted journal cursor compare failed''), s)
          else (Inr cursor, s\<lparr>scripted_journals := (scripted_journals s)(name \<mapsto>
                  journal\<lparr>scripted_cursor := Some cursor\<rparr>)\<rparr>))"

definition scripted_store :: "(('p, 'o) scripted_state, 'p, 'o) journal_store" where
  "scripted_store =
     \<lparr>publish_declaration = scripted_publish_declaration, publish_step = scripted_publish_step,
      compare_and_publish_cursor = scripted_compare_and_publish,
      load_declaration = (\<lambda>i s.
        (Inr (map_option scripted_declaration (scripted_journals s (digest_string i))), s)),
      load_cursor = (\<lambda>i s.
        (Inr (case scripted_journals s (digest_string i) of
                None \<Rightarrow> None | Some j \<Rightarrow> scripted_cursor j), s)),
      load_step = (\<lambda>i sequence s.
        (Inr (case scripted_journals s (digest_string i) of
                None \<Rightarrow> None | Some j \<Rightarrow> scripted_steps j sequence), s))\<rparr>"

definition scripted_view :: "('p, 'o) scripted_state \<Rightarrow> digest \<Rightarrow> ('p, 'o) journal_view" where
  "scripted_view s i =
     (case scripted_journals s (digest_string i) of
        None \<Rightarrow> \<lparr>view_declaration = None, view_steps = (\<lambda>_. None), view_cursor = None\<rparr>
      | Some j \<Rightarrow> \<lparr>view_declaration = Some (scripted_declaration j), view_steps = scripted_steps j,
                   view_cursor = scripted_cursor j\<rparr>)"

definition empty_scripted :: "('p, 'o) scripted_state" where
  "empty_scripted = \<lparr>scripted_journals = (\<lambda>_. None), declaration_publications = 0,
     step_publications = 0, cursor_publications = 0, latest_declaration = None\<rparr>"

interpretation scripted: journal_store_laws scripted_store scripted_view
  by unfold_locales
    (auto simp: returns_def fails_def scripted_store_def scripted_view_def fun_eq_iff Let_def
      scripted_publish_declaration_def scripted_publish_step_def scripted_compare_and_publish_def
      split: option.splits)

section \<open>Crashes\<close>

text \<open>
  A process that dies after a given number of durable writes: the wrapped store lets that many
  writes through and throws at the next one, which then has no effect.  A write whose effect is
  durable but whose caller dies before it returns is the same store state with one more write.
\<close>

definition crash_guard :: "('s, 'a) io \<Rightarrow> ('s \<times> nat, 'a) io" where
  "crash_guard op = (\<lambda>(s, n). case n of
     0 \<Rightarrow> (Inl (Logic_error ''crash''), (s, 0))
   | Suc m \<Rightarrow> (case op s of (r, s') \<Rightarrow> (r, (s', m))))"

definition crash_pass :: "('s, 'a) io \<Rightarrow> ('s \<times> nat, 'a) io" where
  "crash_pass op = (\<lambda>(s, n). case op s of (r, s') \<Rightarrow> (r, (s', n)))"

definition crashing_store :: "('s, 'p, 'o) journal_store \<Rightarrow> ('s \<times> nat, 'p, 'o) journal_store" where
  "crashing_store store =
     \<lparr>publish_declaration = (\<lambda>d. crash_guard (publish_declaration store d)),
      publish_step = (\<lambda>t. crash_guard (publish_step store t)),
      compare_and_publish_cursor =
        (\<lambda>expected c. crash_guard (compare_and_publish_cursor store expected c)),
      load_declaration = (\<lambda>i. crash_pass (load_declaration store i)),
      load_cursor = (\<lambda>i. crash_pass (load_cursor store i)),
      load_step = (\<lambda>i n. crash_pass (load_step store i n))\<rparr>"

section \<open>Replaying steps\<close>

fun replay_steps ::
  "('p, 'o) environment \<Rightarrow> ('p, 'o) history \<Rightarrow> journal_step list \<Rightarrow> error + ('p, 'o) history" where
  "replay_steps E h [] = Inr h"
| "replay_steps E h (t # ts) = rbind (append_step E h t) (\<lambda>h. replay_steps E h ts)"

lemma replay_steps_append:
  "replay_steps E h (ts @ us) = rbind (replay_steps E h ts) (\<lambda>k. replay_steps E k us)"
proof (induction ts arbitrary: h)
  case (Cons t ts)
  then show ?case by (cases "append_step E h t") simp_all
qed simp

lemma reachable_replay:
  "reachable_history E d h \<Longrightarrow>
   \<exists>h0. initial_history E d = Inr h0 \<and> replay_steps E h0 (history_steps h) = Inr h"
proof (induction rule: reachable_history.induct)
  case (reach_initial h)
  then show ?case by (auto simp: initial_history_Inr)
next
  case (reach_append h s h')
  then have "history_steps h' = history_steps h @ [s]"
    by (intro append_step_Inr(5) reachable_memory)
  with reach_append show ?case by (auto simp: replay_steps_append)
qed

text \<open>What a store retains for a history: every committed step, perhaps one step beyond the cursor.\<close>

definition retains ::
  "('p, 'o) journal_view \<Rightarrow> ('p, 'o) history \<Rightarrow> journal_step option \<Rightarrow> bool" where
  "retains v h orphan \<longleftrightarrow>
     view_declaration v = Some (history_declaration h) \<and>
     view_cursor v = Some (history_cursor h) \<and>
     view_steps v = (\<lambda>q. if unat q < length (history_steps h) then Some (history_steps h ! unat q)
                         else if unat q = length (history_steps h) then orphan else None)"

abbreviation journal_of :: "('p, 'o) history \<Rightarrow> digest" where
  "journal_of h \<equiv> declaration_identity (history_declaration h)"

lemma retains_end:
  "retains v h orphan \<Longrightarrow> length (history_steps h) < 2 ^ 64 \<Longrightarrow>
   view_steps v (word_of_nat (length (history_steps h))) = orphan"
  by (simp add: retains_def unsigned_of_nat take_bit_nat_eq_self)

lemma retains_steps:
  assumes "retains v h orphan" and "length (history_steps h) < 2 ^ 64"
  shows "list_all2 (\<lambda>q t. view_steps v q = Some t)
    (map word_of_nat [0..<length (history_steps h)]) (history_steps h)"
  using assms by (simp add: list_all2_conv_all_nth retains_def unsigned_of_nat take_bit_nat_eq_self)

lemma returns_bind:
  assumes "returns s view m x v" and "\<And>s'. view s' = v \<Longrightarrow> returns s' view (f x) y w"
  shows "returns s view (io_bind m f) y w"
  using assms by (fastforce simp: returns_def io_bind_def)

lemma returns_return: "view s = v \<Longrightarrow> returns s view (io_return x) x v"
  by (simp add: returns_def)

lemma returns_lift: "m = Inr x \<Longrightarrow> view s = v \<Longrightarrow> returns s view (io_lift m) x v"
  by (simp add: returns_def)

lemma validate_successor_append:
  assumes "history_memory_ok h" and "append_step E h t = Inr h'"
  shows "validate_successor E h t = Inr (history_cursor h')"
  using assms(2) by (auto simp: append_step_def validate_successor_def result_simps Let_def)

lemma reachable_count:
  assumes "reachable_history E d h" and "length (history_steps h) < 2 ^ 64"
  shows "unat (cursor_count (history_cursor h)) = length (history_steps h)"
    and "cursor_count (history_cursor h) = word_of_nat (length (history_steps h))"
  using reachable_cursor [OF assms(1)] assms(2)
  by (simp_all add: history_cursor_ok_def unsigned_of_nat take_bit_nat_eq_self)
context journal_store_laws
begin

lemma load_committed_replay:
  assumes "list_all2 (\<lambda>q t. view_steps (v i) q = Some t) qs ts"
    and "replay_steps E k ts = Inr h" and "view s = v"
  shows "returns s view (load_committed E store i qs k) h v"
  using assms
proof (induction qs ts arbitrary: s k rule: list_all2_induct)
  case Nil
  then show ?case by (simp add: returns_def)
next
  case (Cons q qs t ts)
  from Cons.prems obtain k' where step: "append_step E k t = Inr k'"
    and rest: "replay_steps E k' ts = Inr h"
    by (auto simp: result_simps)
  have "returns s' view (load_committed E store i qs k') h v" if "view s' = v" for s'
    using Cons.IH rest that by blast
  with Cons.hyps(1) Cons.prems(2) step show ?case
    unfolding load_committed.simps by (intro returns_bind [OF load_step_law]) simp
qed

text \<open>Rehydration reaches the orphan probe with the committed history in memory.\<close>

lemma load_to_probe:
  assumes reach: "reachable_history E d h"
    and keep: "retains (view s (journal_of h)) h orphan"
    and size: "length (history_steps h) < 2 ^ 64"
    and adopt: "\<And>s'. view s' = view s \<Longrightarrow>
      returns s' view (adopt_orphan E store (journal_of h) (history_cursor h) h) k v"
  shows "returns s view (load_history E store (journal_of h)) k v"
proof -
  have decl: "view_declaration (view s (journal_of h)) = Some (history_declaration h)"
    and cursor: "view_cursor (view s (journal_of h)) = Some (history_cursor h)"
    using keep by (simp_all add: retains_def)
  obtain h0 where start: "initial_history E (history_declaration h) = Inr h0"
    and replay: "replay_steps E h0 (history_steps h) = Inr h"
    using reachable_replay [OF reach] reachable_cursor [OF reach]
    by (auto simp: history_cursor_ok_def)
  have own: "cursor_declaration (history_cursor h) = journal_of h"
    using reachable_cursor [OF reach] by (simp add: history_cursor_ok_def)
  note count = reachable_count [OF reach size]
  have committed: "returns s' view (load_or_create_cursor E store (history_declaration h) (journal_of h))
      (history_cursor h) (view s)" if "view s' = view s" for s'
    unfolding load_or_create_cursor_def
    using load_cursor_law [of s' "journal_of h"] that cursor
    by (auto intro!: returns_bind [OF load_cursor_law] returns_return)
  have loop: "returns s' view (load_committed E store (journal_of h)
      (map word_of_nat [0..<unat (cursor_count (history_cursor h))]) h0) h (view s)"
    if "view s' = view s" for s'
    using load_committed_replay [OF _ replay that] retains_steps [OF keep size] count(1) by simp
  show ?thesis
    unfolding load_history_def
    using decl own start loop adopt committed
    by (intro returns_bind [OF load_declaration_law])
      (auto intro!: returns_bind [OF committed] returns_bind [OF loop])
qed

lemma load_retained:
  assumes reach: "reachable_history E d h"
    and keep: "retains (view s (journal_of h)) h None"
    and size: "length (history_steps h) < 2 ^ 64"
  shows "returns s view (load_history E store (journal_of h)) h (view s)"
proof (rule load_to_probe [OF reach keep size])
  fix s' assume "view s' = view s"
  then show "returns s' view (adopt_orphan E store (journal_of h) (history_cursor h) h) h (view s)"
    unfolding adopt_orphan_def
    using retains_end [OF keep size] reachable_count(2) [OF reach size]
    by (intro returns_bind [OF load_step_law]) (simp add: returns_def)
qed

lemma swap_to:
  assumes "view_declaration (view s (cursor_declaration c)) \<noteq> None"
    and "view_cursor (view s (cursor_declaration c)) = Some c0"
  shows "returns s view (compare_and_publish_cursor store (Some (cursor_identity c0)) c) c
    ((view s)(cursor_declaration c := (view s (cursor_declaration c))\<lparr>view_cursor := Some c\<rparr>))"
  using assms by (intro cursor_swap) simp_all

lemma load_adopts:
  assumes reach: "reachable_history E d h"
    and keep: "retains (view s (journal_of h)) h (Some t)"
    and size: "length (history_steps h) < 2 ^ 64"
    and app: "append_step E h t = Inr h'"
  shows "returns s view (load_history E store (journal_of h)) h'
    ((view s)(journal_of h := (view s (journal_of h))\<lparr>view_cursor := Some (history_cursor h')\<rparr>))"
proof (rule load_to_probe [OF reach keep size])
  fix s' assume same: "view s' = view s"
  note mem = reachable_memory [OF reach]
  have next_cursor: "validate_successor E h t = Inr (history_cursor h')"
    by (rule validate_successor_append [OF mem app])
  have own: "cursor_declaration (history_cursor h') = journal_of h"
    using reachable_cursor [OF reach] append_step_Inr(6) [OF mem app]
    by (simp add: history_cursor_ok_def)
  have swap: "returns s'' view
      (compare_and_publish_cursor store (Some (cursor_identity (history_cursor h))) (history_cursor h'))
      (history_cursor h')
      ((view s)(journal_of h := (view s (journal_of h))\<lparr>view_cursor := Some (history_cursor h')\<rparr>))"
    if "view s'' = view s" for s''
    using swap_to [of s'' "history_cursor h'" "history_cursor h"] keep that own
    by (simp add: retains_def)
  show "returns s' view (adopt_orphan E store (journal_of h) (history_cursor h) h) h'
    ((view s)(journal_of h := (view s (journal_of h))\<lparr>view_cursor := Some (history_cursor h')\<rparr>))"
    unfolding adopt_orphan_def
    using same retains_end [OF keep size] reachable_count(2) [OF reach size] next_cursor app
    by (intro returns_bind [OF load_step_law])
      (auto intro!: returns_bind [OF swap] returns_lift)
qed

end
lemma retains_publish:
  assumes "retains v h None" and "step_sequence t = word_of_nat (length (history_steps h))"
    and "length (history_steps h) < 2 ^ 64"
  shows "retains (v\<lparr>view_steps := (view_steps v)(step_sequence t \<mapsto> t)\<rparr>) h (Some t)"
proof -
  have "unat (step_sequence t) = length (history_steps h)"
    using assms(2,3) by (simp add: unsigned_of_nat take_bit_nat_eq_self)
  then have "q = step_sequence t \<longleftrightarrow> unat q = length (history_steps h)" for q
    by (metis unsigned_word_eqI)
  then show ?thesis
    using assms(1) by (auto simp: retains_def fun_eq_iff)
qed

lemma retains_advance:
  assumes "history_memory_ok h" and "retains v h (Some t)" and "append_step E h t = Inr h'"
  shows "retains (v\<lparr>view_cursor := Some (history_cursor h')\<rparr>) h' None"
  using assms(2) append_step_Inr(3,5) [OF assms(1,3)]
  by (auto simp: retains_def fun_eq_iff nth_append less_Suc_eq)

definition intended_step ::
  "('p, 'o) history \<Rightarrow> journal_state \<Rightarrow> journal_event option \<Rightarrow> bytes \<Rightarrow> digest option \<Rightarrow>
   digest option \<Rightarrow> journal_step" where
  "intended_step h state event replay_fact receipt completed =
     \<lparr>step_identity = 0, step_declaration = journal_of h,
      step_sequence = cursor_count (history_cursor h),
      step_predecessor = cursor_latest (history_cursor h), step_state = state, step_event = event,
      step_fact = replay_fact, step_receipt = receipt, step_completed = completed\<rparr>"

text \<open>An append is rejected before any write, or it is one step write followed by one cursor swap.\<close>

definition admissible ::
  "('p, 'o) environment \<Rightarrow> ('p, 'o) history \<Rightarrow> journal_step \<Rightarrow> journal_step \<Rightarrow> ('p, 'o) history \<Rightarrow> bool" where
  "admissible E h cand t h' \<longleftrightarrow> make_step E cand = Inr t \<and> append_step E h t = Inr h'"

lemma append_journal_step_cases:
  assumes "history_memory_ok h"
  obtains (rejected) e where "\<And>store s. append_journal_step E store h st ev f rc ce s = (Inl e, s)"
      and "\<And>t h'. \<not> admissible E h (intended_step h st ev f rc ce) t h'"
    | (admitted) t h' where "admissible E h (intended_step h st ev f rc ce) t h'"
      and "validate_successor E h t = Inr (history_cursor h')"
proof (cases "make_step E (intended_step h st ev f rc ce)")
  case (Inl e)
  then show thesis
    by (intro rejected [of e])
      (simp_all add: append_journal_step_def intended_step_def admissible_def Let_def)
next
  case (Inr t)
  show thesis
  proof (cases "validate_successor E h t")
    case (Inl e)
    with Inr show thesis
      by (intro rejected [of e])
        (auto simp: append_journal_step_def intended_step_def admissible_def Let_def
          dest!: validate_successor_append [OF assms])
  next
    case (Inr c)
    then obtain h' where "append_step E h t = Inr h'"
      by (auto simp: validate_successor_def append_step_def result_simps Let_def)
    with \<open>make_step E _ = Inr t\<close> show thesis
      by (intro admitted) (auto simp: admissible_def validate_successor_append [OF assms])
  qed
qed

lemma admissible_step:
  assumes "reachable_history E d h" and "admissible E h (intended_step h st ev f rc ce) t h'"
  shows "step_declaration t = journal_of h" and "step_sequence t = word_of_nat (length (history_steps h))"
    and "reachable_history E d h'" and "history_declaration h' = history_declaration h"
    and "history_steps h' = history_steps h @ [t]"
    and "cursor_declaration (history_cursor h') = journal_of h"
proof -
  have app: "append_step E h t = Inr h'" using assms(2) by (simp add: admissible_def)
  show "reachable_history E d h'" by (rule reach_append [OF assms(1) app])
  then have own: "cursor_declaration (history_cursor h') = declaration_identity d"
    and cur: "cursor_count (history_cursor h) = word_of_nat (length (history_steps h))"
    and d: "history_declaration h = d"
    using reachable_cursor assms(1) unfolding history_cursor_ok_def by blast+
  show "step_declaration t = journal_of h" "step_sequence t = word_of_nat (length (history_steps h))"
    using assms(2) cur by (auto simp: admissible_def make_step_Inr intended_step_def)
  show "history_declaration h' = history_declaration h" "history_steps h' = history_steps h @ [t]"
    by (rule append_step_Inr [OF reachable_memory [OF assms(1)] app])+
  show "cursor_declaration (history_cursor h') = journal_of h" using own d by simp
qed
context journal_store_laws
begin

definition after_step :: "'s \<Rightarrow> ('p, 'o) history \<Rightarrow> journal_step \<Rightarrow> digest \<Rightarrow> ('p, 'o) journal_view" where
  "after_step s h t = (view s)(journal_of h := (view s (journal_of h))\<lparr>view_steps :=
     (view_steps (view s (journal_of h)))(step_sequence t \<mapsto> t)\<rparr>)"

definition after_cursor ::
  "'s \<Rightarrow> ('p, 'o) history \<Rightarrow> journal_step \<Rightarrow> ('p, 'o) history \<Rightarrow> digest \<Rightarrow> ('p, 'o) journal_view" where
  "after_cursor s h t h' = (after_step s h t)(journal_of h :=
     (after_step s h t (journal_of h))\<lparr>view_cursor := Some (history_cursor h')\<rparr>)"

lemma publish_admissible:
  assumes reach: "reachable_history E d h" and adm: "admissible E h (intended_step h st ev f rc ce) t h'"
    and keep: "retains (view s (journal_of h)) h None" and size: "length (history_steps h) < 2 ^ 64"
  shows "returns s view (publish_step store t) t (after_step s h t)"
    and "retains (after_step s h t (journal_of h)) h (Some t)"
    and "retains (after_cursor s h t h' (journal_of h)) h' None"
    and "view s' = after_step s h t \<Longrightarrow>
      returns s' view (compare_and_publish_cursor store (Some (cursor_identity (history_cursor h)))
        (history_cursor h')) (history_cursor h') (after_cursor s h t h')"
proof -
  note step = admissible_step [OF reach adm]
  show "returns s view (publish_step store t) t (after_step s h t)"
    unfolding after_step_def step(1) [symmetric]
    using keep retains_end [OF keep size] step(1,2)
    by (intro publish_step_new) (simp_all add: retains_def)
  show orphan: "retains (after_step s h t (journal_of h)) h (Some t)"
    using retains_publish [OF keep step(2) size] by (simp add: after_step_def)
  show "retains (after_cursor s h t h' (journal_of h)) h' None"
    using retains_advance [OF reachable_memory [OF reach] orphan, of E h'] adm
    by (simp add: after_cursor_def admissible_def)
  show "returns s' view (compare_and_publish_cursor store (Some (cursor_identity (history_cursor h)))
        (history_cursor h')) (history_cursor h') (after_cursor s h t h')"
    if "view s' = after_step s h t"
    using swap_to [of s' "history_cursor h'" "history_cursor h"] orphan that step(6)
    by (simp add: after_cursor_def retains_def)
qed

text \<open>
  The engine's append under a crash budget: the store then holds the old history, the old history
  with one orphan, or the new history; the call succeeds only in the last case.
\<close>

lemma append_outcomes:
  assumes reach: "reachable_history E d h" and keep: "retains (view s (journal_of h)) h None"
    and size: "length (history_steps h) < 2 ^ 64"
    and run: "append_journal_step E (crashing_store store) h st ev f rc ce (s, n) = (r, (s', m))"
  shows "(\<exists>e. r = Inl e) \<and> retains (view s' (journal_of h)) h None
    \<or> (\<exists>e t h'. r = Inl e \<and> append_step E h t = Inr h' \<and> retains (view s' (journal_of h)) h (Some t))
    \<or> (\<exists>t h'. r = Inr h' \<and> append_step E h t = Inr h' \<and> retains (view s' (journal_of h)) h' None)"
proof -
  from append_journal_step_cases [OF reachable_memory [OF reach]]
  consider (rejected) e where "append_journal_step E (crashing_store store) h st ev f rc ce (s, n) = (Inl e, (s, n))"
    | (admitted) t h' where "admissible E h (intended_step h st ev f rc ce) t h'"
      "validate_successor E h t = Inr (history_cursor h')"
    by metis
  then show ?thesis
  proof cases
    case rejected
    with run keep show ?thesis by auto
  next
    case (admitted t h')
    note publish = publish_admissible [OF reach admitted(1) keep size]
    have make: "make_step E (intended_step h st ev f rc ce) = Inr t" and app: "append_step E h t = Inr h'"
      using admitted(1) by (simp_all add: admissible_def)
    from publish(1) obtain s1 where s1: "publish_step store t s = (Inr t, s1)" "view s1 = after_step s h t"
      by (auto simp: returns_def)
    from publish(4) [OF s1(2)] obtain s2 where s2:
      "compare_and_publish_cursor store (Some (cursor_identity (history_cursor h))) (history_cursor h') s1 =
         (Inr (history_cursor h'), s2)" "view s2 = after_cursor s h t h'"
      by (auto simp: returns_def)
    note unfold = append_journal_step_def intended_step_def [symmetric] make admitted(2) Let_def
      crashing_store_def crash_guard_def io_bind_cases
    consider "n = 0" | "n = 1" | k where "n = Suc (Suc k)"
      by (metis One_nat_def nat.exhaust)
    then show ?thesis
    proof cases
      case 1
      with run have "r = Inl (Logic_error ''crash'')" "s' = s"
        by (simp_all add: unfold)
      with keep show ?thesis by simp
    next
      case 2
      with run have "r = Inl (Logic_error ''crash'')" "s' = s1"
        by (simp_all add: unfold s1)
      with publish(2) s1(2) app show ?thesis by auto
    next
      case 3
      with run have "r = Inr h'" "s' = s2"
        by (simp_all add: unfold s1 s2 app)
      with publish(3) s2(2) app show ?thesis by auto
    qed
  qed
qed

lemma crash_safe:
  assumes reach: "reachable_history E d h" and keep: "retains (view s (journal_of h)) h None"
    and room: "Suc (length (history_steps h)) < 2 ^ 64"
    and run: "append_journal_step E (crashing_store store) h st ev f rc ce (s, n) = (r, (s', m))"
  shows "\<exists>k s''. load_history E store (journal_of h) s' = (Inr k, s'') \<and>
     retains (view s'' (journal_of h)) k None \<and> reachable_history E d k \<and>
     (k = h \<or> (\<exists>t. append_step E h t = Inr k)) \<and> (\<forall>x. r = Inr x \<longrightarrow> x = k)"
proof -
  note mem = reachable_memory [OF reach]
  have size: "length (history_steps h) < 2 ^ 64" using room by simp
  from append_outcomes [OF reach keep size run] consider
    (before) e where "r = Inl e" "retains (view s' (journal_of h)) h None"
  | (orphan) e t h' where "r = Inl e" "append_step E h t = Inr h'" "retains (view s' (journal_of h)) h (Some t)"
  | (after) t h' where "r = Inr h'" "append_step E h t = Inr h'" "retains (view s' (journal_of h)) h' None"
    by blast
  then show ?thesis
  proof cases
    case before
    with load_retained [OF reach before(2) size] reach show ?thesis by (auto simp: returns_def)
  next
    case orphan
    from load_adopts [OF reach orphan(3) size orphan(2)] obtain s'' where
      load: "load_history E store (journal_of h) s' = (Inr h', s'')" and
      v: "view s'' (journal_of h) =
            (view s' (journal_of h))\<lparr>view_cursor := Some (history_cursor h')\<rparr>"
      by (auto simp: returns_def)
    have "retains (view s'' (journal_of h)) h' None"
      unfolding v by (rule retains_advance [OF mem orphan(3,2)])
    with orphan load reach_append [OF reach orphan(2)] show ?thesis by auto
  next
    case after
    note reach' = reach_append [OF reach after(2)]
    have same: "history_declaration h' = history_declaration h" "history_steps h' = history_steps h @ [t]"
      by (rule append_step_Inr [OF mem after(2)])+
    have "length (history_steps h') < 2 ^ 64" using room by (simp add: same)
    with after(3) have "returns s' view (load_history E store (journal_of h)) h' (view s')"
      using load_retained [OF reach', of s'] by (simp add: same)
    with after reach' same show ?thesis by (auto simp: returns_def)
  qed
qed

end

section \<open>Runs of processes over one journal\<close>

text \<open>
  A process holds a history and appends to it; if the append throws, a new process rehydrates the
  history from the store.  The sequence counter is 64 bits wide, so a run stays below it.
\<close>

inductive durable_step ::
  "('p, 'o) environment \<Rightarrow> ('s, 'p, 'o) journal_store \<Rightarrow> 's \<times> ('p, 'o) history \<Rightarrow>
   's \<times> ('p, 'o) history \<Rightarrow> bool"
  for E and store where
  step_acknowledged:
    "append_journal_step E (crashing_store store) h st ev f rc ce (s, n) = (Inr h', (s', m)) \<Longrightarrow>
     Suc (length (history_steps h)) < 2 ^ 64 \<Longrightarrow> durable_step E store (s, h) (s', h')"
| step_recovered:
    "append_journal_step E (crashing_store store) h st ev f rc ce (s, n) = (Inl e, (s', m)) \<Longrightarrow>
     load_history E store (journal_of h) s' = (Inr k, s'') \<Longrightarrow>
     Suc (length (history_steps h)) < 2 ^ 64 \<Longrightarrow> durable_step E store (s, h) (s'', k)"

inductive_cases durable_stepE: "durable_step E store (s, h) (s', h')"

context journal_store_laws
begin

definition durable :: "('p, 'o) environment \<Rightarrow> ('p, 'o) journal_declaration \<Rightarrow> 's \<times> ('p, 'o) history \<Rightarrow> bool" where
  "durable E d sh \<longleftrightarrow> reachable_history E d (snd sh) \<and>
     retains (view (fst sh) (declaration_identity d)) (snd sh) None"

lemma reachable_declaration: "reachable_history E d h \<Longrightarrow> history_declaration h = d"
  using reachable_cursor by (auto simp: history_cursor_ok_def)

lemma durable_step_keeps:
  assumes "durable E d (s, h)" and "durable_step E store (s, h) (s', h')"
  shows "durable E d (s', h')"
    and "history_steps h' = history_steps h \<or> (\<exists>t. history_steps h' = history_steps h @ [t])"
proof -
  have reach: "reachable_history E d h" and keep: "retains (view s (journal_of h)) h None"
    using assms(1) reachable_declaration by (auto simp: durable_def)
  have "durable E d (s', h') \<and> (h' = h \<or> (\<exists>t. append_step E h t = Inr h'))"
    using assms(2)
  proof (rule durable_stepE)
    fix st ev f rc ce n m
    assume run: "append_journal_step E (crashing_store store) h st ev f rc ce (s, n) = (Inr h', (s', m))"
      and "length (history_steps h) < 18446744073709551615"
    then have room: "Suc (length (history_steps h)) < 2 ^ 64" by simp
    have "length (history_steps h) < 2 ^ 64" using room by simp
    from append_outcomes [OF reach keep this run] obtain t where
      app: "append_step E h t = Inr h'" and kept: "retains (view s' (journal_of h)) h' None" by auto
    with reach_append [OF reach app] reachable_declaration [OF reach] show ?thesis
      by (auto simp: durable_def)
  next
    fix st ev f rc ce n e s1 m
    assume run: "append_journal_step E (crashing_store store) h st ev f rc ce (s, n) = (Inl e, (s1, m))"
      and load: "load_history E store (journal_of h) s1 = (Inr h', s')"
      and "length (history_steps h) < 18446744073709551615"
    then have room: "Suc (length (history_steps h)) < 2 ^ 64" by simp
    from crash_safe [OF reach keep room run] load reachable_declaration [OF reach]
    show ?thesis by (auto simp: durable_def)
  qed
  then show "durable E d (s', h')"
    and "history_steps h' = history_steps h \<or> (\<exists>t. history_steps h' = history_steps h @ [t])"
    using append_step_Inr(5) [OF reachable_memory [OF reach]] by auto
qed

lemma durable_runs:
  assumes "(durable_step E store)\<^sup>*\<^sup>* x y" and "durable E d x"
  shows "durable E d y \<and> (\<exists>ts. history_steps (snd y) = history_steps (snd x) @ ts)"
  using assms
proof (induction rule: rtranclp_induct)
  case base
  then show ?case by simp
next
  case (step y z)
  obtain s1 h1 s2 h2 where pairs: "y = (s1, h1)" "z = (s2, h2)" by (cases y; cases z)
  with step have "durable E d (s1, h1) \<and> (\<exists>ts. history_steps h1 = history_steps (snd x) @ ts)" by simp
  with durable_step_keeps [of E d s1 h1 s2 h2] step(2) pairs show ?case by auto
qed

lemma durable_loads:
  assumes "durable E d (s, h)" and "length (history_steps h) < 2 ^ 64"
  shows "returns s view (load_history E store (declaration_identity d)) h (view s)"
  using load_retained [of E d h s] assms reachable_declaration by (auto simp: durable_def)

lemma initial_journal:
  assumes start: "initial_history E d = Inr h"
    and fresh: "view_declaration (view s (declaration_identity d)) = None"
  shows "\<exists>s'. publish_initial_declaration E store d s = (Inr h, s') \<and> durable E d (s', h)"
proof -
  let ?D = "declaration_identity d"
  let ?v = "\<lparr>view_declaration = Some d, view_steps = (\<lambda>_. None), view_cursor = None\<rparr>"
  have reach: "reachable_history E d h" by (rule reach_initial [OF start])
  have own: "cursor_declaration (history_cursor h) = ?D"
    using reachable_cursor [OF reach] by (simp add: history_cursor_ok_def)
  have swap: "returns s' view (compare_and_publish_cursor store None (history_cursor h)) (history_cursor h)
      ((view s)(?D := ?v\<lparr>view_cursor := Some (history_cursor h)\<rparr>))"
    if "view s' = (view s)(?D := ?v)" for s'
    using cursor_swap [of s' "history_cursor h" None] that by (simp add: own)
  have "returns s view (publish_initial_declaration E store d) h
      ((view s)(?D := ?v\<lparr>view_cursor := Some (history_cursor h)\<rparr>))"
    unfolding publish_initial_declaration_def
    using start by (intro returns_bind [OF publish_declaration_new [OF fresh]])
      (auto intro!: returns_bind [OF swap] returns_return)
  moreover have "history_steps h = []" "history_declaration h = d"
    using start by (auto simp: initial_history_Inr)
  ultimately show ?thesis
    using reach by (auto simp: returns_def durable_def retains_def)
qed

text \<open>A crash between the declaration and the first cursor: rehydration publishes that cursor.\<close>

lemma load_declared:
  assumes start: "initial_history E d = Inr h"
    and bare: "view s (declaration_identity d) =
      \<lparr>view_declaration = Some d, view_steps = (\<lambda>_. None), view_cursor = None\<rparr>"
  shows "\<exists>s'. load_history E store (declaration_identity d) s = (Inr h, s') \<and> durable E d (s', h)"
proof -
  let ?D = "declaration_identity d"
  let ?w = "(view s)(?D := (view s ?D)\<lparr>view_cursor := Some (initial_cursor E d)\<rparr>)"
  have reach: "reachable_history E d h" by (rule reach_initial [OF start])
  have h: "history_cursor h = initial_cursor E d" "history_steps h = []" "history_declaration h = d"
    using start by (auto simp: initial_history_Inr)
  have own: "cursor_declaration (initial_cursor E d) = ?D" "cursor_count (initial_cursor E d) = 0"
    by (simp_all add: initial_cursor_def)
  have swap: "returns s' view (compare_and_publish_cursor store None (initial_cursor E d))
      (initial_cursor E d) ?w" if "view s' = view s" for s'
    using cursor_swap [of s' "initial_cursor E d" None] that bare by (simp add: own h)
  have created: "returns s' view (load_or_create_cursor E store d ?D) (initial_cursor E d) ?w"
    if "view s' = view s" for s'
    unfolding load_or_create_cursor_def
    using that bare by (intro returns_bind [OF load_cursor_law])
      (auto simp: Let_def intro!: returns_bind [OF swap] returns_return)
  have adopt: "returns s' view (adopt_orphan E store ?D (initial_cursor E d) h) h ?w"
    if "view s' = ?w" for s'
    unfolding adopt_orphan_def
    using that bare by (intro returns_bind [OF load_step_law]) (simp add: returns_def)
  have "returns s view (load_history E store ?D) h ?w"
    unfolding load_history_def
    using bare own h(1) start adopt
    by (intro returns_bind [OF load_declaration_law]) (auto intro!: returns_bind [OF created])
  then show ?thesis
    using reach h bare by (auto simp: returns_def durable_def retains_def)
qed

end

section \<open>Properties\<close>

text \<open>
  C1: crash safety of the engine's append, on the scripted store.  Let the process die at any of its
  durable writes.  Rehydration then succeeds and returns the history before the append or the
  history after it, never anything else; it returns the later one whenever the append had returned;
  and the store is again exactly the retained form of what was returned.
\<close>

theorem append_crash_safe:
  assumes "reachable_history E d h"
    and "retains (scripted_view s (journal_of h)) h None"
    and "Suc (length (history_steps h)) < 2 ^ 64"
    and "append_journal_step E (crashing_store scripted_store) h st ev f rc ce (s, n) = (r, (s', m))"
  shows "\<exists>k s''. load_history E scripted_store (journal_of h) s' = (Inr k, s'') \<and>
     retains (scripted_view s'' (journal_of h)) k None \<and> reachable_history E d k \<and>
     (k = h \<or> (\<exists>t. append_step E h t = Inr k)) \<and> (\<forall>x. r = Inr x \<longrightarrow> x = k)"
  using scripted.crash_safe [OF assms] .

definition sample_state :: "(8 word, 8 word) scripted_state" where
  "sample_state = snd (publish_initial_declaration sample_environment scripted_store
     sample_declaration empty_scripted)"

lemma sample_state_retains:
  "retains (scripted_view sample_state 0) sample_history None"
  by (auto simp: sample_state_def publish_initial_declaration_def io_bind_def scripted_store_def
      scripted_publish_declaration_def scripted_compare_and_publish_def empty_scripted_def
      initial_history_def sample_declaration_def sample_seal_def success_effect_required_def
      Let_def retains_def scripted_view_def sample_history_def initial_cursor_def fun_eq_iff)

theorem append_crash_safe_witness:
  "\<exists>k s''. load_history sample_environment scripted_store 0
      (fst (snd (append_journal_step sample_environment (crashing_store scripted_store) sample_history
        Prepared None [] None None (sample_state, 1)))) = (Inr k, s'')"
proof -
  have id: "journal_of sample_history = 0"
    by (simp add: sample_history_def sample_declaration_def)
  obtain r s' m where run: "append_journal_step sample_environment (crashing_store scripted_store)
      sample_history Prepared None [] None None (sample_state, 1) = (r, (s', m))"
    by (metis prod_cases3)
  have "Suc (length (history_steps sample_history)) < 2 ^ 64"
    by (simp add: sample_history_def)
  from append_crash_safe [OF sample_reachable _ this run] sample_state_retains run show ?thesis
    by (auto simp: id)
qed

text \<open>
  C2: no acknowledged step is lost.  Start from any store without the journal, publish the
  declaration, then let processes append, crash at any write and be replaced by processes that
  rehydrate, in any order: the history a process holds is reachable, everything held before is a
  prefix of it, and another rehydration returns exactly it.
\<close>

theorem acknowledged_steps_survive:
  assumes "initial_history E d = Inr h0"
    and "scripted_journals s0 (digest_string (declaration_identity d)) = None"
    and "publish_initial_declaration E scripted_store d s0 = (Inr h0, s)"
    and "(durable_step E scripted_store)\<^sup>*\<^sup>* (s, h0) (s1, h1)"
    and "(durable_step E scripted_store)\<^sup>*\<^sup>* (s1, h1) (s2, h2)"
    and "length (history_steps h2) < 2 ^ 64"
  shows "reachable_history E d h2 \<and> (\<exists>ts. history_steps h2 = history_steps h1 @ ts) \<and>
     (\<exists>s3. load_history E scripted_store (declaration_identity d) s2 = (Inr h2, s3) \<and>
           scripted_view s3 = scripted_view s2)"
proof -
  have "view_declaration (scripted_view s0 (declaration_identity d)) = None"
    using assms(2) by (simp add: scripted_view_def)
  from scripted.initial_journal [OF assms(1) this] assms(3) have "scripted.durable E d (s, h0)" by simp
  with scripted.durable_runs [OF assms(4)] have d1: "scripted.durable E d (s1, h1)" by blast
  from scripted.durable_runs [OF assms(5) d1] have d2: "scripted.durable E d (s2, h2)"
    and ext: "\<exists>ts. history_steps h2 = history_steps h1 @ ts" by auto
  from scripted.durable_loads [OF d2 assms(6)] d2 ext show ?thesis
    by (auto simp: returns_def scripted.durable_def)
qed

theorem acknowledged_steps_survive_witness:
  "\<exists>s3. load_history sample_environment scripted_store 0 sample_state = (Inr sample_history, s3)"
proof -
  have start: "initial_history sample_environment sample_declaration = Inr sample_history"
    by (simp add: initial_history_def sample_history_def sample_declaration_def sample_seal_def
        success_effect_required_def)
  have free: "scripted_journals (empty_scripted :: (8 word, 8 word) scripted_state)
      (digest_string (declaration_identity sample_declaration)) = None"
    by (simp add: empty_scripted_def)
  have published: "publish_initial_declaration sample_environment scripted_store sample_declaration
      empty_scripted = (Inr sample_history, sample_state)"
    using start by (simp add: sample_state_def publish_initial_declaration_def io_bind_def
      scripted_store_def scripted_publish_declaration_def scripted_compare_and_publish_def
      empty_scripted_def Let_def sample_history_def initial_cursor_def sample_declaration_def)
  from acknowledged_steps_survive [OF start free published rtranclp.rtrancl_refl rtranclp.rtrancl_refl]
  show ?thesis by (auto simp: sample_history_def sample_declaration_def)
qed

end
