(* ===== verification/Restart.thy ===== *)
theory Restart
  imports Admission Store
begin

text \<open>
  Restart assessment (\<open>restart.h\<close>, \<open>restart.cpp\<close>): what a controller may do with one durable journal.
  A journal with a receipt is never replayed, and a mutating journal is continued forward only when
  no active effect was left open, failed or indeterminate.
\<close>

datatype restart_disposition =
  Resume_forward | Resume_recovery | Disposition_terminal | External_resolution_required

section \<open>Progress of a durable record\<close>

fun restart_scan ::
  "'p journal_effect list \<Rightarrow> effect_progress list \<Rightarrow> journal_event list \<Rightarrow>
   error + effect_progress list" where
  "restart_scan effects cells [] = Inr cells"
| "restart_scan effects cells (e # es) =
     (case find (\<lambda>c. effect_identity c = event_effect e) effects of
        None \<Rightarrow> Inl (Logic_error ''validated journal cites an unknown effect'')
      | Some c \<Rightarrow>
          let i = unat (effect_ordinal c) in
          restart_scan effects
            (cells[i := if event_kind e = Intent then (cells ! i)\<lparr>intended := True\<rparr>
                        else (cells ! i)\<lparr>terminal := Some (event_kind e)\<rparr>]) es)"

definition restart_progress :: "('p, 'o) journal_record \<Rightarrow> error + effect_progress list" where
  "restart_progress j = restart_scan (record_effects j)
     (replicate (length (record_effects j)) fresh_progress) (record_events j)"

definition cell_requires_recovery :: "effect_progress \<Rightarrow> bool" where
  "cell_requires_recovery c =
     (if intended c \<and> terminal c = None then True
      else case terminal c of
        None \<Rightarrow> False
      | Some kind \<Rightarrow> kind = Failed \<or> kind = Indeterminate_event)"

definition active_effect_requires_recovery :: "('p, 'o) journal_record \<Rightarrow> error + bool" where
  "active_effect_requires_recovery j =
     rbind (restart_progress j) (\<lambda>cells.
     Inr (\<exists>e \<in> set (record_effects j). effect_kind e = Publish_active_object \<and>
            cell_requires_recovery (cells ! unat (effect_ordinal e))))"

fun disposition :: "('p, 'o) journal_record \<Rightarrow> error + restart_disposition" where
  "disposition j =
     (if record_receipt j \<noteq> None
      then Inr (if record_state j = Indeterminate \<or> record_state j = External_resolution_pending
                then External_resolution_required else Disposition_terminal)
      else case record_state j of
        Preparing \<Rightarrow> Inr Resume_forward
      | Prepared \<Rightarrow> Inr Resume_forward
      | Effects_visible \<Rightarrow> Inr Resume_forward
      | Result_observed \<Rightarrow> Inr Resume_forward
      | Mutating \<Rightarrow> rbind (active_effect_requires_recovery j) (\<lambda>needed.
          Inr (if needed then Resume_recovery else Resume_forward))
      | Recovery_pending \<Rightarrow> Inr Resume_recovery
      | Recovering \<Rightarrow> Inr Resume_recovery
      | Application_completed \<Rightarrow> Inr Disposition_terminal
      | Recovered \<Rightarrow> Inr Disposition_terminal
      | Finalized \<Rightarrow> Inr Disposition_terminal
      | Abandoned \<Rightarrow> Inr Disposition_terminal
      | External_resolution_pending \<Rightarrow> Inr External_resolution_required
      | Indeterminate \<Rightarrow> Inr External_resolution_required)"

record restart_assessment =
  assessment_journal :: digest
  assessment_state :: journal_state
  assessment_disposition :: restart_disposition

definition assess_restart :: "('p, 'o) journal_record \<Rightarrow> error + restart_assessment" where
  "assess_restart j =
     rbind (disposition j) (\<lambda>d.
     Inr \<lparr>assessment_journal = record_identity j, assessment_state = record_state j,
          assessment_disposition = d\<rparr>)"

definition resumable :: "restart_assessment \<Rightarrow> bool" where
  "resumable a \<longleftrightarrow>
     assessment_disposition a = Resume_forward \<or> assessment_disposition a = Resume_recovery"

section \<open>Bindings of a restart\<close>

datatype restart_error_code =
  Journal_not_resumable | Journal_operation_kind_mismatch | Journal_request_mismatch
| Journal_plan_mismatch | Journal_target_mismatch | Journal_control_mismatch
| Journal_backend_mismatch | Transaction_attempt_nonce_mismatch

datatype 'p restart_error =
  Restart_refused restart_error_code string
| Restart_admission "'p admission_error"
| Restart_broken error

definition lift_assessment :: "error + 'v \<Rightarrow> 'p restart_error + 'v" where
  "lift_assessment r = (case r of Inl e \<Rightarrow> Inl (Restart_broken e) | Inr v \<Rightarrow> Inr v)"

definition lift_admission :: "'p admission_error + 'v \<Rightarrow> 'p restart_error + 'v" where
  "lift_admission r = (case r of Inl e \<Rightarrow> Inl (Restart_admission e) | Inr v \<Rightarrow> Inr v)"

definition validate_journal_bindings ::
  "('p, 'o) application_request \<Rightarrow> operation_kind \<Rightarrow> ('p, 'o) journal_record \<Rightarrow>
   'p restart_error + unit" where
  "validate_journal_bindings request kind j =
     rbind (lift_assessment (assess_restart j)) (\<lambda>assessment.
     let h = record_header j in
     if \<not> resumable assessment
     then Inl (Restart_refused Journal_not_resumable
       ''application journal is not automatically resumable'')
     else if header_kind h \<noteq> kind
     then Inl (Restart_refused Journal_operation_kind_mismatch
       ''application journal contains another operation kind'')
     else if header_request h \<noteq> request_identity request
     then Inl (Restart_refused Journal_request_mismatch
       ''application journal belongs to another request'')
     else if header_plan h \<noteq> plan_identity (request_plan request)
     then Inl (Restart_refused Journal_plan_mismatch
       ''application journal belongs to another operation plan'')
     else if header_target h \<noteq> context_identity (request_target request)
     then Inl (Restart_refused Journal_target_mismatch
       ''application journal belongs to another target context'')
     else if header_control h \<noteq> control_identity (request_control request)
     then Inl (Restart_refused Journal_control_mismatch
       ''application journal belongs to another execution control'')
     else if header_backend h \<noteq> context_mutation_backend (request_target request)
     then Inl (Restart_refused Journal_backend_mismatch
       ''application journal belongs to another backend'')
     else Inr ())"

text \<open>The overloads for installation and upgrade requests, and the one for removals.\<close>

definition validate_incoming_restart ::
  "('p::linorder, 'o) environment \<Rightarrow> ('p, 'o) application_request \<Rightarrow> incoming_authority \<Rightarrow>
   ('p, 'o) state_projection \<Rightarrow> mutation_lease \<Rightarrow> mutation_backend \<Rightarrow> ('p, 'o) journal_record \<Rightarrow>
   package_archive \<Rightarrow> 'p restart_error + unit" where
  "validate_incoming_restart E request incoming state lease backend j archive =
     rbind (lift_admission
       (validate_incoming_admission E request incoming state lease backend archive)) (\<lambda>_.
     validate_journal_bindings request (request_kind request) j)"

definition validate_removal_restart ::
  "('p::linorder, 'o) application_request \<Rightarrow> ('p, 'o) state_projection \<Rightarrow> mutation_lease \<Rightarrow>
   mutation_backend \<Rightarrow> ('p, 'o) journal_record \<Rightarrow> 'p restart_error + unit" where
  "validate_removal_restart request state lease backend j =
     rbind (lift_admission (validate_removal_admission request state lease backend)) (\<lambda>_.
     validate_journal_bindings request Remove j)"

definition validate_restarted_transaction ::
  "target_context \<Rightarrow> mutation_lease \<Rightarrow> mutation_backend \<Rightarrow> attempt \<Rightarrow> backend_transaction \<Rightarrow>
   'p::linorder restart_error + unit" where
  "validate_restarted_transaction target lease backend attempt transaction =
     rbind (lift_admission (validate_transaction target lease backend transaction)) (\<lambda>_.
     if transaction_nonce transaction \<noteq> attempt_nonce attempt
     then Inl (Restart_refused Transaction_attempt_nonce_mismatch
       ''restarted transaction reports another attempt nonce'')
     else Inr ())"

section \<open>Progress is the event history of each effect\<close>

lemma restart_scan_append:
  "restart_scan effects cells (es @ fs) =
     rbind (restart_scan effects cells es) (\<lambda>c. restart_scan effects c fs)"
  by (induction effects cells es rule: restart_scan.induct) (auto simp: Let_def split: option.splits)

lemma find_distinct:
  assumes "distinct (map f xs)" and "i < length xs"
  shows "find (\<lambda>x. f x = f (xs ! i)) xs = Some (xs ! i)"
  using assms
proof (induction xs arbitrary: i)
  case (Cons x xs)
  show ?case
  proof (cases i)
    case (Suc k)
    then have "f x \<noteq> f (xs ! k)" using Cons.prems by auto
    then show ?thesis using Cons Suc by simp
  qed simp
qed simp

lemma restart_scan_progress:
  assumes dist: "distinct (map effect_identity effects)" and ord: "consecutive_ordinals 0 effects"
    and size: "size_ok effects"
    and log: "event_log_ok (effect_identity ` set effects) events"
  shows "\<exists>cells. restart_scan effects (replicate (length effects) fresh_progress) events = Inr cells \<and>
    progress_matches (ordinal_map effects) events cells"
  using log
proof (induction events rule: rev_induct)
  case Nil
  have "progress_of [] = fresh_progress" by (simp add: progress_of_def fresh_progress_def)
  then show ?case
    using ordinal_map_nth [OF dist ord size] by (auto simp: progress_matches_def kinds_of_def)
next
  case (snoc e es)
  have es: "event_log_ok (effect_identity ` set effects) es"
    and known: "event_effect e \<in> effect_identity ` set effects"
    and follows: "follows_protocol (kinds_of es (event_effect e) @ [event_kind e])"
    using snoc.prems by (simp_all add: event_log_ok_snoc)
  from snoc.IH [OF es] obtain cells
    where cells: "restart_scan effects (replicate (length effects) fresh_progress) es = Inr cells"
      and match: "progress_matches (ordinal_map effects) es cells" by blast
  from known obtain i where i: "i < length effects" "event_effect e = effect_identity (effects ! i)"
    by (auto simp: in_set_conv_nth)
  then have at: "ordinal_map effects (event_effect e) = Some i"
    using ordinal_map_nth [OF dist ord size] by simp
  have ordinal: "unat (effect_ordinal (effects ! i)) = i"
    using i(1) ord size by (simp add: consecutive_ordinals_iff unat_of_nat take_bit_nat_eq_self unsigned_of_nat)
  define c where "c = progress_of (kinds_of es (event_effect e) @ [event_kind e])"
  have "cells ! i = progress_of (kinds_of es (event_effect e))"
    using match at by (simp add: progress_matches_def)
  then have "restart_scan effects cells [e] = Inr (cells[i := c])"
    using find_distinct [OF dist i(1)] follows
    by (simp add: i(2) ordinal c_def Let_def progress_of_snoc del: follows_protocol.simps)
  moreover have "progress_matches (ordinal_map effects) (es @ [e]) (cells[i := c])"
    by (rule progress_matches_step [OF ordinal_map_inj(1) [OF dist ord size] match at])
      (simp add: c_def)
  ultimately show ?case using cells by (simp add: restart_scan_append del: restart_scan.simps(2))
qed

text \<open>What \<open>make_record\<close> guarantees of a record.\<close>

definition valid_record :: "('p, 'o) environment \<Rightarrow> ('p, 'o) journal_record \<Rightarrow> bool" where
  "valid_record E j \<longleftrightarrow> size_ok (record_effects j) \<and>
     make_record E (record_header j) (record_state j) (record_effects j) (record_events j)
       (record_receipt j) (record_completed j) = Inr j"

lemma valid_record_ok:
  assumes "valid_record E j"
  shows "record_ok (record_state j) (record_effects j) (record_events j) (record_receipt j)
    (record_completed j)"
proof -
  have size: "size_ok (record_effects j)" and
    made: "make_record E (record_header j) (record_state j) (record_effects j) (record_events j)
       (record_receipt j) (record_completed j) = Inr j"
    using assms unfolding valid_record_def by blast+
  have "sort_key effect_ordinal (record_effects j) = record_effects j"
    using make_record_fields [OF made] by metis
  then show ?thesis using make_record_iff [OF size] made by metis
qed

lemma restart_progress_cells:
  assumes "valid_record E j"
  obtains cells where "restart_progress j = Inr cells"
    and "\<And>e. e \<in> set (record_effects j) \<Longrightarrow>
       cells ! unat (effect_ordinal e) = progress_of (kinds_of (record_events j) (effect_identity e))"
proof -
  have size: "size_ok (record_effects j)" using assms by (simp add: valid_record_def)
  have ok: "consecutive_ordinals 0 (record_effects j)" "distinct (map effect_identity (record_effects j))"
    "event_log_ok (effect_identity ` set (record_effects j)) (record_events j)"
    using valid_record_ok [OF assms] by (simp_all add: record_ok_def)
  from restart_scan_progress [OF ok(2,1) size ok(3)] obtain cells
    where run: "restart_progress j = Inr cells"
      and match: "progress_matches (ordinal_map (record_effects j)) (record_events j) cells"
    by (auto simp: restart_progress_def)
  have "cells ! unat (effect_ordinal e) = progress_of (kinds_of (record_events j) (effect_identity e))"
    if e: "e \<in> set (record_effects j)" for e
  proof -
    obtain i where i: "i < length (record_effects j)" "record_effects j ! i = e"
      using e by (auto simp: in_set_conv_nth)
    have "unat (effect_ordinal e) = i"
      using i ok(1) size
      by (auto simp: consecutive_ordinals_iff unat_of_nat take_bit_nat_eq_self unsigned_of_nat)
    moreover have "ordinal_map (record_effects j) (effect_identity e) = Some i"
      using ordinal_map_nth [OF ok(2,1) size] i by simp
    ultimately show ?thesis using match by (simp add: progress_matches_def)
  qed
  with run that show ?thesis by blast
qed

section \<open>Safety of the assessment\<close>

definition settled :: "('p, 'o) journal_record \<Rightarrow> 'p journal_effect \<Rightarrow> bool" where
  "settled j e \<longleftrightarrow> kinds_of (record_events j) (effect_identity e) \<in> {[], [Intent, Completed]}"

lemma cell_settled:
  "follows_protocol ks \<Longrightarrow> cell_requires_recovery (progress_of ks) \<longleftrightarrow> ks \<notin> {[], [Intent, Completed]}"
proof (cases ks rule: follows_protocol.cases)
  case (3 k t)
  then show "follows_protocol ks \<Longrightarrow> ?thesis"
    by (cases t) (auto simp: cell_requires_recovery_def progress_of_def)
qed (auto simp: cell_requires_recovery_def progress_of_def)

lemma active_effect_requires_recovery_Inr:
  assumes "valid_record E j"
  shows "active_effect_requires_recovery j =
    Inr (\<exists>e \<in> set (record_effects j). effect_kind e = Publish_active_object \<and> \<not> settled j e)"
proof -
  obtain cells where run: "restart_progress j = Inr cells"
    and cells: "\<And>e. e \<in> set (record_effects j) \<Longrightarrow>
       cells ! unat (effect_ordinal e) = progress_of (kinds_of (record_events j) (effect_identity e))"
    using restart_progress_cells [OF assms] by blast
  have "follows_protocol (kinds_of (record_events j) d)" for d
    using valid_record_ok [OF assms] by (simp add: record_ok_def event_log_ok_def)
  then have "cell_requires_recovery (cells ! unat (effect_ordinal e)) \<longleftrightarrow> \<not> settled j e"
    if "e \<in> set (record_effects j)" for e
    using cells [OF that] cell_settled by (simp add: settled_def)
  then show ?thesis by (auto simp: active_effect_requires_recovery_def run)
qed

lemma disposition_total:
  assumes "valid_record E j"
  obtains d where "disposition j = Inr d"
  using active_effect_requires_recovery_Inr [OF assms] that
  by (cases "record_state j"; cases "record_receipt j") auto

text \<open>
  C18: a mutating journal is resumed forward only over settled effects.  Every journal record the
  record factory accepts is assessed without error; and when it is mutating and has no receipt, it
  is continued forward exactly if each of its active publications was either never begun or completed,
  and is sent to recovery if one was left open, failed or indeterminate.
\<close>

theorem forward_only_over_settled_effects:
  assumes "valid_record E j" and "record_state j = Mutating" and "record_receipt j = None"
  shows "\<exists>a. assess_restart j = Inr a \<and>
    assessment_disposition a =
      (if \<forall>e \<in> set (record_effects j). effect_kind e = Publish_active_object \<longrightarrow>
            kinds_of (record_events j) (effect_identity e) = [] \<or>
            kinds_of (record_events j) (effect_identity e) = [Intent, Completed]
       then Resume_forward else Resume_recovery)"
  using active_effect_requires_recovery_Inr [OF assms(1)] assms(2,3)
  by (auto simp: assess_restart_def settled_def)

text \<open>
  C19: a sealed journal is never replayed: every valid record is assessed, and it may be resumed
  exactly when it has no receipt and its state is one of the seven open states.
\<close>

theorem sealed_journal_not_resumed:
  assumes "valid_record E j"
  shows "\<exists>a. assess_restart j = Inr a \<and> assessment_journal a = record_identity j \<and>
    (resumable a \<longleftrightarrow> record_receipt j = None \<and>
       record_state j \<in> {Preparing, Prepared, Mutating, Effects_visible, Result_observed,
         Recovery_pending, Recovering})"
proof -
  obtain d where d: "disposition j = Inr d" by (rule disposition_total [OF assms])
  have "d = Resume_forward \<or> d = Resume_recovery \<longleftrightarrow> record_receipt j = None \<and>
      record_state j \<in> {Preparing, Prepared, Mutating, Effects_visible, Result_observed,
         Recovery_pending, Recovering}"
    using d active_effect_requires_recovery_Inr [OF assms]
    by (cases "record_state j"; cases "record_receipt j") (auto split: if_splits)
  then show ?thesis using d by (auto simp: assess_restart_def resumable_def simp del: disposition.simps)
qed

section \<open>Reopening the attempt\<close>

text \<open>
  \<open>finish_restart\<close> after the transaction was reopened: the transaction is validated against the attempt
  of the restart view, the lease again, and the attempt is rebuilt and compared.
\<close>

definition reopened_attempt ::
  "('p::linorder, 'o) environment \<Rightarrow> ('p, 'o) application_request \<Rightarrow> ('p, 'o) state_projection \<Rightarrow>
   mutation_lease \<Rightarrow> mutation_backend \<Rightarrow> ('p, 'o) journal_record \<Rightarrow> attempt \<Rightarrow> backend_transaction \<Rightarrow>
   'p restart_error + attempt" where
  "reopened_attempt E request state lease backend j viewed transaction =
     rbind (validate_restarted_transaction (request_target request) lease backend viewed transaction) (\<lambda>_.
     rbind (lift_admission (lift_lease (validate_lease (request_target request) state lease))) (\<lambda>_.
     let attempt = make_attempt E (request_identity request) (context_identity (request_target request))
           (context_mutation_backend (request_target request)) (transaction_nonce transaction) in
     if attempt_identity attempt \<noteq> attempt_identity viewed \<or>
        attempt_identity attempt \<noteq> attempt_identity (header_attempt (record_header j))
     then Inl (Restart_broken (Logic_error
       ''restarted transaction did not reproduce the durable attempt''))
     else Inr attempt))"

lemma lift_Inr [simp]:
  "lift_assessment r = Inr v \<longleftrightarrow> r = Inr v"
  "lift_admission r' = Inr v' \<longleftrightarrow> r' = Inr v'"
  by (auto simp: lift_assessment_def lift_admission_def split: sum.splits)

lemma validate_journal_bindings_Inr:
  "validate_journal_bindings request kind j = Inr u \<longleftrightarrow>
     (\<exists>a. assess_restart j = Inr a \<and> resumable a) \<and> header_kind (record_header j) = kind \<and>
     header_request (record_header j) = request_identity request \<and>
     header_plan (record_header j) = plan_identity (request_plan request) \<and>
     header_target (record_header j) = context_identity (request_target request) \<and>
     header_control (record_header j) = control_identity (request_control request) \<and>
     header_backend (record_header j) = context_mutation_backend (request_target request)"
  by (auto simp: validate_journal_bindings_def rbind_Inr_iff Let_def)

lemma validate_restarted_transaction_Inr:
  "validate_restarted_transaction target lease backend a t = (Inr u :: 'p::linorder restart_error + unit) \<longleftrightarrow>
     validate_transaction target lease backend t = (Inr () :: 'p admission_error + unit) \<and> transaction_nonce t = attempt_nonce a"
  by (auto simp: validate_restarted_transaction_def rbind_Inr_iff)

text \<open>
  C20: a restart reproduces the durable attempt: when the journal is bound to the request, its header
  is valid, the transaction is accepted for the attempt of that header and the lease is still held,
  the rebuilt attempt is the attempt of the header, so the final comparison never fails.
\<close>

theorem restart_reproduces_attempt:
  fixes request :: "('p::linorder, 'o) application_request"
  assumes "validate_journal_bindings request kind j = Inr ()" and "valid_header E (record_header j)"
    and "validate_restarted_transaction (request_target request) lease backend
           (header_attempt (record_header j)) t = (Inr () :: 'p restart_error + unit)"
    and "validate_lease (request_target request) state lease = Inr ()"
  shows "reopened_attempt E request state lease backend j (header_attempt (record_header j)) t =
    (Inr (header_attempt (record_header j)) :: 'p restart_error + attempt)"
proof -
  let ?h = "record_header j"
  have same: "make_attempt E (request_identity request) (context_identity (request_target request))
      (context_mutation_backend (request_target request)) (transaction_nonce t) = header_attempt ?h"
  proof (rule attempt.equality)
    have bound: "attempt_request (header_attempt ?h) = request_identity request"
      "attempt_target (header_attempt ?h) = context_identity (request_target request)"
      "attempt_backend (header_attempt ?h) = context_mutation_backend (request_target request)"
      "transaction_nonce t = attempt_nonce (header_attempt ?h)"
      using assms(1-3) unfolding valid_header_def make_header_Inr validate_journal_bindings_Inr
        validate_restarted_transaction_Inr by metis+
    have "attempt_identity (header_attempt ?h) = hash E (encode_attempt (header_attempt ?h))"
      using assms(2) by (simp add: valid_header_def valid_attempt_def)
    then show "attempt_identity (make_attempt E (request_identity request)
        (context_identity (request_target request)) (context_mutation_backend (request_target request))
        (transaction_nonce t)) = attempt_identity (header_attempt ?h)"
      by (simp add: make_attempt_def encode_attempt_def bound)
  qed (use assms(1-3) in \<open>unfold valid_header_def make_header_Inr validate_journal_bindings_Inr
        validate_restarted_transaction_Inr, auto simp: make_attempt_def\<close>)
  have lease: "lift_admission (lift_lease (validate_lease (request_target request) state lease)) =
      (Inr () :: 'p restart_error + unit)"
    using assms(4) by (simp only: lift_Inr lift_lease_Inr)
  show ?thesis unfolding reopened_attempt_def assms(3) lease rbind.simps Let_def same by simp
qed

section \<open>A sample journal\<close>

definition sample_durable_header :: "(8 word, 8 word) journal_header" where
  "sample_durable_header = \<lparr>header_identity = 0, header_kind = Install, header_request = 0,
     header_plan = [], header_attempt = \<lparr>attempt_identity = 0, attempt_request = 0,
       attempt_target = 10, attempt_backend = 4, attempt_nonce = 0\<rparr>,
     header_target = 10, header_control = 0, header_projection = sample_projected_state, header_lease = 12,
     header_backend = 4\<rparr>"

text \<open>A journal that stopped between the intent and the outcome of its only active publication.\<close>

definition sample_open_journal :: "(8 word, 8 word) journal_record" where
  "sample_open_journal = \<lparr>record_identity = 0, record_header = sample_durable_header,
     record_state = Mutating,
     record_effects = [\<lparr>effect_identity = 7, effect_ordinal = 0, effect_kind = Publish_active_object,
       effect_path = Some 1\<rparr>],
     record_events = [\<lparr>event_sequence = 0, event_kind = Intent, event_effect = 7, event_evidence = []\<rparr>],
     record_receipt = None, record_completed = None\<rparr>"

lemma sample_open_journal_valid: "valid_record sample_paths sample_open_journal"
  by (simp add: valid_record_def sample_open_journal_def make_record_def validate_events_def Let_def
      fresh_progress_def validate_resolution_def successful_state_def sample_paths_def)

theorem forward_only_over_settled_effects_witness:
  "\<exists>a. assess_restart sample_open_journal = Inr a \<and> assessment_disposition a = Resume_recovery"
  using forward_only_over_settled_effects [OF sample_open_journal_valid]
  by (auto simp: sample_open_journal_def kinds_of_def)

theorem sealed_journal_not_resumed_witness:
  "\<exists>a. assess_restart sample_open_journal = Inr a \<and> resumable a"
  using sealed_journal_not_resumed [OF sample_open_journal_valid]
  by (auto simp: sample_open_journal_def)

lemma sample_durable_header_valid: "valid_header sample_paths sample_durable_header"
  by (auto simp: valid_header_def make_header_Inr sample_durable_header_def valid_attempt_def
      valid_projection_def faithful_texts_def projection_sizes_def make_projection_def sample_projected_state_def
      sample_paths_def inj_def)

theorem restart_reproduces_attempt_witness:
  "reopened_attempt sample_paths sample_request sample_projected_state sample_lease sample_backend
     sample_open_journal (header_attempt sample_durable_header) sample_transaction =
     Inr (header_attempt sample_durable_header)"
proof -
  have header: "record_header sample_open_journal = sample_durable_header"
    by (simp add: sample_open_journal_def)
  have 1: "validate_journal_bindings sample_request Install sample_open_journal = Inr ()"
    by code_simp
  have 2: "valid_header sample_paths (record_header sample_open_journal)"
    unfolding header by (rule sample_durable_header_valid)
  have 3: "validate_restarted_transaction (request_target sample_request) sample_lease sample_backend
      (header_attempt (record_header sample_open_journal)) sample_transaction =
      (Inr () :: (8 word) restart_error + unit)"
    by code_simp
  have 4: "validate_lease (request_target sample_request) sample_projected_state sample_lease = Inr ()"
    by code_simp
  show ?thesis using restart_reproduces_attempt [OF 1 2 3 4] by (simp only: header)
qed

end
