(* ===== verification/Effects.thy ===== *)
theory Effects
  imports Schedule History
begin

text \<open>
  The frozen effect graph of the journal (\<open>application_engine.cpp\<close>, \<open>journal_effects\<close>): one effect per
  schedule step, a recovery effect for every active publication in reverse order, the
  synchronisation effects the request needs, and the three closing effects.
\<close>

fun journal_kind :: "effect_step_kind \<Rightarrow> effect_kind" where
  "journal_kind Step_capture_old = Capture_old_object"
| "journal_kind Step_stage_payload = Stage_incoming_payload"
| "journal_kind Step_publish_rejected = Publish_rejected_object"
| "journal_kind Step_publish_active = Publish_active_object"
| "journal_kind Step_observe_result = Observe_result"

definition append_effect ::
  "('p, 'o) environment \<Rightarrow> effect_kind \<Rightarrow> 'p option \<Rightarrow> 'p journal_effect list \<Rightarrow>
   error + 'p journal_effect list" where
  "append_effect E kind path effects =
     rbind (make_effect E (word_of_nat (length effects)) kind path) (\<lambda>e. Inr (effects @ [e]))"

definition closing_kinds :: "bool \<Rightarrow> bool \<Rightarrow> bool \<Rightarrow> bool \<Rightarrow> bool \<Rightarrow> effect_kind list" where
  "closing_kinds has_incoming has_recovery has_active has_rejected synchronize =
     (if has_incoming then [Synchronize_incoming_staging] else []) @
     (if has_recovery then [Synchronize_recovery_staging] else []) @
     (if has_active \<and> synchronize
      then [Synchronize_active_namespace, Synchronize_recovered_namespace] else []) @
     (if has_rejected \<and> synchronize then [Synchronize_rejected_store] else []) @
     [Publish_completed_evidence, Synchronize_completed_evidence, Seal_receipt]"

definition journal_effects ::
  "('p, 'o) environment \<Rightarrow> 'p effect_step list \<Rightarrow> bool \<Rightarrow> bool \<Rightarrow> bool \<Rightarrow> bool \<Rightarrow> bool \<Rightarrow>
   error + 'p journal_effect list" where
  "journal_effects E schedule has_incoming has_recovery has_active has_rejected synchronize =
     rbind (rfold (\<lambda>s. append_effect E (journal_kind (schedule_kind s)) (Some (schedule_path s)))
              schedule []) (\<lambda>effects.
     rbind (rfold (\<lambda>s effects. if schedule_kind s \<noteq> Step_publish_active then Inr effects
              else append_effect E Recover_active_object (Some (schedule_path s)) effects)
              (rev schedule) effects) (\<lambda>effects.
     rfold (\<lambda>kind. append_effect E kind None)
       (closing_kinds has_incoming has_recovery has_active has_rejected synchronize) effects))"

definition has_active_effect :: "('p, 'o) operation_plan \<Rightarrow> bool" where
  "has_active_effect plan \<longleftrightarrow> (\<exists>d \<in> set (plan_paths plan).
     decision_active d \<noteq> Retain_observed \<and> decision_active d \<noteq> Remain_absent)"

definition has_rejected_effect :: "('p, 'o) operation_plan \<Rightarrow> bool" where
  "has_rejected_effect plan \<longleftrightarrow> (\<exists>d \<in> set (plan_paths plan). decision_rejected d \<noteq> No_rejected)"

section \<open>The graph as a list of kinds and paths\<close>

definition effect_shape :: "'p journal_effect \<Rightarrow> effect_kind \<times> 'p option" where
  "effect_shape e = (effect_kind e, effect_path e)"

text \<open>The effects a shape list denotes: identified effects with consecutive ordinals from \<open>k\<close>.\<close>

fun effects_from ::
  "('p, 'o) environment \<Rightarrow> nat \<Rightarrow> (effect_kind \<times> 'p option) list \<Rightarrow> 'p journal_effect list" where
  "effects_from E k [] = []"
| "effects_from E k ((kind, path) # shapes) =
     \<lparr>effect_identity = hash E (effect_record E (word_of_nat k) kind path),
      effect_ordinal = word_of_nat k, effect_kind = kind, effect_path = path\<rparr> #
     effects_from E (Suc k) shapes"

lemma length_effects_from [simp]: "length (effects_from E k shapes) = length shapes"
  by (induction E k shapes rule: effects_from.induct) auto

lemma effects_from_append [simp]:
  "effects_from E k (xs @ ys) = effects_from E k xs @ effects_from E (k + length xs) ys"
  by (induction E k xs rule: effects_from.induct) auto

lemma effects_from_shape [simp]: "map effect_shape (effects_from E k shapes) = shapes"
  by (induction E k shapes rule: effects_from.induct) (auto simp: effect_shape_def)

lemma effects_from_consecutive: "consecutive_ordinals k (effects_from E k shapes)"
  by (induction E k shapes rule: effects_from.induct) auto

lemma append_effect_from:
  assumes "requires_path kind \<longleftrightarrow> path \<noteq> None"
  shows "append_effect E kind path (effects_from E 0 shapes) =
    Inr (effects_from E 0 (shapes @ [(kind, path)]))"
  using assms by (simp add: append_effect_def make_effect_def)

lemma rfold_append_effect:
  assumes "\<And>x shapes. x \<in> set xs \<Longrightarrow> f x (effects_from E 0 shapes) =
       Inr (effects_from E 0 (shapes @ g x))"
  shows "rfold f xs (effects_from E 0 shapes) = Inr (effects_from E 0 (shapes @ concat (map g xs)))"
  using assms
proof (induction xs arbitrary: shapes)
  case (Cons x xs)
  have "f x (effects_from E 0 shapes) = Inr (effects_from E 0 (shapes @ g x))"
    by (rule Cons.prems) simp
  moreover have "rfold f xs (effects_from E 0 (shapes @ g x)) =
      Inr (effects_from E 0 ((shapes @ g x) @ concat (map g xs)))"
    by (rule Cons.IH) (use Cons.prems in auto)
  ultimately show ?case by simp
qed simp

definition recovery_shapes :: "'p effect_step list \<Rightarrow> (effect_kind \<times> 'p option) list" where
  "recovery_shapes schedule = map (\<lambda>s. (Recover_active_object, Some (schedule_path s)))
     (rev (filter (\<lambda>s. schedule_kind s = Step_publish_active) schedule))"

lemma journal_kind_requires_path [simp]: "requires_path (journal_kind kind)"
  by (cases kind) auto

lemma closing_kinds_pathless [simp]:
  "kind \<in> set (closing_kinds i r a j s) \<Longrightarrow> \<not> requires_path kind"
  by (auto simp: closing_kinds_def split: if_splits)

lemma journal_effects_from:
  "journal_effects E schedule i r a j s = Inr (effects_from E 0
     (map (\<lambda>s. (journal_kind (schedule_kind s), Some (schedule_path s))) schedule @
      recovery_shapes schedule @ map (\<lambda>kind. (kind, None)) (closing_kinds i r a j s)))"
proof -
  have flat: "concat (map (\<lambda>s. if schedule_kind s \<noteq> Step_publish_active then []
        else [(Recover_active_object, Some (schedule_path s))]) xs) =
      map (\<lambda>s. (Recover_active_object, Some (schedule_path s)))
        (filter (\<lambda>s. schedule_kind s = Step_publish_active) xs)" for xs :: "'a effect_step list"
    by (induction xs) auto
  have 1: "rfold (\<lambda>s. append_effect E (journal_kind (schedule_kind s)) (Some (schedule_path s)))
      schedule (effects_from E 0 []) = Inr (effects_from E 0 ([] @ concat (map (\<lambda>s.
        [(journal_kind (schedule_kind s), Some (schedule_path s))]) schedule)))"
    by (rule rfold_append_effect) (simp_all add: append_effect_from)
  have 2: "rfold (\<lambda>s effects. if schedule_kind s \<noteq> Step_publish_active then Inr effects
        else append_effect E Recover_active_object (Some (schedule_path s)) effects)
        (rev schedule) (effects_from E 0 shapes) = Inr (effects_from E 0 (shapes @ concat (map (\<lambda>s.
          if schedule_kind s \<noteq> Step_publish_active then []
          else [(Recover_active_object, Some (schedule_path s))]) (rev schedule))))" for shapes
    by (rule rfold_append_effect) (simp_all add: append_effect_from)
  have 3: "rfold (\<lambda>kind. append_effect E kind None) (closing_kinds i r a j s) (effects_from E 0 shapes) =
      Inr (effects_from E 0 (shapes @ concat (map (\<lambda>kind. [(kind, None)]) (closing_kinds i r a j s))))"
    for shapes
    by (rule rfold_append_effect) (simp_all add: append_effect_from)
  show ?thesis
    using 1 unfolding journal_effects_def
    by (simp add: 2 3 recovery_shapes_def flat rev_filter concat_map_singleton
        del: effects_from_append)
qed

lemma effect_record_ordinal:
  assumes "effect_record E n k p = effect_record E m l q"
  shows "n = m"
  using assms
  by (cases p; cases q) (auto simp: effect_record_def record_defs wire_simps)

lemma effects_from_identity:
  "e \<in> set (effects_from E k shapes) \<Longrightarrow> effect_identity e = hash E (encode_effect E e)"
  by (induction E k shapes rule: effects_from.induct) (auto simp: encode_effect_def)

lemma effects_from_ordinal:
  "e \<in> set (effects_from E k shapes) \<Longrightarrow>
     \<exists>i. k \<le> i \<and> i < k + length shapes \<and> effect_ordinal e = word_of_nat i"
proof (induction E k shapes rule: effects_from.induct)
  case (2 E k kind path shapes)
  show ?case
  proof (cases "e \<in> set (effects_from E (Suc k) shapes)")
    case True
    then obtain i where "Suc k \<le> i" "i < Suc k + length shapes" "effect_ordinal e = word_of_nat i"
      using 2(1) by blast
    then show ?thesis by (intro exI [of _ i]) simp
  next
    case False
    then show ?thesis using 2(2) by (intro exI [of _ k]) auto
  qed
qed simp

lemma effects_from_distinct:
  assumes "k + length shapes < 2 ^ 64"
    and "inj_on (hash E) (encode_effect E ` set (effects_from E k shapes))"
  shows "distinct (map effect_identity (effects_from E k shapes))"
  using assms
proof (induction E k shapes rule: effects_from.induct)
  case (2 E k kind path shapes)
  let ?e = "\<lparr>effect_identity = hash E (effect_record E (word_of_nat k) kind path),
    effect_ordinal = word_of_nat k, effect_kind = kind, effect_path = path\<rparr>"
  have inj: "inj_on (hash E) (insert (encode_effect E ?e)
      (encode_effect E ` set (effects_from E (Suc k) shapes)))"
    using 2(3) by simp
  have "effect_identity f \<noteq> effect_identity ?e" if f: "f \<in> set (effects_from E (Suc k) shapes)" for f
  proof
    assume "effect_identity f = effect_identity ?e"
    then have "encode_effect E f = encode_effect E ?e"
      using effects_from_identity [OF f] inj f
      by (simp add: encode_effect_def inj_on_def)
    then have "effect_ordinal f = word_of_nat k"
      unfolding encode_effect_def by (auto dest: effect_record_ordinal)
    moreover obtain i where "Suc k \<le> i" "i < Suc k + length shapes" "effect_ordinal f = word_of_nat i"
      using effects_from_ordinal [OF f] by blast
    moreover have "k < 2 ^ 64" "i < 2 ^ 64" using 2(2) calculation by simp_all
    ultimately show False
      by (metis Suc_n_not_le_n u64_of_nat_eq)
  qed
  then have "effect_identity ?e \<notin> effect_identity ` set (effects_from E (Suc k) shapes)" by force
  moreover have "distinct (map effect_identity (effects_from E (Suc k) shapes))"
    by (rule 2(1)) (use 2(2) inj in \<open>auto intro: inj_on_subset\<close>)
  ultimately show ?case by simp
qed simp

lemma distinct_adjacent: "distinct xs \<Longrightarrow> \<not> adjacent_equal xs"
  by (induction xs rule: adjacent_equal.induct) auto

lemma closing_kinds_end:
  "\<exists>body. closing_kinds i r a j s =
     body @ [Publish_completed_evidence, Synchronize_completed_evidence, Seal_receipt]"
  unfolding closing_kinds_def append_assoc [symmetric] by blast

definition graph_shapes ::
  "'p effect_step list \<Rightarrow> effect_kind list \<Rightarrow> (effect_kind \<times> 'p option) list" where
  "graph_shapes schedule closing =
     map (\<lambda>s. (journal_kind (schedule_kind s), Some (schedule_path s))) schedule @
     recovery_shapes schedule @ map (\<lambda>kind. (kind, None)) closing"

lemma journal_effects_shapes:
  "journal_effects E schedule i r a j s =
     Inr (effects_from E 0 (graph_shapes schedule (closing_kinds i r a j s)))"
  by (simp add: journal_effects_from graph_shapes_def)

lemma effects_from_filter:
  "map effect_path (filter (\<lambda>e. effect_kind e = kind) (effects_from E k shapes)) =
     map snd (filter (\<lambda>x. fst x = kind) shapes)"
proof -
  have "map snd (filter (\<lambda>x. fst x = kind) (map effect_shape es)) =
      map effect_path (filter (\<lambda>e. effect_kind e = kind) es)" for es :: "'a journal_effect list"
    by (induction es) (auto simp: effect_shape_def)
  from this [of "effects_from E k shapes"] show ?thesis by simp
qed

lemma effects_from_nth:
  "n < length shapes \<Longrightarrow> effect_shape (effects_from E k shapes ! n) = shapes ! n"
  by (metis effects_from_shape length_effects_from nth_map)

lemma effects_from_kind:
  "n < length shapes \<Longrightarrow> effect_kind (effects_from E k shapes ! n) = fst (shapes ! n)"
  by (simp flip: effects_from_nth [of n shapes E k] add: effect_shape_def)

fun graph_rank :: "effect_kind \<Rightarrow> nat" where
  "graph_rank Recover_active_object = 1"
| "graph_rank kind = (if requires_path kind then 0 else 2)"

lemma graph_rank_step [simp]: "graph_rank (journal_kind kind) = 0"
  by (cases kind) auto

lemma graph_rank_pathless [simp]: "\<not> requires_path kind \<Longrightarrow> graph_rank kind = 2"
  by (cases kind) auto

lemma graph_shapes_ranked:
  assumes "\<And>kind. kind \<in> set closing \<Longrightarrow> \<not> requires_path kind"
  shows "sorted (map (\<lambda>x. graph_rank (fst x)) (graph_shapes schedule closing))"
proof -
  let ?r = "\<lambda>x :: effect_kind \<times> 'a option. graph_rank (fst x)"
  have 3: "sorted (map ?r (map (\<lambda>kind. (kind, None)) closing @ [])) \<and>
      (\<forall>y \<in> set (map (\<lambda>kind. (kind, None)) closing @ []). 2 \<le> ?r y)"
    by (rule sorted_ranks [where b = 2]) (use assms in auto)
  have 2: "sorted (map ?r (recovery_shapes schedule @ map (\<lambda>kind. (kind, None)) closing)) \<and>
      (\<forall>y \<in> set (recovery_shapes schedule @ map (\<lambda>kind. (kind, None)) closing). 1 \<le> ?r y)"
    by (rule sorted_ranks [OF _ 3 [unfolded append_Nil2]]) (auto simp: recovery_shapes_def)
  have "sorted (map ?r (graph_shapes schedule closing)) \<and> (\<forall>y \<in> set (graph_shapes schedule closing). 0 \<le> ?r y)"
    unfolding graph_shapes_def by (rule sorted_ranks [OF _ 2]) auto
  then show ?thesis by blast
qed

lemma filter_closing_kinds:
  "requires_path kind \<Longrightarrow> filter (\<lambda>x. fst x = kind) (map (\<lambda>k. (k, None)) (closing_kinds i r a j s)) = []"
  by (auto simp: filter_empty_conv dest: closing_kinds_pathless)

lemma journal_kind_eq [simp]:
  "journal_kind k = Publish_active_object \<longleftrightarrow> k = Step_publish_active"
  "journal_kind k \<noteq> Recover_active_object"
  by (cases k; simp)+

lemma filter_schedule_kinds:
  "filter (\<lambda>x. fst x = Publish_active_object)
     (map (\<lambda>s. (journal_kind (schedule_kind s), Some (schedule_path s))) schedule) =
   map (\<lambda>s. (Publish_active_object, Some (schedule_path s)))
     (filter (\<lambda>s. schedule_kind s = Step_publish_active) schedule)"
  by (induction schedule) auto

lemma graph_shapes_filter:
  "filter (\<lambda>x. fst x = Recover_active_object) (graph_shapes schedule (closing_kinds i r a j s)) =
     recovery_shapes schedule"
  "filter (\<lambda>x. fst x = Publish_active_object) (graph_shapes schedule (closing_kinds i r a j s)) =
     map (\<lambda>s. (Publish_active_object, Some (schedule_path s)))
       (filter (\<lambda>s. schedule_kind s = Step_publish_active) schedule)"
  unfolding graph_shapes_def filter_append filter_schedule_kinds
  by (simp_all add: filter_closing_kinds filter_empty_conv) (auto simp: recovery_shapes_def filter_empty_conv)

text \<open>
  Recovery undoes what publication did, in the opposite order: in every frozen effect graph the
  recovery effects name the paths of the active publications, reversed, and they come after all
  publications.
\<close>

theorem recovery_reverses_publication:
  "\<exists>effects. journal_effects E schedule i r a j s = Inr effects \<and>
     map effect_path (filter (\<lambda>e. effect_kind e = Recover_active_object) effects) =
       rev (map effect_path (filter (\<lambda>e. effect_kind e = Publish_active_object) effects)) \<and>
     (\<forall>m n. m < length effects \<and> n < length effects \<and>
        effect_kind (effects ! m) = Recover_active_object \<and>
        effect_kind (effects ! n) \<in> {Capture_old_object, Stage_incoming_payload,
          Publish_rejected_object, Publish_active_object, Observe_result} \<longrightarrow> n < m)"
proof -
  let ?shapes = "graph_shapes schedule (closing_kinds i r a j s)"
  let ?effects = "effects_from E 0 ?shapes"
  have 1: "map effect_path (filter (\<lambda>e. effect_kind e = Recover_active_object) ?effects) =
      rev (map effect_path (filter (\<lambda>e. effect_kind e = Publish_active_object) ?effects))"
    unfolding effects_from_filter graph_shapes_filter by (simp add: recovery_shapes_def rev_map comp_def)
  have ranked: "sorted (map (\<lambda>x. graph_rank (fst x)) ?shapes)"
    by (rule graph_shapes_ranked [OF closing_kinds_pathless])
  have "n < m" if "m < length ?effects" "n < length ?effects"
      "effect_kind (?effects ! m) = Recover_active_object" "graph_rank (effect_kind (?effects ! n)) = 0" for m n
  proof (rule ccontr)
    assume "\<not> n < m"
    then have "graph_rank (fst (?shapes ! m)) \<le> graph_rank (fst (?shapes ! n))"
      using sorted_nth_mono [OF ranked, of m n] that(1,2) by simp
    then show False using that by (simp add: effects_from_kind)
  qed
  then have 2: "\<forall>m n. m < length ?effects \<and> n < length ?effects \<and>
        effect_kind (?effects ! m) = Recover_active_object \<and>
        effect_kind (?effects ! n) \<in> {Capture_old_object, Stage_incoming_payload,
          Publish_rejected_object, Publish_active_object, Observe_result} \<longrightarrow> n < m"
    by fastforce
  show ?thesis unfolding journal_effects_shapes using 1 2 by blast
qed

text \<open>
  C27: the effect graph of every schedule is accepted by the journal: for a schedule of less than
  \<open>2^62\<close> steps and a digest without collisions on the records of these effects, the effects have
  pairwise different identities, the declaration factory succeeds with exactly these effects, effect
  \<open>n\<close> of the graph is step \<open>n\<close> of the schedule, and the graph ends with the publication and
  synchronisation of the completed evidence and the sealing of the receipt.
\<close>

theorem effect_graph_accepted:
  assumes "journal_effects E schedule i r a j s = Inr effects" and "length schedule < 2 ^ 62"
    and "inj_on (hash E) (encode_effect E ` set effects)"
  shows "distinct (map effect_identity effects) \<and>
    (\<exists>d. make_declaration E h effects seed = Inr d \<and> declaration_effects d = effects) \<and>
    (\<forall>n < length schedule. effect_kind (effects ! n) = journal_kind (schedule_kind (schedule ! n)) \<and>
       effect_path (effects ! n) = Some (schedule_path (schedule ! n))) \<and>
    (\<exists>body. map effect_kind effects =
       body @ [Publish_completed_evidence, Synchronize_completed_evidence, Seal_receipt])"
proof -
  define shapes where "shapes = graph_shapes schedule (closing_kinds i r a j s)"
  have effects: "effects = effects_from E 0 shapes"
    using assms(1) unfolding journal_effects_shapes shapes_def by simp
  have "length shapes < 2 ^ 64"
  proof -
    have "length (recovery_shapes schedule) \<le> length schedule" by (simp add: recovery_shapes_def)
    moreover have "length (closing_kinds i r a j s) \<le> 8" by (simp add: closing_kinds_def)
    ultimately show ?thesis using assms(2) by (simp add: shapes_def graph_shapes_def)
  qed
  then have dist: "distinct (map effect_identity effects)"
    using assms(3) unfolding effects by (intro effects_from_distinct) simp_all
  have "\<exists>d. make_declaration E h effects seed = Inr d \<and> declaration_effects d = effects"
    using effects_from_consecutive [of 0 E shapes] distinct_adjacent [OF dist]
    by (simp add: make_declaration_Inr effects)
  moreover have "effect_kind (effects ! n) = journal_kind (schedule_kind (schedule ! n)) \<and>
       effect_path (effects ! n) = Some (schedule_path (schedule ! n))" if n: "n < length schedule" for n
  proof -
    have "effect_shape (effects ! n) = shapes ! n"
      unfolding effects by (rule effects_from_nth) (use n in \<open>simp add: shapes_def graph_shapes_def\<close>)
    then show ?thesis using n by (simp add: effect_shape_def shapes_def graph_shapes_def nth_append)
  qed
  moreover have "map effect_kind effects = map fst shapes"
    unfolding effects by (rule nth_equalityI) (simp_all add: effects_from_kind)
  then have "\<exists>body. map effect_kind effects =
       body @ [Publish_completed_evidence, Synchronize_completed_evidence, Seal_receipt]"
    using closing_kinds_end [of i r a j s] by (auto simp: shapes_def graph_shapes_def comp_def)
  ultimately show ?thesis using dist by blast
qed

text \<open>A digest that numbers the five records of a one-step graph.\<close>

definition sample_records :: "bytes list" where
  "sample_records = [effect_record sample_paths 0 Publish_active_object (Some 1),
     effect_record sample_paths 1 Recover_active_object (Some 1),
     effect_record sample_paths 2 Publish_completed_evidence None,
     effect_record sample_paths 3 Synchronize_completed_evidence None,
     effect_record sample_paths 4 Seal_receipt None]"

definition sample_digest :: "bytes \<Rightarrow> digest" where
  "sample_digest bs = word_of_nat (length (takeWhile (\<lambda>r. r \<noteq> bs) sample_records))"

definition sample_removal :: "8 word effect_step" where
  "sample_removal = \<lparr>schedule_ordinal = 0, schedule_kind = Step_publish_active, schedule_path = 1,
     schedule_entry = None\<rparr>"

lemma sample_records_apart:
  "n \<noteq> m \<Longrightarrow> effect_record sample_paths n k p \<noteq> effect_record sample_paths m l q"
  by (auto dest: effect_record_ordinal)

lemma sample_digest_injective: "inj_on sample_digest (set sample_records)"
  by (simp add: sample_digest_def sample_records_def sample_records_apart)

lemma sample_graph_encodings:
  assumes "journal_effects (sample_paths\<lparr>hash := h\<rparr>) [sample_removal] False False False False False =
    Inr effects"
  shows "encode_effect (sample_paths\<lparr>hash := h\<rparr>) ` set effects = set sample_records"
  using assms
  by (simp add: journal_effects_shapes graph_shapes_def closing_kinds_def recovery_shapes_def
      sample_removal_def encode_effect_def effect_record_def sample_records_def)
    (auto simp: encode_effect_def effect_record_def)

theorem effect_graph_accepted_witness:
  "\<exists>effects d. journal_effects (sample_paths\<lparr>hash := sample_digest\<rparr>) [sample_removal]
       False False False False False = Inr effects \<and>
     make_declaration (sample_paths\<lparr>hash := sample_digest\<rparr>) sample_header effects [] = Inr d \<and>
     effect_path (effects ! 0) = Some 1"
proof -
  obtain effects where run: "journal_effects (sample_paths\<lparr>hash := sample_digest\<rparr>) [sample_removal]
       False False False False False = Inr effects"
    by (simp add: journal_effects_shapes)
  from effect_graph_accepted [OF run, of sample_header "[]"] sample_digest_injective
  show ?thesis using run
    by (auto simp: sample_graph_encodings [OF run] sample_removal_def)
qed

lemma sample_remove_effects:
  assumes "journal_effects E sample_remove_steps False False False False False = Inr effects"
  shows "map effect_kind effects = [Capture_old_object, Publish_active_object, Observe_result,
    Recover_active_object, Publish_completed_evidence, Synchronize_completed_evidence, Seal_receipt]"
proof -
  have kinds: "map effect_kind (effects_from F k shapes) = map fst shapes" for F :: "(8 word, 'b) environment" and k shapes
    by (rule nth_equalityI) (simp_all add: effects_from_kind)
  from assms show ?thesis
    by (auto simp: journal_effects_shapes kinds graph_shapes_def closing_kinds_def recovery_shapes_def
        sample_remove_steps_def)
qed

theorem recovery_reverses_publication_witness:
  "\<exists>effects. journal_effects sample_paths sample_remove_steps False False False False False = Inr effects \<and>
     effect_kind (effects ! 1) = Publish_active_object \<and>
     effect_kind (effects ! 3) = Recover_active_object \<and> (1 :: nat) < 3 \<and>
     map effect_path (filter (\<lambda>e. effect_kind e = Recover_active_object) effects) =
       rev (map effect_path (filter (\<lambda>e. effect_kind e = Publish_active_object) effects))"
proof -
  let ?E = "sample_paths :: (8 word, 8 word) environment"
  obtain effects where all: "journal_effects ?E sample_remove_steps False False False False False = Inr effects \<and>
      map effect_path (filter (\<lambda>e. effect_kind e = Recover_active_object) effects) =
        rev (map effect_path (filter (\<lambda>e. effect_kind e = Publish_active_object) effects)) \<and>
      (\<forall>m n. m < length effects \<and> n < length effects \<and>
        effect_kind (effects ! m) = Recover_active_object \<and>
        effect_kind (effects ! n) \<in> {Capture_old_object, Stage_incoming_payload,
          Publish_rejected_object, Publish_active_object, Observe_result} \<longrightarrow> n < m)"
    by (rule exE [OF recovery_reverses_publication])
  note run = conjunct1 [OF all]
  note order = conjunct2 [OF conjunct2 [OF all], rule_format]
  note kinds = sample_remove_effects [OF run]
  have len: "length effects = 7" using arg_cong [OF kinds, of length] by simp
  have "effect_kind (effects ! 1) = Publish_active_object" "effect_kind (effects ! 3) = Recover_active_object"
    using arg_cong [OF kinds, of "\<lambda>xs. xs ! 1"] arg_cong [OF kinds, of "\<lambda>xs. xs ! 3"] len by simp_all
  moreover from this have "(1 :: nat) < 3"
    using order [of 3 1] len by simp
  ultimately show ?thesis using all by blast
qed

end
