(* ===== verification/Encoding.thy ===== *)
theory Encoding
  imports Objects Authority Journal
begin

text \<open>
  The canonical encoding of object facts, observations and path consequences (\<open>result.cpp\<close>, the
  \<open>append_\<dots>\<close> functions), and that each of them is unambiguous: the encoded value can be cut off the
  front of any record it begins.
\<close>

section \<open>Enumerators\<close>

fun fact_state_tag :: "fact_state \<Rightarrow> u8" where
  "fact_state_tag State_known = 1"
| "fact_state_tag State_unknown = 2"
| "fact_state_tag State_not_applicable = 3"

fun object_kind_tag :: "completed_object_kind \<Rightarrow> u8" where
  "object_kind_tag Object_regular = 1"
| "object_kind_tag Object_directory = 2"
| "object_kind_tag Object_symlink = 3"
| "object_kind_tag Object_fifo = 4"
| "object_kind_tag Object_character_device = 5"
| "object_kind_tag Object_block_device = 6"
| "object_kind_tag Object_socket = 7"
| "object_kind_tag Object_other = 8"

fun provenance_tag :: "object_fact_provenance \<Rightarrow> u8" where
  "provenance_tag Incoming_image = 1"
| "provenance_tag Planning_observation = 2"
| "provenance_tag Application_observation = 3"
| "provenance_tag Recovery_capture = 4"
| "provenance_tag Rejected_capture = 5"

fun completeness_tag :: "object_fact_completeness \<Rightarrow> u8" where
  "completeness_tag Fact_complete = 1"
| "completeness_tag Fact_partial = 2"

fun role_tag :: "path_role \<Rightarrow> u8" where
  "role_tag Incoming_entry = 1"
| "role_tag Obsolete_old_path = 2"
| "role_tag Structural_parent = 3"
| "role_tag Installed_owned_path = 4"

fun effect_status_tag :: "effect_status \<Rightarrow> u8" where
  "effect_status_tag Not_attempted = 1"
| "effect_status_tag Effect_completed = 2"
| "effect_status_tag Conditional_retained = 3"
| "effect_status_tag Effect_failed = 4"
| "effect_status_tag Effect_indeterminate = 5"

fun publication_tag :: "publication_status \<Rightarrow> u8" where
  "publication_tag Ineligible = 1"
| "publication_tag Eligible = 2"

fun active_outcome_tag :: "planned_active_outcome \<Rightarrow> u8" where
  "active_outcome_tag Activate_incoming = 1"
| "active_outcome_tag Retain_observed = 2"
| "active_outcome_tag Remove_observed = 3"
| "active_outcome_tag Remove_directory_if_empty = 4"
| "active_outcome_tag Remain_absent = 5"

fun rejected_outcome_tag :: "planned_rejected_outcome \<Rightarrow> u8" where
  "rejected_outcome_tag No_rejected = 1"
| "rejected_outcome_tag Stage_incoming = 2"
| "rejected_outcome_tag Stage_old = 3"

lemma tags_inject [simp]:
  shows "fact_state_tag a = fact_state_tag b \<longleftrightarrow> a = b"
    and "object_kind_tag c = object_kind_tag d \<longleftrightarrow> c = d"
    and "provenance_tag e = provenance_tag f \<longleftrightarrow> e = f"
    and "completeness_tag g = completeness_tag h \<longleftrightarrow> g = h"
    and "role_tag i = role_tag j \<longleftrightarrow> i = j"
    and "effect_status_tag k = effect_status_tag l \<longleftrightarrow> k = l"
    and "publication_tag m = publication_tag n \<longleftrightarrow> m = n"
    and "active_outcome_tag p = active_outcome_tag q \<longleftrightarrow> p = q"
    and "rejected_outcome_tag r = rejected_outcome_tag s \<longleftrightarrow> r = s"
  subgoal by (cases a; cases b) simp_all
  subgoal by (cases c; cases d) simp_all
  subgoal by (cases e; cases f) simp_all
  subgoal by (cases g; cases h) simp_all
  subgoal by (cases i; cases j) simp_all
  subgoal by (cases k; cases l) simp_all
  subgoal by (cases m; cases n) simp_all
  subgoal by (cases p; cases q) simp_all
  subgoal by (cases r; cases s) simp_all
  done

lemma known_tag [simp]: "fact_state_tag a = 1 \<longleftrightarrow> a = State_known"
  by (cases a) simp_all

section \<open>Facts\<close>

definition append_fact :: "(bytes \<Rightarrow> 'v \<Rightarrow> bytes) \<Rightarrow> bytes \<Rightarrow> 'v qualified_fact \<Rightarrow> bytes" where
  "append_fact encode r f =
     (let r = append_u8 r (fact_state_tag (state_of_fact f)) in
      case f of Fact_known v \<Rightarrow> encode r v | Fact_unknown \<Rightarrow> r | Fact_not_applicable \<Rightarrow> r)"

definition append_timestamp :: "bytes \<Rightarrow> completed_object_timestamp \<Rightarrow> bytes" where
  "append_timestamp r t = append_u32 (append_u64 r (timestamp_seconds t)) (timestamp_nanoseconds t)"

definition append_device :: "bytes \<Rightarrow> completed_device_number \<Rightarrow> bytes" where
  "append_device r d = append_u64 (append_u64 r (device_major d)) (device_minor d)"

definition append_path_text :: "('p, 'o) environment \<Rightarrow> bytes \<Rightarrow> 'p \<Rightarrow> bytes" where
  "append_path_text E r p = append_bytes r (path_string E p)"

fun fact_ok :: "('v \<Rightarrow> bool) \<Rightarrow> 'v qualified_fact \<Rightarrow> bool" where
  "fact_ok ok (Fact_known v) \<longleftrightarrow> ok v"
| "fact_ok ok _ \<longleftrightarrow> True"

context wire_code
begin

lemma fact_code: "wire_code (append_fact app) (fact_ok ok)"
proof
  show "append_fact app r f = r @ wire (append_fact app) f" for r f
    by (cases f) (simp_all add: append_fact_def wire_def append_u8_def app_wire [of "_ # _"]
        app_wire [of "r @ _"])
  show "fact_ok ok f \<Longrightarrow> fact_ok ok g \<Longrightarrow>
      wire (append_fact app) f @ s = wire (append_fact app) g @ t \<Longrightarrow> f = g \<and> s = t" for f g s t
    by (cases f; cases g) (auto simp: append_fact_def wire_def append_u8_def app_wire [of "[_]"]
        dest: wire_cut [unfolded wire_def])
qed

end

interpretation timestamp_code: wire_code append_timestamp "\<lambda>_. True"
proof
  show "append_timestamp r t = r @ wire append_timestamp t" for r t
    by (simp add: append_timestamp_def wire_def [of append_timestamp] record_defs)
  show "wire append_timestamp t @ x = wire append_timestamp u @ y \<Longrightarrow> t = u \<and> x = y" for t u x y
    by (auto simp: append_timestamp_def wire_def [of append_timestamp] record_defs wire_simps
        intro: completed_object_timestamp.equality)
qed

interpretation device_code: wire_code append_device "\<lambda>_. True"
proof
  show "append_device r t = r @ wire append_device t" for r t
    by (simp add: append_device_def wire_def [of append_device] record_defs)
  show "wire append_device t @ x = wire append_device u @ y \<Longrightarrow> t = u \<and> x = y" for t u x y
    by (auto simp: append_device_def wire_def [of append_device] record_defs wire_simps
        intro: completed_device_number.equality)
qed

interpretation u32_fact_code: wire_code "append_fact append_u32" "fact_ok (\<lambda>_. True)"
  by (rule u32_code.fact_code)

interpretation u64_fact_code: wire_code "append_fact append_u64" "fact_ok (\<lambda>_. True)"
  by (rule u64_code.fact_code)

interpretation timestamp_fact_code: wire_code "append_fact append_timestamp" "fact_ok (\<lambda>_. True)"
  by (rule timestamp_code.fact_code)

interpretation digest_fact_code: wire_code "append_fact append_digest" "fact_ok (\<lambda>_. True)"
  by (rule digest_code.fact_code)

interpretation bytes_fact_code: wire_code "append_fact append_bytes" "fact_ok size_ok"
  by (rule bytes_code.fact_code)

interpretation device_fact_code: wire_code "append_fact append_device" "fact_ok (\<lambda>_. True)"
  by (rule device_code.fact_code)

lemma fact_ok_True [simp]: "fact_ok (\<lambda>_. True) f"
  by (cases f) simp_all

lemmas fact_append = u32_fact_code.app_wire u64_fact_code.app_wire timestamp_fact_code.app_wire
  digest_fact_code.app_wire bytes_fact_code.app_wire device_fact_code.app_wire

lemmas fact_cancel = u32_fact_code.wire_iff u64_fact_code.wire_iff timestamp_fact_code.wire_iff
  digest_fact_code.wire_iff bytes_fact_code.wire_iff device_fact_code.wire_iff

declare fact_append [record_defs] fact_cancel [wire_simps]

lemma path_text_code:
  assumes "inj (path_string E)"
  shows "wire_code (append_path_text E) (\<lambda>p. size_ok (path_string E p))"
proof
  show "append_path_text E r p = r @ wire (append_path_text E) p" for r p
    by (simp add: append_path_text_def wire_def [of "append_path_text E"] record_defs)
  show "size_ok (path_string E p) \<Longrightarrow> size_ok (path_string E q) \<Longrightarrow>
      wire (append_path_text E) p @ s = wire (append_path_text E) q @ t \<Longrightarrow> p = q \<and> s = t" for p q s t
    using assms by (auto simp: append_path_text_def wire_def [of "append_path_text E"] record_defs
        wire_simps inj_eq)
qed

section \<open>Objects and observations\<close>

definition append_object :: "('p, 'o) environment \<Rightarrow> bytes \<Rightarrow> 'p completed_object_fact \<Rightarrow> bytes" where
  "append_object E r obj =
     (let r = append_path_text E r (object_path obj);
          r = append_u8 r (object_kind_tag (object_kind obj));
          r = append_fact append_u32 r (object_mode obj);
          r = append_fact append_u64 r (object_uid obj);
          r = append_fact append_u64 r (object_gid obj);
          r = append_fact append_u64 r (object_size obj);
          r = append_fact append_timestamp r (object_mtime obj);
          r = append_fact append_digest r (object_content obj);
          r = append_fact append_bytes r (object_symlink_target obj);
          r = append_fact append_device r (object_device obj);
          r = append_fact (append_path_text E) r (object_hardlink obj);
          r = append_u8 r (provenance_tag (object_provenance obj)) in
      append_u8 r (completeness_tag (object_completeness obj)))"

definition append_observation :: "('p, 'o) environment \<Rightarrow> bytes \<Rightarrow> 'p path_observation \<Rightarrow> bytes" where
  "append_observation E r ob =
     (let r = append_path_text E r (observation_path ob);
          r = append_u8 r (fact_state_tag (observation_state ob)) in
      case observation_object ob of None \<Rightarrow> r | Some obj \<Rightarrow> append_object E r obj)"

definition object_sizes :: "('p, 'o) environment \<Rightarrow> 'p completed_object_fact \<Rightarrow> bool" where
  "object_sizes E obj \<longleftrightarrow> size_ok (path_string E (object_path obj)) \<and>
     fact_ok size_ok (object_symlink_target obj) \<and>
     fact_ok (\<lambda>p. size_ok (path_string E p)) (object_hardlink obj)"

definition observation_sizes :: "('p, 'o) environment \<Rightarrow> 'p path_observation \<Rightarrow> bool" where
  "observation_sizes E ob \<longleftrightarrow> observation_wf ob \<and> size_ok (path_string E (observation_path ob)) \<and>
     pred_option (object_sizes E) (observation_object ob)"

lemma object_code:
  assumes "inj (path_string E)"
  shows "wire_code (append_object E) (object_sizes E)"
proof
  note ptext = path_text_code [OF assms]
  note anchor = wire_code.fact_code [OF ptext]
  note chain = wire_code.app_wire [OF ptext] wire_code.app_wire [OF anchor] record_defs
  show "append_object E r obj = r @ wire (append_object E) obj" for r obj
    by (simp add: append_object_def wire_def [of "append_object E"] chain)
  show "object_sizes E f \<Longrightarrow> object_sizes E g \<Longrightarrow>
      wire (append_object E) f @ s = wire (append_object E) g @ t \<Longrightarrow> f = g \<and> s = t" for f g s t
    by (simp add: append_object_def wire_def [of "append_object E"] chain object_sizes_def wire_simps
        wire_code.wire_iff [OF ptext] wire_code.wire_iff [OF anchor])
qed

lemma observation_code:
  assumes "inj (path_string E)"
  shows "wire_code (append_observation E) (observation_sizes E)"
proof
  note ptext = path_text_code [OF assms]
  note obj = object_code [OF assms]
  note chain = wire_code.app_wire [OF ptext] wire_code.app_wire [OF obj] record_defs
  show "append_observation E r ob = r @ wire (append_observation E) ob" for r ob
    by (cases "observation_object ob")
      (simp_all add: append_observation_def wire_def [of "append_observation E"] chain)
  show "ob = pb \<and> s = t" if ok: "observation_sizes E ob" "observation_sizes E pb"
    and eq: "wire (append_observation E) ob @ s = wire (append_observation E) pb @ t" for ob pb s t
  proof (cases "observation_object ob"; cases "observation_object pb")
    assume "observation_object ob = None" "observation_object pb = None"
    with ok eq show ?thesis
      by (auto simp: append_observation_def wire_def [of "append_observation E"] chain wire_simps
          observation_sizes_def wire_code.wire_iff [OF ptext] intro: path_observation.equality)
  next
    fix f g assume "observation_object ob = Some f" "observation_object pb = Some g"
    with ok eq show ?thesis
      by (auto simp: append_observation_def wire_def [of "append_observation E"] chain wire_simps
          observation_sizes_def wire_code.wire_iff [OF ptext] wire_code.wire_iff [OF obj]
          intro: path_observation.equality)
  qed (use ok eq in \<open>auto simp: append_observation_def wire_def [of "append_observation E"] chain
        wire_simps observation_sizes_def observation_wf_def wire_code.wire_iff [OF ptext]\<close>)
qed

section \<open>Path consequences\<close>

definition append_path :: "('p, 'o) environment \<Rightarrow> bytes \<Rightarrow> ('p, 'o) path_consequence \<Rightarrow> bytes" where
  "append_path E r c =
     (let r = append_path_text E r (consequence_path c);
          r = append_u8 r (role_tag (consequence_role c));
          r = append_u8 r (active_outcome_tag (requested_active c));
          r = append_u8 r (rejected_outcome_tag (requested_rejected c));
          r = append_optional append_u64 r (consequence_entry c);
          r = append_counted append_bytes r
            (map (owner_string E) (before_existing_owners (consequence_ownership c)));
          r = append_counted append_bytes r
            (map (owner_string E) (after_existing_owners (consequence_ownership c)));
          r = append_bool r (incoming_package_owns_after (consequence_ownership c));
          r = append_u8 r (effect_status_tag (active_status c));
          r = append_u8 r (effect_status_tag (rejected_status c));
          r = append_observation E r (consequence_before c);
          r = append_observation E r (consequence_after c);
          r = append_optional append_digest r (rejected_object c) in
      append_u8 r (publication_tag (publication c)))"

definition owners_ok :: "('p, 'o) environment \<Rightarrow> 'o list \<Rightarrow> bool" where
  "owners_ok E owners \<longleftrightarrow> list_all size_ok (map (owner_string E) owners) \<and> size_ok owners"

definition consequence_sizes :: "('p, 'o) environment \<Rightarrow> ('p, 'o) path_consequence \<Rightarrow> bool" where
  "consequence_sizes E c \<longleftrightarrow> size_ok (path_string E (consequence_path c)) \<and>
     owners_ok E (before_existing_owners (consequence_ownership c)) \<and>
     owners_ok E (after_existing_owners (consequence_ownership c)) \<and>
     observation_sizes E (consequence_before c) \<and> observation_sizes E (consequence_after c)"

lemma path_code:
  assumes "faithful_texts E"
  shows "wire_code (append_path E) (consequence_sizes E)"
proof
  have inj: "inj (path_string E)" "inj (owner_string E)" using assms by (simp_all add: faithful_texts_def)
  note ptext = path_text_code [OF inj(1)]
  note ob = observation_code [OF inj(1)]
  note chain = wire_code.app_wire [OF ptext] wire_code.app_wire [OF ob] owner_texts_code.app_wire record_defs
  show "append_path E r c = r @ wire (append_path E) c" for r c
    by (simp add: append_path_def wire_def [of "append_path E"] chain)
  show "consequence_sizes E c \<Longrightarrow> consequence_sizes E d \<Longrightarrow>
      wire (append_path E) c @ s = wire (append_path E) d @ t \<Longrightarrow> c = d \<and> s = t" for c d s t
    by (simp add: append_path_def wire_def [of "append_path E"] chain consequence_sizes_def owners_ok_def
        wire_simps wire_code.wire_iff [OF ptext] wire_code.wire_iff [OF ob] owner_texts_code.wire_iff
        inj_map_eq_map [OF inj(2)])
qed

end
