(* ===== verification/Codec.thy ===== *)
theory Codec
  imports Encoding
begin

text \<open>
  The readers and writers shared by the durable encodings (\<open>replay_fact.cpp\<close>, \<open>journal_codec.cpp\<close>
  and the other codecs each carry their own copy of these two classes).  A writer appends to a byte
  vector; a reader consumes a prefix of the bytes that are left.  Codec failures keep their code;
  a constructor or parser that rejects decoded values throws its own error.

  A writer checks the size limit in \<open>append_bytes\<close> and once more in \<open>finish\<close>.  Sizes only grow, so
  an encoding fails exactly when its complete size exceeds the limit; the check is made there.
\<close>

section \<open>Readers\<close>

datatype codec_error_code =
  Invalid_magic | Codec_unsupported_version | Codec_truncated | Invalid_value | Limit_exceeded
| Trailing_data | Identity_mismatch | Request_mismatch | Checksum_mismatch
| Completed_evidence_invalid | Noncanonical_encoding

datatype codec_error = Codec_error codec_error_code | Codec_value error | Codec_digest digest_error_code

type_synonym 'a reader = "bytes \<Rightarrow> codec_error + 'a \<times> bytes"

definition reader_return :: "'a \<Rightarrow> 'a reader" where
  "reader_return x = (\<lambda>bs. Inr (x, bs))"

definition reader_fail :: "codec_error_code \<Rightarrow> 'a reader" where
  "reader_fail code = (\<lambda>bs. Inl (Codec_error code))"

definition reader_bind :: "'a reader \<Rightarrow> ('a \<Rightarrow> 'b reader) \<Rightarrow> 'b reader" where
  "reader_bind m f = (\<lambda>bs. rbind (m bs) (\<lambda>(x, rest). f x rest))"

definition reader_lift :: "error + 'a \<Rightarrow> 'a reader" where
  "reader_lift v = (\<lambda>bs. case v of Inl e \<Rightarrow> Inl (Codec_value e) | Inr x \<Rightarrow> Inr (x, bs))"

lemma reader_bind_cong [fundef_cong]:
  "m = n \<Longrightarrow> (\<And>x rest. n bs = Inr (x, rest) \<Longrightarrow> f x rest = g x rest) \<Longrightarrow> bs = cs \<Longrightarrow>
   reader_bind m f bs = reader_bind n g cs"
  by (auto simp: reader_bind_def intro!: rbind_cong)

lemma reader_simps [simp]:
  "reader_return x bs = Inr (x, bs)"
  "reader_fail code bs = Inl (Codec_error code)"
  "reader_lift (Inr x) bs = Inr (x, bs)"
  "reader_lift (Inl e) bs = Inl (Codec_value e)"
  "reader_bind m f bs = rbind (m bs) (\<lambda>(x, rest). f x rest)"
  by (simp_all add: reader_return_def reader_fail_def reader_lift_def reader_bind_def)

definition read_word :: "nat \<Rightarrow> ('a::len) word reader" where
  "read_word n = (\<lambda>bs. if length bs < n then Inl (Codec_error Codec_truncated)
     else Inr (be_value (take n bs), drop n bs))"

definition read_u8 :: "u8 reader" where "read_u8 = read_word 1"
definition read_u16 :: "u16 reader" where "read_u16 = read_word 2"
definition read_u32 :: "u32 reader" where "read_u32 = read_word 4"
definition read_u64 :: "u64 reader" where "read_u64 = read_word 8"

definition read_bool :: "bool reader" where
  "read_bool = reader_bind read_u8 (\<lambda>v. if v > 1 then reader_fail Invalid_value else reader_return (v = 1))"

definition read_string :: "u64 \<Rightarrow> bytes reader" where
  "read_string maximum = reader_bind read_u64 (\<lambda>size.
     if size > maximum then reader_fail Limit_exceeded
     else (\<lambda>bs. if length bs < unat size then Inl (Codec_error Codec_truncated)
                else Inr (take (unat size) bs, drop (unat size) bs)))"

definition require_end :: "unit reader" where
  "require_end = (\<lambda>bs. if bs \<noteq> [] then Inl (Codec_error Trailing_data) else Inr ((), bs))"

definition read_count :: "u64 \<Rightarrow> nat reader" where
  "read_count maximum = reader_bind read_u64 (\<lambda>count.
     if count > maximum then reader_fail Limit_exceeded else reader_return (unat count))"

fun read_many :: "'a reader \<Rightarrow> nat \<Rightarrow> 'a list reader" where
  "read_many rd 0 = reader_return []"
| "read_many rd (Suc n) = reader_bind rd (\<lambda>x. reader_bind (read_many rd n) (\<lambda>xs. reader_return (x # xs)))"

text \<open>An enumerator stored in one byte; \<open>all\<close> lists the enumerators.\<close>

definition read_enum :: "('a \<Rightarrow> u8) \<Rightarrow> 'a list \<Rightarrow> 'a reader" where
  "read_enum tag all = reader_bind read_u8 (\<lambda>v.
     case find (\<lambda>x. tag x = v) all of
       None \<Rightarrow> reader_fail Invalid_value | Some x \<Rightarrow> reader_return x)"

text \<open>Identities travel as their text form.\<close>

definition bytes_str :: "bytes \<Rightarrow> string" where
  "bytes_str bs = map (\<lambda>b. char_of (unat b)) bs"

definition append_identity :: "bytes \<Rightarrow> digest \<Rightarrow> bytes" where
  "append_identity r d = append_bytes r (str_bytes (digest_string d))"

definition maximum_digest_text_size :: u64 where
  "maximum_digest_text_size = 128"

definition read_identity :: "digest reader" where
  "read_identity = reader_bind (read_string maximum_digest_text_size) (\<lambda>t bs.
     case digest_parse (bytes_str t) of Inl e \<Rightarrow> Inl (Codec_digest e) | Inr d \<Rightarrow> Inr (d, bs))"

definition read_path :: "('p, 'o) environment \<Rightarrow> u64 \<Rightarrow> 'p reader" where
  "read_path E maximum = reader_bind (read_string maximum) (\<lambda>t. reader_lift (parse_path E t))"

definition read_fact :: "'a reader \<Rightarrow> 'a qualified_fact reader" where
  "read_fact rd = reader_bind read_u8 (\<lambda>v.
     if v = 1 then reader_bind rd (\<lambda>x. reader_return (Fact_known x))
     else if v = 2 then reader_return Fact_unknown
     else if v = 3 then reader_return Fact_not_applicable
     else reader_fail Invalid_value)"

definition read_optional :: "'a reader \<Rightarrow> 'a option reader" where
  "read_optional rd = reader_bind read_bool (\<lambda>v.
     if v then reader_bind rd (\<lambda>x. reader_return (Some x)) else reader_return None)"

section \<open>Round trips\<close>

text \<open>
  A codec: what the writer appends, the reader takes off again and leaves the rest.  This is
  stronger than the unambiguity of \<open>wire_code\<close>.
\<close>

locale round_trip =
  fixes app :: "bytes \<Rightarrow> 'a \<Rightarrow> bytes" and rd :: "'a reader" and ok :: "'a \<Rightarrow> bool"
  assumes append_wire: "app r x = r @ wire app x"
    and read_wire: "ok x \<Longrightarrow> rd (wire app x @ s) = Inr (x, s)"

sublocale round_trip \<subseteq> wire_code app ok
proof
  show "app r x = r @ wire app x" for r x by (rule append_wire)
  show "ok x \<Longrightarrow> ok y \<Longrightarrow> wire app x @ s = wire app y @ t \<Longrightarrow> x = y \<and> s = t" for x y s t
    by (metis read_wire Pair_inject sum.inject(2))
qed

context round_trip
begin

lemma read_end: "ok x \<Longrightarrow> rd (wire app x) = Inr (x, [])"
  using read_wire [of x "[]"] by simp

lemma fact_round_trip: "round_trip (append_fact app) (read_fact rd) (fact_ok ok)"
proof
  show "append_fact app r f = r @ wire (append_fact app) f" for r f
    by (rule wire_code.app_wire [OF fact_code])
  show "fact_ok ok f \<Longrightarrow> read_fact rd (wire (append_fact app) f @ s) = Inr (f, s)" for f s
    by (cases f) (simp_all add: append_fact_def wire_def append_u8_def read_fact_def read_u8_def
        read_word_def be_value_def append_wire [of "[_]"] read_wire [unfolded wire_def])
qed

lemma optional_round_trip: "round_trip (append_optional app) (read_optional rd) (pred_option ok)"
proof
  show "append_optional app r f = r @ wire (append_optional app) f" for r f
    by (rule wire_code.app_wire [OF optional_code])
  show "pred_option ok f \<Longrightarrow> read_optional rd (wire (append_optional app) f @ s) = Inr (f, s)" for f s
    by (cases f) (simp_all add: append_optional_def wire_def append_bool_def append_u8_def
        read_optional_def read_bool_def read_u8_def read_word_def be_value_def append_wire [of "[_]"]
        read_wire [unfolded wire_def])
qed

lemma read_many_wire:
  "list_all ok xs \<Longrightarrow> read_many rd (length xs) (concat (map (wire app) xs) @ s) = Inr (xs, s)"
  by (induction xs) (simp_all add: read_wire)

lemma counted_round_trip:
  "round_trip (append_counted app) (reader_bind (read_count maximum) (read_many rd))
     (\<lambda>xs. list_all ok xs \<and> length xs \<le> unat maximum)"
proof
  show "append_counted app r f = r @ wire (append_counted app) f" for r f
    by (rule wire_code.app_wire [OF counted_code])
  fix xs :: "'a list" and s
  assume ok: "list_all ok xs \<and> length xs \<le> unat maximum"
  then have "length xs < 2 ^ 64"
    using unsigned_less [of maximum, where 'a = nat] by (simp add: order_le_less_trans)
  then have "unat (word_of_nat (length xs) :: u64) = length xs"
    by (simp add: unat_of_nat)
  with ok show "reader_bind (read_count maximum) (read_many rd) (wire (append_counted app) xs @ s) =
      Inr (xs, s)"
    by (simp add: append_counted_def wire_def [of "append_counted app"] append_u64_def foldl_app
        read_count_def read_u64_def read_word_def read_many_wire word_less_nat_alt)
qed

end

lemma read_word_be_bytes:
  "LENGTH('a) \<le> 8 * n \<Longrightarrow> read_word n (be_bytes n (w :: 'a::len word) @ s) = Inr (w, s)"
  by (simp add: read_word_def)

interpretation u8_trip: round_trip append_u8 read_u8 "\<lambda>_. True"
  by unfold_locales (simp_all add: append_u8_def wire_def read_u8_def read_word_def be_value_def)

interpretation u16_trip: round_trip append_u16 read_u16 "\<lambda>_. True"
  by unfold_locales (simp_all add: append_u16_def wire_def read_u16_def read_word_be_bytes)

interpretation u32_trip: round_trip append_u32 read_u32 "\<lambda>_. True"
  by unfold_locales (simp_all add: append_u32_def wire_def read_u32_def read_word_be_bytes)

interpretation u64_trip: round_trip append_u64 read_u64 "\<lambda>_. True"
  by unfold_locales (simp_all add: append_u64_def wire_def read_u64_def read_word_be_bytes)

interpretation bool_trip: round_trip append_bool read_bool "\<lambda>_. True"
  by unfold_locales (auto simp: append_bool_def append_u8_def wire_def read_bool_def read_u8_def
      read_word_def be_value_def)

lemma string_round_trip: "round_trip append_bytes (read_string maximum) (\<lambda>t. length t \<le> unat maximum)"
proof
  show "append_bytes r x = r @ wire append_bytes x" for r x
    by (rule bytes_code.app_wire)
  fix x :: bytes and s
  assume ok: "length x \<le> unat maximum"
  then have "length x < 2 ^ 64"
    using unsigned_less [of maximum, where 'a = nat] by (simp add: order_le_less_trans)
  then have "unat (word_of_nat (length x) :: u64) = length x"
    by (simp add: unat_of_nat)
  with ok show "read_string maximum (wire append_bytes x @ s) = Inr (x, s)"
    by (simp add: append_bytes_def wire_def append_u64_def read_string_def read_u64_def
        read_word_def word_less_nat_alt)
qed

lemma bytes_str_bytes [simp]: "bytes_str (str_bytes s) = s"
  by (induction s) (simp_all add: bytes_str_def str_bytes_def unat_of_nat)

lemma length_digest_string [simp]: "length (digest_string d) = 74"
  by (simp add: digest_string_def digest_prefix_def)

lemma identity_text_fits: "length (str_bytes (digest_string d)) \<le> unat maximum_digest_text_size"
  by (simp add: maximum_digest_text_size_def)

interpretation identity_trip: round_trip append_identity read_identity "\<lambda>_. True"
proof
  show "append_identity r d = r @ wire append_identity d" for r d
    by (simp add: append_identity_def wire_def [of append_identity] bytes_code.app_wire)
  show "read_identity (wire append_identity d @ s) = Inr (d, s)" for d s
    by (simp add: append_identity_def wire_def [of append_identity] bytes_code.app_wire
        read_identity_def digest_parse_string
        round_trip.read_wire [OF string_round_trip identity_text_fits])
qed

definition path_texts :: "('p, 'o) environment \<Rightarrow> bool" where
  "path_texts E \<longleftrightarrow> (\<forall>p. parse_path E (path_string E p) = Inr p)"

lemma path_round_trip:
  assumes "path_texts E"
  shows "round_trip (append_path_text E) (read_path E maximum)
    (\<lambda>p. length (path_string E p) \<le> unat maximum)"
proof
  show "append_path_text E r p = r @ wire (append_path_text E) p" for r p
    by (simp add: append_path_text_def wire_def [of "append_path_text E"] bytes_code.app_wire)
  show "read_path E maximum (wire (append_path_text E) p @ s) = Inr (p, s)"
    if "length (path_string E p) \<le> unat maximum" for p s
    using assms that by (simp add: append_path_text_def wire_def [of "append_path_text E"]
        bytes_code.app_wire read_path_def round_trip.read_wire [OF string_round_trip] path_texts_def)
qed

lemma enum_round_trip:
  assumes "inj tag" and "set all = UNIV"
  shows "round_trip (\<lambda>r x. append_u8 r (tag x)) (read_enum tag all) (\<lambda>_. True)"
proof
  show "append_u8 r (tag x) = r @ wire (\<lambda>r x. append_u8 r (tag x)) x" for r x
    by (simp add: wire_def append_u8_def)
  fix x s
  have "find (\<lambda>y. tag y = tag x) xs = (if x \<in> set xs then Some x else None)" for xs
    using assms(1) by (induction xs) (auto simp: inj_eq)
  then have "find (\<lambda>y. tag y = tag x) all = Some x"
    using assms(2) by simp
  then show "read_enum tag all (wire (\<lambda>r x. append_u8 r (tag x)) x @ s) = Inr (x, s)"
    by (simp add: read_enum_def wire_def append_u8_def read_u8_def read_word_def be_value_def)
qed

end
