(* ===== verification/Result.thy ===== *)
theory Result
  imports Encoding Request Ordering
begin

text \<open>
  Completed application evidence and terminal receipts (\<open>result.h\<close>, \<open>result.cpp\<close>): the durability
  profile, the projection of path consequences onto the accepted plan, the completion and failure
  rules, and the identities of evidence and receipts.  The factories \<open>installation\<close>, \<open>upgrade\<close> and
  \<open>removal\<close>, and the three overloads of \<open>failed\<close>, differ in the kind they pass on and in the way a
  consequence matches a decision; here the kind is an argument.
\<close>

section \<open>Outcomes, recovery states and durability\<close>

datatype attempt_outcome =
  Precondition_refused | Failed_before_target_mutation | Attempt_completed | Failed_fully_recovered
| Failed_with_partial_effects | Effects_visible_durability_unconfirmed | Attempt_indeterminate

datatype recovery_state =
  Recovery_unchanged | Exact_prior_state_restored | Recovery_assets_retained
| Known_residual_effects | Recovery_not_representable | Requires_authoritative_observation

datatype durability_domain =
  Durable_journal | Durable_incoming_staging | Durable_recovery_staging | Durable_active_namespace
| Durable_rejected_store | Durable_completed_evidence

datatype durability_status =
  Durability_not_attempted | Durability_visible | Durability_confirmed | Durability_unconfirmed
| Durability_indeterminate

fun outcome_tag :: "attempt_outcome \<Rightarrow> u8" where
  "outcome_tag Precondition_refused = 1"
| "outcome_tag Failed_before_target_mutation = 2"
| "outcome_tag Attempt_completed = 3"
| "outcome_tag Failed_fully_recovered = 4"
| "outcome_tag Failed_with_partial_effects = 5"
| "outcome_tag Effects_visible_durability_unconfirmed = 6"
| "outcome_tag Attempt_indeterminate = 7"

fun recovery_tag :: "recovery_state \<Rightarrow> u8" where
  "recovery_tag Recovery_unchanged = 1"
| "recovery_tag Exact_prior_state_restored = 2"
| "recovery_tag Recovery_assets_retained = 3"
| "recovery_tag Known_residual_effects = 4"
| "recovery_tag Recovery_not_representable = 5"
| "recovery_tag Requires_authoritative_observation = 6"

fun durability_domain_tag :: "durability_domain \<Rightarrow> u8" where
  "durability_domain_tag Durable_journal = 1"
| "durability_domain_tag Durable_incoming_staging = 2"
| "durability_domain_tag Durable_recovery_staging = 3"
| "durability_domain_tag Durable_active_namespace = 4"
| "durability_domain_tag Durable_rejected_store = 5"
| "durability_domain_tag Durable_completed_evidence = 6"

fun durability_status_tag :: "durability_status \<Rightarrow> u8" where
  "durability_status_tag Durability_not_attempted = 1"
| "durability_status_tag Durability_visible = 2"
| "durability_status_tag Durability_confirmed = 3"
| "durability_status_tag Durability_unconfirmed = 4"
| "durability_status_tag Durability_indeterminate = 5"

lemma result_tags_inject [simp]:
  shows "outcome_tag a = outcome_tag b \<longleftrightarrow> a = b"
    and "recovery_tag c = recovery_tag d \<longleftrightarrow> c = d"
    and "durability_domain_tag e = durability_domain_tag f \<longleftrightarrow> e = f"
    and "durability_status_tag g = durability_status_tag h \<longleftrightarrow> g = h"
  subgoal by (cases a; cases b) simp_all
  subgoal by (cases c; cases d) simp_all
  subgoal by (cases e; cases f) simp_all
  subgoal by (cases g; cases h) simp_all
  done

record durability_fact =
  fact_domain :: durability_domain
  fact_status :: durability_status

record durability_profile =
  profile_facts :: "durability_fact list"

definition make_profile :: "durability_fact list \<Rightarrow> error + durability_profile" where
  "make_profile facts =
     (let facts = sort_key (\<lambda>f. durability_domain_tag (fact_domain f)) facts in
      rbind (throw_if (length facts \<noteq> 6)
        (Invalid_argument ''application durability profile requires six domains'')) (\<lambda>_.
      rbind (throw_if (adjacent_equal (map fact_domain facts))
        (Invalid_argument ''duplicate application durability domain'')) (\<lambda>_.
      rbind (throw_if (map (\<lambda>f. durability_domain_tag (fact_domain f)) facts \<noteq> [1, 2, 3, 4, 5, 6])
        (Invalid_argument ''missing application durability domain'')) (\<lambda>_.
      Inr \<lparr>profile_facts = facts\<rparr>))))"

definition profile_status ::
  "durability_profile \<Rightarrow> durability_domain \<Rightarrow> error + durability_status" where
  "profile_status p domain =
     (let v = unat (durability_domain_tag domain) in
      if v < 1 \<or> length (profile_facts p) < v
      then Inl (Invalid_argument ''invalid application durability domain'')
      else Inr (fact_status (profile_facts p ! (v - 1))))"

definition all_domains :: "durability_domain list" where
  "all_domains = [Durable_journal, Durable_incoming_staging, Durable_recovery_staging,
     Durable_active_namespace, Durable_rejected_store, Durable_completed_evidence]"

definition valid_profile :: "durability_profile \<Rightarrow> bool" where
  "valid_profile p \<longleftrightarrow> map fact_domain (profile_facts p) = all_domains"

lemma all_domains_complete: "domain \<in> set all_domains"
  by (cases domain) (simp_all add: all_domains_def)

lemma tags_all_domains:
  "map durability_domain_tag ds = [1, 2, 3, 4, 5, 6] \<longleftrightarrow> ds = all_domains"
proof -
  have "map durability_domain_tag all_domains = [1, 2, 3, 4, 5, 6]" by (simp add: all_domains_def)
  moreover have "inj durability_domain_tag" by (rule injI) simp
  ultimately show ?thesis by (metis inj_map_eq_map)
qed

lemma make_profile_valid: "make_profile facts = Inr p \<Longrightarrow> valid_profile p"
  by (auto simp: make_profile_def Let_def result_simps valid_profile_def tags_all_domains [symmetric]
      comp_def)

lemma profile_status_valid:
  assumes "valid_profile p"
  shows "profile_status p domain = Inr st \<longleftrightarrow>
    \<lparr>fact_domain = domain, fact_status = st\<rparr> \<in> set (profile_facts p)"
proof -
  obtain fs where p: "p = \<lparr>profile_facts = fs\<rparr>" by (cases p)
  have doms: "map fact_domain fs = all_domains" using assms by (simp add: p valid_profile_def)
  then obtain a b c d e f where fs: "fs = [a, b, c, d, e, f]"
    by (auto simp: all_domains_def map_eq_Cons_conv)
  show ?thesis using doms
    by (cases domain) (auto simp: p fs profile_status_def all_domains_def intro: durability_fact.equality)
qed

section \<open>Projection onto the accepted plan\<close>

definition normalize_result_paths ::
  "('p::linorder, 'o) path_consequence list \<Rightarrow> error + ('p, 'o) path_consequence list" where
  "normalize_result_paths paths =
     (let paths = sort_key consequence_path paths in
      if adjacent_equal (map consequence_path paths)
      then Inl (Invalid_argument ''duplicate path in application result'')
      else Inr paths)"

definition normalize_result_evidence :: "digest list \<Rightarrow> error + digest list" where
  "normalize_result_evidence evidence =
     (let evidence = sort evidence in
      if adjacent_equal evidence
      then Inl (Invalid_argument ''duplicate backend application evidence'')
      else Inr evidence)"

definition same_ownership :: "'o ownership_transition \<Rightarrow> 'o ownership_transition \<Rightarrow> bool" where
  "same_ownership t u \<longleftrightarrow> before_existing_owners t = before_existing_owners u \<and>
     after_existing_owners t = after_existing_owners u \<and>
     incoming_package_owns_after t = incoming_package_owns_after u"

lemma same_ownership_iff [simp]: "same_ownership t u \<longleftrightarrow> t = (u :: 'o ownership_transition)"
  by (auto simp: same_ownership_def)

fun application_role :: "planned_role \<Rightarrow> path_role" where
  "application_role Plan_incoming_entry = Incoming_entry"
| "application_role Plan_obsolete_old_path = Obsolete_old_path"
| "application_role Plan_structural_parent = Structural_parent"

definition matches_decision ::
  "('p, 'o) path_consequence \<Rightarrow> ('p, 'o) path_decision \<Rightarrow> path_role \<Rightarrow> bool" where
  "matches_decision c d role \<longleftrightarrow> consequence_path c = decision_path d \<and> consequence_role c = role \<and>
     requested_active c = decision_active d \<and> requested_rejected c = decision_rejected d \<and>
     consequence_entry c = decision_entry d \<and>
     same_ownership (consequence_ownership c) (decision_ownership d)"

definition matches_removal_decision ::
  "('p, 'o) path_consequence \<Rightarrow> ('p, 'o) path_decision \<Rightarrow> bool" where
  "matches_removal_decision c d \<longleftrightarrow> consequence_path c = decision_path d \<and>
     consequence_role c = Installed_owned_path \<and>
     requested_active c = decision_active d \<and> requested_rejected c = decision_rejected d \<and>
     consequence_entry c = None \<and>
     same_ownership (consequence_ownership c) (decision_ownership d)"

definition validate_path_projection ::
  "('p::linorder, 'o) path_decision list \<Rightarrow> ('p, 'o) path_consequence list \<Rightarrow> bool \<Rightarrow>
   (('p, 'o) path_consequence \<Rightarrow> ('p, 'o) path_decision \<Rightarrow> bool) \<Rightarrow> error + unit" where
  "validate_path_projection decisions paths complete matches =
     rbind (throw_if (complete \<and> length paths \<noteq> length decisions)
       (Invalid_argument ''completed evidence path universe mismatch'')) (\<lambda>_.
     throw_if (list_ex (\<lambda>c. case find_sorted decision_path decisions (consequence_path c) of
           None \<Rightarrow> True | Some d \<Rightarrow> \<not> matches c d) paths)
       (Invalid_argument ''application result differs from accepted plan''))"

text \<open>The three overloads: the decisions of installations and upgrades carry a role.\<close>

definition plan_matches ::
  "operation_kind \<Rightarrow> ('p, 'o) path_consequence \<Rightarrow> ('p, 'o) path_decision \<Rightarrow> bool" where
  "plan_matches kind c d =
     (case kind of
        Remove \<Rightarrow> matches_removal_decision c d
      | _ \<Rightarrow> (case decision_role d of
                None \<Rightarrow> False | Some role \<Rightarrow> matches_decision c d (application_role role)))"

definition validate_plan_paths ::
  "operation_kind \<Rightarrow> ('p::linorder, 'o) operation_plan \<Rightarrow> ('p, 'o) path_consequence list \<Rightarrow> bool \<Rightarrow>
   error + unit" where
  "validate_plan_paths kind plan paths complete =
     validate_path_projection (plan_paths plan) paths complete (plan_matches kind)"

section \<open>Completed consequences\<close>

definition visible_or_confirmed :: "durability_status \<Rightarrow> bool" where
  "visible_or_confirmed st \<longleftrightarrow>
     st = Durability_visible \<or> st = Durability_confirmed \<or> st = Durability_not_attempted"

definition validate_completed_durability ::
  "execution_control \<Rightarrow> durability_profile \<Rightarrow> error + unit" where
  "validate_completed_durability control durability =
     rbind (profile_status durability Durable_journal) (\<lambda>journal.
     rbind (profile_status durability Durable_completed_evidence) (\<lambda>evidence.
     rbind (throw_if (journal \<noteq> Durability_confirmed \<or> evidence \<noteq> Durability_confirmed)
       (Invalid_argument ''completed application requires durable journal and evidence'')) (\<lambda>_.
     case control_durability control of
       Visibility_only \<Rightarrow>
         throw_if (\<not> list_all (\<lambda>f. visible_or_confirmed (fact_status f)) (profile_facts durability))
           (Invalid_argument ''visibility-only application has unresolved durability'')
     | Journal_and_recovery \<Rightarrow>
         rbind (profile_status durability Durable_recovery_staging) (\<lambda>recovery.
         rbind (throw_if (recovery \<noteq> Durability_not_attempted \<and> recovery \<noteq> Durability_confirmed)
           (Invalid_argument ''required recovery staging durability is not confirmed'')) (\<lambda>_.
         rbind (profile_status durability Durable_active_namespace) (\<lambda>active.
         rbind (profile_status durability Durable_rejected_store) (\<lambda>rejected.
         throw_if (\<not> visible_or_confirmed active \<or> \<not> visible_or_confirmed rejected)
           (Invalid_argument ''completed application visibility is not established'')))))
     | All_application_domains \<Rightarrow>
         throw_if (\<not> list_all (\<lambda>f. fact_status f = Durability_not_attempted \<or>
             fact_status f = Durability_confirmed) (profile_facts durability))
           (Invalid_argument ''application domain durability is not confirmed''))))"

definition completed_path :: "('p, 'o) path_consequence \<Rightarrow> bool" where
  "completed_path c =
     (if observation_state (consequence_before c) = State_unknown \<or>
         observation_state (consequence_after c) = State_unknown \<or> publication c \<noteq> Eligible
      then False
      else
        let rejected = (if requested_rejected c = No_rejected
              then rejected_status c = Not_attempted \<and> rejected_object c = None
              else rejected_status c = Effect_completed \<and> rejected_object c \<noteq> None) in
        if \<not> rejected then False
        else (case requested_active c of
            Activate_incoming \<Rightarrow> active_status c = Effect_completed \<and>
              observation_state (consequence_after c) = State_known
          | Retain_observed \<Rightarrow> active_status c = Effect_completed \<and>
              observation_state (consequence_after c) = State_known
          | Remove_observed \<Rightarrow> active_status c = Effect_completed \<and>
              observation_state (consequence_after c) = State_not_applicable
          | Remain_absent \<Rightarrow> active_status c = Effect_completed \<and>
              observation_state (consequence_after c) = State_not_applicable
          | Remove_directory_if_empty \<Rightarrow>
              active_status c = Effect_completed \<and>
                observation_state (consequence_after c) = State_not_applicable \<or>
              active_status c = Conditional_retained \<and>
                observation_state (consequence_after c) = State_known))"

section \<open>Completed evidence\<close>

record ('p, 'o) completed_evidence =
  evidence_identity :: digest
  evidence_kind :: operation_kind
  evidence_request :: digest
  evidence_plan :: bytes
  evidence_attempt :: digest
  evidence_target :: digest
  evidence_control :: digest
  evidence_projection :: digest
  evidence_journal :: digest
  evidence_paths :: "('p, 'o) path_consequence list"
  evidence_durability :: durability_profile
  evidence_backend :: "digest list"

definition append_durability_fact :: "bytes \<Rightarrow> durability_fact \<Rightarrow> bytes" where
  "append_durability_fact r f =
     append_u8 (append_u8 r (durability_domain_tag (fact_domain f)))
       (durability_status_tag (fact_status f))"

definition append_durability :: "bytes \<Rightarrow> durability_profile \<Rightarrow> bytes" where
  "append_durability r p = foldl append_durability_fact r (profile_facts p)"

definition append_paths ::
  "('p, 'o) environment \<Rightarrow> bytes \<Rightarrow> ('p, 'o) path_consequence list \<Rightarrow> bytes" where
  "append_paths E r paths = append_counted (append_path E) r paths"

definition append_backend_evidence :: "bytes \<Rightarrow> digest list \<Rightarrow> bytes" where
  "append_backend_evidence r evidence = append_counted append_digest r evidence"

definition evidence_record :: "('p, 'o) environment \<Rightarrow> ('p, 'o) completed_evidence \<Rightarrow> bytes" where
  "evidence_record E e =
     (let r = canonical_record (canonical_domain Completed_application_evidence_domain);
          r = append_u16 r 1;
          r = append_u8 r (canonical_kind (evidence_kind e));
          r = append_digest r (evidence_request e);
          r = append_bytes r (evidence_plan e);
          r = append_digest r (evidence_attempt e);
          r = append_digest r (evidence_target e);
          r = append_digest r (evidence_control e);
          r = append_digest r (evidence_projection e);
          r = append_digest r (evidence_journal e);
          r = append_paths E r (evidence_paths e);
          r = append_durability r (evidence_durability e) in
      append_backend_evidence r (evidence_backend e))"

text \<open>The candidate carries the arguments of the private factory; its identity is ignored.\<close>

definition make_evidence ::
  "('p::linorder, 'o) environment \<Rightarrow> ('p, 'o) completed_evidence \<Rightarrow>
   error + ('p, 'o) completed_evidence" where
  "make_evidence E e =
     rbind (normalize_result_paths (evidence_paths e)) (\<lambda>paths.
     rbind (normalize_result_evidence (evidence_backend e)) (\<lambda>backend.
     rbind (throw_if (\<not> list_all completed_path paths)
       (Invalid_argument ''completed application evidence contains incomplete path effects'')) (\<lambda>_.
     let e = e\<lparr>evidence_paths := paths, evidence_backend := backend\<rparr> in
     Inr (e\<lparr>evidence_identity := hash E (evidence_record E e)\<rparr>))))"

definition completed_application_evidence ::
  "('p::linorder, 'o) environment \<Rightarrow> ('p, 'o) application_request \<Rightarrow> digest \<Rightarrow> digest \<Rightarrow> digest \<Rightarrow>
   ('p, 'o) path_consequence list \<Rightarrow> durability_profile \<Rightarrow> digest list \<Rightarrow>
   error + ('p, 'o) completed_evidence" where
  "completed_application_evidence E request attempt projection journal paths durability backend =
     rbind (normalize_result_paths paths) (\<lambda>paths.
     rbind (validate_plan_paths (request_kind request) (request_plan request) paths True) (\<lambda>_.
     rbind (validate_completed_durability (request_control request) durability) (\<lambda>_.
     make_evidence E
       \<lparr>evidence_identity = 0, evidence_kind = request_kind request,
        evidence_request = request_identity request,
        evidence_plan = plan_identity (request_plan request), evidence_attempt = attempt,
        evidence_target = context_identity (request_target request),
        evidence_control = control_identity (request_control request),
        evidence_projection = projection, evidence_journal = journal, evidence_paths = paths,
        evidence_durability = durability, evidence_backend = backend\<rparr>)))"

section \<open>Terminal receipts\<close>

record ('p, 'o) application_receipt =
  terminal_identity :: digest
  terminal_kind :: operation_kind
  terminal_request :: digest
  terminal_plan :: bytes
  terminal_attempt :: digest
  terminal_target :: digest
  terminal_control :: digest
  terminal_projection :: digest
  terminal_outcome :: attempt_outcome
  terminal_recovery :: recovery_state
  terminal_durability :: durability_profile
  terminal_paths :: "('p, 'o) path_consequence list"
  terminal_journal :: "digest option"
  terminal_completed :: "('p, 'o) completed_evidence option"
  terminal_backend :: "digest list"

text \<open>\<open>identify_receipt\<close>, on the receipt its arguments make up.\<close>

definition receipt_record :: "('p, 'o) environment \<Rightarrow> ('p, 'o) application_receipt \<Rightarrow> bytes" where
  "receipt_record E x =
     (let r = canonical_record (canonical_domain Application_receipt_domain);
          r = append_u16 r 1;
          r = append_u8 r (canonical_kind (terminal_kind x));
          r = append_digest r (terminal_request x);
          r = append_bytes r (terminal_plan x);
          r = append_digest r (terminal_attempt x);
          r = append_digest r (terminal_target x);
          r = append_digest r (terminal_control x);
          r = append_digest r (terminal_projection x);
          r = append_u8 r (outcome_tag (terminal_outcome x));
          r = append_u8 r (recovery_tag (terminal_recovery x));
          r = append_durability r (terminal_durability x);
          r = append_paths E r (terminal_paths x);
          r = append_optional append_digest r (terminal_journal x);
          r = append_optional append_digest r (map_option evidence_identity (terminal_completed x)) in
      append_backend_evidence r (terminal_backend x))"

definition completed_receipt ::
  "('p::linorder, 'o) environment \<Rightarrow> ('p, 'o) completed_evidence \<Rightarrow> recovery_state \<Rightarrow> digest list \<Rightarrow>
   error + ('p, 'o) application_receipt" where
  "completed_receipt E evidence recovery backend =
     rbind (throw_if (recovery \<noteq> Recovery_assets_retained \<and> recovery \<noteq> Recovery_unchanged)
       (Invalid_argument ''completed receipt has invalid recovery state'')) (\<lambda>_.
     rbind (normalize_result_evidence backend) (\<lambda>backend.
     let x = \<lparr>terminal_identity = 0, terminal_kind = evidence_kind evidence,
           terminal_request = evidence_request evidence, terminal_plan = evidence_plan evidence,
           terminal_attempt = evidence_attempt evidence, terminal_target = evidence_target evidence,
           terminal_control = evidence_control evidence,
           terminal_projection = evidence_projection evidence,
           terminal_outcome = Attempt_completed, terminal_recovery = recovery,
           terminal_durability = evidence_durability evidence,
           terminal_paths = evidence_paths evidence,
           terminal_journal = Some (evidence_journal evidence),
           terminal_completed = Some evidence, terminal_backend = backend\<rparr> in
     Inr (x\<lparr>terminal_identity := hash E (receipt_record E x)\<rparr>)))"

definition validate_failed_paths ::
  "attempt_outcome \<Rightarrow> ('p, 'o) path_consequence list \<Rightarrow> error + unit" where
  "validate_failed_paths outcome paths =
     rbind (rmap (\<lambda>c.
       rbind (throw_if (publication c \<noteq> Ineligible)
         (Invalid_argument ''failed application path is publication eligible'')) (\<lambda>_.
       rbind (throw_if (outcome = Precondition_refused \<and>
           (active_status c \<noteq> Not_attempted \<or> rejected_status c \<noteq> Not_attempted))
         (Invalid_argument ''precondition refusal contains attempted application effects'')) (\<lambda>_.
       throw_if (outcome = Failed_before_target_mutation \<and> active_status c \<noteq> Not_attempted \<and>
           active_status c \<noteq> Effect_failed)
         (Invalid_argument ''pre-target-mutation failure contains a possibly applied active effect''))))
       paths) (\<lambda>_. Inr ())"

definition validate_failed_outcome ::
  "attempt_outcome \<Rightarrow> recovery_state \<Rightarrow> digest option \<Rightarrow> durability_profile \<Rightarrow> error + unit" where
  "validate_failed_outcome outcome recovery journal durability =
     (if outcome = Attempt_completed
      then Inl (Invalid_argument ''failed receipt cannot report completed outcome'')
      else if outcome = Precondition_refused \<and> recovery \<noteq> Recovery_unchanged
      then Inl (Invalid_argument ''precondition refusal must leave active target unchanged'')
      else if outcome = Failed_before_target_mutation \<and> recovery \<noteq> Recovery_unchanged
      then Inl (Invalid_argument ''pre-target-mutation failure must leave active target unchanged'')
      else if outcome = Precondition_refused \<and> journal \<noteq> None
      then Inl (Invalid_argument ''precondition refusal must not create a journal'')
      else if outcome = Failed_fully_recovered \<and> recovery \<noteq> Exact_prior_state_restored
      then Inl (Invalid_argument ''fully recovered outcome requires exact restoration'')
      else if outcome = Failed_with_partial_effects \<and> recovery \<noteq> Known_residual_effects
      then Inl (Invalid_argument ''partial effects require residual-effect recovery state'')
      else if outcome = Attempt_indeterminate \<and> recovery \<noteq> Requires_authoritative_observation
      then Inl (Invalid_argument ''indeterminate outcome requires authoritative observation'')
      else if (outcome = Failed_fully_recovered \<or> outcome = Failed_with_partial_effects \<or>
               outcome = Effects_visible_durability_unconfirmed \<or> outcome = Attempt_indeterminate) \<and>
              journal = None
      then Inl (Invalid_argument ''post-mutation receipt requires application journal'')
      else if outcome = Effects_visible_durability_unconfirmed \<and>
              \<not> list_ex (\<lambda>f. fact_status f = Durability_visible \<or> fact_status f = Durability_unconfirmed)
                 (profile_facts durability)
      then Inl (Invalid_argument ''durability-unconfirmed outcome has no visible or unconfirmed domain'')
      else Inr ())"

definition make_failed ::
  "('p::linorder, 'o) environment \<Rightarrow> ('p, 'o) application_receipt \<Rightarrow>
   error + ('p, 'o) application_receipt" where
  "make_failed E x =
     rbind (validate_failed_outcome (terminal_outcome x) (terminal_recovery x) (terminal_journal x)
       (terminal_durability x)) (\<lambda>_.
     rbind (validate_failed_paths (terminal_outcome x) (terminal_paths x)) (\<lambda>_.
     rbind (normalize_result_paths (terminal_paths x)) (\<lambda>paths.
     rbind (normalize_result_evidence (terminal_backend x)) (\<lambda>backend.
     let x = x\<lparr>terminal_paths := paths, terminal_completed := None, terminal_backend := backend\<rparr> in
     Inr (x\<lparr>terminal_identity := hash E (receipt_record E x)\<rparr>)))))"

definition failed_receipt ::
  "('p::linorder, 'o) environment \<Rightarrow> ('p, 'o) application_request \<Rightarrow> digest \<Rightarrow> digest \<Rightarrow>
   attempt_outcome \<Rightarrow> recovery_state \<Rightarrow> durability_profile \<Rightarrow> ('p, 'o) path_consequence list \<Rightarrow>
   digest option \<Rightarrow> digest list \<Rightarrow> error + ('p, 'o) application_receipt" where
  "failed_receipt E request attempt projection outcome recovery durability paths journal backend =
     rbind (normalize_result_paths paths) (\<lambda>paths.
     rbind (validate_plan_paths (request_kind request) (request_plan request) paths False) (\<lambda>_.
     make_failed E
       \<lparr>terminal_identity = 0, terminal_kind = request_kind request,
        terminal_request = request_identity request,
        terminal_plan = plan_identity (request_plan request), terminal_attempt = attempt,
        terminal_target = context_identity (request_target request),
        terminal_control = control_identity (request_control request),
        terminal_projection = projection, terminal_outcome = outcome, terminal_recovery = recovery,
        terminal_durability = durability, terminal_paths = paths, terminal_journal = journal,
        terminal_completed = None, terminal_backend = backend\<rparr>))"

section \<open>Facts about the projection\<close>

lemma normalize_result_paths_Inr:
  "normalize_result_paths paths = Inr ps \<longleftrightarrow>
     ps = sort_key consequence_path paths \<and> distinct (map consequence_path paths)"
  by (auto simp: normalize_result_paths_def)

lemma normalize_result_paths_sorted:
  assumes "normalize_result_paths paths = Inr ps"
  shows "sorted (map consequence_path ps)" and "distinct (map consequence_path ps)"
    and "mset ps = mset paths" and "set ps = set paths"
proof -
  have "distinct (map consequence_path ps) \<longleftrightarrow> distinct (map consequence_path paths)"
    using assms by (intro mset_eq_imp_distinct_iff) (simp add: normalize_result_paths_Inr)
  then show "distinct (map consequence_path ps)"
    using assms by (simp add: normalize_result_paths_Inr)
qed (use assms in \<open>simp_all add: normalize_result_paths_Inr\<close>)

lemma normalize_result_paths_idem:
  "sorted (map consequence_path ps) \<Longrightarrow> distinct (map consequence_path ps) \<Longrightarrow>
   normalize_result_paths ps = Inr ps"
  by (simp add: normalize_result_paths_Inr sorted_sort_id sort_key_id_if_sorted)

lemma normalize_result_evidence_Inr:
  "normalize_result_evidence xs = Inr ys \<longleftrightarrow> ys = sort xs \<and> distinct xs"
  by (auto simp: normalize_result_evidence_def)

lemma plan_matches_path: "plan_matches kind c d \<Longrightarrow> consequence_path c = decision_path d"
  by (auto simp: plan_matches_def matches_decision_def matches_removal_decision_def
      split: operation_kind.splits option.splits)

text \<open>The planner's path universe: strictly increasing paths.\<close>

definition plan_ordered :: "('p::linorder, 'o) operation_plan \<Rightarrow> bool" where
  "plan_ordered plan \<longleftrightarrow> sorted (map decision_path (plan_paths plan)) \<and>
     distinct (map decision_path (plan_paths plan))"

interpretation plan_table:
  path_table plan_paths decision_path plan_ordered "\<lambda>plan. find_sorted decision_path (plan_paths plan)"
  by unfold_locales (auto simp: plan_ordered_def)

lemma plan_lookup_matches:
  assumes "plan_ordered plan"
  shows "(case find_sorted decision_path (plan_paths plan) (consequence_path c) of
           None \<Rightarrow> True | Some d \<Rightarrow> \<not> plan_matches kind c d) \<longleftrightarrow>
         \<not> (\<exists>d \<in> set (plan_paths plan). plan_matches kind c d)"
proof (cases "find_sorted decision_path (plan_paths plan) (consequence_path c)")
  case None
  then have "consequence_path c \<notin> decision_path ` set (plan_paths plan)"
    by (simp add: plan_table.lookup_None_iff [OF assms])
  with None show ?thesis using plan_matches_path [of kind c] by auto
next
  case (Some d)
  then have "plan_matches kind c e \<Longrightarrow> e \<in> set (plan_paths plan) \<Longrightarrow> e = d" for e
    using plan_table.lookup_member [OF assms, of e] plan_matches_path [of kind c e] by simp
  with Some show ?thesis
    using plan_table.lookup_Some_iff [OF assms, of "consequence_path c" d] by auto
qed

lemma validate_plan_paths_partial:
  assumes "plan_ordered plan"
  shows "validate_plan_paths kind plan paths False = Inr () \<longleftrightarrow>
    (\<forall>c \<in> set paths. \<exists>d \<in> set (plan_paths plan). plan_matches kind c d)"
  by (simp add: validate_plan_paths_def validate_path_projection_def list_ex_iff
      plan_lookup_matches [OF assms])

lemma validate_plan_paths_complete:
  assumes "plan_ordered plan" and "sorted (map consequence_path ps)"
    and "distinct (map consequence_path ps)"
  shows "validate_plan_paths kind plan ps True = Inr () \<longleftrightarrow>
    list_all2 (plan_matches kind) ps (plan_paths plan)"
proof
  assume "validate_plan_paths kind plan ps True = Inr ()"
  then have len: "length ps = length (plan_paths plan)"
    and each: "\<forall>c \<in> set ps. \<exists>d \<in> set (plan_paths plan). plan_matches kind c d"
    by (auto simp: validate_plan_paths_def validate_path_projection_def result_simps list_ex_iff
        plan_lookup_matches [OF assms(1)])
  have ordered: "sorted (map decision_path (plan_paths plan))" "distinct (map decision_path (plan_paths plan))"
    using assms(1) by (simp_all add: plan_ordered_def)
  have "set (map consequence_path ps) \<subseteq> set (map decision_path (plan_paths plan))"
    using each plan_matches_path by fastforce
  moreover have "card (set (map consequence_path ps)) = card (set (map decision_path (plan_paths plan)))"
    using len assms(3) ordered(2) by (metis distinct_card length_map)
  ultimately have "set (map consequence_path ps) = set (map decision_path (plan_paths plan))"
    by (intro card_subset_eq) simp_all
  then have same: "map consequence_path ps = map decision_path (plan_paths plan)"
    using assms(2,3) ordered by (intro sorted_distinct_set_unique)
  show "list_all2 (plan_matches kind) ps (plan_paths plan)"
  proof (rule list_all2_all_nthI [OF len])
    fix i assume i: "i < length ps"
    then obtain d where d: "d \<in> set (plan_paths plan)" "plan_matches kind (ps ! i) d"
      using each nth_mem by blast
    have "decision_path d = decision_path (plan_paths plan ! i)"
      using plan_matches_path [OF d(2)] same i len by (metis nth_map)
    with d(1) i len ordered(2) have "d = plan_paths plan ! i"
      by (metis distinct_map inj_onD nth_mem)
    with d(2) show "plan_matches kind (ps ! i) (plan_paths plan ! i)" by simp
  qed
next
  assume all2: "list_all2 (plan_matches kind) ps (plan_paths plan)"
  then have "\<forall>c \<in> set ps. \<exists>d \<in> set (plan_paths plan). plan_matches kind c d"
    by (metis in_set_conv_nth list_all2_conv_all_nth)
  with list_all2_lengthD [OF all2] show "validate_plan_paths kind plan ps True = Inr ()"
    by (simp add: validate_plan_paths_def validate_path_projection_def list_ex_iff
        plan_lookup_matches [OF assms(1)])
qed

section \<open>What completed evidence promises\<close>

text \<open>The durability demanded of each domain, as a table over the requirement.\<close>

definition durability_settled :: "durability_status \<Rightarrow> bool" where
  "durability_settled st \<longleftrightarrow> st = Durability_not_attempted \<or> st = Durability_confirmed"

fun status_required :: "durability_requirement \<Rightarrow> durability_domain \<Rightarrow> durability_status \<Rightarrow> bool" where
  "status_required req Durable_journal st \<longleftrightarrow> st = Durability_confirmed"
| "status_required req Durable_completed_evidence st \<longleftrightarrow> st = Durability_confirmed"
| "status_required Visibility_only domain st \<longleftrightarrow> visible_or_confirmed st"
| "status_required Journal_and_recovery Durable_incoming_staging st \<longleftrightarrow> True"
| "status_required Journal_and_recovery Durable_recovery_staging st \<longleftrightarrow> durability_settled st"
| "status_required Journal_and_recovery domain st \<longleftrightarrow> visible_or_confirmed st"
| "status_required All_application_domains domain st \<longleftrightarrow> durability_settled st"

lemma validate_completed_durability_iff:
  assumes "valid_profile p"
  shows "validate_completed_durability control p = Inr () \<longleftrightarrow>
    (\<forall>f \<in> set (profile_facts p). status_required (control_durability control) (fact_domain f) (fact_status f))"
proof -
  obtain fs where p: "p = \<lparr>profile_facts = fs\<rparr>" by (cases p)
  have doms: "map fact_domain fs = all_domains" using assms by (simp add: p valid_profile_def)
  then obtain a b c d e f where fs: "fs = [a, b, c, d, e, f]"
    by (auto simp: all_domains_def map_eq_Cons_conv)
  note each = doms [unfolded fs all_domains_def]
  show ?thesis using each
    by (cases "control_durability control")
      (simp_all add: p fs validate_completed_durability_def profile_status_def result_simps
        durability_settled_def visible_or_confirmed_def; fastforce)+
qed

lemma completed_evidence_Inr:
  assumes "plan_ordered (request_plan request)" and "valid_profile durability"
  shows "completed_application_evidence E request attempt projection journal paths durability backend =
      Inr e \<longleftrightarrow>
    list_all2 (plan_matches (request_kind request)) (sort_key consequence_path paths)
      (plan_paths (request_plan request)) \<and>
    (\<forall>c \<in> set paths. completed_path c) \<and> distinct backend \<and>
    (\<forall>f \<in> set (profile_facts durability).
       status_required (control_durability (request_control request)) (fact_domain f) (fact_status f)) \<and>
    evidence_identity e = hash E (evidence_record E e) \<and>
    evidence_kind e = request_kind request \<and> evidence_request e = request_identity request \<and>
    evidence_plan e = plan_identity (request_plan request) \<and> evidence_attempt e = attempt \<and>
    evidence_target e = context_identity (request_target request) \<and>
    evidence_control e = control_identity (request_control request) \<and>
    evidence_projection e = projection \<and> evidence_journal e = journal \<and>
    evidence_paths e = sort_key consequence_path paths \<and> evidence_durability e = durability \<and>
    evidence_backend e = sort backend" (is "?lhs \<longleftrightarrow> ?rhs")
proof (cases "distinct (map consequence_path paths)")
  case False
  have "\<not> list_all2 (plan_matches (request_kind request)) (sort_key consequence_path paths)
      (plan_paths (request_plan request))"
  proof
    assume "list_all2 (plan_matches (request_kind request)) (sort_key consequence_path paths)
      (plan_paths (request_plan request))"
    then have "map consequence_path (sort_key consequence_path paths) =
        map decision_path (plan_paths (request_plan request))"
      by (induction rule: list_all2_induct) (simp_all add: plan_matches_path)
    then have "distinct (map consequence_path (sort_key consequence_path paths))"
      using assms(1) by (simp add: plan_ordered_def)
    moreover have "distinct (map consequence_path (sort_key consequence_path paths)) \<longleftrightarrow>
        distinct (map consequence_path paths)"
      by (rule mset_eq_imp_distinct_iff) simp
    ultimately show False using False by simp
  qed
  with False show ?thesis
    by (simp add: completed_application_evidence_def result_simps normalize_result_paths_Inr)
next
  case True
  then have norm: "normalize_result_paths paths = Inr (sort_key consequence_path paths)"
    by (simp add: normalize_result_paths_Inr)
  note ordered = normalize_result_paths_sorted(1,2) [OF norm]
  have "validate_plan_paths (request_kind request) (request_plan request)
      (sort_key consequence_path paths) True = Inr () \<longleftrightarrow>
    list_all2 (plan_matches (request_kind request)) (sort_key consequence_path paths)
      (plan_paths (request_plan request))"
    by (rule validate_plan_paths_complete [OF assms(1) ordered])
  then show ?thesis
    by (auto simp: completed_application_evidence_def make_evidence_def result_simps norm
        normalize_result_paths_idem [OF ordered] normalize_result_evidence_Inr list_all_iff Let_def
        validate_completed_durability_iff [OF assms(2)] evidence_record_def
        intro!: completed_evidence.equality)
qed

text \<open>
  C28: completed evidence is accepted exactly for a truthful completion: the consequences are, up to
  order, one per decision of the accepted plan and match it field by field, each of them is complete,
  the backend evidence has no duplicates, and every durability domain meets what the request
  demands of it.
\<close>

theorem completed_evidence_exact:
  assumes "plan_ordered (request_plan request)" and "valid_profile durability"
  shows "(\<exists>e. completed_application_evidence E request attempt projection journal paths durability
        backend = Inr e \<and> evidence_request e = request_identity request \<and>
        evidence_paths e = sort_key consequence_path paths) \<longleftrightarrow>
    list_all2 (plan_matches (request_kind request)) (sort_key consequence_path paths)
      (plan_paths (request_plan request)) \<and>
    (\<forall>c \<in> set paths. completed_path c) \<and> distinct backend \<and>
    (\<forall>f \<in> set (profile_facts durability).
       status_required (control_durability (request_control request)) (fact_domain f) (fact_status f))"
    (is "?accepted \<longleftrightarrow> ?conditions")
proof
  assume ?accepted
  then show ?conditions by (auto simp: completed_evidence_Inr [OF assms])
next
  assume ok: ?conditions
  define c where "c = \<lparr>evidence_identity = 0, evidence_kind = request_kind request,
        evidence_request = request_identity request,
        evidence_plan = plan_identity (request_plan request), evidence_attempt = attempt,
        evidence_target = context_identity (request_target request),
        evidence_control = control_identity (request_control request),
        evidence_projection = projection, evidence_journal = journal,
        evidence_paths = sort_key consequence_path paths,
        evidence_durability = durability, evidence_backend = sort backend\<rparr>"
  have "completed_application_evidence E request attempt projection journal paths durability
      backend = Inr (c\<lparr>evidence_identity := hash E (evidence_record E c)\<rparr>)"
    using ok by (simp add: completed_evidence_Inr [OF assms] c_def evidence_record_def)
  then show ?accepted by (auto simp: c_def)
qed

text \<open>A removal of one path, completed.\<close>

definition sample_removal_request :: "(8 word, 8 word) application_request" where
  "sample_removal_request = \<lparr>request_schema = 1, request_identity = 11, request_kind = Remove,
     request_plan = sample_plan, request_incoming = None,
     request_target = \<lparr>context_identity = 12, context_target = [], managed_target = 0, root_view = 0,
       observation_backend = 0, context_mutation_backend = 0, mutation_exclusion_domain = 0,
       active_namespace = 0, rejected_store = 0, staging_namespace = 0, journal_namespace = 0,
       capabilities = 0, lifecycle_executor = None\<rparr>,
     request_control = sample_control\<rparr>"

definition sample_profile :: durability_profile where
  "sample_profile = \<lparr>profile_facts = map (\<lambda>d. \<lparr>fact_domain = d, fact_status = Durability_confirmed\<rparr>)
     all_domains\<rparr>"

definition sample_removed :: "(8 word, 8 word) path_consequence" where
  "sample_removed = \<lparr>consequence_path = 1, consequence_role = Installed_owned_path,
     requested_active = Remove_observed, requested_rejected = No_rejected, consequence_entry = None,
     consequence_ownership = \<lparr>before_existing_owners = [7], after_existing_owners = [],
       incoming_package_owns_after = False\<rparr>,
     active_status = Effect_completed, rejected_status = Not_attempted,
     consequence_before = \<lparr>observation_path = 1, observation_state = State_known,
       observation_object = Some \<lparr>object_path = 1, object_kind = Object_fifo,
         object_mode = Fact_known 0, object_uid = Fact_known 0, object_gid = Fact_known 0,
         object_size = Fact_not_applicable, object_mtime = Fact_unknown,
         object_content = Fact_not_applicable, object_symlink_target = Fact_not_applicable,
         object_device = Fact_not_applicable, object_hardlink = Fact_not_applicable,
         object_provenance = Application_observation, object_completeness = Fact_partial\<rparr>\<rparr>,
     consequence_after = \<lparr>observation_path = 1, observation_state = State_not_applicable,
       observation_object = None\<rparr>,
     rejected_object = None, publication = Eligible\<rparr>"

lemma sample_result_valid:
  "plan_ordered (request_plan sample_removal_request)" "valid_profile sample_profile"
  by (simp_all add: plan_ordered_def sample_removal_request_def sample_plan_def valid_profile_def
      sample_profile_def comp_def)

lemma sample_removed_matches:
  "plan_matches Remove sample_removed (hd (plan_paths sample_plan))"
  by (simp add: plan_matches_def matches_removal_decision_def sample_removed_def sample_plan_def)

theorem completed_evidence_exact_witness:
  "\<exists>e. completed_application_evidence sample_paths sample_removal_request 1 2 3 [sample_removed] sample_profile [5]
        = Inr e \<and> evidence_request e = 11 \<and> evidence_paths e = [sample_removed]"
  using completed_evidence_exact [OF sample_result_valid, of sample_paths 1 2 3 "[sample_removed]" "[5]"]
    sample_removed_matches
  by (simp add: sample_removal_request_def sample_plan_def completed_path_def sample_removed_def
      sample_profile_def all_domains_def sample_control_def durability_settled_def)

section \<open>What a failed receipt promises\<close>

fun outcome_allowed :: "attempt_outcome \<Rightarrow> recovery_state \<Rightarrow> bool \<Rightarrow> durability_status list \<Rightarrow> bool" where
  "outcome_allowed Precondition_refused recovery journal statuses \<longleftrightarrow>
     recovery = Recovery_unchanged \<and> \<not> journal"
| "outcome_allowed Failed_before_target_mutation recovery journal statuses \<longleftrightarrow>
     recovery = Recovery_unchanged"
| "outcome_allowed Attempt_completed recovery journal statuses \<longleftrightarrow> False"
| "outcome_allowed Failed_fully_recovered recovery journal statuses \<longleftrightarrow>
     recovery = Exact_prior_state_restored \<and> journal"
| "outcome_allowed Failed_with_partial_effects recovery journal statuses \<longleftrightarrow>
     recovery = Known_residual_effects \<and> journal"
| "outcome_allowed Effects_visible_durability_unconfirmed recovery journal statuses \<longleftrightarrow>
     journal \<and> (Durability_visible \<in> set statuses \<or> Durability_unconfirmed \<in> set statuses)"
| "outcome_allowed Attempt_indeterminate recovery journal statuses \<longleftrightarrow>
     recovery = Requires_authoritative_observation \<and> journal"

lemma validate_failed_outcome_iff:
  "validate_failed_outcome outcome recovery journal durability = Inr () \<longleftrightarrow>
     outcome_allowed outcome recovery (journal \<noteq> None) (map fact_status (profile_facts durability))"
  by (cases outcome) (auto simp: validate_failed_outcome_def list_ex_iff image_iff, metis+)

text \<open>Which statuses a path may carry under each outcome.\<close>

definition failed_path_allowed :: "attempt_outcome \<Rightarrow> ('p, 'o) path_consequence \<Rightarrow> bool" where
  "failed_path_allowed outcome c \<longleftrightarrow> publication c = Ineligible \<and>
     (outcome = Precondition_refused \<longrightarrow> active_status c = Not_attempted \<and> rejected_status c = Not_attempted) \<and>
     (outcome = Failed_before_target_mutation \<longrightarrow> active_status c \<in> {Not_attempted, Effect_failed})"

lemma rmap_unit_iff: "(\<exists>ys. rmap f xs = Inr ys) \<longleftrightarrow> (\<forall>x \<in> set xs. f x = Inr ())"
  by (induction xs) (auto simp: result_simps)

lemma validate_failed_paths_iff:
  "validate_failed_paths outcome paths = Inr () \<longleftrightarrow> (\<forall>c \<in> set paths. failed_path_allowed outcome c)"
  by (auto simp: validate_failed_paths_def result_simps failed_path_allowed_def rmap_unit_iff)

lemma failed_receipt_Inr:
  assumes "plan_ordered (request_plan request)"
  shows "failed_receipt E request attempt projection outcome recovery durability paths journal backend =
      Inr x \<longleftrightarrow>
    distinct (map consequence_path paths) \<and> distinct backend \<and>
    (\<forall>c \<in> set paths. failed_path_allowed outcome c \<and>
       (\<exists>d \<in> set (plan_paths (request_plan request)). plan_matches (request_kind request) c d)) \<and>
    outcome_allowed outcome recovery (journal \<noteq> None) (map fact_status (profile_facts durability)) \<and>
    terminal_identity x = hash E (receipt_record E x) \<and>
    terminal_kind x = request_kind request \<and> terminal_request x = request_identity request \<and>
    terminal_plan x = plan_identity (request_plan request) \<and> terminal_attempt x = attempt \<and>
    terminal_target x = context_identity (request_target request) \<and>
    terminal_control x = control_identity (request_control request) \<and>
    terminal_projection x = projection \<and> terminal_outcome x = outcome \<and>
    terminal_recovery x = recovery \<and> terminal_durability x = durability \<and>
    terminal_paths x = sort_key consequence_path paths \<and> terminal_journal x = journal \<and>
    terminal_completed x = None \<and> terminal_backend x = sort backend" (is "?lhs \<longleftrightarrow> ?rhs")
proof (cases "distinct (map consequence_path paths)")
  case False
  then show ?thesis by (simp add: failed_receipt_def result_simps normalize_result_paths_Inr)
next
  case True
  then have norm: "normalize_result_paths paths = Inr (sort_key consequence_path paths)"
    by (simp add: normalize_result_paths_Inr)
  note ordered = normalize_result_paths_sorted(1,2) [OF norm]
  show ?thesis
    using True by (auto simp: failed_receipt_def make_failed_def result_simps norm
        normalize_result_paths_idem [OF ordered] normalize_result_evidence_Inr Let_def
        validate_plan_paths_partial [OF assms] validate_failed_outcome_iff validate_failed_paths_iff
        receipt_record_def intro!: application_receipt.equality)
qed

text \<open>
  C29: a failed receipt is issued exactly when it tells the truth it can tell: no path twice, every
  path matches a decision of the accepted plan, none is eligible for publication, a refusal carries
  no attempted effect and no journal, a failure before mutation carries no applied active effect,
  and each outcome comes with its own recovery state and durability.
\<close>

theorem failed_receipt_exact:
  assumes "plan_ordered (request_plan request)"
  shows "(\<exists>x. failed_receipt E request attempt projection outcome recovery durability paths journal
        backend = Inr x \<and> terminal_outcome x = outcome \<and> terminal_recovery x = recovery \<and>
        terminal_paths x = sort_key consequence_path paths) \<longleftrightarrow>
    distinct (map consequence_path paths) \<and> distinct backend \<and>
    (\<forall>c \<in> set paths. failed_path_allowed outcome c \<and>
       (\<exists>d \<in> set (plan_paths (request_plan request)). plan_matches (request_kind request) c d)) \<and>
    outcome_allowed outcome recovery (journal \<noteq> None) (map fact_status (profile_facts durability))"
    (is "?issued \<longleftrightarrow> ?conditions")
proof
  assume ?issued
  then show ?conditions by (auto simp: failed_receipt_Inr [OF assms])
next
  assume ok: ?conditions
  define x where "x = \<lparr>terminal_identity = 0, terminal_kind = request_kind request,
        terminal_request = request_identity request,
        terminal_plan = plan_identity (request_plan request), terminal_attempt = attempt,
        terminal_target = context_identity (request_target request),
        terminal_control = control_identity (request_control request),
        terminal_projection = projection, terminal_outcome = outcome, terminal_recovery = recovery,
        terminal_durability = durability, terminal_paths = sort_key consequence_path paths,
        terminal_journal = journal, terminal_completed = None, terminal_backend = sort backend\<rparr>"
  have "failed_receipt E request attempt projection outcome recovery durability paths journal backend =
      Inr (x\<lparr>terminal_identity := hash E (receipt_record E x)\<rparr>)"
    using ok by (simp add: failed_receipt_Inr [OF assms] x_def receipt_record_def)
  then show ?issued by (auto simp: x_def)
qed

definition sample_refused :: "(8 word, 8 word) path_consequence" where
  "sample_refused = sample_removed\<lparr>active_status := Not_attempted, publication := Ineligible\<rparr>"

theorem failed_receipt_exact_witness:
  "\<exists>x. failed_receipt sample_paths sample_removal_request 1 2 Precondition_refused Recovery_unchanged
        sample_profile [sample_refused] None [] = Inr x \<and> terminal_outcome x = Precondition_refused \<and>
        terminal_recovery x = Recovery_unchanged \<and> terminal_paths x = [sample_refused]"
  using failed_receipt_exact [OF sample_result_valid(1), of sample_paths 1 2 Precondition_refused
      Recovery_unchanged sample_profile "[sample_refused]" None "[]"]
  by (simp add: sample_removal_request_def sample_plan_def failed_path_allowed_def plan_matches_def
      matches_removal_decision_def sample_refused_def sample_removed_def)

text \<open>The receipts of a request: the two factories, the first on completed evidence for it.\<close>

inductive issued ::
  "('p::linorder, 'o) environment \<Rightarrow> ('p, 'o) application_request \<Rightarrow> ('p, 'o) application_receipt \<Rightarrow>
   bool" for E request where
  issued_completed:
    "completed_application_evidence E request attempt projection journal paths durability evidence =
       Inr e \<Longrightarrow> valid_profile durability \<Longrightarrow> completed_receipt E e recovery backend = Inr x \<Longrightarrow>
     issued E request x"
| issued_failed:
    "failed_receipt E request attempt projection outcome recovery durability paths journal backend =
       Inr x \<Longrightarrow> valid_profile durability \<Longrightarrow> issued E request x"

lemma completed_receipt_fields:
  "completed_receipt E e recovery backend = Inr x \<Longrightarrow>
     terminal_completed x = Some e \<and> terminal_outcome x = Attempt_completed \<and>
     terminal_paths x = evidence_paths e \<and> terminal_request x = evidence_request e \<and>
     terminal_recovery x \<in> {Recovery_assets_retained, Recovery_unchanged} \<and>
     terminal_identity x = hash E (receipt_record E x)"
  by (auto simp: completed_receipt_def result_simps Let_def receipt_record_def)

text \<open>
  C31: publication needs completion: among the receipts of a request, one reports completion if and
  only if it carries completed evidence, and any path it marks eligible for ownership publication
  then belongs to a result that covers every decision of the plan, each of them complete.
\<close>

theorem publication_requires_completion:
  assumes "plan_ordered (request_plan request)" and "issued E request x"
    and "terminal_completed x \<noteq> None \<or> terminal_outcome x = Attempt_completed \<or>
         (\<exists>c \<in> set (terminal_paths x). publication c = Eligible)"
  shows "terminal_outcome x = Attempt_completed \<and>
    list_all2 (plan_matches (request_kind request)) (terminal_paths x) (plan_paths (request_plan request)) \<and>
    list_all completed_path (terminal_paths x) \<and>
    (\<exists>e. terminal_completed x = Some e \<and> evidence_paths e = terminal_paths x \<and>
       evidence_request e = request_identity request \<and>
       (\<forall>f \<in> set (profile_facts (evidence_durability e)).
          status_required (control_durability (request_control request)) (fact_domain f) (fact_status f)))"
  using assms(2,3)
proof cases
  case (issued_completed attempt projection journal paths durability evidence e recovery backend)
  with completed_evidence_Inr [OF assms(1) issued_completed(2)] completed_receipt_fields
  show ?thesis by (fastforce simp: list_all_iff)
next
  case (issued_failed attempt projection outcome recovery durability paths journal backend)
  then show ?thesis
    using assms(3) by (auto simp: failed_receipt_Inr [OF assms(1)] failed_path_allowed_def)
qed

lemma sample_issued:
  "\<exists>x. issued E sample_removal_request x \<and> terminal_outcome x = Attempt_completed"
proof -
  obtain e where e: "completed_application_evidence E sample_removal_request 1 2 3 [sample_removed]
      sample_profile [5] = Inr e"
    by (simp add: completed_application_evidence_def make_evidence_def sample_removal_request_def
        sample_plan_def normalize_result_paths_def normalize_result_evidence_def Let_def
        validate_plan_paths_def validate_path_projection_def find_sorted_def plan_matches_def
        matches_removal_decision_def sample_removed_def completed_path_def
        validate_completed_durability_def profile_status_def sample_profile_def all_domains_def
        sample_control_def)
  obtain x where x: "completed_receipt E e Recovery_unchanged [] = Inr x"
    by (simp add: completed_receipt_def normalize_result_evidence_def Let_def)
  from issued.issued_completed [OF e sample_result_valid(2) x] completed_receipt_fields [OF x]
  show ?thesis by blast
qed

theorem publication_requires_completion_witness:
  "\<exists>x. issued sample_paths sample_removal_request x \<and> list_all completed_path (terminal_paths x) \<and>
     length (terminal_paths x) = 1"
proof -
  from sample_issued obtain x where x: "issued sample_paths sample_removal_request x"
    "terminal_outcome x = Attempt_completed" by blast
  from publication_requires_completion [OF sample_result_valid(1) x(1)] x
  show ?thesis
    by (auto simp: sample_removal_request_def sample_plan_def dest!: list_all2_lengthD)
qed

section \<open>Identities of evidence and receipts\<close>

interpretation durability_fact_code: wire_code append_durability_fact "\<lambda>_. True"
proof
  show "append_durability_fact r f = r @ wire append_durability_fact f" for r f
    by (simp add: append_durability_fact_def wire_def [of append_durability_fact] record_defs)
  show "wire append_durability_fact f @ s = wire append_durability_fact g @ t \<Longrightarrow> f = g \<and> s = t" for f g s t
    by (auto simp: append_durability_fact_def wire_def [of append_durability_fact] record_defs wire_simps
        intro: durability_fact.equality)
qed

interpretation durability_code: wire_code append_durability valid_profile
proof
  show "append_durability r p = r @ wire append_durability p" for r p
    by (simp add: append_durability_def wire_def durability_fact_code.foldl_app)
  fix p q s t
  assume valid: "valid_profile p" "valid_profile q"
    and eq: "wire append_durability p @ s = wire append_durability q @ t"
  have "length (profile_facts p) = length (profile_facts q)"
    using valid by (metis length_map valid_profile_def)
  with eq have "profile_facts p = profile_facts q \<and> s = t"
    by (intro durability_fact_code.concat_wire_cut)
      (simp_all add: append_durability_def wire_def durability_fact_code.foldl_app)
  then show "p = q \<and> s = t" by (auto intro: durability_profile.equality)
qed

definition result_sizes ::
  "('p, 'o) environment \<Rightarrow> bytes \<Rightarrow> durability_profile \<Rightarrow> ('p, 'o) path_consequence list \<Rightarrow> digest list \<Rightarrow>
   bool" where
  "result_sizes E plan durability paths backend \<longleftrightarrow> size_ok plan \<and> valid_profile durability \<and>
     list_all (consequence_sizes E) paths \<and> size_ok paths \<and> size_ok backend"

definition valid_evidence :: "('p, 'o) environment \<Rightarrow> ('p, 'o) completed_evidence \<Rightarrow> bool" where
  "valid_evidence E e \<longleftrightarrow> faithful_texts E \<and> evidence_identity e = hash E (evidence_record E e) \<and>
     result_sizes E (evidence_plan e) (evidence_durability e) (evidence_paths e) (evidence_backend e)"

definition valid_receipt :: "('p, 'o) environment \<Rightarrow> ('p, 'o) application_receipt \<Rightarrow> bool" where
  "valid_receipt E x \<longleftrightarrow> faithful_texts E \<and> terminal_identity x = hash E (receipt_record E x) \<and>
     result_sizes E (terminal_plan x) (terminal_durability x) (terminal_paths x) (terminal_backend x) \<and>
     pred_option (valid_evidence E) (terminal_completed x)"

lemma evidence_record_inject:
  assumes "valid_evidence E e" and "valid_evidence E f" and eq: "evidence_record E e = evidence_record E f"
  shows "e = f"
proof -
  have texts: "faithful_texts E" using assms(1) by (simp add: valid_evidence_def)
  note paths = wire_code.counted_code [OF path_code [OF texts]]
  have id: "evidence_identity e = evidence_identity f"
    using assms by (simp add: valid_evidence_def)
  show ?thesis using assms(1,2) eq
    by (intro completed_evidence.equality id)
      (simp_all add: valid_evidence_def result_sizes_def evidence_record_def append_paths_def
        append_backend_evidence_def wire_code.app_wire [OF paths] durability_code.app_wire record_defs
        wire_simps wire_code.wire_iff [OF paths] durability_code.wire_iff)
qed

interpretation evidence_scheme:
  identity_scheme "hash E" "evidence_record E" evidence_identity "valid_evidence E" for E
  by unfold_locales (simp add: valid_evidence_def, rule evidence_record_inject)

lemma receipt_record_inject:
  assumes "valid_receipt E x" and "valid_receipt E y" and eq: "receipt_record E x = receipt_record E y"
  shows "x\<lparr>terminal_completed := None\<rparr> = y\<lparr>terminal_completed := None\<rparr> \<and>
    map_option evidence_identity (terminal_completed x) = map_option evidence_identity (terminal_completed y)"
proof -
  have texts: "faithful_texts E" using assms(1) by (simp add: valid_receipt_def)
  note paths = wire_code.counted_code [OF path_code [OF texts]]
  have id: "terminal_identity x = terminal_identity y"
    using assms by (simp add: valid_receipt_def)
  have "terminal_kind x = terminal_kind y \<and> terminal_request x = terminal_request y \<and>
      terminal_plan x = terminal_plan y \<and> terminal_attempt x = terminal_attempt y \<and>
      terminal_target x = terminal_target y \<and> terminal_control x = terminal_control y \<and>
      terminal_projection x = terminal_projection y \<and> terminal_outcome x = terminal_outcome y \<and>
      terminal_recovery x = terminal_recovery y \<and> terminal_durability x = terminal_durability y \<and>
      terminal_paths x = terminal_paths y \<and> terminal_journal x = terminal_journal y \<and>
      map_option evidence_identity (terminal_completed x) = map_option evidence_identity (terminal_completed y) \<and>
      terminal_backend x = terminal_backend y"
    using assms(1,2) eq
    by (simp add: valid_receipt_def result_sizes_def receipt_record_def append_paths_def
        append_backend_evidence_def wire_code.app_wire [OF paths] durability_code.app_wire record_defs
        wire_simps wire_code.wire_iff [OF paths] durability_code.wire_iff)
  with id show ?thesis by simp
qed

text \<open>
  C32: a receipt's identity stands for the whole terminal result: two valid receipts of equal
  identity agree in outcome, recovery state, durability, consequences and completed evidence, unless
  SHA-256 collides on the two receipt records or on the two evidence records.
\<close>

theorem receipt_identity_binds:
  assumes "valid_receipt E x" and "valid_receipt E y" and "terminal_identity x = terminal_identity y"
    and "hash E (receipt_record E x) = hash E (receipt_record E y) \<longrightarrow> receipt_record E x = receipt_record E y"
    and "\<And>e f. terminal_completed x = Some e \<Longrightarrow> terminal_completed y = Some f \<Longrightarrow>
      hash E (evidence_record E e) = hash E (evidence_record E f) \<Longrightarrow> evidence_record E e = evidence_record E f"
  shows "x = y"
proof -
  have "receipt_record E x = receipt_record E y"
    using assms(1-4) by (simp add: valid_receipt_def)
  from receipt_record_inject [OF assms(1,2) this]
  have same: "x\<lparr>terminal_completed := None\<rparr> = y\<lparr>terminal_completed := None\<rparr>"
    and ids: "map_option evidence_identity (terminal_completed x) =
      map_option evidence_identity (terminal_completed y)" by blast+
  have "terminal_completed x = terminal_completed y"
  proof (cases "terminal_completed x"; cases "terminal_completed y")
    fix e f assume some: "terminal_completed x = Some e" "terminal_completed y = Some f"
    have valid: "valid_evidence E e" "valid_evidence E f"
      using assms(1,2) some by (simp_all add: valid_receipt_def)
    have "e = f"
      using evidence_scheme.same_identity [OF valid] assms(5) [OF some] ids some by simp
    with some show ?thesis by simp
  qed (use ids in auto)
  with same show ?thesis
    by (metis application_receipt.surjective application_receipt.update_convs(14))
qed

lemma sample_texts: "faithful_texts sample_paths"
  by (simp add: faithful_texts_def sample_paths_def inj_def)

lemma sample_failed_valid:
  assumes "distinct backend" and "size_ok backend"
  shows "\<exists>x. failed_receipt sample_paths sample_removal_request 1 2 Precondition_refused
      Recovery_unchanged sample_profile [sample_refused] None backend = Inr x \<and>
    valid_receipt sample_paths x \<and> terminal_backend x = sort backend"
proof -
  obtain x where x: "failed_receipt sample_paths sample_removal_request 1 2 Precondition_refused
      Recovery_unchanged sample_profile [sample_refused] None backend = Inr x"
    using failed_receipt_exact [OF sample_result_valid(1), of sample_paths 1 2 Precondition_refused
        Recovery_unchanged sample_profile "[sample_refused]" None backend] assms
    by (auto simp: sample_removal_request_def sample_plan_def failed_path_allowed_def plan_matches_def
        matches_removal_decision_def sample_refused_def sample_removed_def)
  have "consequence_sizes sample_paths sample_refused"
    by (simp add: consequence_sizes_def owners_ok_def observation_sizes_def observation_wf_def
        object_sizes_def sample_refused_def sample_removed_def sample_paths_def)
  then have "valid_receipt sample_paths x"
    using x [unfolded failed_receipt_Inr [OF sample_result_valid(1)]] assms(2) sample_texts
    by (auto simp: valid_receipt_def result_sizes_def sample_result_valid sample_removal_request_def
        sample_plan_def)
  with x show ?thesis
    by (auto simp: failed_receipt_Inr [OF sample_result_valid(1)])
qed

theorem receipt_identity_binds_witness:
  "\<exists>x y. failed_receipt sample_paths sample_removal_request 1 2 Precondition_refused
        Recovery_unchanged sample_profile [sample_refused] None [5, 3] = Inr x \<and>
     failed_receipt sample_paths sample_removal_request 1 2 Precondition_refused
        Recovery_unchanged sample_profile [sample_refused] None [3, 5] = Inr y \<and> x = y"
proof -
  obtain x y where x: "failed_receipt sample_paths sample_removal_request 1 2 Precondition_refused
        Recovery_unchanged sample_profile [sample_refused] None [5, 3] = Inr x" "valid_receipt sample_paths x"
    and y: "failed_receipt sample_paths sample_removal_request 1 2 Precondition_refused
        Recovery_unchanged sample_profile [sample_refused] None [3, 5] = Inr y" "valid_receipt sample_paths y"
    using sample_failed_valid [of "[5, 3]"] sample_failed_valid [of "[3, 5]"] by auto
  note fields = x(1) [unfolded failed_receipt_Inr [OF sample_result_valid(1)]]
    y(1) [unfolded failed_receipt_Inr [OF sample_result_valid(1)]]
  have same: "receipt_record sample_paths x = receipt_record sample_paths y"
    using fields by (simp add: receipt_record_def)
  have "x = y"
    using fields same by (intro receipt_identity_binds [OF x(2) y(2)]) simp_all
  with x y show ?thesis by blast
qed

end
