(* ===== verification/Replay.thy ===== *)
theory Replay
  imports Codec Result
begin

text \<open>
  Replay facts (\<open>replay_fact.h\<close>, \<open>replay_fact.cpp\<close>): the observations admitted at the start of an
  attempt and the result of every effect, as they are kept in the journal for a restart.  The
  writers and readers follow the source; the round trip theorems show that a restart reads back
  exactly the facts the engine recorded.
\<close>

section \<open>Values\<close>

definition maximum_item_count :: u64 where "maximum_item_count = 1000000"
definition maximum_text_size :: u64 where "maximum_text_size = 268435456"
definition maximum_replay_size :: nat where "maximum_replay_size = 268435456"

text \<open>Signed integers travel as a sign byte and a magnitude.\<close>

definition append_i64 :: "bytes \<Rightarrow> u64 \<Rightarrow> bytes" where
  "append_i64 r v =
     append_u64 (append_u8 r (if sint v < 0 then 1 else 0))
       (if sint v < 0 then word_of_int (- (sint v + 1)) + 1 else v)"

definition read_i64 :: "u64 reader" where
  "read_i64 = reader_bind read_u8 (\<lambda>sign.
     if sign > 1 then reader_fail Invalid_value
     else reader_bind read_u64 (\<lambda>magnitude.
       let maximum = 2 ^ 63 - 1 in
       if sign = 0
       then (if magnitude > maximum then reader_fail Invalid_value else reader_return magnitude)
       else if magnitude > maximum + 1 then reader_fail Invalid_value
       else if magnitude = maximum + 1 then reader_return (2 ^ 63)
       else reader_return (- magnitude)))"

definition replay_append_evidence :: "bytes \<Rightarrow> digest list \<Rightarrow> bytes" where
  "replay_append_evidence r evidence = append_counted append_identity r evidence"

definition replay_read_evidence :: "digest list reader" where
  "replay_read_evidence = reader_bind (read_count maximum_item_count) (read_many read_identity)"

fun encode_outcome :: "operation_outcome \<Rightarrow> u8" where
  "encode_outcome Outcome_completed = 1"
| "encode_outcome Outcome_conditional_retained = 2"
| "encode_outcome Outcome_failed = 3"
| "encode_outcome Outcome_indeterminate = 4"

definition read_outcome :: "operation_outcome reader" where
  "read_outcome = read_enum encode_outcome
     [Outcome_completed, Outcome_conditional_retained, Outcome_failed, Outcome_indeterminate]"

definition replay_append_result :: "bytes \<Rightarrow> operation_result \<Rightarrow> bytes" where
  "replay_append_result r v =
     replay_append_evidence (append_u8 r (encode_outcome (operation_outcome v))) (operation_evidence v)"

definition replay_read_result :: "operation_result reader" where
  "replay_read_result = reader_bind read_outcome (\<lambda>outcome.
     reader_bind replay_read_evidence (\<lambda>evidence.
     reader_lift (make_operation_result outcome evidence)))"

definition replay_append_timestamp :: "bytes \<Rightarrow> completed_object_timestamp \<Rightarrow> bytes" where
  "replay_append_timestamp r t = append_u32 (append_i64 r (timestamp_seconds t)) (timestamp_nanoseconds t)"

definition replay_read_timestamp :: "completed_object_timestamp reader" where
  "replay_read_timestamp = reader_bind read_i64 (\<lambda>seconds. reader_bind read_u32 (\<lambda>nanoseconds.
     reader_return \<lparr>timestamp_seconds = seconds, timestamp_nanoseconds = nanoseconds\<rparr>))"

definition read_device :: "completed_device_number reader" where
  "read_device = reader_bind read_u64 (\<lambda>major. reader_bind read_u64 (\<lambda>minor.
     reader_return \<lparr>device_major = major, device_minor = minor\<rparr>))"

definition replay_append_object :: "('p, 'o) environment \<Rightarrow> bytes \<Rightarrow> 'p completed_object_fact \<Rightarrow> bytes" where
  "replay_append_object E r obj =
     (let r = append_path_text E r (object_path obj);
          r = append_u8 r (object_kind_tag (object_kind obj));
          r = append_fact append_u32 r (object_mode obj);
          r = append_fact append_u64 r (object_uid obj);
          r = append_fact append_u64 r (object_gid obj);
          r = append_fact append_u64 r (object_size obj);
          r = append_fact replay_append_timestamp r (object_mtime obj);
          r = append_fact append_identity r (object_content obj);
          r = append_fact append_bytes r (object_symlink_target obj);
          r = append_fact append_device r (object_device obj);
          r = append_fact (append_path_text E) r (object_hardlink obj);
          r = append_u8 r (provenance_tag (object_provenance obj)) in
      append_u8 r (completeness_tag (object_completeness obj)))"

definition all_object_kinds :: "completed_object_kind list" where
  "all_object_kinds = [Object_regular, Object_directory, Object_symlink, Object_fifo,
     Object_character_device, Object_block_device, Object_socket, Object_other]"

definition all_provenances :: "object_fact_provenance list" where
  "all_provenances = [Incoming_image, Planning_observation, Application_observation,
     Recovery_capture, Rejected_capture]"

definition replay_read_object :: "('p, 'o) environment \<Rightarrow> 'p completed_object_fact reader" where
  "replay_read_object E =
     reader_bind (read_path E maximum_text_size) (\<lambda>path.
     reader_bind (read_enum object_kind_tag all_object_kinds) (\<lambda>kind.
     reader_bind (read_fact read_u32) (\<lambda>mode.
     reader_bind (read_fact read_u64) (\<lambda>uid.
     reader_bind (read_fact read_u64) (\<lambda>gid.
     reader_bind (read_fact read_u64) (\<lambda>size.
     reader_bind (read_fact replay_read_timestamp) (\<lambda>mtime.
     reader_bind (read_fact read_identity) (\<lambda>regular.
     reader_bind (read_fact (read_string maximum_text_size)) (\<lambda>symlink.
     reader_bind (read_fact read_device) (\<lambda>device.
     reader_bind (read_fact (read_path E maximum_text_size)) (\<lambda>hardlink.
     reader_bind (read_enum provenance_tag all_provenances) (\<lambda>provenance.
     reader_bind (read_enum completeness_tag [Fact_complete, Fact_partial]) (\<lambda>completeness.
     reader_lift (make_object_fact
       \<lparr>object_path = path, object_kind = kind, object_mode = mode, object_uid = uid,
        object_gid = gid, object_size = size, object_mtime = mtime, object_content = regular,
        object_symlink_target = symlink, object_device = device, object_hardlink = hardlink,
        object_provenance = provenance, object_completeness = completeness\<rparr>))))))))))))))"

definition replay_append_observation :: "('p, 'o) environment \<Rightarrow> bytes \<Rightarrow> 'p path_observation \<Rightarrow> bytes" where
  "replay_append_observation E r ob =
     (let r = append_path_text E r (observation_path ob);
          r = append_u8 r (fact_state_tag (observation_state ob)) in
      if observation_state ob = State_known
      then replay_append_object E r (the (observation_object ob)) else r)"

definition replay_read_observation :: "('p, 'o) environment \<Rightarrow> 'p path_observation reader" where
  "replay_read_observation E =
     reader_bind (read_path E maximum_text_size) (\<lambda>path.
     reader_bind read_u8 (\<lambda>state.
     if state = 1
     then reader_bind (replay_read_object E) (\<lambda>obj.
       if object_path obj \<noteq> path then reader_fail Invalid_value
       else reader_lift (observation_present obj))
     else if state = 2 then reader_lift (observation_unknown path)
     else if state = 3 then reader_lift (observation_absent path)
     else reader_fail Invalid_value))"

definition replay_append_batch :: "('p, 'o) environment \<Rightarrow> bytes \<Rightarrow> 'p observation_batch \<Rightarrow> bytes" where
  "replay_append_batch E r batch =
     (let r = append_counted (append_path_text E) r (batch_requested batch);
          r = append_counted (replay_append_observation E) r (batch_observations batch) in
      replay_append_evidence r (batch_evidence batch))"

definition replay_read_batch :: "('p::linorder, 'o) environment \<Rightarrow> 'p observation_batch reader" where
  "replay_read_batch E =
     reader_bind (reader_bind (read_count maximum_item_count)
       (read_many (read_path E maximum_text_size))) (\<lambda>requested.
     reader_bind (reader_bind (read_count maximum_item_count)
       (read_many (replay_read_observation E))) (\<lambda>observations.
     reader_bind replay_read_evidence (\<lambda>evidence.
     reader_lift (make_batch requested observations evidence))))"

definition all_statuses :: "durability_status list" where
  "all_statuses = [Durability_not_attempted, Durability_visible, Durability_confirmed,
     Durability_unconfirmed, Durability_indeterminate]"

definition read_durability_fact :: "durability_fact reader" where
  "read_durability_fact = reader_bind read_u8 (\<lambda>domain. reader_bind read_u8 (\<lambda>status.
     case (find (\<lambda>d. durability_domain_tag d = domain) all_domains,
           find (\<lambda>st. durability_status_tag st = status) all_statuses) of
       (Some d, Some st) \<Rightarrow> reader_return \<lparr>fact_domain = d, fact_status = st\<rparr>
     | _ \<Rightarrow> reader_fail Invalid_value))"

definition replay_append_durability :: "bytes \<Rightarrow> durability_profile \<Rightarrow> bytes" where
  "replay_append_durability r p = append_counted append_durability_fact r (profile_facts p)"

definition replay_read_durability :: "durability_profile reader" where
  "replay_read_durability =
     reader_bind (reader_bind (read_count maximum_item_count) (read_many read_durability_fact)) (\<lambda>facts.
     reader_lift (make_profile facts))"

section \<open>Completed evidence\<close>

definition append_path_dynamic :: "('p, 'o) environment \<Rightarrow> bytes \<Rightarrow> ('p, 'o) path_consequence \<Rightarrow> bytes" where
  "append_path_dynamic E r c =
     (let r = append_path_text E r (consequence_path c);
          r = append_u8 r (effect_status_tag (active_status c));
          r = append_u8 r (effect_status_tag (rejected_status c));
          r = replay_append_observation E r (consequence_before c);
          r = replay_append_observation E r (consequence_after c);
          r = append_optional append_identity r (rejected_object c) in
      append_u8 r (publication_tag (publication c)))"

definition all_effect_statuses :: "effect_status list" where
  "all_effect_statuses = [Not_attempted, Effect_completed, Conditional_retained, Effect_failed,
     Effect_indeterminate]"

definition all_publications :: "publication_status list" where
  "all_publications = [Ineligible, Eligible]"

text \<open>\<open>decision_role\<close> and \<open>decision_entry\<close> of the source: a removal decision has a fixed role.\<close>

definition replay_role :: "('p, 'o) path_decision \<Rightarrow> path_role" where
  "replay_role d = (case decision_role d of None \<Rightarrow> Installed_owned_path | Some role \<Rightarrow> application_role role)"

definition replay_entry :: "('p, 'o) path_decision \<Rightarrow> entry_id option" where
  "replay_entry d = (case decision_role d of None \<Rightarrow> None | Some role \<Rightarrow> decision_entry d)"

definition read_path_dynamic ::
  "('p, 'o) environment \<Rightarrow> ('p, 'o) path_decision \<Rightarrow> ('p, 'o) path_consequence reader" where
  "read_path_dynamic E d =
     reader_bind (read_path E maximum_text_size) (\<lambda>path.
     if path \<noteq> decision_path d then reader_fail Request_mismatch
     else
       reader_bind read_u8 (\<lambda>active.
       reader_bind read_u8 (\<lambda>rejected.
       reader_bind (replay_read_observation E) (\<lambda>prior.
       reader_bind (replay_read_observation E) (\<lambda>after.
       reader_bind (read_optional read_identity) (\<lambda>record.
       reader_bind read_u8 (\<lambda>publish.
       case (find (\<lambda>x. effect_status_tag x = active) all_effect_statuses,
             find (\<lambda>x. effect_status_tag x = rejected) all_effect_statuses,
             find (\<lambda>x. publication_tag x = publish) all_publications) of
         (Some a, Some j, Some p) \<Rightarrow> reader_lift (make_consequence
           \<lparr>consequence_path = path, consequence_role = replay_role d,
            requested_active = decision_active d, requested_rejected = decision_rejected d,
            consequence_entry = replay_entry d, consequence_ownership = decision_ownership d,
            active_status = a, rejected_status = j, consequence_before = prior,
            consequence_after = after, rejected_object = record, publication = p\<rparr>)
       | _ \<Rightarrow> reader_fail Invalid_value)))))))"

fun read_paths_dynamic ::
  "('p, 'o) environment \<Rightarrow> ('p, 'o) path_decision list \<Rightarrow> ('p, 'o) path_consequence list reader" where
  "read_paths_dynamic E [] = reader_return []"
| "read_paths_dynamic E (d # ds) = reader_bind (read_path_dynamic E d) (\<lambda>c.
     reader_bind (read_paths_dynamic E ds) (\<lambda>cs. reader_return (c # cs)))"

definition append_completed_evidence ::
  "('p, 'o) environment \<Rightarrow> bytes \<Rightarrow> ('p, 'o) completed_evidence \<Rightarrow> bytes" where
  "append_completed_evidence E r e =
     (let r = append_identity r (evidence_identity e);
          r = append_identity r (evidence_attempt e);
          r = append_identity r (evidence_projection e);
          r = append_identity r (evidence_journal e);
          r = append_counted (append_path_dynamic E) r (evidence_paths e);
          r = replay_append_durability r (evidence_durability e) in
      replay_append_evidence r (evidence_backend e))"

definition read_completed_evidence ::
  "('p::linorder, 'o) environment \<Rightarrow> ('p, 'o) application_request \<Rightarrow> ('p, 'o) completed_evidence reader" where
  "read_completed_evidence E request =
     reader_bind read_identity (\<lambda>expected.
     reader_bind read_identity (\<lambda>attempt.
     reader_bind read_identity (\<lambda>state.
     reader_bind read_identity (\<lambda>journal.
     reader_bind (read_count maximum_item_count) (\<lambda>path_count.
     let decisions = plan_paths (request_plan request) in
     if path_count \<noteq> length decisions then reader_fail Request_mismatch
     else
       reader_bind (read_paths_dynamic E decisions) (\<lambda>paths.
       reader_bind replay_read_durability (\<lambda>durability.
       reader_bind replay_read_evidence (\<lambda>evidence.
       reader_bind (reader_lift (completed_application_evidence E request attempt state journal paths
         durability evidence)) (\<lambda>result.
       if evidence_identity result \<noteq> expected then reader_fail Identity_mismatch
       else reader_return result)))))))))"

section \<open>Seeds and facts\<close>

datatype ('p, 'o) replay_fact =
  Fact_payload operation_result
| Fact_capture "'p capture_result"
| Fact_rejected 'p publication_result
| Fact_active 'p operation_result
| Fact_recovery 'p operation_result
| Fact_synchronization durability_fact
| Fact_evidence "('p, 'o) completed_evidence"

datatype replay_tag =
  Tag_seed | Tag_payload | Tag_capture | Tag_rejected | Tag_active | Tag_recovery
| Tag_synchronization | Tag_evidence

fun replay_tag_code :: "replay_tag \<Rightarrow> u8" where
  "replay_tag_code Tag_seed = 1"
| "replay_tag_code Tag_payload = 2"
| "replay_tag_code Tag_capture = 3"
| "replay_tag_code Tag_rejected = 4"
| "replay_tag_code Tag_active = 5"
| "replay_tag_code Tag_recovery = 6"
| "replay_tag_code Tag_synchronization = 7"
| "replay_tag_code Tag_evidence = 8"

definition all_replay_tags :: "replay_tag list" where
  "all_replay_tags = [Tag_seed, Tag_payload, Tag_capture, Tag_rejected, Tag_active, Tag_recovery,
     Tag_synchronization, Tag_evidence]"

definition replay_magic :: bytes where
  "replay_magic = str_bytes ''ZLAPFAC'' @ [0]"

definition replay_writer :: "replay_tag \<Rightarrow> bytes" where
  "replay_writer tag = append_u8 (append_u16 (foldl append_u8 [] replay_magic) 1) (replay_tag_code tag)"

fun expect_magic :: "bytes \<Rightarrow> unit reader" where
  "expect_magic [] = reader_return ()"
| "expect_magic (m # ms) = reader_bind read_u8 (\<lambda>b.
     if b \<noteq> m then reader_fail Invalid_magic else expect_magic ms)"

definition replay_reader_header :: "replay_tag reader" where
  "replay_reader_header =
     reader_bind (expect_magic replay_magic) (\<lambda>_.
     reader_bind read_u16 (\<lambda>version.
     if version \<noteq> 1 then reader_fail Codec_unsupported_version
     else read_enum replay_tag_code all_replay_tags))"

text \<open>\<open>writer::finish\<close> and the constructor of the reader.\<close>

definition replay_finish :: "bytes \<Rightarrow> codec_error + bytes" where
  "replay_finish bs = (if length bs > maximum_replay_size then Inl (Codec_error Limit_exceeded) else Inr bs)"

definition replay_run :: "'a reader \<Rightarrow> bytes \<Rightarrow> codec_error + 'a" where
  "replay_run rd bs =
     (if length bs > maximum_replay_size then Inl (Codec_error Limit_exceeded)
      else rbind (rd bs) (\<lambda>(x, _). Inr x))"

definition encode_replay_seed :: "('p, 'o) environment \<Rightarrow> 'p observation_batch \<Rightarrow> codec_error + bytes" where
  "encode_replay_seed E batch = replay_finish (replay_append_batch E (replay_writer Tag_seed) batch)"

definition decode_replay_seed ::
  "('p::linorder, 'o) environment \<Rightarrow> bytes \<Rightarrow> codec_error + 'p observation_batch" where
  "decode_replay_seed E = replay_run (reader_bind replay_reader_header (\<lambda>tag.
     if tag \<noteq> Tag_seed then reader_fail Invalid_value
     else reader_bind (replay_read_batch E) (\<lambda>v. reader_bind require_end (\<lambda>_. reader_return v))))"

fun replay_append_fact :: "('p, 'o) environment \<Rightarrow> ('p, 'o) replay_fact \<Rightarrow> bytes" where
  "replay_append_fact E (Fact_payload v) = replay_append_result (replay_writer Tag_payload) v"
| "replay_append_fact E (Fact_capture v) =
     (let r = append_u8 (replay_writer Tag_capture) (encode_outcome (capture_outcome v));
          r = replay_append_observation E r (captured_observation v);
          r = append_bool r (exact_recovery_possible v) in
      replay_append_evidence r (capture_evidence v))"
| "replay_append_fact E (Fact_rejected path v) =
     (let r = append_path_text E (replay_writer Tag_rejected) path;
          r = append_u8 r (encode_outcome (publication_outcome v));
          r = append_optional append_identity r (publication_record v) in
      replay_append_evidence r (publication_evidence v))"
| "replay_append_fact E (Fact_active path v) =
     replay_append_result (append_path_text E (replay_writer Tag_active) path) v"
| "replay_append_fact E (Fact_recovery path v) =
     replay_append_result (append_path_text E (replay_writer Tag_recovery) path) v"
| "replay_append_fact E (Fact_synchronization f) =
     append_durability_fact (replay_writer Tag_synchronization) f"
| "replay_append_fact E (Fact_evidence e) =
     append_completed_evidence E (replay_writer Tag_evidence) e"

definition encode_replay_fact :: "('p, 'o) environment \<Rightarrow> ('p, 'o) replay_fact \<Rightarrow> codec_error + bytes" where
  "encode_replay_fact E f = replay_finish (replay_append_fact E f)"

definition read_replay_body ::
  "('p::linorder, 'o) environment \<Rightarrow> ('p, 'o) application_request \<Rightarrow> replay_tag \<Rightarrow> ('p, 'o) replay_fact reader" where
  "read_replay_body E request tag =
     (case tag of
        Tag_payload \<Rightarrow> reader_bind replay_read_result (\<lambda>v. reader_return (Fact_payload v))
      | Tag_capture \<Rightarrow>
          reader_bind read_outcome (\<lambda>outcome.
          reader_bind (replay_read_observation E) (\<lambda>ob.
          reader_bind read_bool (\<lambda>exact.
          reader_bind replay_read_evidence (\<lambda>evidence.
          reader_bind (reader_lift (make_capture_result outcome ob exact evidence)) (\<lambda>v.
          reader_return (Fact_capture v))))))
      | Tag_rejected \<Rightarrow>
          reader_bind (read_path E maximum_text_size) (\<lambda>path.
          reader_bind read_outcome (\<lambda>outcome.
          reader_bind (read_optional read_identity) (\<lambda>record.
          reader_bind replay_read_evidence (\<lambda>evidence.
          reader_bind (reader_lift (make_rejected_publication outcome record evidence)) (\<lambda>v.
          reader_return (Fact_rejected path v))))))
      | Tag_active \<Rightarrow>
          reader_bind (read_path E maximum_text_size) (\<lambda>path.
          reader_bind replay_read_result (\<lambda>v. reader_return (Fact_active path v)))
      | Tag_recovery \<Rightarrow>
          reader_bind (read_path E maximum_text_size) (\<lambda>path.
          reader_bind replay_read_result (\<lambda>v. reader_return (Fact_recovery path v)))
      | Tag_synchronization \<Rightarrow>
          reader_bind read_durability_fact (\<lambda>f. reader_return (Fact_synchronization f))
      | Tag_evidence \<Rightarrow>
          reader_bind (read_completed_evidence E request) (\<lambda>e. reader_return (Fact_evidence e))
      | Tag_seed \<Rightarrow> reader_fail Invalid_value)"

definition decode_replay_fact ::
  "('p::linorder, 'o) environment \<Rightarrow> ('p, 'o) application_request \<Rightarrow> bytes \<Rightarrow>
   codec_error + ('p, 'o) replay_fact" where
  "decode_replay_fact E request = replay_run (reader_bind replay_reader_header (\<lambda>tag.
     reader_bind (read_replay_body E request tag) (\<lambda>f.
     reader_bind require_end (\<lambda>_. reader_return f))))"

section \<open>Round trips\<close>

named_theorems reader_wire "what a reader returns on the bytes of its writer"

lemmas trip_reads = u8_trip.read_wire u16_trip.read_wire u32_trip.read_wire u64_trip.read_wire
  bool_trip.read_wire identity_trip.read_wire u8_trip.read_end u16_trip.read_end u32_trip.read_end
  u64_trip.read_end bool_trip.read_end identity_trip.read_end

declare trip_reads [reader_wire]

lemma find_tag: "inj tag \<Longrightarrow> x \<in> set all \<Longrightarrow> find (\<lambda>y. tag y = tag x) all = Some x"
proof (induction all)
  case (Cons a all)
  then show ?case by (cases "x = a") (auto simp: inj_eq)
qed simp

lemma enum_read:
  assumes "inj tag" and "x \<in> set all"
  shows "read_enum tag all (wire append_u8 (tag x) @ s) = Inr (x, s)"
    and "read_enum tag all (wire append_u8 (tag x)) = Inr (x, [])"
  by (simp_all add: read_enum_def find_tag [OF assms] reader_wire)

lemma replay_tags_inject [simp]:
  shows "encode_outcome a = encode_outcome b \<longleftrightarrow> a = b"
    and "replay_tag_code c = replay_tag_code d \<longleftrightarrow> c = d"
  subgoal by (cases a; cases b) simp_all
  subgoal by (cases c; cases d) simp_all
  done

lemma all_enumerators:
  "k \<in> set all_object_kinds" "p \<in> set all_provenances" "c \<in> set [Fact_complete, Fact_partial]"
  "o' \<in> set [Outcome_completed, Outcome_conditional_retained, Outcome_failed, Outcome_indeterminate]"
  "t \<in> set all_replay_tags" "st \<in> set all_statuses" "es \<in> set all_effect_statuses"
  "pub \<in> set all_publications"
  subgoal by (cases k) (simp_all add: all_object_kinds_def)
  subgoal by (cases p) (simp_all add: all_provenances_def)
  subgoal by (cases c) simp_all
  subgoal by (cases o') simp_all
  subgoal by (cases t) (simp_all add: all_replay_tags_def)
  subgoal by (cases st) (simp_all add: all_statuses_def)
  subgoal by (cases es) (simp_all add: all_effect_statuses_def)
  subgoal by (cases pub) (simp_all add: all_publications_def)
  done

lemma tags_inj: "inj object_kind_tag" "inj provenance_tag" "inj completeness_tag" "inj encode_outcome"
  "inj replay_tag_code" "inj durability_status_tag" "inj effect_status_tag" "inj publication_tag"
  "inj durability_domain_tag"
  by (simp_all add: inj_def)

lemmas enum_reads = enum_read [OF tags_inj(1) all_enumerators(1)] enum_read [OF tags_inj(2) all_enumerators(2)]
  enum_read [OF tags_inj(3) all_enumerators(3)] enum_read [OF tags_inj(4) all_enumerators(4)]
  enum_read [OF tags_inj(5) all_enumerators(5)]

declare enum_reads [reader_wire]

lemma find_self: "x \<in> set all \<Longrightarrow> find (\<lambda>y. y = x) all = Some x"
  by (rule find_tag [of "\<lambda>x. x", simplified])

lemmas find_tags = find_self [OF all_enumerators(6)] find_self [OF all_enumerators(7)]
  find_self [OF all_enumerators(8)] find_self [OF all_domains_complete]

lemma read_outcome_wire [reader_wire]:
  "read_outcome (wire append_u8 (encode_outcome x) @ s) = Inr (x, s)"
  unfolding read_outcome_def by (rule enum_reads)

interpretation replay_evidence_trip: round_trip replay_append_evidence replay_read_evidence
  "\<lambda>xs. list_all (\<lambda>_. True) xs \<and> length xs \<le> unat maximum_item_count"
  unfolding replay_append_evidence_def [abs_def] replay_read_evidence_def
  by (rule identity_trip.counted_round_trip)

lemma i64_magnitude:
  "sint (v :: u64) < 0 \<Longrightarrow> word_of_int (- (sint v + 1)) + 1 = - v"
  by (simp add: of_int_sint)

interpretation i64_trip: round_trip append_i64 read_i64 "\<lambda>_. True"
proof
  show "append_i64 r v = r @ wire append_i64 v" for r v
    by (simp add: append_i64_def wire_def [of append_i64] record_defs)
  fix v :: u64 and s
  have range: "- (2 ^ 63) \<le> sint v" "sint v < 2 ^ 63"
    using sint_ge [of v] sint_lt [of v] by simp_all
  show "read_i64 (wire append_i64 v @ s) = Inr (v, s)"
  proof (cases "sint v < 0")
    case True
    have "uint (word_of_int (- sint v) :: u64) = - sint v"
      unfolding uint_word_of_int using True range by (intro mod_pos_pos_trivial) simp_all
    then have magnitude: "uint (- v) = - sint v" by (simp only: of_int_minus of_int_sint scast_id)
    then have "\<not> 9223372036854775808 < - v"
      using range magnitude by (simp add: word_less_def)
    moreover have "- v = 9223372036854775808 \<Longrightarrow> v = 9223372036854775808"
      using minus_equation_iff [of v 9223372036854775808] by simp
    ultimately show ?thesis
      using True by (auto simp: append_i64_def wire_def [of append_i64] record_defs reader_wire
          read_i64_def i64_magnitude Let_def)
  next
    case False
    then have "uint v = sint v"
      using range by (simp add: uint_sint take_bit_int_eq_self)
    then have "\<not> 9223372036854775807 < v"
      using range by (simp add: word_less_def)
    with False show ?thesis
      by (auto simp: append_i64_def wire_def [of append_i64] record_defs reader_wire
          read_i64_def Let_def)
  qed
qed

definition result_ok :: "operation_result \<Rightarrow> bool" where
  "result_ok v \<longleftrightarrow> make_operation_result (operation_outcome v) (operation_evidence v) = Inr v \<and>
     length (operation_evidence v) \<le> unat maximum_item_count"

interpretation result_trip: round_trip replay_append_result replay_read_result result_ok
proof
  show "replay_append_result r v = r @ wire replay_append_result v" for r v
    by (simp add: replay_append_result_def wire_def [of replay_append_result] record_defs
        replay_evidence_trip.app_wire)
  show "result_ok v \<Longrightarrow> replay_read_result (wire replay_append_result v @ s) = Inr (v, s)" for v s
    by (simp add: replay_append_result_def wire_def [of replay_append_result] record_defs
        replay_evidence_trip.app_wire replay_read_result_def reader_wire replay_evidence_trip.read_wire
        result_ok_def)
qed

interpretation replay_timestamp_trip: round_trip replay_append_timestamp replay_read_timestamp "\<lambda>_. True"
  by unfold_locales
    (simp_all add: replay_append_timestamp_def wire_def [of replay_append_timestamp] record_defs
      i64_trip.app_wire i64_trip.read_wire replay_read_timestamp_def reader_wire)

interpretation device_trip: round_trip append_device read_device "\<lambda>_. True"
  by unfold_locales
    (simp_all add: append_device_def wire_def [of append_device] record_defs read_device_def reader_wire)

definition object_ok :: "('p, 'o) environment \<Rightarrow> 'p completed_object_fact \<Rightarrow> bool" where
  "object_ok E obj \<longleftrightarrow> make_object_fact obj = Inr obj \<and>
     length (path_string E (object_path obj)) \<le> unat maximum_text_size \<and>
     fact_ok (\<lambda>t. length t \<le> unat maximum_text_size) (object_symlink_target obj) \<and>
     fact_ok (\<lambda>p. length (path_string E p) \<le> unat maximum_text_size) (object_hardlink obj)"

lemma object_round_trip:
  assumes "path_texts E"
  shows "round_trip (replay_append_object E) (replay_read_object E) (object_ok E)"
proof
  note ptext = path_round_trip [OF assms, of maximum_text_size]
  note facts = u32_trip.fact_round_trip u64_trip.fact_round_trip replay_timestamp_trip.fact_round_trip
    identity_trip.fact_round_trip round_trip.fact_round_trip [OF string_round_trip [of maximum_text_size]]
    device_trip.fact_round_trip round_trip.fact_round_trip [OF ptext]
  note chain = facts [THEN round_trip.append_wire] round_trip.append_wire [OF ptext] record_defs
  note reads = facts [THEN round_trip.read_wire] round_trip.read_wire [OF ptext] reader_wire
  show "replay_append_object E r obj = r @ wire (replay_append_object E) obj" for r obj
    by (simp add: replay_append_object_def wire_def [of "replay_append_object E"] chain)
  show "object_ok E obj \<Longrightarrow> replay_read_object E (wire (replay_append_object E) obj @ s) = Inr (obj, s)" for obj s
    by (cases obj) (simp add: replay_append_object_def wire_def [of "replay_append_object E"] chain
        object_ok_def replay_read_object_def reads)
qed

definition observation_ok :: "('p, 'o) environment \<Rightarrow> 'p path_observation \<Rightarrow> bool" where
  "observation_ok E ob \<longleftrightarrow> observation_wf ob \<and>
     length (path_string E (observation_path ob)) \<le> unat maximum_text_size \<and>
     pred_option (object_ok E) (observation_object ob)"

lemma observation_round_trip:
  assumes "path_texts E"
  shows "round_trip (replay_append_observation E) (replay_read_observation E) (observation_ok E)"
proof
  note ptext = path_round_trip [OF assms, of maximum_text_size]
  note obj = object_round_trip [OF assms]
  note chain = round_trip.append_wire [OF ptext] round_trip.append_wire [OF obj] record_defs
  note reads = round_trip.read_wire [OF ptext] round_trip.read_wire [OF obj] reader_wire
  show "replay_append_observation E r ob = r @ wire (replay_append_observation E) ob" for r ob
    by (simp add: replay_append_observation_def wire_def [of "replay_append_observation E"] chain Let_def)
  show "replay_read_observation E (wire (replay_append_observation E) ob @ s) = Inr (ob, s)"
    if "observation_ok E ob" for ob s
    using that
    by (cases "observation_state ob")
      (auto simp: replay_append_observation_def wire_def [of "replay_append_observation E"] chain
        observation_ok_def replay_read_observation_def reads observation_wf_def observation_factories
        intro!: path_observation.equality)
qed

lemma batch_round_trip:
  assumes "path_texts E"
  shows "round_trip (replay_append_batch E) (replay_read_batch E)
    (\<lambda>b. make_batch (batch_requested b) (batch_observations b) (batch_evidence b) = Inr b \<and>
       list_all (\<lambda>p. length (path_string E p) \<le> unat maximum_text_size) (batch_requested b) \<and>
       list_all (observation_ok E) (batch_observations b) \<and>
       length (batch_requested b) \<le> unat maximum_item_count \<and>
       length (batch_observations b) \<le> unat maximum_item_count \<and>
       length (batch_evidence b) \<le> unat maximum_item_count)"
proof
  note requested = round_trip.counted_round_trip [OF path_round_trip [OF assms, of maximum_text_size],
      of maximum_item_count]
  note obs = round_trip.counted_round_trip [OF observation_round_trip [OF assms], of maximum_item_count]
  show "replay_append_batch E r b = r @ wire (replay_append_batch E) b" for r b
    by (simp add: replay_append_batch_def wire_def [of "replay_append_batch E"]
        round_trip.append_wire [OF requested] round_trip.append_wire [OF obs]
        replay_evidence_trip.app_wire)
  fix b :: "'a observation_batch" and s
  assume ok: "make_batch (batch_requested b) (batch_observations b) (batch_evidence b) = Inr b \<and>
       list_all (\<lambda>p. length (path_string E p) \<le> unat maximum_text_size) (batch_requested b) \<and>
       list_all (observation_ok E) (batch_observations b) \<and>
       length (batch_requested b) \<le> unat maximum_item_count \<and>
       length (batch_observations b) \<le> unat maximum_item_count \<and>
       length (batch_evidence b) \<le> unat maximum_item_count"
  have w: "wire (replay_append_batch E) b = wire (append_counted (append_path_text E)) (batch_requested b) @
      wire (append_counted (replay_append_observation E)) (batch_observations b) @
      wire replay_append_evidence (batch_evidence b)"
    by (simp add: replay_append_batch_def wire_def [of "replay_append_batch E"]
        round_trip.append_wire [OF requested] round_trip.append_wire [OF obs]
        replay_evidence_trip.app_wire)
  show "replay_read_batch E (wire (replay_append_batch E) b @ s) = Inr (b, s)"
    using ok unfolding w replay_read_batch_def
    by (simp add: round_trip.read_wire [OF requested, unfolded reader_bind_def]
        round_trip.read_wire [OF obs, unfolded reader_bind_def] reader_bind_def
        replay_evidence_trip.read_wire)
qed

lemma all_domains_length: "length all_domains = 6"
  by (simp add: all_domains_def)

interpretation durability_fact_trip: round_trip append_durability_fact read_durability_fact "\<lambda>_. True"
  by unfold_locales
    (simp_all add: append_durability_fact_def wire_def [of append_durability_fact] record_defs
      read_durability_fact_def reader_wire find_tags)

lemma make_profile_facts:
  assumes "valid_profile p"
  shows "make_profile (profile_facts p) = Inr p"
proof -
  have tags: "map (\<lambda>f. durability_domain_tag (fact_domain f)) (profile_facts p) = [1, 2, 3, 4, 5, 6]"
  proof -
    have "map durability_domain_tag (map fact_domain (profile_facts p)) = [1, 2, 3, 4, 5, 6]"
      using assms by (simp only: valid_profile_def tags_all_domains)
    then show ?thesis by (simp only: map_map comp_def)
  qed
  then have "sorted (map (\<lambda>f. durability_domain_tag (fact_domain f)) (profile_facts p))" by simp
  then have "sort_key (\<lambda>f. durability_domain_tag (fact_domain f)) (profile_facts p) = profile_facts p"
    by (rule sort_key_id_if_sorted)
  moreover have "length (profile_facts p) = 6" using arg_cong [OF tags, of length] by simp
  moreover have "\<not> adjacent_equal (map fact_domain (profile_facts p))"
    using assms by (simp add: valid_profile_def all_domains_def)
  ultimately show ?thesis using tags by (simp add: make_profile_def Let_def)
qed

interpretation profile_trip: round_trip replay_append_durability replay_read_durability valid_profile
proof
  note facts = durability_fact_trip.counted_round_trip [of maximum_item_count]
  show "replay_append_durability r p = r @ wire replay_append_durability p" for r p
    by (simp add: replay_append_durability_def wire_def [of replay_append_durability]
        round_trip.append_wire [OF facts])
  fix p s assume valid: "valid_profile p"
  then have "length (profile_facts p) = 6"
    by (metis valid_profile_def all_domains_length length_map)
  then have "length (profile_facts p) \<le> unat maximum_item_count" by (simp add: maximum_item_count_def)
  with valid show "replay_read_durability (wire replay_append_durability p @ s) = Inr (p, s)"
    by (simp add: replay_append_durability_def wire_def [of replay_append_durability]
        round_trip.append_wire [OF facts] replay_read_durability_def reader_bind_def
        round_trip.read_wire [OF facts, unfolded reader_bind_def] make_profile_facts)
qed

text \<open>Only the decisions of installations and upgrades carry a role.\<close>

definition plan_typed :: "operation_kind \<Rightarrow> ('p, 'o) operation_plan \<Rightarrow> bool" where
  "plan_typed kind plan \<longleftrightarrow> (\<forall>d \<in> set (plan_paths plan). decision_role d = None \<longleftrightarrow> kind = Remove)"

definition consequence_ok :: "('p, 'o) environment \<Rightarrow> ('p, 'o) path_consequence \<Rightarrow> bool" where
  "consequence_ok E c \<longleftrightarrow> make_consequence c = Inr c \<and>
     length (path_string E (consequence_path c)) \<le> unat maximum_text_size \<and>
     observation_ok E (consequence_before c) \<and> observation_ok E (consequence_after c)"

lemma append_path_dynamic_wire:
  assumes "path_texts E"
  shows "append_path_dynamic E r c = r @ wire (append_path_dynamic E) c"
  by (simp add: append_path_dynamic_def wire_def [of "append_path_dynamic E"] record_defs
      round_trip.append_wire [OF path_round_trip [OF assms, of maximum_text_size]]
      round_trip.append_wire [OF observation_round_trip [OF assms]]
      round_trip.append_wire [OF identity_trip.optional_round_trip])

lemma read_path_dynamic_wire:
  assumes "path_texts E" and "consequence_ok E c" and "plan_matches kind c d"
    and "decision_role d = None \<longleftrightarrow> kind = Remove"
  shows "read_path_dynamic E d (wire (append_path_dynamic E) c @ s) = Inr (c, s)"
proof -
  note ptext = path_round_trip [OF assms(1), of maximum_text_size]
  note ob = observation_round_trip [OF assms(1)]
  note opt = identity_trip.optional_round_trip
  have "c = \<lparr>consequence_path = decision_path d, consequence_role = replay_role d,
            requested_active = decision_active d, requested_rejected = decision_rejected d,
            consequence_entry = replay_entry d, consequence_ownership = decision_ownership d,
            active_status = active_status c, rejected_status = rejected_status c,
            consequence_before = consequence_before c, consequence_after = consequence_after c,
            rejected_object = rejected_object c, publication = publication c\<rparr>" (is "c = ?c")
    using assms(3,4)
    by (intro path_consequence.equality)
      (auto simp: plan_matches_def matches_decision_def matches_removal_decision_def replay_role_def
        replay_entry_def split: operation_kind.splits option.splits)
  moreover have "make_consequence c = Inr c" using assms(2) by (simp add: consequence_ok_def)
  ultimately have made: "make_consequence ?c = Inr c" by simp
  show ?thesis
    using assms(2) plan_matches_path [OF assms(3)] made
    by (simp add: append_path_dynamic_def wire_def [of "append_path_dynamic E"] record_defs
        consequence_ok_def read_path_dynamic_def reader_wire find_tags
        round_trip.append_wire [OF ptext] round_trip.append_wire [OF ob] round_trip.append_wire [OF opt]
        round_trip.read_wire [OF ptext] round_trip.read_wire [OF ob] round_trip.read_wire [OF opt])
qed

lemma read_paths_dynamic_wire:
  assumes "path_texts E" and "list_all2 (plan_matches kind) cs ds" and "list_all (consequence_ok E) cs"
    and "\<forall>d \<in> set ds. decision_role d = None \<longleftrightarrow> kind = Remove"
  shows "read_paths_dynamic E ds (concat (map (wire (append_path_dynamic E)) cs) @ s) = Inr (cs, s)"
  using assms(2-4)
  by (induction rule: list_all2_induct) (simp_all add: read_path_dynamic_wire [OF assms(1)])

definition evidence_ok ::
  "('p::linorder, 'o) environment \<Rightarrow> ('p, 'o) application_request \<Rightarrow> ('p, 'o) completed_evidence \<Rightarrow> bool" where
  "evidence_ok E request e \<longleftrightarrow>
     completed_application_evidence E request (evidence_attempt e) (evidence_projection e)
       (evidence_journal e) (evidence_paths e) (evidence_durability e) (evidence_backend e) = Inr e \<and>
     valid_profile (evidence_durability e) \<and> list_all (consequence_ok E) (evidence_paths e) \<and>
     length (evidence_paths e) \<le> unat maximum_item_count \<and>
     length (evidence_backend e) \<le> unat maximum_item_count"

definition replayable :: "('p::linorder, 'o) environment \<Rightarrow> ('p, 'o) application_request \<Rightarrow> bool" where
  "replayable E request \<longleftrightarrow> path_texts E \<and> plan_ordered (request_plan request) \<and>
     plan_typed (request_kind request) (request_plan request)"

lemma evidence_ok_matches:
  assumes "plan_ordered (request_plan request)" and "evidence_ok E request e"
  shows "list_all2 (plan_matches (request_kind request)) (evidence_paths e) (plan_paths (request_plan request))"
  using assms completed_evidence_Inr [OF assms(1)] unfolding evidence_ok_def by metis

lemma append_completed_evidence_wire:
  assumes "path_texts E"
  shows "append_completed_evidence E r e = r @ wire append_identity (evidence_identity e) @
    wire append_identity (evidence_attempt e) @ wire append_identity (evidence_projection e) @
    wire append_identity (evidence_journal e) @
    wire append_u64 (word_of_nat (length (evidence_paths e))) @
    concat (map (wire (append_path_dynamic E)) (evidence_paths e)) @
    wire replay_append_durability (evidence_durability e) @
    wire replay_append_evidence (evidence_backend e)"
proof -
  have fold: "foldl (append_path_dynamic E) r cs = r @ concat (map (wire (append_path_dynamic E)) cs)" for r cs
    by (induction cs arbitrary: r) (simp_all add: append_path_dynamic_wire [OF assms])
  show ?thesis
    by (simp add: append_completed_evidence_def append_counted_def identity_trip.app_wire fold record_defs
        profile_trip.app_wire replay_evidence_trip.app_wire)
qed

lemma read_completed_evidence_wire:
  assumes "replayable E request" and "evidence_ok E request e"
  shows "read_completed_evidence E request (append_completed_evidence E [] e @ s) = Inr (e, s)"
proof -
  have texts: "path_texts E" and ordered: "plan_ordered (request_plan request)"
    and typed: "plan_typed (request_kind request) (request_plan request)"
    using assms(1) by (simp_all add: replayable_def)
  note matches = evidence_ok_matches [OF ordered assms(2)]
  note paths = read_paths_dynamic_wire [OF texts matches _ typed [unfolded plan_typed_def]]
  have count: "unat (word_of_nat (length (evidence_paths e)) :: u64) = length (evidence_paths e)"
    "word_of_nat (length (evidence_paths e)) \<le> maximum_item_count"
    using assms(2) unsigned_less [of maximum_item_count, where 'a = nat]
    by (simp_all add: evidence_ok_def unat_of_nat word_le_nat_alt)
  show ?thesis
    using assms(2) list_all2_lengthD [OF matches] count
    unfolding append_completed_evidence_wire [OF texts]
    by (simp add: read_completed_evidence_def reader_wire read_count_def not_less paths Let_def
        profile_trip.read_wire replay_evidence_trip.read_wire evidence_ok_def)
qed

text \<open>What the engine records: results built by the backend's constructors, within the limits.\<close>

fun replay_ok ::
  "('p::linorder, 'o) environment \<Rightarrow> ('p, 'o) application_request \<Rightarrow> ('p, 'o) replay_fact \<Rightarrow> bool" where
  "replay_ok E request (Fact_payload v) \<longleftrightarrow> result_ok v"
| "replay_ok E request (Fact_capture v) \<longleftrightarrow>
     make_capture_result (capture_outcome v) (captured_observation v) (exact_recovery_possible v)
       (capture_evidence v) = Inr v \<and>
     observation_ok E (captured_observation v) \<and> length (capture_evidence v) \<le> unat maximum_item_count"
| "replay_ok E request (Fact_rejected path v) \<longleftrightarrow>
     make_rejected_publication (publication_outcome v) (publication_record v) (publication_evidence v) = Inr v \<and>
     length (path_string E path) \<le> unat maximum_text_size \<and>
     length (publication_evidence v) \<le> unat maximum_item_count"
| "replay_ok E request (Fact_active path v) \<longleftrightarrow>
     result_ok v \<and> length (path_string E path) \<le> unat maximum_text_size"
| "replay_ok E request (Fact_recovery path v) \<longleftrightarrow>
     result_ok v \<and> length (path_string E path) \<le> unat maximum_text_size"
| "replay_ok E request (Fact_synchronization f) \<longleftrightarrow> True"
| "replay_ok E request (Fact_evidence e) \<longleftrightarrow> evidence_ok E request e"

fun fact_tag :: "('p, 'o) replay_fact \<Rightarrow> replay_tag" where
  "fact_tag (Fact_payload v) = Tag_payload"
| "fact_tag (Fact_capture v) = Tag_capture"
| "fact_tag (Fact_rejected path v) = Tag_rejected"
| "fact_tag (Fact_active path v) = Tag_active"
| "fact_tag (Fact_recovery path v) = Tag_recovery"
| "fact_tag (Fact_synchronization f) = Tag_synchronization"
| "fact_tag (Fact_evidence e) = Tag_evidence"

lemma expect_magic_prefix: "expect_magic ms (ms @ s) = Inr ((), s)"
proof (induction ms)
  case (Cons m ms)
  have "read_u8 (m # ms @ s) = Inr (m, ms @ s)"
    by (simp add: read_u8_def read_word_def be_value_def)
  with Cons show ?case by simp
qed simp

lemma replay_header_wire: "replay_reader_header (replay_writer tag @ s) = Inr (tag, s)"
proof -
  have fold: "foldl append_u8 r ms = r @ ms" for r ms
    by (induction ms arbitrary: r) (simp_all add: append_u8_def)
  have "replay_writer tag @ s = replay_magic @ wire append_u16 1 @ wire append_u8 (replay_tag_code tag) @ s"
    by (simp add: replay_writer_def fold record_defs)
  then show ?thesis
    by (simp add: replay_reader_header_def expect_magic_prefix reader_wire)
qed

lemma read_replay_body_wire:
  assumes "replayable E request" and "replay_ok E request f"
  obtains body where "replay_append_fact E f = replay_writer (fact_tag f) @ body"
    and "\<And>s. read_replay_body E request (fact_tag f) (body @ s) = Inr (f, s)"
proof -
  have texts: "path_texts E" using assms(1) by (simp add: replayable_def)
  note ptext = path_round_trip [OF texts, of maximum_text_size]
  note ob = observation_round_trip [OF texts]
  note opt = identity_trip.optional_round_trip
  note chain = round_trip.append_wire [OF ptext] round_trip.append_wire [OF ob]
    round_trip.append_wire [OF opt] result_trip.app_wire replay_evidence_trip.app_wire
    durability_fact_trip.append_wire record_defs
  note reads = round_trip.read_wire [OF ptext] round_trip.read_wire [OF ob]
    round_trip.read_wire [OF opt] result_trip.read_wire replay_evidence_trip.read_wire
    durability_fact_trip.read_wire reader_wire
  have "\<exists>body. replay_append_fact E f = replay_writer (fact_tag f) @ body \<and>
      (\<forall>s. read_replay_body E request (fact_tag f) (body @ s) = Inr (f, s))"
  proof (cases f)
    case (Fact_evidence e)
    have "append_completed_evidence E (replay_writer Tag_evidence) e =
        replay_writer Tag_evidence @ append_completed_evidence E [] e"
      by (simp add: append_completed_evidence_wire [OF texts])
    with Fact_evidence assms read_completed_evidence_wire [OF assms(1)] show ?thesis
      by (auto simp: read_replay_body_def)
  qed (use assms(2) in \<open>simp_all add: read_replay_body_def chain reads\<close>)
  with that show thesis by blast
qed

lemma decode_written_fact:
  assumes "replayable E request" and "replay_ok E request f"
    and "length (replay_append_fact E f) \<le> maximum_replay_size"
  shows "decode_replay_fact E request (replay_append_fact E f) = Inr f"
proof -
  obtain body where app: "replay_append_fact E f = replay_writer (fact_tag f) @ body"
    and body: "\<And>s. read_replay_body E request (fact_tag f) (body @ s) = Inr (f, s)"
    by (rule read_replay_body_wire [OF assms(1,2)]) blast
  show ?thesis
    using assms(3) body [of "[]"]
    by (simp add: decode_replay_fact_def replay_run_def app replay_header_wire require_end_def)
qed

text \<open>
  C33: a restart reads back what the engine recorded: every replay fact that fits the encoding limits
  is encoded, and decoding the bytes for the same request returns exactly that fact.
\<close>

theorem replay_fact_round_trip:
  assumes "replayable E request" and "replay_ok E request f"
    and "length (replay_append_fact E f) \<le> maximum_replay_size"
  shows "\<exists>bs. encode_replay_fact E f = Inr bs \<and> decode_replay_fact E request bs = Inr f"
  using decode_written_fact [OF assms] assms(3)
  by (simp add: encode_replay_fact_def replay_finish_def)

definition batch_fits :: "('p::linorder, 'o) environment \<Rightarrow> 'p observation_batch \<Rightarrow> bool" where
  "batch_fits E b \<longleftrightarrow>
     make_batch (batch_requested b) (batch_observations b) (batch_evidence b) = Inr b \<and>
     list_all (\<lambda>p. length (path_string E p) \<le> unat maximum_text_size) (batch_requested b) \<and>
     list_all (observation_ok E) (batch_observations b) \<and>
     length (batch_requested b) \<le> unat maximum_item_count \<and>
     length (batch_observations b) \<le> unat maximum_item_count \<and>
     length (batch_evidence b) \<le> unat maximum_item_count"

lemma decode_written_seed:
  assumes "path_texts E" and "batch_fits E b"
    and "length (replay_append_batch E (replay_writer Tag_seed) b) \<le> maximum_replay_size"
  shows "decode_replay_seed E (replay_append_batch E (replay_writer Tag_seed) b) = Inr b"
proof -
  note trip = batch_round_trip [OF assms(1)]
  have app: "replay_append_batch E (replay_writer Tag_seed) b =
      replay_writer Tag_seed @ wire (replay_append_batch E) b"
    by (rule round_trip.append_wire [OF trip])
  have "replay_read_batch E (wire (replay_append_batch E) b) = Inr (b, [])"
    by (rule round_trip.read_end [OF trip]) (use assms(2) in \<open>simp add: batch_fits_def\<close>)
  then show ?thesis
    using assms(3) by (simp add: decode_replay_seed_def replay_run_def app replay_header_wire require_end_def)
qed

text \<open>
  C34: the admitted observations survive a restart: the replay seed of every batch within the limits
  is encoded, and decoding it returns the batch.
\<close>

theorem replay_seed_round_trip:
  assumes "path_texts E" and "batch_fits E b"
    and "length (replay_append_batch E (replay_writer Tag_seed) b) \<le> maximum_replay_size"
  shows "\<exists>bs. encode_replay_seed E b = Inr bs \<and> decode_replay_seed E bs = Inr b"
  using decode_written_seed [OF assms] assms(3)
  by (simp add: encode_replay_seed_def replay_finish_def)

lemma sample_replayable: "replayable sample_paths sample_removal_request"
  using sample_result_valid(1)
  by (simp add: replayable_def path_texts_def sample_paths_def plan_typed_def sample_removal_request_def
      sample_plan_def)

lemma sample_observations_ok:
  "observation_ok sample_paths (consequence_before sample_removed)"
  "observation_ok sample_paths (consequence_after sample_removed)"
  by (simp_all add: observation_ok_def observation_wf_def object_ok_def make_object_fact_def
      validate_kind_fields_def sample_removed_def sample_paths_def maximum_text_size_def)

lemma append_lengths:
  "length (append_u8 r a) = length r + 1" "length (append_u16 r b) = length r + 2"
  "length (append_u32 r c) = length r + 4" "length (append_u64 r d) = length r + 8"
  "length (append_bool r e) = length r + 1" "length (append_bytes r f) = length r + 8 + length f"
  "length (append_identity r g) = length r + 82" "length (append_durability_fact r h) = length r + 2"
  by (simp_all add: append_u8_def append_u16_def append_u32_def append_u64_def append_bool_def
      append_bytes_def append_identity_def append_durability_fact_def)

lemma sample_replay_header: "length (replay_writer tag) = 11"
proof -
  have "length (foldl append_u8 r ms) = length r + length ms" for r ms
    by (induction ms arbitrary: r) (simp_all add: append_u8_def)
  then show ?thesis by (simp add: replay_writer_def append_lengths replay_magic_def)
qed

theorem replay_fact_round_trip_witness:
  "\<exists>bs. encode_replay_fact sample_paths (Fact_capture \<lparr>capture_outcome = Outcome_completed,
        captured_observation = consequence_before sample_removed, exact_recovery_possible = True,
        capture_evidence = [3, 5]\<rparr>) = Inr bs \<and>
     decode_replay_fact sample_paths sample_removal_request bs = Inr (Fact_capture
       \<lparr>capture_outcome = Outcome_completed, captured_observation = consequence_before sample_removed,
        exact_recovery_possible = True, capture_evidence = [3, 5]\<rparr>)"
proof (rule replay_fact_round_trip [OF sample_replayable])
  have known: "observation_state (consequence_before sample_removed) = State_known"
    by (simp add: sample_removed_def)
  then show "replay_ok sample_paths sample_removal_request (Fact_capture
       \<lparr>capture_outcome = Outcome_completed, captured_observation = consequence_before sample_removed,
        exact_recovery_possible = True, capture_evidence = [3, 5]\<rparr>)"
    using sample_observations_ok
    by (simp add: make_capture_result_def Backend.normalize_backend_evidence_def maximum_item_count_def)
  show "length (replay_append_fact sample_paths (Fact_capture
       \<lparr>capture_outcome = Outcome_completed, captured_observation = consequence_before sample_removed,
        exact_recovery_possible = True, capture_evidence = [3, 5]\<rparr>)) \<le> maximum_replay_size"
    by (simp add: Let_def replay_append_evidence_def append_counted_def replay_append_observation_def
        sample_removed_def replay_append_object_def append_path_text_def append_fact_def append_lengths
        sample_replay_header sample_paths_def maximum_replay_size_def)
qed

definition sample_batch :: "8 word observation_batch" where
  "sample_batch = \<lparr>batch_requested = [1], batch_observations = [consequence_before sample_removed],
     batch_evidence = [9]\<rparr>"

theorem replay_seed_round_trip_witness:
  "\<exists>bs. encode_replay_seed sample_paths sample_batch = Inr bs \<and>
     decode_replay_seed sample_paths bs = Inr sample_batch"
proof (rule replay_seed_round_trip)
  show "path_texts sample_paths" using sample_replayable by (simp add: replayable_def)
  have "observation_path (consequence_before sample_removed) = 1" by (simp add: sample_removed_def)
  then show "batch_fits sample_paths sample_batch"
    using sample_observations_ok
    by (simp add: batch_fits_def sample_batch_def make_batch_def Backend.normalize_paths_def
        Backend.normalize_backend_evidence_def maximum_item_count_def maximum_text_size_def sample_paths_def
        Let_def)
  show "length (replay_append_batch sample_paths (replay_writer Tag_seed) sample_batch) \<le> maximum_replay_size"
    by (simp add: Let_def replay_append_batch_def sample_batch_def replay_append_evidence_def
        append_counted_def replay_append_observation_def sample_removed_def replay_append_object_def
        append_path_text_def append_fact_def append_lengths sample_replay_header sample_paths_def
        maximum_replay_size_def)
qed

end
