(* ===== verification/Engine.thy ===== *)
theory Engine
  imports Restart Effects Replay
begin

text \<open>
  The vocabulary of the application engine (src/src/application_engine.cpp): the external objects it
  drives, the value that moves from phase to phase, and the helpers every phase uses.

  The engine owns no input or output.  It calls a backend transaction and a payload stage
  (\<open>application_backend_transaction\<close>, \<open>incoming_payload_stage\<close> of backend.h), the archive's replay, and
  a journal store; the record \<open>engine\<close> gathers them as operations on one state \<open>'s\<close> of the outside
  world, so nothing is assumed of their answers.  The value \<open>journaled_application\<close> is passed from
  phase to phase; its history is the only part that an operation of this file replaces.
\<close>

section \<open>The external objects\<close>

record ('s, 'p, 'o, 'sel) transaction =
  tx_observe :: "'p list \<Rightarrow> ('s, 'p observation_batch) io"
  tx_capture :: "'p capture_request \<Rightarrow> ('s, 'p capture_result) io"
  tx_begin_stage :: "package_image \<Rightarrow> 'sel \<Rightarrow> ('s, nat option) io"
  tx_seal :: "nat \<Rightarrow> ('s, operation_result) io"
  tx_sealed :: "nat \<Rightarrow> 's \<Rightarrow> bool"
  tx_abandon :: "nat \<Rightarrow> 's \<Rightarrow> 's"
  tx_rejected :: "('p, 'o) rejected_effect_request \<Rightarrow> ('s, publication_result) io"
  tx_active :: "'p active_effect_request \<Rightarrow> ('s, operation_result) io"
  tx_evidence :: "('p, 'o) completed_evidence \<Rightarrow> ('s, publication_result) io"
  tx_recover :: "'p \<Rightarrow> ('s, operation_result) io"
  tx_synchronize :: "durability_domain \<Rightarrow> ('s, durability_fact) io"

record ('s, 'p, 'o, 'sel) engine =
  engine_environment :: "('p, 'o) environment"
  engine_store :: "('s, 'p, 'o) journal_store"
  engine_transaction :: "('s, 'p, 'o, 'sel) transaction"
  archive_replay :: "package_archive \<Rightarrow> 'sel \<Rightarrow> nat \<Rightarrow> ('s, unit) io"
  selection_from_ids :: "package_image \<Rightarrow> entry_id list \<Rightarrow> error + 'sel"
  selection_size :: "'sel \<Rightarrow> nat"
  selection_validate :: "'sel \<Rightarrow> package_image \<Rightarrow> error + unit"

section \<open>The journaled application\<close>

record ('p, 'o, 'sel) journaled_application =
  journaled_attempt :: attempt
  journaled_preconditions :: "'p precondition_check"
  journaled_payloads :: "('p, 'sel) payload_plan option"
  journaled_captures :: "'p capture_plan"
  journaled_schedule :: "'p effect_step list"
  journaled_history :: "('p, 'o) history"
  journaled_projection :: digest
  journaled_lease :: digest

definition journaled_header :: "('p, 'o, 'sel) journaled_application \<Rightarrow> ('p, 'o) journal_header" where
  "journaled_header a = declaration_header (history_declaration (journaled_history a))"

definition journaled_state :: "('p, 'o, 'sel) journaled_application \<Rightarrow> journal_state" where
  "journaled_state a = cursor_state (history_cursor (journaled_history a))"

definition make_journaled ::
  "('p, 'o) environment \<Rightarrow> ('p, 'o, 'sel) journaled_application \<Rightarrow>
   error + ('p, 'o, 'sel) journaled_application" where
  "make_journaled E a =
     rbind (history_snapshot E (journaled_history a)) (\<lambda>snapshot.
     rbind (assess_restart snapshot) (\<lambda>assessment.
     if \<not> resumable assessment
     then Inl (Invalid_argument ''engine journal is not resumable'')
     else if attempt_identity (header_attempt (journaled_header a)) \<noteq>
             attempt_identity (journaled_attempt a)
     then Inl (Invalid_argument ''engine journal names another attempt'')
     else Inr a))"

section \<open>Typed exceptions\<close>

text \<open>
  \<open>mutation_lease_error\<close> and \<open>replay_codec_error\<close> derive from \<open>std::invalid_argument\<close>; the engine
  lets them pass.
\<close>

fun lease_message :: "lease_error_code \<Rightarrow> string" where
  "lease_message Not_held = ''target mutation lease is not held''"
| "lease_message Target_context_mismatch =
     ''target mutation lease belongs to another application context''"
| "lease_message Exclusion_domain_mismatch =
     ''target mutation lease belongs to another exclusion domain''"
| "lease_message State_projection_mismatch =
     ''state projection was not established under this lease instance''"

definition require_lease ::
  "target_context \<Rightarrow> ('p, 'o) state_projection \<Rightarrow> mutation_lease \<Rightarrow> error + unit" where
  "require_lease target state lease =
     (case validate_lease target state lease of
        Inl code \<Rightarrow> Inl (Invalid_argument (lease_message code))
      | Inr u \<Rightarrow> Inr u)"

definition require_admission :: "'p admission_error + 'v \<Rightarrow> error + 'v" where
  "require_admission r =
     (case r of
        Inl (Admission_refused code message paths) \<Rightarrow> Inl (Invalid_argument message)
      | Inl (Lease_refused code) \<Rightarrow> Inl (Invalid_argument (lease_message code))
      | Inr v \<Rightarrow> Inr v)"

definition encode_transition_fact ::
  "('p, 'o) environment \<Rightarrow> ('p, 'o) replay_fact \<Rightarrow> error + bytes" where
  "encode_transition_fact E f =
     (case encode_replay_fact E f of
        Inl code \<Rightarrow> Inl (Invalid_argument
          ''application replay fact encoding exceeds the size limit'')
      | Inr bs \<Rightarrow> Inr bs)"

section \<open>Helpers\<close>

definition append_unique_evidence :: "digest list \<Rightarrow> digest list \<Rightarrow> digest list" where
  "append_unique_evidence target source = sort_unique (target @ source)"

definition same_observation :: "'p path_observation \<Rightarrow> 'p path_observation \<Rightarrow> bool" where
  "same_observation a b \<longleftrightarrow> observation_path a = observation_path b \<and>
     observation_state a = observation_state b \<and> observation_object a = observation_object b"

text \<open>The loop keeps the effect found so far and throws at the second match.\<close>

fun find_effect_from ::
  "'p journal_effect option \<Rightarrow> effect_kind \<Rightarrow> 'p option \<Rightarrow> 'p journal_effect list \<Rightarrow>
   error + 'p journal_effect" where
  "find_effect_from found kind path [] =
     (case found of
        None \<Rightarrow> Inl (Logic_error ''application journal lacks required effect'')
      | Some e \<Rightarrow> Inr e)"
| "find_effect_from found kind path (e # effects) =
     (if effect_kind e \<noteq> kind \<or> effect_path e \<noteq> path
      then find_effect_from found kind path effects
      else if found \<noteq> None
      then Inl (Logic_error ''application journal effect is not unique'')
      else find_effect_from (Some e) kind path effects)"

definition find_effect ::
  "('p, 'o, 'sel) journaled_application \<Rightarrow> effect_kind \<Rightarrow> 'p option \<Rightarrow> error + digest" where
  "find_effect a kind path =
     rbind (find_effect_from None kind path (history_effects (journaled_history a)))
       (\<lambda>e. Inr (effect_identity e))"

fun terminal_event :: "operation_outcome \<Rightarrow> error + event_kind" where
  "terminal_event Outcome_completed = Inr Completed"
| "terminal_event Outcome_failed = Inr Failed"
| "terminal_event Outcome_indeterminate = Inr Indeterminate_event"
| "terminal_event Outcome_conditional_retained =
     Inl (Logic_error ''backend returned an unsupported conditional outcome'')"

fun durability_event :: "durability_status \<Rightarrow> error + event_kind" where
  "durability_event Durability_confirmed = Inr Completed"
| "durability_event Durability_visible = Inr Failed"
| "durability_event Durability_unconfirmed = Inr Failed"
| "durability_event Durability_indeterminate = Inr Indeterminate_event"
| "durability_event Durability_not_attempted =
     Inl (Logic_error ''backend synchronization returned not-attempted status'')"

section \<open>Transitions of the journaled application\<close>

definition journal_state_step ::
  "('s, 'p, 'o, 'sel) engine \<Rightarrow> ('p, 'o, 'sel) journaled_application \<Rightarrow> journal_state \<Rightarrow>
   digest option \<Rightarrow> digest option \<Rightarrow> ('s, ('p, 'o, 'sel) journaled_application) io" where
  "journal_state_step W a state receipt completed =
     io_bind (publish_state (engine_environment W) (engine_store W) (journaled_history a) state
                receipt completed)
       (\<lambda>h. io_return (a\<lparr>journaled_history := h\<rparr>))"

definition journal_event_step ::
  "('s, 'p, 'o, 'sel) engine \<Rightarrow> ('p, 'o, 'sel) journaled_application \<Rightarrow> journal_state \<Rightarrow>
   digest \<Rightarrow> event_kind \<Rightarrow> digest list \<Rightarrow> bytes \<Rightarrow> digest option \<Rightarrow> digest option \<Rightarrow>
   ('s, ('p, 'o, 'sel) journaled_application) io" where
  "journal_event_step W a state eff kind evidence replay_fact receipt completed =
     io_bind (publish_event (engine_environment W) (engine_store W) (journaled_history a) state eff
                kind evidence replay_fact receipt completed)
       (\<lambda>h. io_return (a\<lparr>journaled_history := h\<rparr>))"

abbreviation journal_intent ::
  "('s, 'p, 'o, 'sel) engine \<Rightarrow> ('p, 'o, 'sel) journaled_application \<Rightarrow> journal_state \<Rightarrow>
   digest \<Rightarrow> ('s, ('p, 'o, 'sel) journaled_application) io" where
  "journal_intent W a state eff \<equiv> journal_event_step W a state eff Intent [] [] None None"

text \<open>The result of a phase: a receipt that stops the application, or the next phase's value.\<close>

datatype ('r, 'a) phase = Phase_stopped 'r | Phase_done 'a

definition requires_namespace_synchronization :: "execution_control \<Rightarrow> bool" where
  "requires_namespace_synchronization control =
     (case control_durability control of
        Visibility_only \<Rightarrow> False | Journal_and_recovery \<Rightarrow> False
      | All_application_domains \<Rightarrow> True)"

definition with_domain_durability ::
  "durability_domain \<Rightarrow> durability_profile \<Rightarrow> durability_status \<Rightarrow> error + durability_profile" where
  "with_domain_durability domain previous status =
     make_profile (map (\<lambda>f. \<lparr>fact_domain = fact_domain f,
       fact_status = (if fact_domain f = domain then status else fact_status f)\<rparr>)
       (profile_facts previous))"

text \<open>
  The binding check at the start of every phase: the lease is still held, the journal is in a state
  the phase accepts, and the request, projection, lease and attempt are those of the journal.
\<close>

definition validate_phase_binding ::
  "('p, 'o, 'sel) journaled_application \<Rightarrow> ('p, 'o) application_request \<Rightarrow> ('p, 'o) state_projection \<Rightarrow>
   mutation_lease \<Rightarrow> journal_state list \<Rightarrow> string \<Rightarrow> error + unit" where
  "validate_phase_binding a request state lease accepted message =
     (let header = journaled_header a in
      rbind (require_lease (request_target request) state lease) (\<lambda>_.
      throw_if (journaled_state a \<notin> set accepted \<or>
          header_request header \<noteq> request_identity request \<or>
          header_plan header \<noteq> plan_identity (request_plan request) \<or>
          header_target header \<noteq> context_identity (request_target request) \<or>
          header_control header \<noteq> control_identity (request_control request) \<or>
          journaled_projection a \<noteq> projection_identity state \<or>
          journaled_lease a \<noteq> lease_identity lease \<or>
          attempt_identity (header_attempt header) \<noteq> attempt_identity (journaled_attempt a))
        (Invalid_argument message)))"

end
