(* ===== verification/Starting.thy ===== *)
theory Starting
  imports Engine
begin

text \<open>
  The first two phases of application_engine.cpp: \<open>admit_application_engine\<close> validates the request
  against the open lease, backend and archive, begins a backend transaction and checks the planned
  preconditions against one fresh observation; \<open>journal_application_engine\<close> derives the payload
  closure, the captures and the schedule, and publishes the journal's declaration.
\<close>

section \<open>Admission\<close>

text \<open>The transaction itself is the record \<open>engine_transaction\<close>; the constructor's checks are kept.\<close>

record 'p admitted_application =
  admitted_attempt :: attempt
  admitted_preconditions :: "'p precondition_check"

definition make_admitted ::
  "attempt \<Rightarrow> 'p precondition_check \<Rightarrow> error + 'p admitted_application" where
  "make_admitted att check =
     (if \<not> satisfied check
      then Inl (Invalid_argument ''admitted application contains failed preconditions'')
      else Inr \<lparr>admitted_attempt = att, admitted_preconditions = check\<rparr>)"

definition not_attempted_durability :: "error + durability_profile" where
  "not_attempted_durability =
     make_profile (map (\<lambda>d. \<lparr>fact_domain = d, fact_status = Durability_not_attempted\<rparr>)
       [Durable_journal, Durable_incoming_staging, Durable_recovery_staging,
        Durable_active_namespace, Durable_rejected_store, Durable_completed_evidence])"

definition precondition_paths :: "('p, 'o) preconditions \<Rightarrow> 'p list" where
  "precondition_paths pre = map precondition_path (preconditions_paths pre)"

definition precondition_refusal ::
  "('p::linorder, 'o) environment \<Rightarrow> ('p, 'o) application_request \<Rightarrow> attempt \<Rightarrow>
   ('p, 'o) state_projection \<Rightarrow> 'p precondition_check \<Rightarrow> error + ('p, 'o) application_receipt" where
  "precondition_refusal E request att state check =
     rbind not_attempted_durability (\<lambda>durability.
     failed_receipt E request (attempt_identity att) (projection_identity state)
       Precondition_refused Recovery_unchanged durability [] None
       (batch_evidence (check_observations check)))"

definition admission_refused ::
  "('p, 'o) application_receipt \<Rightarrow>
   error + (('p, 'o) application_receipt, 'p admitted_application) phase" where
  "admission_refused receipt =
     (if terminal_outcome receipt \<noteq> Precondition_refused
      then Inl (Invalid_argument
        ''engine admission refusal requires a precondition-refused receipt'')
      else Inr (Phase_stopped receipt))"

definition finish_admission ::
  "('s, 'p::linorder, 'o, 'sel) engine \<Rightarrow> ('p, 'o) application_request \<Rightarrow> ('p, 'o) state_projection \<Rightarrow>
   mutation_lease \<Rightarrow> mutation_backend \<Rightarrow> backend_transaction option \<Rightarrow>
   ('s, (('p, 'o) application_receipt, 'p admitted_application) phase) io" where
  "finish_admission W request state lease backend transaction =
     (let target = request_target request; pre = plan_preconditions (request_plan request) in
      case transaction of
        None \<Rightarrow> io_lift (Inl (Logic_error ''application backend returned no transaction''))
      | Some tx \<Rightarrow>
          io_bind (io_lift (require_admission
            (validate_transaction target lease backend tx :: 'p admission_error + unit))) (\<lambda>_.
          io_bind (io_lift (require_lease target state lease)) (\<lambda>_.
          let att = make_attempt (engine_environment W) (request_identity request)
                (context_identity target) (context_mutation_backend target) (transaction_nonce tx) in
          io_bind (tx_observe (engine_transaction W) (precondition_paths pre)) (\<lambda>observed.
          io_bind (io_lift (make_check pre observed)) (\<lambda>check.
          if \<not> satisfied check
          then io_lift (rbind (precondition_refusal (engine_environment W) request att state check)
                 admission_refused)
          else io_lift (rbind (make_admitted att check) (\<lambda>a. Inr (Phase_done a))))))))"

definition admit_incoming_application ::
  "('s, 'p::linorder, 'o, 'sel) engine \<Rightarrow> ('p, 'o) application_request \<Rightarrow> incoming_authority \<Rightarrow>
   ('p, 'o) state_projection \<Rightarrow> mutation_lease \<Rightarrow> mutation_backend \<Rightarrow> package_archive \<Rightarrow>
   ('s, backend_transaction option) io \<Rightarrow>
   ('s, (('p, 'o) application_receipt, 'p admitted_application) phase) io" where
  "admit_incoming_application W request incoming state lease backend archive begin_transaction =
     io_bind (io_lift (require_admission (validate_incoming_admission (engine_environment W) request
       incoming state lease backend archive))) (\<lambda>_.
     io_bind begin_transaction (finish_admission W request state lease backend))"

definition admit_removal_application ::
  "('s, 'p::linorder, 'o, 'sel) engine \<Rightarrow> ('p, 'o) application_request \<Rightarrow>
   ('p, 'o) state_projection \<Rightarrow> mutation_lease \<Rightarrow> mutation_backend \<Rightarrow>
   ('s, backend_transaction option) io \<Rightarrow>
   ('s, (('p, 'o) application_receipt, 'p admitted_application) phase) io" where
  "admit_removal_application W request state lease backend begin_transaction =
     io_bind (io_lift (require_admission (validate_removal_admission request state lease backend)))
       (\<lambda>_. io_bind begin_transaction (finish_admission W request state lease backend))"

section \<open>The initial journal\<close>

definition initial_header ::
  "('p, 'o) environment \<Rightarrow> ('p, 'o) application_request \<Rightarrow> 'p admitted_application \<Rightarrow>
   ('p, 'o) state_projection \<Rightarrow> mutation_lease \<Rightarrow> error + ('p, 'o) journal_header" where
  "initial_header E request admitted state lease =
     make_header E
       \<lparr>header_identity = 0, header_kind = plan_kind (request_plan request),
        header_request = request_identity request, header_plan = plan_identity (request_plan request),
        header_attempt = admitted_attempt admitted,
        header_target = context_identity (request_target request),
        header_control = control_identity (request_control request), header_projection = state,
        header_lease = lease_identity lease,
        header_backend = context_mutation_backend (request_target request)\<rparr>"

definition encode_initial_seed ::
  "('p, 'o) environment \<Rightarrow> 'p observation_batch \<Rightarrow> error + bytes" where
  "encode_initial_seed E batch =
     (case encode_replay_seed E batch of
        Inl code \<Rightarrow> Inl (Invalid_argument
          ''application replay fact encoding exceeds the size limit'')
      | Inr bs \<Rightarrow> Inr bs)"

definition publish_initial_journal ::
  "('s, 'p, 'o, 'sel) engine \<Rightarrow> 'p admitted_application \<Rightarrow> ('p, 'o) application_request \<Rightarrow>
   ('p, 'o) state_projection \<Rightarrow> mutation_lease \<Rightarrow> ('p, 'sel) payload_plan option \<Rightarrow>
   'p capture_plan \<Rightarrow> 'p effect_step list \<Rightarrow> bool \<Rightarrow> bool \<Rightarrow> bool \<Rightarrow>
   ('s, ('p, 'o, 'sel) journaled_application) io" where
  "publish_initial_journal W admitted request state lease payloads captures schedule
       has_recovery has_active has_rejected =
     (let E = engine_environment W;
          has_incoming = (case payloads of None \<Rightarrow> False
            | Some p \<Rightarrow> selection_size W (payload_selection p) \<noteq> 0) in
      io_bind (io_lift (initial_header E request admitted state lease)) (\<lambda>header.
      io_bind (io_lift (journal_effects E schedule has_incoming has_recovery has_active has_rejected
        (control_durability (request_control request) = All_application_domains))) (\<lambda>effects.
      io_bind (io_lift (encode_initial_seed E
        (check_observations (admitted_preconditions admitted)))) (\<lambda>seed.
      io_bind (io_lift (make_declaration E header effects seed)) (\<lambda>intended.
      io_bind (publish_initial_declaration E (engine_store W) intended) (\<lambda>h.
      io_lift (make_journaled E
        \<lparr>journaled_attempt = admitted_attempt admitted,
         journaled_preconditions = admitted_preconditions admitted,
         journaled_payloads = payloads, journaled_captures = captures,
         journaled_schedule = schedule, journaled_history = h,
         journaled_projection = projection_identity state,
         journaled_lease = lease_identity lease\<rparr>)))))))"

definition journal_incoming_application ::
  "('s, 'p::linorder, 'o, 'sel) engine \<Rightarrow> 'p admitted_application \<Rightarrow> ('p, 'o) application_request \<Rightarrow>
   ('p, 'o) state_projection \<Rightarrow> mutation_lease \<Rightarrow> package_image \<Rightarrow>
   ('s, ('p, 'o, 'sel) journaled_application) io" where
  "journal_incoming_application W admitted request state lease img =
     (let E = engine_environment W; plan = request_plan request in
      io_bind (io_lift (prepare_payloads E (selection_from_ids W) plan img)) (\<lambda>payloads.
      io_bind (io_lift (prepare_captures plan (request_control request))) (\<lambda>captures.
      io_bind (io_lift (prepare_schedule E plan (Some img) (Some payloads) captures)) (\<lambda>schedule.
      publish_initial_journal W admitted request state lease (Some payloads) captures schedule
        (capture_requests captures \<noteq> []) (has_active_effect plan) (has_rejected_effect plan)))))"

definition journal_removal_application ::
  "('s, 'p::linorder, 'o, 'sel) engine \<Rightarrow> 'p admitted_application \<Rightarrow> ('p, 'o) application_request \<Rightarrow>
   ('p, 'o) state_projection \<Rightarrow> mutation_lease \<Rightarrow>
   ('s, ('p, 'o, 'sel) journaled_application) io" where
  "journal_removal_application W admitted request state lease =
     (let E = engine_environment W; plan = request_plan request in
      io_bind (io_lift (prepare_captures plan (request_control request))) (\<lambda>captures.
      io_bind (io_lift (prepare_schedule E plan None (None :: ('p, 'sel) payload_plan option) captures)) (\<lambda>schedule.
      publish_initial_journal W admitted request state lease None captures schedule
        (capture_requests captures \<noteq> []) (has_active_effect plan) (has_rejected_effect plan))))"

end
