(* ===== verification/Preparing.thy ===== *)
theory Preparing
  imports Starting
begin

text \<open>
  The preparation phase of application_engine.cpp (\<open>prepare_application_engine\<close>): old objects are
  captured, incoming payloads staged, and the staging domains synchronized, every backend call
  bracketed by an intent event and a terminal event of its declared effect.  A failure abandons the
  journal under a sealed receipt of a failure before target mutation.
\<close>

section \<open>Bindings\<close>

definition preparation_profile ::
  "durability_status \<Rightarrow> durability_status \<Rightarrow> durability_status \<Rightarrow> error + durability_profile" where
  "preparation_profile journal incoming recovered =
     make_profile
       [\<lparr>fact_domain = Durable_journal, fact_status = journal\<rparr>,
        \<lparr>fact_domain = Durable_incoming_staging, fact_status = incoming\<rparr>,
        \<lparr>fact_domain = Durable_recovery_staging, fact_status = recovered\<rparr>,
        \<lparr>fact_domain = Durable_active_namespace, fact_status = Durability_not_attempted\<rparr>,
        \<lparr>fact_domain = Durable_rejected_store, fact_status = Durability_not_attempted\<rparr>,
        \<lparr>fact_domain = Durable_completed_evidence, fact_status = Durability_not_attempted\<rparr>]"

definition validate_preparation_binding ::
  "('p, 'o, 'sel) journaled_application \<Rightarrow> ('p, 'o) application_request \<Rightarrow> ('p, 'o) state_projection \<Rightarrow>
   mutation_lease \<Rightarrow> error + unit" where
  "validate_preparation_binding a request state lease =
     validate_phase_binding a request state lease [Preparing]
       ''application preparation inputs differ from durable admission''"

definition validate_preparation_archive ::
  "('s, 'p, 'o, 'sel) engine \<Rightarrow> ('p, 'o, 'sel) journaled_application \<Rightarrow>
   ('p, 'o) application_request \<Rightarrow> package_archive \<Rightarrow> error + unit" where
  "validate_preparation_archive W a request archive =
     (let img = archive_image archive; receipt = archive_receipt archive in
      case journaled_payloads a of
        None \<Rightarrow> Inl (Logic_error ''incoming application lacks payload authority'')
      | Some payloads \<Rightarrow>
          (case preconditions_incoming (plan_preconditions (request_plan request)) of
             None \<Rightarrow> Inl (Logic_error ''incoming application lacks archive precondition'')
           | Some incoming \<Rightarrow>
               if image_identity img \<noteq> payload_image payloads \<or>
                  image_identity img \<noteq> precondition_image incoming \<or>
                  receipt_image receipt \<noteq> image_identity img \<or>
                  receipt_entries receipt \<noteq> image_size img \<or>
                  receipt_archive receipt \<noteq> precondition_archive incoming \<or>
                  receipt_identity receipt \<noteq> precondition_inspection incoming
               then Inl (Invalid_argument
                 ''application preparation archive differs from admitted authority'')
               else selection_validate W (payload_selection payloads) img))"

section \<open>Failure\<close>

definition preparation_failed ::
  "('p, 'o) application_receipt \<Rightarrow> error + (('p, 'o) application_receipt, 'a) phase" where
  "preparation_failed receipt =
     (if terminal_outcome receipt \<noteq> Failed_before_target_mutation
      then Inl (Invalid_argument ''engine preparation failure is not pre-mutation'')
      else Inr (Phase_stopped receipt))"

definition fail_preparation ::
  "('s, 'p::linorder, 'o, 'sel) engine \<Rightarrow> ('p, 'o, 'sel) journaled_application \<Rightarrow>
   ('p, 'o) application_request \<Rightarrow> ('p, 'o) state_projection \<Rightarrow> durability_status \<Rightarrow>
   durability_status \<Rightarrow> durability_status \<Rightarrow> digest list \<Rightarrow>
   ('s, (('p, 'o) application_receipt, 'a) phase) io" where
  "fail_preparation W a request state journal incoming recovered evidence =
     io_bind (io_lift (rbind (preparation_profile journal incoming recovered) (\<lambda>durability.
       failed_receipt (engine_environment W) request (attempt_identity (journaled_attempt a))
         (projection_identity state) Failed_before_target_mutation Recovery_unchanged durability []
         (Some (header_identity (journaled_header a))) evidence))) (\<lambda>receipt.
     io_bind (journal_state_step W a Abandoned (Some (terminal_identity receipt)) None) (\<lambda>_.
     io_lift (preparation_failed receipt)))"

section \<open>Captures\<close>

text \<open>The result structure of \<open>capture_old_objects\<close>, with the two references it writes.\<close>

record ('p, 'o, 'sel) capture_progress =
  progress_application :: "('p, 'o, 'sel) journaled_application"
  progress_evidence :: "digest list"
  progress_captures :: "'p capture_result list"
  progress_durability :: durability_status
  progress_completed :: bool

definition check_capture ::
  "('p::linorder, 'o, 'sel) journaled_application \<Rightarrow> 'p capture_request \<Rightarrow> 'p capture_result \<Rightarrow>
   error + unit" where
  "check_capture a request captured =
     (case find_observation (check_observations (journaled_preconditions a)) (capture_path request) of
        None \<Rightarrow> Inl (Logic_error ''old-object capture lacks admitted observation'')
      | Some observed \<Rightarrow>
          if observation_path (captured_observation captured) \<noteq> capture_path request
          then Inl (Logic_error ''backend captured another logical path'')
          else throw_if (capture_outcome captured = Outcome_completed \<and>
                 \<not> same_observation (captured_observation captured) observed)
               (Logic_error ''backend capture differs from the admitted live object''))"

definition semantic_capture_outcome ::
  "recovery_requirement \<Rightarrow> 'p capture_request \<Rightarrow> 'p capture_result \<Rightarrow> operation_outcome" where
  "semantic_capture_outcome recovered request captured =
     (if capture_outcome captured = Outcome_completed \<and> for_recovery request \<and>
         recovered = Recovery_exact \<and> \<not> exact_recovery_possible captured
      then Outcome_failed else capture_outcome captured)"

definition capture_one ::
  "('s, 'p::linorder, 'o, 'sel) engine \<Rightarrow> recovery_requirement \<Rightarrow> 'p capture_request \<Rightarrow>
   ('p, 'o, 'sel) capture_progress \<Rightarrow> ('s, ('p, 'o, 'sel) capture_progress) io" where
  "capture_one W recovered request r =
     (let a = progress_application r in
      io_bind (io_lift (find_effect a Capture_old_object (Some (capture_path request)))) (\<lambda>eff.
      io_bind (journal_intent W a Preparing eff) (\<lambda>a.
      io_bind (tx_capture (engine_transaction W) request) (\<lambda>captured.
      let evidence = append_unique_evidence (progress_evidence r) (capture_evidence captured) in
      io_bind (io_lift (check_capture a request captured)) (\<lambda>_.
      let backend_outcome = capture_outcome captured;
          semantic = semantic_capture_outcome recovered request captured;
          durability = (if backend_outcome = Outcome_completed then Durability_visible
                        else progress_durability r) in
      io_bind (io_lift (terminal_event semantic)) (\<lambda>event.
      io_bind (io_lift (encode_transition_fact (engine_environment W) (Fact_capture captured))) (\<lambda>replayed.
      io_bind (journal_event_step W a Preparing eff event (capture_evidence captured) replayed None None)
        (\<lambda>a.
      io_return
        \<lparr>progress_application = a, progress_evidence = evidence,
         progress_captures = progress_captures r @ [captured],
         progress_durability =
           (if semantic \<noteq> Outcome_completed \<and> backend_outcome \<noteq> Outcome_completed
            then Durability_indeterminate else durability),
         progress_completed = (semantic = Outcome_completed)\<rparr>))))))))"

fun capture_old_objects ::
  "('s, 'p::linorder, 'o, 'sel) engine \<Rightarrow> recovery_requirement \<Rightarrow> 'p capture_request list \<Rightarrow>
   ('p, 'o, 'sel) capture_progress \<Rightarrow> ('s, ('p, 'o, 'sel) capture_progress) io" where
  "capture_old_objects W recovered [] r = io_return r"
| "capture_old_objects W recovered (request # requests) r =
     io_bind (capture_one W recovered request r) (\<lambda>r.
     if progress_completed r then capture_old_objects W recovered requests r else io_return r)"

section \<open>Payloads\<close>

record ('p, 'o, 'sel) staging_progress =
  staging_application :: "('p, 'o, 'sel) journaled_application"
  staging_evidence :: "digest list"
  staging_durability :: durability_status
  staging_completed :: bool

fun intend_payloads ::
  "('s, 'p, 'o, 'sel) engine \<Rightarrow> 'p effect_step list \<Rightarrow> ('p, 'o, 'sel) journaled_application \<Rightarrow>
   ('s, ('p, 'o, 'sel) journaled_application) io" where
  "intend_payloads W [] a = io_return a"
| "intend_payloads W (step # steps) a =
     (if schedule_kind step \<noteq> Step_stage_payload then intend_payloads W steps a
      else io_bind (io_lift (find_effect a Stage_incoming_payload (Some (schedule_path step)))) (\<lambda>eff.
           io_bind (journal_intent W a Preparing eff) (intend_payloads W steps)))"

definition payload_paths :: "'p effect_step list \<Rightarrow> 'p list" where
  "payload_paths steps =
     map schedule_path (filter (\<lambda>s. schedule_kind s = Step_stage_payload) steps)"

fun settle_payloads ::
  "('s, 'p, 'o, 'sel) engine \<Rightarrow> event_kind \<Rightarrow> digest list \<Rightarrow> bytes \<Rightarrow> 'p list \<Rightarrow>
   ('p, 'o, 'sel) journaled_application \<Rightarrow> ('s, ('p, 'o, 'sel) journaled_application) io" where
  "settle_payloads W event evidence replayed [] a = io_return a"
| "settle_payloads W event evidence replayed (path # paths) a =
     io_bind (io_lift (find_effect a Stage_incoming_payload (Some path))) (\<lambda>eff.
     io_bind (journal_event_step W a Preparing eff event evidence replayed None None)
       (settle_payloads W event evidence replayed paths))"

definition run_payload_stage ::
  "('s, 'p, 'o, 'sel) engine \<Rightarrow> package_archive \<Rightarrow> 'sel \<Rightarrow> ('s, nat \<times> operation_result) io" where
  "run_payload_stage W archive selection =
     (let tx = engine_transaction W in
      io_bind (tx_begin_stage tx (archive_image archive) selection) (\<lambda>begun.
      case begun of
        None \<Rightarrow> io_lift (Inl (Logic_error ''application backend returned no payload stage''))
      | Some stage \<Rightarrow>
          io_bind (archive_replay W archive selection stage) (\<lambda>_.
          io_bind (tx_seal tx stage) (\<lambda>sealed s.
          if (operation_outcome sealed = Outcome_completed) \<noteq> tx_sealed tx stage s
          then (Inl (Logic_error ''payload stage seal state contradicts outcome''), s)
          else (Inr (stage, sealed), s)))))"

definition stage_incoming_payloads ::
  "('s, 'p, 'o, 'sel) engine \<Rightarrow> package_archive \<Rightarrow> digest list \<Rightarrow>
   ('p, 'o, 'sel) journaled_application \<Rightarrow> ('s, ('p, 'o, 'sel) staging_progress) io" where
  "stage_incoming_payloads W archive evidence a =
     (let nothing = \<lparr>staging_application = a, staging_evidence = evidence,
            staging_durability = Durability_not_attempted, staging_completed = True\<rparr> in
      case journaled_payloads a of
        None \<Rightarrow> io_return nothing
      | Some payloads \<Rightarrow>
          if selection_size W (payload_selection payloads) = 0 then io_return nothing
          else
            (let paths = payload_paths (journaled_schedule a) in
             io_bind (intend_payloads W (journaled_schedule a) a) (\<lambda>a.
             if length paths \<noteq> selection_size W (payload_selection payloads)
             then io_lift (Inl (Logic_error ''payload journal effect closure mismatch''))
             else
               io_bind (run_payload_stage W archive (payload_selection payloads)) (\<lambda>(stage, sealed).
               let evidence = append_unique_evidence evidence (operation_evidence sealed) in
               io_bind (io_lift (terminal_event (operation_outcome sealed))) (\<lambda>event.
               io_bind (io_lift (encode_transition_fact (engine_environment W) (Fact_payload sealed)))
                 (\<lambda>replayed.
               io_bind (settle_payloads W event (operation_evidence sealed) replayed paths a) (\<lambda>a s.
               if operation_outcome sealed \<noteq> Outcome_completed
               then (Inr \<lparr>staging_application = a, staging_evidence = evidence,
                          staging_durability = Durability_indeterminate, staging_completed = False\<rparr>,
                     tx_abandon (engine_transaction W) stage s)
               else (Inr \<lparr>staging_application = a, staging_evidence = evidence,
                          staging_durability = Durability_visible, staging_completed = True\<rparr>, s)))))))
     )"

section \<open>Synchronization\<close>

definition synchronize_preparation_domain ::
  "('s, 'p, 'o, 'sel) engine \<Rightarrow> durability_domain \<Rightarrow> effect_kind \<Rightarrow>
   ('p, 'o, 'sel) journaled_application \<Rightarrow>
   ('s, durability_status \<times> ('p, 'o, 'sel) journaled_application) io" where
  "synchronize_preparation_domain W domain kind a =
     io_bind (io_lift (find_effect a kind None)) (\<lambda>eff.
     io_bind (journal_intent W a Preparing eff) (\<lambda>a.
     io_bind (tx_synchronize (engine_transaction W) domain) (\<lambda>synchronized.
     if fact_domain synchronized \<noteq> domain
     then io_lift (Inl (Logic_error ''backend synchronized another durability domain''))
     else
       io_bind (io_lift (durability_event (fact_status synchronized))) (\<lambda>event.
       io_bind (io_lift (encode_transition_fact (engine_environment W) (Fact_synchronization synchronized)))
         (\<lambda>encoded.
       io_bind (journal_event_step W a Preparing eff event [] encoded None None) (\<lambda>a.
       io_return (fact_status synchronized, a)))))))"

section \<open>The prepared application\<close>

record ('p, 'o, 'sel) prepared_application =
  prepared_journaled :: "('p, 'o, 'sel) journaled_application"
  prepared_captures :: "'p capture_result list"
  prepared_durability :: durability_profile
  prepared_evidence :: "digest list"

definition has_payloads :: "('s, 'p, 'o, 'sel) engine \<Rightarrow> ('p, 'o, 'sel) journaled_application \<Rightarrow> bool" where
  "has_payloads W a \<longleftrightarrow>
     (case journaled_payloads a of
        None \<Rightarrow> False | Some p \<Rightarrow> selection_size W (payload_selection p) \<noteq> 0)"

definition staging_status :: "bool \<Rightarrow> durability_status" where
  "staging_status present = (if present then Durability_confirmed else Durability_not_attempted)"

definition has_status ::
  "durability_profile \<Rightarrow> durability_domain \<Rightarrow> durability_status \<Rightarrow> bool" where
  "has_status profile domain status \<longleftrightarrow> profile_status profile domain = Inr status"

definition make_prepared ::
  "('s, 'p, 'o, 'sel) engine \<Rightarrow> ('p, 'o, 'sel) prepared_application \<Rightarrow>
   error + ('p, 'o, 'sel) prepared_application" where
  "make_prepared W p =
     (let a = prepared_journaled p; durability = prepared_durability p in
      if journaled_state a \<notin> {Prepared, Mutating, Effects_visible, Result_observed,
                                Recovery_pending, Recovering}
      then Inl (Invalid_argument
        ''prepared application journal precedes or exceeds replay authority'')
      else if length (prepared_captures p) \<noteq> length (capture_requests (journaled_captures a))
      then Inl (Invalid_argument ''prepared application capture closure mismatch'')
      else if \<exists>c \<in> set (prepared_captures p). capture_outcome c \<noteq> Outcome_completed
      then Inl (Invalid_argument
        ''prepared application contains an incomplete old-object capture'')
      else if \<not> has_status durability Durable_journal Durability_confirmed \<or>
         \<not> has_status durability Durable_incoming_staging (staging_status (has_payloads W a)) \<or>
         \<not> has_status durability Durable_recovery_staging
             (staging_status (prepared_captures p \<noteq> [])) \<or>
         \<not> has_status durability Durable_active_namespace Durability_not_attempted \<or>
         \<not> has_status durability Durable_rejected_store Durability_not_attempted \<or>
         \<not> has_status durability Durable_completed_evidence Durability_not_attempted
      then Inl (Invalid_argument ''prepared application has an invalid durability boundary'')
      else
        let evidence = sort (prepared_evidence p) in
        if adjacent_equal evidence
        then Inl (Invalid_argument ''duplicate prepared backend evidence'')
        else Inr (p\<lparr>prepared_evidence := evidence\<rparr>))"

definition finish_preparation ::
  "('s, 'p, 'o, 'sel) engine \<Rightarrow> ('p, 'o, 'sel) journaled_application \<Rightarrow> 'p capture_result list \<Rightarrow>
   durability_status \<Rightarrow> durability_status \<Rightarrow> digest list \<Rightarrow>
   ('s, (('p, 'o) application_receipt, ('p, 'o, 'sel) prepared_application) phase) io" where
  "finish_preparation W a captured incoming recovered evidence =
     io_bind (journal_state_step W a Prepared None None) (\<lambda>a.
     io_lift (rbind (preparation_profile Durability_confirmed incoming recovered) (\<lambda>durability.
       rbind (make_prepared W \<lparr>prepared_journaled = a, prepared_captures = captured,
                prepared_durability = durability, prepared_evidence = evidence\<rparr>) (\<lambda>p.
       Inr (Phase_done p)))))"

text \<open>A staging domain is synchronized only when something was staged into it.\<close>

definition synchronize_staged ::
  "('s, 'p, 'o, 'sel) engine \<Rightarrow> durability_domain \<Rightarrow> effect_kind \<Rightarrow> durability_status \<Rightarrow>
   ('p, 'o, 'sel) journaled_application \<Rightarrow>
   ('s, bool \<times> durability_status \<times> ('p, 'o, 'sel) journaled_application) io" where
  "synchronize_staged W domain kind status a =
     (if status = Durability_not_attempted then io_return (True, status, a)
      else io_bind (synchronize_preparation_domain W domain kind a) (\<lambda>(status, a).
           io_return (status = Durability_confirmed, status, a)))"

definition initial_captures ::
  "('p, 'o, 'sel) journaled_application \<Rightarrow> ('p, 'o, 'sel) capture_progress" where
  "initial_captures a =
     \<lparr>progress_application = a,
      progress_evidence = batch_evidence (check_observations (journaled_preconditions a)),
      progress_captures = [], progress_durability = Durability_not_attempted,
      progress_completed = True\<rparr>"

definition prepare_with_archive ::
  "('s, 'p::linorder, 'o, 'sel) engine \<Rightarrow> ('p, 'o, 'sel) journaled_application \<Rightarrow>
   ('p, 'o) application_request \<Rightarrow> ('p, 'o) state_projection \<Rightarrow> mutation_lease \<Rightarrow> package_archive \<Rightarrow>
   ('s, (('p, 'o) application_receipt, ('p, 'o, 'sel) prepared_application) phase) io" where
  "prepare_with_archive W a request state lease archive =
     io_bind (io_lift (validate_preparation_binding a request state lease)) (\<lambda>_.
     io_bind (io_lift (validate_preparation_archive W a request archive)) (\<lambda>_.
     io_bind (capture_old_objects W (control_recovery (request_control request))
       (capture_requests (journaled_captures a)) (initial_captures a)) (\<lambda>r.
     if \<not> progress_completed r
     then fail_preparation W (progress_application r) request state Durability_confirmed
       Durability_not_attempted (progress_durability r) (progress_evidence r)
     else
       io_bind (stage_incoming_payloads W archive (progress_evidence r) (progress_application r)) (\<lambda>p.
       if \<not> staging_completed p
       then fail_preparation W (staging_application p) request state Durability_confirmed
         (staging_durability p) (progress_durability r) (staging_evidence p)
       else
         io_bind (synchronize_staged W Durable_incoming_staging Synchronize_incoming_staging
           (staging_durability p) (staging_application p)) (\<lambda>(done, incoming, a).
         if \<not> done
         then fail_preparation W a request state Durability_confirmed incoming
           (progress_durability r) (staging_evidence p)
         else
           io_bind (synchronize_staged W Durable_recovery_staging Synchronize_recovery_staging
             (progress_durability r) a) (\<lambda>(done, recovered, a).
           if \<not> done
           then fail_preparation W a request state Durability_confirmed incoming recovered
             (staging_evidence p)
           else finish_preparation W a (progress_captures r) incoming recovered
             (staging_evidence p)))))))"

definition prepare_removal ::
  "('s, 'p::linorder, 'o, 'sel) engine \<Rightarrow> ('p, 'o, 'sel) journaled_application \<Rightarrow>
   ('p, 'o) application_request \<Rightarrow> ('p, 'o) state_projection \<Rightarrow> mutation_lease \<Rightarrow>
   ('s, (('p, 'o) application_receipt, ('p, 'o, 'sel) prepared_application) phase) io" where
  "prepare_removal W a request state lease =
     io_bind (io_lift (validate_preparation_binding a request state lease)) (\<lambda>_.
     if journaled_payloads a \<noteq> None
     then io_lift (Inl (Logic_error ''removal preparation has incoming payloads''))
     else
       io_bind (capture_old_objects W (control_recovery (request_control request))
         (capture_requests (journaled_captures a)) (initial_captures a)) (\<lambda>r.
       if \<not> progress_completed r
       then fail_preparation W (progress_application r) request state Durability_confirmed
         Durability_not_attempted (progress_durability r) (progress_evidence r)
       else
         io_bind (synchronize_staged W Durable_recovery_staging Synchronize_recovery_staging
           (progress_durability r) (progress_application r)) (\<lambda>(done, recovered, a).
         if \<not> done
         then fail_preparation W a request state Durability_confirmed Durability_not_attempted
           recovered (progress_evidence r)
         else finish_preparation W a (progress_captures r) Durability_not_attempted recovered
           (progress_evidence r))))"

end
