(* ===== verification/Rejecting.thy ===== *)
theory Rejecting
  imports Preparing
begin

text \<open>
  Rejected-object publication of application_engine.cpp (\<open>publish_rejected_application_engine\<close>): the
  journal enters its mutating state, every rejected object of the schedule is published under an
  intent and a terminal event, and the rejected store is synchronized when the request asks for it.
  The first outcome that is not a completion seals a receipt and stops.
\<close>

section \<open>Statuses, roles and requests\<close>

fun rejected_effect_status :: "operation_outcome \<Rightarrow> error + effect_status" where
  "rejected_effect_status Outcome_completed = Inr Effect_completed"
| "rejected_effect_status Outcome_failed = Inr Effect_failed"
| "rejected_effect_status Outcome_indeterminate = Inr Effect_indeterminate"
| "rejected_effect_status Outcome_conditional_retained =
     Inl (Logic_error ''rejected-object publication returned a conditional outcome'')"

definition rejected_path_role :: "('p, 'o) path_decision \<Rightarrow> path_role" where
  "rejected_path_role d =
     (case decision_role d of None \<Rightarrow> Installed_owned_path | Some r \<Rightarrow> application_role r)"

text \<open>A removal decision, the one without a role, has no incoming entry.\<close>

definition incoming_entry_of :: "('p, 'o) path_decision \<Rightarrow> entry_id option" where
  "incoming_entry_of d = (case decision_role d of None \<Rightarrow> None | Some r \<Rightarrow> decision_entry d)"

definition find_decision ::
  "('p::linorder, 'o) operation_plan \<Rightarrow> 'p \<Rightarrow> string \<Rightarrow> error + ('p, 'o) path_decision" where
  "find_decision plan path message =
     (case find_sorted decision_path (plan_paths plan) path of
        None \<Rightarrow> Inl (Logic_error message) | Some d \<Rightarrow> Inr d)"

definition rejected_command ::
  "('p, 'o) path_decision \<Rightarrow> 'p effect_step \<Rightarrow> error + ('p, 'o) rejected_effect_request" where
  "rejected_command decision step =
     (if decision_path decision \<noteq> schedule_path step
      then Inl (Logic_error ''rejected-object schedule decision path mismatch'')
      else case decision_object decision of
        None \<Rightarrow> Inl (Logic_error ''rejected-object schedule lacks structured plan provenance'')
      | Some plan \<Rightarrow>
          rbind (from_plan plan) (\<lambda>request.
          if rejected_path request \<noteq> decision_path decision \<or>
             rejected_outcome request \<noteq> decision_rejected decision
          then Inl (Logic_error
            ''rejected-object structured intent differs from path decision'')
          else if rejected_entry request \<noteq> incoming_entry_of decision \<or>
             schedule_entry step \<noteq> incoming_entry_of decision
          then Inl (Logic_error ''rejected-object schedule provenance binding mismatch'')
          else Inr request))"

record ('p, 'o) rejected_effect =
  rejected_request :: "('p, 'o) rejected_effect_request"
  rejected_result :: publication_result

section \<open>Consequences of a stop\<close>

definition rejected_path_consequence ::
  "('p, 'o) path_decision \<Rightarrow> path_role \<Rightarrow> 'p path_observation \<Rightarrow> publication_result \<Rightarrow>
   error + ('p, 'o) path_consequence" where
  "rejected_path_consequence decision role prior result =
     rbind (rejected_effect_status (publication_outcome result)) (\<lambda>status.
     make_consequence
       \<lparr>consequence_path = decision_path decision, consequence_role = role,
        requested_active = decision_active decision,
        requested_rejected = decision_rejected decision,
        consequence_entry = incoming_entry_of decision,
        consequence_ownership = decision_ownership decision, active_status = Not_attempted,
        rejected_status = status, consequence_before = prior, consequence_after = prior,
        rejected_object = publication_record result, publication = Ineligible\<rparr>)"

definition effect_consequence ::
  "('p::linorder, 'o, 'sel) prepared_application \<Rightarrow> ('p, 'o) operation_plan \<Rightarrow>
   ('p, 'o) rejected_effect \<Rightarrow> error + ('p, 'o) path_consequence" where
  "effect_consequence prepared plan eff =
     rbind (find_decision plan (rejected_path (rejected_request eff))
       ''rejected-object schedule path lacks a plan decision'') (\<lambda>decision.
     case find_observation
            (check_observations (journaled_preconditions (prepared_journaled prepared)))
            (rejected_path (rejected_request eff)) of
       None \<Rightarrow> Inl (Logic_error ''rejected-object result lacks admitted path observation'')
     | Some prior \<Rightarrow>
         rejected_path_consequence decision (rejected_path_role decision) prior
           (rejected_result eff))"

definition rejected_records :: "('p, 'o) rejected_effect list \<Rightarrow> digest list" where
  "rejected_records effects = List.map_filter (\<lambda>e. publication_record (rejected_result e)) effects"

definition rejected_path_consequences ::
  "('p::linorder, 'o, 'sel) prepared_application \<Rightarrow> ('p, 'o) operation_plan \<Rightarrow>
   ('p, 'o) rejected_effect list \<Rightarrow> error + ('p, 'o) path_consequence list" where
  "rejected_path_consequences prepared plan effects =
     rbind (rmap (effect_consequence prepared plan) effects) (\<lambda>paths.
     if adjacent_equal (sort (rejected_records effects))
     then Inl (Logic_error ''backend reused one rejected record for multiple path effects'')
     else Inr paths)"

definition with_rejected_durability ::
  "durability_profile \<Rightarrow> durability_status \<Rightarrow> error + durability_profile" where
  "with_rejected_durability prepared rejected =
     with_domain_durability Durable_rejected_store prepared rejected"

section \<open>Sources of a rejected object\<close>

definition validate_rejected_source ::
  "('p::linorder, 'o, 'sel) prepared_application \<Rightarrow> ('p, 'o) rejected_effect_request \<Rightarrow>
   error + unit" where
  "validate_rejected_source prepared request =
     (let a = prepared_journaled prepared in
      case rejected_outcome request of
        Stage_incoming \<Rightarrow>
          (case (rejected_entry request, journaled_payloads a) of
             (Some entry, Some payloads) \<Rightarrow>
               (case find (\<lambda>r. requirement_path r = rejected_path request)
                       (payload_requirements payloads) of
                  None \<Rightarrow> Inl (Logic_error
                    ''incoming rejected object differs from prepared payload authority'')
                | Some item \<Rightarrow>
                    throw_if (\<not> required_for_rejected item \<or> requirement_entry item \<noteq> entry)
                      (Logic_error
                        ''incoming rejected object differs from prepared payload authority''))
           | _ \<Rightarrow> Inl (Logic_error ''incoming rejected object lacks prepared image authority''))
      | Stage_old \<Rightarrow>
          if (case find_capture (journaled_captures a) (rejected_path request) of
                None \<Rightarrow> True | Some c \<Rightarrow> \<not> for_rejected_object c)
          then Inl (Logic_error ''old rejected object lacks rejected capture authority'')
          else (case find (\<lambda>c. observation_path (captured_observation c) = rejected_path request)
                       (prepared_captures prepared) of
                  None \<Rightarrow> Inl (Logic_error ''old rejected object lacks completed capture evidence'')
                | Some captured \<Rightarrow> throw_if (capture_outcome captured \<noteq> Outcome_completed)
                    (Logic_error ''old rejected object lacks completed capture evidence''))
      | No_rejected \<Rightarrow> Inl (Logic_error ''invalid rejected-object source outcome''))"

definition validate_rejected_binding ::
  "('p, 'o, 'sel) prepared_application \<Rightarrow> ('p, 'o) application_request \<Rightarrow> ('p, 'o) state_projection \<Rightarrow>
   mutation_lease \<Rightarrow> error + unit" where
  "validate_rejected_binding prepared request state lease =
     validate_phase_binding (prepared_journaled prepared) request state lease [Prepared]
       ''rejected-object publication inputs differ from preparation''"

section \<open>Stopping\<close>

definition rejected_journal_state ::
  "attempt_outcome \<Rightarrow> ('p, 'o) rejected_effect list \<Rightarrow> journal_state" where
  "rejected_journal_state outcome effects =
     (if outcome = Attempt_indeterminate then Indeterminate
      else if outcome = Effects_visible_durability_unconfirmed \<or>
        (\<exists>e \<in> set effects. publication_outcome (rejected_result e) = Outcome_completed)
      then Effects_visible else Abandoned)"

definition rejected_publication_failed ::
  "('p, 'o) application_receipt \<Rightarrow> error + (('p, 'o) application_receipt, 'a) phase" where
  "rejected_publication_failed receipt =
     (if terminal_outcome receipt \<noteq> Failed_before_target_mutation \<and>
         terminal_outcome receipt \<noteq> Effects_visible_durability_unconfirmed \<and>
         terminal_outcome receipt \<noteq> Attempt_indeterminate
      then Inl (Invalid_argument ''rejected-publication failure has an invalid outcome'')
      else Inr (Phase_stopped receipt))"

definition fail_rejected_publication ::
  "('s, 'p::linorder, 'o, 'sel) engine \<Rightarrow> ('p, 'o, 'sel) prepared_application \<Rightarrow>
   ('p, 'o) application_request \<Rightarrow> ('p, 'o) state_projection \<Rightarrow> ('p, 'o) rejected_effect list \<Rightarrow>
   attempt_outcome \<Rightarrow> recovery_state \<Rightarrow> durability_status \<Rightarrow> digest list \<Rightarrow>
   ('s, (('p, 'o) application_receipt, 'a) phase) io" where
  "fail_rejected_publication W prepared request state effects outcome recovered status evidence =
     (let a = prepared_journaled prepared in
      io_bind (io_lift (rbind (rejected_path_consequences prepared (request_plan request) effects)
        (\<lambda>paths. rbind (with_rejected_durability (prepared_durability prepared) status) (\<lambda>durability.
        failed_receipt (engine_environment W) request (attempt_identity (journaled_attempt a))
          (projection_identity state) outcome recovered durability paths
          (Some (header_identity (journaled_header a))) evidence)))) (\<lambda>receipt.
      io_bind (journal_state_step W a (rejected_journal_state outcome effects)
        (Some (terminal_identity receipt)) None) (\<lambda>_.
      io_lift (rejected_publication_failed receipt))))"

section \<open>The published application\<close>

record ('p, 'o, 'sel) rejected_published =
  published_prepared :: "('p, 'o, 'sel) prepared_application"
  published_effects :: "('p, 'o) rejected_effect list"
  published_durability :: durability_profile
  published_evidence :: "digest list"

definition schedule_of_kind :: "effect_step_kind \<Rightarrow> ('p, 'o, 'sel) journaled_application \<Rightarrow> 'p effect_step list" where
  "schedule_of_kind kind a = filter (\<lambda>s. schedule_kind s = kind) (journaled_schedule a)"

definition same_domain_status ::
  "durability_profile \<Rightarrow> durability_profile \<Rightarrow> durability_domain \<Rightarrow> bool" where
  "same_domain_status a b domain \<longleftrightarrow> profile_status a domain = profile_status b domain"

definition rejected_boundary :: "('p, 'o, 'sel) rejected_published \<Rightarrow> bool" where
  "rejected_boundary r \<longleftrightarrow>
     (let durability = published_durability r;
          prepared = prepared_durability (published_prepared r) in
      (published_effects r \<noteq> [] \<longrightarrow>
         has_status durability Durable_rejected_store Durability_visible \<or>
         has_status durability Durable_rejected_store Durability_confirmed) \<and>
      same_domain_status durability prepared Durable_journal \<and>
      same_domain_status durability prepared Durable_incoming_staging \<and>
      same_domain_status durability prepared Durable_recovery_staging \<and>
      has_status durability Durable_active_namespace Durability_not_attempted \<and>
      has_status durability Durable_completed_evidence Durability_not_attempted)"

text \<open>One turn of the constructor's loop: the effect agrees with its step and has a record.\<close>

definition validate_rejected_effect ::
  "('p, 'o) rejected_effect \<Rightarrow> 'p effect_step \<Rightarrow> error + digest" where
  "validate_rejected_effect e s =
     (if rejected_path (rejected_request e) \<noteq> schedule_path s \<or>
         rejected_entry (rejected_request e) \<noteq> schedule_entry s
      then Inl (Invalid_argument
        ''rejected-published application effect order or source mismatch'')
      else case (publication_outcome (rejected_result e), publication_record (rejected_result e)) of
        (Outcome_completed, Some stored) \<Rightarrow> Inr stored
      | _ \<Rightarrow> Inl (Invalid_argument
          ''rejected-published application contains an incomplete effect''))"

definition make_rejected_published ::
  "('p, 'o, 'sel) rejected_published \<Rightarrow> error + ('p, 'o, 'sel) rejected_published" where
  "make_rejected_published r =
     (let a = prepared_journaled (published_prepared r);
          expected = schedule_of_kind Step_publish_rejected a; effects = published_effects r in
      if journaled_state a \<notin> {Mutating, Effects_visible, Result_observed, Recovery_pending, Recovering}
      then Inl (Invalid_argument ''rejected-published journal lacks replay mutation authority'')
      else if length effects \<noteq> length expected
      then Inl (Invalid_argument ''rejected-published application effect closure mismatch'')
      else rbind (rmap (\<lambda>(e, s). validate_rejected_effect e s) (zip effects expected)) (\<lambda>stored.
      if adjacent_equal (sort stored)
      then Inl (Invalid_argument ''rejected-published application reused a rejected record'')
      else if \<not> rejected_boundary r
      then Inl (Invalid_argument
        ''rejected-published application has an invalid durability boundary'')
      else
        let evidence = sort (published_evidence r) in
        if adjacent_equal evidence
        then Inl (Invalid_argument ''duplicate rejected-publication backend evidence'')
        else Inr (r\<lparr>published_evidence := evidence\<rparr>)))"

section \<open>Publication\<close>

text \<open>
  The loop over the schedule: \<open>Phase_stopped\<close> is the receipt of an outcome that is not a completion,
  \<open>Phase_done\<close> carries the prepared application, the effects, their durability and the evidence on to
  the synchronization.
\<close>

type_synonym ('p, 'o, 'sel) rejected_progress =
  "('p, 'o, 'sel) prepared_application \<times> ('p, 'o) rejected_effect list \<times> durability_status \<times> digest list"

definition publish_one_rejected ::
  "('s, 'p::linorder, 'o, 'sel) engine \<Rightarrow> ('p, 'o) operation_plan \<Rightarrow> 'p effect_step \<Rightarrow>
   ('p, 'o, 'sel) prepared_application \<Rightarrow>
   ('s, ('p, 'o) rejected_effect \<times> ('p, 'o, 'sel) prepared_application) io" where
  "publish_one_rejected W plan step prepared =
     io_bind (io_lift (find_decision plan (schedule_path step)
       ''rejected-object schedule path lacks a plan decision'')) (\<lambda>decision.
     io_bind (io_lift (rejected_command decision step)) (\<lambda>command.
     io_bind (io_lift (validate_rejected_source prepared command)) (\<lambda>_.
     io_bind (io_lift (find_effect (prepared_journaled prepared) Publish_rejected_object
       (Some (schedule_path step)))) (\<lambda>eff.
     io_bind (journal_intent W (prepared_journaled prepared) Mutating eff) (\<lambda>a.
     io_bind (tx_rejected (engine_transaction W) command) (\<lambda>result.
     io_bind (io_lift (terminal_event (publication_outcome result))) (\<lambda>event.
     io_bind (io_lift (encode_transition_fact (engine_environment W)
       (Fact_rejected (schedule_path step) result))) (\<lambda>replayed.
     io_bind (journal_event_step W a Mutating eff event (publication_evidence result) replayed None None)
       (\<lambda>a.
     io_return (\<lparr>rejected_request = command, rejected_result = result\<rparr>,
       prepared\<lparr>prepared_journaled := a\<rparr>))))))))))"

fun publish_rejected_loop ::
  "('s, 'p::linorder, 'o, 'sel) engine \<Rightarrow> ('p, 'o) application_request \<Rightarrow> ('p, 'o) state_projection \<Rightarrow>
   'p effect_step list \<Rightarrow> ('p, 'o, 'sel) rejected_progress \<Rightarrow>
   ('s, (('p, 'o) application_receipt, ('p, 'o, 'sel) rejected_progress) phase) io" where
  "publish_rejected_loop W request state [] progress = io_return (Phase_done progress)"
| "publish_rejected_loop W request state (step # steps) (prepared, effects, status, evidence) =
     (if schedule_kind step \<noteq> Step_publish_rejected
      then publish_rejected_loop W request state steps (prepared, effects, status, evidence)
      else
        io_bind (publish_one_rejected W (request_plan request) step prepared) (\<lambda>(eff, prepared).
        let evidence = append_unique_evidence evidence (publication_evidence (rejected_result eff));
            effects = effects @ [eff]; outcome = publication_outcome (rejected_result eff) in
        if outcome = Outcome_completed
        then publish_rejected_loop W request state steps
          (prepared, effects, Durability_visible, evidence)
        else if outcome = Outcome_indeterminate
        then fail_rejected_publication W prepared request state effects Attempt_indeterminate
          Requires_authoritative_observation Durability_indeterminate evidence
        else fail_rejected_publication W prepared request state effects
          Failed_before_target_mutation Recovery_unchanged status evidence))"

fun rejected_synchronization_event :: "durability_status \<Rightarrow> event_kind" where
  "rejected_synchronization_event Durability_confirmed = Completed"
| "rejected_synchronization_event Durability_indeterminate = Indeterminate_event"
| "rejected_synchronization_event _ = Failed"

definition synchronize_rejected_store ::
  "('s, 'p, 'o, 'sel) engine \<Rightarrow> ('p, 'o, 'sel) journaled_application \<Rightarrow>
   ('s, durability_status \<times> ('p, 'o, 'sel) journaled_application) io" where
  "synchronize_rejected_store W a =
     io_bind (io_lift (find_effect a Synchronize_rejected_store None)) (\<lambda>eff.
     io_bind (journal_intent W a Mutating eff) (\<lambda>a.
     io_bind (tx_synchronize (engine_transaction W) Durable_rejected_store) (\<lambda>synchronized.
     if fact_domain synchronized \<noteq> Durable_rejected_store
     then io_lift (Inl (Logic_error
       ''backend synchronized another rejected-object durability domain''))
     else if fact_status synchronized = Durability_not_attempted
     then io_lift (Inl (Logic_error
       ''backend reported an unattempted rejected-store synchronization''))
     else
       io_bind (io_lift (encode_transition_fact (engine_environment W)
         (Fact_synchronization synchronized))) (\<lambda>replayed.
       io_bind (journal_event_step W a Mutating eff
         (rejected_synchronization_event (fact_status synchronized)) [] replayed None None) (\<lambda>a.
       io_return (fact_status synchronized, a))))))"

definition finish_rejected ::
  "('p, 'o, 'sel) rejected_progress \<Rightarrow>
   error + (('p, 'o) application_receipt, ('p, 'o, 'sel) rejected_published) phase" where
  "finish_rejected progress =
     (let (prepared, effects, status, evidence) = progress in
      rbind (with_rejected_durability (prepared_durability prepared) status) (\<lambda>durability.
      rbind (make_rejected_published \<lparr>published_prepared = prepared, published_effects = effects,
               published_durability = durability, published_evidence = evidence\<rparr>) (\<lambda>r.
      Inr (Phase_done r))))"

definition complete_rejected ::
  "('s, 'p::linorder, 'o, 'sel) engine \<Rightarrow> ('p, 'o) application_request \<Rightarrow> ('p, 'o) state_projection \<Rightarrow>
   ('p, 'o, 'sel) rejected_progress \<Rightarrow>
   ('s, (('p, 'o) application_receipt, ('p, 'o, 'sel) rejected_published) phase) io" where
  "complete_rejected W request state progress =
     (let (prepared, effects, status, evidence) = progress in
      if effects = [] \<or> \<not> requires_namespace_synchronization (request_control request)
      then io_lift (finish_rejected progress)
      else
        io_bind (synchronize_rejected_store W (prepared_journaled prepared)) (\<lambda>(status, a).
        let prepared = prepared\<lparr>prepared_journaled := a\<rparr> in
        if status = Durability_confirmed
        then io_lift (finish_rejected (prepared, effects, status, evidence))
        else if status = Durability_indeterminate
        then fail_rejected_publication W prepared request state effects Attempt_indeterminate
          Requires_authoritative_observation status evidence
        else fail_rejected_publication W prepared request state effects
          Effects_visible_durability_unconfirmed Recovery_assets_retained status evidence))"

definition publish_rejected ::
  "('s, 'p::linorder, 'o, 'sel) engine \<Rightarrow> ('p, 'o, 'sel) prepared_application \<Rightarrow>
   ('p, 'o) application_request \<Rightarrow> ('p, 'o) state_projection \<Rightarrow> mutation_lease \<Rightarrow>
   ('s, (('p, 'o) application_receipt, ('p, 'o, 'sel) rejected_published) phase) io" where
  "publish_rejected W prepared request state lease =
     io_bind (io_lift (validate_rejected_binding prepared request state lease)) (\<lambda>_.
     io_bind (journal_state_step W (prepared_journaled prepared) Mutating None None) (\<lambda>a.
     let prepared = prepared\<lparr>prepared_journaled := a\<rparr> in
     io_bind (publish_rejected_loop W request state (journaled_schedule a)
       (prepared, [], Durability_not_attempted, prepared_evidence prepared)) (\<lambda>progress.
     case progress of
       Phase_stopped receipt \<Rightarrow> io_return (Phase_stopped receipt)
     | Phase_done progress \<Rightarrow> complete_rejected W request state progress)))"

end
