(* ===== verification/Activating.thy ===== *)
theory Activating
  imports Rejecting
begin

text \<open>
  Active execution of application_engine.cpp (\<open>execute_active_application_engine\<close>): the active effects
  of the schedule are executed in its order, each under an intent and a terminal event; a failed or
  indeterminate effect interrupts the application, and the active namespace is synchronized when an
  effect changed the target and the request asks for it.
\<close>

section \<open>Active effects\<close>

record 'p active_effect =
  effect_request :: "'p active_effect_request"
  effect_result :: operation_result

definition make_active_effect ::
  "'p active_effect_request \<Rightarrow> operation_result \<Rightarrow> error + 'p active_effect" where
  "make_active_effect request result =
     (if operation_outcome result = Outcome_conditional_retained \<and>
         active_outcome request \<noteq> Remove_directory_if_empty
      then Inl (Invalid_argument ''conditional active retention requires directory cleanup'')
      else Inr \<lparr>effect_request = request, effect_result = result\<rparr>)"

definition changed_target :: "'p active_effect \<Rightarrow> bool" where
  "changed_target e =
     (if operation_outcome (effect_result e) \<noteq> Outcome_completed then False
      else case active_outcome (effect_request e) of
        Activate_incoming \<Rightarrow> True | Remove_observed \<Rightarrow> True | Remove_directory_if_empty \<Rightarrow> True
      | Retain_observed \<Rightarrow> False | Remain_absent \<Rightarrow> False)"

definition semantically_complete :: "'p active_effect list \<Rightarrow> bool" where
  "semantically_complete effects \<longleftrightarrow> (\<forall>e \<in> set effects.
     operation_outcome (effect_result e) = Outcome_completed \<or>
     operation_outcome (effect_result e) = Outcome_conditional_retained)"

abbreviation published_journaled ::
  "('p, 'o, 'sel) rejected_published \<Rightarrow> ('p, 'o, 'sel) journaled_application" where
  "published_journaled r \<equiv> prepared_journaled (published_prepared r)"

definition with_journaled ::
  "('p, 'o, 'sel) rejected_published \<Rightarrow> ('p, 'o, 'sel) journaled_application \<Rightarrow>
   ('p, 'o, 'sel) rejected_published" where
  "with_journaled r a =
     r\<lparr>published_prepared := (published_prepared r)\<lparr>prepared_journaled := a\<rparr>\<rparr>"

definition validate_active_prefix ::
  "('p, 'o, 'sel) rejected_published \<Rightarrow> 'p active_effect list \<Rightarrow> bool \<Rightarrow> error + unit" where
  "validate_active_prefix r effects require_complete =
     (let expected = schedule_of_kind Step_publish_active (published_journaled r) in
      if require_complete \<and> length effects \<noteq> length expected \<or>
         \<not> require_complete \<and> length effects > length expected
      then Inl (Invalid_argument ''active application effect closure mismatch'')
      else throw_if (\<not> list_all2 (\<lambda>e s. active_path (effect_request e) = schedule_path s \<and>
          active_entry (effect_request e) = schedule_entry s) effects (take (length effects) expected))
        (Invalid_argument ''active application effect order or source mismatch''))"

definition validate_active_base ::
  "('p, 'o, 'sel) rejected_published \<Rightarrow> durability_profile \<Rightarrow> error + unit" where
  "validate_active_base r durability =
     (if \<exists>f \<in> set (profile_facts (published_durability r)).
           fact_domain f \<noteq> Durable_active_namespace \<and>
           \<not> has_status durability (fact_domain f) (fact_status f)
      then Inl (Invalid_argument ''active application changed an earlier durability domain'')
      else throw_if (\<not> has_status durability Durable_completed_evidence Durability_not_attempted)
        (Invalid_argument ''active application invented completed-evidence durability''))"

definition normalize_unique_evidence :: "digest list \<Rightarrow> string \<Rightarrow> error + digest list" where
  "normalize_unique_evidence evidence message =
     (let evidence = sort evidence in
      if adjacent_equal evidence then Inl (Invalid_argument message) else Inr evidence)"

section \<open>The two results\<close>

record ('p, 'o, 'sel) active_mutated =
  mutated_rejected :: "('p, 'o, 'sel) rejected_published"
  mutated_effects :: "'p active_effect list"
  mutated_durability :: durability_profile
  mutated_evidence :: "digest list"

definition make_active_mutated ::
  "('p, 'o, 'sel) active_mutated \<Rightarrow> error + ('p, 'o, 'sel) active_mutated" where
  "make_active_mutated m =
     (let r = mutated_rejected m; effects = mutated_effects m; durability = mutated_durability m;
          changed = (\<exists>e \<in> set effects. changed_target e) in
      if journaled_state (published_journaled r) \<notin> {Effects_visible, Result_observed}
      then Inl (Invalid_argument
        ''active-mutated application journal is not forward completable'')
      else
        rbind (validate_active_prefix r effects True) (\<lambda>_.
        if \<not> semantically_complete effects
        then Inl (Invalid_argument ''active-mutated application contains an incomplete effect'')
        else
          rbind (validate_active_base r durability) (\<lambda>_.
          rbind (profile_status durability Durable_active_namespace) (\<lambda>active.
          if \<not> changed \<and> active \<noteq> Durability_not_attempted \<or>
             changed \<and> active \<noteq> Durability_visible \<and> active \<noteq> Durability_confirmed
          then Inl (Invalid_argument
            ''active-mutated application has an invalid durability boundary'')
          else
            rbind (normalize_unique_evidence (mutated_evidence m)
              ''duplicate active-application backend evidence'') (\<lambda>evidence.
            Inr (m\<lparr>mutated_evidence := evidence\<rparr>))))))"

datatype interruption =
  Effect_interruption_failed | Effect_interruption_indeterminate | Durability_interruption_unconfirmed
| Durability_interruption_indeterminate | Observation_mismatch | Observation_indeterminate

record ('p, 'o, 'sel) active_interrupted =
  interrupted_rejected :: "('p, 'o, 'sel) rejected_published"
  interrupted_effects :: "'p active_effect list"
  interrupted_reason :: interruption
  interrupted_durability :: durability_profile
  interrupted_evidence :: "digest list"

definition interruption_indeterminate :: "interruption \<Rightarrow> bool" where
  "interruption_indeterminate i \<longleftrightarrow> i \<in> {Effect_interruption_indeterminate,
     Durability_interruption_indeterminate, Observation_indeterminate}"

definition effect_interruption :: "interruption \<Rightarrow> bool" where
  "effect_interruption i \<longleftrightarrow>
     i \<notin> {Durability_interruption_unconfirmed, Durability_interruption_indeterminate,
           Observation_mismatch, Observation_indeterminate}"

definition interruption_outcome :: "interruption \<Rightarrow> operation_outcome" where
  "interruption_outcome i =
     (if i = Effect_interruption_failed then Outcome_failed else Outcome_indeterminate)"

fun interruption_durability :: "interruption \<Rightarrow> durability_status \<Rightarrow> error + unit" where
  "interruption_durability Effect_interruption_failed active =
     throw_if (active \<noteq> Durability_not_attempted \<and> active \<noteq> Durability_visible)
       (Invalid_argument ''failed active effect has an invalid durability state'')"
| "interruption_durability Effect_interruption_indeterminate active =
     throw_if (active \<noteq> Durability_indeterminate)
       (Invalid_argument ''indeterminate active execution lacks indeterminate durability'')"
| "interruption_durability Durability_interruption_indeterminate active =
     throw_if (active \<noteq> Durability_indeterminate)
       (Invalid_argument ''indeterminate active execution lacks indeterminate durability'')"
| "interruption_durability Durability_interruption_unconfirmed active =
     throw_if (active \<noteq> Durability_unconfirmed)
       (Invalid_argument ''active durability failure lacks unconfirmed durability'')"
| "interruption_durability Observation_mismatch active =
     throw_if (active \<notin> {Durability_not_attempted, Durability_visible, Durability_confirmed})
       (Invalid_argument ''result observation interruption has invalid target durability'')"
| "interruption_durability Observation_indeterminate active =
     throw_if (active \<notin> {Durability_not_attempted, Durability_visible, Durability_confirmed})
       (Invalid_argument ''result observation interruption has invalid target durability'')"

definition make_active_interrupted ::
  "('p, 'o, 'sel) active_interrupted \<Rightarrow> error + ('p, 'o, 'sel) active_interrupted" where
  "make_active_interrupted m =
     (let r = interrupted_rejected m; effects = interrupted_effects m; reason = interrupted_reason m;
          durability = interrupted_durability m; state = journaled_state (published_journaled r) in
      if state \<noteq> Recovering \<and>
         state \<noteq> (if interruption_indeterminate reason then Indeterminate else Recovery_pending)
      then Inl (Invalid_argument ''interrupted active application has the wrong journal state'')
      else
        rbind (validate_active_prefix r effects (\<not> effect_interruption reason)) (\<lambda>_.
        if effects = [] \<and> effect_interruption reason
        then Inl (Invalid_argument ''active effect interruption contains no attempted effect'')
        else
          rbind (if \<not> effect_interruption reason
                 then throw_if (\<not> semantically_complete effects)
                   (Invalid_argument
                     ''active durability interruption contains an incomplete effect'')
                 else throw_if (operation_outcome (effect_result (last effects)) \<noteq>
                     interruption_outcome reason)
                   (Invalid_argument
                     ''active effect interruption contradicts its terminal outcome'')) (\<lambda>_.
          rbind (validate_active_base r durability) (\<lambda>_.
          rbind (profile_status durability Durable_active_namespace) (\<lambda>active.
          rbind (interruption_durability reason active) (\<lambda>_.
          rbind (normalize_unique_evidence (interrupted_evidence m)
            ''duplicate interrupted-active backend evidence'') (\<lambda>evidence.
          Inr (m\<lparr>interrupted_evidence := evidence\<rparr>))))))))"

section \<open>Requests\<close>

definition active_command ::
  "('p, 'o) path_decision \<Rightarrow> 'p effect_step \<Rightarrow> error + 'p active_effect_request" where
  "active_command decision step =
     (if decision_path decision \<noteq> schedule_path step
      then Inl (Logic_error ''active schedule decision path mismatch'')
      else case decision_active decision of
        Activate_incoming \<Rightarrow>
          if incoming_entry_of decision = None \<or> schedule_entry step \<noteq> incoming_entry_of decision
          then Inl (Logic_error ''incoming active schedule binding mismatch'')
          else make_active_request (decision_path decision) (decision_active decision)
            (incoming_entry_of decision)
      | Remove_observed \<Rightarrow>
          if schedule_entry step \<noteq> None
          then Inl (Logic_error ''destructive active effect gained incoming authority'')
          else make_active_request (decision_path decision) (decision_active decision) None
      | Remove_directory_if_empty \<Rightarrow>
          if schedule_entry step \<noteq> None
          then Inl (Logic_error ''destructive active effect gained incoming authority'')
          else make_active_request (decision_path decision) (decision_active decision) None
      | Retain_observed \<Rightarrow> Inl (Logic_error ''active schedule cites a no-op plan path'')
      | Remain_absent \<Rightarrow> Inl (Logic_error ''active schedule cites a no-op plan path''))"

definition validate_active_source ::
  "('p, 'o, 'sel) rejected_published \<Rightarrow> 'p active_effect_request \<Rightarrow> error + unit" where
  "validate_active_source r request =
     (if active_outcome request \<noteq> Activate_incoming
      then throw_if (active_entry request \<noteq> None)
        (Logic_error ''non-incoming active effect retained incoming authority'')
      else case (active_entry request, journaled_payloads (published_journaled r)) of
        (Some entry, Some payloads) \<Rightarrow>
          (case find (\<lambda>q. requirement_path q = active_path request) (payload_requirements payloads) of
             None \<Rightarrow> Inl (Logic_error
               ''incoming active object differs from prepared payload authority'')
           | Some item \<Rightarrow>
               throw_if (\<not> required_for_active item \<or> requirement_entry item \<noteq> entry)
                 (Logic_error ''incoming active object differs from prepared payload authority''))
      | _ \<Rightarrow> Inl (Logic_error ''incoming active object lacks prepared payload authority''))"

definition validate_active_binding ::
  "('p, 'o, 'sel) rejected_published \<Rightarrow> ('p, 'o) application_request \<Rightarrow> ('p, 'o) state_projection \<Rightarrow>
   mutation_lease \<Rightarrow> error + unit" where
  "validate_active_binding r request state lease =
     validate_phase_binding (published_journaled r) request state lease [Mutating]
       ''active execution inputs differ from rejected publication''"

definition with_active_durability ::
  "durability_profile \<Rightarrow> durability_status \<Rightarrow> error + durability_profile" where
  "with_active_durability previous active =
     with_domain_durability Durable_active_namespace previous active"

definition active_terminal_event :: "operation_outcome \<Rightarrow> error + event_kind" where
  "active_terminal_event outcome =
     (if outcome = Outcome_conditional_retained then Inr Completed else terminal_event outcome)"

section \<open>Execution\<close>

text \<open>\<open>Phase_stopped\<close> is an interruption here, \<open>Phase_done\<close> a completed active execution.\<close>

type_synonym ('p, 'o, 'sel) active_execution =
  "(('p, 'o, 'sel) active_interrupted, ('p, 'o, 'sel) active_mutated) phase"

definition interrupt_active ::
  "('s, 'p, 'o, 'sel) engine \<Rightarrow> ('p, 'o, 'sel) rejected_published \<Rightarrow> 'p active_effect list \<Rightarrow>
   interruption \<Rightarrow> durability_status \<Rightarrow> digest list \<Rightarrow> ('s, ('p, 'o, 'sel) active_interrupted) io" where
  "interrupt_active W r effects reason status evidence =
     io_bind (journal_state_step W (published_journaled r)
       (if reason = Effect_interruption_indeterminate \<or> reason = Durability_interruption_indeterminate
        then Indeterminate else Recovery_pending) None None) (\<lambda>a.
     io_lift (rbind (with_active_durability (published_durability r) status) (\<lambda>durability.
       make_active_interrupted \<lparr>interrupted_rejected = with_journaled r a,
         interrupted_effects = effects, interrupted_reason = reason,
         interrupted_durability = durability, interrupted_evidence = evidence\<rparr>)))"

definition execute_one_active ::
  "('s, 'p::linorder, 'o, 'sel) engine \<Rightarrow> ('p, 'o) operation_plan \<Rightarrow> 'p effect_step \<Rightarrow>
   ('p, 'o, 'sel) rejected_published \<Rightarrow>
   ('s, 'p active_effect \<times> ('p, 'o, 'sel) rejected_published) io" where
  "execute_one_active W plan step r =
     io_bind (io_lift (find_decision plan (schedule_path step)
       ''active schedule path lacks a plan decision'')) (\<lambda>decision.
     io_bind (io_lift (active_command decision step)) (\<lambda>command.
     io_bind (io_lift (validate_active_source r command)) (\<lambda>_.
     io_bind (io_lift (find_effect (published_journaled r) Publish_active_object
       (Some (schedule_path step)))) (\<lambda>eff.
     io_bind (journal_intent W (published_journaled r) Mutating eff) (\<lambda>a.
     io_bind (tx_active (engine_transaction W) command) (\<lambda>result.
     io_bind (io_lift (make_active_effect command result)) (\<lambda>applied.
     io_bind (io_lift (active_terminal_event (operation_outcome result))) (\<lambda>event.
     io_bind (io_lift (encode_transition_fact (engine_environment W)
       (Fact_active (schedule_path step) result))) (\<lambda>replayed.
     io_bind (journal_event_step W a Mutating eff event (operation_evidence result) replayed None None)
       (\<lambda>a.
     io_return (applied, with_journaled r a)))))))))))"

fun execute_active_loop ::
  "('s, 'p::linorder, 'o, 'sel) engine \<Rightarrow> ('p, 'o) operation_plan \<Rightarrow> 'p effect_step list \<Rightarrow>
   ('p, 'o, 'sel) rejected_published \<times> 'p active_effect list \<times> durability_status \<times> digest list \<Rightarrow>
   ('s, (('p, 'o, 'sel) active_interrupted,
         ('p, 'o, 'sel) rejected_published \<times> 'p active_effect list \<times> durability_status \<times> digest list)
        phase) io" where
  "execute_active_loop W plan [] progress = io_return (Phase_done progress)"
| "execute_active_loop W plan (step # steps) (r, effects, status, evidence) =
     (if schedule_kind step \<noteq> Step_publish_active
      then execute_active_loop W plan steps (r, effects, status, evidence)
      else
        io_bind (execute_one_active W plan step r) (\<lambda>(applied, r).
        let evidence = append_unique_evidence evidence (operation_evidence (effect_result applied));
            effects = effects @ [applied]; outcome = operation_outcome (effect_result applied);
            status = (if changed_target applied then Durability_visible else status) in
        if outcome = Outcome_completed \<or> outcome = Outcome_conditional_retained
        then execute_active_loop W plan steps (r, effects, status, evidence)
        else if outcome = Outcome_indeterminate
        then io_bind (interrupt_active W r effects Effect_interruption_indeterminate
               Durability_indeterminate evidence) (\<lambda>m. io_return (Phase_stopped m))
        else io_bind (interrupt_active W r effects Effect_interruption_failed status evidence)
               (\<lambda>m. io_return (Phase_stopped m))))"

definition synchronize_active_namespace ::
  "('s, 'p, 'o, 'sel) engine \<Rightarrow> ('p, 'o, 'sel) journaled_application \<Rightarrow>
   ('s, durability_status \<times> ('p, 'o, 'sel) journaled_application) io" where
  "synchronize_active_namespace W a =
     io_bind (io_lift (find_effect a Synchronize_active_namespace None)) (\<lambda>eff.
     io_bind (journal_intent W a Mutating eff) (\<lambda>a.
     io_bind (tx_synchronize (engine_transaction W) Durable_active_namespace) (\<lambda>synchronized.
     if fact_domain synchronized \<noteq> Durable_active_namespace
     then io_lift (Inl (Logic_error
       ''backend synchronized another active-namespace durability domain''))
     else if fact_status synchronized = Durability_not_attempted
     then io_lift (Inl (Logic_error
       ''backend reported an unattempted active-namespace synchronization''))
     else
       io_bind (io_lift (durability_event (fact_status synchronized))) (\<lambda>event.
       io_bind (io_lift (encode_transition_fact (engine_environment W)
         (Fact_synchronization synchronized))) (\<lambda>replayed.
       io_bind (journal_event_step W a Mutating eff event [] replayed None None) (\<lambda>a.
       io_return (fact_status synchronized, a)))))))"

definition finish_active ::
  "('s, 'p, 'o, 'sel) engine \<Rightarrow> ('p, 'o, 'sel) rejected_published \<Rightarrow> 'p active_effect list \<Rightarrow>
   durability_status \<Rightarrow> digest list \<Rightarrow> ('s, ('p, 'o, 'sel) active_execution) io" where
  "finish_active W r effects status evidence =
     io_bind (journal_state_step W (published_journaled r) Effects_visible None None) (\<lambda>a.
     io_lift (rbind (with_active_durability (published_durability r) status) (\<lambda>durability.
       rbind (make_active_mutated \<lparr>mutated_rejected = with_journaled r a, mutated_effects = effects,
                mutated_durability = durability, mutated_evidence = evidence\<rparr>) (\<lambda>m.
       Inr (Phase_done m)))))"

definition complete_active ::
  "('s, 'p, 'o, 'sel) engine \<Rightarrow> execution_control \<Rightarrow>
   ('p, 'o, 'sel) rejected_published \<times> 'p active_effect list \<times> durability_status \<times> digest list \<Rightarrow>
   ('s, ('p, 'o, 'sel) active_execution) io" where
  "complete_active W control progress =
     (let (r, effects, status, evidence) = progress in
      if status \<noteq> Durability_visible \<or> \<not> requires_namespace_synchronization control
      then finish_active W r effects status evidence
      else
        io_bind (synchronize_active_namespace W (published_journaled r)) (\<lambda>(synchronized, a).
        let r = with_journaled r a in
        if synchronized = Durability_confirmed
        then finish_active W r effects Durability_confirmed evidence
        else
          let indeterminate = (synchronized = Durability_indeterminate) in
          io_bind (interrupt_active W r effects
            (if indeterminate then Durability_interruption_indeterminate
             else Durability_interruption_unconfirmed)
            (if indeterminate then Durability_indeterminate else Durability_unconfirmed) evidence)
            (\<lambda>m. io_return (Phase_stopped m))))"

definition execute_active ::
  "('s, 'p::linorder, 'o, 'sel) engine \<Rightarrow> ('p, 'o, 'sel) rejected_published \<Rightarrow>
   ('p, 'o) application_request \<Rightarrow> ('p, 'o) state_projection \<Rightarrow> mutation_lease \<Rightarrow>
   ('s, ('p, 'o, 'sel) active_execution) io" where
  "execute_active W r request state lease =
     io_bind (io_lift (validate_active_binding r request state lease)) (\<lambda>_.
     io_bind (execute_active_loop W (request_plan request) (journaled_schedule (published_journaled r))
       (r, [], Durability_not_attempted, published_evidence r)) (\<lambda>progress.
     case progress of
       Phase_stopped m \<Rightarrow> io_return (Phase_stopped m)
     | Phase_done progress \<Rightarrow> complete_active W (request_control request) progress))"

end
