(* ===== verification/Completing.thy ===== *)
theory Completing
  imports Activating
begin

text \<open>
  Completion of application_engine.cpp (\<open>complete_application_engine\<close>): the result paths are observed
  once, every path is compared with what the plan asked for, the completed evidence is published
  and synchronized, and the receipt is sealed.  A mismatch interrupts the application; a failure to
  publish or synchronize the evidence seals a receipt that is not a completion.
\<close>

section \<open>Comparing observations\<close>

datatype observation_match = Match_matched | Match_mismatch | Match_indeterminate

definition match_expected_fact :: "'v qualified_fact \<Rightarrow> 'v \<Rightarrow> observation_match" where
  "match_expected_fact observed expected =
     (case observed of
        Fact_known v \<Rightarrow> if v = expected then Match_matched else Match_mismatch
      | Fact_unknown \<Rightarrow> Match_indeterminate
      | Fact_not_applicable \<Rightarrow> Match_mismatch)"

definition merge_match :: "observation_match \<Rightarrow> observation_match \<Rightarrow> observation_match" where
  "merge_match lhs rhs =
     (if lhs = Match_mismatch \<or> rhs = Match_mismatch then Match_mismatch
      else if lhs = Match_indeterminate \<or> rhs = Match_indeterminate then Match_indeterminate
      else Match_matched)"

definition match_expected_digest :: "digest qualified_fact \<Rightarrow> bytes \<Rightarrow> observation_match" where
  "match_expected_digest observed expected =
     (case observed of
        Fact_known v \<Rightarrow> if equal_regular_content v expected then Match_matched else Match_mismatch
      | Fact_unknown \<Rightarrow> Match_indeterminate
      | Fact_not_applicable \<Rightarrow> Match_mismatch)"

definition match_retained_fact :: "'v qualified_fact \<Rightarrow> 'v qualified_fact \<Rightarrow> observation_match" where
  "match_retained_fact prior after =
     (case prior of
        Fact_known v \<Rightarrow> match_expected_fact after v
      | Fact_unknown \<Rightarrow> if after = Fact_not_applicable then Match_mismatch else Match_matched
      | Fact_not_applicable \<Rightarrow> if after = Fact_not_applicable then Match_matched else Match_mismatch)"

fun entry_kind :: "image_entry_type \<Rightarrow> completed_object_kind" where
  "entry_kind Entry_regular = Object_regular"
| "entry_kind Entry_hardlink = Object_regular"
| "entry_kind Entry_directory = Object_directory"
| "entry_kind Entry_symlink = Object_symlink"
| "entry_kind Entry_fifo = Object_fifo"
| "entry_kind Entry_character_device = Object_character_device"
| "entry_kind Entry_block_device = Object_block_device"

definition match_entry_device ::
  "completed_device_number qualified_fact \<Rightarrow> (u64 \<times> u64) option \<Rightarrow> error + observation_match" where
  "match_entry_device observed device =
     (case device of
        None \<Rightarrow> Inl (Logic_error ''device image entry lacks device number'')
      | Some (major, minor) \<Rightarrow>
          Inr (match_expected_fact observed \<lparr>device_major = major, device_minor = minor\<rparr>))"

definition match_entry_hardlink ::
  "('p, 'o) environment \<Rightarrow> 'p qualified_fact \<Rightarrow> bytes option \<Rightarrow> error + observation_match" where
  "match_entry_hardlink E observed target =
     (case target of
        None \<Rightarrow> Inl (Logic_error ''hard-link image entry lacks anchor'')
      | Some t \<Rightarrow> Inr (case observed of
          Fact_unknown \<Rightarrow> Match_indeterminate
        | Fact_not_applicable \<Rightarrow> Match_mismatch
        | Fact_known anchor \<Rightarrow> if path_string E anchor = t then Match_matched else Match_mismatch))"

text \<open>The part of \<open>match_incoming_entry\<close> that depends on the type of the entry.\<close>

definition match_entry_payload ::
  "('p, 'o) environment \<Rightarrow> 'p completed_object_fact \<Rightarrow> image_entry \<Rightarrow> error + observation_match" where
  "match_entry_payload E obj entry =
     (case entry_type entry of
        Entry_regular \<Rightarrow>
          (case entry_content entry of
             None \<Rightarrow> Inl (Logic_error ''regular image entry lacks content identity'')
           | Some content \<Rightarrow> Inr (merge_match (match_expected_fact (object_size obj) (entry_size entry))
               (match_expected_digest (object_content obj) content)))
      | Entry_directory \<Rightarrow> Inr Match_matched
      | Entry_fifo \<Rightarrow> Inr Match_matched
      | Entry_symlink \<Rightarrow>
          (case entry_symlink_target entry of
             None \<Rightarrow> Inl (Logic_error ''symlink image entry lacks target'')
           | Some target \<Rightarrow> Inr (match_expected_fact (object_symlink_target obj) target))
      | Entry_hardlink \<Rightarrow> match_entry_hardlink E (object_hardlink obj) (entry_hardlink entry)
      | Entry_character_device \<Rightarrow> match_entry_device (object_device obj) (entry_device entry)
      | Entry_block_device \<Rightarrow> match_entry_device (object_device obj) (entry_device entry))"

definition match_incoming_entry ::
  "('p, 'o) environment \<Rightarrow> 'p path_observation \<Rightarrow> image_entry \<Rightarrow> error + observation_match" where
  "match_incoming_entry E observed entry =
     (if observation_state observed = State_unknown then Inr Match_indeterminate
      else case (observation_state observed, observation_object observed) of
        (State_known, Some obj) \<Rightarrow>
          if object_provenance obj \<noteq> Application_observation
          then Inl (Logic_error
            ''backend result object lacks application-observation provenance'')
          else if path_string E (object_path obj) \<noteq> entry_path entry \<or>
             object_kind obj \<noteq> entry_kind (entry_type entry)
          then Inr Match_mismatch
          else
            rbind (match_entry_payload E obj entry) (\<lambda>payload.
            Inr (merge_match (merge_match (merge_match (merge_match
              (match_expected_fact (object_mode obj) (entry_mode entry))
              (match_expected_fact (object_uid obj) (entry_uid entry)))
              (match_expected_fact (object_gid obj) (entry_gid entry)))
              (match_expected_fact (object_mtime obj)
                \<lparr>timestamp_seconds = entry_mtime entry,
                 timestamp_nanoseconds = entry_mtime_nanoseconds entry\<rparr>)) payload))
      | _ \<Rightarrow> Inr Match_mismatch)"

definition match_retained_object ::
  "'p completed_object_fact \<Rightarrow> 'p completed_object_fact \<Rightarrow> error + observation_match" where
  "match_retained_object expected observed =
     (if object_provenance observed \<noteq> Application_observation
      then Inl (Logic_error ''backend result object lacks application-observation provenance'')
      else if object_path expected \<noteq> object_path observed \<or> object_kind expected \<noteq> object_kind observed
      then Inr Match_mismatch
      else Inr (fold (\<lambda>m match. merge_match match m)
        [match_retained_fact (object_mode expected) (object_mode observed),
         match_retained_fact (object_uid expected) (object_uid observed),
         match_retained_fact (object_gid expected) (object_gid observed),
         match_retained_fact (object_size expected) (object_size observed),
         match_retained_fact (object_mtime expected) (object_mtime observed),
         match_retained_fact (object_content expected) (object_content observed),
         match_retained_fact (object_symlink_target expected) (object_symlink_target observed),
         match_retained_fact (object_device expected) (object_device observed),
         match_retained_fact (object_hardlink expected) (object_hardlink observed)]
        Match_matched))"

definition match_retained_observation ::
  "'p path_observation \<Rightarrow> 'p path_observation \<Rightarrow> error + observation_match" where
  "match_retained_observation prior after =
     (if observation_path prior \<noteq> observation_path after
      then Inl (Logic_error ''result observation changed logical path'')
      else if observation_state after = State_unknown \<or> observation_state prior = State_unknown
      then Inr Match_indeterminate
      else if observation_state prior = State_not_applicable
      then Inr (if observation_state after = State_not_applicable then Match_matched
                else Match_mismatch)
      else case (observation_state after, observation_object prior, observation_object after) of
        (State_known, Some expected, Some observed) \<Rightarrow> match_retained_object expected observed
      | _ \<Rightarrow> Inr Match_mismatch)"

section \<open>The result of a path\<close>

definition find_active_effect :: "'p active_effect list \<Rightarrow> 'p \<Rightarrow> 'p active_effect option" where
  "find_active_effect effects path = find (\<lambda>e. active_path (effect_request e) = path) effects"

definition find_rejected_effect ::
  "('p, 'o) rejected_effect list \<Rightarrow> 'p \<Rightarrow> ('p, 'o) rejected_effect option" where
  "find_rejected_effect effects path = find (\<lambda>e. rejected_path (rejected_request e) = path) effects"

fun completion_effect_status :: "operation_outcome \<Rightarrow> effect_status" where
  "completion_effect_status Outcome_completed = Effect_completed"
| "completion_effect_status Outcome_conditional_retained = Conditional_retained"
| "completion_effect_status Outcome_failed = Effect_failed"
| "completion_effect_status Outcome_indeterminate = Effect_indeterminate"

definition matched_if :: "bool \<Rightarrow> observation_match" where
  "matched_if b = (if b then Match_matched else Match_mismatch)"

definition match_result_observation ::
  "('p, 'o) environment \<Rightarrow> 'p active_effect list \<Rightarrow> ('p, 'o) path_decision \<Rightarrow> 'p path_observation \<Rightarrow>
   'p path_observation \<Rightarrow> package_image option \<Rightarrow> error + observation_match" where
  "match_result_observation E effects decision prior after img =
     (if observation_state after = State_unknown then Inr Match_indeterminate
      else case decision_active decision of
        Activate_incoming \<Rightarrow>
          (case (img, incoming_entry_of decision) of
             (Some i, Some number) \<Rightarrow>
               (case image_entry i number of
                  None \<Rightarrow> Inl (Logic_error ''incoming result observation cites an absent image entry'')
                | Some entry \<Rightarrow> match_incoming_entry E after entry)
           | _ \<Rightarrow> Inl (Logic_error ''incoming result observation lacks image authority''))
      | Retain_observed \<Rightarrow> match_retained_observation prior after
      | Remove_observed \<Rightarrow> Inr (matched_if (observation_state after = State_not_applicable))
      | Remain_absent \<Rightarrow> Inr (matched_if (observation_state after = State_not_applicable))
      | Remove_directory_if_empty \<Rightarrow>
          (case find_active_effect effects (decision_path decision) of
             None \<Rightarrow> Inl (Logic_error ''conditional cleanup result lacks its active effect'')
           | Some e \<Rightarrow>
               if operation_outcome (effect_result e) = Outcome_conditional_retained
               then match_retained_observation prior after
               else Inr (matched_if (observation_state after = State_not_applicable))))"

definition completed_path_consequence ::
  "('p, 'o, 'sel) active_mutated \<Rightarrow> ('p, 'o) path_decision \<Rightarrow> 'p path_observation \<Rightarrow>
   'p path_observation \<Rightarrow> publication_status \<Rightarrow> error + ('p, 'o) path_consequence" where
  "completed_path_consequence m decision prior after pub =
     (let active = find_active_effect (mutated_effects m) (decision_path decision);
          rejected = find_rejected_effect (published_effects (mutated_rejected m))
            (decision_path decision) in
      rbind (case rejected of None \<Rightarrow> Inr Not_attempted
         | Some e \<Rightarrow> rejected_effect_status (publication_outcome (rejected_result e))) (\<lambda>status.
      make_consequence
        \<lparr>consequence_path = decision_path decision, consequence_role = rejected_path_role decision,
         requested_active = decision_active decision,
         requested_rejected = decision_rejected decision,
         consequence_entry = incoming_entry_of decision,
         consequence_ownership = decision_ownership decision,
         active_status = (case active of None \<Rightarrow> Effect_completed
           | Some e \<Rightarrow> completion_effect_status (operation_outcome (effect_result e))),
         rejected_status = status, consequence_before = prior, consequence_after = after,
         rejected_object = (case rejected of None \<Rightarrow> None
           | Some e \<Rightarrow> publication_record (rejected_result e)), publication = pub\<rparr>))"

definition result_paths :: "('p, 'o) operation_plan \<Rightarrow> 'p list" where
  "result_paths plan = map decision_path (plan_paths plan)"

definition with_evidence_durability ::
  "durability_profile \<Rightarrow> durability_status \<Rightarrow> error + durability_profile" where
  "with_evidence_durability previous completed =
     with_domain_durability Durable_completed_evidence previous completed"

definition ineligible_paths ::
  "('p, 'o) path_consequence list \<Rightarrow> error + ('p, 'o) path_consequence list" where
  "ineligible_paths paths = rmap (\<lambda>c. make_consequence (c\<lparr>publication := Ineligible\<rparr>)) paths"

section \<open>Bindings and receipts\<close>

definition validate_completion_binding ::
  "('p, 'o, 'sel) active_mutated \<Rightarrow> ('p, 'o) application_request \<Rightarrow> ('p, 'o) state_projection \<Rightarrow>
   mutation_lease \<Rightarrow> package_image option \<Rightarrow> error + unit" where
  "validate_completion_binding m request state lease img =
     (let a = published_journaled (mutated_rejected m) in
      rbind (validate_phase_binding a request state lease [Effects_visible, Result_observed]
        ''application completion inputs differ from active execution'') (\<lambda>_.
      case img of
        Some i \<Rightarrow>
          throw_if (case journaled_payloads a of None \<Rightarrow> True
              | Some p \<Rightarrow> payload_image p \<noteq> image_identity i)
            (Invalid_argument ''application completion image differs from prepared payloads'')
      | None \<Rightarrow>
          throw_if (journaled_payloads a \<noteq> None)
            (Invalid_argument ''archive-free completion retained incoming payload authority'')))"

definition make_completed_evidence ::
  "('p::linorder, 'o) environment \<Rightarrow> ('p, 'o) application_request \<Rightarrow> ('p, 'o, 'sel) journaled_application \<Rightarrow>
   ('p, 'o) state_projection \<Rightarrow> ('p, 'o) path_consequence list \<Rightarrow> durability_profile \<Rightarrow> digest list \<Rightarrow>
   error + ('p, 'o) completed_evidence" where
  "make_completed_evidence E request a state paths durability evidence =
     completed_application_evidence E request (attempt_identity (journaled_attempt a))
       (projection_identity state) (header_identity (journaled_header a)) paths durability evidence"

definition completion_failure_receipt ::
  "('p::linorder, 'o) environment \<Rightarrow> ('p, 'o) application_request \<Rightarrow> ('p, 'o, 'sel) journaled_application \<Rightarrow>
   ('p, 'o) state_projection \<Rightarrow> attempt_outcome \<Rightarrow> recovery_state \<Rightarrow> durability_profile \<Rightarrow>
   ('p, 'o) path_consequence list \<Rightarrow> digest list \<Rightarrow> error + ('p, 'o) application_receipt" where
  "completion_failure_receipt E request a state outcome recovered durability paths evidence =
     rbind (ineligible_paths paths) (\<lambda>paths.
     failed_receipt E request (attempt_identity (journaled_attempt a)) (projection_identity state)
       outcome recovered durability paths (Some (header_identity (journaled_header a))) evidence)"

definition seal_terminal_receipt ::
  "('s, 'p, 'o, 'sel) engine \<Rightarrow> ('p, 'o, 'sel) journaled_application \<Rightarrow> journal_state \<Rightarrow>
   ('p, 'o) application_receipt \<Rightarrow> digest option \<Rightarrow> ('s, ('p, 'o, 'sel) journaled_application) io" where
  "seal_terminal_receipt W a state receipt evidence =
     io_bind (io_lift (find_effect a Seal_receipt None)) (\<lambda>seal.
     io_bind (journal_intent W a (journaled_state a) seal) (\<lambda>a.
     journal_event_step W a state seal Completed [] [] (Some (terminal_identity receipt)) evidence))"

section \<open>Observing the result\<close>

definition mutated_journaled ::
  "('p, 'o, 'sel) active_mutated \<Rightarrow> ('p, 'o, 'sel) journaled_application \<Rightarrow> ('p, 'o, 'sel) active_mutated" where
  "mutated_journaled m a = m\<lparr>mutated_rejected := with_journaled (mutated_rejected m) a\<rparr>"

fun intend_observations ::
  "('s, 'p, 'o, 'sel) engine \<Rightarrow> ('p, 'o) path_decision list \<Rightarrow> ('p, 'o, 'sel) journaled_application \<Rightarrow>
   ('s, ('p, 'o, 'sel) journaled_application) io" where
  "intend_observations W [] a = io_return a"
| "intend_observations W (d # decisions) a =
     io_bind (io_lift (find_effect a Observe_result (Some (decision_path d)))) (\<lambda>eff.
     io_bind (journal_intent W a Effects_visible eff) (intend_observations W decisions))"

fun observation_event :: "observation_match \<Rightarrow> event_kind" where
  "observation_event Match_matched = Completed"
| "observation_event Match_mismatch = Failed"
| "observation_event Match_indeterminate = Indeterminate_event"

text \<open>The loop body: one decision is matched and its event published; a match adds a consequence.\<close>

definition settle_observation ::
  "('s, 'p::linorder, 'o, 'sel) engine \<Rightarrow> package_image option \<Rightarrow> 'p observation_batch \<Rightarrow>
   ('p, 'o) path_decision \<Rightarrow> ('p, 'o, 'sel) active_mutated \<Rightarrow>
   ('s, observation_match \<times> ('p, 'o) path_consequence list \<times> ('p, 'o, 'sel) active_mutated) io" where
  "settle_observation W img observed d m =
     (let a = published_journaled (mutated_rejected m) in
      case (find_observation (check_observations (journaled_preconditions a)) (decision_path d),
            find_observation observed (decision_path d)) of
        (Some prior, Some after) \<Rightarrow>
          io_bind (io_lift (match_result_observation (engine_environment W) (mutated_effects m) d
            prior after img)) (\<lambda>match.
          io_bind (io_lift (find_effect a Observe_result (Some (decision_path d)))) (\<lambda>eff.
          io_bind (journal_event_step W a Effects_visible eff (observation_event match)
            (batch_evidence observed) [] None None) (\<lambda>a.
          let m = mutated_journaled m a in
          if match = Match_matched
          then io_bind (io_lift (completed_path_consequence m d prior after Eligible)) (\<lambda>c.
            io_return (match, [c], m))
          else io_return (match, [], m))))
      | _ \<Rightarrow> io_lift (Inl (Logic_error ''result observation lacks admitted path closure'')))"

fun settle_observations ::
  "('s, 'p::linorder, 'o, 'sel) engine \<Rightarrow> package_image option \<Rightarrow> 'p observation_batch \<Rightarrow>
   ('p, 'o) path_decision list \<Rightarrow>
   observation_match list \<times> ('p, 'o) path_consequence list \<times> ('p, 'o, 'sel) active_mutated \<Rightarrow>
   ('s, observation_match list \<times> ('p, 'o) path_consequence list \<times> ('p, 'o, 'sel) active_mutated) io" where
  "settle_observations W img observed [] progress = io_return progress"
| "settle_observations W img observed (d # decisions) (matches, paths, m) =
     io_bind (settle_observation W img observed d m) (\<lambda>(match, more_paths, m).
     settle_observations W img observed decisions (matches @ [match], paths @ more_paths, m))"

text \<open>The result of completion: a sealed receipt, or an interruption.\<close>

type_synonym ('p, 'o, 'sel) completion =
  "(('p, 'o) application_receipt, ('p, 'o, 'sel) active_interrupted) phase"

definition interrupt_completion ::
  "('s, 'p, 'o, 'sel) engine \<Rightarrow> ('p, 'o, 'sel) active_mutated \<Rightarrow> bool \<Rightarrow> digest list \<Rightarrow>
   ('s, ('p, 'o, 'sel) completion) io" where
  "interrupt_completion W m indeterminate evidence =
     io_bind (journal_state_step W (published_journaled (mutated_rejected m))
       (if indeterminate then Indeterminate else Recovery_pending) None None) (\<lambda>a.
     io_lift (rbind (make_active_interrupted
       \<lparr>interrupted_rejected = with_journaled (mutated_rejected m) a,
        interrupted_effects = mutated_effects m,
        interrupted_reason = (if indeterminate then Observation_indeterminate
                              else Observation_mismatch),
        interrupted_durability = mutated_durability m, interrupted_evidence = evidence\<rparr>)
       (\<lambda>i. Inr (Phase_done i))))"

section \<open>Publishing and synchronizing the evidence\<close>

text \<open>
  The two failures of the completed evidence, at publication and at synchronization, seal a receipt
  with the same outcome, recovery and journal state.
\<close>

definition seal_unconfirmed ::
  "('s, 'p::linorder, 'o, 'sel) engine \<Rightarrow> ('p, 'o) application_request \<Rightarrow> ('p, 'o) state_projection \<Rightarrow>
   ('p, 'o, 'sel) active_mutated \<Rightarrow> ('p, 'o, 'sel) journaled_application \<Rightarrow>
   ('p, 'o) path_consequence list \<Rightarrow> digest list \<Rightarrow> bool \<Rightarrow>
   ('s, ('p, 'o) application_receipt) io" where
  "seal_unconfirmed W request state m a paths evidence uncertain =
     io_bind (io_lift (rbind (with_evidence_durability (mutated_durability m)
         (if uncertain then Durability_indeterminate else Durability_unconfirmed)) (\<lambda>durability.
       completion_failure_receipt (engine_environment W) request a state
         (if uncertain then Attempt_indeterminate else Effects_visible_durability_unconfirmed)
         (if uncertain then Requires_authoritative_observation else Recovery_assets_retained)
         durability paths evidence))) (\<lambda>receipt.
     io_bind (seal_terminal_receipt W a (if uncertain then Indeterminate else Effects_visible)
       receipt None) (\<lambda>_.
     io_return receipt))"

definition publish_evidence ::
  "('s, 'p, 'o, 'sel) engine \<Rightarrow> ('p, 'o) completed_evidence \<Rightarrow> ('p, 'o, 'sel) journaled_application \<Rightarrow>
   ('s, publication_result \<times> ('p, 'o, 'sel) journaled_application) io" where
  "publish_evidence W completed a =
     io_bind (io_lift (find_effect a Publish_completed_evidence None)) (\<lambda>eff.
     io_bind (journal_intent W a Result_observed eff) (\<lambda>a.
     io_bind (tx_evidence (engine_transaction W) completed) (\<lambda>result.
     if publication_outcome result = Outcome_completed \<and>
        publication_record result \<noteq> Some (evidence_identity completed)
     then io_lift (Inl (Logic_error ''backend published another completed-evidence record''))
     else
       io_bind (io_lift (terminal_event (publication_outcome result))) (\<lambda>event.
       io_bind (io_lift (if publication_outcome result = Outcome_completed
         then encode_transition_fact (engine_environment W) (Fact_evidence completed)
         else Inr [])) (\<lambda>replayed.
       io_bind (journal_event_step W a Result_observed eff event (publication_evidence result)
         replayed None None) (\<lambda>a.
       io_return (result, a)))))))"

definition synchronize_evidence ::
  "('s, 'p, 'o, 'sel) engine \<Rightarrow> ('p, 'o, 'sel) journaled_application \<Rightarrow>
   ('s, durability_status \<times> ('p, 'o, 'sel) journaled_application) io" where
  "synchronize_evidence W a =
     io_bind (io_lift (find_effect a Synchronize_completed_evidence None)) (\<lambda>eff.
     io_bind (journal_intent W a Result_observed eff) (\<lambda>a.
     io_bind (tx_synchronize (engine_transaction W) Durable_completed_evidence) (\<lambda>synchronized.
     if fact_domain synchronized \<noteq> Durable_completed_evidence
     then io_lift (Inl (Logic_error ''backend synchronized another completed-evidence domain''))
     else if fact_status synchronized = Durability_not_attempted
     then io_lift (Inl (Logic_error
       ''backend reported unattempted completed-evidence durability''))
     else
       io_bind (io_lift (durability_event (fact_status synchronized))) (\<lambda>event.
       io_bind (io_lift (encode_transition_fact (engine_environment W)
         (Fact_synchronization synchronized))) (\<lambda>replayed.
       io_bind (journal_event_step W a Result_observed eff event [] replayed None None) (\<lambda>a.
       io_return (fact_status synchronized, a)))))))"

definition seal_completion ::
  "('s, 'p::linorder, 'o, 'sel) engine \<Rightarrow> ('p, 'o, 'sel) active_mutated \<Rightarrow>
   ('p, 'o, 'sel) journaled_application \<Rightarrow> ('p, 'o) completed_evidence \<Rightarrow> digest list \<Rightarrow>
   ('s, ('p, 'o) application_receipt) io" where
  "seal_completion W m a completed evidence =
     io_bind (io_lift (completed_receipt (engine_environment W) completed
       (if prepared_captures (published_prepared (mutated_rejected m)) = [] then Recovery_unchanged
        else Recovery_assets_retained) evidence)) (\<lambda>receipt.
     io_bind (seal_terminal_receipt W a Application_completed receipt
       (Some (evidence_identity completed))) (\<lambda>_.
     io_return receipt))"

definition conclude_application ::
  "('s, 'p::linorder, 'o, 'sel) engine \<Rightarrow> ('p, 'o) application_request \<Rightarrow> ('p, 'o) state_projection \<Rightarrow>
   ('p, 'o, 'sel) active_mutated \<Rightarrow> ('p, 'o) path_consequence list \<Rightarrow> digest list \<Rightarrow>
   ('s, ('p, 'o) application_receipt) io" where
  "conclude_application W request state m paths evidence =
     io_bind (journal_state_step W (published_journaled (mutated_rejected m)) Result_observed None None)
       (\<lambda>a.
     io_bind (io_lift (rbind (with_evidence_durability (mutated_durability m) Durability_confirmed)
       (\<lambda>durability. make_completed_evidence (engine_environment W) request a state paths durability
          evidence))) (\<lambda>completed.
     io_bind (publish_evidence W completed a) (\<lambda>(result, a).
     let evidence = append_unique_evidence evidence (publication_evidence result) in
     if publication_outcome result \<noteq> Outcome_completed
     then seal_unconfirmed W request state m a paths evidence
       (publication_outcome result = Outcome_indeterminate)
     else
       io_bind (synchronize_evidence W a) (\<lambda>(status, a).
       if status \<noteq> Durability_confirmed
       then seal_unconfirmed W request state m a paths evidence (status = Durability_indeterminate)
       else seal_completion W m a completed evidence))))"

definition complete_application ::
  "('s, 'p::linorder, 'o, 'sel) engine \<Rightarrow> ('p, 'o, 'sel) active_mutated \<Rightarrow>
   ('p, 'o) application_request \<Rightarrow> ('p, 'o) state_projection \<Rightarrow> mutation_lease \<Rightarrow>
   package_image option \<Rightarrow> ('s, ('p, 'o, 'sel) completion) io" where
  "complete_application W m request state lease img =
     (let plan = request_plan request in
      io_bind (io_lift (validate_completion_binding m request state lease img)) (\<lambda>_.
      io_bind (intend_observations W (plan_paths plan) (published_journaled (mutated_rejected m))) (\<lambda>a.
      io_bind (tx_observe (engine_transaction W) (result_paths plan)) (\<lambda>observed.
      let evidence = append_unique_evidence (mutated_evidence m) (batch_evidence observed) in
      io_bind (settle_observations W img observed (plan_paths plan) ([], [], mutated_journaled m a))
        (\<lambda>(matches, paths, m).
      let indeterminate = (Match_indeterminate \<in> set matches) in
      if Match_mismatch \<in> set matches \<or> indeterminate
      then interrupt_completion W m indeterminate evidence
      else io_bind (conclude_application W request state m paths evidence)
             (\<lambda>receipt. io_return (Phase_stopped receipt)))))))"

end
