(* ===== verification/Recovering.thy ===== *)
theory Recovering
  imports Completing
begin

text \<open>
  Recovery of application_engine.cpp (\<open>recover_application_engine\<close>): the effects of an interrupted
  application that changed the target, or may have, are undone in reverse order, the recovered
  namespace is synchronized, and a receipt of the failure is sealed.
\<close>

section \<open>Candidates\<close>

record 'p recovery_effect =
  recovery_path :: 'p
  recovery_result :: operation_result
  recovery_exact :: bool

definition find_recovery_effect :: "'p recovery_effect list \<Rightarrow> 'p \<Rightarrow> 'p recovery_effect option" where
  "find_recovery_effect effects path = find (\<lambda>e. recovery_path e = path) effects"

abbreviation interrupted_journaled ::
  "('p, 'o, 'sel) active_interrupted \<Rightarrow> ('p, 'o, 'sel) journaled_application" where
  "interrupted_journaled i \<equiv> published_journaled (interrupted_rejected i)"

definition find_completed_capture ::
  "('p, 'o, 'sel) active_interrupted \<Rightarrow> 'p \<Rightarrow> 'p capture_result option" where
  "find_completed_capture i path =
     find (\<lambda>c. observation_path (captured_observation c) = path \<and> capture_outcome c = Outcome_completed)
       (prepared_captures (published_prepared (interrupted_rejected i)))"

definition admitted_observation ::
  "('p::linorder, 'o, 'sel) journaled_application \<Rightarrow> 'p \<Rightarrow> 'p path_observation option" where
  "admitted_observation a path =
     find_observation (check_observations (journaled_preconditions a)) path"

definition recovery_is_exact ::
  "('p::linorder, 'o, 'sel) active_interrupted \<Rightarrow> 'p \<Rightarrow> error + bool" where
  "recovery_is_exact i path =
     (case admitted_observation (interrupted_journaled i) path of
        None \<Rightarrow> Inl (Logic_error ''recovery path lacks admitted observation'')
      | Some prior \<Rightarrow>
          if observation_state prior = State_not_applicable then Inr True
          else if observation_state prior \<noteq> State_known then Inr False
          else Inr (case find_completed_capture i path of
            None \<Rightarrow> False | Some c \<Rightarrow> exact_recovery_possible c))"

text \<open>The target changed, or may have.\<close>

definition needs_recovery :: "'p active_effect \<Rightarrow> bool" where
  "needs_recovery e \<longleftrightarrow>
     changed_target e \<or> operation_outcome (effect_result e) = Outcome_indeterminate"

definition recovery_candidates ::
  "('p, 'o, 'sel) active_interrupted \<Rightarrow> 'p active_effect list" where
  "recovery_candidates i = filter needs_recovery (rev (interrupted_effects i))"

section \<open>Consequences\<close>

definition recovered_after ::
  "'p active_effect option \<Rightarrow> 'p recovery_effect list \<Rightarrow> 'p path_observation \<Rightarrow>
   error + 'p path_observation" where
  "recovered_after active recoveries prior =
     (case active of
        None \<Rightarrow> Inr prior
      | Some e \<Rightarrow>
          if needs_recovery e \<and>
             (case find_recovery_effect recoveries (active_path (effect_request e)) of
                None \<Rightarrow> True
              | Some r \<Rightarrow> operation_outcome (recovery_result r) \<noteq> Outcome_completed \<or>
                          \<not> recovery_exact r)
          then observation_unknown (active_path (effect_request e))
          else Inr prior)"

definition recovery_path_consequence ::
  "('p::linorder, 'o, 'sel) active_interrupted \<Rightarrow> 'p recovery_effect list \<Rightarrow> ('p, 'o) path_decision \<Rightarrow>
   error + ('p, 'o) path_consequence" where
  "recovery_path_consequence i recoveries decision =
     (let path = decision_path decision; active = find_active_effect (interrupted_effects i) path;
          rejected = find_rejected_effect (published_effects (interrupted_rejected i)) path in
      case admitted_observation (interrupted_journaled i) path of
        None \<Rightarrow> Inl (Logic_error ''failure consequence lacks admitted observation'')
      | Some prior \<Rightarrow>
          rbind (recovered_after active recoveries prior) (\<lambda>after.
          rbind (case rejected of None \<Rightarrow> Inr Not_attempted
             | Some e \<Rightarrow> rejected_effect_status (publication_outcome (rejected_result e))) (\<lambda>status.
          make_consequence
            \<lparr>consequence_path = path, consequence_role = rejected_path_role decision,
             requested_active = decision_active decision,
             requested_rejected = decision_rejected decision,
             consequence_entry = incoming_entry_of decision,
             consequence_ownership = decision_ownership decision,
             active_status = (case active of None \<Rightarrow> Not_attempted
               | Some e \<Rightarrow> completion_effect_status (operation_outcome (effect_result e))),
             rejected_status = status, consequence_before = prior, consequence_after = after,
             rejected_object = (case rejected of None \<Rightarrow> None
               | Some e \<Rightarrow> publication_record (rejected_result e)), publication = Ineligible\<rparr>)))"

definition touched_decision ::
  "('p, 'o, 'sel) active_interrupted \<Rightarrow> ('p, 'o) path_decision \<Rightarrow> bool" where
  "touched_decision i d \<longleftrightarrow>
     find_active_effect (interrupted_effects i) (decision_path d) \<noteq> None \<or>
     find_rejected_effect (published_effects (interrupted_rejected i)) (decision_path d) \<noteq> None"

definition recovery_path_consequences ::
  "('p::linorder, 'o, 'sel) active_interrupted \<Rightarrow> ('p, 'o) operation_plan \<Rightarrow> 'p recovery_effect list \<Rightarrow>
   error + ('p, 'o) path_consequence list" where
  "recovery_path_consequences i plan recoveries =
     rmap (recovery_path_consequence i recoveries) (filter (touched_decision i) (plan_paths plan))"

section \<open>Sealing\<close>

definition validate_recovery_binding ::
  "('p, 'o, 'sel) active_interrupted \<Rightarrow> ('p, 'o) application_request \<Rightarrow> ('p, 'o) state_projection \<Rightarrow>
   mutation_lease \<Rightarrow> error + unit" where
  "validate_recovery_binding i request state lease =
     validate_phase_binding (interrupted_journaled i) request state lease
       [if interruption_indeterminate (interrupted_reason i) then Indeterminate else Recovery_pending,
        Recovering] ''recovery inputs differ from interrupted active execution''"

definition terminal_failure_state ::
  "('p, 'o, 'sel) active_interrupted \<Rightarrow> attempt_outcome \<Rightarrow> error + journal_state" where
  "terminal_failure_state i outcome =
     (case outcome of
        Failed_fully_recovered \<Rightarrow> Inr Recovered
      | Effects_visible_durability_unconfirmed \<Rightarrow> Inr Effects_visible
      | Failed_with_partial_effects \<Rightarrow> Inr Effects_visible
      | Attempt_indeterminate \<Rightarrow> Inr Indeterminate
      | Failed_before_target_mutation \<Rightarrow>
          Inr (if \<exists>e \<in> set (published_effects (interrupted_rejected i)).
                    publication_outcome (rejected_result e) = Outcome_completed
               then Effects_visible else Abandoned)
      | Precondition_refused \<Rightarrow> Inl (Logic_error ''invalid terminal recovery outcome'')
      | Attempt_completed \<Rightarrow> Inl (Logic_error ''invalid terminal recovery outcome''))"

definition seal_recovery_receipt ::
  "('s, 'p::linorder, 'o, 'sel) engine \<Rightarrow> ('p, 'o, 'sel) active_interrupted \<Rightarrow>
   ('p, 'o) application_request \<Rightarrow> ('p, 'o) state_projection \<Rightarrow> attempt_outcome \<Rightarrow> recovery_state \<Rightarrow>
   durability_profile \<Rightarrow> 'p recovery_effect list \<Rightarrow> digest list \<Rightarrow>
   ('s, ('p, 'o) application_receipt) io" where
  "seal_recovery_receipt W i request state outcome recovered durability recoveries evidence =
     (let a = interrupted_journaled i in
      io_bind (io_lift (rbind (recovery_path_consequences i (request_plan request) recoveries) (\<lambda>paths.
        failed_receipt (engine_environment W) request (attempt_identity (journaled_attempt a))
          (projection_identity state) outcome recovered durability paths
          (Some (header_identity (journaled_header a))) evidence))) (\<lambda>receipt.
      io_bind (io_lift (terminal_failure_state i outcome)) (\<lambda>terminal.
      io_bind (journal_state_step W a terminal (Some (terminal_identity receipt)) None) (\<lambda>_.
      io_return receipt))))"

definition observation_interruption :: "interruption \<Rightarrow> bool" where
  "observation_interruption reason \<longleftrightarrow> reason = Observation_mismatch \<or> reason = Observation_indeterminate"

text \<open>The receipt of an interruption that leaves nothing to undo.\<close>

definition seal_without_candidates ::
  "('s, 'p::linorder, 'o, 'sel) engine \<Rightarrow> ('p, 'o, 'sel) active_interrupted \<Rightarrow>
   ('p, 'o) application_request \<Rightarrow> ('p, 'o) state_projection \<Rightarrow> ('s, ('p, 'o) application_receipt) io" where
  "seal_without_candidates W i request state =
     (if observation_interruption (interrupted_reason i)
      then seal_recovery_receipt W i request state Attempt_indeterminate
        Requires_authoritative_observation (interrupted_durability i) [] (interrupted_evidence i)
      else seal_recovery_receipt W i request state Failed_before_target_mutation Recovery_unchanged
        (interrupted_durability i) [] (interrupted_evidence i))"

text \<open>The receipt of an interruption whose request selects no recovery.\<close>

definition seal_without_recovery ::
  "('s, 'p::linorder, 'o, 'sel) engine \<Rightarrow> ('p, 'o, 'sel) active_interrupted \<Rightarrow>
   ('p, 'o) application_request \<Rightarrow> ('p, 'o) state_projection \<Rightarrow> ('s, ('p, 'o) application_receipt) io" where
  "seal_without_recovery W i request state =
     (if interruption_indeterminate (interrupted_reason i)
      then seal_recovery_receipt W i request state Attempt_indeterminate
        Requires_authoritative_observation (interrupted_durability i) [] (interrupted_evidence i)
      else if interrupted_reason i = Durability_interruption_unconfirmed
      then seal_recovery_receipt W i request state Effects_visible_durability_unconfirmed
        Recovery_not_representable (interrupted_durability i) [] (interrupted_evidence i)
      else seal_recovery_receipt W i request state Failed_with_partial_effects
        Known_residual_effects (interrupted_durability i) [] (interrupted_evidence i))"

section \<open>Undoing\<close>

definition interrupted_with ::
  "('p, 'o, 'sel) active_interrupted \<Rightarrow> ('p, 'o, 'sel) journaled_application \<Rightarrow>
   ('p, 'o, 'sel) active_interrupted" where
  "interrupted_with i a = i\<lparr>interrupted_rejected := with_journaled (interrupted_rejected i) a\<rparr>"

definition recover_one ::
  "('s, 'p::linorder, 'o, 'sel) engine \<Rightarrow> 'p \<Rightarrow> ('p, 'o, 'sel) active_interrupted \<Rightarrow>
   ('s, 'p recovery_effect \<times> ('p, 'o, 'sel) active_interrupted) io" where
  "recover_one W path i =
     io_bind (io_lift (recovery_is_exact i path)) (\<lambda>exact.
     io_bind (io_lift (find_effect (interrupted_journaled i) Recover_active_object (Some path))) (\<lambda>eff.
     io_bind (journal_intent W (interrupted_journaled i) Recovering eff) (\<lambda>a.
     io_bind (tx_recover (engine_transaction W) path) (\<lambda>result.
     io_bind (io_lift (terminal_event (operation_outcome result))) (\<lambda>event.
     io_bind (io_lift (encode_transition_fact (engine_environment W) (Fact_recovery path result)))
       (\<lambda>replayed.
     io_bind (journal_event_step W a Recovering eff event (operation_evidence result) replayed
       None None) (\<lambda>a.
     io_return (\<lparr>recovery_path = path, recovery_result = result, recovery_exact = exact\<rparr>,
       interrupted_with i a))))))))"

text \<open>The loop stops after the first recovery that did not complete.\<close>

fun recover_loop ::
  "('s, 'p::linorder, 'o, 'sel) engine \<Rightarrow> 'p active_effect list \<Rightarrow>
   'p recovery_effect list \<times> digest list \<times> ('p, 'o, 'sel) active_interrupted \<Rightarrow>
   ('s, 'p recovery_effect list \<times> digest list \<times> ('p, 'o, 'sel) active_interrupted) io" where
  "recover_loop W [] progress = io_return progress"
| "recover_loop W (e # candidates) (recoveries, evidence, i) =
     io_bind (recover_one W (active_path (effect_request e)) i) (\<lambda>(r, i).
     let evidence = append_unique_evidence evidence (operation_evidence (recovery_result r));
         recoveries = recoveries @ [r] in
     if operation_outcome (recovery_result r) = Outcome_completed
     then recover_loop W candidates (recoveries, evidence, i)
     else io_return (recoveries, evidence, i))"

definition synchronize_recovered ::
  "('s, 'p, 'o, 'sel) engine \<Rightarrow> durability_profile \<Rightarrow> ('p, 'o, 'sel) active_interrupted \<Rightarrow>
   ('s, durability_profile \<times> ('p, 'o, 'sel) active_interrupted) io" where
  "synchronize_recovered W durability i =
     io_bind (io_lift (find_effect (interrupted_journaled i) Synchronize_recovered_namespace None)) (\<lambda>eff.
     io_bind (journal_intent W (interrupted_journaled i) Recovering eff) (\<lambda>a.
     io_bind (tx_synchronize (engine_transaction W) Durable_active_namespace) (\<lambda>synchronized.
     if fact_domain synchronized \<noteq> Durable_active_namespace
     then io_lift (Inl (Logic_error ''backend synchronized another recovered namespace domain''))
     else if fact_status synchronized = Durability_not_attempted
     then io_lift (Inl (Logic_error
       ''backend reported unattempted recovered namespace durability''))
     else
       io_bind (io_lift (durability_event (fact_status synchronized))) (\<lambda>event.
       io_bind (io_lift (encode_transition_fact (engine_environment W)
         (Fact_synchronization synchronized))) (\<lambda>replayed.
       io_bind (journal_event_step W a Recovering eff event [] replayed None None) (\<lambda>a.
       io_lift (rbind (with_active_durability durability (fact_status synchronized)) (\<lambda>durability.
         Inr (durability, interrupted_with i a)))))))))"

section \<open>Recovery\<close>

definition recovery_outcome ::
  "interruption \<Rightarrow> 'p recovery_effect list \<Rightarrow> attempt_outcome \<times> recovery_state" where
  "recovery_outcome reason recoveries =
     (let all_recovered = (\<forall>r \<in> set recoveries. operation_outcome (recovery_result r) = Outcome_completed);
          all_exact = (\<forall>r \<in> set recoveries. recovery_exact r);
          recovery_indeterminate =
            (\<exists>r \<in> set recoveries. operation_outcome (recovery_result r) = Outcome_indeterminate) in
      if all_recovered \<and> all_exact then (Failed_fully_recovered, Exact_prior_state_restored)
      else if interruption_indeterminate reason \<or> recovery_indeterminate \<or>
        all_recovered \<and> \<not> all_exact
      then (Attempt_indeterminate, Requires_authoritative_observation)
      else (Failed_with_partial_effects, Known_residual_effects))"

definition undo_interrupted ::
  "('s, 'p::linorder, 'o, 'sel) engine \<Rightarrow> ('p, 'o, 'sel) active_interrupted \<Rightarrow>
   ('p, 'o) application_request \<Rightarrow> ('p, 'o) state_projection \<Rightarrow> ('s, ('p, 'o) application_receipt) io" where
  "undo_interrupted W i request state =
     (let candidates = recovery_candidates i in
      io_bind (journal_state_step W (interrupted_journaled i) Recovering None None) (\<lambda>a.
      io_bind (recover_loop W candidates ([], interrupted_evidence i, interrupted_with i a))
        (\<lambda>(recoveries, evidence, i).
      io_bind (io_lift (if \<exists>r \<in> set recoveries.
            operation_outcome (recovery_result r) = Outcome_completed
          then with_active_durability (interrupted_durability i) Durability_visible
          else Inr (interrupted_durability i))) (\<lambda>durability.
      io_bind (if (\<forall>r \<in> set recoveries. operation_outcome (recovery_result r) = Outcome_completed) \<and>
            requires_namespace_synchronization (request_control request)
          then synchronize_recovered W durability i else io_return (durability, i))
        (\<lambda>(durability, i).
      let (outcome, recovered) = recovery_outcome (interrupted_reason i) recoveries in
      seal_recovery_receipt W i request state outcome recovered durability recoveries evidence)))))"

definition recover_interrupted ::
  "('s, 'p::linorder, 'o, 'sel) engine \<Rightarrow> ('p, 'o, 'sel) active_interrupted \<Rightarrow>
   ('p, 'o) application_request \<Rightarrow> ('p, 'o) state_projection \<Rightarrow> mutation_lease \<Rightarrow>
   ('s, ('p, 'o) application_receipt) io" where
  "recover_interrupted W i request state lease =
     io_bind (io_lift (validate_recovery_binding i request state lease)) (\<lambda>_.
     if recovery_candidates i = [] then seal_without_candidates W i request state
     else if \<not> recovery_selected (request_control request) then seal_without_recovery W i request state
     else undo_interrupted W i request state)"

end
