(* ===== verification/Applying.thy ===== *)
theory Applying
  imports Recovering
begin

text \<open>
  The entry points of apply.cpp: one application from admission to its receipt.  Every phase either
  hands its value to the next one or ends the application with a receipt; an interrupted active
  execution and an interrupted completion both end in recovery.
\<close>

definition finish_completion ::
  "('s, 'p::linorder, 'o, 'sel) engine \<Rightarrow> ('p, 'o) application_request \<Rightarrow> ('p, 'o) state_projection \<Rightarrow>
   mutation_lease \<Rightarrow> ('p, 'o, 'sel) completion \<Rightarrow> ('s, ('p, 'o) application_receipt) io" where
  "finish_completion W request state lease completion =
     (case completion of
        Phase_stopped receipt \<Rightarrow> io_return receipt
      | Phase_done i \<Rightarrow> recover_interrupted W i request state lease)"

text \<open>From a prepared application on, the three entry points run the same phases.\<close>

definition apply_prepared ::
  "('s, 'p::linorder, 'o, 'sel) engine \<Rightarrow> ('p, 'o) application_request \<Rightarrow> ('p, 'o) state_projection \<Rightarrow>
   mutation_lease \<Rightarrow> package_image option \<Rightarrow>
   (('p, 'o) application_receipt, ('p, 'o, 'sel) prepared_application) phase \<Rightarrow>
   ('s, ('p, 'o) application_receipt) io" where
  "apply_prepared W request state lease img preparation =
     (case preparation of
        Phase_stopped receipt \<Rightarrow> io_return receipt
      | Phase_done prepared \<Rightarrow>
          io_bind (publish_rejected W prepared request state lease) (\<lambda>publication.
          case publication of
            Phase_stopped receipt \<Rightarrow> io_return receipt
          | Phase_done published \<Rightarrow>
              io_bind (execute_active W published request state lease) (\<lambda>active.
              case active of
                Phase_stopped i \<Rightarrow> recover_interrupted W i request state lease
              | Phase_done m \<Rightarrow>
                  io_bind (complete_application W m request state lease img)
                    (finish_completion W request state lease))))"

definition apply_incoming ::
  "('s, 'p::linorder, 'o, 'sel) engine \<Rightarrow> ('p, 'o) application_request \<Rightarrow> incoming_authority \<Rightarrow>
   ('p, 'o) state_projection \<Rightarrow> mutation_lease \<Rightarrow> mutation_backend \<Rightarrow> package_archive \<Rightarrow>
   ('s, backend_transaction option) io \<Rightarrow> ('s, ('p, 'o) application_receipt) io" where
  "apply_incoming W request incoming state lease backend archive begin_transaction =
     io_bind (admit_incoming_application W request incoming state lease backend archive
       begin_transaction) (\<lambda>admission.
     case admission of
       Phase_stopped receipt \<Rightarrow> io_return receipt
     | Phase_done admitted \<Rightarrow>
         io_bind (journal_incoming_application W admitted request state lease (archive_image archive))
           (\<lambda>a.
         io_bind (prepare_with_archive W a request state lease archive)
           (apply_prepared W request state lease (Some (archive_image archive)))))"

definition apply_removal ::
  "('s, 'p::linorder, 'o, 'sel) engine \<Rightarrow> ('p, 'o) application_request \<Rightarrow> ('p, 'o) state_projection \<Rightarrow>
   mutation_lease \<Rightarrow> mutation_backend \<Rightarrow> ('s, backend_transaction option) io \<Rightarrow>
   ('s, ('p, 'o) application_receipt) io" where
  "apply_removal W request state lease backend begin_transaction =
     io_bind (admit_removal_application W request state lease backend begin_transaction) (\<lambda>admission.
     case admission of
       Phase_stopped receipt \<Rightarrow> io_return receipt
     | Phase_done admitted \<Rightarrow>
         io_bind (journal_removal_application W admitted request state lease) (\<lambda>a.
         io_bind (prepare_removal W a request state lease)
           (apply_prepared W request state lease None)))"

end
