(* ===== verification/Tracing.thy ===== *)
theory Tracing
  imports Applying
begin

text \<open>
  A calculus for the engine's phases, and a recording engine.  \<open>traced_engine W\<close> behaves as \<open>W\<close>
  and writes down, in the order they happen, the declaration and every step the store acknowledged,
  every cursor it committed, and every call of the backend that may change something outside.  The phases of the
  engine are polymorphic in the outside world, so a statement about the traced engine is one about
  the engine over any backend and any store.
\<close>

section \<open>Triples over a trace\<close>

definition ends_in ::
  "('a \<Rightarrow> 'c list \<Rightarrow> bool) \<Rightarrow> ('c list \<Rightarrow> bool) \<Rightarrow> (error + 'a) \<times> 's \<times> 'c list \<Rightarrow> bool" where
  "ends_in Q E r = (case r of (Inr x, s, tr) \<Rightarrow> Q x tr | (Inl e, s, tr) \<Rightarrow> E tr)"

lemma ends_in_simps [simp]:
  "ends_in Q E (Inr x, s, tr) = Q x tr"
  "ends_in Q E (Inl e, s, tr) = E tr"
  by (simp_all add: ends_in_def)

definition triple ::
  "('c list \<Rightarrow> bool) \<Rightarrow> ('s \<times> 'c list, 'a) io \<Rightarrow> ('a \<Rightarrow> 'c list \<Rightarrow> bool) \<Rightarrow> ('c list \<Rightarrow> bool) \<Rightarrow> bool" where
  "triple P m Q E \<longleftrightarrow> (\<forall>s tr. P tr \<longrightarrow>
     ends_in Q E (m (s, tr)) \<and> (\<exists>rest. snd (snd (m (s, tr))) = tr @ rest))"

lemma tripleI:
  assumes "\<And>s tr. P tr \<Longrightarrow> ends_in Q E (m (s, tr)) \<and> (\<exists>rest. snd (snd (m (s, tr))) = tr @ rest)"
  shows "triple P m Q E"
  using assms unfolding triple_def by blast

lemma tripleD:
  "triple P m Q E \<Longrightarrow> P tr \<Longrightarrow> ends_in Q E (m (s, tr))"
  "triple P m Q E \<Longrightarrow> P tr \<Longrightarrow> \<exists>rest. snd (snd (m (s, tr))) = tr @ rest"
  unfolding triple_def by blast+

lemma triple_bind:
  assumes m: "triple P m R E" and f: "\<And>x. triple (R x) (f x) Q E"
  shows "triple P (io_bind m f) Q E"
proof (rule tripleI)
  fix s tr
  assume P: "P tr"
  obtain r s' tr' where run: "m (s, tr) = (r, s', tr')" by (metis prod.collapse)
  then have R: "ends_in R E (r, s', tr')" and "\<exists>rest. tr' = tr @ rest"
    using tripleD [OF m P, of s] by simp_all
  then obtain rest where rest: "tr' = tr @ rest" by blast
  show "ends_in Q E (io_bind m f (s, tr)) \<and> (\<exists>rest. snd (snd (io_bind m f (s, tr))) = tr @ rest)"
  proof (cases r)
    case (Inl e)
    then show ?thesis using R rest by (simp add: io_bind_def run)
  next
    case (Inr x)
    then have "ends_in Q E (f x (s', tr'))" "\<exists>more. snd (snd (f x (s', tr'))) = tr' @ more"
      using R tripleD [OF f, of x tr' s'] by simp_all
    then show ?thesis using rest by (auto simp: io_bind_def run Inr)
  qed
qed

lemma triple_return: "(\<And>tr. P tr \<Longrightarrow> Q x tr) \<Longrightarrow> triple P (io_return x) Q E"
  by (rule tripleI) simp

lemma triple_lift:
  "(\<And>x tr. r = Inr x \<Longrightarrow> P tr \<Longrightarrow> Q x tr) \<Longrightarrow> (\<And>tr. P tr \<Longrightarrow> E tr) \<Longrightarrow>
   triple P (io_lift r) Q E"
  by (rule tripleI, cases r) simp_all

lemma triple_stop: "(\<And>tr. P tr \<Longrightarrow> E tr) \<Longrightarrow> triple P (io_lift (Inl e)) Q E"
  by (rule tripleI) simp

lemma triple_bind_lift:
  "(\<And>x. r = Inr x \<Longrightarrow> triple P (f x) Q E) \<Longrightarrow> (\<And>tr. P tr \<Longrightarrow> E tr) \<Longrightarrow>
   triple P (io_bind (io_lift r) f) Q E"
  by (cases r) (auto intro: triple_stop)

lemma triple_consequence:
  assumes "triple P m Q E" and "\<And>tr. P' tr \<Longrightarrow> P tr" and "\<And>x tr. Q x tr \<Longrightarrow> Q' x tr"
    and "\<And>tr. E tr \<Longrightarrow> E' tr"
  shows "triple P' m Q' E'"
proof (rule tripleI)
  fix s tr
  assume "P' tr"
  then have "ends_in Q E (m (s, tr)) \<and> (\<exists>rest. snd (snd (m (s, tr))) = tr @ rest)"
    using assms(2) tripleD [OF assms(1)] by simp
  then show "ends_in Q' E' (m (s, tr)) \<and> (\<exists>rest. snd (snd (m (s, tr))) = tr @ rest)"
    using assms(3,4) by (auto simp: ends_in_def split: prod.splits sum.splits)
qed

lemma triple_pure:
  "(C \<Longrightarrow> triple P m Q E) \<Longrightarrow> triple (\<lambda>tr. P tr \<and> C) m Q E"
  by (auto simp: triple_def)

lemma triple_check:
  "(\<And>tr. P tr \<Longrightarrow> Q x tr) \<Longrightarrow> (\<And>tr. P tr \<Longrightarrow> E tr) \<Longrightarrow>
   triple P (\<lambda>s. if C s then (Inl e, s) else (Inr x, s)) Q E"
  by (rule tripleI) simp

lemma triple_if:
  "(C \<Longrightarrow> triple P m Q E) \<Longrightarrow> (\<not> C \<Longrightarrow> triple P n Q E) \<Longrightarrow> triple P (if C then m else n) Q E"
  by simp

section \<open>The recording engine\<close>

datatype 'p call =
  Declared "'p journal_effect list" | Stored journal_step | Committed journal_cursor
| Called effect_kind "'p option" | Staging | Synchronizing durability_domain

definition traced :: "('s, 'a) io \<Rightarrow> ('s \<times> 'c list, 'a) io" where
  "traced m = (\<lambda>(s, tr). case m s of (r, s') \<Rightarrow> (r, s', tr))"

definition noted :: "'c \<Rightarrow> ('s, 'a) io \<Rightarrow> ('s \<times> 'c list, 'a) io" where
  "noted c m = (\<lambda>(s, tr). case m s of (r, s') \<Rightarrow> (r, s', tr @ [c]))"

definition acknowledged :: "('a \<Rightarrow> 'c) \<Rightarrow> ('s, 'a) io \<Rightarrow> ('s \<times> 'c list, 'a) io" where
  "acknowledged c m = (\<lambda>(s, tr). case m s of
     (Inr x, s') \<Rightarrow> (Inr x, s', tr @ [c x]) | (Inl e, s') \<Rightarrow> (Inl e, s', tr))"

definition traced_store ::
  "('s, 'p, 'o) journal_store \<Rightarrow> ('s \<times> 'p call list, 'p, 'o) journal_store" where
  "traced_store store =
     \<lparr>publish_declaration = (\<lambda>d. acknowledged (\<lambda>d. Declared (declaration_effects d))
        (publish_declaration store d)),
      publish_step = (\<lambda>step. acknowledged Stored (publish_step store step)),
      compare_and_publish_cursor = (\<lambda>expected c.
        acknowledged (\<lambda>_. Committed c) (compare_and_publish_cursor store expected c)),
      load_declaration = (\<lambda>i. traced (load_declaration store i)),
      load_cursor = (\<lambda>i. traced (load_cursor store i)),
      load_step = (\<lambda>i n. traced (load_step store i n))\<rparr>"

definition traced_transaction ::
  "('s, 'p, 'o, 'sel) transaction \<Rightarrow> ('s \<times> 'p call list, 'p, 'o, 'sel) transaction" where
  "traced_transaction tx =
     \<lparr>tx_observe = (\<lambda>paths. traced (tx_observe tx paths)),
      tx_capture = (\<lambda>r. noted (Called Capture_old_object (Some (capture_path r))) (tx_capture tx r)),
      tx_begin_stage = (\<lambda>img sel. noted Staging (tx_begin_stage tx img sel)),
      tx_seal = (\<lambda>stage. noted Staging (tx_seal tx stage)),
      tx_sealed = (\<lambda>stage (s, tr). tx_sealed tx stage s),
      tx_abandon = (\<lambda>stage (s, tr). (tx_abandon tx stage s, tr)),
      tx_rejected = (\<lambda>r. noted (Called Publish_rejected_object (Some (rejected_path r)))
        (tx_rejected tx r)),
      tx_active = (\<lambda>r. noted (Called Publish_active_object (Some (active_path r))) (tx_active tx r)),
      tx_evidence = (\<lambda>e. noted (Called Publish_completed_evidence None) (tx_evidence tx e)),
      tx_recover = (\<lambda>path. noted (Called Recover_active_object (Some path)) (tx_recover tx path)),
      tx_synchronize = (\<lambda>d. noted (Synchronizing d) (tx_synchronize tx d))\<rparr>"

definition traced_engine ::
  "('s, 'p, 'o, 'sel) engine \<Rightarrow> ('s \<times> 'p call list, 'p, 'o, 'sel) engine" where
  "traced_engine W =
     \<lparr>engine_environment = engine_environment W, engine_store = traced_store (engine_store W),
      engine_transaction = traced_transaction (engine_transaction W),
      archive_replay = (\<lambda>archive sel stage. noted Staging (archive_replay W archive sel stage)),
      selection_from_ids = selection_from_ids W, selection_size = selection_size W,
      selection_validate = selection_validate W\<rparr>"

lemma traced_engine_simps [simp]:
  "engine_environment (traced_engine W) = engine_environment W"
  "engine_store (traced_engine W) = traced_store (engine_store W)"
  "engine_transaction (traced_engine W) = traced_transaction (engine_transaction W)"
  "archive_replay (traced_engine W) archive sel stage =
     noted Staging (archive_replay W archive sel stage)"
  "selection_from_ids (traced_engine W) = selection_from_ids W"
  "selection_size (traced_engine W) = selection_size W"
  "selection_validate (traced_engine W) = selection_validate W"
  by (simp_all add: traced_engine_def)

lemma triple_traced: "(\<And>tr. P tr \<Longrightarrow> E tr) \<Longrightarrow> triple P (traced m) (\<lambda>x. P) E"
  by (rule tripleI) (auto simp: traced_def ends_in_def split: prod.splits sum.splits)

lemma triple_noted:
  "(\<And>tr. P tr \<Longrightarrow> Q (tr @ [c])) \<Longrightarrow> (\<And>tr. Q tr \<Longrightarrow> E tr) \<Longrightarrow>
   triple P (noted c m) (\<lambda>x. Q) E"
  by (rule tripleI) (auto simp: noted_def ends_in_def split: prod.splits sum.splits)

section \<open>Licences\<close>

text \<open>
  What is durable after a trace: the events of the steps that were stored and then named by a
  committed cursor.  An effect is open when its only durable event is its intent.
\<close>

fun note_call ::
  "journal_step option \<times> journal_event list \<Rightarrow> 'p call \<Rightarrow> journal_step option \<times> journal_event list" where
  "note_call (pending, es) (Stored s) = (Some s, es)"
| "note_call (pending, es) (Committed c) =
     (None, es @ (case pending of None \<Rightarrow> []
        | Some s \<Rightarrow> if cursor_latest c = Some (step_identity s)
            then (case step_event s of None \<Rightarrow> [] | Some e \<Rightarrow> [e]) else []))"
| "note_call (pending, es) _ = (pending, es)"

definition durable_events :: "journal_event list \<Rightarrow> 'p call list \<Rightarrow> journal_event list" where
  "durable_events es tr = snd (foldl note_call (None, es) tr)"

definition opened ::
  "'p journal_effect list \<Rightarrow> journal_event list \<Rightarrow> effect_kind \<Rightarrow> 'p option \<Rightarrow> bool" where
  "opened effects es kind path \<longleftrightarrow> (\<exists>e \<in> set effects.
     effect_kind e = kind \<and> effect_path e = path \<and> kinds_of es (effect_identity e) = [Intent])"

fun synchronize_kinds :: "durability_domain \<Rightarrow> effect_kind list" where
  "synchronize_kinds Durable_incoming_staging = [Synchronize_incoming_staging]"
| "synchronize_kinds Durable_recovery_staging = [Synchronize_recovery_staging]"
| "synchronize_kinds Durable_active_namespace =
     [Synchronize_active_namespace, Synchronize_recovered_namespace]"
| "synchronize_kinds Durable_rejected_store = [Synchronize_rejected_store]"
| "synchronize_kinds Durable_completed_evidence = [Synchronize_completed_evidence]"
| "synchronize_kinds Durable_journal = []"

fun licensed ::
  "'p journal_effect list \<Rightarrow> 'p list \<Rightarrow> journal_event list \<Rightarrow> 'p call \<Rightarrow> bool" where
  "licensed effects staged es (Called kind path) \<longleftrightarrow> opened effects es kind path"
| "licensed effects staged es Staging \<longleftrightarrow>
     (\<forall>p \<in> set staged. opened effects es Stage_incoming_payload (Some p))"
| "licensed effects staged es (Synchronizing d) \<longleftrightarrow>
     (\<exists>kind \<in> set (synchronize_kinds d). opened effects es kind None)"
| "licensed effects staged es _ \<longleftrightarrow> True"

text \<open>
  A trace is ahead by a licence \<open>L\<close> when each call is licensed by what was durable before it.  A
  licence is quiet when it never forbids the journal itself.
\<close>

definition ahead_by ::
  "(journal_event list \<Rightarrow> 'p call \<Rightarrow> bool) \<Rightarrow> journal_event list \<Rightarrow> 'p call list \<Rightarrow> bool" where
  "ahead_by L es tr \<longleftrightarrow> (\<forall>i < length tr. L (durable_events es (take i tr)) (tr ! i))"

definition quiet :: "(journal_event list \<Rightarrow> 'p call \<Rightarrow> bool) \<Rightarrow> bool" where
  "quiet L \<longleftrightarrow> (\<forall>es s. L es (Stored s)) \<and> (\<forall>es c. L es (Committed c))"

lemma quietD: "quiet L \<Longrightarrow> L es (Stored s)" "quiet L \<Longrightarrow> L es (Committed c)"
  by (simp_all add: quiet_def)

abbreviation write_ahead ::
  "'p journal_effect list \<Rightarrow> 'p list \<Rightarrow> journal_event list \<Rightarrow> 'p call list \<Rightarrow> bool" where
  "write_ahead effects staged \<equiv> ahead_by (licensed effects staged)"

lemma licensed_quiet: "quiet (licensed effects staged)"
  by (simp add: quiet_def)

lemma ahead_by_Nil [simp]: "ahead_by L es []"
  by (simp add: ahead_by_def)

lemma ahead_by_snoc:
  "ahead_by L es (tr @ [c]) \<longleftrightarrow> ahead_by L es tr \<and> L (durable_events es tr) c"
  unfolding ahead_by_def
  by (auto simp: nth_append less_Suc_eq dest: spec [of _ "length tr"])

section \<open>The invariant of a phase\<close>

text \<open>
  Storing a declaration or a step returns it unchanged.  The engine itself compares the identities
  only; that equal identities mean equal values is what the digest is for.
\<close>

definition returns_stored :: "('s, 'p, 'o) journal_store \<Rightarrow> bool" where
  "returns_stored store \<longleftrightarrow>
     (\<forall>x y s s'. publish_step store x s = (Inr y, s') \<longrightarrow> step_identity y = step_identity x \<longrightarrow> y = x) \<and>
     (\<forall>x y s s'. publish_declaration store x s = (Inr y, s') \<longrightarrow>
        declaration_identity y = declaration_identity x \<longrightarrow> y = x)"

text \<open>
  \<open>in_step_by L effects staged es a tr\<close>: the application's history is consistent and holds exactly the
  events that \<open>tr\<close> made durable after \<open>es\<close>, and \<open>tr\<close> is ahead by \<open>L\<close>.
\<close>

definition in_step_by ::
  "(journal_event list \<Rightarrow> 'p call \<Rightarrow> bool) \<Rightarrow> 'p journal_effect list \<Rightarrow> 'p list \<Rightarrow> journal_event list \<Rightarrow>
   ('p, 'o, 'sel) journaled_application \<Rightarrow> 'p call list \<Rightarrow> bool" where
  "in_step_by L effects staged es a tr \<longleftrightarrow>
     history_memory_ok (journaled_history a) \<and> history_effects (journaled_history a) = effects \<and>
     payload_paths (journaled_schedule a) = staged \<and>
     foldl note_call (None, es) tr = (None, history_events (journaled_history a)) \<and>
     ahead_by L es tr"

abbreviation in_step ::
  "'p journal_effect list \<Rightarrow> 'p list \<Rightarrow> journal_event list \<Rightarrow> ('p, 'o, 'sel) journaled_application \<Rightarrow>
   'p call list \<Rightarrow> bool" where
  "in_step effects staged \<equiv> in_step_by (licensed effects staged) effects staged"

abbreviation events_of :: "('p, 'o, 'sel) journaled_application \<Rightarrow> journal_event list" where
  "events_of a \<equiv> history_events (journaled_history a)"

lemma in_step_ahead: "in_step_by L effects staged es a tr \<Longrightarrow> ahead_by L es tr"
  by (simp add: in_step_by_def)

lemma in_step_durable: "in_step_by L effects staged es a tr \<Longrightarrow> durable_events es tr = events_of a"
  by (simp add: in_step_by_def durable_events_def)

lemma in_step_call:
  assumes "in_step_by L effects staged es a tr" and "L (events_of a) c"
    and "\<And>pending es'. note_call (pending, es') c = (pending, es')"
  shows "in_step_by L effects staged es a (tr @ [c])"
  using assms by (simp add: in_step_by_def ahead_by_snoc durable_events_def)

lemma in_step_history:
  assumes "in_step_by L effects staged es a tr" and "journaled_history b = journaled_history a"
    and "journaled_schedule b = journaled_schedule a"
  shows "in_step_by L effects staged es b tr"
  using assms by (simp add: in_step_by_def)

lemma in_step_advance:
  assumes quiet: "quiet L" and inv: "in_step_by L effects staged es a tr"
    and app: "append_step E (journaled_history a) t = Inr h'"
    and cur: "cursor_latest c = Some (step_identity t)"
  shows "in_step_by L effects staged es (a\<lparr>journaled_history := h'\<rparr>) (tr @ [Stored t, Committed c])"
proof -
  have mem: "history_memory_ok (journaled_history a)" using inv by (simp add: in_step_by_def)
  note step = append_step_Inr [OF mem app]
  have "ahead_by L es (tr @ [Stored t, Committed c])"
    using inv by (simp add: in_step_by_def ahead_by_snoc quietD [OF quiet]
        ahead_by_snoc [of _ _ "tr @ [Stored t]", simplified])
  moreover have "foldl note_call (None, es) (tr @ [Stored t, Committed c]) = (None, history_events h')"
    using inv by (simp add: in_step_by_def cur step(4) record_events_of_def)
  moreover have "history_effects h' = effects"
    using inv step(3) by (simp add: in_step_by_def history_effects_def)
  ultimately show ?thesis using inv step(2) by (simp add: in_step_by_def)
qed

lemma appended_cursor:
  assumes "history_memory_ok h" and "append_step E h t = Inr h'"
  shows "cursor_latest (history_cursor h') = Some (step_identity t)"
  by (simp add: append_step_Inr(6) [OF assms] identified_cursor_def)

lemma append_by:
  assumes quiet: "quiet L" and store: "returns_stored store"
  shows "triple (in_step_by L effects staged es a)
    (append_journal_step E (traced_store store) (journaled_history a) st event f rc ce)
    (\<lambda>h' tr. in_step_by L effects staged es (a\<lparr>journaled_history := h'\<rparr>) tr \<and>
       history_events h' = events_of a @ (case event of None \<Rightarrow> [] | Some e \<Rightarrow> [e]))
    (ahead_by L es)"
proof (rule tripleI)
  fix s tr
  assume inv: "in_step_by L effects staged es a tr"
  let ?h = "journaled_history a"
  let ?run = "append_journal_step E (traced_store store) ?h st event f rc ce (s, tr)"
  let ?post = "\<lambda>r. ends_in (\<lambda>h' tr. in_step_by L effects staged es (a\<lparr>journaled_history := h'\<rparr>) tr \<and>
        history_events h' = events_of a @ (case event of None \<Rightarrow> [] | Some e \<Rightarrow> [e]))
      (ahead_by L es) r \<and> (\<exists>rest. snd (snd r) = tr @ rest)"
  have mem: "history_memory_ok ?h" and ahead: "ahead_by L es tr"
    using inv by (simp_all add: in_step_by_def)
  from append_journal_step_cases [OF mem]
  consider (rejected) e where "?run = (Inl e, (s, tr))"
    | (admitted) t h' where "admissible E ?h (intended_step ?h st event f rc ce) t h'"
      "validate_successor E ?h t = Inr (history_cursor h')"
    by metis
  then show "?post ?run"
  proof cases
    case (rejected e)
    then show ?thesis using ahead by simp
  next
    case (admitted t h')
    have made: "make_step E (intended_step ?h st event f rc ce) = Inr t"
      and app: "append_step E ?h t = Inr h'" using admitted(1) by (simp_all add: admissible_def)
    have stored: "ahead_by L es (tr @ [Stored d])"
      and committed: "ahead_by L es (tr @ [Stored d, Committed c])" for d c
      using ahead by (simp_all add: ahead_by_snoc quietD [OF quiet]
          ahead_by_snoc [of _ _ "tr @ [Stored d]", simplified])
    have next_step: "in_step_by L effects staged es (a\<lparr>journaled_history := h'\<rparr>)
        (tr @ [Stored t, Committed (history_cursor h')])"
      by (rule in_step_advance [OF quiet inv app appended_cursor [OF mem app]])
    have events: "history_events h' = events_of a @ (case event of None \<Rightarrow> [] | Some e \<Rightarrow> [e])"
      using append_step_Inr(4) [OF mem app] made
      by (auto simp: record_events_of_def make_step_Inr intended_step_def)
    have same: "d = t" if "publish_step store t s = (Inr d, s1)" "step_identity d = step_identity t" for d s1
      using store that unfolding returns_stored_def by blast
    note run = append_journal_step_def intended_step_def [symmetric] Let_def io_bind_def
      traced_store_def acknowledged_def made admitted(2)
    obtain r1 s1 where p: "publish_step store t s = (r1, s1)" by (metis prod.collapse)
    show ?thesis
    proof (cases r1)
      case (Inl e)
      then show ?thesis using ahead by (simp add: run p)
    next
      case (Inr d)
      show ?thesis
      proof (cases "step_identity d = step_identity t")
        case False
        then show ?thesis using stored by (simp add: run p Inr)
      next
        case True
        then have "d = t" using same p Inr by blast
        obtain r2 s2 where c: "compare_and_publish_cursor store
            (Some (cursor_identity (history_cursor ?h))) (history_cursor h') s1 = (r2, s2)"
          by (metis prod.collapse)
        show ?thesis
          using stored committed next_step events
          by (cases r2) (simp_all add: run p Inr \<open>d = t\<close> c app)
      qed
    qed
  qed
qed

lemma triple_in_step:
  assumes "history_effects (journaled_history a) = effects \<Longrightarrow>
    payload_paths (journaled_schedule a) = staged \<Longrightarrow> triple (in_step_by L effects staged es a) m Q E"
  shows "triple (in_step_by L effects staged es a) m Q E"
  using assms unfolding triple_def in_step_by_def by blast

lemma state_by:
  assumes "quiet L" and "returns_stored (engine_store W)"
  shows "triple (in_step_by L effects staged es a) (journal_state_step (traced_engine W) a st rc ce)
    (\<lambda>b tr. in_step_by L effects staged es b tr \<and> b = a\<lparr>journaled_history := journaled_history b\<rparr> \<and>
       events_of b = events_of a)
    (ahead_by L es)"
  unfolding journal_state_step_def publish_state_def traced_engine_simps
  by (rule triple_bind [OF append_by [OF assms]]) (auto intro: triple_return)

lemma event_by:
  assumes "quiet L" and "returns_stored (engine_store W)"
  shows "triple (in_step_by L effects staged es a)
    (journal_event_step (traced_engine W) a st eff kind evidence f rc ce)
    (\<lambda>b tr. in_step_by L effects staged es b tr \<and> b = a\<lparr>journaled_history := journaled_history b\<rparr> \<and>
       (\<exists>e. events_of b = events_of a @ [e] \<and> event_effect e = eff \<and> event_kind e = kind))
    (ahead_by L es)"
proof -
  have made: "event_effect e = eff \<and> event_kind e = kind"
    if "make_event n kind eff evidence = Inr e" for n e
    using that by (auto simp: make_event_def result_simps)
  show ?thesis
    unfolding journal_event_step_def publish_event_def traced_engine_simps
    by (rule triple_bind [where R = "\<lambda>h' tr. in_step_by L effects staged es (a\<lparr>journaled_history := h'\<rparr>) tr \<and>
           (\<exists>e. history_events h' = events_of a @ [e] \<and> event_effect e = eff \<and> event_kind e = kind)"],
        rule triple_bind_lift, rule triple_consequence [OF append_by [OF assms]])
      (auto intro: triple_return simp: in_step_ahead dest: made)
qed

lemma find_effect_from_member:
  "find_effect_from found kind path effects = Inr e \<Longrightarrow>
   found = Some e \<or> e \<in> set effects \<and> effect_kind e = kind \<and> effect_path e = path"
  by (induction effects arbitrary: found) (auto split: option.splits if_splits)

lemma find_effect_member:
  assumes "find_effect a kind path = Inr eff"
  shows "\<exists>e \<in> set (history_effects (journaled_history a)).
    effect_kind e = kind \<and> effect_path e = path \<and> effect_identity e = eff"
  using assms find_effect_from_member [of None kind path]
  by (fastforce simp: find_effect_def result_simps)

text \<open>An intent the journal accepts is the first event of its effect, and leaves open effects open.\<close>

lemma intent_first:
  assumes "history_memory_ok h" and "history_events h = es @ [e]" and "event_kind e = Intent"
  shows "kinds_of (history_events h) (event_effect e) = [Intent]"
proof -
  have "event_effect e \<in> effect_identity ` set (history_effects h)"
    and "follows_protocol (kinds_of (history_events h) (event_effect e))"
    using assms(1,2) by (auto simp: history_memory_ok_def event_log_ok_def)
  then have "follows_protocol (kinds_of es (event_effect e) @ [Intent])"
    using assms(2,3) by (simp add: kinds_of_def)
  then have "kinds_of es (event_effect e) = []"
    by (cases "kinds_of es (event_effect e)" rule: follows_protocol.cases) auto
  then show ?thesis using assms(2,3) by (simp add: kinds_of_def)
qed

lemma opened_stays:
  assumes "history_memory_ok h" and "history_events h = es @ [e]" and "event_kind e = Intent"
    and "opened effects es kind path"
  shows "opened effects (history_events h) kind path"
proof -
  obtain d where d: "d \<in> set effects" "effect_kind d = kind" "effect_path d = path"
    "kinds_of es (effect_identity d) = [Intent]"
    using assms(4) by (auto simp: opened_def)
  have "kinds_of (history_events h) (effect_identity d) = [Intent]"
    using intent_first [OF assms(1-3)] d(4) assms(2,3)
    by (cases "event_effect e = effect_identity d") (simp_all add: kinds_of_snoc)
  then show ?thesis using d(1-3) unfolding opened_def by (intro bexI [of _ d]) simp_all
qed

lemma intent_by:
  assumes quiet: "quiet L" and store: "returns_stored (engine_store W)"
    and found: "find_effect a kind path = Inr eff"
  shows "triple (in_step_by L effects staged es a) (journal_intent (traced_engine W) a st eff)
    (\<lambda>b tr. in_step_by L effects staged es b tr \<and> b = a\<lparr>journaled_history := journaled_history b\<rparr> \<and>
       opened effects (events_of b) kind path \<and>
       (\<forall>k p. opened effects (events_of a) k p \<longrightarrow> opened effects (events_of b) k p))
    (ahead_by L es)"
proof (rule triple_in_step, rule triple_consequence [OF event_by [OF quiet store]], assumption)
  fix b tr
  assume effects: "history_effects (journaled_history a) = effects"
  assume step: "in_step_by L effects staged es b tr \<and> b = a\<lparr>journaled_history := journaled_history b\<rparr> \<and>
       (\<exists>e. events_of b = events_of a @ [e] \<and> event_effect e = eff \<and> event_kind e = Intent)"
  from step obtain e where e: "events_of b = events_of a @ [e]" "event_effect e = eff"
    "event_kind e = Intent" by (elim conjE exE)
  have mem: "history_memory_ok (journaled_history b)" using step by (simp add: in_step_by_def)
  have "opened effects (events_of b) kind path"
    using find_effect_member [OF found] intent_first [OF mem e(1,3)] e(2) effects
    by (auto simp: opened_def)
  moreover have "\<forall>k p. opened effects (events_of a) k p \<longrightarrow> opened effects (events_of b) k p"
    using opened_stays [OF mem e(1,3)] by (intro allI impI)
  ultimately show "in_step_by L effects staged es b tr \<and> b = a\<lparr>journaled_history := journaled_history b\<rparr> \<and>
       opened effects (events_of b) kind path \<and>
       (\<forall>k p. opened effects (events_of a) k p \<longrightarrow> opened effects (events_of b) k p)"
    using step by simp
qed assumption

lemma called_traced:
  assumes "L (events_of b) c"
    and "\<And>pending es'. note_call (pending, es') c = (pending, es')"
  shows "triple (in_step_by L effects staged es b) (noted c m) (\<lambda>x. in_step_by L effects staged es b)
    (ahead_by L es)"
  by (rule triple_noted) (auto intro: in_step_call [where L = L and c = c, OF _ assms] in_step_ahead)

text \<open>The shape of every call that may change something: intent, call, and what follows.\<close>

lemma bracket_by:
  assumes quiet: "quiet L" and store: "returns_stored (engine_store W)"
    and found: "find_effect a kind path = Inr eff"
    and licence: "\<And>es'. opened effects es' kind path \<Longrightarrow> L es' c"
    and unnoted: "\<And>pending es'. note_call (pending, es') c = (pending, es')"
    and rest: "\<And>b x. b = a\<lparr>journaled_history := journaled_history b\<rparr> \<Longrightarrow>
      triple (in_step_by L effects staged es b) (f b x) Q (ahead_by L es)"
  shows "triple (in_step_by L effects staged es a)
    (io_bind (journal_intent (traced_engine W) a st eff) (\<lambda>b. io_bind (noted c m) (f b))) Q
    (ahead_by L es)"
proof (rule triple_bind [OF intent_by [OF quiet store found]])
  fix b
  let ?pre = "\<lambda>tr. in_step_by L effects staged es b tr \<and>
    (b = a\<lparr>journaled_history := journaled_history b\<rparr> \<and> opened effects (events_of b) kind path \<and>
     (\<forall>k p. opened effects (events_of a) k p \<longrightarrow> opened effects (events_of b) k p))"
  show "triple ?pre (io_bind (noted c m) (f b)) Q (ahead_by L es)"
    by (rule triple_pure, rule triple_bind [OF called_traced [where L = L and c = c, OF licence unnoted]])
      (auto intro: rest)
qed

text \<open>The other end: the terminal event, and the value the phase goes on with.\<close>

lemma settle_by:
  assumes quiet: "quiet L" and store: "returns_stored (engine_store W)"
    and rest: "\<And>b. b = a\<lparr>journaled_history := journaled_history b\<rparr> \<Longrightarrow>
      triple (in_step_by L effects staged es b) (f b) Q (ahead_by L es)"
  shows "triple (in_step_by L effects staged es a)
    (io_bind (journal_event_step (traced_engine W) a st eff kind evidence replayed rc ce) f) Q
    (ahead_by L es)"
proof (rule triple_bind [OF event_by [OF quiet store]])
  fix b
  show "triple (\<lambda>tr. in_step_by L effects staged es b tr \<and> b = a\<lparr>journaled_history := journaled_history b\<rparr> \<and>
      (\<exists>e. events_of b = events_of a @ [e] \<and> event_effect e = eff \<and> event_kind e = kind)) (f b) Q
      (ahead_by L es)"
    by (rule triple_pure) (auto intro: rest)
qed

lemma enter_by:
  assumes quiet: "quiet L" and store: "returns_stored (engine_store W)"
    and rest: "\<And>b. b = a\<lparr>journaled_history := journaled_history b\<rparr> \<Longrightarrow>
      triple (in_step_by L effects staged es b) (f b) Q (ahead_by L es)"
  shows "triple (in_step_by L effects staged es a)
    (io_bind (journal_state_step (traced_engine W) a st rc ce) f) Q (ahead_by L es)"
proof (rule triple_bind [OF state_by [OF quiet store]])
  fix b
  show "triple (\<lambda>tr. in_step_by L effects staged es b tr \<and> b = a\<lparr>journaled_history := journaled_history b\<rparr> \<and>
      events_of b = events_of a) (f b) Q (ahead_by L es)"
    by (rule triple_pure) (auto intro: rest)
qed

text \<open>The first application is ahead by its own licence.\<close>

lemmas event_traced = event_by [OF licensed_quiet]
lemmas intent_traced = intent_by [OF licensed_quiet]
lemmas bracket_traced = bracket_by [OF licensed_quiet]
lemmas settle_traced = settle_by [OF licensed_quiet]
lemmas enter_traced = enter_by [OF licensed_quiet]

lemma traced_transaction_simps [simp]:
  "tx_observe (traced_transaction tx) paths = traced (tx_observe tx paths)"
  "tx_capture (traced_transaction tx) r =
     noted (Called Capture_old_object (Some (capture_path r))) (tx_capture tx r)"
  "tx_begin_stage (traced_transaction tx) img sel = noted Staging (tx_begin_stage tx img sel)"
  "tx_seal (traced_transaction tx) stage = noted Staging (tx_seal tx stage)"
  "tx_rejected (traced_transaction tx) q =
     noted (Called Publish_rejected_object (Some (rejected_path q))) (tx_rejected tx q)"
  "tx_active (traced_transaction tx) e =
     noted (Called Publish_active_object (Some (active_path e))) (tx_active tx e)"
  "tx_evidence (traced_transaction tx) c = noted (Called Publish_completed_evidence None) (tx_evidence tx c)"
  "tx_recover (traced_transaction tx) path =
     noted (Called Recover_active_object (Some path)) (tx_recover tx path)"
  "tx_synchronize (traced_transaction tx) d = noted (Synchronizing d) (tx_synchronize tx d)"
  by (simp_all add: traced_transaction_def)

end
