(* ===== verification/Discipline.thy ===== *)
theory Discipline
  imports Tracing
begin

text \<open>
  The write-ahead discipline of the whole engine: every phase, over any backend and over any store
  that returns the steps it stores, calls the backend only for effects whose intent is durable.
\<close>

section \<open>Preparation\<close>

lemma capture_one_traced:
  assumes store: "returns_stored (engine_store W)"
  shows "triple (in_step effects staged es (progress_application r))
    (capture_one (traced_engine W) recovered request r)
    (\<lambda>r'. in_step effects staged es (progress_application r')) (write_ahead effects staged es)"
  unfolding capture_one_def Let_def traced_engine_simps traced_transaction_simps
  by (rule triple_bind_lift bracket_traced [OF store] settle_traced [OF store] triple_return
      | assumption | simp add: in_step_ahead)+

lemma captures_traced:
  assumes store: "returns_stored (engine_store W)"
  shows "triple (in_step effects staged es (progress_application r))
    (capture_old_objects (traced_engine W) recovered requests r)
    (\<lambda>r'. in_step effects staged es (progress_application r')) (write_ahead effects staged es)"
proof (induction requests arbitrary: r)
  case Nil
  show ?case unfolding capture_old_objects.simps by (rule triple_return)
next
  case (Cons request requests)
  show ?case
    unfolding capture_old_objects.simps
    by (rule triple_bind [OF capture_one_traced [OF store]]) (auto intro: triple_if Cons triple_return)
qed

lemma synchronize_staged_traced:
  assumes store: "returns_stored (engine_store W)" and kind: "kind \<in> set (synchronize_kinds domain)"
  shows "triple (in_step effects staged es a)
    (synchronize_staged (traced_engine W) domain kind status a)
    (\<lambda>(done, status, b). in_step effects staged es b) (write_ahead effects staged es)"
proof -
  have licence: "licensed effects staged es' (Synchronizing domain)" if "opened effects es' kind None" for es'
    using that kind by auto
  have "triple (in_step effects staged es a) (synchronize_preparation_domain (traced_engine W) domain kind a)
    (\<lambda>(status, b). in_step effects staged es b) (write_ahead effects staged es)"
    unfolding synchronize_preparation_domain_def traced_engine_simps traced_transaction_simps
    by (rule triple_bind_lift bracket_traced [OF store _ licence] settle_traced [OF store]
        triple_return triple_if triple_stop | assumption | simp add: in_step_ahead)+
  then show ?thesis
    unfolding synchronize_staged_def
    by (intro triple_if triple_return) (auto intro!: triple_bind triple_return split: prod.splits)
qed

lemma history_replaced:
  "b = a\<lparr>journaled_history := h\<rparr> \<Longrightarrow> c = b\<lparr>journaled_history := k\<rparr> \<Longrightarrow>
   c = a\<lparr>journaled_history := k\<rparr>"
  by simp

lemma intend_payloads_traced:
  assumes store: "returns_stored (engine_store W)"
  shows "triple (\<lambda>tr. in_step effects staged es a tr \<and>
      (\<forall>p \<in> set ready. opened effects (events_of a) Stage_incoming_payload (Some p)))
    (intend_payloads (traced_engine W) steps a)
    (\<lambda>b tr. in_step effects staged es b tr \<and> b = a\<lparr>journaled_history := journaled_history b\<rparr> \<and>
      (\<forall>p \<in> set (ready @ payload_paths steps).
         opened effects (events_of b) Stage_incoming_payload (Some p)))
    (write_ahead effects staged es)"
proof (induction steps arbitrary: a ready)
  case Nil
  show ?case unfolding intend_payloads.simps by (rule triple_return) (simp add: payload_paths_def)
next
  case (Cons step steps)
  show ?case
  proof (cases "schedule_kind step = Step_stage_payload")
    case False
    then show ?thesis using Cons by (simp add: payload_paths_def)
  next
    case True
    let ?post = "\<lambda>b tr. in_step effects staged es b tr \<and> b = a\<lparr>journaled_history := journaled_history b\<rparr> \<and>
      (\<forall>p \<in> set (ready @ payload_paths (step # steps)).
         opened effects (events_of b) Stage_incoming_payload (Some p))"
    have rest: "triple (\<lambda>tr. in_step effects staged es b tr \<and>
        (\<forall>p \<in> set (ready @ [schedule_path step]). opened effects (events_of b) Stage_incoming_payload (Some p)))
        (intend_payloads (traced_engine W) steps b) ?post (write_ahead effects staged es)"
      if "b = a\<lparr>journaled_history := journaled_history b\<rparr>" for b
      using that by (intro triple_consequence [OF Cons.IH [of b "ready @ [schedule_path step]"]])
        (auto simp: payload_paths_def True intro: history_replaced)
    show ?thesis
      unfolding intend_payloads.simps
      apply (simp only: True simp_thms if_False)
      apply (rule triple_bind_lift)
       apply (rule triple_pure)
       apply (rule triple_bind [OF intent_traced [OF store]], assumption)
       apply (rule triple_pure, elim conjE)
       apply (rule triple_consequence [OF rest], assumption)
         apply (auto simp: in_step_ahead)
      done
  qed
qed

lemma settle_payloads_traced:
  assumes store: "returns_stored (engine_store W)"
  shows "triple (in_step effects staged es a)
    (settle_payloads (traced_engine W) event evidence replayed paths a)
    (in_step effects staged es) (write_ahead effects staged es)"
proof (induction paths arbitrary: a)
  case Nil
  show ?case unfolding settle_payloads.simps by (rule triple_return)
next
  case (Cons path paths)
  show ?case
    unfolding settle_payloads.simps
    by (rule triple_bind_lift settle_traced [OF store] Cons.IH | simp add: in_step_ahead)+
qed

lemma staging_traced:
  assumes "\<forall>p \<in> set staged. opened effects (events_of b) Stage_incoming_payload (Some p)"
  shows "triple (in_step effects staged es b) (noted Staging m) (\<lambda>x. in_step effects staged es b)
    (write_ahead effects staged es)"
  by (rule called_traced) (use assms in simp_all)

lemma run_payload_stage_traced:
  assumes "\<forall>p \<in> set staged. opened effects (events_of b) Stage_incoming_payload (Some p)"
  shows "triple (in_step effects staged es b) (run_payload_stage (traced_engine W) archive selection)
    (\<lambda>x. in_step effects staged es b) (write_ahead effects staged es)"
proof -
  have run: "triple (in_step effects staged es b)
      (io_bind (noted Staging (archive_replay W archive selection stage)) (\<lambda>_.
       io_bind (noted Staging (tx_seal (engine_transaction W) stage)) (\<lambda>sealed s.
         if C sealed s then (Inl e, s) else (Inr (stage, sealed), s))))
      (\<lambda>x. in_step effects staged es b) (write_ahead effects staged es)" for stage C e
    by (intro triple_bind [OF staging_traced [OF assms]] triple_check in_step_ahead)
  show ?thesis
    unfolding run_payload_stage_def Let_def traced_engine_simps traced_transaction_simps
    by (rule triple_bind [OF staging_traced [OF assms]])
      (auto intro: triple_stop in_step_ahead run split: option.split)
qed

text \<open>The stage is abandoned, which records nothing, or kept.\<close>

lemma abandon_traced:
  assumes "staging_application x = b" and "staging_application y = b"
  shows "triple (in_step effects staged es b)
    (\<lambda>s. if C then (Inr x, tx_abandon (traced_transaction tx) stage s) else (Inr y, s))
    (\<lambda>p. in_step effects staged es (staging_application p)) (write_ahead effects staged es)"
  using assms by (intro tripleI) (simp add: traced_transaction_def)

lemma stage_payloads_traced:
  assumes store: "returns_stored (engine_store W)"
  shows "triple (in_step effects staged es a)
    (stage_incoming_payloads (traced_engine W) archive evidence a)
    (\<lambda>p. in_step effects staged es (staging_application p)) (write_ahead effects staged es)"
proof (rule triple_in_step)
  assume staged: "payload_paths (journaled_schedule a) = staged"
  have intended: "triple (in_step effects staged es a)
    (intend_payloads (traced_engine W) (journaled_schedule a) a)
    (\<lambda>b tr. in_step effects staged es b tr \<and>
      (\<forall>p \<in> set staged. opened effects (events_of b) Stage_incoming_payload (Some p)))
    (write_ahead effects staged es)"
    by (rule triple_consequence [OF intend_payloads_traced [OF store, where ready = "[]"]])
      (auto simp: staged)
  show "triple (in_step effects staged es a)
    (stage_incoming_payloads (traced_engine W) archive evidence a)
    (\<lambda>p. in_step effects staged es (staging_application p)) (write_ahead effects staged es)"
    unfolding stage_incoming_payloads_def Let_def
    apply (simp only: option.split [of "\<lambda>m. triple _ m _ _"])
    apply (intro conjI allI impI triple_if)
      apply (rule triple_return, simp)
     apply (rule triple_return, simp)
    apply (rule triple_bind [OF intended])
    apply (rule triple_pure)
    apply (rule triple_if)
     apply (rule triple_stop, simp add: in_step_ahead)
    apply (rule triple_bind [OF run_payload_stage_traced], assumption)
    apply (simp only: prod.split [of "\<lambda>m. triple _ m _ _"])
    apply (intro allI impI)
    apply (rule triple_bind_lift)+
      apply (rule triple_bind [OF settle_payloads_traced [OF store]])
      apply (unfold traced_engine_simps)
      apply (rule abandon_traced)
       apply (simp_all add: in_step_ahead)
    done
qed

text \<open>What a phase leaves: a receipt, or the next value with its journal in step.\<close>

definition phase_by ::
  "(journal_event list \<Rightarrow> 'p call \<Rightarrow> bool) \<Rightarrow> ('a \<Rightarrow> ('p, 'o, 'sel) journaled_application) \<Rightarrow>
   'p journal_effect list \<Rightarrow> 'p list \<Rightarrow> journal_event list \<Rightarrow> ('r, 'a) phase \<Rightarrow> 'p call list \<Rightarrow> bool" where
  "phase_by L journaled effects staged es result tr \<longleftrightarrow>
     (case result of Phase_stopped r \<Rightarrow> ahead_by L es tr
      | Phase_done x \<Rightarrow> in_step_by L effects staged es (journaled x) tr)"

lemma phase_by_simps [simp]:
  "phase_by L journaled effects staged es (Phase_stopped r) = ahead_by L es"
  "phase_by L journaled effects staged es (Phase_done x) = in_step_by L effects staged es (journaled x)"
  by (simp_all add: phase_by_def fun_eq_iff)

abbreviation phase_in_step ::
  "('a \<Rightarrow> ('p, 'o, 'sel) journaled_application) \<Rightarrow> 'p journal_effect list \<Rightarrow> 'p list \<Rightarrow>
   journal_event list \<Rightarrow> ('r, 'a) phase \<Rightarrow> 'p call list \<Rightarrow> bool" where
  "phase_in_step journaled effects staged \<equiv>
     phase_by (licensed effects staged) journaled effects staged"

lemma fail_preparation_by:
  assumes quiet: "quiet L" and store: "returns_stored (engine_store W)"
  shows "triple (in_step_by L effects staged es a)
    (fail_preparation (traced_engine W) a request state journal incoming recovered evidence)
    (phase_by L g effects staged es) (ahead_by L es)"
  unfolding fail_preparation_def
  by (rule triple_bind_lift enter_by [OF quiet store] triple_lift
      | auto simp: in_step_ahead preparation_failed_def split: if_splits)+

lemmas fail_preparation_traced = fail_preparation_by [OF licensed_quiet]

lemma prepared_made: "make_prepared W p = Inr q \<Longrightarrow> prepared_journaled q = prepared_journaled p"
  by (auto simp: make_prepared_def Let_def split: if_splits)

lemma finish_preparation_by:
  assumes quiet: "quiet L" and store: "returns_stored (engine_store W)"
  shows "triple (in_step_by L effects staged es a)
    (finish_preparation (traced_engine W) a captured incoming recovered evidence)
    (phase_by L prepared_journaled effects staged es) (ahead_by L es)"
  unfolding finish_preparation_def
  by (rule enter_by [OF quiet store], rule triple_lift)
    (auto simp: result_simps in_step_ahead dest!: prepared_made)

lemmas finish_preparation_traced = finish_preparation_by [OF licensed_quiet]

lemma initial_captures_traced:
  assumes "returns_stored (engine_store W)"
  shows "triple (in_step effects staged es a)
    (capture_old_objects (traced_engine W) recovered requests (initial_captures a))
    (\<lambda>r'. in_step effects staged es (progress_application r')) (write_ahead effects staged es)"
  using captures_traced [OF assms, where r = "initial_captures a"]
  by (simp add: initial_captures_def)

lemma triple_split:
  "(\<And>x y. z = (x, y) \<Longrightarrow> triple P (f x y) Q E) \<Longrightarrow> triple P (case z of (x, y) \<Rightarrow> f x y) Q E"
  by (cases z) simp

lemma prepare_traced:
  assumes store: "returns_stored (engine_store W)"
  shows "triple (in_step effects staged es a)
    (prepare_with_archive (traced_engine W) a request state lease archive)
    (phase_in_step prepared_journaled effects staged es) (write_ahead effects staged es)"
proof -
  note fail = fail_preparation_traced [OF store]
  have incoming: "Synchronize_incoming_staging \<in> set (synchronize_kinds Durable_incoming_staging)"
    and recovery: "Synchronize_recovery_staging \<in> set (synchronize_kinds Durable_recovery_staging)"
    by simp_all
  show ?thesis
    unfolding prepare_with_archive_def
    apply (rule triple_bind_lift)+
      apply (rule triple_bind [OF initial_captures_traced [OF store]])
      apply (rule triple_if, rule fail)
      apply (rule triple_bind [OF stage_payloads_traced [OF store]])
      apply (rule triple_if, rule fail)
      apply (rule triple_bind [OF synchronize_staged_traced [OF store incoming]])
      apply (rule triple_split)+
      apply (simp only: prod.case)
      apply (rule triple_if, rule fail)
      apply (rule triple_bind [OF synchronize_staged_traced [OF store recovery]])
      apply (rule triple_split)+
      apply (simp only: prod.case)
      apply (rule triple_if, rule fail)
      apply (rule finish_preparation_traced [OF store])
     apply (simp_all add: in_step_ahead)
    done
qed

lemma prepare_removal_traced:
  assumes store: "returns_stored (engine_store W)"
  shows "triple (in_step effects staged es a)
    (prepare_removal (traced_engine W) a request state lease)
    (phase_in_step prepared_journaled effects staged es) (write_ahead effects staged es)"
proof -
  note fail = fail_preparation_traced [OF store]
  have recovery: "Synchronize_recovery_staging \<in> set (synchronize_kinds Durable_recovery_staging)"
    by simp
  show ?thesis
    unfolding prepare_removal_def
    apply (rule triple_bind_lift)
     apply (rule triple_if, rule triple_stop, erule in_step_ahead)
     apply (rule triple_bind [OF initial_captures_traced [OF store]])
     apply (rule triple_if, rule fail)
     apply (rule triple_bind [OF synchronize_staged_traced [OF store recovery]])
     apply (rule triple_split)+
     apply (simp only: prod.case)
     apply (rule triple_if, rule fail)
     apply (rule finish_preparation_traced [OF store])
    apply (simp add: in_step_ahead)
    done
qed

lemma phase_bind:
  assumes "triple P m (phase_by L g effects staged es) E"
    and "\<And>r. triple (ahead_by L es) (f (Phase_stopped r)) Q E"
    and "\<And>x. triple (in_step_by L effects staged es (g x)) (f (Phase_done x)) Q E"
  shows "triple P (io_bind m f) Q E"
proof (rule triple_bind [OF assms(1)])
  fix x
  show "triple (phase_by L g effects staged es x) (f x) Q E"
    using assms(2,3) by (cases x) simp_all
qed

section \<open>Rejected objects\<close>

lemma rejected_effect_path:
  "rejected_command decision step = Inr command \<Longrightarrow> rejected_path command = schedule_path step"
  by (auto simp: rejected_command_def result_simps split: option.splits if_splits)

lemma publish_one_traced:
  assumes store: "returns_stored (engine_store W)"
  shows "triple (in_step effects staged es (prepared_journaled prepared))
    (publish_one_rejected (traced_engine W) plan step prepared)
    (\<lambda>(e, p). in_step effects staged es (prepared_journaled p)) (write_ahead effects staged es)"
  unfolding publish_one_rejected_def traced_engine_simps traced_transaction_simps
  by (rule triple_bind_lift bracket_traced [OF store] settle_traced [OF store] triple_return
      | assumption | simp add: in_step_ahead rejected_effect_path)+

lemma fail_rejected_by:
  assumes quiet: "quiet L" and store: "returns_stored (engine_store W)"
  shows "triple (in_step_by L effects staged es (prepared_journaled prepared))
    (fail_rejected_publication (traced_engine W) prepared request state done outcome recovered status
      evidence) (phase_by L g effects staged es) (ahead_by L es)"
  unfolding fail_rejected_publication_def Let_def
  by (rule triple_bind_lift enter_by [OF quiet store] triple_lift
      | auto simp: in_step_ahead rejected_publication_failed_def split: if_splits)+

lemmas fail_rejected_traced = fail_rejected_by [OF licensed_quiet]

lemma publish_loop_traced:
  assumes store: "returns_stored (engine_store W)"
  shows "triple (in_step effects staged es (prepared_journaled (fst progress)))
    (publish_rejected_loop (traced_engine W) request state steps progress)
    (phase_in_step (\<lambda>x. prepared_journaled (fst x)) effects staged es) (write_ahead effects staged es)"
proof (induction steps arbitrary: progress)
  case Nil
  show ?case unfolding publish_rejected_loop.simps by (rule triple_return) simp
next
  case (Cons step steps)
  obtain prepared so_far status evidence where p: "progress = (prepared, so_far, status, evidence)"
    by (cases progress) auto
  show ?case
    unfolding p publish_rejected_loop.simps fst_conv Let_def
    apply (rule triple_if)
     apply (rule Cons.IH [of "(prepared, so_far, status, evidence)", unfolded fst_conv])
    apply (rule triple_bind [OF publish_one_traced [OF store]])
    apply (rule triple_split, simp only: prod.case)
    apply (intro triple_if fail_rejected_traced [OF store])
    subgoal for x e prepared'
      using Cons.IH [of "(prepared', so_far @ [e], Durability_visible,
        append_unique_evidence evidence (publication_evidence (rejected_result e)))"] by simp
    done
qed

lemma rejected_sync_traced:
  assumes store: "returns_stored (engine_store W)"
  shows "triple (in_step effects staged es a) (synchronize_rejected_store (traced_engine W) a)
    (\<lambda>(status, b). in_step effects staged es b) (write_ahead effects staged es)"
proof -
  have licence: "licensed effects staged es' (Synchronizing Durable_rejected_store)"
    if "opened effects es' Synchronize_rejected_store None" for es' using that by simp
  show ?thesis
    unfolding synchronize_rejected_store_def traced_engine_simps traced_transaction_simps
    by (rule triple_bind_lift bracket_traced [OF store _ licence] settle_traced [OF store]
        triple_return triple_if triple_stop | assumption | simp add: in_step_ahead)+
qed

lemma finish_rejected_journaled:
  assumes "finish_rejected (prepared, so_far, status, evidence) = Inr (Phase_done r)"
  shows "published_journaled r = prepared_journaled prepared"
  using assms
  by (auto simp: finish_rejected_def result_simps make_rejected_published_def Let_def split: if_splits)

lemma finish_rejected_by:
  "triple (in_step_by L effects staged es (prepared_journaled prepared))
    (io_lift (finish_rejected (prepared, so_far, status, evidence)))
    (phase_by L published_journaled effects staged es) (ahead_by L es)"
proof (rule triple_lift)
  fix x tr
  assume made: "finish_rejected (prepared, so_far, status, evidence) = Inr x"
    and inv: "in_step_by L effects staged es (prepared_journaled prepared) tr"
  then show "phase_by L published_journaled effects staged es x tr"
    by (cases x) (auto simp: in_step_ahead finish_rejected_journaled)
qed (simp add: in_step_ahead)

lemma complete_rejected_traced:
  assumes store: "returns_stored (engine_store W)"
  shows "triple (in_step effects staged es (prepared_journaled (fst progress)))
    (complete_rejected (traced_engine W) request state progress)
    (phase_in_step published_journaled effects staged es) (write_ahead effects staged es)"
proof -
  obtain prepared so_far status evidence where p: "progress = (prepared, so_far, status, evidence)"
    by (cases progress) auto
  have carry: "triple (in_step effects staged es a)
      (io_lift (finish_rejected (prepared\<lparr>prepared_journaled := a\<rparr>, so_far, status, evidence)))
      (phase_in_step published_journaled effects staged es) (write_ahead effects staged es)"
    and stop: "triple (in_step effects staged es a)
      (fail_rejected_publication (traced_engine W) (prepared\<lparr>prepared_journaled := a\<rparr>) request state
        so_far outcome recovered status evidence)
      (phase_in_step published_journaled effects staged es) (write_ahead effects staged es)"
    for a status outcome recovered
    using finish_rejected_by [where effects = effects and staged = staged and es = es and
        prepared = "prepared\<lparr>prepared_journaled := a\<rparr>"]
      fail_rejected_traced [OF store, where effects = effects and staged = staged and es = es and
        prepared = "prepared\<lparr>prepared_journaled := a\<rparr>"]
    by simp_all
  show ?thesis
    unfolding p complete_rejected_def Let_def prod.case fst_conv
    apply (rule triple_if, rule finish_rejected_by)
    apply (rule triple_bind [OF rejected_sync_traced [OF store]])
    apply (rule triple_split, simp only: prod.case)
    apply (intro triple_if carry stop)
    done
qed

lemma publish_rejected_traced:
  assumes store: "returns_stored (engine_store W)"
  shows "triple (in_step effects staged es (prepared_journaled prepared))
    (publish_rejected (traced_engine W) prepared request state lease)
    (phase_in_step published_journaled effects staged es) (write_ahead effects staged es)"
proof -
  have loop: "triple (in_step effects staged es b)
      (publish_rejected_loop (traced_engine W) request state steps
        (prepared\<lparr>prepared_journaled := b\<rparr>, [], Durability_not_attempted, evidence))
      (phase_in_step (\<lambda>x. prepared_journaled (fst x)) effects staged es) (write_ahead effects staged es)"
    for b steps evidence
    using publish_loop_traced [OF store, where progress =
        "(prepared\<lparr>prepared_journaled := b\<rparr>, [], Durability_not_attempted, evidence)"] by simp
  show ?thesis
    unfolding publish_rejected_def Let_def
    apply (rule triple_bind_lift)
     apply (rule enter_traced [OF store])
     apply (rule phase_bind [OF loop])
      apply (simp only: phase.case)
      apply (rule triple_return, simp)
     apply (simp only: phase.case)
     apply (rule complete_rejected_traced [OF store])
    apply (simp add: in_step_ahead)
    done
qed

section \<open>Active effects\<close>

lemma with_journaled_simps [simp]: "published_journaled (with_journaled r a) = a"
  by (simp add: with_journaled_def)

lemma active_request_path:
  "active_command decision step = Inr command \<Longrightarrow> active_path command = schedule_path step"
  by (auto simp: active_command_def make_active_request_def Let_def
      split: planned_active_outcome.splits if_splits)

lemma interrupted_journaled_made:
  "make_active_interrupted m = Inr i \<Longrightarrow> interrupted_rejected i = interrupted_rejected m"
  by (auto simp: make_active_interrupted_def Let_def result_simps split: if_splits)

lemma mutated_made: "make_active_mutated m = Inr n \<Longrightarrow> mutated_rejected n = mutated_rejected m"
  by (auto simp: make_active_mutated_def Let_def result_simps split: if_splits)

lemma interrupt_by:
  assumes quiet: "quiet L" and store: "returns_stored (engine_store W)"
  shows "triple (in_step_by L effects staged es (published_journaled r))
    (interrupt_active (traced_engine W) r so_far reason status evidence)
    (\<lambda>i. in_step_by L effects staged es (interrupted_journaled i)) (ahead_by L es)"
  unfolding interrupt_active_def
  by (rule enter_by [OF quiet store], rule triple_lift)
    (auto simp: result_simps in_step_ahead dest!: interrupted_journaled_made)

lemmas interrupt_traced = interrupt_by [OF licensed_quiet]

lemma execute_one_traced:
  assumes store: "returns_stored (engine_store W)"
  shows "triple (in_step effects staged es (published_journaled r))
    (execute_one_active (traced_engine W) plan step r)
    (\<lambda>(e, r'). in_step effects staged es (published_journaled r')) (write_ahead effects staged es)"
  unfolding execute_one_active_def traced_engine_simps traced_transaction_simps
  by (rule triple_bind_lift bracket_traced [OF store] settle_traced [OF store] triple_return
      | assumption | simp add: in_step_ahead active_request_path)+

text \<open>The result of active execution: either side keeps its journal in step.\<close>

definition active_by ::
  "(journal_event list \<Rightarrow> 'p call \<Rightarrow> bool) \<Rightarrow> ('a \<Rightarrow> ('p, 'o, 'sel) journaled_application) \<Rightarrow>
   'p journal_effect list \<Rightarrow> 'p list \<Rightarrow> journal_event list \<Rightarrow>
   (('p, 'o, 'sel) active_interrupted, 'a) phase \<Rightarrow> 'p call list \<Rightarrow> bool" where
  "active_by L journaled effects staged es result =
     (case result of Phase_stopped i \<Rightarrow> in_step_by L effects staged es (interrupted_journaled i)
      | Phase_done x \<Rightarrow> in_step_by L effects staged es (journaled x))"

lemma active_by_simps [simp]:
  "active_by L journaled effects staged es (Phase_stopped i) =
     in_step_by L effects staged es (interrupted_journaled i)"
  "active_by L journaled effects staged es (Phase_done x) = in_step_by L effects staged es (journaled x)"
  by (simp_all add: active_by_def)

abbreviation active_in_step ::
  "('a \<Rightarrow> ('p, 'o, 'sel) journaled_application) \<Rightarrow> 'p journal_effect list \<Rightarrow> 'p list \<Rightarrow>
   journal_event list \<Rightarrow> (('p, 'o, 'sel) active_interrupted, 'a) phase \<Rightarrow> 'p call list \<Rightarrow> bool" where
  "active_in_step journaled effects staged \<equiv>
     active_by (licensed effects staged) journaled effects staged"

lemma stop_by:
  assumes "quiet L" and "returns_stored (engine_store W)"
  shows "triple (in_step_by L effects staged es (published_journaled r))
    (io_bind (interrupt_active (traced_engine W) r so_far reason status evidence)
      (\<lambda>i. io_return (Phase_stopped i)))
    (active_by L g effects staged es) (ahead_by L es)"
  by (rule triple_bind [OF interrupt_by [OF assms]], rule triple_return) simp

lemmas stop_traced = stop_by [OF licensed_quiet]

lemma active_bind:
  assumes "triple P m (active_by L g effects staged es) E"
    and "\<And>i. triple (in_step_by L effects staged es (interrupted_journaled i)) (f (Phase_stopped i)) Q E"
    and "\<And>x. triple (in_step_by L effects staged es (g x)) (f (Phase_done x)) Q E"
  shows "triple P (io_bind m f) Q E"
proof (rule triple_bind [OF assms(1)])
  fix x
  show "triple (active_by L g effects staged es x) (f x) Q E"
    using assms(2,3) by (cases x) simp_all
qed

lemma execute_loop_traced:
  assumes store: "returns_stored (engine_store W)"
  shows "triple (in_step effects staged es (published_journaled (fst progress)))
    (execute_active_loop (traced_engine W) plan steps progress)
    (active_in_step (\<lambda>x. published_journaled (fst x)) effects staged es) (write_ahead effects staged es)"
proof (induction steps arbitrary: progress)
  case Nil
  show ?case unfolding execute_active_loop.simps by (rule triple_return) simp
next
  case (Cons step steps)
  obtain r so_far status evidence where p: "progress = (r, so_far, status, evidence)"
    by (cases progress) auto
  show ?case
    unfolding p execute_active_loop.simps fst_conv Let_def
    apply (rule triple_if)
     apply (rule Cons.IH [of "(r, so_far, status, evidence)", unfolded fst_conv])
    apply (rule triple_bind [OF execute_one_traced [OF store]])
    apply (rule triple_split, simp only: prod.case)
    apply (intro triple_if stop_traced [OF store])
    subgoal for x e r'
      using Cons.IH [of "(r', so_far @ [e], if changed_target e then Durability_visible else status,
        append_unique_evidence evidence (operation_evidence (effect_result e)))"] by simp
    done
qed

lemma active_sync_traced:
  assumes store: "returns_stored (engine_store W)"
  shows "triple (in_step effects staged es a) (synchronize_active_namespace (traced_engine W) a)
    (\<lambda>(status, b). in_step effects staged es b) (write_ahead effects staged es)"
proof -
  have licence: "licensed effects staged es' (Synchronizing Durable_active_namespace)"
    if "opened effects es' Synchronize_active_namespace None" for es' using that by simp
  show ?thesis
    unfolding synchronize_active_namespace_def traced_engine_simps traced_transaction_simps
    by (rule triple_bind_lift bracket_traced [OF store _ licence] settle_traced [OF store]
        triple_return triple_if triple_stop | assumption | simp add: in_step_ahead)+
qed

lemma finish_active_traced:
  assumes store: "returns_stored (engine_store W)"
  shows "triple (in_step effects staged es (published_journaled r))
    (finish_active (traced_engine W) r so_far status evidence)
    (active_in_step (\<lambda>m. published_journaled (mutated_rejected m)) effects staged es)
    (write_ahead effects staged es)"
  unfolding finish_active_def
  by (rule enter_traced [OF store], rule triple_lift)
    (auto simp: result_simps in_step_ahead dest!: mutated_made)

lemma complete_active_traced:
  assumes store: "returns_stored (engine_store W)"
  shows "triple (in_step effects staged es (published_journaled (fst progress)))
    (complete_active (traced_engine W) control progress)
    (active_in_step (\<lambda>m. published_journaled (mutated_rejected m)) effects staged es)
    (write_ahead effects staged es)"
proof -
  obtain r so_far status evidence where p: "progress = (r, so_far, status, evidence)"
    by (cases progress) auto
  have carry: "triple (in_step effects staged es a)
      (finish_active (traced_engine W) (with_journaled r a) so_far st evidence)
      (active_in_step (\<lambda>m. published_journaled (mutated_rejected m)) effects staged es)
      (write_ahead effects staged es)"
    and stop: "triple (in_step effects staged es a)
      (io_bind (interrupt_active (traced_engine W) (with_journaled r a) so_far reason st evidence)
        (\<lambda>i. io_return (Phase_stopped i)))
      (active_in_step (\<lambda>m. published_journaled (mutated_rejected m)) effects staged es)
      (write_ahead effects staged es)" for a st reason
    using finish_active_traced [OF store, of effects staged es "with_journaled r a"]
      stop_traced [OF store, where effects = effects and staged = staged and es = es and
        r = "with_journaled r a"] by simp_all
  show ?thesis
    unfolding p complete_active_def Let_def prod.case fst_conv
    apply (rule triple_if, rule finish_active_traced [OF store])
    apply (rule triple_bind [OF active_sync_traced [OF store]])
    apply (rule triple_split, simp only: prod.case)
    apply (rule triple_if, rule carry, rule stop)
    done
qed

lemma execute_active_traced:
  assumes store: "returns_stored (engine_store W)"
  shows "triple (in_step effects staged es (published_journaled r))
    (execute_active (traced_engine W) r request state lease)
    (active_in_step (\<lambda>m. published_journaled (mutated_rejected m)) effects staged es)
    (write_ahead effects staged es)"
proof -
  have loop: "triple (in_step effects staged es (published_journaled r))
      (execute_active_loop (traced_engine W) plan steps (r, [], Durability_not_attempted, evidence))
      (active_in_step (\<lambda>x. published_journaled (fst x)) effects staged es) (write_ahead effects staged es)"
    for plan steps evidence
    using execute_loop_traced [OF store, where progress = "(r, [], Durability_not_attempted, evidence)"]
    by simp
  show ?thesis
    unfolding execute_active_def
    apply (rule triple_bind_lift)
     apply (rule active_bind [OF loop])
      apply (simp only: phase.case)
      apply (rule triple_return, simp)
     apply (simp only: phase.case)
     apply (rule complete_active_traced [OF store])
    apply (simp add: in_step_ahead)
    done
qed

section \<open>Completion\<close>

lemma intend_observations_traced:
  assumes store: "returns_stored (engine_store W)"
  shows "triple (in_step effects staged es a) (intend_observations (traced_engine W) decisions a)
    (in_step effects staged es) (write_ahead effects staged es)"
proof (induction decisions arbitrary: a)
  case Nil
  show ?case unfolding intend_observations.simps by (rule triple_return)
next
  case (Cons d decisions)
  show ?case
    unfolding intend_observations.simps
    by (rule triple_bind_lift settle_traced [OF store] Cons.IH | simp add: in_step_ahead)+
qed

lemma mutated_journaled_simps [simp]:
  "published_journaled (mutated_rejected (mutated_journaled m a)) = a"
  by (simp add: mutated_journaled_def)

lemma settle_observation_traced:
  assumes store: "returns_stored (engine_store W)"
  shows "triple (in_step effects staged es (published_journaled (mutated_rejected m)))
    (settle_observation (traced_engine W) img observed d m)
    (\<lambda>(match, paths, n). in_step effects staged es (published_journaled (mutated_rejected n)))
    (write_ahead effects staged es)"
  unfolding settle_observation_def Let_def
  by (simp only: prod.case option.split [of "\<lambda>m. triple _ m _ _"], intro conjI allI impI;
      (rule triple_bind_lift settle_traced [OF store] triple_return triple_if triple_stop
        | simp add: in_step_ahead split: option.split)+)

lemma settle_observations_traced:
  assumes store: "returns_stored (engine_store W)"
  shows "triple (in_step effects staged es (published_journaled (mutated_rejected (snd (snd progress)))))
    (settle_observations (traced_engine W) img observed decisions progress)
    (\<lambda>(matches, paths, n). in_step effects staged es (published_journaled (mutated_rejected n)))
    (write_ahead effects staged es)"
proof (induction decisions arbitrary: progress)
  case Nil
  show ?case
    unfolding settle_observations.simps by (rule triple_return) (auto split: prod.splits)
next
  case (Cons d decisions)
  obtain matches paths m where p: "progress = (matches, paths, m)" by (cases progress) auto
  show ?case
    unfolding p settle_observations.simps snd_conv
    apply (rule triple_bind [OF settle_observation_traced [OF store]])
    apply (rule triple_split)+
    apply (simp only: prod.case)
    subgoal for x match y more n
      using Cons.IH [of "(matches @ [match], paths @ more, n)"] by simp
    done
qed

lemma seal_receipt_by:
  assumes quiet: "quiet L" and store: "returns_stored (engine_store W)"
  shows "triple (in_step_by L effects staged es a) (seal_terminal_receipt (traced_engine W) a state receipt rc)
    (\<lambda>b. ahead_by L es) (ahead_by L es)"
  unfolding seal_terminal_receipt_def
  apply (rule triple_bind_lift)
   apply (rule settle_by [OF quiet store])
   apply (rule triple_consequence [OF event_by [OF quiet store]])
     apply (auto simp: in_step_ahead)
  done

lemmas seal_receipt_traced = seal_receipt_by [OF licensed_quiet]

lemma seal_unconfirmed_traced:
  assumes store: "returns_stored (engine_store W)"
  shows "triple (in_step effects staged es a)
    (seal_unconfirmed (traced_engine W) request state m a paths evidence uncertain)
    (\<lambda>b. write_ahead effects staged es) (write_ahead effects staged es)"
  unfolding seal_unconfirmed_def
  by (rule triple_bind_lift triple_bind [OF seal_receipt_traced [OF store]] triple_return
      | simp add: in_step_ahead)+

lemma seal_completion_traced:
  assumes store: "returns_stored (engine_store W)"
  shows "triple (in_step effects staged es a)
    (seal_completion (traced_engine W) m a completed evidence)
    (\<lambda>b. write_ahead effects staged es) (write_ahead effects staged es)"
  unfolding seal_completion_def
  by (rule triple_bind_lift triple_bind [OF seal_receipt_traced [OF store]] triple_return
      | simp add: in_step_ahead)+

lemma publish_evidence_traced:
  assumes store: "returns_stored (engine_store W)"
  shows "triple (in_step effects staged es a) (publish_evidence (traced_engine W) completed a)
    (\<lambda>(result, b). in_step effects staged es b) (write_ahead effects staged es)"
  unfolding publish_evidence_def traced_engine_simps traced_transaction_simps
  by (rule triple_bind_lift bracket_traced [OF store] settle_traced [OF store] triple_return
      triple_if triple_stop | assumption | simp add: in_step_ahead)+

lemma synchronize_evidence_traced:
  assumes store: "returns_stored (engine_store W)"
  shows "triple (in_step effects staged es a) (synchronize_evidence (traced_engine W) a)
    (\<lambda>(status, b). in_step effects staged es b) (write_ahead effects staged es)"
proof -
  have licence: "licensed effects staged es' (Synchronizing Durable_completed_evidence)"
    if "opened effects es' Synchronize_completed_evidence None" for es' using that by simp
  show ?thesis
    unfolding synchronize_evidence_def traced_engine_simps traced_transaction_simps
    by (rule triple_bind_lift bracket_traced [OF store _ licence] settle_traced [OF store]
        triple_return triple_if triple_stop | assumption | simp add: in_step_ahead)+
qed

lemma conclude_traced:
  assumes store: "returns_stored (engine_store W)"
  shows "triple (in_step effects staged es (published_journaled (mutated_rejected m)))
    (conclude_application (traced_engine W) request state m paths evidence)
    (\<lambda>b. write_ahead effects staged es) (write_ahead effects staged es)"
  unfolding conclude_application_def Let_def
  apply (rule enter_traced [OF store])
  apply (rule triple_bind_lift)
   apply (rule triple_bind [OF publish_evidence_traced [OF store]])
   apply (rule triple_split, simp only: prod.case)
   apply (rule triple_if, rule seal_unconfirmed_traced [OF store])
   apply (rule triple_bind [OF synchronize_evidence_traced [OF store]])
   apply (rule triple_split, simp only: prod.case)
   apply (rule triple_if, rule seal_unconfirmed_traced [OF store], rule seal_completion_traced [OF store])
  apply (simp add: in_step_ahead)
  done

lemma interrupt_completion_by:
  assumes quiet: "quiet L" and store: "returns_stored (engine_store W)"
  shows "triple (in_step_by L effects staged es (published_journaled (mutated_rejected m)))
    (interrupt_completion (traced_engine W) m indeterminate evidence)
    (phase_by L interrupted_journaled effects staged es) (ahead_by L es)"
  unfolding interrupt_completion_def
  by (rule enter_by [OF quiet store], rule triple_lift)
    (auto simp: result_simps in_step_ahead dest!: interrupted_journaled_made)

lemmas interrupt_completion_traced = interrupt_completion_by [OF licensed_quiet]

lemma complete_traced:
  assumes store: "returns_stored (engine_store W)"
  shows "triple (in_step effects staged es (published_journaled (mutated_rejected m)))
    (complete_application (traced_engine W) m request state lease img)
    (phase_in_step interrupted_journaled effects staged es) (write_ahead effects staged es)"
proof -
  have settle: "triple (in_step effects staged es b)
      (settle_observations (traced_engine W) img observed decisions ([], [], mutated_journaled m b))
      (\<lambda>(matches, paths, n). in_step effects staged es (published_journaled (mutated_rejected n)))
      (write_ahead effects staged es)" for b observed decisions
    using settle_observations_traced [OF store, where progress = "([], [], mutated_journaled m b)"]
    by simp
  show ?thesis
    unfolding complete_application_def Let_def traced_engine_simps traced_transaction_simps
    apply (rule triple_bind_lift)
     apply (rule triple_bind [OF intend_observations_traced [OF store]])
     apply (rule triple_bind [OF triple_traced], erule in_step_ahead)
     apply (rule triple_bind [OF settle])
     apply (rule triple_split)+
     apply (simp only: prod.case)
     apply (rule triple_if, rule interrupt_completion_traced [OF store])
     apply (rule triple_bind [OF conclude_traced [OF store]])
     apply (rule triple_return, simp)
    apply (simp add: in_step_ahead)
    done
qed

section \<open>Recovery\<close>

lemma interrupted_with_simps [simp]: "interrupted_journaled (interrupted_with i a) = a"
  by (simp add: interrupted_with_def)

lemma seal_recovery_by:
  assumes quiet: "quiet L" and store: "returns_stored (engine_store W)"
  shows "triple (in_step_by L effects staged es (interrupted_journaled i))
    (seal_recovery_receipt (traced_engine W) i request state outcome recovered durability recoveries
      evidence) (\<lambda>r. ahead_by L es) (ahead_by L es)"
  unfolding seal_recovery_receipt_def Let_def
  by (rule triple_bind_lift enter_by [OF quiet store] triple_return | simp add: in_step_ahead)+

lemmas seal_recovery_traced = seal_recovery_by [OF licensed_quiet]

lemma recover_one_traced:
  assumes store: "returns_stored (engine_store W)"
  shows "triple (in_step effects staged es (interrupted_journaled i)) (recover_one (traced_engine W) path i)
    (\<lambda>(r, j). in_step effects staged es (interrupted_journaled j)) (write_ahead effects staged es)"
  unfolding recover_one_def traced_engine_simps traced_transaction_simps
  by (rule triple_bind_lift bracket_traced [OF store] settle_traced [OF store] triple_return
      | assumption | simp add: in_step_ahead)+

lemma recover_loop_traced:
  assumes store: "returns_stored (engine_store W)"
  shows "triple (in_step effects staged es (interrupted_journaled (snd (snd progress))))
    (recover_loop (traced_engine W) candidates progress)
    (\<lambda>(recoveries, evidence, j). in_step effects staged es (interrupted_journaled j))
    (write_ahead effects staged es)"
proof (induction candidates arbitrary: progress)
  case Nil
  show ?case unfolding recover_loop.simps by (rule triple_return) (auto split: prod.splits)
next
  case (Cons e candidates)
  obtain recoveries evidence i where p: "progress = (recoveries, evidence, i)" by (cases progress) auto
  show ?case
    unfolding p recover_loop.simps snd_conv Let_def
    apply (rule triple_bind [OF recover_one_traced [OF store]])
    apply (rule triple_split, simp only: prod.case)
    apply (rule triple_if)
    subgoal for x r j
      using Cons.IH [of "(recoveries @ [r],
        append_unique_evidence evidence (operation_evidence (recovery_result r)), j)"] by simp
    apply (rule triple_return, simp)
    done
qed

lemma synchronize_recovered_traced:
  assumes store: "returns_stored (engine_store W)"
  shows "triple (in_step effects staged es (interrupted_journaled i))
    (synchronize_recovered (traced_engine W) durability i)
    (\<lambda>(durability, j). in_step effects staged es (interrupted_journaled j)) (write_ahead effects staged es)"
proof -
  have licence: "licensed effects staged es' (Synchronizing Durable_active_namespace)"
    if "opened effects es' Synchronize_recovered_namespace None" for es' using that by simp
  show ?thesis
    unfolding synchronize_recovered_def traced_engine_simps traced_transaction_simps
    by (rule triple_bind_lift bracket_traced [OF store _ licence] settle_traced [OF store]
        triple_if triple_stop triple_lift | assumption | auto simp: in_step_ahead result_simps)+
qed

lemma undo_traced:
  assumes store: "returns_stored (engine_store W)"
  shows "triple (in_step effects staged es (interrupted_journaled i))
    (undo_interrupted (traced_engine W) i request state)
    (\<lambda>r. write_ahead effects staged es) (write_ahead effects staged es)"
proof -
  have loop: "triple (in_step effects staged es b)
      (recover_loop (traced_engine W) candidates ([], evidence, interrupted_with i b))
      (\<lambda>(recoveries, evidence, j). in_step effects staged es (interrupted_journaled j))
      (write_ahead effects staged es)" for b candidates evidence
    using recover_loop_traced [OF store, where progress = "([], evidence, interrupted_with i b)"] by simp
  have keep: "triple (in_step effects staged es (interrupted_journaled j))
      (if C then synchronize_recovered (traced_engine W) durability j else io_return (durability, j))
      (\<lambda>(durability, j). in_step effects staged es (interrupted_journaled j)) (write_ahead effects staged es)"
    for C durability j
    by (intro triple_if synchronize_recovered_traced [OF store] triple_return) simp
  show ?thesis
    unfolding undo_interrupted_def Let_def
    apply (rule enter_traced [OF store])
    apply (rule triple_bind [OF loop])
    apply (rule triple_split)+
    apply (simp only: prod.case)
    apply (rule triple_bind_lift)
     apply (rule triple_bind [OF keep])
     apply (rule triple_split)+
     apply (simp only: prod.case)
     apply (rule seal_recovery_traced [OF store])
    apply (simp add: in_step_ahead)
    done
qed

lemma recover_traced:
  assumes store: "returns_stored (engine_store W)"
  shows "triple (in_step effects staged es (interrupted_journaled i))
    (recover_interrupted (traced_engine W) i request state lease)
    (\<lambda>r. write_ahead effects staged es) (write_ahead effects staged es)"
  unfolding recover_interrupted_def seal_without_candidates_def seal_without_recovery_def
  by (rule triple_bind_lift triple_if seal_recovery_traced [OF store] undo_traced [OF store]
      | simp add: in_step_ahead)+

section \<open>The entry points\<close>

lemma apply_prepared_traced:
  assumes store: "returns_stored (engine_store W)"
  shows "triple (phase_in_step prepared_journaled effects staged es preparation)
    (apply_prepared (traced_engine W) request state lease img preparation)
    (\<lambda>r. write_ahead effects staged es) (write_ahead effects staged es)"
proof (cases preparation)
  case (Phase_stopped receipt)
  show ?thesis
    unfolding apply_prepared_def Phase_stopped phase.case by (rule triple_return) simp
next
  case (Phase_done prepared)
  have finish: "triple (phase_in_step interrupted_journaled effects staged es completion)
      (finish_completion (traced_engine W) request state lease completion)
      (\<lambda>r. write_ahead effects staged es) (write_ahead effects staged es)" for completion
    unfolding finish_completion_def
    by (cases completion) (auto intro: triple_return recover_traced [OF store])
  show ?thesis
    unfolding apply_prepared_def Phase_done phase.case phase_by_simps
    apply (rule phase_bind [OF publish_rejected_traced [OF store]])
     apply (simp only: phase.case, rule triple_return, assumption)
    apply (simp only: phase.case)
    apply (rule active_bind [OF execute_active_traced [OF store]])
     apply (simp only: phase.case, rule recover_traced [OF store])
    apply (simp only: phase.case)
    apply (rule triple_bind [OF complete_traced [OF store]])
    apply (rule finish)
    done
qed

text \<open>The declaration is recorded before anything else, with the schedule's payloads among its effects.\<close>

definition staged_paths :: "'p journal_effect list \<Rightarrow> 'p list" where
  "staged_paths effects =
     map (\<lambda>e. the (effect_path e)) (filter (\<lambda>e. effect_kind e = Stage_incoming_payload) effects)"

definition disciplined :: "'p call list \<Rightarrow> bool" where
  "disciplined tr \<longleftrightarrow>
     (case tr of
        [] \<Rightarrow> True
      | Declared effects # rest \<Rightarrow> write_ahead effects (staged_paths effects) [] tr
      | _ \<Rightarrow> False)"

lemma staged_paths_shape:
  "staged_paths effects =
     map (\<lambda>s. the (snd s)) (filter (\<lambda>s. fst s = Stage_incoming_payload) (map effect_shape effects))"
  by (simp add: staged_paths_def effect_shape_def filter_map comp_def)

lemma closing_kinds_unstaged: "Stage_incoming_payload \<notin> set (closing_kinds i r a j s)"
  by (auto simp: closing_kinds_def)

lemma journal_effects_staged:
  assumes "journal_effects E schedule i r a j s = Inr effects"
  shows "staged_paths effects = payload_paths schedule"
proof -
  have effects: "effects = effects_from E 0 (graph_shapes schedule (closing_kinds i r a j s))"
    using assms by (simp add: journal_effects_shapes)
  have kind: "journal_kind k = Stage_incoming_payload \<longleftrightarrow> k = Step_stage_payload" for k
    by (cases k) simp_all
  have none: "filter (\<lambda>k. k = Stage_incoming_payload) (closing_kinds i r a j s) = []"
    using closing_kinds_unstaged by (auto simp: filter_empty_conv)
  show ?thesis
    unfolding staged_paths_shape effects effects_from_shape graph_shapes_def recovery_shapes_def
      payload_paths_def
    by (simp add: filter_map comp_def kind none rev_filter)
qed

lemma declare_traced:
  fixes d :: "('p, 'o) journal_declaration"
  assumes store: "returns_stored store"
  shows "triple (\<lambda>tr. tr = []) (publish_initial_declaration E (traced_store store) d)
    (\<lambda>h tr. hd tr = Declared (declaration_effects d) \<and> tr \<noteq> [] \<and> history_memory_ok h \<and>
       history_effects h = declaration_effects d \<and>
       foldl note_call (None, []) tr = (None, history_events h) \<and>
       write_ahead (declaration_effects d) staged [] tr)
    disciplined"
proof (rule tripleI)
  fix s and tr :: "'p call list"
  assume nil: "tr = []"
  let ?effects = "declaration_effects d"
  have one: "write_ahead ?effects p [] [Declared ?effects]"
    and two: "write_ahead ?effects p [] [Declared ?effects, Committed c]" for p c
    by (simp_all add: ahead_by_def less_Suc_eq nth_Cons')
  obtain r1 s1 where d: "publish_declaration store d s = (r1, s1)" by (metis prod.collapse)
  note run = publish_initial_declaration_def traced_store_def acknowledged_def io_bind_def d
  let ?post = "\<lambda>r. ends_in (\<lambda>h tr. hd tr = Declared ?effects \<and> tr \<noteq> [] \<and> history_memory_ok h \<and>
       history_effects h = ?effects \<and> foldl note_call (None, []) tr = (None, history_events h) \<and>
       write_ahead ?effects staged [] tr) disciplined r \<and> (\<exists>rest. snd (snd r) = tr @ rest)"
  show "?post (publish_initial_declaration E (traced_store store) d (s, tr))"
  proof (cases r1)
    case (Inl e)
    then show ?thesis by (simp add: run nil disciplined_def)
  next
    case (Inr d')
    show ?thesis
    proof (cases "declaration_identity d' = declaration_identity d")
      case False
      then show ?thesis by (simp add: run nil Inr disciplined_def) (simp add: ahead_by_def)
    next
      case True
      then have same: "d' = d" using store d Inr unfolding returns_stored_def by blast
      show ?thesis
      proof (cases "initial_history E d")
        case (Inl e)
        then show ?thesis using one by (simp add: run nil Inr same disciplined_def)
      next
        case h: (Inr h)
        obtain r2 s2 where c: "compare_and_publish_cursor store None (history_cursor h) s1 = (r2, s2)"
          by (metis prod.collapse)
        have "history_memory_ok h" by (rule initial_history_memory [OF h])
        moreover have "history_effects h = ?effects" "history_events h = []"
          using h by (auto simp: initial_history_Inr history_effects_def)
        ultimately show ?thesis
          using one two by (cases r2) (simp_all add: run nil Inr same h c disciplined_def)
      qed
    qed
  qed
qed

definition declared_in_step ::
  "('p, 'o, 'sel) journaled_application \<Rightarrow> 'p call list \<Rightarrow> bool" where
  "declared_in_step a tr \<longleftrightarrow> (\<exists>effects rest. tr = Declared effects # rest \<and>
     in_step effects (staged_paths effects) [] a tr)"

lemma declared_run:
  assumes "\<And>effects. triple (in_step effects (staged_paths effects) [] a) m
    (\<lambda>r. write_ahead effects (staged_paths effects) []) (write_ahead effects (staged_paths effects) [])"
  shows "triple (declared_in_step a) m (\<lambda>r. disciplined) disciplined"
proof (rule tripleI)
  fix s tr
  assume "declared_in_step a tr"
  then obtain effects rest where tr: "tr = Declared effects # rest"
    and inv: "in_step effects (staged_paths effects) [] a tr" unfolding declared_in_step_def by blast
  obtain r s' tr' where run: "m (s, tr) = (r, s', tr')" by (metis prod.collapse)
  from tripleD(2) [OF assms inv, of s] run obtain more where more: "tr' = tr @ more" by auto
  have "write_ahead effects (staged_paths effects) [] tr'"
    using tripleD(1) [OF assms inv, of s] run by (cases r) simp_all
  then have "disciplined tr'" by (simp add: disciplined_def more tr)
  then show "ends_in (\<lambda>r. disciplined) disciplined (m (s, tr)) \<and> (\<exists>rest. snd (snd (m (s, tr))) = tr @ rest)"
    using more by (cases r) (simp_all add: run)
qed

lemma disciplined_Nil [simp]: "disciplined []"
  by (simp add: disciplined_def)

lemma make_journaled_same: "make_journaled E a = Inr b \<Longrightarrow> b = a"
  by (auto simp: make_journaled_def result_simps split: if_splits)

lemma initial_journal_traced:
  assumes store: "returns_stored (engine_store W)"
  shows "triple (\<lambda>tr. tr = [])
    (publish_initial_journal (traced_engine W) admitted request state lease payloads captures schedule
      has_recovery has_active has_rejected) declared_in_step disciplined"
  unfolding publish_initial_journal_def Let_def traced_engine_simps
proof (intro triple_bind_lift)
  let ?E = "engine_environment W"
  fix header effects seed d
  assume effects: "journal_effects ?E schedule
      (case payloads of None \<Rightarrow> False | Some p \<Rightarrow> selection_size W (payload_selection p) \<noteq> 0)
      has_recovery has_active has_rejected
      (control_durability (request_control request) = All_application_domains) = Inr effects"
    and made: "make_declaration ?E header effects seed = Inr d"
  have d: "declaration_effects d = effects" using made by (auto simp: make_declaration_Inr)
  show "triple (\<lambda>tr. tr = [])
     (io_bind (publish_initial_declaration ?E (traced_store (engine_store W)) d) (\<lambda>h.
      io_lift (make_journaled ?E
        \<lparr>journaled_attempt = admitted_attempt admitted,
         journaled_preconditions = admitted_preconditions admitted,
         journaled_payloads = payloads, journaled_captures = captures,
         journaled_schedule = schedule, journaled_history = h,
         journaled_projection = projection_identity state,
         journaled_lease = lease_identity lease\<rparr>))) declared_in_step disciplined"
  proof (rule triple_bind [OF declare_traced [OF store, where staged = "payload_paths schedule"]],
      rule triple_lift)
    fix h a tr
    assume "make_journaled ?E \<lparr>journaled_attempt = admitted_attempt admitted,
         journaled_preconditions = admitted_preconditions admitted,
         journaled_payloads = payloads, journaled_captures = captures,
         journaled_schedule = schedule, journaled_history = h,
         journaled_projection = projection_identity state,
         journaled_lease = lease_identity lease\<rparr> = Inr a"
    note a = make_journaled_same [OF this]
    assume "hd tr = Declared (declaration_effects d) \<and> tr \<noteq> [] \<and> history_memory_ok h \<and>
       history_effects h = declaration_effects d \<and>
       foldl note_call (None, []) tr = (None, history_events h) \<and>
       write_ahead (declaration_effects d) (payload_paths schedule) [] tr"
    then show "declared_in_step a tr"
      unfolding declared_in_step_def in_step_by_def
      by (cases tr) (simp_all add: a d journal_effects_staged [OF effects])
  next
    fix h tr
    assume "hd tr = Declared (declaration_effects d) \<and> tr \<noteq> [] \<and> history_memory_ok h \<and>
       history_effects h = declaration_effects d \<and>
       foldl note_call (None, []) tr = (None, history_events h) \<and>
       write_ahead (declaration_effects d) (payload_paths schedule) [] tr"
    then show "disciplined tr"
      by (cases tr) (simp_all add: disciplined_def d journal_effects_staged [OF effects])
  qed
qed simp_all

lemma finish_admission_traced:
  "triple (\<lambda>tr. tr = []) (finish_admission (traced_engine W) request state lease backend transaction)
    (\<lambda>r tr. tr = []) disciplined"
  unfolding finish_admission_def Let_def traced_engine_simps traced_transaction_simps
  by (cases transaction; simp only: option.case)
    (rule triple_stop triple_bind_lift triple_bind [OF triple_traced] triple_if triple_lift | simp)+

text \<open>
  The whole application of an installation or upgrade, and of a removal: whatever the backend and
  the store answer, and wherever it ends, the trace is disciplined.
\<close>

lemma apply_incoming_traced:
  assumes store: "returns_stored (engine_store W)"
  shows "triple (\<lambda>tr. tr = [])
    (apply_incoming (traced_engine W) request incoming state lease backend archive (traced begin_transaction))
    (\<lambda>r. disciplined) disciplined"
proof -
  have admit: "triple (\<lambda>tr. tr = [])
      (admit_incoming_application (traced_engine W) request incoming state lease backend archive
        (traced begin_transaction)) (\<lambda>r tr. tr = []) disciplined"
    unfolding admit_incoming_application_def
    by (rule triple_bind_lift, rule triple_bind [OF triple_traced])
      (simp_all add: finish_admission_traced)
  have journal: "triple (\<lambda>tr. tr = [])
      (journal_incoming_application (traced_engine W) admitted request state lease img)
      declared_in_step disciplined" for admitted img
    unfolding journal_incoming_application_def Let_def
    by (rule triple_bind_lift initial_journal_traced [OF store] | simp)+
  have rest: "triple (declared_in_step a)
      (io_bind (prepare_with_archive (traced_engine W) a request state lease archive)
        (apply_prepared (traced_engine W) request state lease (Some (archive_image archive))))
      (\<lambda>r. disciplined) disciplined" for a
    by (rule declared_run, rule triple_bind [OF prepare_traced [OF store]],
        rule apply_prepared_traced [OF store])
  show ?thesis
    unfolding apply_incoming_def
  proof (rule triple_bind [OF admit])
    fix admission
    show "triple (\<lambda>tr. tr = [])
      (case admission of Phase_stopped receipt \<Rightarrow> io_return receipt
       | Phase_done admitted \<Rightarrow>
           io_bind (journal_incoming_application (traced_engine W) admitted request state lease
               (archive_image archive)) (\<lambda>a.
             io_bind (prepare_with_archive (traced_engine W) a request state lease archive)
               (apply_prepared (traced_engine W) request state lease (Some (archive_image archive)))))
      (\<lambda>r. disciplined) disciplined"
      by (cases admission; simp only: phase.case)
        (rule triple_return triple_bind [OF journal rest] | simp)+
  qed
qed

lemma apply_removal_traced:
  assumes store: "returns_stored (engine_store W)"
  shows "triple (\<lambda>tr. tr = [])
    (apply_removal (traced_engine W) request state lease backend (traced begin_transaction))
    (\<lambda>r. disciplined) disciplined"
proof -
  have admit: "triple (\<lambda>tr. tr = [])
      (admit_removal_application (traced_engine W) request state lease backend
        (traced begin_transaction)) (\<lambda>r tr. tr = []) disciplined"
    unfolding admit_removal_application_def
    by (rule triple_bind_lift, rule triple_bind [OF triple_traced])
      (simp_all add: finish_admission_traced)
  have journal: "triple (\<lambda>tr. tr = [])
      (journal_removal_application (traced_engine W) admitted request state lease)
      declared_in_step disciplined" for admitted
    unfolding journal_removal_application_def Let_def
    by (rule triple_bind_lift initial_journal_traced [OF store] | simp)+
  have rest: "triple (declared_in_step a)
      (io_bind (prepare_removal (traced_engine W) a request state lease)
        (apply_prepared (traced_engine W) request state lease None))
      (\<lambda>r. disciplined) disciplined" for a
    by (rule declared_run, rule triple_bind [OF prepare_removal_traced [OF store]],
        rule apply_prepared_traced [OF store])
  show ?thesis
    unfolding apply_removal_def
  proof (rule triple_bind [OF admit])
    fix admission
    show "triple (\<lambda>tr. tr = [])
      (case admission of Phase_stopped receipt \<Rightarrow> io_return receipt
       | Phase_done admitted \<Rightarrow>
           io_bind (journal_removal_application (traced_engine W) admitted request state lease) (\<lambda>a.
             io_bind (prepare_removal (traced_engine W) a request state lease)
               (apply_prepared (traced_engine W) request state lease None)))
      (\<lambda>r. disciplined) disciplined"
      by (cases admission; simp only: phase.case)
        (rule triple_return triple_bind [OF journal rest] | simp)+
  qed
qed

end
