(* ===== verification/Mirroring.thy ===== *)
theory Mirroring
  imports Discipline
begin

text \<open>
  Recording changes nothing: every phase of the recording engine returns what the engine returns and
  leaves the outside world as the engine leaves it.
\<close>

section \<open>Rules\<close>

definition mirrors :: "('s \<times> 'c list, 'a) io \<Rightarrow> ('s, 'a) io \<Rightarrow> bool" where
  "mirrors m n \<longleftrightarrow> (\<forall>s tr. fst (m (s, tr)) = fst (n s) \<and> fst (snd (m (s, tr))) = snd (n s))"

lemma mirrorsI:
  "(\<And>s tr. fst (m (s, tr)) = fst (n s) \<and> fst (snd (m (s, tr))) = snd (n s)) \<Longrightarrow> mirrors m n"
  by (simp add: mirrors_def)

lemma mirrors_bind:
  assumes m: "mirrors m n" and f: "\<And>x. mirrors (f x) (g x)"
  shows "mirrors (io_bind m f) (io_bind n g)"
proof (rule mirrorsI)
  fix s tr
  obtain r s' tr' where run: "m (s, tr) = (r, s', tr')" by (metis prod.collapse)
  then have "n s = (r, s')" using m unfolding mirrors_def by (metis fst_conv snd_conv prod.collapse)
  then show "fst (io_bind m f (s, tr)) = fst (io_bind n g s) \<and>
      fst (snd (io_bind m f (s, tr))) = snd (io_bind n g s)"
    using f by (cases r) (simp_all add: io_bind_def run mirrors_def)
qed

lemma mirrors_return: "mirrors (io_return x) (io_return x)"
  by (rule mirrorsI) simp

lemma mirrors_lift: "mirrors (io_lift r) (io_lift r)"
  by (rule mirrorsI) simp

lemma mirrors_traced: "mirrors (traced m) m"
  by (rule mirrorsI) (simp add: traced_def split: prod.split)

lemma mirrors_noted: "mirrors (noted c m) m"
  by (rule mirrorsI) (simp add: noted_def split: prod.split)

lemma mirrors_acknowledged: "mirrors (acknowledged c m) m"
  by (rule mirrorsI) (simp add: acknowledged_def split: prod.split sum.split)

lemma mirrors_if:
  "mirrors m n \<Longrightarrow> mirrors m' n' \<Longrightarrow> mirrors (if C then m else m') (if C then n else n')"
  by simp

lemma mirrors_option:
  "mirrors m n \<Longrightarrow> (\<And>y. mirrors (f y) (g y)) \<Longrightarrow>
   mirrors (case x of None \<Rightarrow> m | Some y \<Rightarrow> f y) (case x of None \<Rightarrow> n | Some y \<Rightarrow> g y)"
  by (cases x) simp_all

lemma mirrors_split:
  "(\<And>x y. mirrors (f x y) (g x y)) \<Longrightarrow>
   mirrors (case z of (x, y) \<Rightarrow> f x y) (case z of (x, y) \<Rightarrow> g x y)"
  by (cases z) simp

lemma mirrors_phase:
  "(\<And>r. mirrors (f r) (g r)) \<Longrightarrow> (\<And>x. mirrors (f' x) (g' x)) \<Longrightarrow>
   mirrors (case z of Phase_stopped r \<Rightarrow> f r | Phase_done x \<Rightarrow> f' x)
     (case z of Phase_stopped r \<Rightarrow> g r | Phase_done x \<Rightarrow> g' x)"
  by (cases z) simp_all

lemmas mirror_rules = mirrors_bind mirrors_return mirrors_lift mirrors_traced mirrors_noted
  mirrors_acknowledged mirrors_if mirrors_option mirrors_split mirrors_phase

section \<open>Journal transitions\<close>

lemma append_mirrors:
  "mirrors (append_journal_step E (traced_store store) h st event f rc ce)
     (append_journal_step E store h st event f rc ce)"
  unfolding append_journal_step_def Let_def traced_store_def
  by (rule mirror_rules | simp)+

lemma state_mirrors:
  "mirrors (journal_state_step (traced_engine W) a st rc ce) (journal_state_step W a st rc ce)"
  unfolding journal_state_step_def publish_state_def traced_engine_simps
  by (rule append_mirrors mirror_rules)+

lemma event_mirrors:
  "mirrors (journal_event_step (traced_engine W) a st eff kind evidence f rc ce)
     (journal_event_step W a st eff kind evidence f rc ce)"
  unfolding journal_event_step_def publish_event_def traced_engine_simps
  by (rule append_mirrors mirror_rules)+

lemmas step_mirrors = state_mirrors event_mirrors mirror_rules

section \<open>Admission and preparation\<close>

lemma declare_mirrors:
  "mirrors (publish_initial_declaration E (traced_store store) d) (publish_initial_declaration E store d)"
  unfolding publish_initial_declaration_def traced_store_def
  by (rule mirror_rules | simp)+

lemma finish_admission_mirrors:
  "mirrors (finish_admission (traced_engine W) request state lease backend tx)
     (finish_admission W request state lease backend tx)"
  unfolding finish_admission_def Let_def traced_engine_simps traced_transaction_simps
  by (rule mirror_rules)+

lemma initial_journal_mirrors:
  "mirrors (publish_initial_journal (traced_engine W) admitted request state lease payloads captures
      schedule hr ha hj)
     (publish_initial_journal W admitted request state lease payloads captures schedule hr ha hj)"
  unfolding publish_initial_journal_def Let_def traced_engine_simps
  by (rule declare_mirrors mirror_rules)+

lemma capture_one_mirrors:
  "mirrors (capture_one (traced_engine W) recovered request r) (capture_one W recovered request r)"
  unfolding capture_one_def Let_def traced_engine_simps traced_transaction_simps
  by (rule step_mirrors)+

lemma captures_mirrors:
  "mirrors (capture_old_objects (traced_engine W) recovered requests r)
     (capture_old_objects W recovered requests r)"
  by (induction requests arbitrary: r; unfold capture_old_objects.simps)
    (rule capture_one_mirrors mirror_rules | assumption)+

lemma intend_payloads_mirrors:
  "mirrors (intend_payloads (traced_engine W) steps a) (intend_payloads W steps a)"
  by (induction steps arbitrary: a; unfold intend_payloads.simps)
    (rule step_mirrors | assumption)+

lemma settle_payloads_mirrors:
  "mirrors (settle_payloads (traced_engine W) event evidence replayed paths a)
     (settle_payloads W event evidence replayed paths a)"
  by (induction paths arbitrary: a; unfold settle_payloads.simps)
    (rule step_mirrors | assumption)+

lemma run_payload_stage_mirrors:
  "mirrors (run_payload_stage (traced_engine W) archive selection) (run_payload_stage W archive selection)"
proof -
  have check: "mirrors
      (\<lambda>s. if C \<noteq> tx_sealed (traced_transaction tx) stage s then (Inl e, s) else (Inr x, s))
      (\<lambda>s. if C \<noteq> tx_sealed tx stage s then (Inl e, s) else (Inr x, s))" for C tx stage e x
    by (rule mirrorsI) (simp add: traced_transaction_def)
  show ?thesis
    unfolding run_payload_stage_def Let_def traced_engine_simps traced_transaction_simps
    by (rule check mirror_rules)+
qed

lemma stage_payloads_mirrors:
  "mirrors (stage_incoming_payloads (traced_engine W) archive evidence a)
     (stage_incoming_payloads W archive evidence a)"
proof -
  have stop: "mirrors
      (\<lambda>s. if C then (Inr x, tx_abandon (traced_transaction tx) stage s) else (Inr y, s))
      (\<lambda>s. if C then (Inr x, tx_abandon tx stage s) else (Inr y, s))" for C tx stage x y
    by (rule mirrorsI) (simp add: traced_transaction_def)
  show ?thesis
    unfolding stage_incoming_payloads_def Let_def traced_engine_simps
    by (rule stop intend_payloads_mirrors run_payload_stage_mirrors settle_payloads_mirrors
        mirror_rules)+
qed

lemma synchronize_staged_mirrors:
  "mirrors (synchronize_staged (traced_engine W) domain kind status a)
     (synchronize_staged W domain kind status a)"
  unfolding synchronize_staged_def synchronize_preparation_domain_def traced_engine_simps
    traced_transaction_simps
  by (rule step_mirrors)+

lemma fail_preparation_mirrors:
  "mirrors (fail_preparation (traced_engine W) a request state journal incoming recovered evidence)
     (fail_preparation W a request state journal incoming recovered evidence)"
  unfolding fail_preparation_def traced_engine_simps
  by (rule step_mirrors)+

lemma make_prepared_traced: "make_prepared (traced_engine W) p = make_prepared W p"
  unfolding make_prepared_def has_payloads_def traced_engine_simps by (rule refl)

lemma finish_preparation_mirrors:
  "mirrors (finish_preparation (traced_engine W) a captured incoming recovered evidence)
     (finish_preparation W a captured incoming recovered evidence)"
  unfolding finish_preparation_def make_prepared_traced
  by (rule step_mirrors)+

lemma validate_archive_traced:
  "validate_preparation_archive (traced_engine W) a request archive =
     validate_preparation_archive W a request archive"
  unfolding validate_preparation_archive_def traced_engine_simps by (rule refl)

lemma prepare_mirrors:
  "mirrors (prepare_with_archive (traced_engine W) a request state lease archive)
     (prepare_with_archive W a request state lease archive)"
  unfolding prepare_with_archive_def validate_archive_traced
  by (rule captures_mirrors stage_payloads_mirrors synchronize_staged_mirrors fail_preparation_mirrors
      finish_preparation_mirrors mirror_rules)+

lemma prepare_removal_mirrors:
  "mirrors (prepare_removal (traced_engine W) a request state lease)
     (prepare_removal W a request state lease)"
  unfolding prepare_removal_def
  by (rule captures_mirrors synchronize_staged_mirrors fail_preparation_mirrors
      finish_preparation_mirrors mirror_rules)+

section \<open>Rejected and active effects\<close>

lemma publish_one_mirrors:
  "mirrors (publish_one_rejected (traced_engine W) plan step prepared)
     (publish_one_rejected W plan step prepared)"
  unfolding publish_one_rejected_def traced_engine_simps traced_transaction_simps
  by (rule step_mirrors)+

lemma fail_rejected_mirrors:
  "mirrors (fail_rejected_publication (traced_engine W) prepared request state done outcome recovered
      status evidence)
     (fail_rejected_publication W prepared request state done outcome recovered status evidence)"
  unfolding fail_rejected_publication_def Let_def traced_engine_simps
  by (rule step_mirrors)+

lemma publish_loop_mirrors:
  "mirrors (publish_rejected_loop (traced_engine W) request state steps progress)
     (publish_rejected_loop W request state steps progress)"
  by (induction steps arbitrary: progress; case_tac progress; simp only: publish_rejected_loop.simps Let_def)
    (rule publish_one_mirrors fail_rejected_mirrors mirror_rules | assumption)+

lemma publish_rejected_mirrors:
  "mirrors (publish_rejected (traced_engine W) prepared request state lease)
     (publish_rejected W prepared request state lease)"
  unfolding publish_rejected_def complete_rejected_def synchronize_rejected_store_def Let_def
    traced_engine_simps traced_transaction_simps
  by (rule publish_loop_mirrors fail_rejected_mirrors step_mirrors)+

lemma interrupt_mirrors:
  "mirrors (interrupt_active (traced_engine W) r so_far reason status evidence)
     (interrupt_active W r so_far reason status evidence)"
  unfolding interrupt_active_def by (rule step_mirrors)+

lemma execute_one_mirrors:
  "mirrors (execute_one_active (traced_engine W) plan step r) (execute_one_active W plan step r)"
  unfolding execute_one_active_def traced_engine_simps traced_transaction_simps
  by (rule step_mirrors)+

lemma execute_loop_mirrors:
  "mirrors (execute_active_loop (traced_engine W) plan steps progress)
     (execute_active_loop W plan steps progress)"
  by (induction steps arbitrary: progress; case_tac progress; simp only: execute_active_loop.simps Let_def)
    (rule execute_one_mirrors interrupt_mirrors mirror_rules | assumption)+

lemma execute_active_mirrors:
  "mirrors (execute_active (traced_engine W) r request state lease) (execute_active W r request state lease)"
  unfolding execute_active_def complete_active_def finish_active_def synchronize_active_namespace_def
    Let_def traced_engine_simps traced_transaction_simps
  by (rule execute_loop_mirrors interrupt_mirrors step_mirrors)+

section \<open>Completion and recovery\<close>

lemma intend_observations_mirrors:
  "mirrors (intend_observations (traced_engine W) decisions a) (intend_observations W decisions a)"
  by (induction decisions arbitrary: a; unfold intend_observations.simps)
    (rule step_mirrors | assumption)+

lemma settle_observation_mirrors:
  "mirrors (settle_observation (traced_engine W) img observed d m) (settle_observation W img observed d m)"
  unfolding settle_observation_def Let_def traced_engine_simps
  by (rule step_mirrors)+

lemma settle_observations_mirrors:
  "mirrors (settle_observations (traced_engine W) img observed decisions progress)
     (settle_observations W img observed decisions progress)"
  by (induction decisions arbitrary: progress; case_tac progress; simp only: settle_observations.simps)
    (rule settle_observation_mirrors mirror_rules | assumption)+

lemma seal_receipt_mirrors:
  "mirrors (seal_terminal_receipt (traced_engine W) a state receipt rc)
     (seal_terminal_receipt W a state receipt rc)"
  unfolding seal_terminal_receipt_def by (rule step_mirrors)+

lemma conclude_mirrors:
  "mirrors (conclude_application (traced_engine W) request state m paths evidence)
     (conclude_application W request state m paths evidence)"
  unfolding conclude_application_def seal_unconfirmed_def seal_completion_def publish_evidence_def
    synchronize_evidence_def Let_def traced_engine_simps traced_transaction_simps
  by (rule seal_receipt_mirrors step_mirrors)+

lemma complete_mirrors:
  "mirrors (complete_application (traced_engine W) m request state lease img)
     (complete_application W m request state lease img)"
  unfolding complete_application_def interrupt_completion_def Let_def traced_engine_simps
    traced_transaction_simps
  by (rule intend_observations_mirrors settle_observations_mirrors conclude_mirrors step_mirrors)+

lemma seal_recovery_mirrors:
  "mirrors (seal_recovery_receipt (traced_engine W) i request state outcome recovered durability
      recoveries evidence)
     (seal_recovery_receipt W i request state outcome recovered durability recoveries evidence)"
  unfolding seal_recovery_receipt_def Let_def traced_engine_simps by (rule step_mirrors)+

lemma recover_one_mirrors:
  "mirrors (recover_one (traced_engine W) path i) (recover_one W path i)"
  unfolding recover_one_def traced_engine_simps traced_transaction_simps by (rule step_mirrors)+

lemma recover_loop_mirrors:
  "mirrors (recover_loop (traced_engine W) candidates progress) (recover_loop W candidates progress)"
  by (induction candidates arbitrary: progress; case_tac progress; simp only: recover_loop.simps Let_def)
    (rule recover_one_mirrors mirror_rules | assumption)+

lemma recover_mirrors:
  "mirrors (recover_interrupted (traced_engine W) i request state lease)
     (recover_interrupted W i request state lease)"
  unfolding recover_interrupted_def seal_without_candidates_def seal_without_recovery_def
    undo_interrupted_def synchronize_recovered_def Let_def traced_engine_simps traced_transaction_simps
  by (rule recover_loop_mirrors seal_recovery_mirrors step_mirrors)+

section \<open>The entry points\<close>

lemma apply_prepared_mirrors:
  "mirrors (apply_prepared (traced_engine W) request state lease img preparation)
     (apply_prepared W request state lease img preparation)"
  unfolding apply_prepared_def finish_completion_def
  by (rule publish_rejected_mirrors execute_active_mirrors complete_mirrors recover_mirrors
      mirror_rules)+

lemma apply_incoming_mirrors:
  "mirrors (apply_incoming (traced_engine W) request incoming state lease backend archive
      (traced begin_transaction))
     (apply_incoming W request incoming state lease backend archive begin_transaction)"
  unfolding apply_incoming_def admit_incoming_application_def journal_incoming_application_def Let_def
    traced_engine_simps
  by (rule finish_admission_mirrors initial_journal_mirrors prepare_mirrors apply_prepared_mirrors
      mirror_rules)+

lemma apply_removal_mirrors:
  "mirrors (apply_removal (traced_engine W) request state lease backend (traced begin_transaction))
     (apply_removal W request state lease backend begin_transaction)"
  unfolding apply_removal_def admit_removal_application_def journal_removal_application_def Let_def
    traced_engine_simps
  by (rule finish_admission_mirrors initial_journal_mirrors prepare_removal_mirrors
      apply_prepared_mirrors mirror_rules)+

end
