(* ===== verification/Calls.thy ===== *)
theory Calls
  imports Mirroring
begin

text \<open>
  Which backend calls a phase makes.  \<open>calls_of kind tr\<close> are the paths a trace called the backend
  for with effects of one kind, in order; a phase spares a kind when it adds no such call.  All
  phases but the active execution and the recovery spare both of theirs.
\<close>

section \<open>Rules\<close>

fun calls_of :: "effect_kind \<Rightarrow> 'p call list \<Rightarrow> 'p list" where
  "calls_of kind [] = []"
| "calls_of kind (Called k (Some path) # tr) = (if k = kind then path # calls_of kind tr else calls_of kind tr)"
| "calls_of kind (_ # tr) = calls_of kind tr"

lemma calls_of_append [simp]: "calls_of kind (tr @ rest) = calls_of kind tr @ calls_of kind rest"
  by (induction kind tr rule: calls_of.induct) simp_all

definition spares :: "effect_kind set \<Rightarrow> ('s \<times> 'p call list, 'a) io \<Rightarrow> bool" where
  "spares K m \<longleftrightarrow> (\<forall>s tr. \<exists>rest. snd (snd (m (s, tr))) = tr @ rest \<and> (\<forall>kind \<in> K. calls_of kind rest = []))"

lemma sparesI:
  "(\<And>s tr. \<exists>rest. snd (snd (m (s, tr))) = tr @ rest \<and> (\<forall>kind \<in> K. calls_of kind rest = [])) \<Longrightarrow> spares K m"
  by (simp add: spares_def)

lemma spares_bind:
  assumes m: "spares K m" and f: "\<And>x. spares K (f x)"
  shows "spares K (io_bind m f)"
proof (rule sparesI)
  fix s tr
  obtain r s' tr' where run: "m (s, tr) = (r, s', tr')" by (metis prod.collapse)
  then obtain rest where rest: "tr' = tr @ rest" "\<forall>kind \<in> K. calls_of kind rest = []"
    using m unfolding spares_def by (metis snd_conv)
  show "\<exists>rest. snd (snd (io_bind m f (s, tr))) = tr @ rest \<and> (\<forall>kind \<in> K. calls_of kind rest = [])"
  proof (cases r)
    case (Inl e)
    then show ?thesis using rest by (simp add: io_bind_def run)
  next
    case (Inr x)
    from f [of x] obtain more where "snd (snd (f x (s', tr'))) = tr' @ more"
      "\<forall>kind \<in> K. calls_of kind more = []" unfolding spares_def by blast
    then show ?thesis using rest by (intro exI [of _ "rest @ more"]) (simp add: io_bind_def run Inr)
  qed
qed

lemma spares_return: "spares K (io_return x)"
  by (rule sparesI) simp

lemma spares_lift: "spares K (io_lift r)"
  by (rule sparesI) simp

lemma spares_traced: "spares K (traced m)"
  by (rule sparesI) (simp add: traced_def split: prod.split)

lemma spares_noted: "(\<And>kind. kind \<in> K \<Longrightarrow> calls_of kind [c] = []) \<Longrightarrow> spares K (noted c m)"
  by (rule sparesI) (simp add: noted_def split: prod.split)

lemma spares_acknowledged:
  "(\<And>x kind. kind \<in> K \<Longrightarrow> calls_of kind [c x] = []) \<Longrightarrow> spares K (acknowledged c m)"
  by (rule sparesI) (simp add: acknowledged_def split: prod.split sum.split)

lemma spares_if: "spares K m \<Longrightarrow> spares K n \<Longrightarrow> spares K (if C then m else n)"
  by simp

lemma spares_option:
  "spares K m \<Longrightarrow> (\<And>y. spares K (f y)) \<Longrightarrow> spares K (case x of None \<Rightarrow> m | Some y \<Rightarrow> f y)"
  by (cases x) simp_all

lemma spares_split: "(\<And>x y. spares K (f x y)) \<Longrightarrow> spares K (case z of (x, y) \<Rightarrow> f x y)"
  by (cases z) simp

lemma spares_phase:
  "(\<And>r. spares K (f r)) \<Longrightarrow> (\<And>x. spares K (g x)) \<Longrightarrow>
   spares K (case z of Phase_stopped r \<Rightarrow> f r | Phase_done x \<Rightarrow> g x)"
  by (cases z) simp_all

text \<open>A check of the stage's state, and the stage's abandonment, make no call.\<close>

lemma spares_peek: "spares K (\<lambda>s. if C s then (x, s) else (y, s))"
  by (rule sparesI) simp

lemma spares_abandon:
  "spares K (\<lambda>s. if C then (x, tx_abandon (traced_transaction tx) stage s) else (y, s))"
  by (rule sparesI) (simp add: traced_transaction_def)

lemmas spare_rules = spares_bind spares_return spares_lift spares_traced spares_if spares_option
  spares_split spares_phase spares_peek spares_abandon

lemma triple_spares:
  assumes "spares K m"
    and "\<And>tr rest. P tr \<Longrightarrow> \<forall>kind \<in> K. calls_of kind rest = [] \<Longrightarrow> P (tr @ rest)"
    and "\<And>tr. P tr \<Longrightarrow> E tr"
  shows "triple P m (\<lambda>x. P) E"
proof (rule tripleI)
  fix s tr
  assume P: "P tr"
  obtain r s' tr' where run: "m (s, tr) = (r, s', tr')" by (metis prod.collapse)
  then obtain rest where rest: "tr' = tr @ rest" "\<forall>kind \<in> K. calls_of kind rest = []"
    using assms(1) unfolding spares_def by (metis snd_conv)
  show "ends_in (\<lambda>x. P) E (m (s, tr)) \<and> (\<exists>rest. snd (snd (m (s, tr))) = tr @ rest)"
    using assms(2,3) P rest by (cases r) (auto simp: run)
qed

lemma triple_free: "spares {} m \<Longrightarrow> triple (\<lambda>tr. True) m (\<lambda>x tr. True) (\<lambda>tr. True)"
  by (rule triple_spares) simp_all

section \<open>The phases around the mutation\<close>

abbreviation active_kinds :: "effect_kind set" where
  "active_kinds \<equiv> {Publish_active_object, Recover_active_object}"

lemma append_spares: "spares K (append_journal_step E (traced_store store) h st event f rc ce)"
  unfolding append_journal_step_def Let_def traced_store_def journal_store.simps
  by (rule spare_rules spares_acknowledged | (simp; fail))+

lemma state_spares: "spares K (journal_state_step (traced_engine W) a st rc ce)"
  unfolding journal_state_step_def publish_state_def traced_engine_simps
  by (rule append_spares spare_rules)+

lemma event_spares: "spares K (journal_event_step (traced_engine W) a st eff kind evidence f rc ce)"
  unfolding journal_event_step_def publish_event_def traced_engine_simps
  by (rule append_spares spare_rules)+

lemmas step_spares = state_spares event_spares spare_rules

lemma capture_one_spares: "spares active_kinds (capture_one (traced_engine W) recovered request r)"
  unfolding capture_one_def Let_def traced_engine_simps traced_transaction_simps
  by (rule step_spares spares_noted | (auto; fail))+

lemma captures_spares: "spares active_kinds (capture_old_objects (traced_engine W) recovered requests r)"
  by (induction requests arbitrary: r; unfold capture_old_objects.simps)
    (rule capture_one_spares spare_rules | assumption)+

lemma intend_payloads_spares: "spares K (intend_payloads (traced_engine W) steps a)"
  by (induction steps arbitrary: a; unfold intend_payloads.simps) (rule step_spares | assumption)+

lemma settle_payloads_spares: "spares K (settle_payloads (traced_engine W) event evidence f paths a)"
  by (induction paths arbitrary: a; unfold settle_payloads.simps) (rule step_spares | assumption)+

lemma stage_payloads_spares: "spares K (stage_incoming_payloads (traced_engine W) archive evidence a)"
  unfolding stage_incoming_payloads_def run_payload_stage_def Let_def traced_engine_simps
    traced_transaction_simps
  by (rule intend_payloads_spares settle_payloads_spares spare_rules spares_noted | (simp; fail))+

lemma synchronize_staged_spares: "spares K (synchronize_staged (traced_engine W) domain kind status a)"
  unfolding synchronize_staged_def synchronize_preparation_domain_def traced_engine_simps
    traced_transaction_simps
  by (rule step_spares spares_noted | (simp; fail))+

lemma fail_preparation_spares:
  "spares K (fail_preparation (traced_engine W) a request state journal incoming recovered evidence)"
  unfolding fail_preparation_def traced_engine_simps by (rule step_spares)+

lemma finish_preparation_spares:
  "spares K (finish_preparation (traced_engine W) a captured incoming recovered evidence)"
  unfolding finish_preparation_def by (rule step_spares)+

lemmas preparation_spares = captures_spares stage_payloads_spares synchronize_staged_spares
  fail_preparation_spares finish_preparation_spares spare_rules

lemma prepare_spares:
  "spares active_kinds (prepare_with_archive (traced_engine W) a request state lease archive)"
  unfolding prepare_with_archive_def by (rule preparation_spares)+

lemma prepare_removal_spares:
  "spares active_kinds (prepare_removal (traced_engine W) a request state lease)"
  unfolding prepare_removal_def by (rule preparation_spares)+

lemma publish_one_spares: "spares active_kinds (publish_one_rejected (traced_engine W) plan step prepared)"
  unfolding publish_one_rejected_def traced_engine_simps traced_transaction_simps
  by (rule step_spares spares_noted | (auto; fail))+

lemma fail_rejected_spares:
  "spares K (fail_rejected_publication (traced_engine W) prepared request state done outcome recovered
     status evidence)"
  unfolding fail_rejected_publication_def Let_def traced_engine_simps by (rule step_spares)+

lemma publish_loop_spares:
  "spares active_kinds (publish_rejected_loop (traced_engine W) request state steps progress)"
  by (induction steps arbitrary: progress; case_tac progress; simp only: publish_rejected_loop.simps Let_def)
    (rule publish_one_spares fail_rejected_spares spare_rules | assumption)+

lemma publish_rejected_spares:
  "spares active_kinds (publish_rejected (traced_engine W) prepared request state lease)"
  unfolding publish_rejected_def complete_rejected_def synchronize_rejected_store_def finish_rejected_def
    Let_def traced_engine_simps traced_transaction_simps
  by (rule publish_loop_spares fail_rejected_spares step_spares spares_noted | (simp; fail))+

lemma observations_spares:
  "spares K (intend_observations (traced_engine W) decisions a)"
  "spares K (settle_observations (traced_engine W) img observed decisions progress)"
proof -
  have one: "spares K (settle_observation (traced_engine W) img observed d m)" for d m
    unfolding settle_observation_def Let_def traced_engine_simps by (rule step_spares)+
  show "spares K (intend_observations (traced_engine W) decisions a)"
    by (induction decisions arbitrary: a; unfold intend_observations.simps)
      (rule step_spares | assumption)+
  show "spares K (settle_observations (traced_engine W) img observed decisions progress)"
    by (induction decisions arbitrary: progress; case_tac progress; simp only: settle_observations.simps)
      (rule one spare_rules | assumption)+
qed

lemma conclude_spares:
  "spares active_kinds (conclude_application (traced_engine W) request state m paths evidence)"
  unfolding conclude_application_def seal_unconfirmed_def seal_completion_def publish_evidence_def
    synchronize_evidence_def seal_terminal_receipt_def Let_def traced_engine_simps
    traced_transaction_simps
  by (rule step_spares spares_noted | (auto; fail))+

lemma interrupt_completion_spares:
  "spares K (interrupt_completion (traced_engine W) m indeterminate evidence)"
  unfolding interrupt_completion_def Let_def by (rule step_spares)+

lemma complete_spares:
  "spares active_kinds (complete_application (traced_engine W) m request state lease img)"
  unfolding complete_application_def Let_def traced_engine_simps traced_transaction_simps
  by (rule observations_spares conclude_spares interrupt_completion_spares step_spares)+

lemma seal_recovery_spares:
  "spares K (seal_recovery_receipt (traced_engine W) i request state outcome recovered durability
     recoveries evidence)"
  unfolding seal_recovery_receipt_def Let_def traced_engine_simps by (rule step_spares)+

lemma finish_admission_spares:
  "spares K (finish_admission (traced_engine W) request state lease backend tx)"
  unfolding finish_admission_def Let_def traced_engine_simps traced_transaction_simps
  by (rule spare_rules)+

section \<open>The mutation itself\<close>

lemma interrupt_active_spares: "spares K (interrupt_active (traced_engine W) r effects reason status evidence)"
  unfolding interrupt_active_def by (rule step_spares)+

lemma complete_active_spares: "spares K (complete_active (traced_engine W) control progress)"
  unfolding complete_active_def synchronize_active_namespace_def finish_active_def Let_def
    traced_engine_simps traced_transaction_simps
  by (rule interrupt_active_spares step_spares spares_noted | (simp; fail))+

lemma synchronize_recovered_spares:
  "spares K (synchronize_recovered (traced_engine W) durability i)"
  unfolding synchronize_recovered_def traced_engine_simps traced_transaction_simps
  by (rule step_spares spares_noted | (simp; fail))+

lemma execute_one_spares:
  "spares {Recover_active_object} (execute_one_active (traced_engine W) plan step r)"
  unfolding execute_one_active_def traced_engine_simps traced_transaction_simps
  by (rule step_spares spares_noted | (simp; fail))+

lemma execute_active_spares:
  "spares {Recover_active_object} (execute_active (traced_engine W) r request state lease)"
proof -
  have "spares {Recover_active_object} (execute_active_loop (traced_engine W) plan steps progress)"
    for plan steps progress
    by (induction steps arbitrary: progress; case_tac progress; simp only: execute_active_loop.simps Let_def)
      (rule execute_one_spares interrupt_active_spares spare_rules | assumption)+
  then show ?thesis
    unfolding execute_active_def
    by (intro spares_bind spares_lift spares_phase spares_return complete_active_spares)
qed

lemma recover_one_spares: "spares {Publish_active_object} (recover_one (traced_engine W) path i)"
  unfolding recover_one_def traced_engine_simps traced_transaction_simps
  by (rule step_spares spares_noted | (simp; fail))+

lemma recover_loop_spares:
  "spares {Publish_active_object} (recover_loop (traced_engine W) candidates progress)"
  by (induction candidates arbitrary: progress; case_tac progress; simp only: recover_loop.simps Let_def)
    (rule recover_one_spares spare_rules | assumption)+

lemma recover_spares:
  "spares {Publish_active_object} (recover_interrupted (traced_engine W) i request state lease)"
  unfolding recover_interrupted_def seal_without_candidates_def seal_without_recovery_def
    undo_interrupted_def Let_def traced_engine_simps
  by (rule recover_loop_spares seal_recovery_spares synchronize_recovered_spares step_spares)+

end
