(* ===== verification/Sealing.thy ===== *)
theory Sealing
  imports Calls
begin

text \<open>
  Every receipt an application returns, except the refusal of a precondition, is sealed: the last
  thing the application does is to store and commit a journal step that names it.
\<close>

section \<open>The sealing step\<close>

definition sealed :: "digest \<Rightarrow> 'p call list \<Rightarrow> bool" where
  "sealed receipt tr \<longleftrightarrow> (\<exists>prior s c. tr = prior @ [Stored s, Committed c] \<and>
     step_receipt s = Some receipt \<and> cursor_latest c = Some (step_identity s) \<and>
     cursor_receipt c = Some receipt)"

lemma validate_successor_cursor:
  assumes "validate_successor E h t = Inr c"
  shows "cursor_latest c = Some (step_identity t) \<and> cursor_receipt c = step_receipt t"
proof -
  from assms have "advance_cursor E (history_cursor h) t = Inr c"
    unfolding validate_successor_def validate_step_def Let_def rbind_Inr_iff case_prod_beta
    by (elim exE conjE) (simp only: sum.inject step_validation.simps, metis sum.inject(2) step_validation.simps(1))
  then show ?thesis by (auto simp: advance_cursor_Inr identified_cursor_def)
qed

lemma append_sealed:
  assumes store: "returns_stored store"
  shows "triple (\<lambda>tr. True) (append_journal_step E (traced_store store) h st event f (Some receipt) ce)
    (\<lambda>h. sealed receipt) (\<lambda>tr. True)"
proof (rule tripleI)
  fix s :: 'a and tr :: "'b call list"
  let ?run = "append_journal_step E (traced_store store) h st event f (Some receipt) ce (s, tr)"
  have grown: "\<exists>rest. snd (snd ?run) = tr @ rest"
    using append_spares unfolding spares_def by fast
  obtain r s' tr' where run: "?run = (r, s', tr')" by (metis prod.collapse)
  show "ends_in (\<lambda>h. sealed receipt) (\<lambda>tr. True) ?run \<and> (\<exists>rest. snd (snd ?run) = tr @ rest)"
  proof (cases r)
    case (Inl e)
    then show ?thesis using grown by (simp add: run)
  next
    case (Inr h')
    let ?t = "\<lparr>step_identity = 0, step_declaration = declaration_identity (history_declaration h),
         step_sequence = cursor_count (history_cursor h), step_predecessor = cursor_latest (history_cursor h),
         step_state = st, step_event = event, step_fact = f, step_receipt = Some receipt,
         step_completed = ce\<rparr>"
    obtain t c where t: "make_step E ?t = Inr t" and c: "validate_successor E h t = Inr c"
      using run Inr by (cases "make_step E ?t"; cases "validate_successor E h (projr (make_step E ?t))")
        (auto simp: append_journal_step_def Let_def io_bind_def)
    obtain d s1 where p: "publish_step store t s = (Inr d, s1)"
      using run Inr by (cases "publish_step store t s"; cases "fst (publish_step store t s)")
        (auto simp: append_journal_step_def Let_def io_bind_def t c traced_store_def acknowledged_def)
    have d: "d = t"
      using store p run Inr unfolding returns_stored_def
      by (cases "step_identity d = step_identity t")
        (auto simp: append_journal_step_def Let_def io_bind_def t c traced_store_def acknowledged_def)
    have "step_receipt t = Some receipt" using t by (auto simp: make_step_Inr)
    then have "sealed receipt (tr @ [Stored t, Committed c])"
      using validate_successor_cursor [OF c] unfolding sealed_def by auto
    moreover have "tr' = tr @ [Stored t, Committed c]"
      using run Inr by (auto simp: append_journal_step_def Let_def io_bind_def t c traced_store_def
          acknowledged_def p d split: prod.splits sum.splits if_splits)
    ultimately show ?thesis by (simp add: run Inr)
  qed
qed

section \<open>Receipts\<close>

definition answered :: "('p, 'o) application_receipt \<Rightarrow> 'p call list \<Rightarrow> bool" where
  "answered receipt tr \<longleftrightarrow>
     terminal_outcome receipt \<noteq> Precondition_refused \<and> sealed (terminal_identity receipt) tr"

definition stops_answered :: "(('p, 'o) application_receipt, 'a) phase \<Rightarrow> 'p call list \<Rightarrow> bool" where
  "stops_answered z tr \<longleftrightarrow> (\<forall>receipt. z = Phase_stopped receipt \<longrightarrow> answered receipt tr)"

lemma stops_answered_simps [simp]:
  "stops_answered (Phase_stopped receipt) tr = answered receipt tr"
  "stops_answered (Phase_done x) tr"
  by (simp_all add: stops_answered_def)

abbreviation anything :: "'c list \<Rightarrow> bool" where
  "anything \<equiv> \<lambda>tr. True"

lemma failed_receipt_outcome:
  "failed_receipt E request attempt projection outcome recovery durability paths journal backend = Inr r \<Longrightarrow>
     terminal_outcome r = outcome"
  by (auto simp: failed_receipt_def make_failed_def result_simps Let_def)

lemma state_sealed:
  "returns_stored (engine_store W) \<Longrightarrow>
   triple anything (journal_state_step (traced_engine W) a st (Some receipt) ce) (\<lambda>a. sealed receipt) anything"
  unfolding journal_state_step_def publish_state_def traced_engine_simps
  by (rule triple_bind [OF append_sealed]) (simp_all add: triple_return)

lemma free_bind:
  assumes "spares {} m" and "\<And>x. triple anything (f x) Q anything"
  shows "triple anything (io_bind m f) Q anything"
  by (rule triple_bind [OF triple_free [OF assms(1)] assms(2)])

lemma event_sealed:
  "returns_stored (engine_store W) \<Longrightarrow>
   triple anything (journal_event_step (traced_engine W) a st eff kind evidence f (Some receipt) ce)
     (\<lambda>a. sealed receipt) anything"
  unfolding journal_event_step_def publish_event_def traced_engine_simps
  by (rule triple_bind [OF free_bind [OF spares_lift append_sealed]]) (simp_all add: triple_return)

lemma free_stop: "triple anything (io_lift (Inl e)) Q anything"
  by (rule triple_stop) simp

lemma free_last:
  assumes "spares {} m" and "\<And>x tr. Q x tr"
  shows "triple anything m Q anything"
  by (rule triple_consequence [OF triple_free [OF assms(1)]]) (simp_all add: assms(2))

lemma spares_mono: "spares K m \<Longrightarrow> L \<subseteq> K \<Longrightarrow> spares L m"
  unfolding spares_def by (meson subsetD)

lemmas spares_free = spares_mono [OF _ empty_subsetI]

lemma fail_preparation_sealed:
  assumes "returns_stored (engine_store W)"
  shows "triple anything (fail_preparation (traced_engine W) a request state journal incoming recovered evidence)
    stops_answered anything"
  unfolding fail_preparation_def traced_engine_simps
proof (rule triple_bind_lift)
  fix receipt
  assume "rbind (preparation_profile journal incoming recovered) (\<lambda>durability.
       failed_receipt (engine_environment W) request (attempt_identity (journaled_attempt a))
         (projection_identity state) Failed_before_target_mutation Recovery_unchanged durability []
         (Some (header_identity (journaled_header a))) evidence) = Inr receipt"
  then have outcome: "terminal_outcome receipt = Failed_before_target_mutation"
    by (auto simp: rbind_Inr_iff failed_receipt_outcome)
  show "triple anything (io_bind (journal_state_step (traced_engine W) a Abandoned
      (Some (terminal_identity receipt)) None) (\<lambda>_. io_lift (preparation_failed receipt)))
    stops_answered anything"
    by (rule triple_bind [OF state_sealed [OF assms]], rule triple_lift)
      (auto simp: preparation_failed_def outcome answered_def)
qed simp

lemma finish_preparation_free:
  "triple anything (finish_preparation (traced_engine W) a captured incoming recovered evidence)
    stops_answered anything"
  unfolding finish_preparation_def
  by (rule free_bind, rule state_spares, rule triple_lift) (auto simp: rbind_Inr_iff)

lemma prepare_sealed:
  assumes "returns_stored (engine_store W)"
  shows "triple anything (prepare_with_archive (traced_engine W) a request state lease archive)
      stops_answered anything"
    and "triple anything (prepare_removal (traced_engine W) a request state lease) stops_answered anything"
  unfolding prepare_with_archive_def prepare_removal_def Let_def
  by (rule free_stop free_bind spares_lift spares_free [OF captures_spares] stage_payloads_spares
      synchronize_staged_spares triple_if triple_split fail_preparation_sealed [OF assms]
      finish_preparation_free)+

section \<open>The later phases\<close>

lemma stop_or_go:
  assumes m: "triple anything m stops_answered anything"
    and stop: "\<And>r tr. answered r tr \<Longrightarrow> Q (s r) tr"
    and go: "\<And>x. triple anything (f x) Q anything"
  shows "triple anything (io_bind m (\<lambda>z. case z of Phase_stopped r \<Rightarrow> io_return (s r) | Phase_done x \<Rightarrow> f x))
    Q anything"
proof (rule triple_bind [OF m])
  fix z
  show "triple (stops_answered z) (case z of Phase_stopped r \<Rightarrow> io_return (s r) | Phase_done x \<Rightarrow> f x) Q anything"
  proof (cases z)
    case (Phase_stopped r)
    show ?thesis unfolding Phase_stopped phase.case by (rule triple_return, rule stop) simp
  next
    case (Phase_done x)
    show ?thesis unfolding Phase_done phase.case by (rule triple_consequence [OF go]) simp_all
  qed
qed

lemma answered_lift:
  "(\<And>x. r = Inr x \<Longrightarrow> \<forall>receipt. x \<noteq> Phase_stopped receipt) \<Longrightarrow>
   triple anything (io_lift r) stops_answered anything"
  by (rule triple_lift) (auto simp: stops_answered_def)

lemma fail_rejected_sealed:
  assumes "returns_stored (engine_store W)" and "outcome \<noteq> Precondition_refused"
  shows "triple anything (fail_rejected_publication (traced_engine W) prepared request state effects outcome
    recovered status evidence) stops_answered anything"
  unfolding fail_rejected_publication_def traced_engine_simps Let_def
  by (rule triple_bind_lift, rule triple_bind [OF state_sealed [OF assms(1)]], rule triple_lift)
    (auto simp: rejected_publication_failed_def answered_def rbind_Inr_iff assms(2)
      dest!: failed_receipt_outcome split: if_splits)

lemma publish_loop_sealed:
  assumes "returns_stored (engine_store W)"
  shows "triple anything (publish_rejected_loop (traced_engine W) request state steps progress)
    stops_answered anything"
proof (induction steps arbitrary: progress)
  case Nil
  show ?case by (simp only: publish_rejected_loop.simps) (rule triple_return, simp)
next
  case (Cons step steps)
  show ?case
    by (cases progress; simp only: publish_rejected_loop.simps Let_def)
      (rule Cons free_bind triple_if triple_split spares_free [OF publish_one_spares]
        fail_rejected_sealed [OF assms] | (simp; fail))+
qed

lemma publish_rejected_sealed:
  assumes "returns_stored (engine_store W)"
  shows "triple anything (publish_rejected (traced_engine W) prepared request state lease)
    stops_answered anything"
proof -
  have finish: "triple anything (io_lift (finish_rejected progress)) stops_answered anything" for progress
    by (rule answered_lift) (auto simp: finish_rejected_def rbind_Inr_iff split: prod.splits)
  have synchronize: "spares K (synchronize_rejected_store (traced_engine W) a)" for K a
    unfolding synchronize_rejected_store_def traced_engine_simps traced_transaction_simps
    by (rule step_spares spares_noted | (simp; fail))+
  have complete: "triple anything (complete_rejected (traced_engine W) request state progress)
      stops_answered anything" for progress
    unfolding complete_rejected_def Let_def
    by (rule free_bind triple_if triple_split synchronize finish fail_rejected_sealed [OF assms]
        | (simp; fail))+
  show ?thesis
    unfolding publish_rejected_def Let_def
    by (rule free_bind spares_lift state_spares stop_or_go [OF publish_loop_sealed [OF assms]]
        complete | (simp; fail))+
qed

lemma seal_terminal_sealed:
  assumes "returns_stored (engine_store W)"
  shows "triple anything (seal_terminal_receipt (traced_engine W) a state receipt evidence)
    (\<lambda>a. sealed (terminal_identity receipt)) anything"
  unfolding seal_terminal_receipt_def
  by (rule free_bind, rule spares_lift, rule free_bind, rule event_spares) (rule event_sealed [OF assms])

lemma conclude_sealed:
  assumes "returns_stored (engine_store W)"
  shows "triple anything (conclude_application (traced_engine W) request state m paths evidence)
    answered anything"
proof -
  have publish: "spares {} (publish_evidence (traced_engine W) completed a)" for completed a
    unfolding publish_evidence_def traced_engine_simps traced_transaction_simps
    by (rule step_spares spares_noted | (simp; fail))+
  have synchronize: "spares {} (synchronize_evidence (traced_engine W) a)" for a
    unfolding synchronize_evidence_def traced_engine_simps traced_transaction_simps
    by (rule step_spares spares_noted | (simp; fail))+
  have unconfirmed: "triple anything (seal_unconfirmed (traced_engine W) request state m a paths evidence u)
      answered anything" for a paths evidence u
    unfolding seal_unconfirmed_def completion_failure_receipt_def traced_engine_simps
    by (rule triple_bind_lift, rule triple_bind [OF seal_terminal_sealed [OF assms]], rule triple_return)
      (auto simp: answered_def rbind_Inr_iff dest!: failed_receipt_outcome split: if_splits)
  have completion: "triple anything (seal_completion (traced_engine W) m a completed evidence)
      answered anything" for a completed evidence
    unfolding seal_completion_def traced_engine_simps
    by (rule triple_bind_lift, rule triple_bind [OF seal_terminal_sealed [OF assms]], rule triple_return)
      (auto simp: answered_def dest!: completed_receipt_fields)
  show ?thesis
    unfolding conclude_application_def Let_def traced_engine_simps
    by (rule free_bind state_spares spares_lift publish synchronize unconfirmed completion triple_if
        triple_split)+
qed

lemma complete_sealed:
  assumes "returns_stored (engine_store W)"
  shows "triple anything (complete_application (traced_engine W) m request state lease img)
    stops_answered anything"
proof -
  have interrupt: "triple anything (interrupt_completion (traced_engine W) m indeterminate evidence)
      stops_answered anything" for m :: "('b, 'c, 'd) active_mutated" and indeterminate evidence
    unfolding interrupt_completion_def
    by (rule free_bind, rule state_spares, rule answered_lift) (auto simp: rbind_Inr_iff)
  have stop: "triple (answered receipt) (io_return (Phase_stopped receipt)) stops_answered anything" for receipt
    by (rule triple_return) simp
  show ?thesis
    unfolding complete_application_def Let_def traced_engine_simps traced_transaction_simps
    by (rule free_bind spares_lift observations_spares spares_traced interrupt triple_if triple_split
        triple_bind [OF conclude_sealed [OF assms] stop])+
qed

lemma seal_recovery_sealed:
  assumes "returns_stored (engine_store W)"
  shows "triple anything (seal_recovery_receipt (traced_engine W) i request state outcome recovered durability
    recoveries evidence) answered anything"
  unfolding seal_recovery_receipt_def Let_def traced_engine_simps
  by (rule triple_bind_lift, rule triple_bind_lift, rule triple_bind [OF state_sealed [OF assms]],
      rule triple_return)
    (auto simp: answered_def terminal_failure_state_def rbind_Inr_iff
      dest!: failed_receipt_outcome split: attempt_outcome.splits)

lemma recover_sealed:
  assumes "returns_stored (engine_store W)"
  shows "triple anything (recover_interrupted (traced_engine W) i request state lease) answered anything"
  unfolding recover_interrupted_def seal_without_candidates_def seal_without_recovery_def
    undo_interrupted_def Let_def traced_engine_simps
  by (rule free_bind spares_lift state_spares spares_free [OF recover_loop_spares]
      synchronize_recovered_spares spares_return spares_if seal_recovery_sealed [OF assms]
      triple_if triple_split)+

lemma apply_prepared_sealed:
  assumes "returns_stored (engine_store W)"
    and m: "triple anything m stops_answered anything"
  shows "triple anything (io_bind m (apply_prepared (traced_engine W) request state lease img)) answered anything"
proof -
  have finish: "triple anything (io_bind (complete_application (traced_engine W) n request state lease img)
      (finish_completion (traced_engine W) request state lease)) answered anything" for n
    unfolding finish_completion_def
    by (rule stop_or_go [OF complete_sealed [OF assms(1)] _ recover_sealed [OF assms(1)]])
  have active: "triple anything (case active of
        Phase_stopped i \<Rightarrow> recover_interrupted (traced_engine W) i request state lease
      | Phase_done n \<Rightarrow> io_bind (complete_application (traced_engine W) n request state lease img)
          (finish_completion (traced_engine W) request state lease)) answered anything" for active
    by (cases active; simp only: phase.case) (rule recover_sealed [OF assms(1)], rule finish)
  show ?thesis
    unfolding apply_prepared_def
    by (rule stop_or_go [OF m], assumption, rule stop_or_go [OF publish_rejected_sealed [OF assms(1)]],
        assumption, rule free_bind [OF spares_free [OF execute_active_spares] active])
qed

text \<open>An application is refused before it made any journal or mutating call.\<close>

definition concluded :: "('p, 'o) application_receipt \<Rightarrow> 'p call list \<Rightarrow> bool" where
  "concluded receipt tr \<longleftrightarrow>
     (if terminal_outcome receipt = Precondition_refused then tr = []
      else sealed (terminal_identity receipt) tr)"

lemma finish_admission_quiet:
  "triple (\<lambda>tr. tr = []) (finish_admission (traced_engine W) request state lease backend transaction)
    (\<lambda>z tr. tr = [] \<and> (\<forall>receipt. z = Phase_stopped receipt \<longrightarrow> terminal_outcome receipt = Precondition_refused))
    anything"
  unfolding finish_admission_def Let_def traced_engine_simps traced_transaction_simps
  by (cases transaction; simp only: option.case)
    (rule triple_stop triple_bind_lift triple_bind [OF triple_traced] triple_if triple_lift
     | (auto simp: rbind_Inr_iff admission_refused_def split: if_splits; fail))+

lemma concluded_run:
  assumes admit: "triple (\<lambda>tr. tr = []) m
      (\<lambda>z tr. tr = [] \<and> (\<forall>r. z = Phase_stopped r \<longrightarrow> terminal_outcome r = Precondition_refused)) anything"
    and go: "\<And>x. triple anything (f x) answered anything"
  shows "triple (\<lambda>tr. tr = []) (io_bind m (\<lambda>z. case z of Phase_stopped r \<Rightarrow> io_return r | Phase_done x \<Rightarrow> f x))
    concluded anything"
proof (rule triple_bind [OF admit])
  fix z
  show "triple (\<lambda>tr. tr = [] \<and> (\<forall>r. z = Phase_stopped r \<longrightarrow> terminal_outcome r = Precondition_refused))
      (case z of Phase_stopped r \<Rightarrow> io_return r | Phase_done x \<Rightarrow> f x) concluded anything"
  proof (cases z)
    case (Phase_stopped r)
    show ?thesis unfolding Phase_stopped phase.case by (rule triple_return) (simp add: concluded_def)
  next
    case (Phase_done x)
    show ?thesis unfolding Phase_done phase.case
      by (rule triple_consequence [OF go]) (simp_all add: concluded_def answered_def)
  qed
qed

lemma initial_journal_spares:
  "spares K (publish_initial_journal (traced_engine W) admitted request state lease payloads captures
     schedule hr ha hj)"
  unfolding publish_initial_journal_def publish_initial_declaration_def Let_def traced_engine_simps
    traced_store_def journal_store.simps
  by (rule spare_rules spares_acknowledged | (simp; fail))+

lemma journal_spares:
  "spares K (journal_incoming_application (traced_engine W) admitted request state lease img)"
  "spares K (journal_removal_application (traced_engine W) admitted request state lease)"
  unfolding journal_incoming_application_def journal_removal_application_def Let_def traced_engine_simps
  by (rule spare_rules initial_journal_spares)+

lemma apply_sealed:
  assumes "returns_stored (engine_store W)"
  shows "triple (\<lambda>tr. tr = []) (apply_incoming (traced_engine W) request incoming state lease backend archive
      (traced begin_transaction)) concluded anything"
    and "triple (\<lambda>tr. tr = []) (apply_removal (traced_engine W) request state lease backend
      (traced begin_transaction)) concluded anything"
  unfolding apply_incoming_def apply_removal_def admit_incoming_application_def admit_removal_application_def
  by (rule concluded_run free_bind journal_spares triple_bind_lift triple_bind [OF triple_traced]
      finish_admission_quiet apply_prepared_sealed [OF assms] prepare_sealed [OF assms] | (simp; fail))+

section \<open>Properties of a whole application\<close>

text \<open>
  A backend that removes one path: its state says whether the path is gone.  The journal store keeps
  nothing and returns what it is given.
\<close>

definition trial_store :: "('s, 'p, 'o) journal_store" where
  "trial_store = \<lparr>publish_declaration = io_return, publish_step = io_return,
     compare_and_publish_cursor = (\<lambda>expected. io_return),
     load_declaration = (\<lambda>i. io_lift (Inl (Logic_error ''absent''))),
     load_cursor = (\<lambda>i. io_lift (Inl (Logic_error ''absent''))),
     load_step = (\<lambda>i n. io_lift (Inl (Logic_error ''absent'')))\<rparr>"

lemma trial_store_returns: "returns_stored trial_store"
  by (simp add: returns_stored_def trial_store_def)

definition trial_observation :: "bool \<Rightarrow> 8 word \<Rightarrow> 8 word path_observation" where
  "trial_observation gone path =
     (if gone then \<lparr>observation_path = path, observation_state = State_not_applicable,
        observation_object = None\<rparr>
      else \<lparr>observation_path = path, observation_state = State_known, observation_object = Some
        \<lparr>object_path = path, object_kind = Object_fifo, object_mode = Fact_known 0,
         object_uid = Fact_known 0, object_gid = Fact_known 0, object_size = Fact_not_applicable,
         object_mtime = Fact_unknown, object_content = Fact_not_applicable,
         object_symlink_target = Fact_not_applicable, object_device = Fact_not_applicable,
         object_hardlink = Fact_not_applicable, object_provenance = Application_observation,
         object_completeness = Fact_complete\<rparr>\<rparr>)"

definition trial_transaction :: "(bool, 8 word, 8 word, entry_id list) transaction" where
  "trial_transaction =
     \<lparr>tx_observe = (\<lambda>paths gone. (Inr \<lparr>batch_requested = paths,
        batch_observations = map (trial_observation gone) paths, batch_evidence = [1]\<rparr>, gone)),
      tx_capture = (\<lambda>r. io_return \<lparr>capture_outcome = Outcome_completed,
        captured_observation = trial_observation False (capture_path r),
        exact_recovery_possible = True, capture_evidence = [2]\<rparr>),
      tx_begin_stage = (\<lambda>img sel. io_return None),
      tx_seal = (\<lambda>stage. io_lift (Inl (Logic_error ''no stage''))),
      tx_sealed = (\<lambda>stage gone. False), tx_abandon = (\<lambda>stage gone. gone),
      tx_rejected = (\<lambda>r. io_lift (Inl (Logic_error ''no rejected store''))),
      tx_active = (\<lambda>r gone. (Inr \<lparr>operation_outcome = Outcome_completed, operation_evidence = [3]\<rparr>, True)),
      tx_evidence = (\<lambda>e. io_return \<lparr>publication_outcome = Outcome_completed,
        publication_record = Some (evidence_identity e), publication_evidence = [4]\<rparr>),
      tx_recover = (\<lambda>path gone. (Inr \<lparr>operation_outcome = Outcome_completed, operation_evidence = [5]\<rparr>, False)),
      tx_synchronize = (\<lambda>d. io_return \<lparr>fact_domain = d, fact_status = Durability_confirmed\<rparr>)\<rparr>"

definition trial_engine :: "(bool, 8 word, 8 word, entry_id list) engine" where
  "trial_engine =
     \<lparr>engine_environment = sample_paths\<lparr>hash := (\<lambda>bs. fold (\<lambda>b h. h * 257 + ucast b + 1) bs 1)\<rparr>,
      engine_store = trial_store, engine_transaction = trial_transaction,
      archive_replay = (\<lambda>archive sel stage. io_return ()), selection_from_ids = (\<lambda>img ids. Inr ids),
      selection_size = length, selection_validate = (\<lambda>sel img. Inr ())\<rparr>"

lemma trial_engine_returns: "returns_stored (engine_store trial_engine)"
  by (simp add: trial_engine_def trial_store_returns)

definition trial_request :: "(8 word, 8 word) application_request" where
  "trial_request = Admission.sample_removal_request\<lparr>request_plan :=
     sample_plan\<lparr>plan_preconditions := (plan_preconditions sample_plan)
       \<lparr>preconditions_target := [1], preconditions_snapshot := [2], preconditions_inventory := [3]\<rparr>\<rparr>\<rparr>"

text \<open>What a run answers, with what it recorded; an exception answers nothing.\<close>

definition answer_of :: "(error + 'a) \<times> 's \<times> 'c list \<Rightarrow> ('a \<times> 'c list) option" where
  "answer_of run = (case run of (Inr x, s, tr) \<Rightarrow> Some (x, tr) | (Inl e, s, tr) \<Rightarrow> None)"

lemma ends_in_answer: "ends_in Q E run \<Longrightarrow> pred_option (\<lambda>(x, tr). Q x tr) (answer_of run)"
  by (simp add: answer_of_def ends_in_def split: prod.splits sum.splits)

text \<open>
  A run of a recording engine next to the run of the engine: the same answer and the same outside
  state, with a disciplined record.
\<close>

definition recorded :: "('s \<times> 'p call list, 'a) io \<Rightarrow> ('s, 'a) io \<Rightarrow> 's \<Rightarrow> bool" where
  "recorded m n s \<longleftrightarrow>
     fst (m (s, [])) = fst (n s) \<and> fst (snd (m (s, []))) = snd (n s) \<and>
     disciplined (snd (snd (m (s, []))))"

lemma recordedI:
  assumes "mirrors m n" and "triple (\<lambda>tr. tr = []) m (\<lambda>r. disciplined) disciplined"
  shows "recorded m n s"
proof -
  have "ends_in (\<lambda>r. disciplined) disciplined (m (s, []))" using tripleD(1) [OF assms(2)] by simp
  then have "disciplined (snd (snd (m (s, []))))" by (cases "m (s, [])"; cases "fst (m (s, []))") auto
  then show ?thesis using assms(1) by (simp add: recorded_def mirrors_def)
qed

text \<open>
  C3: every effect of an application is written ahead.  Run an installation, upgrade or removal of
  any engine, over any backend, store and request, on a recording engine: the run answers exactly
  what it answers unrecorded and leaves the same outside state, and, however it ends, the recorded
  calls begin with the declaration and every capture, publication, recovery, staging and
  synchronization call is made while the declared effect it belongs to has a durable intent and no
  outcome.  The store is assumed to return what it stored.
\<close>

theorem application_written_ahead:
  assumes "returns_stored (engine_store W)"
  shows "recorded
      (apply_incoming (traced_engine W) request incoming state lease backend archive (traced begin_transaction))
      (apply_incoming W request incoming state lease backend archive begin_transaction) s \<and>
    recorded
      (apply_removal (traced_engine W) request state lease backend (traced begin_transaction))
      (apply_removal W request state lease backend begin_transaction) s"
  by (intro conjI recordedI apply_incoming_mirrors apply_removal_mirrors apply_incoming_traced [OF assms]
      apply_removal_traced [OF assms])

theorem application_written_ahead_witness:
  "disciplined (snd (snd (apply_removal (traced_engine trial_engine) trial_request sample_projected_state
     sample_lease sample_backend (traced (io_return (Some sample_transaction))) (False, []))))"
  using application_written_ahead [OF trial_engine_returns] unfolding recorded_def by blast

text \<open>
  C4: no receipt is returned before it is durable.  When an application answers with a receipt, the
  receipt refuses a precondition and no journal or mutating call was made, or the last two calls
  stored a journal step that names the receipt and committed the cursor that points to that step.
\<close>

theorem receipt_sealed_before_return:
  assumes "returns_stored (engine_store W)"
  shows "pred_option (\<lambda>(receipt, tr). concluded receipt tr) (answer_of
      (apply_incoming (traced_engine W) request incoming state lease backend archive
        (traced begin_transaction) (s, []))) \<and>
    pred_option (\<lambda>(receipt, tr). concluded receipt tr) (answer_of
      (apply_removal (traced_engine W) request state lease backend (traced begin_transaction) (s, [])))"
proof -
  note run = tripleD(1) [OF apply_sealed(1) [OF assms] refl] tripleD(1) [OF apply_sealed(2) [OF assms] refl]
  show ?thesis by (intro conjI ends_in_answer; rule run)
qed

theorem receipt_sealed_witness:
  "pred_option (\<lambda>(receipt, tr). concluded receipt tr) (answer_of
     (apply_removal (traced_engine trial_engine) trial_request sample_projected_state sample_lease
       sample_backend (traced (io_return (Some sample_transaction))) (False, [])))"
  using receipt_sealed_before_return [OF trial_engine_returns] by blast

end
