(* ===== verification/Sequencing.thy ===== *)
theory Sequencing
  imports Sealing "HOL-Library.Sublist"
begin

text \<open>
  The order of the mutation: active objects are published in the order of the declared schedule, and
  recovery undoes what was published, last first.
\<close>

section \<open>What a phase returns\<close>

definition yields :: "('s, 'a) io \<Rightarrow> ('a \<Rightarrow> bool) \<Rightarrow> bool" where
  "yields m Q \<longleftrightarrow> (\<forall>s x. fst (m s) = Inr x \<longrightarrow> Q x)"

lemma yields_bind:
  assumes m: "yields m R" and f: "\<And>x. R x \<Longrightarrow> yields (f x) Q"
  shows "yields (io_bind m f) Q"
  unfolding yields_def
proof (intro allI impI)
  fix s y
  assume run: "fst (io_bind m f s) = Inr y"
  show "Q y"
  proof (cases "m s")
    case (Pair r s')
    then obtain x where "r = Inr x" using run by (cases r) (simp_all add: io_bind_def)
    then have "R x" "fst (f x s') = Inr y"
      using m run Pair unfolding yields_def by (simp_all add: io_bind_def) (metis fst_conv)
    then show ?thesis using f unfolding yields_def by blast
  qed
qed

lemma yields_skip: "(\<And>x. yields (f x) Q) \<Longrightarrow> yields (io_bind m f) Q"
  by (rule yields_bind [of m "\<lambda>x. True"]) (simp_all add: yields_def)

lemma yields_return: "Q x \<Longrightarrow> yields (io_return x) Q"
  by (simp add: yields_def)

lemma yields_lift: "(\<And>x. r = Inr x \<Longrightarrow> Q x) \<Longrightarrow> yields (io_lift r) Q"
  by (simp add: yields_def)

lemma yields_stop: "yields (io_lift (Inl e)) Q"
  by (simp add: yields_def)

lemma yields_if: "(C \<Longrightarrow> yields m Q) \<Longrightarrow> (\<not> C \<Longrightarrow> yields n Q) \<Longrightarrow> yields (if C then m else n) Q"
  by simp

lemma yields_option:
  "(x = None \<Longrightarrow> yields m Q) \<Longrightarrow> (\<And>y. x = Some y \<Longrightarrow> yields (f y) Q) \<Longrightarrow>
   yields (case x of None \<Rightarrow> m | Some y \<Rightarrow> f y) Q"
  by (cases x) simp_all

lemma yields_split: "(\<And>x y. z = (x, y) \<Longrightarrow> yields (f x y) Q) \<Longrightarrow> yields (case z of (x, y) \<Rightarrow> f x y) Q"
  by (cases z) simp

lemma triple_yields:
  assumes "triple P m Q E" and "yields m R"
  shows "triple P m (\<lambda>x tr. Q x tr \<and> R x) E"
proof (rule tripleI)
  fix s tr
  assume P: "P tr"
  obtain r s' tr' where run: "m (s, tr) = (r, s', tr')" by (metis prod.collapse)
  then have "r = Inr x \<Longrightarrow> R x" for x using assms(2) unfolding yields_def by (metis fst_conv)
  then show "ends_in (\<lambda>x tr. Q x tr \<and> R x) E (m (s, tr)) \<and> (\<exists>rest. snd (snd (m (s, tr))) = tr @ rest)"
    using tripleD [OF assms(1) P, of s] by (cases r) (simp_all add: run)
qed

section \<open>The schedule stays\<close>

abbreviation on_schedule :: "'p effect_step list \<Rightarrow> ('p, 'o, 'sel) journaled_application \<Rightarrow> bool" where
  "on_schedule sch a \<equiv> journaled_schedule a = sch"

lemma state_schedule:
  "on_schedule sch a \<Longrightarrow> yields (journal_state_step W a st rc ce) (on_schedule sch)"
  unfolding journal_state_step_def by (rule yields_skip, rule yields_return) simp

lemma event_schedule:
  "on_schedule sch a \<Longrightarrow> yields (journal_event_step W a st eff kind evidence f rc ce) (on_schedule sch)"
  unfolding journal_event_step_def by (rule yields_skip, rule yields_return) simp

lemma capture_one_schedule:
  "on_schedule sch (progress_application r) \<Longrightarrow>
   yields (capture_one W recovered request r) (\<lambda>r. on_schedule sch (progress_application r))"
  unfolding capture_one_def Let_def
  by (rule yields_bind [OF event_schedule] yields_return yields_skip | simp)+

lemma captures_schedule:
  "on_schedule sch (progress_application r) \<Longrightarrow>
   yields (capture_old_objects W recovered requests r) (\<lambda>r. on_schedule sch (progress_application r))"
proof (induction requests arbitrary: r)
  case Nil
  then show ?case unfolding capture_old_objects.simps by (rule yields_return)
next
  case (Cons request requests)
  show ?case
    unfolding capture_old_objects.simps
    by (rule yields_bind [OF capture_one_schedule [OF Cons.prems]], rule yields_if, erule Cons.IH,
        erule yields_return)
qed

lemma intend_payloads_schedule:
  "on_schedule sch a \<Longrightarrow> yields (intend_payloads W steps a) (on_schedule sch)"
proof (induction steps arbitrary: a)
  case Nil
  then show ?case unfolding intend_payloads.simps by (rule yields_return)
next
  case (Cons step steps)
  show ?case
    unfolding intend_payloads.simps
    by (rule yields_if, rule Cons.IH [OF Cons.prems], rule yields_skip,
        rule yields_bind [OF event_schedule [OF Cons.prems]], erule Cons.IH)
qed

lemma settle_payloads_schedule:
  "on_schedule sch a \<Longrightarrow> yields (settle_payloads W event evidence f paths a) (on_schedule sch)"
proof (induction paths arbitrary: a)
  case Nil
  then show ?case unfolding settle_payloads.simps by (rule yields_return)
next
  case (Cons path paths)
  show ?case
    unfolding settle_payloads.simps
    by (rule yields_skip, rule yields_bind [OF event_schedule [OF Cons.prems]], erule Cons.IH)
qed

lemma stage_end_schedule:
  "on_schedule sch b \<Longrightarrow> yields (\<lambda>s. if C
      then (Inr \<lparr>staging_application = b, staging_evidence = ev, staging_durability = st,
              staging_completed = False\<rparr>, tx_abandon tx stage s)
      else (Inr \<lparr>staging_application = b, staging_evidence = ev, staging_durability = st',
              staging_completed = True\<rparr>, s)) (\<lambda>p. on_schedule sch (staging_application p))"
  unfolding yields_def by simp

lemma stage_payloads_schedule:
  assumes "on_schedule sch a"
  shows "yields (stage_incoming_payloads W archive evidence a) (\<lambda>p. on_schedule sch (staging_application p))"
  unfolding stage_incoming_payloads_def Let_def
  by (rule stage_end_schedule yields_option yields_if yields_split yields_stop
      yields_bind [OF intend_payloads_schedule [OF assms]] yields_bind [OF settle_payloads_schedule]
      yields_return yields_skip | (simp add: assms; fail) | assumption)+

lemma synchronize_staged_schedule:
  "on_schedule sch a \<Longrightarrow>
   yields (synchronize_staged W domain kind status a) (\<lambda>(d, st, a). on_schedule sch a)"
  unfolding synchronize_staged_def synchronize_preparation_domain_def
  by (rule yields_if yields_bind [of _ "\<lambda>(st, a). on_schedule sch a"] yields_bind [OF event_schedule]
      yields_split yields_stop yields_return yields_skip | (simp; fail))+

definition done_with :: "('a \<Rightarrow> bool) \<Rightarrow> ('r, 'a) phase \<Rightarrow> bool" where
  "done_with Q z \<longleftrightarrow> (\<forall>x. z = Phase_done x \<longrightarrow> Q x)"

lemma done_with_simps [simp]:
  "done_with Q (Phase_stopped r)" "done_with Q (Phase_done x) = Q x"
  by (simp_all add: done_with_def)

lemma yields_phase:
  "yields m (done_with R) \<Longrightarrow> (\<And>x. R x \<Longrightarrow> yields (f x) (done_with Q)) \<Longrightarrow>
   yields (io_bind m (\<lambda>z. case z of Phase_stopped r \<Rightarrow> io_return (Phase_stopped r) | Phase_done x \<Rightarrow> f x))
     (done_with Q)"
  by (rule yields_bind, assumption) (auto split: phase.split intro: yields_return)

lemma fail_preparation_schedule:
  "yields (fail_preparation W a request state journal incoming recovered evidence) (done_with Q)"
  unfolding fail_preparation_def
  by (intro yields_skip yields_lift) (auto simp: preparation_failed_def split: if_splits)

lemma make_prepared_journaled: "make_prepared W p = Inr q \<Longrightarrow> prepared_journaled q = prepared_journaled p"
  by (auto simp: make_prepared_def Let_def result_simps split: if_splits)

lemma finish_preparation_schedule:
  "on_schedule sch a \<Longrightarrow> yields (finish_preparation W a captured incoming recovered evidence)
    (done_with (\<lambda>p. on_schedule sch (prepared_journaled p)))"
  unfolding finish_preparation_def
  by (rule yields_bind [OF state_schedule], assumption, rule yields_lift)
    (auto simp: rbind_Inr_iff dest!: make_prepared_journaled)

lemma prepare_schedule_kept:
  "on_schedule sch a \<Longrightarrow> yields (prepare_with_archive W a request state lease archive)
    (done_with (\<lambda>p. on_schedule sch (prepared_journaled p)))"
  "on_schedule sch a \<Longrightarrow> yields (prepare_removal W a request state lease)
    (done_with (\<lambda>p. on_schedule sch (prepared_journaled p)))"
  unfolding prepare_with_archive_def prepare_removal_def
  by (rule yields_stop yields_if yields_bind [OF captures_schedule] yields_bind [OF stage_payloads_schedule]
      yields_bind [OF synchronize_staged_schedule] yields_split fail_preparation_schedule
      finish_preparation_schedule yields_skip | (simp add: initial_captures_def; fail) | assumption)+

abbreviation prepared_on ::
  "'p effect_step list \<Rightarrow> ('p, 'o, 'sel) prepared_application \<Rightarrow> bool" where
  "prepared_on sch p \<equiv> on_schedule sch (prepared_journaled p)"

lemma publish_one_schedule:
  "prepared_on sch p \<Longrightarrow> yields (publish_one_rejected W plan step p) (\<lambda>(eff, q). prepared_on sch q)"
  unfolding publish_one_rejected_def
  by (rule yields_bind [OF event_schedule] yields_return yields_skip | (simp; fail))+

lemma fail_rejected_schedule:
  "yields (fail_rejected_publication W p request state effects outcome recovered status evidence) (done_with Q)"
  unfolding fail_rejected_publication_def Let_def
  by (intro yields_skip yields_lift) (auto simp: rejected_publication_failed_def split: if_splits)

lemma publish_loop_schedule:
  "prepared_on sch (fst progress) \<Longrightarrow> yields (publish_rejected_loop W request state steps progress)
     (done_with (\<lambda>progress. prepared_on sch (fst progress)))"
proof (induction steps arbitrary: progress)
  case Nil
  then show ?case unfolding publish_rejected_loop.simps by (intro yields_return) simp
next
  case (Cons step steps)
  obtain p effects status evidence where progress: "progress = (p, effects, status, evidence)"
    by (metis prod_cases4)
  have p: "prepared_on sch p" using Cons.prems by (simp add: progress)
  show ?case
    unfolding progress publish_rejected_loop.simps Let_def
    by (rule yields_if Cons.IH yields_bind [OF publish_one_schedule [OF p]] yields_split
        fail_rejected_schedule | (simp add: p; fail))+
qed

lemma make_rejected_journaled:
  "make_rejected_published r = Inr q \<Longrightarrow> published_journaled q = published_journaled r"
  by (auto simp: make_rejected_published_def Let_def result_simps split: if_splits)

lemma publish_rejected_schedule:
  "prepared_on sch p \<Longrightarrow> yields (publish_rejected W p request state lease)
     (done_with (\<lambda>r. on_schedule sch (published_journaled r)))"
proof -
  have synchronize: "on_schedule sch a \<Longrightarrow>
      yields (synchronize_rejected_store W a) (\<lambda>(status, a). on_schedule sch a)" for a
    unfolding synchronize_rejected_store_def
    by (rule yields_if yields_stop yields_bind [OF event_schedule] yields_return yields_skip | (simp; fail))+
  have finish: "prepared_on sch (fst progress) \<Longrightarrow> yields (io_lift (finish_rejected progress))
      (done_with (\<lambda>r. on_schedule sch (published_journaled r)))" for progress
    by (rule yields_lift) (auto simp: finish_rejected_def rbind_Inr_iff
      dest!: make_rejected_journaled split: prod.splits)
  have complete: "prepared_on sch (fst progress) \<Longrightarrow> yields (complete_rejected W request state progress)
      (done_with (\<lambda>r. on_schedule sch (published_journaled r)))" for progress
    unfolding complete_rejected_def Let_def
    by (rule yields_split yields_if finish yields_bind [OF synchronize] fail_rejected_schedule
        | (simp; fail))+
  assume p: "prepared_on sch p"
  show ?thesis
    unfolding publish_rejected_def Let_def
    by (rule yields_skip, rule yields_bind [OF state_schedule [OF p]],
        rule yields_phase [OF publish_loop_schedule complete]) simp_all
qed

section \<open>The order of the calls\<close>

definition declared_paths :: "effect_kind \<Rightarrow> 'p journal_effect list \<Rightarrow> 'p list" where
  "declared_paths kind effects = map (\<lambda>e. the (effect_path e)) (filter (\<lambda>e. effect_kind e = kind) effects)"

definition active_paths :: "'p effect_step list \<Rightarrow> 'p list" where
  "active_paths steps = map schedule_path (filter (\<lambda>s. schedule_kind s = Step_publish_active) steps)"

definition in_order :: "'p call list \<Rightarrow> bool" where
  "in_order tr \<longleftrightarrow>
     prefix (calls_of Publish_active_object tr)
       (case tr of Declared effects # rest \<Rightarrow> declared_paths Publish_active_object effects | _ \<Rightarrow> []) \<and>
     subseq (calls_of Recover_active_object tr) (rev (calls_of Publish_active_object tr))"

text \<open>
  \<open>reached steps published undone tr\<close>: a journal with these active steps was declared, and these
  paths were published and undone so far.
\<close>

definition reached :: "'p list \<Rightarrow> 'p list \<Rightarrow> 'p list \<Rightarrow> 'p call list \<Rightarrow> bool" where
  "reached steps published undone tr \<longleftrightarrow>
     (\<exists>effects rest. tr = Declared effects # rest \<and> declared_paths Publish_active_object effects = steps) \<and>
     calls_of Publish_active_object tr = published \<and> calls_of Recover_active_object tr = undone"

lemma reached_append:
  "reached steps published undone tr \<Longrightarrow>
   reached steps (published @ calls_of Publish_active_object rest) (undone @ calls_of Recover_active_object rest)
     (tr @ rest)"
  by (auto simp: reached_def)

lemma reached_in_order:
  "reached steps published undone tr \<Longrightarrow> prefix published steps \<Longrightarrow> subseq undone (rev published) \<Longrightarrow>
   in_order tr"
  by (auto simp: reached_def in_order_def)

definition orderly :: "'p list \<Rightarrow> 'p call list \<Rightarrow> bool" where
  "orderly steps tr \<longleftrightarrow> (\<exists>published undone. reached steps published undone tr \<and>
     prefix published steps \<and> subseq undone (rev published))"

lemma orderlyI:
  "reached steps published undone tr \<Longrightarrow> prefix published steps \<Longrightarrow> subseq undone (rev published) \<Longrightarrow>
   orderly steps tr"
  unfolding orderly_def by blast

lemma orderly_in_order: "orderly steps tr \<Longrightarrow> in_order tr"
  unfolding orderly_def using reached_in_order by blast

lemma orderly_append:
  "orderly steps tr \<Longrightarrow> \<forall>kind \<in> active_kinds. calls_of kind rest = [] \<Longrightarrow> orderly steps (tr @ rest)"
  unfolding orderly_def using reached_append [of steps _ _ tr rest] by fastforce

text \<open>What spares both kinds keeps what was reached; what spares one keeps that part.\<close>

lemma reached_spared:
  assumes "spares active_kinds m" and "prefix published steps" and "subseq undone (rev published)"
  shows "triple (reached steps published undone) m (\<lambda>x. reached steps published undone) (orderly steps)"
  using assms(2,3) reached_append [of steps published undone]
  by (intro triple_spares [OF assms(1)]) (auto intro: orderlyI simp: reached_def)

lemma orderly_spared: "spares active_kinds m \<Longrightarrow> triple (orderly steps) m (\<lambda>x. orderly steps) (orderly steps)"
  by (rule triple_spares) (auto intro: orderly_append)

subsection \<open>Publication\<close>

lemma execute_call_order:
  assumes pre: "prefix (published @ [schedule_path step]) steps"
    and path: "active_path command = schedule_path step"
  shows "triple (reached steps published [])
      (io_bind (noted (Called Publish_active_object (Some (active_path command))) m) (\<lambda>result.
       io_bind (io_lift (make_active_effect command result)) (\<lambda>applied.
       io_bind (io_lift (f result)) (\<lambda>event.
       io_bind (io_lift (g result)) (\<lambda>replayed.
       io_bind (journal_event_step (traced_engine W) a Mutating eff event (operation_evidence result) replayed
         None None) (\<lambda>a. io_return (applied, with_journaled r a)))))))
      (\<lambda>(applied, r) tr. reached steps (published @ [active_path (effect_request applied)]) [] tr \<and>
         active_path (effect_request applied) = schedule_path step) (orderly steps)"
proof -
  have call: "triple (reached steps published [])
      (noted (Called Publish_active_object (Some (schedule_path step))) m)
      (\<lambda>x. reached steps (published @ [schedule_path step]) []) (orderly steps)"
    by (rule triple_noted)
      (auto dest: reached_append [of _ _ _ _ "[Called Publish_active_object (Some (schedule_path step))]"]
        intro: orderlyI [OF _ pre list_emb_Nil])
  have made: "make_active_effect command result = Inr applied \<Longrightarrow> effect_request applied = command"
    for result applied by (auto simp: make_active_effect_def split: if_splits)
  show ?thesis
    unfolding path
    by (rule triple_bind [OF call], rule triple_bind_lift, rule triple_bind_lift, rule triple_bind_lift,
        rule triple_bind [OF reached_spared [OF event_spares pre list_emb_Nil]], rule triple_return)
      (simp_all add: made path orderlyI [OF _ pre list_emb_Nil])
qed

lemma execute_one_order:
  assumes pre: "prefix (published @ [schedule_path step]) steps"
  shows "triple (reached steps published []) (execute_one_active (traced_engine W) plan step r)
    (\<lambda>(applied, r) tr. reached steps (published @ [active_path (effect_request applied)]) [] tr \<and>
       active_path (effect_request applied) = schedule_path step) (orderly steps)"
proof -
  have pre': "prefix published steps" using pre by (meson append_prefixD)
  show ?thesis
    unfolding execute_one_active_def traced_engine_simps traced_transaction_simps
    by (rule triple_bind_lift, rule triple_bind_lift, rule triple_bind_lift, rule triple_bind_lift,
        rule triple_bind [OF reached_spared [OF event_spares pre' list_emb_Nil]],
        rule execute_call_order [OF pre active_request_path])
      (simp_all add: orderlyI [OF _ pre' list_emb_Nil])
qed

abbreviation effect_paths :: "'p active_effect list \<Rightarrow> 'p list" where
  "effect_paths effects \<equiv> map (\<lambda>e. active_path (effect_request e)) effects"

text \<open>
  The trace of a stopped or finished execution whose effects are \<open>effects\<close>; the paths published are
  theirs, in order.
\<close>

definition executed :: "'p list \<Rightarrow> 'p active_effect list \<Rightarrow> 'p call list \<Rightarrow> bool" where
  "executed steps effects tr \<longleftrightarrow>
     reached steps (effect_paths effects) [] tr \<and> prefix (effect_paths effects) steps"

definition execution_result ::
  "'p list \<Rightarrow> ('x \<Rightarrow> 'p active_effect list) \<Rightarrow> (('p, 'o, 'sel) active_interrupted, 'x) phase \<Rightarrow> 'p call list \<Rightarrow> bool" where
  "execution_result steps effects z tr \<longleftrightarrow>
     (case z of Phase_stopped i \<Rightarrow> executed steps (interrupted_effects i) tr
      | Phase_done x \<Rightarrow> executed steps (effects x) tr)"

lemma execution_result_simps [simp]:
  "execution_result steps effects (Phase_stopped i) tr = executed steps (interrupted_effects i) tr"
  "execution_result steps effects (Phase_done x) tr = executed steps (effects x) tr"
  by (simp_all add: execution_result_def)

lemma executed_orderly: "executed steps effects tr \<Longrightarrow> orderly steps tr"
  unfolding executed_def by (blast intro: orderlyI list_emb_Nil)

lemma executed_spared:
  "spares active_kinds m \<Longrightarrow> triple (executed steps effects) m (\<lambda>x. executed steps effects) (orderly steps)"
  unfolding executed_def
  by (rule triple_spares) (auto simp: reached_def intro: orderlyI list_emb_Nil)

lemma make_interrupted_effects:
  "make_active_interrupted m = Inr i \<Longrightarrow> interrupted_effects i = interrupted_effects m"
  by (auto simp: make_active_interrupted_def Let_def result_simps split: if_splits)

lemma interrupt_active_order:
  "triple (executed steps effects) (interrupt_active (traced_engine W) r effects reason status evidence)
    (\<lambda>i. executed steps (interrupted_effects i)) (orderly steps)"
  unfolding interrupt_active_def
  by (rule triple_bind [OF executed_spared [OF state_spares]], rule triple_lift)
    (auto simp: rbind_Inr_iff executed_orderly dest!: make_interrupted_effects)

lemma interrupt_stop_order:
  "triple (executed steps effects)
    (io_bind (interrupt_active (traced_engine W) r effects reason status evidence) (\<lambda>i. io_return (Phase_stopped i)))
    (execution_result steps f) (orderly steps)"
  by (rule triple_bind [OF interrupt_active_order], rule triple_return) simp

lemma execute_loop_order:
  assumes "steps = effect_paths effects @ active_paths todo"
  shows "triple (executed steps effects)
    (execute_active_loop (traced_engine W) plan todo (r, effects, status, evidence))
    (execution_result steps (\<lambda>p. fst (snd p))) (orderly steps)"
  using assms
proof (induction todo arbitrary: r effects status evidence)
  case Nil
  show ?case unfolding execute_active_loop.simps by (rule triple_return) simp
next
  case (Cons step todo)
  show ?case
  proof (cases "schedule_kind step = Step_publish_active")
    case False
    then have "steps = effect_paths effects @ active_paths todo" using Cons.prems by (simp add: active_paths_def)
    from Cons.IH [OF this] show ?thesis unfolding execute_active_loop.simps using False by simp
  next
    case True
    then have steps: "steps = (effect_paths effects @ [schedule_path step]) @ active_paths todo"
      using Cons.prems by (simp add: active_paths_def)
    then have pre: "prefix (effect_paths effects @ [schedule_path step]) steps" by (simp only: prefixI)
    let ?one = "execute_one_active (traced_engine W) plan step r"
    have one: "triple (executed steps effects) ?one (\<lambda>(applied, r) tr. executed steps (effects @ [applied]) tr \<and>
        active_path (effect_request applied) = schedule_path step) (orderly steps)"
      by (rule triple_consequence [OF execute_one_order [OF pre]]) (auto simp: executed_def pre)
    have rest: "triple (executed steps (effects @ [applied]))
        (execute_active_loop (traced_engine W) plan todo (r, effects @ [applied], status, evidence))
        (execution_result steps (\<lambda>p. fst (snd p))) (orderly steps)"
      if "active_path (effect_request applied) = schedule_path step" for applied r status evidence
      by (rule Cons.IH) (simp add: that steps)
    show ?thesis
      unfolding execute_active_loop.simps Let_def True
      by (simp only: refl not_True_eq_False if_False simp_thms)
        (rule triple_bind [OF one], rule triple_split, simp only: prod.case, rule triple_pure,
          (rule triple_if rest interrupt_stop_order | assumption)+)
  qed
qed

lemma complete_active_order:
  "triple (executed steps effects) (complete_active (traced_engine W) control (r, effects, status, evidence))
    (execution_result steps mutated_effects) (orderly steps)"
proof -
  have finish: "triple (executed steps effects) (finish_active (traced_engine W) r effects status evidence)
      (execution_result steps mutated_effects) (orderly steps)" for r status evidence
    unfolding finish_active_def
    by (rule triple_bind [OF executed_spared [OF state_spares]], rule triple_lift)
      (auto simp: rbind_Inr_iff executed_orderly make_active_mutated_def Let_def split: if_splits)
  have synchronize: "spares K (synchronize_active_namespace (traced_engine W) a)" for K a
    unfolding synchronize_active_namespace_def traced_engine_simps traced_transaction_simps
    by (rule step_spares spares_noted | (simp; fail))+
  show ?thesis
    unfolding complete_active_def Let_def prod.case
    by (rule triple_if finish triple_bind [OF executed_spared [OF synchronize]] triple_split
        interrupt_stop_order)+
qed

lemma execute_active_order:
  assumes "on_schedule sch (published_journaled r)"
  shows "triple (reached (active_paths sch) [] []) (execute_active (traced_engine W) r request state lease)
    (execution_result (active_paths sch) mutated_effects) (orderly (active_paths sch))"
proof -
  have start: "reached (active_paths sch) [] [] tr \<Longrightarrow> executed (active_paths sch) [] tr" for tr
    by (simp add: executed_def)
  have loop: "triple (executed (active_paths sch) [])
      (execute_active_loop (traced_engine W) plan sch (r, [], status, evidence))
      (execution_result (active_paths sch) (\<lambda>p. fst (snd p))) (orderly (active_paths sch))" for plan status evidence
    by (rule execute_loop_order) simp
  have finish: "triple (execution_result (active_paths sch) (\<lambda>p. fst (snd p)) z)
      (case z of Phase_stopped i \<Rightarrow> io_return (Phase_stopped i)
       | Phase_done progress \<Rightarrow> complete_active (traced_engine W) control progress)
      (execution_result (active_paths sch) mutated_effects) (orderly (active_paths sch))" for z control
  proof (cases z)
    case (Phase_stopped i)
    show ?thesis unfolding Phase_stopped phase.case by (rule triple_return) simp
  next
    case (Phase_done progress)
    obtain r effects status evidence where "progress = (r, effects, status, evidence)" by (metis prod_cases4)
    then show ?thesis
      unfolding Phase_done phase.case
      by (auto intro!: triple_consequence [OF complete_active_order])
  qed
  have "triple (executed (active_paths sch) []) (execute_active (traced_engine W) r request state lease)
    (execution_result (active_paths sch) mutated_effects) (orderly (active_paths sch))"
    unfolding execute_active_def assms
    by (rule triple_bind_lift, rule triple_bind [OF loop finish]) (rule executed_orderly)
  then show ?thesis by (rule triple_consequence) (simp_all add: start)
qed

subsection \<open>Completion and recovery\<close>

lemma settle_effects:
  "yields (settle_observations W img observed decisions (matches, paths, m))
     (\<lambda>(matches, paths, n). mutated_effects n = mutated_effects m)"
proof (induction decisions arbitrary: matches paths m)
  case Nil
  show ?case unfolding settle_observations.simps by (rule yields_return) simp
next
  case (Cons d decisions)
  have one: "yields (settle_observation W img observed d m)
      (\<lambda>(match, paths, n). mutated_effects n = mutated_effects m)"
    unfolding settle_observation_def Let_def
    by (auto split: option.split intro!: yields_skip yields_return yields_stop yields_if
        simp: mutated_journaled_def)
  have rest: "mutated_effects n = mutated_effects m \<Longrightarrow>
      yields (settle_observations W img observed decisions (matches, paths, n))
        (\<lambda>(matches, paths, n). mutated_effects n = mutated_effects m)" for matches paths n
    using Cons [of matches paths n] by simp
  show ?case
    unfolding settle_observations.simps
    by (rule yields_bind [OF one], rule yields_split, rule yields_split, rule rest) simp
qed

lemma complete_effects:
  "yields (complete_application W m request state lease img)
     (done_with (\<lambda>i. interrupted_effects i = mutated_effects m))"
proof -
  have interrupt: "mutated_effects n = mutated_effects m \<Longrightarrow>
      yields (interrupt_completion W n indeterminate evidence)
        (done_with (\<lambda>i. interrupted_effects i = mutated_effects m))" for n indeterminate evidence
    unfolding interrupt_completion_def
    by (intro yields_skip yields_lift) (auto simp: rbind_Inr_iff dest!: make_interrupted_effects)
  have settled: "yields (settle_observations W img observed decisions (matches, paths, mutated_journaled m a))
      (\<lambda>(matches, paths, n). mutated_effects n = mutated_effects m)" for observed decisions matches paths a
    using settle_effects [of W img observed decisions matches paths "mutated_journaled m a"]
    by (simp add: mutated_journaled_def)
  show ?thesis
    unfolding complete_application_def Let_def
    by (rule yields_skip, rule yields_skip, rule yields_skip, rule yields_bind [OF settled],
        (rule yields_split)+, rule yields_if, rule interrupt)
      (simp, rule yields_skip, rule yields_return, simp)
qed

lemma subseq_snoc_rev: "subseq (xs @ [y]) zs \<Longrightarrow> subseq xs zs"
  by (meson subseq_order.trans subseq_rev_drop_many list_emb_append2 subseq_order.refl list_emb_prefix)

lemma recover_one_order:
  assumes pre: "prefix published steps" and sub: "subseq (undone @ [path]) (rev published)"
  shows "triple (reached steps published undone) (recover_one (traced_engine W) path i)
    (\<lambda>(r, i). reached steps published (undone @ [path])) (orderly steps)"
proof -
  have sub': "subseq undone (rev published)" using sub by (rule subseq_snoc_rev)
  have call: "triple (reached steps published undone) (noted (Called Recover_active_object (Some path)) m)
      (\<lambda>x. reached steps published (undone @ [path])) (orderly steps)" for m
    by (rule triple_noted)
      (auto dest: reached_append [of _ _ _ _ "[Called Recover_active_object (Some path)]"]
        intro: orderlyI [OF _ pre sub])
  show ?thesis
    unfolding recover_one_def traced_engine_simps traced_transaction_simps
    by (rule triple_bind_lift, rule triple_bind_lift,
        rule triple_bind [OF reached_spared [OF event_spares pre sub']], rule triple_bind [OF call],
        rule triple_bind_lift, rule triple_bind_lift,
        rule triple_bind [OF reached_spared [OF event_spares pre sub]], rule triple_return)
      (simp_all add: orderlyI [OF _ pre sub] orderlyI [OF _ pre sub'])
qed

lemma recover_loop_order:
  assumes pre: "prefix published steps"
  shows "subseq (undone @ effect_paths todo) (rev published) \<Longrightarrow>
    triple (reached steps published undone) (recover_loop (traced_engine W) todo progress)
      (\<lambda>x. orderly steps) (orderly steps)"
proof (induction todo arbitrary: undone progress)
  case Nil
  then show ?case unfolding recover_loop.simps by (intro triple_return) (simp add: orderlyI [OF _ pre])
next
  case (Cons e todo)
  obtain recoveries evidence i where progress: "progress = (recoveries, evidence, i)" by (metis prod_cases3)
  let ?path = "active_path (effect_request e)"
  have all: "subseq ((undone @ [?path]) @ effect_paths todo) (rev published)" using Cons.prems by simp
  then have sub: "subseq (undone @ [?path]) (rev published)"
    by (meson list_emb_append2 subseq_order.refl subseq_order.trans list_emb_prefix)
  have stop: "triple (reached steps published (undone @ [?path])) (io_return x) (\<lambda>x. orderly steps) (orderly steps)"
    for x by (rule triple_return) (rule orderlyI [OF _ pre sub])
  show ?case
    unfolding progress recover_loop.simps Let_def
    by (rule triple_bind [OF recover_one_order [OF pre sub]], rule triple_split, simp only: prod.case)
      (rule triple_if Cons.IH [OF all] stop)+
qed

lemma candidates_subseq:
  "subseq (effect_paths (recovery_candidates i)) (rev (effect_paths (interrupted_effects i)))"
  unfolding recovery_candidates_def rev_map by (rule subseq_map) simp

lemma executed_sealing:
  "spares active_kinds m \<Longrightarrow> triple (executed steps effects) m (\<lambda>r. orderly steps) (orderly steps)"
  by (rule triple_consequence [OF orderly_spared]) (simp_all add: executed_orderly)

lemma recover_order:
  "triple (executed steps (interrupted_effects i)) (recover_interrupted (traced_engine W) i request state lease)
    (\<lambda>r. orderly steps) (orderly steps)"
proof -
  let ?published = "effect_paths (interrupted_effects i)"
  have stop: "executed steps (interrupted_effects i) tr \<Longrightarrow> orderly steps tr" for tr
    by (rule executed_orderly)
  have undo: "triple (executed steps (interrupted_effects i)) (undo_interrupted (traced_engine W) i request state)
      (\<lambda>r. orderly steps) (orderly steps)"
  proof (cases "prefix ?published steps")
    case True
    have loop: "triple (executed steps (interrupted_effects i))
        (recover_loop (traced_engine W) (recovery_candidates i) progress) (\<lambda>x. orderly steps) (orderly steps)"
      for progress
      by (rule triple_consequence [OF recover_loop_order [OF True, of "[]"]])
        (simp_all add: candidates_subseq executed_def)
    show ?thesis
      unfolding undo_interrupted_def Let_def traced_engine_simps
      by (rule triple_bind [OF executed_spared [OF state_spares]], rule triple_bind [OF loop],
          (rule triple_split)+, rule orderly_spared)
        (rule synchronize_recovered_spares seal_recovery_spares spare_rules)+
  qed (simp add: triple_def executed_def)
  show ?thesis
    unfolding recover_interrupted_def seal_without_candidates_def seal_without_recovery_def
    by (rule triple_bind_lift stop triple_if undo executed_sealing [OF seal_recovery_spares])+
qed

lemma apply_prepared_order:
  assumes m: "spares active_kinds m" and kept: "yields m (done_with (prepared_on sch))"
  shows "triple (reached (active_paths sch) [] []) (io_bind m (apply_prepared (traced_engine W) request state lease img))
    (\<lambda>r. orderly (active_paths sch)) (orderly (active_paths sch))"
proof -
  let ?steps = "active_paths sch"
  note spared = reached_spared [OF _ prefix_bot.bot_least list_emb_Nil]
  have stop: "reached ?steps [] [] tr \<Longrightarrow> orderly ?steps tr" for tr by (rule orderlyI [OF _ prefix_bot.bot_least list_emb_Nil])
  have completing: "triple (executed ?steps (mutated_effects n))
      (complete_application (traced_engine W) n request state lease img)
      (\<lambda>z tr. executed ?steps (mutated_effects n) tr \<and> done_with (\<lambda>i. interrupted_effects i = mutated_effects n) z)
      (orderly ?steps)" for n
    by (rule triple_yields [OF executed_spared [OF complete_spares] complete_effects])
  have finish: "triple (\<lambda>tr. executed ?steps (mutated_effects n) tr \<and>
        done_with (\<lambda>i. interrupted_effects i = mutated_effects n) z)
      (finish_completion (traced_engine W) request state lease z) (\<lambda>r. orderly ?steps) (orderly ?steps)" for n z
  proof (cases z)
    case (Phase_stopped r)
    show ?thesis unfolding Phase_stopped finish_completion_def phase.case
      by (rule triple_return) (simp add: executed_orderly)
  next
    case (Phase_done i)
    show ?thesis unfolding Phase_done finish_completion_def phase.case
      by (rule triple_consequence [OF recover_order]) simp_all
  qed
  have active: "triple (execution_result ?steps mutated_effects z)
      (case z of Phase_stopped i \<Rightarrow> recover_interrupted (traced_engine W) i request state lease
       | Phase_done n \<Rightarrow> io_bind (complete_application (traced_engine W) n request state lease img)
           (finish_completion (traced_engine W) request state lease))
      (\<lambda>r. orderly ?steps) (orderly ?steps)" for z
  proof (cases z)
    case (Phase_stopped i)
    show ?thesis unfolding Phase_stopped phase.case
      by (rule triple_consequence [OF recover_order]) simp_all
  next
    case (Phase_done n)
    show ?thesis unfolding Phase_done phase.case
      by (rule triple_consequence [OF triple_bind [OF completing finish]]) simp_all
  qed
  have published: "triple (\<lambda>tr. reached ?steps [] [] tr \<and> done_with (\<lambda>r. on_schedule sch (published_journaled r)) z)
      (case z of Phase_stopped receipt \<Rightarrow> io_return receipt
       | Phase_done r \<Rightarrow> io_bind (execute_active (traced_engine W) r request state lease) (\<lambda>z.
           case z of Phase_stopped i \<Rightarrow> recover_interrupted (traced_engine W) i request state lease
           | Phase_done n \<Rightarrow> io_bind (complete_application (traced_engine W) n request state lease img)
               (finish_completion (traced_engine W) request state lease)))
      (\<lambda>r. orderly ?steps) (orderly ?steps)" for z
  proof (cases z)
    case (Phase_stopped r)
    show ?thesis unfolding Phase_stopped phase.case by (rule triple_return) (simp add: stop)
  next
    case (Phase_done r)
    show ?thesis unfolding Phase_done phase.case done_with_simps
      by (rule triple_pure, rule triple_bind [OF execute_active_order active])
  qed
  have prepared: "triple (\<lambda>tr. reached ?steps [] [] tr \<and> done_with (prepared_on sch) z)
      (apply_prepared (traced_engine W) request state lease img z) (\<lambda>r. orderly ?steps) (orderly ?steps)" for z
  proof (cases z)
    case (Phase_stopped r)
    show ?thesis unfolding Phase_stopped apply_prepared_def phase.case by (rule triple_return) (simp add: stop)
  next
    case (Phase_done p)
    show ?thesis unfolding Phase_done apply_prepared_def phase.case done_with_simps
      by (rule triple_pure, rule triple_bind [OF triple_yields [OF spared [OF publish_rejected_spares]
            publish_rejected_schedule] published])
  qed
  show ?thesis by (rule triple_bind [OF triple_yields [OF spared [OF m] kept] prepared])
qed

subsection \<open>The declared order\<close>

lemma triple_both:
  assumes "triple P m Q E" and "triple P m R F"
  shows "triple P m (\<lambda>x tr. Q x tr \<and> R x tr) (\<lambda>tr. E tr \<and> F tr)"
proof (rule tripleI)
  fix s tr
  assume P: "P tr"
  show "ends_in (\<lambda>x tr. Q x tr \<and> R x tr) (\<lambda>tr. E tr \<and> F tr) (m (s, tr)) \<and>
      (\<exists>rest. snd (snd (m (s, tr))) = tr @ rest)"
    using tripleD [OF assms(1) P, of s] tripleD [OF assms(2) P, of s]
    by (cases "m (s, tr)"; cases "fst (m (s, tr))") auto
qed

lemma declared_paths_shape:
  "declared_paths kind effects = map (\<lambda>s. the (snd s)) (filter (\<lambda>s. fst s = kind) (map effect_shape effects))"
  by (simp add: declared_paths_def effect_shape_def filter_map comp_def)

lemma journal_effects_active:
  assumes "journal_effects E schedule i r a j s = Inr effects"
  shows "declared_paths Publish_active_object effects = active_paths schedule"
proof -
  have effects: "effects = effects_from E 0 (graph_shapes schedule (closing_kinds i r a j s))"
    using assms by (simp add: journal_effects_shapes)
  have kind: "journal_kind k = Publish_active_object \<longleftrightarrow> k = Step_publish_active" for k
    by (cases k) simp_all
  have none: "filter (\<lambda>k. k = Publish_active_object) (closing_kinds i r a j s) = []"
    by (auto simp: closing_kinds_def filter_empty_conv)
  show ?thesis
    unfolding declared_paths_shape effects effects_from_shape graph_shapes_def recovery_shapes_def
      active_paths_def
    by (simp add: filter_map comp_def kind none rev_filter)
qed

lemma initial_journal_declares:
  assumes store: "returns_stored (engine_store W)"
  shows "triple (\<lambda>tr. tr = [])
    (publish_initial_journal (traced_engine W) admitted request state lease payloads captures schedule
      has_recovery has_active has_rejected)
    (\<lambda>a tr. on_schedule schedule a \<and> (\<exists>effects rest. tr = Declared effects # rest \<and>
       declared_paths Publish_active_object effects = active_paths schedule)) anything"
  unfolding publish_initial_journal_def Let_def traced_engine_simps
proof (intro triple_bind_lift TrueI)
  let ?E = "engine_environment W"
  fix header effects seed d
  assume effects: "journal_effects ?E schedule
      (case payloads of None \<Rightarrow> False | Some p \<Rightarrow> selection_size W (payload_selection p) \<noteq> 0)
      has_recovery has_active has_rejected
      (control_durability (request_control request) = All_application_domains) = Inr effects"
    and made: "make_declaration ?E header effects seed = Inr d"
  have d: "declaration_effects d = effects" using made by (auto simp: make_declaration_Inr)
  note declared = triple_consequence [OF declare_traced [OF store, where staged = "[]" and d = d],
      where E' = anything and P' = "\<lambda>tr. tr = []"
        and Q' = "\<lambda>h tr. hd tr = Declared effects \<and> tr \<noteq> []"]
  show "triple (\<lambda>tr. tr = [])
     (io_bind (publish_initial_declaration ?E (traced_store (engine_store W)) d) (\<lambda>h.
      io_lift (make_journaled ?E
        \<lparr>journaled_attempt = admitted_attempt admitted,
         journaled_preconditions = admitted_preconditions admitted,
         journaled_payloads = payloads, journaled_captures = captures,
         journaled_schedule = schedule, journaled_history = h,
         journaled_projection = projection_identity state,
         journaled_lease = lease_identity lease\<rparr>)))
     (\<lambda>a tr. on_schedule schedule a \<and> (\<exists>effects rest. tr = Declared effects # rest \<and>
       declared_paths Publish_active_object effects = active_paths schedule)) anything"
    by (rule triple_bind [OF declared], simp, simp add: d, simp, rule triple_lift)
      (auto dest!: make_journaled_same simp: journal_effects_active [OF effects] neq_Nil_conv)
qed

lemma initial_journal_order:
  assumes "returns_stored (engine_store W)"
  shows "triple (\<lambda>tr. tr = [])
    (publish_initial_journal (traced_engine W) admitted request state lease payloads captures schedule
      has_recovery has_active has_rejected)
    (\<lambda>a. reached (active_paths (journaled_schedule a)) [] []) in_order"
proof -
  have quiet: "triple (\<lambda>tr. tr = [])
    (publish_initial_journal (traced_engine W) admitted request state lease payloads captures schedule
      has_recovery has_active has_rejected)
    (\<lambda>a tr. \<forall>kind \<in> active_kinds. calls_of kind tr = []) (\<lambda>tr. \<forall>kind \<in> active_kinds. calls_of kind tr = [])"
    by (rule triple_consequence [OF triple_spares [OF initial_journal_spares,
        where K = active_kinds and P = "\<lambda>tr. \<forall>kind \<in> active_kinds. calls_of kind tr = []"
          and E = "\<lambda>tr. \<forall>kind \<in> active_kinds. calls_of kind tr = []"]]) auto
  show ?thesis
    by (rule triple_consequence [OF triple_both [OF initial_journal_declares [OF assms] quiet]])
      (auto simp: reached_def in_order_def)
qed

lemma run_in_order:
  assumes "\<And>sch. on_schedule sch a \<Longrightarrow> triple (reached (active_paths sch) [] []) m
    (\<lambda>r. orderly (active_paths sch)) (orderly (active_paths sch))"
  shows "triple (reached (active_paths (journaled_schedule a)) [] []) m (\<lambda>r. in_order) in_order"
  by (rule triple_consequence [OF assms [OF refl]]) (simp_all add: orderly_in_order)

lemma apply_in_order:
  assumes "returns_stored (engine_store W)"
  shows "triple (\<lambda>tr. tr = []) (apply_incoming (traced_engine W) request incoming state lease backend archive
      (traced begin_transaction)) (\<lambda>r. in_order) in_order"
    and "triple (\<lambda>tr. tr = []) (apply_removal (traced_engine W) request state lease backend
      (traced begin_transaction)) (\<lambda>r. in_order) in_order"
proof -
  have nil: "in_order []" by (simp add: in_order_def)
  have admit: "triple (\<lambda>tr. tr = []) (finish_admission (traced_engine W) request state lease backend tx)
      (\<lambda>z tr. tr = []) in_order" for tx
    unfolding finish_admission_def Let_def traced_engine_simps traced_transaction_simps
    by (cases tx; simp only: option.case)
      (rule triple_stop triple_bind_lift triple_bind [OF triple_traced] triple_if triple_lift | simp add: nil)+
  have prepared: "triple (reached (active_paths (journaled_schedule a)) [] [])
      (io_bind (prepare_with_archive (traced_engine W) a request state lease archive)
        (apply_prepared (traced_engine W) request state lease img)) (\<lambda>r. in_order) in_order"
    "triple (reached (active_paths (journaled_schedule a)) [] [])
      (io_bind (prepare_removal (traced_engine W) a request state lease)
        (apply_prepared (traced_engine W) request state lease img)) (\<lambda>r. in_order) in_order" for a img
    by (rule run_in_order, rule apply_prepared_order [OF prepare_spares prepare_schedule_kept(1)], assumption,
        rule run_in_order, rule apply_prepared_order [OF prepare_removal_spares prepare_schedule_kept(2)],
        assumption)
  have phase: "triple (\<lambda>tr. tr = []) (case z of Phase_stopped r \<Rightarrow> io_return r | Phase_done x \<Rightarrow> f x)
      (\<lambda>r. in_order) in_order"
    if "\<And>x. triple (\<lambda>tr. tr = []) (f x) (\<lambda>r. in_order) in_order" for z f
    using that by (cases z) (auto intro: triple_return simp: nil)
  have admitted: "triple (\<lambda>tr. tr = []) (admit_incoming_application (traced_engine W) request incoming state
        lease backend archive (traced begin_transaction)) (\<lambda>z tr. tr = []) in_order"
    "triple (\<lambda>tr. tr = []) (admit_removal_application (traced_engine W) request state lease backend
        (traced begin_transaction)) (\<lambda>z tr. tr = []) in_order"
    unfolding admit_incoming_application_def admit_removal_application_def
    by (rule triple_bind_lift, rule triple_bind [OF triple_traced admit], simp_all add: nil)+
  have journaled: "triple (\<lambda>tr. tr = []) (journal_incoming_application (traced_engine W) x request state lease img)
      (\<lambda>a. reached (active_paths (journaled_schedule a)) [] []) in_order"
    "triple (\<lambda>tr. tr = []) (journal_removal_application (traced_engine W) x request state lease)
      (\<lambda>a. reached (active_paths (journaled_schedule a)) [] []) in_order" for x img
    unfolding journal_incoming_application_def journal_removal_application_def Let_def
    by (rule triple_bind_lift initial_journal_order [OF assms] | simp add: nil)+
  show "triple (\<lambda>tr. tr = []) (apply_incoming (traced_engine W) request incoming state lease backend archive
      (traced begin_transaction)) (\<lambda>r. in_order) in_order"
    unfolding apply_incoming_def
    by (rule triple_bind [OF admitted(1) phase], rule triple_bind [OF journaled(1) prepared(1)])
  show "triple (\<lambda>tr. tr = []) (apply_removal (traced_engine W) request state lease backend
      (traced begin_transaction)) (\<lambda>r. in_order) in_order"
    unfolding apply_removal_def
    by (rule triple_bind [OF admitted(2) phase], rule triple_bind [OF journaled(2) prepared(2)])
qed

text \<open>
  C5: mutation follows the declared schedule, and recovery retraces it.  In every application, the
  active objects are published in exactly the declared order, without a gap and each at most once,
  and the objects recovered are among those published, last first.
\<close>

theorem mutation_in_declared_order:
  assumes "returns_stored (engine_store W)"
  shows "in_order (snd (snd (apply_incoming (traced_engine W) request incoming state lease backend archive
      (traced begin_transaction) (s, [])))) \<and>
    in_order (snd (snd (apply_removal (traced_engine W) request state lease backend
      (traced begin_transaction) (s, []))))"
proof -
  have ends: "ends_in (\<lambda>x. in_order) in_order run \<Longrightarrow> in_order (snd (snd run))"
    for run :: "(error + 'e) \<times> 'f \<times> 'g call list"
    by (cases run; cases "fst run") auto
  note run = tripleD(1) [OF apply_in_order(1) [OF assms] refl] tripleD(1) [OF apply_in_order(2) [OF assms] refl]
  show ?thesis by (intro conjI ends; rule run)
qed

theorem mutation_in_declared_order_witness:
  "in_order (snd (snd (apply_removal (traced_engine trial_engine) trial_request sample_projected_state
     sample_lease sample_backend (traced (io_return (Some sample_transaction))) (False, []))))"
  using mutation_in_declared_order [OF trial_engine_returns] by blast

end
