(* ===== verification/Rehearsing.thy ===== *)
theory Rehearsing
  imports Sequencing
begin

text \<open>
  Two runs of the engine followed to their receipts: the completion of a removal of two installed
  paths, and the recovery of the same removal after its second effect was left indeterminate.  They
  are the concrete inputs of the witnesses of Observing.  The journals start at the state the phase
  accepts, with the effects the phase uses still without an event; the digest of the trial engine is
  constant, so a run computes without computing records.
\<close>

section \<open>Values with another journal\<close>

lemma exact_same:
  "journaled_preconditions a = journaled_preconditions (interrupted_journaled i) \<Longrightarrow>
   recovery_is_exact (interrupted_with i a) path = recovery_is_exact i path"
  unfolding recovery_is_exact_def admitted_observation_def find_completed_capture_def interrupted_with_def
    with_journaled_def by (simp split: option.split)

lemma interrupted_with_again [simp]:
  "interrupted_with (interrupted_with i a) b = interrupted_with i b"
  by (simp add: interrupted_with_def with_journaled_def)

lemma consequences_same:
  "journaled_preconditions a = journaled_preconditions (interrupted_journaled i) \<Longrightarrow>
   recovery_path_consequences (interrupted_with i a) plan recoveries = recovery_path_consequences i plan recoveries"
  unfolding recovery_path_consequences_def recovery_path_consequence_def touched_decision_def admitted_observation_def interrupted_with_def
    with_journaled_def by simp

lemma interrupted_with_fields:
  "interrupted_journaled (interrupted_with i a) = a"
  "interrupted_effects (interrupted_with i a) = interrupted_effects i"
  "interrupted_reason (interrupted_with i a) = interrupted_reason i"
  "interrupted_durability (interrupted_with i a) = interrupted_durability i"
  by (simp_all add: interrupted_with_def with_journaled_def)

lemma mutated_journaled_fields:
  "published_journaled (mutated_rejected (mutated_journaled m a)) = a"
  "mutated_effects (mutated_journaled m a) = mutated_effects m"
  "mutated_durability (mutated_journaled m a) = mutated_durability m"
  "prepared_captures (published_prepared (mutated_rejected (mutated_journaled m a))) = prepared_captures (published_prepared (mutated_rejected m))"
  "mutated_journaled (mutated_journaled m a) b = mutated_journaled m b"
  "completed_path_consequence (mutated_journaled m a) = completed_path_consequence m"
  by (simp_all add: mutated_journaled_def with_journaled_def completed_path_consequence_def fun_eq_iff)

section \<open>The removal of two paths\<close>

text \<open>Two installed paths to remove, and the journal of the attempt after its active effects.\<close>

definition removal_decision :: "8 word \<Rightarrow> (8 word, 8 word) path_decision" where
  "removal_decision path = \<lparr>decision_path = path, decision_role = None, decision_active = Remove_observed,
     decision_rejected = No_rejected, decision_entry = None,
     decision_ownership = \<lparr>before_existing_owners = [7], after_existing_owners = [],
       incoming_package_owns_after = False\<rparr>, decision_object = None\<rparr>"

definition pair_request :: "(8 word, 8 word) application_request" where
  "pair_request = trial_request\<lparr>request_plan :=
     (request_plan trial_request)\<lparr>plan_paths := map removal_decision [1, 2]\<rparr>\<rparr>"

definition pair_engine :: "(bool, 8 word, 8 word, entry_id list) engine" where
  "pair_engine = trial_engine\<lparr>engine_environment := sample_paths\<rparr>"

definition pair_declaration :: "(effect_kind \<times> 8 word option) list \<Rightarrow> (8 word, 8 word) journal_declaration" where
  "pair_declaration kinds = sample_declaration
     \<lparr>declaration_header := sample_header\<lparr>header_kind := Remove, header_request := 1, header_target := 10,
        header_control := 0, header_projection := sample_projected_state, header_lease := 12\<rparr>,
      declaration_effects := map (\<lambda>(i, kind, path). \<lparr>effect_identity = of_nat i, effect_ordinal = of_nat i,
        effect_kind = kind, effect_path = path\<rparr>) (zip [0..<length kinds] kinds)\<rparr>"

definition pair_history ::
  "journal_state \<Rightarrow> (effect_kind \<times> 8 word option) list \<Rightarrow> (8 word, 8 word) history" where
  "pair_history state kinds =
     \<lparr>history_declaration = pair_declaration kinds,
      history_cursor = (initial_cursor sample_paths (pair_declaration kinds))\<lparr>cursor_state := state\<rparr>,
      history_events = [], history_steps = [],
      history_ordinals = map_of (zip (map of_nat [0..<length kinds]) [0..<length kinds]),
      history_progress = replicate (length kinds) fresh_progress,
      history_required = length (filter (success_effect_required \<circ> fst) kinds), history_done = 0\<rparr>"

definition pair_check :: "8 word precondition_check" where
  "pair_check = \<lparr>check_observations = \<lparr>batch_requested = [1, 2],
     batch_observations = map (trial_observation False) [1, 2], batch_evidence = []\<rparr>, check_failures = []\<rparr>"

definition pair_captured :: "8 word capture_result list" where
  "pair_captured = map (\<lambda>path. \<lparr>capture_outcome = Outcome_completed,
     captured_observation = trial_observation False path, exact_recovery_possible = True,
     capture_evidence = []\<rparr>) [1, 2]"

definition pair_published ::
  "journal_state \<Rightarrow> (effect_kind \<times> 8 word option) list \<Rightarrow> (8 word, 8 word, entry_id list) rejected_published" where
  "pair_published state kinds =
     \<lparr>published_prepared = \<lparr>prepared_journaled =
        \<lparr>journaled_attempt = header_attempt sample_header,
         journaled_preconditions = pair_check,
         journaled_payloads = None, journaled_captures = sample_captures, journaled_schedule = [],
         journaled_history = pair_history state kinds, journaled_projection = 0, journaled_lease = 12\<rparr>,
        prepared_captures = pair_captured,
        prepared_durability = sample_profile, prepared_evidence = []\<rparr>,
      published_effects = [], published_durability = sample_profile, published_evidence = []\<rparr>"

definition pair_effect :: "operation_outcome \<Rightarrow> 8 word \<Rightarrow> 8 word active_effect" where
  "pair_effect outcome path = \<lparr>effect_request = \<lparr>active_path = path, active_outcome = Remove_observed,
     active_entry = None\<rparr>, effect_result = \<lparr>operation_outcome = outcome, operation_evidence = []\<rparr>\<rparr>"

definition pair_mutated :: "(8 word, 8 word, entry_id list) active_mutated" where
  "pair_mutated =
     \<lparr>mutated_rejected = pair_published Effects_visible
        [(Observe_result, Some 1), (Observe_result, Some 2), (Publish_completed_evidence, None),
         (Synchronize_completed_evidence, None), (Seal_receipt, None)],
      mutated_effects = map (pair_effect Outcome_completed) [1, 2],
      mutated_durability = sample_profile, mutated_evidence = []\<rparr>"

definition pair_interrupted :: "(8 word, 8 word, entry_id list) active_interrupted" where
  "pair_interrupted =
     \<lparr>interrupted_rejected = pair_published Indeterminate
        [(Recover_active_object, Some 2), (Recover_active_object, Some 1),
         (Synchronize_recovered_namespace, None), (Seal_receipt, None)],
      interrupted_effects = [pair_effect Outcome_completed 1, pair_effect Outcome_indeterminate 2],
      interrupted_reason = Effect_interruption_indeterminate,
      interrupted_durability = sample_profile, interrupted_evidence = []\<rparr>"

definition pair_consequence ::
  "effect_status \<Rightarrow> bool \<Rightarrow> publication_status \<Rightarrow> 8 word \<Rightarrow> (8 word, 8 word) path_consequence" where
  "pair_consequence status gone pub path =
     \<lparr>consequence_path = path, consequence_role = Installed_owned_path, requested_active = Remove_observed,
      requested_rejected = No_rejected, consequence_entry = None,
      consequence_ownership = decision_ownership (removal_decision path), active_status = status,
      rejected_status = Not_attempted, consequence_before = trial_observation False path,
      consequence_after = trial_observation gone path, rejected_object = None, publication = pub\<rparr>"

definition pair_profile :: "durability_status \<Rightarrow> durability_profile" where
  "pair_profile status = \<lparr>profile_facts = map (\<lambda>d. \<lparr>fact_domain = d, fact_status =
     (if d = Durable_active_namespace then status else Durability_confirmed)\<rparr>) all_domains\<rparr>"

definition pair_evidence :: "(8 word, 8 word) completed_evidence" where
  "pair_evidence = \<lparr>evidence_identity = 0, evidence_kind = Remove, evidence_request = 1, evidence_plan = [],
     evidence_attempt = 0, evidence_target = 10, evidence_control = 0, evidence_projection = 0,
     evidence_journal = 0, evidence_paths = map (pair_consequence Effect_completed True Eligible) [1, 2],
     evidence_durability = sample_profile, evidence_backend = [1]\<rparr>"

definition pair_recovered :: "8 word \<Rightarrow> 8 word recovery_effect" where
  "pair_recovered path = \<lparr>recovery_path = path,
     recovery_result = \<lparr>operation_outcome = Outcome_completed, operation_evidence = [5]\<rparr>,
     recovery_exact = True\<rparr>"

lemma pair_engine_simps:
  "engine_environment pair_engine = sample_paths"
  "publish_step (engine_store pair_engine) = io_return"
  "compare_and_publish_cursor (engine_store pair_engine) c = io_return"
  "tx_observe (engine_transaction pair_engine) paths gone = (Inr \<lparr>batch_requested = paths,
        batch_observations = map (trial_observation gone) paths, batch_evidence = [1]\<rparr>, gone)"
  "tx_evidence (engine_transaction pair_engine) e = io_return \<lparr>publication_outcome = Outcome_completed,
        publication_record = Some (evidence_identity e), publication_evidence = [4]\<rparr>"
  "tx_recover (engine_transaction pair_engine) path gone =
     (Inr \<lparr>operation_outcome = Outcome_completed, operation_evidence = [5]\<rparr>, False)"
  "tx_synchronize (engine_transaction pair_engine) d = io_return \<lparr>fact_domain = d, fact_status = Durability_confirmed\<rparr>"
  by (simp_all add: pair_engine_def trial_engine_def trial_store_def trial_transaction_def)

lemma pair_request_simps:
  "recovery_selected (request_control pair_request)"
  "requires_namespace_synchronization (request_control pair_request)"
  "plan_paths (request_plan pair_request) = [removal_decision 1, removal_decision 2]"
  "request_kind pair_request = Remove"
  by (simp_all add: pair_request_def trial_request_def Admission.sample_removal_request_def sample_control_def
     recovery_selected_def requires_namespace_synchronization_def)

lemma pair_check_simps:
  "find_observation (check_observations pair_check) 1 = Some (trial_observation False 1)"
  "find_observation (check_observations pair_check) 2 = Some (trial_observation False 2)"
  by code_simp+

lemma trial_observation_simps:
  "observation_path (trial_observation gone path) = path"
  "observation_state (trial_observation gone path) = (if gone then State_not_applicable else State_known)"
  by (simp_all add: trial_observation_def)

section \<open>Following a run\<close>

text \<open>The digest is constant, so simplification need not look into the record it is of.\<close>

lemma hash_none: "hash sample_paths bs = 0"
  by (simp add: sample_paths_def)

lemma hash_kept: "E = E' \<Longrightarrow> hash E bs = hash E' bs"
  by simp

lemma encode_short:
  "length (replay_append_fact E f) \<le> maximum_replay_size \<Longrightarrow> \<exists>bs. encode_transition_fact E f = Inr bs"
  by (simp add: encode_transition_fact_def encode_replay_fact_def replay_finish_def)

lemma encode_synchronized:
  "\<exists>bs. encode_transition_fact sample_paths
     (Fact_synchronization \<lparr>fact_domain = d, fact_status = Durability_confirmed\<rparr>) = Inr bs"
  by (rule encode_short) (simp add: append_lengths sample_replay_header maximum_replay_size_def)

lemmas journal_run = journal_state_step_def journal_event_step_def publish_state_def publish_event_def
  append_journal_step_def Let_def io_bind_def make_event_def normalize_evidence_def make_step_def
  validate_successor_def validate_step_def advance_cursor_def validate_step_event_def validate_event_def
  validate_candidate_def append_step_def record_event_def identified_cursor_def state_may_follow.simps
  successful_state_def find_effect_def history_effects_def result_simps effect_at_def
  success_effect_required_def hash_none

lemmas pair_run = pair_published_def pair_history_def pair_declaration_def sample_declaration_def
  initial_cursor_def fresh_progress_def journaled_header_def sample_projected_state_def sample_header_def
  pair_engine_simps pair_request_simps journal_run

section \<open>The completion\<close>

lemma pair_mutated_fields:
  "published_journaled (mutated_rejected pair_mutated) =
     published_journaled (pair_published Effects_visible
        [(Observe_result, Some 1), (Observe_result, Some 2), (Publish_completed_evidence, None),
         (Synchronize_completed_evidence, None), (Seal_receipt, None)])"
  "mutated_evidence pair_mutated = []" "mutated_durability pair_mutated = sample_profile"
  "prepared_captures (published_prepared (mutated_rejected pair_mutated)) \<noteq> []"
  by (simp_all add: pair_mutated_def pair_published_def pair_captured_def)

lemma pair_observed:
  "find_observation \<lparr>batch_requested = [1, 2],
     batch_observations = [trial_observation True 1, trial_observation True 2], batch_evidence = [1]\<rparr> 1 =
     Some (trial_observation True 1)"
  "find_observation \<lparr>batch_requested = [1, 2],
     batch_observations = [trial_observation True 1, trial_observation True 2], batch_evidence = [1]\<rparr> 2 =
     Some (trial_observation True 2)"
  "match_result_observation sample_paths (mutated_effects pair_mutated) (removal_decision 1)
     (trial_observation False 1) (trial_observation True 1) None = Inr Match_matched"
  "match_result_observation sample_paths (mutated_effects pair_mutated) (removal_decision 2)
     (trial_observation False 2) (trial_observation True 2) None = Inr Match_matched"
  "completed_path_consequence pair_mutated (removal_decision 1) (trial_observation False 1)
     (trial_observation True 1) Eligible = Inr (pair_consequence Effect_completed True Eligible 1)"
  "completed_path_consequence pair_mutated (removal_decision 2) (trial_observation False 2)
     (trial_observation True 2) Eligible = Inr (pair_consequence Effect_completed True Eligible 2)"
  by code_simp+

lemma pair_completion:
  "validate_completion_binding pair_mutated pair_request sample_projected_state sample_lease None = Inr ()"
  "result_paths (request_plan pair_request) = [1, 2]"
  "with_evidence_durability sample_profile Durability_confirmed = Inr sample_profile"
  "append_unique_evidence [] [1] = [1]" "append_unique_evidence [1] [4] = [1, 4]"
  by code_simp+

lemma pair_completed:
  "normalize_result_paths [pair_consequence Effect_completed True Eligible 1,
     pair_consequence Effect_completed True Eligible 2] =
     Inr [pair_consequence Effect_completed True Eligible 1, pair_consequence Effect_completed True Eligible 2]"
  "validate_plan_paths Remove (request_plan pair_request)
     [pair_consequence Effect_completed True Eligible 1, pair_consequence Effect_completed True Eligible 2]
     True = Inr ()"
  "validate_completed_durability (request_control pair_request) sample_profile = Inr ()"
  "list_all completed_path [pair_consequence Effect_completed True Eligible 1,
     pair_consequence Effect_completed True Eligible 2]"
  "normalize_result_evidence [1] = Inr [1]" "normalize_result_evidence [1, 4] = Inr [1, 4]"
  "request_identity pair_request = 1" "context_identity (request_target pair_request) = 10"
  "control_identity (request_control pair_request) = 0" "plan_identity (request_plan pair_request) = []"
  by code_simp+

lemma pair_evidence_made:
  "completed_application_evidence sample_paths pair_request 0 0 0
     [pair_consequence Effect_completed True Eligible 1, pair_consequence Effect_completed True Eligible 2]
     sample_profile [1] = Inr pair_evidence"
  unfolding completed_application_evidence_def make_evidence_def
  using pair_completed
  by (simp add: pair_request_simps hash_none pair_evidence_def Let_def cong: hash_kept)

lemma pair_evidence_encoded: "\<exists>bs. encode_transition_fact sample_paths (Fact_evidence pair_evidence) = Inr bs"
  by (rule encode_short)
    (simp add: append_completed_evidence_def pair_evidence_def replay_append_durability_def sample_profile_def
      all_domains_def append_optional_def append_path_dynamic_def pair_consequence_def trial_observation_def
      Let_def replay_append_evidence_def append_counted_def replay_append_observation_def
      replay_append_object_def append_path_text_def append_fact_def append_lengths sample_replay_header
      sample_paths_def maximum_replay_size_def)

lemma pair_completes:
  "\<exists>r. complete_application pair_engine pair_mutated pair_request sample_projected_state sample_lease None
     True = (Inr (Phase_stopped r), True) \<and> terminal_outcome r = Attempt_completed"
proof -
  obtain b1 where evidence: "encode_transition_fact sample_paths (Fact_evidence pair_evidence) = Inr b1"
    using pair_evidence_encoded by blast
  obtain b2 where synchronized: "encode_transition_fact sample_paths (Fact_synchronization
      \<lparr>fact_domain = Durable_completed_evidence, fact_status = Durability_confirmed\<rparr>) = Inr b2"
    using encode_synchronized by blast
  obtain r where receipt: "completed_receipt sample_paths pair_evidence Recovery_assets_retained [1, 4] = Inr r"
    "terminal_outcome r = Attempt_completed"
    by (simp add: completed_receipt_def pair_completed Let_def)
  have identity: "evidence_identity pair_evidence = 0" by (simp add: pair_evidence_def)
  have path: "decision_path (removal_decision p) = p" for p by (simp add: removal_decision_def)
  show ?thesis
    by (simp add: complete_application_def pair_completion pair_request_simps)
      (simp add: settle_observation_def conclude_application_def make_completed_evidence_def
        publish_evidence_def synchronize_evidence_def seal_completion_def seal_terminal_receipt_def
        journaled_state_def mutated_journaled_fields pair_mutated_fields pair_observed pair_completion path
        receipt pair_check_simps pair_run evidence synchronized pair_evidence_made identity cong: hash_kept)
qed

section \<open>The recovery\<close>

lemma pair_interrupted_fields:
  "interrupted_journaled pair_interrupted =
     published_journaled (pair_published Indeterminate
        [(Recover_active_object, Some 2), (Recover_active_object, Some 1),
         (Synchronize_recovered_namespace, None), (Seal_receipt, None)])"
  "interrupted_evidence pair_interrupted = []" "interrupted_durability pair_interrupted = sample_profile"
  "interrupted_reason pair_interrupted = Effect_interruption_indeterminate"
  "recovery_is_exact pair_interrupted 1 = Inr True" "recovery_is_exact pair_interrupted 2 = Inr True"
  by (simp_all add: pair_interrupted_def) code_simp+

lemma pair_recovery:
  "validate_recovery_binding pair_interrupted pair_request sample_projected_state sample_lease = Inr ()"
  "recovery_candidates pair_interrupted =
     [pair_effect Outcome_indeterminate 2, pair_effect Outcome_completed 1]"
  "with_active_durability sample_profile Durability_visible = Inr (pair_profile Durability_visible)"
  "with_active_durability (pair_profile Durability_visible) Durability_confirmed =
     Inr (pair_profile Durability_confirmed)"
  "recovery_path_consequences pair_interrupted (request_plan pair_request)
     [pair_recovered 2, pair_recovered 1] =
     Inr [pair_consequence Effect_completed False Ineligible 1,
       pair_consequence Effect_indeterminate False Ineligible 2]"
  "append_unique_evidence [] [5] = [5]" "append_unique_evidence [5] [5] = [5]"
  by code_simp+

lemma pair_recovery_encoded:
  "\<exists>bs. encode_transition_fact sample_paths (Fact_recovery path
     \<lparr>operation_outcome = Outcome_completed, operation_evidence = [5]\<rparr>) = Inr bs"
  by (rule encode_short)
    (simp add: replay_append_evidence_def append_counted_def append_path_text_def append_lengths
      sample_replay_header sample_paths_def maximum_replay_size_def replay_append_result_def)

lemma pair_failure_sealed:
  "\<exists>r. failed_receipt sample_paths pair_request 0 0 Failed_fully_recovered Exact_prior_state_restored
     (pair_profile Durability_confirmed) [pair_consequence Effect_completed False Ineligible 1,
       pair_consequence Effect_indeterminate False Ineligible 2] (Some 0) [5] = Inr r"
proof -
  have "case failed_receipt sample_paths pair_request 0 0 Failed_fully_recovered Exact_prior_state_restored
      (pair_profile Durability_confirmed) [pair_consequence Effect_completed False Ineligible 1,
        pair_consequence Effect_indeterminate False Ineligible 2] (Some 0) [5] of
      Inl e \<Rightarrow> False | Inr r \<Rightarrow> True"
    by code_simp
  then show ?thesis by (auto split: sum.splits)
qed

lemma pair_recovers:
  "\<exists>r. recover_interrupted pair_engine pair_interrupted pair_request sample_projected_state sample_lease
     True = (Inr r, False) \<and> terminal_outcome r = Failed_fully_recovered"
proof -
  obtain b1 where first: "encode_transition_fact sample_paths (Fact_recovery 1
      \<lparr>operation_outcome = Outcome_completed, operation_evidence = [5]\<rparr>) = Inr b1"
    using pair_recovery_encoded by blast
  obtain b2 where second: "encode_transition_fact sample_paths (Fact_recovery 2
      \<lparr>operation_outcome = Outcome_completed, operation_evidence = [5]\<rparr>) = Inr b2"
    using pair_recovery_encoded by blast
  obtain b3 where synchronized: "encode_transition_fact sample_paths (Fact_synchronization
      \<lparr>fact_domain = Durable_active_namespace, fact_status = Durability_confirmed\<rparr>) = Inr b3"
    using encode_synchronized by blast
  obtain r where receipt: "failed_receipt sample_paths pair_request 0 0 Failed_fully_recovered
      Exact_prior_state_restored (pair_profile Durability_confirmed)
      [pair_consequence Effect_completed False Ineligible 1,
       pair_consequence Effect_indeterminate False Ineligible 2] (Some 0) [5] = Inr r"
    using pair_failure_sealed by blast
  have outcome: "terminal_outcome r = Failed_fully_recovered"
    using receipt by (rule failed_receipt_outcome)
  show ?thesis
    by (simp add: recover_interrupted_def pair_recovery undo_interrupted_def pair_request_simps)
      (simp add: pair_effect_def recover_one_def exact_same pair_interrupted_fields interrupted_with_fields
        synchronize_recovered_def recovery_outcome_def seal_recovery_receipt_def consequences_same
        pair_recovery [unfolded pair_recovered_def] receipt outcome terminal_failure_state_def pair_run
        first second synchronized cong: hash_kept)
qed

end
