(* ===== verification/Observing.thy ===== *)
theory Observing
  imports Rehearsing
begin

text \<open>
  What the completion and the recovery of an application establish: a receipt of the completion rests
  on an observation of every path made in the same run, and a recovery undoes everything that may have
  changed the target, the last effect first, until a recovery does not complete.
\<close>

section \<open>The observed result\<close>

text \<open>What an object must show to be the result of an image entry; an unknown fact never suffices here.\<close>

definition entry_realized :: "('p, 'o) environment \<Rightarrow> image_entry \<Rightarrow> 'p completed_object_fact \<Rightarrow> bool" where
  "entry_realized E entry obj \<longleftrightarrow>
     path_string E (object_path obj) = entry_path entry \<and>
     object_kind obj = entry_kind (entry_type entry) \<and>
     object_mode obj = Fact_known (entry_mode entry) \<and> object_uid obj = Fact_known (entry_uid entry) \<and>
     object_gid obj = Fact_known (entry_gid entry) \<and>
     object_mtime obj = Fact_known \<lparr>timestamp_seconds = entry_mtime entry,
       timestamp_nanoseconds = entry_mtime_nanoseconds entry\<rparr> \<and>
     (entry_type entry = Entry_regular \<longrightarrow> object_size obj = Fact_known (entry_size entry) \<and>
        (\<exists>v c. object_content obj = Fact_known v \<and> entry_content entry = Some c \<and> equal_regular_content v c)) \<and>
     (entry_type entry = Entry_symlink \<longrightarrow>
        (\<exists>t. object_symlink_target obj = Fact_known t \<and> entry_symlink_target entry = Some t)) \<and>
     (entry_type entry = Entry_hardlink \<longrightarrow>
        (\<exists>anchor. object_hardlink obj = Fact_known anchor \<and>
           entry_hardlink entry = Some (path_string E anchor))) \<and>
     (entry_type entry = Entry_character_device \<or> entry_type entry = Entry_block_device \<longrightarrow>
        (\<exists>d. object_device obj = Fact_known d \<and> entry_device entry = Some (device_major d, device_minor d)))"

text \<open>
  An object that is to stay keeps every fact that was known or not applicable at admission; a fact that
  was unknown then can only be seen to apply still.
\<close>

definition fact_kept :: "'v qualified_fact \<Rightarrow> 'v qualified_fact \<Rightarrow> bool" where
  "fact_kept prior after \<longleftrightarrow>
     (case prior of
        Fact_known v \<Rightarrow> after = Fact_known v
      | Fact_not_applicable \<Rightarrow> after = Fact_not_applicable
      | Fact_unknown \<Rightarrow> after \<noteq> Fact_not_applicable)"

definition object_kept :: "'p completed_object_fact \<Rightarrow> 'p completed_object_fact \<Rightarrow> bool" where
  "object_kept prior after \<longleftrightarrow>
     object_path prior = object_path after \<and> object_kind prior = object_kind after \<and>
     fact_kept (object_mode prior) (object_mode after) \<and> fact_kept (object_uid prior) (object_uid after) \<and>
     fact_kept (object_gid prior) (object_gid after) \<and> fact_kept (object_size prior) (object_size after) \<and>
     fact_kept (object_mtime prior) (object_mtime after) \<and>
     fact_kept (object_content prior) (object_content after) \<and>
     fact_kept (object_symlink_target prior) (object_symlink_target after) \<and>
     fact_kept (object_device prior) (object_device after) \<and>
     fact_kept (object_hardlink prior) (object_hardlink after)"

definition observation_kept :: "'p path_observation \<Rightarrow> 'p path_observation \<Rightarrow> bool" where
  "observation_kept prior after \<longleftrightarrow> observation_path prior = observation_path after \<and>
     (observation_state prior = State_not_applicable \<and> observation_state after = State_not_applicable \<or>
      observation_state prior = State_known \<and> observation_state after = State_known \<and>
      (\<exists>x y. observation_object prior = Some x \<and> observation_object after = Some y \<and> object_kept x y))"

definition observation_gone :: "'p path_observation \<Rightarrow> bool" where
  "observation_gone after \<longleftrightarrow> observation_state after = State_not_applicable"

text \<open>The planned result of a decision, read off two observations of its path.\<close>

definition result_established ::
  "('p, 'o) environment \<Rightarrow> 'p active_effect list \<Rightarrow> package_image option \<Rightarrow> ('p, 'o) path_decision \<Rightarrow>
   'p path_observation \<Rightarrow> 'p path_observation \<Rightarrow> bool" where
  "result_established E effects img d prior after \<longleftrightarrow>
     (case decision_active d of
        Activate_incoming \<Rightarrow> observation_state after = State_known \<and>
          (\<exists>i number entry obj. img = Some i \<and> incoming_entry_of d = Some number \<and>
             image_entry i number = Some entry \<and> observation_object after = Some obj \<and>
             object_provenance obj = Application_observation \<and> entry_realized E entry obj)
      | Retain_observed \<Rightarrow> observation_kept prior after
      | Remove_observed \<Rightarrow> observation_gone after
      | Remain_absent \<Rightarrow> observation_gone after
      | Remove_directory_if_empty \<Rightarrow>
          (\<exists>e. find_active_effect effects (decision_path d) = Some e \<and>
             (if operation_outcome (effect_result e) = Outcome_conditional_retained
              then observation_kept prior after else observation_gone after)))"

lemma merge_matched [simp]: "merge_match x y = Match_matched \<longleftrightarrow> x = Match_matched \<and> y = Match_matched"
  by (cases x; cases y) (simp_all add: merge_match_def)

lemma expected_fact_matched [simp]: "match_expected_fact f v = Match_matched \<longleftrightarrow> f = Fact_known v"
  by (cases f) (simp_all add: match_expected_fact_def)

lemma expected_digest_matched [simp]:
  "match_expected_digest f c = Match_matched \<longleftrightarrow> (\<exists>v. f = Fact_known v \<and> equal_regular_content v c)"
  by (cases f) (simp_all add: match_expected_digest_def)

lemma retained_fact_matched [simp]: "match_retained_fact x y = Match_matched \<longleftrightarrow> fact_kept x y"
  by (cases x) (simp_all add: match_retained_fact_def fact_kept_def)

lemma matched_if_matched [simp]: "matched_if b = Match_matched \<longleftrightarrow> b"
  by (simp add: matched_if_def)

lemma payload_matched:
  assumes "match_entry_payload E obj entry = Inr Match_matched"
  shows "(entry_type entry = Entry_regular \<longrightarrow> object_size obj = Fact_known (entry_size entry) \<and>
        (\<exists>v c. object_content obj = Fact_known v \<and> entry_content entry = Some c \<and> equal_regular_content v c)) \<and>
     (entry_type entry = Entry_symlink \<longrightarrow>
        (\<exists>t. object_symlink_target obj = Fact_known t \<and> entry_symlink_target entry = Some t)) \<and>
     (entry_type entry = Entry_hardlink \<longrightarrow>
        (\<exists>anchor. object_hardlink obj = Fact_known anchor \<and>
           entry_hardlink entry = Some (path_string E anchor))) \<and>
     (entry_type entry = Entry_character_device \<or> entry_type entry = Entry_block_device \<longrightarrow>
        (\<exists>d. object_device obj = Fact_known d \<and> entry_device entry = Some (device_major d, device_minor d)))"
  using assms
  by (cases "entry_type entry")
    (auto simp: match_entry_payload_def match_entry_hardlink_def match_entry_device_def
      split: option.splits qualified_fact.splits if_splits)

lemma incoming_matched:
  assumes "match_incoming_entry E after entry = Inr Match_matched"
  shows "observation_state after = State_known \<and> (\<exists>obj. observation_object after = Some obj \<and>
    object_provenance obj = Application_observation \<and> entry_realized E entry obj)"
proof -
  from assms obtain obj where obj: "observation_state after = State_known" "observation_object after = Some obj"
    by (cases "observation_state after"; cases "observation_object after")
      (simp_all add: match_incoming_entry_def)
  have parts: "object_provenance obj = Application_observation"
    "path_string E (object_path obj) = entry_path entry" "object_kind obj = entry_kind (entry_type entry)"
    "match_entry_payload E obj entry = Inr Match_matched"
    "object_mode obj = Fact_known (entry_mode entry)" "object_uid obj = Fact_known (entry_uid entry)"
    "object_gid obj = Fact_known (entry_gid entry)"
    "object_mtime obj = Fact_known \<lparr>timestamp_seconds = entry_mtime entry,
       timestamp_nanoseconds = entry_mtime_nanoseconds entry\<rparr>"
    using assms obj by (auto simp: match_incoming_entry_def rbind_Inr_iff split: if_splits)
  with payload_matched [OF parts(4)] obj show ?thesis by (simp add: entry_realized_def)
qed

lemma retained_matched:
  assumes "match_retained_observation prior after = Inr Match_matched"
  shows "observation_kept prior after"
  using assms
  by (cases "observation_state prior"; cases "observation_state after"; cases "observation_object prior";
      cases "observation_object after")
    (auto simp: match_retained_observation_def match_retained_object_def observation_kept_def object_kept_def
      split: if_splits)

lemma result_matched:
  assumes "match_result_observation E effects d prior after img = Inr Match_matched"
  shows "result_established E effects img d prior after"
  using assms
  by (cases "decision_active d")
    (auto simp: match_result_observation_def result_established_def observation_gone_def
      dest!: incoming_matched retained_matched split: option.splits if_splits)

section \<open>Completion\<close>

lemma yields_call:
  "(\<And>x. \<exists>s. fst (m s) = Inr x \<Longrightarrow> yields (f x) Q) \<Longrightarrow> yields (io_bind m f) Q"
  by (rule yields_bind [of m "\<lambda>x. \<exists>s. fst (m s) = Inr x"]) (auto simp: yields_def)

lemma yields_mono: "yields m Q \<Longrightarrow> (\<And>x. Q x \<Longrightarrow> R x) \<Longrightarrow> yields m R"
  unfolding yields_def by blast

lemma yieldsD: "yields m Q \<Longrightarrow> fst (m s) = Inr x \<Longrightarrow> Q x"
  unfolding yields_def by blast

abbreviation admitted_batch :: "('p, 'o, 'sel) active_mutated \<Rightarrow> 'p observation_batch" where
  "admitted_batch m \<equiv> check_observations (journaled_preconditions (published_journaled (mutated_rejected m)))"

lemma event_preconditions:
  "yields (journal_event_step W a st eff kind evidence f rc ce)
     (\<lambda>b. journaled_preconditions b = journaled_preconditions a)"
  unfolding journal_event_step_def by (rule yields_skip, rule yields_return) simp

lemma intend_preconditions:
  "journaled_preconditions a = pre \<Longrightarrow>
   yields (intend_observations W decisions a) (\<lambda>b. journaled_preconditions b = pre)"
proof (induction decisions arbitrary: a)
  case Nil
  then show ?case unfolding intend_observations.simps by (rule yields_return)
next
  case (Cons d decisions)
  show ?case
    unfolding intend_observations.simps
    by (rule yields_skip, rule yields_bind [OF event_preconditions], rule Cons.IH) (simp add: Cons.prems)
qed

text \<open>The verdict of the comparison for one decision.\<close>

definition judged ::
  "('p::linorder, 'o) environment \<Rightarrow> 'p active_effect list \<Rightarrow> package_image option \<Rightarrow> 'p observation_batch \<Rightarrow>
   'p observation_batch \<Rightarrow> ('p, 'o) path_decision \<Rightarrow> observation_match \<Rightarrow> bool" where
  "judged E effects img admitted observed d match \<longleftrightarrow>
     (\<exists>prior after. find_observation admitted (decision_path d) = Some prior \<and>
        find_observation observed (decision_path d) = Some after \<and>
        match_result_observation E effects d prior after img = Inr match)"

lemma settle_judged:
  assumes "mutated_effects m = effects" and "admitted_batch m = admitted"
  shows "yields (settle_observation W img observed d m) (\<lambda>(match, paths, n).
    mutated_effects n = effects \<and> admitted_batch n = admitted \<and>
    judged (engine_environment W) effects img admitted observed d match)"
proof (cases "find_observation (admitted_batch m) (decision_path d)";
    cases "find_observation observed (decision_path d)")
  fix prior after
  assume found: "find_observation (admitted_batch m) (decision_path d) = Some prior"
    "find_observation observed (decision_path d) = Some after"
  show ?thesis
    unfolding settle_observation_def Let_def found prod.case option.case
  proof (rule yields_bind [of _ "\<lambda>match. match_result_observation (engine_environment W) (mutated_effects m) d
        prior after img = Inr match"])
    fix match
    assume match: "match_result_observation (engine_environment W) (mutated_effects m) d prior after img = Inr match"
    show "yields (io_bind (io_lift (find_effect (published_journaled (mutated_rejected m)) Observe_result
         (Some (decision_path d)))) (\<lambda>eff.
       io_bind (journal_event_step W (published_journaled (mutated_rejected m)) Effects_visible eff
         (observation_event match) (batch_evidence observed) [] None None) (\<lambda>a.
       if match = Match_matched
       then io_bind (io_lift (completed_path_consequence (mutated_journaled m a) d prior after Eligible))
              (\<lambda>c. io_return (match, [c], mutated_journaled m a))
       else io_return (match, [], mutated_journaled m a))))
      (\<lambda>(match, paths, n). mutated_effects n = effects \<and> admitted_batch n = admitted \<and>
         judged (engine_environment W) effects img admitted observed d match)"
      using assms match found
      by (intro yields_skip yields_bind [OF event_preconditions] yields_if yields_return)
        (auto simp: mutated_journaled_def judged_def)
  qed (rule yields_lift)
qed (simp_all add: settle_observation_def Let_def yields_stop)

lemma settle_all_judged:
  assumes "mutated_effects m = effects" and "admitted_batch m = admitted"
  shows "yields (settle_observations W img observed decisions (matches, paths, m)) (\<lambda>(all, paths, n).
    set matches \<subseteq> set all \<and> (\<forall>d \<in> set decisions. \<exists>match \<in> set all.
      judged (engine_environment W) effects img admitted observed d match))"
  using assms
proof (induction decisions arbitrary: matches paths m)
  case Nil
  show ?case unfolding settle_observations.simps by (rule yields_return) simp
next
  case (Cons d decisions)
  have rest: "yields (settle_observations W img observed decisions (matches @ [match], paths @ ps, n))
      (\<lambda>(all, paths, n). set matches \<subseteq> set all \<and> (\<forall>d \<in> set (d # decisions). \<exists>match \<in> set all.
        judged (engine_environment W) effects img admitted observed d match))"
    if "mutated_effects n = effects" "admitted_batch n = admitted"
      "judged (engine_environment W) effects img admitted observed d match" for match ps n
    by (rule yields_mono [OF Cons.IH [OF that(1,2)]]) (use that(3) in \<open>clarsimp, blast\<close>)
  show ?case
    unfolding settle_observations.simps
    by (rule yields_bind [OF settle_judged [OF Cons.prems]], (rule yields_split)+, rule rest) auto
qed

lemma io_bind_Inr:
  "io_bind m f s = (Inr y, s') \<longleftrightarrow> (\<exists>x s1. m s = (Inr x, s1) \<and> f x s1 = (Inr y, s'))"
  by (auto simp: io_bind_def split: prod.split sum.split)

lemma io_lift_Inr: "io_lift r s = (Inr y, s') \<longleftrightarrow> r = Inr y \<and> s' = s"
  by auto

lemmas io_Inr = io_bind_Inr io_lift_Inr

lemma io_bindE:
  assumes "io_bind m f s = (Inr y, s')"
  obtains x s1 where "m s = (Inr x, s1)" and "f x s1 = (Inr y, s')"
  using assms by (auto simp: io_bind_Inr)

lemma io_splitE:
  assumes "(case z of (x, y) \<Rightarrow> f x y) s = r"
  obtains x y where "z = (x, y)" and "f x y s = r"
  using assms by (cases z) simp

lemma yields_run: "yields m Q \<Longrightarrow> m s = (Inr x, s') \<Longrightarrow> Q x"
  by (metis fst_conv yieldsD)

lemma interrupted_completion: "yields (interrupt_completion W n indeterminate evidence) (\<lambda>z. \<exists>i. z = Phase_done i)"
  unfolding interrupt_completion_def by (intro yields_skip yields_lift) (auto simp: rbind_Inr_iff)

text \<open>
  C16: a completion answers with a receipt only over the result it observed.  Whenever completion
  answers with a receipt, of any outcome, it journaled the intents of its observations, then asked the
  transaction, in the state they left, to observe every path of the plan, and on each path of the plan
  that observation shows the planned result: an incoming object of the path and kind of its image
  entry, with every fact the entry states known and equal; the object that was there at admission; or
  nothing.  An observation of unknown state, and an unknown fact of an incoming object, never
  suffice.  For a path that keeps its object, every fact that was known or not applicable at admission
  must be so again with the same value; a fact that was unknown at admission is not constrained,
  except that it must still apply.
\<close>

theorem completion_establishes_result:
  assumes "complete_application W m request state lease img s = (Inr (Phase_stopped receipt), s')"
  shows "\<exists>a s1 observed s2.
    intend_observations W (plan_paths (request_plan request)) (published_journaled (mutated_rejected m)) s =
      (Inr a, s1) \<and>
    tx_observe (engine_transaction W) (result_paths (request_plan request)) s1 = (Inr observed, s2) \<and>
    list_all (\<lambda>d. \<exists>prior after. find_observation (admitted_batch m) (decision_path d) = Some prior \<and>
        find_observation observed (decision_path d) = Some after \<and>
        result_established (engine_environment W) (mutated_effects m) img d prior after)
      (plan_paths (request_plan request))"
proof -
  let ?ds = "plan_paths (request_plan request)"
  from assms obtain a s1 observed s2 matches paths n s3
    where intend: "intend_observations W ?ds (published_journaled (mutated_rejected m)) s = (Inr a, s1)"
      and observe: "tx_observe (engine_transaction W) (result_paths (request_plan request)) s1 = (Inr observed, s2)"
      and settle: "settle_observations W img observed ?ds ([], [], mutated_journaled m a) s2 =
        (Inr (matches, paths, n), s3)"
      and rest: "(if Match_mismatch \<in> set matches \<or> Match_indeterminate \<in> set matches
        then interrupt_completion W n (Match_indeterminate \<in> set matches)
          (append_unique_evidence (mutated_evidence m) (batch_evidence observed))
        else io_bind (conclude_application W request state n paths
            (append_unique_evidence (mutated_evidence m) (batch_evidence observed)))
          (\<lambda>receipt. io_return (Phase_stopped receipt))) s3 = (Inr (Phase_stopped receipt), s')"
    by (auto simp: complete_application_def Let_def io_Inr)
  have kept: "mutated_effects (mutated_journaled m a) = mutated_effects m"
    "admitted_batch (mutated_journaled m a) = admitted_batch m"
    using yields_run [OF intend_preconditions [OF refl] intend] by (simp_all add: mutated_journaled_def)
  have all: "\<forall>d \<in> set ?ds. \<exists>match \<in> set matches.
      judged (engine_environment W) (mutated_effects m) img (admitted_batch m) observed d match"
    using yields_run [OF settle_all_judged [OF kept] settle] by simp
  have "match = Match_matched" if "match \<in> set matches" for match
  proof -
    have "\<not> (Match_mismatch \<in> set matches \<or> Match_indeterminate \<in> set matches)"
      using rest by (auto dest!: yields_run [OF interrupted_completion])
    with that show ?thesis by (metis observation_match.exhaust)
  qed
  with all have "judged (engine_environment W) (mutated_effects m) img (admitted_batch m) observed d Match_matched"
    if "d \<in> set ?ds" for d using that by metis
  then have "list_all (\<lambda>d. \<exists>prior after. find_observation (admitted_batch m) (decision_path d) = Some prior \<and>
        find_observation observed (decision_path d) = Some after \<and>
        result_established (engine_environment W) (mutated_effects m) img d prior after) ?ds"
    unfolding list_all_iff judged_def by (meson result_matched)
  with intend observe show ?thesis by blast
qed

theorem completion_establishes_result_witness:
  "\<exists>receipt a s1 observed s2 x y.
     complete_application pair_engine pair_mutated pair_request sample_projected_state sample_lease None True =
       (Inr (Phase_stopped receipt), True) \<and> terminal_outcome receipt = Attempt_completed \<and>
     intend_observations pair_engine [removal_decision 1, removal_decision 2]
       (published_journaled (mutated_rejected pair_mutated)) True = (Inr a, s1) \<and>
     tx_observe (engine_transaction pair_engine) [1, 2] s1 = (Inr observed, s2) \<and>
     find_observation observed 1 = Some x \<and> observation_gone x \<and>
     find_observation observed 2 = Some y \<and> observation_gone y"
proof -
  obtain receipt where run: "complete_application pair_engine pair_mutated pair_request sample_projected_state
      sample_lease None True = (Inr (Phase_stopped receipt), True)" "terminal_outcome receipt = Attempt_completed"
    using pair_completes by blast
  have path: "decision_path (removal_decision p) = p" "decision_active (removal_decision p) = Remove_observed" for p
    by (simp_all add: removal_decision_def)
  from completion_establishes_result [OF run(1)] run show ?thesis
    by (simp add: pair_request_simps pair_completion(2) path result_established_def) blast
qed

section \<open>Recovery\<close>

text \<open>
  What has to be undone, read off the results of the active effects: an effect whose outcome is unknown,
  or that completed and was not to leave its path as it was; the last one first.
\<close>

definition may_have_changed :: "'p active_effect \<Rightarrow> bool" where
  "may_have_changed e \<longleftrightarrow>
     operation_outcome (effect_result e) = Outcome_indeterminate \<or>
     operation_outcome (effect_result e) = Outcome_completed \<and>
       active_outcome (effect_request e) \<noteq> Retain_observed \<and>
       active_outcome (effect_request e) \<noteq> Remain_absent"

definition to_undo :: "('p, 'o, 'sel) active_interrupted \<Rightarrow> 'p list" where
  "to_undo i =
     rev (map (\<lambda>e. active_path (effect_request e)) (filter may_have_changed (interrupted_effects i)))"

text \<open>A path can be restored exactly when nothing was there, or what was there is captured exactly.\<close>

definition restorable :: "('p::linorder, 'o, 'sel) active_interrupted \<Rightarrow> 'p \<Rightarrow> bool" where
  "restorable i path \<longleftrightarrow>
     (\<exists>prior. find_observation (check_observations (journaled_preconditions (interrupted_journaled i))) path =
          Some prior \<and>
        (observation_state prior = State_not_applicable \<or>
         observation_state prior = State_known \<and>
           (\<exists>c. find (\<lambda>c. observation_path (captured_observation c) = path \<and>
                  capture_outcome c = Outcome_completed)
                (prepared_captures (published_prepared (interrupted_rejected i))) = Some c \<and>
              exact_recovery_possible c)))"

abbreviation recovered_ok :: "'p recovery_effect \<Rightarrow> bool" where
  "recovered_ok r \<equiv> operation_outcome (recovery_result r) = Outcome_completed"

text \<open>
  A run of recoveries over a list of paths, from an application \<open>a\<close> and a state \<open>s\<close> to \<open>a'\<close> and \<open>s'\<close>:
  for each path the intent of its recovery effect is journaled, the backend is asked to recover the
  path in the state that left, and the event of its answer is journaled; the next path follows in the
  state that left, and none follows a recovery that did not complete.
\<close>

fun recovers ::
  "('s, 'p::linorder, 'o, 'sel) engine \<Rightarrow> ('p, 'o, 'sel) active_interrupted \<Rightarrow> 'p list \<Rightarrow>
   'p recovery_effect list \<Rightarrow> ('p, 'o, 'sel) journaled_application \<times> 's \<Rightarrow>
   ('p, 'o, 'sel) journaled_application \<times> 's \<Rightarrow> bool" where
  "recovers W i [] rs start stop \<longleftrightarrow> rs = [] \<and> stop = start"
| "recovers W i (path # paths) rs (a, s) stop \<longleftrightarrow>
     (\<exists>r rest eff b s1 s2 kind evidence f c s3. rs = r # rest \<and> recovery_path r = path \<and>
        recovery_exact r = restorable i path \<and>
        find_effect a Recover_active_object (Some path) = Inr eff \<and>
        journal_intent W a Recovering eff s = (Inr b, s1) \<and>
        tx_recover (engine_transaction W) path s1 = (Inr (recovery_result r), s2) \<and>
        terminal_event (operation_outcome (recovery_result r)) = Inr kind \<and>
        journal_event_step W b Recovering eff kind evidence f None None s2 = (Inr c, s3) \<and>
        (if recovered_ok r then recovers W i paths rest (c, s3) stop else rest = [] \<and> stop = (c, s3)))"

lemma recovers_paths:
  "recovers W i paths rs start stop \<Longrightarrow> prefix (map recovery_path rs) paths \<and>
     (list_all recovered_ok rs \<longrightarrow> map recovery_path rs = paths) \<and>
     list_all (\<lambda>r. recovery_exact r = restorable i (recovery_path r)) rs"
proof (induction paths arbitrary: rs start)
  case (Cons path paths)
  obtain a s where start: "start = (a, s)" by (cases start)
  from Cons.prems obtain r rest mid where rs: "rs = r # rest" "recovery_path r = path"
    "recovery_exact r = restorable i path"
    and rest: "if recovered_ok r then recovers W i paths rest mid stop else rest = []"
    unfolding start recovers.simps by (metis (full_types))
  show ?case using rest Cons.IH [of rest mid] rs by (cases "recovered_ok r") auto
qed simp

lemma candidates_to_undo: "effect_paths (recovery_candidates i) = to_undo i"
proof -
  have "needs_recovery e \<longleftrightarrow> may_have_changed e" for e :: "'a active_effect"
    by (cases "active_outcome (effect_request e)")
      (auto simp: needs_recovery_def changed_target_def may_have_changed_def)
  then have "needs_recovery = (may_have_changed :: 'a active_effect \<Rightarrow> bool)" by (intro ext)
  then show ?thesis by (simp add: recovery_candidates_def to_undo_def rev_filter rev_map)
qed

lemma exact_restorable: "recovery_is_exact i path = Inr exact \<Longrightarrow> exact = restorable i path"
  by (auto simp: recovery_is_exact_def restorable_def admitted_observation_def find_completed_capture_def
      split: option.splits if_splits)

lemma recover_loop_run:
  assumes "journaled_preconditions a = journaled_preconditions (interrupted_journaled i)"
    and "recover_loop W todo (rs, evidence, interrupted_with i a) s = (Inr (all, evidence', k), s')"
  shows "\<exists>new c. all = rs @ new \<and> k = interrupted_with i c \<and>
    recovers W i (effect_paths todo) new (a, s) (c, s')"
  using assms
proof (induction todo arbitrary: rs evidence a s)
  case Nil
  then show ?case by auto
next
  case (Cons e todo)
  let ?path = "active_path (effect_request e)"
  from Cons.prems(2) obtain exact eff b s1 result s2 kind f c s3
    where exact: "recovery_is_exact (interrupted_with i a) ?path = Inr exact"
      and eff: "find_effect a Recover_active_object (Some ?path) = Inr eff"
      and intent: "journal_intent W a Recovering eff s = (Inr b, s1)"
      and call: "tx_recover (engine_transaction W) ?path s1 = (Inr result, s2)"
      and kind: "terminal_event (operation_outcome result) = Inr kind"
      and settled: "journal_event_step W b Recovering eff kind (operation_evidence result) f None None s2 = (Inr c, s3)"
      and rest: "(if operation_outcome result = Outcome_completed
        then recover_loop W todo (rs @ [\<lparr>recovery_path = ?path, recovery_result = result, recovery_exact = exact\<rparr>],
          append_unique_evidence evidence (operation_evidence result), interrupted_with i c)
        else io_return (rs @ [\<lparr>recovery_path = ?path, recovery_result = result, recovery_exact = exact\<rparr>],
          append_unique_evidence evidence (operation_evidence result), interrupted_with i c)) s3 =
        (Inr (all, evidence', k), s')"
    by (auto simp: recover_one_def Let_def io_Inr cong: if_cong)
  let ?r = "\<lparr>recovery_path = ?path, recovery_result = result, recovery_exact = exact\<rparr>"
  have kept: "journaled_preconditions c = journaled_preconditions (interrupted_journaled i)"
    using yields_run [OF event_preconditions intent] yields_run [OF event_preconditions settled]
      Cons.prems(1) by simp
  have exact: "exact = restorable i ?path"
    using exact exact_same [OF Cons.prems(1)] exact_restorable by metis
  show ?case
  proof (cases "operation_outcome result = Outcome_completed")
    case True
    then have "recover_loop W todo (rs @ [?r], append_unique_evidence evidence (operation_evidence result),
        interrupted_with i c) s3 = (Inr (all, evidence', k), s')" using rest by simp
    from Cons.IH [OF kept this] obtain new d where "all = (rs @ [?r]) @ new" "k = interrupted_with i d"
      "recovers W i (effect_paths todo) new (c, s3) (d, s')" by blast
    then show ?thesis
      using True exact eff intent call kind settled by (intro exI [of _ "?r # new"] exI [of _ d]) fastforce
  next
    case False
    then show ?thesis
      using rest exact eff intent call kind settled
      by (intro exI [of _ "[?r]"] exI [of _ c]) fastforce
  qed
qed

lemma state_preconditions:
  "yields (journal_state_step W a st rc ce) (\<lambda>b. journaled_preconditions b = journaled_preconditions a)"
  unfolding journal_state_step_def by (rule yields_skip, rule yields_return) simp

lemma failed_receipt_recovery:
  "failed_receipt E request attempt projection outcome recovery durability paths journal backend = Inr r \<Longrightarrow>
     terminal_recovery r = recovery"
  by (auto simp: failed_receipt_def make_failed_def result_simps Let_def)

lemma seal_recovery_yields:
  "yields (seal_recovery_receipt W i request state outcome recovered durability recoveries evidence)
     (\<lambda>receipt. terminal_outcome receipt = outcome \<and> terminal_recovery receipt = recovered)"
  unfolding seal_recovery_receipt_def Let_def
proof (rule yields_bind [of _ "\<lambda>receipt. terminal_outcome receipt = outcome \<and> terminal_recovery receipt = recovered"])
  show "yields (io_lift (rbind (recovery_path_consequences i (request_plan request) recoveries) (\<lambda>paths.
        failed_receipt (engine_environment W) request
          (attempt_identity (journaled_attempt (interrupted_journaled i))) (projection_identity state) outcome
          recovered durability paths (Some (header_identity (journaled_header (interrupted_journaled i)))) evidence)))
    (\<lambda>receipt. terminal_outcome receipt = outcome \<and> terminal_recovery receipt = recovered)"
    by (rule yields_lift) (auto simp: rbind_Inr_iff failed_receipt_outcome failed_receipt_recovery)
qed (intro yields_skip yields_return)

lemma fully_recovered_iff:
  assumes "recovers W i paths recoveries start stop"
  shows "fst (recovery_outcome reason recoveries) = Failed_fully_recovered \<longleftrightarrow>
    map recovery_path recoveries = paths \<and>
    list_all (\<lambda>r. recovered_ok r \<and> restorable i (recovery_path r)) recoveries"
  using recovers_paths [OF assms] by (auto simp: recovery_outcome_def list_all_iff Let_def)

lemma synchronize_reason:
  "yields (if C then synchronize_recovered W durability k else io_return (durability, k))
     (\<lambda>(durability, n). interrupted_reason n = interrupted_reason k)"
  unfolding synchronize_recovered_def
  by (rule yields_if yields_stop yields_skip yields_return yields_lift
      | (force simp: rbind_Inr_iff interrupted_with_def))+

lemma undo_run:
  assumes "undo_interrupted W i request state s = (Inr receipt, s')"
  shows "\<exists>a s1 recoveries b s2.
    journal_state_step W (interrupted_journaled i) Recovering None None s = (Inr a, s1) \<and>
    recovers W i (to_undo i) recoveries (a, s1) (b, s2) \<and>
    (terminal_outcome receipt, terminal_recovery receipt) =
      recovery_outcome (interrupted_reason i) recoveries"
proof -
  from assms obtain a s1 recoveries evidence k s2 durability s3 durability' n s4 outcome recovered
    where enter: "journal_state_step W (interrupted_journaled i) Recovering None None s = (Inr a, s1)"
      and loop: "recover_loop W (recovery_candidates i) ([], interrupted_evidence i, interrupted_with i a) s1 =
        (Inr (recoveries, evidence, k), s2)"
      and synchronized: "(if (\<forall>r \<in> set recoveries. recovered_ok r) \<and>
          requires_namespace_synchronization (request_control request)
        then synchronize_recovered W durability k else io_return (durability, k)) s3 =
        (Inr (durability', n), s4)"
      and outcome: "recovery_outcome (interrupted_reason n) recoveries = (outcome, recovered)"
      and seal: "seal_recovery_receipt W n request state outcome recovered durability' recoveries evidence s4 =
        (Inr receipt, s')"
    unfolding undo_interrupted_def Let_def
    apply (elim io_bindE io_splitE)
    apply hypsubst
    apply (rule that, assumption+)
    done
  have pre: "journaled_preconditions a = journaled_preconditions (interrupted_journaled i)"
    by (rule yields_run [OF state_preconditions enter])
  from recover_loop_run [OF pre loop] obtain c where k: "k = interrupted_with i c"
    and run: "recovers W i (to_undo i) recoveries (a, s1) (c, s2)" by (auto simp: candidates_to_undo)
  have "interrupted_reason n = interrupted_reason i"
    using yields_run [OF synchronize_reason synchronized] by (simp add: k interrupted_with_def)
  then have "(terminal_outcome receipt, terminal_recovery receipt) =
      recovery_outcome (interrupted_reason i) recoveries"
    using outcome yields_run [OF seal_recovery_yields seal] by simp
  with enter run show ?thesis by blast
qed

lemma without_recovery_yields:
  "yields (seal_without_candidates W i request state) (\<lambda>r. terminal_outcome r \<noteq> Failed_fully_recovered)"
  "yields (seal_without_recovery W i request state) (\<lambda>r. terminal_outcome r \<noteq> Failed_fully_recovered)"
  unfolding seal_without_candidates_def seal_without_recovery_def
  by (intro yields_if; rule yields_mono [OF seal_recovery_yields], simp)+

lemma recovery_run:
  assumes "recover_interrupted W i request state lease s = (Inr receipt, s')"
  shows "if recovery_selected (request_control request) \<and> to_undo i \<noteq> []
    then undo_interrupted W i request state s = (Inr receipt, s')
    else terminal_outcome receipt \<noteq> Failed_fully_recovered"
proof -
  have none: "recovery_candidates i = [] \<longleftrightarrow> to_undo i = []"
    by (simp flip: candidates_to_undo)
  from assms have run: "(if to_undo i = [] then seal_without_candidates W i request state
      else if \<not> recovery_selected (request_control request) then seal_without_recovery W i request state
      else undo_interrupted W i request state) s = (Inr receipt, s')"
    unfolding recover_interrupted_def none by (elim io_bindE) (simp only: io_lift_Inr)
  show ?thesis
  proof (cases "to_undo i = []")
    case True
    with run show ?thesis by (simp add: yields_run [OF without_recovery_yields(1)])
  next
    case False
    with run show ?thesis
      by (cases "recovery_selected (request_control request)")
        (simp_all add: yields_run [OF without_recovery_yields(2)])
  qed
qed

text \<open>
  C17: a full recovery is reported exactly when everything was undone.  When the request selects
  recovery and some active effect may have changed the target, because its outcome is unknown or
  because it completed and was not to leave its path alone, an answered recovery entered the recovering
  state and then ran through the paths of these effects, the last effect first: each was recovered by
  the backend between its journaled intent and its journaled outcome, and none followed a recovery
  that did not complete.  The receipt reports a full recovery exactly when the run reached every one of
  the paths, every recovery completed, and every path can be restored, because nothing was there at
  admission or what was there is captured exactly.  Otherwise it never reports one.
\<close>

theorem full_recovery_exact:
  assumes "recover_interrupted W i request state lease s = (Inr receipt, s')"
  shows "if recovery_selected (request_control request) \<and> to_undo i \<noteq> []
    then \<exists>a s1 recoveries b s2.
      journal_state_step W (interrupted_journaled i) Recovering None None s = (Inr a, s1) \<and>
      recovers W i (to_undo i) recoveries (a, s1) (b, s2) \<and>
      (terminal_outcome receipt, terminal_recovery receipt) =
        recovery_outcome (interrupted_reason i) recoveries \<and>
      (terminal_outcome receipt = Failed_fully_recovered \<longleftrightarrow>
        map recovery_path recoveries = to_undo i \<and>
        list_all (\<lambda>r. recovered_ok r \<and> restorable i (recovery_path r)) recoveries)
    else terminal_outcome receipt \<noteq> Failed_fully_recovered"
proof (cases "recovery_selected (request_control request) \<and> to_undo i \<noteq> []")
  case True
  with recovery_run [OF assms] have "undo_interrupted W i request state s = (Inr receipt, s')" by simp
  from undo_run [OF this] obtain a s1 recoveries b s2
    where enter: "journal_state_step W (interrupted_journaled i) Recovering None None s = (Inr a, s1)"
      and recovers: "recovers W i (to_undo i) recoveries (a, s1) (b, s2)"
      and receipt: "(terminal_outcome receipt, terminal_recovery receipt) =
        recovery_outcome (interrupted_reason i) recoveries" by blast
  have "terminal_outcome receipt = Failed_fully_recovered \<longleftrightarrow>
      map recovery_path recoveries = to_undo i \<and>
      list_all (\<lambda>r. recovered_ok r \<and> restorable i (recovery_path r)) recoveries"
    using fully_recovered_iff [OF recovers, of "interrupted_reason i"] by (simp flip: receipt)
  with enter recovers receipt show ?thesis unfolding if_P [OF True] by blast
next
  case False
  with recovery_run [OF assms] show ?thesis by simp
qed

lemma list_all_conj: "list_all (\<lambda>x. P x \<and> Q x) xs \<longleftrightarrow> list_all P xs \<and> list_all Q xs"
  by (auto simp: list_all_iff)

theorem full_recovery_exact_witness:
  "\<exists>receipt a s1 recoveries b s2.
     recover_interrupted pair_engine pair_interrupted pair_request sample_projected_state sample_lease True =
       (Inr receipt, False) \<and> terminal_outcome receipt = Failed_fully_recovered \<and>
     recovers pair_engine pair_interrupted [2, 1] recoveries (a, s1) (b, s2) \<and>
     map recovery_path recoveries = [2, 1] \<and> list_all recovered_ok recoveries"
proof -
  obtain receipt where run: "recover_interrupted pair_engine pair_interrupted pair_request
      sample_projected_state sample_lease True = (Inr receipt, False)"
    "terminal_outcome receipt = Failed_fully_recovered"
    using pair_recovers by blast
  have todo: "to_undo pair_interrupted = [2, 1]"
    by (simp add: to_undo_def pair_interrupted_def pair_effect_def may_have_changed_def)
  have "\<exists>a s1 recoveries b s2.
      journal_state_step pair_engine (interrupted_journaled pair_interrupted) Recovering None None True =
        (Inr a, s1) \<and>
      recovers pair_engine pair_interrupted [2, 1] recoveries (a, s1) (b, s2) \<and>
      (Failed_fully_recovered, terminal_recovery receipt) =
        recovery_outcome (interrupted_reason pair_interrupted) recoveries \<and>
      map recovery_path recoveries = [2, 1] \<and> list_all recovered_ok recoveries \<and>
      list_all (\<lambda>r. restorable pair_interrupted (recovery_path r)) recoveries"
    using full_recovery_exact [OF run(1)]
    by (simp only: pair_request_simps todo run(2) simp_thms list.distinct if_True list_all_conj)
  then show ?thesis using run by (elim exE conjE) (intro exI conjI, assumption+)
qed

section \<open>A failure that cannot be sealed\<close>

lemma pre_mutation_paths:
  assumes "failed_receipt E request attempt projection Failed_before_target_mutation recovered durability
      paths journal backend = Inr r" and "c \<in> set paths"
  shows "active_status c = Not_attempted \<or> active_status c = Effect_failed"
proof -
  from assms(1) obtain ps u where ps: "normalize_result_paths paths = Inr ps"
    and "validate_failed_paths Failed_before_target_mutation ps = Inr u"
    unfolding failed_receipt_def make_failed_def rbind_Inr_iff by auto
  moreover have "c \<in> set ps" using ps assms(2) by (simp add: normalize_result_paths_Inr)
  ultimately show ?thesis
    unfolding validate_failed_paths_def by (auto simp: rbind_Inr_iff dest!: rmap_member)
qed

lemma retained_consequence:
  assumes "recovery_path_consequences i plan recoveries = Inr paths" and "d \<in> set (plan_paths plan)"
    and "find_active_effect (interrupted_effects i) (decision_path d) = Some e"
    and "operation_outcome (effect_result e) = Outcome_conditional_retained"
  shows "\<exists>c \<in> set paths. active_status c = Conditional_retained"
proof -
  have "d \<in> set (filter (touched_decision i) (plan_paths plan))"
    using assms(2,3) by (simp add: touched_decision_def)
  then obtain c where c: "c \<in> set paths" "recovery_path_consequence i recoveries d = Inr c"
    using assms(1) rmap_member unfolding recovery_path_consequences_def by metis
  have "active_status c = Conditional_retained"
    using c(2) assms(3,4) unfolding recovery_path_consequence_def Let_def
    by (auto simp: rbind_Inr_iff dest!: make_consequence_Inr split: option.splits)
  with c(1) show ?thesis by blast
qed

text \<open>
  C30: a retained directory followed by a failure is left without a receipt.  When an active effect
  failed, nothing has to be recovered, and an earlier conditional directory removal retained its
  directory, recovery throws without any call: the receipt it chooses, a failure before target
  mutation, refuses the retained path.
\<close>

theorem retained_failure_unsealed:
  assumes "recovery_candidates i = []" and "effect_interruption (interrupted_reason i)"
    and "d \<in> set (plan_paths (request_plan request))"
    and "find_active_effect (interrupted_effects i) (decision_path d) = Some e"
    and "operation_outcome (effect_result e) = Outcome_conditional_retained"
  shows "\<exists>err. recover_interrupted W i request state lease s = (Inl err, s)"
proof -
  have failed: "\<exists>err. rbind (recovery_path_consequences i (request_plan request) []) (\<lambda>paths.
      failed_receipt (engine_environment W) request attempt projection Failed_before_target_mutation
        recovered durability paths journal backend) = Inl err"
    for attempt projection recovered durability journal backend
  proof (cases "recovery_path_consequences i (request_plan request) []")
    case (Inr paths)
    from retained_consequence [OF Inr assms(3-5)] obtain c
      where "c \<in> set paths" "active_status c = Conditional_retained" by blast
    then have "failed_receipt (engine_environment W) request attempt projection
        Failed_before_target_mutation recovered durability paths journal backend \<noteq> Inr r" for r
      using pre_mutation_paths by fastforce
    then show ?thesis
      by (cases "failed_receipt (engine_environment W) request attempt projection
        Failed_before_target_mutation recovered durability paths journal backend") (auto simp: Inr)
  qed simp
  have reason: "\<not> observation_interruption (interrupted_reason i)"
    using assms(2) by (auto simp: effect_interruption_def observation_interruption_def)
  have "\<exists>err. seal_without_candidates W i request state s = (Inl err, s)"
    using failed [of "attempt_identity (journaled_attempt (interrupted_journaled i))" "projection_identity state"
        Recovery_unchanged "interrupted_durability i"
        "Some (header_identity (journaled_header (interrupted_journaled i)))" "interrupted_evidence i"] reason
    by (auto simp: seal_without_candidates_def seal_recovery_receipt_def Let_def io_bind_def)
  then show ?thesis
    using assms(1)
    by (cases "validate_recovery_binding i request state lease") (auto simp: recover_interrupted_def io_bind_def)
qed

definition retained_effect :: "8 word active_effect" where
  "retained_effect = \<lparr>effect_request = \<lparr>active_path = 1, active_outcome = Remove_directory_if_empty,
     active_entry = None\<rparr>, effect_result = \<lparr>operation_outcome = Outcome_conditional_retained,
     operation_evidence = []\<rparr>\<rparr>"

definition refused_effect :: "8 word active_effect" where
  "refused_effect = \<lparr>effect_request = \<lparr>active_path = 2, active_outcome = Remove_observed,
     active_entry = None\<rparr>, effect_result = \<lparr>operation_outcome = Outcome_failed, operation_evidence = []\<rparr>\<rparr>"

definition retained_interruption :: "(8 word, 8 word, entry_id list) active_interrupted" where
  "retained_interruption =
     \<lparr>interrupted_rejected = \<lparr>published_prepared = \<lparr>prepared_journaled =
          \<lparr>journaled_attempt = header_attempt sample_header,
           journaled_preconditions = sample_check, journaled_payloads = None,
           journaled_captures = sample_captures, journaled_schedule = [],
           journaled_history = sample_history, journaled_projection = 0, journaled_lease = 12\<rparr>,
        prepared_captures = [], prepared_durability = sample_profile, prepared_evidence = []\<rparr>,
        published_effects = [], published_durability = sample_profile, published_evidence = []\<rparr>,
      interrupted_effects = [retained_effect, refused_effect],
      interrupted_reason = Effect_interruption_failed, interrupted_durability = sample_profile,
      interrupted_evidence = []\<rparr>"

theorem retained_failure_unsealed_witness:
  "\<exists>err. recover_interrupted trial_engine retained_interruption trial_request sample_projected_state
     sample_lease True = (Inl err, True)"
proof -
  let ?d = "hd (plan_paths sample_plan)"
  have "recovery_candidates retained_interruption = []"
    by (simp add: recovery_candidates_def retained_interruption_def needs_recovery_def changed_target_def
        retained_effect_def refused_effect_def)
  moreover have "effect_interruption (interrupted_reason retained_interruption)"
    by (simp add: effect_interruption_def retained_interruption_def)
  moreover have "?d \<in> set (plan_paths (request_plan trial_request))"
    by (simp add: trial_request_def sample_plan_def)
  moreover have "find_active_effect (interrupted_effects retained_interruption) (decision_path ?d) =
      Some retained_effect"
    by (simp add: find_active_effect_def retained_interruption_def retained_effect_def sample_plan_def)
  moreover have "operation_outcome (effect_result retained_effect) = Outcome_conditional_retained"
    by (simp add: retained_effect_def)
  ultimately show ?thesis by (rule retained_failure_unsealed)
qed

end
