(* ===== verification/Looping.thy ===== *)
theory Looping
  imports Ordering "HOL-Library.Word"
begin

text \<open>
  Termination of the ordering loop (\<open>schedule.cpp\<close>, \<open>order_active_nodes\<close>).  The loop runs while the
  ready set is not empty and decrements in-degrees held in \<open>std::size_t\<close> without testing them, so a
  node released too often would wrap around and could be released again.  Here the loop is written
  as it stands, over words and with no argument for its end, and shown to return the order of the
  total function \<open>kahn\<close>.
\<close>

section \<open>The loop as written\<close>

type_synonym size_word = "64 word"

definition decrement ::
  "('p::linorder) active_node list \<Rightarrow> nat \<Rightarrow> size_word list \<times> nat list \<Rightarrow> size_word list \<times> nat list" where
  "decrement nodes next state =
     (let (indegree, ready) = state;
          indegree' = indegree[next := indegree ! next - 1] in
      (indegree', if indegree' ! next = 0 then insert_ready nodes next ready else ready))"

partial_function (option) order_loop ::
  "('p::linorder) active_node list \<Rightarrow> nat list list \<Rightarrow> size_word list \<Rightarrow> nat list \<Rightarrow> nat list \<Rightarrow>
   nat list option" where
  "order_loop nodes edges indegree ready ordered =
     (case ready of
        [] \<Rightarrow> Some ordered
      | current # rest \<Rightarrow>
          (case fold (decrement nodes) (edges ! current) (indegree, rest) of
             (indegree', ready') \<Rightarrow>
               order_loop nodes edges indegree' ready' (ordered @ [current])))"

definition order_as_written ::
  "('p::linorder, 'o) environment \<Rightarrow> 'p active_node list \<Rightarrow> package_image option \<Rightarrow>
   (error + 'p active_node list) option" where
  "order_as_written E nodes img =
     (case dependency_edges E nodes img of
        Inl e \<Rightarrow> Some (Inl e)
      | Inr (edges, indegree) \<Rightarrow>
          (let words = map of_nat indegree;
               ready = fold (insert_ready nodes) (filter (\<lambda>i. words ! i = 0) [0..<length nodes]) [] in
           case order_loop nodes edges words ready [] of
             None \<Rightarrow> None
           | Some ordered \<Rightarrow>
               Some (if length ordered \<noteq> length nodes
                 then Inl (Invalid_argument
                   ''application active-effect dependencies contain a cycle'')
                 else Inr (map ((!) nodes) ordered))))"

section \<open>No in-degree wraps around\<close>

definition size_words :: "nat list \<Rightarrow> size_word list" where
  "size_words = map of_nat"

lemma size_words_zero:
  assumes "k < 2 ^ 64"
  shows "of_nat k = (0 :: size_word) \<longleftrightarrow> k = 0"
  using assms by (auto simp: word_of_nat_eq_0_iff dest: nat_dvd_not_less)

lemma decrement_release:
  assumes "next < length ind" and "0 < ind ! next" and "ind ! next < 2 ^ 64"
  shows "decrement nodes next (size_words ind, ready) =
    (case release nodes next (ind, ready) of (ind', ready') \<Rightarrow> (size_words ind', ready'))"
proof -
  have one: "size_words ind ! next - 1 = (of_nat (ind ! next - 1) :: size_word)"
    using assms by (simp add: size_words_def of_nat_diff)
  have zero: "(of_nat (ind ! next - 1) = (0 :: size_word)) \<longleftrightarrow> ind ! next = 1"
    using assms size_words_zero [of "ind ! next - 1"] by auto
  show ?thesis
    unfolding decrement_def release_def Let_def prod.case one
    using assms zero by (auto simp: size_words_def map_update)
qed

lemma fold_decrement_release:
  assumes "distinct js" and "set js \<subseteq> {..<length ind}"
    and "\<And>j. j \<in> set js \<Longrightarrow> 0 < ind ! j \<and> ind ! j < 2 ^ 64"
  shows "fold (decrement nodes) js (size_words ind, ready) =
    (case fold (release nodes) js (ind, ready) of (ind', ready') \<Rightarrow> (size_words ind', ready'))"
  using assms
proof (induction js arbitrary: ind ready)
  case (Cons j js)
  obtain ind1 ready1 where one: "release nodes j (ind, ready) = (ind1, ready1)"
    by (cases "release nodes j (ind, ready)")
  have same: "length ind1 = length ind" "\<And>k. k \<noteq> j \<Longrightarrow> ind1 ! k = ind ! k"
    using one by (auto simp: release_def split: if_splits)
  have "j < length ind" "j \<notin> set js" using Cons.prems by auto
  then have "fold (decrement nodes) js (size_words ind1, ready1) =
    (case fold (release nodes) js (ind1, ready1) of (ind', ready') \<Rightarrow> (size_words ind', ready'))"
    using Cons.prems same by (intro Cons.IH) (auto, metis+)
  then show ?case
    using decrement_release [of j ind nodes ready] Cons.prems one by simp
qed simp

lemma kahn_inv_degrees:
  assumes "kahn_inv nodes edges ind (c # ready) ordered" and "j \<in> set (edges ! c)" and "j < length edges"
  shows "0 < ind ! j \<and> ind ! j \<le> length edges"
proof -
  have c: "c < length edges" "c \<notin> set ordered"
    and count: "ind ! j = card (predecessors edges j - set ordered)"
    using assms by (auto simp: kahn_inv_def)
  have "c \<in> predecessors edges j - set ordered"
    using c assms(2) by (simp add: predecessors_def)
  moreover have "card (predecessors edges j - set ordered) \<le> card {..<length edges}"
    by (rule card_mono) (auto simp: predecessors_def)
  ultimately show ?thesis using count by (auto simp: card_gt_0_iff)
qed

lemma order_loop_kahn:
  assumes "graph_ok (length edges) (edges, indegree)" and "length edges < 2 ^ 64"
    and "kahn_inv nodes edges ind ready ordered"
  shows "order_loop nodes edges (size_words ind) ready ordered =
    Some (kahn nodes edges ind ready ordered)"
  using assms
proof (induction nodes edges ind ready ordered rule: kahn.induct)
  case (1 nodes edges ind ordered)
  then show ?case by (simp add: order_loop.simps)
next
  case (2 nodes edges ind c ready ordered)
  obtain ind' ready' where run: "fold (release nodes) (edges ! c) (ind, ready) = (ind', ready')"
    by (cases "fold (release nodes) (edges ! c) (ind, ready)")
  have c: "c < length edges" and len: "length ind = length edges"
    using 2(4) by (auto simp: kahn_inv_def)
  have succ: "distinct (edges ! c)" "set (edges ! c) \<subseteq> {..<length edges}"
    using 2(2) c by (auto simp: graph_ok_def)
  have "fold (decrement nodes) (edges ! c) (size_words ind, ready) = (size_words ind', ready')"
    using fold_decrement_release [of "edges ! c" ind nodes ready] succ len run 2(3)
      kahn_inv_degrees [OF 2(4)] by (force simp: subset_iff)
  moreover have "kahn_inv nodes edges ind' ready' (ordered @ [c])"
    by (rule kahn_inv_step [OF 2(2) 2(4) run])
  from 2(1) [OF run [symmetric] refl 2(2,3) this]
  have "order_loop nodes edges (size_words ind') ready' (ordered @ [c]) =
    Some (kahn nodes edges ind' ready' (ordered @ [c]))" .
  ultimately show ?case using run by (subst order_loop.simps) simp
qed

lemma initial_degrees:
  assumes "graph_ok n (edges, ind)" and "j < n"
  shows "ind ! j \<le> n"
proof -
  have "card (predecessors edges j) \<le> card {..<n}"
    using assms by (intro card_mono) (auto simp: predecessors_def graph_ok_def)
  then show ?thesis using assms by (simp add: graph_ok_def)
qed

text \<open>
  C15: for any number of active nodes a \<open>std::size_t\<close> can count, the ordering loop ends, whatever the
  dependencies are, cycles included, and its result is that of the terminating function the
  schedule is built with: no in-degree is decremented below zero.
\<close>

theorem ordering_loop_terminates:
  assumes "length nodes < 2 ^ 64"
  shows "order_as_written E nodes img = Some (order_active_nodes E nodes img)"
proof (cases "dependency_edges E nodes img")
  case (Inl e)
  then show ?thesis by (simp add: order_as_written_def order_active_nodes_def)
next
  case (Inr g)
  obtain edges ind where g: "g = (edges, ind)" by (cases g)
  have ok: "graph_ok (length nodes) (edges, ind)"
    using dependency_edges_correct(1) [OF Inr] g by simp
  then have len: "length edges = length nodes" "length ind = length nodes" by (auto simp: graph_ok_def)
  have "ind ! i < 2 ^ 64" if "i < length nodes" for i
    using initial_degrees [OF ok that] assms by linarith
  then have start: "filter (\<lambda>i. map of_nat ind ! i = (0 :: size_word)) [0..<length nodes] =
      filter (\<lambda>i. ind ! i = 0) [0..<length nodes]"
    using len size_words_zero by (intro filter_cong) auto
  have "order_loop nodes edges (size_words ind)
      (fold (insert_ready nodes) (filter (\<lambda>i. ind ! i = 0) [0..<length nodes]) []) [] =
    Some (kahn nodes edges ind
      (fold (insert_ready nodes) (filter (\<lambda>i. ind ! i = 0) [0..<length nodes]) []) [])"
    using ok assms len kahn_inv_initial [OF ok] by (intro order_loop_kahn) simp_all
  then show ?thesis
    using Inr g start by (simp add: order_as_written_def order_active_nodes_def size_words_def Let_def)
qed

theorem ordering_loop_terminates_witness:
  "order_as_written sample_tree [sample_anchor, sample_link] (Some sample_image) =
     Some (Inl (Invalid_argument ''application active-effect dependencies contain a cycle''))"
  using ordering_loop_terminates
    [of "[sample_anchor, sample_link]" sample_tree "Some sample_image"]
  by (simp add: order_active_nodes_def sample_cycle upt_rec)

end
