(* ===== verification/Viewing.thy ===== *)
theory Viewing
  imports Applying
begin

text \<open>
  The restart view (\<open>restart_view.cpp\<close>, \<open>application_restart_view\<close> of restart.h): what a reopened
  journal says of the mechanisms already run.  The replay facts of the terminal steps are decoded and
  checked against their events, and kept in one slot per path or durability domain.
\<close>

section \<open>The view\<close>

text \<open>
  The classes \<open>application_restart_rejected_effect\<close>, \<open>_active_effect\<close> and \<open>_recovery_effect\<close> pair a path
  with a result; a restart capture is its capture result, a synchronization its durability fact.
\<close>

record ('p, 'r) restart_effect =
  restart_path :: 'p
  restart_result :: 'r

record ('p, 'o) restart_view =
  view_declaration :: digest
  view_attempt :: attempt
  view_admitted :: "'p observation_batch"
  view_payload :: "operation_result option"
  view_captures :: "'p capture_result list"
  view_rejected :: "('p, publication_result) restart_effect list"
  view_active :: "('p, operation_result) restart_effect list"
  view_recovery :: "('p, operation_result) restart_effect list"
  view_synchronizations :: "durability_fact list"
  view_durability :: durability_profile
  view_evidence :: "digest list"
  view_completed :: "('p, 'o) completed_evidence option"

definition restart_capture_path :: "'p capture_result \<Rightarrow> 'p" where
  "restart_capture_path c = observation_path (captured_observation c)"

definition find_restart_capture :: "('p::linorder, 'o) restart_view \<Rightarrow> 'p \<Rightarrow> 'p capture_result option" where
  "find_restart_capture v path = find_sorted restart_capture_path (view_captures v) path"

definition find_restart_rejected ::
  "('p::linorder, 'o) restart_view \<Rightarrow> 'p \<Rightarrow> publication_result option" where
  "find_restart_rejected v path = map_option restart_result (find_sorted restart_path (view_rejected v) path)"

definition find_restart_active ::
  "('p::linorder, 'o) restart_view \<Rightarrow> 'p \<Rightarrow> operation_result option" where
  "find_restart_active v path = map_option restart_result (find_sorted restart_path (view_active v) path)"

definition find_restart_recovery ::
  "('p::linorder, 'o) restart_view \<Rightarrow> 'p \<Rightarrow> operation_result option" where
  "find_restart_recovery v path = map_option restart_result (find_sorted restart_path (view_recovery v) path)"

definition find_restart_synchronization ::
  "('p, 'o) restart_view \<Rightarrow> durability_domain \<Rightarrow> durability_fact option" where
  "find_restart_synchronization v domain =
     find_sorted (\<lambda>f. durability_domain_tag (fact_domain f)) (view_synchronizations v)
       (durability_domain_tag domain)"

section \<open>Durability\<close>

fun durability_index :: "durability_domain \<Rightarrow> nat" where
  "durability_index Durable_journal = 0"
| "durability_index Durable_incoming_staging = 1"
| "durability_index Durable_recovery_staging = 2"
| "durability_index Durable_active_namespace = 3"
| "durability_index Durable_rejected_store = 4"
| "durability_index Durable_completed_evidence = 5"

definition durability_profile_of :: "durability_status list \<Rightarrow> error + durability_profile" where
  "durability_profile_of values =
     make_profile
       [\<lparr>fact_domain = Durable_journal, fact_status = values ! 0\<rparr>,
        \<lparr>fact_domain = Durable_incoming_staging, fact_status = values ! 1\<rparr>,
        \<lparr>fact_domain = Durable_recovery_staging, fact_status = values ! 2\<rparr>,
        \<lparr>fact_domain = Durable_active_namespace, fact_status = values ! 3\<rparr>,
        \<lparr>fact_domain = Durable_rejected_store, fact_status = values ! 4\<rparr>,
        \<lparr>fact_domain = Durable_completed_evidence, fact_status = values ! 5\<rparr>]"

text \<open>The set of identities already seen is the set of the target vector.\<close>

fun append_first_evidence :: "digest list \<Rightarrow> digest list \<Rightarrow> digest list" where
  "append_first_evidence target [] = target"
| "append_first_evidence target (i # is) =
     append_first_evidence (if i \<in> set target then target else target @ [i]) is"

section \<open>Paths of the plan\<close>

fun plan_path_ordinals_from ::
  "('p::linorder, 'o) environment \<Rightarrow> nat \<Rightarrow> 'p option \<Rightarrow> (bytes \<rightharpoonup> nat) \<Rightarrow> 'p list \<Rightarrow>
   error + (bytes \<rightharpoonup> nat)" where
  "plan_path_ordinals_from E ordinal previous index [] = Inr index"
| "plan_path_ordinals_from E ordinal previous index (path # paths) =
     (if (case previous of None \<Rightarrow> False | Some q \<Rightarrow> \<not> q < path)
      then Inl (Invalid_argument ''application plan replay paths are not in canonical order'')
      else if index (path_string E path) \<noteq> None
      then Inl (Invalid_argument ''application plan repeats a replay path'')
      else plan_path_ordinals_from E (Suc ordinal) (Some path) (index(path_string E path \<mapsto> ordinal)) paths)"

definition plan_path_ordinals ::
  "('p::linorder, 'o) environment \<Rightarrow> ('p, 'o) operation_plan \<Rightarrow> error + (bytes \<rightharpoonup> nat)" where
  "plan_path_ordinals E plan =
     plan_path_ordinals_from E 0 None (\<lambda>_. None) (map decision_path (plan_paths plan))"

definition path_ordinal ::
  "('p, 'o) environment \<Rightarrow> (bytes \<rightharpoonup> nat) \<Rightarrow> 'p \<Rightarrow> error + nat" where
  "path_ordinal E index path =
     (case index (path_string E path) of
        None \<Rightarrow> Inl (Invalid_argument ''application replay fact cites an unplanned path'')
      | Some ordinal \<Rightarrow> Inr ordinal)"

definition index_capture ::
  "('p, 'o) environment \<Rightarrow> (bytes \<rightharpoonup> nat) \<Rightarrow> 'p capture_request \<Rightarrow> 'p capture_request option list \<Rightarrow>
   error + 'p capture_request option list" where
  "index_capture E index capture slots =
     rbind (path_ordinal E index (capture_path capture)) (\<lambda>ordinal.
     if slots ! ordinal \<noteq> None
     then Inl (Logic_error ''application capture plan repeats a path'')
     else Inr (slots[ordinal := Some capture]))"

text \<open>\<open>retain_path_fact\<close> and \<open>materialize_path_slots\<close>.\<close>

definition retain_path_fact :: "'v option list \<Rightarrow> nat \<Rightarrow> 'v \<Rightarrow> string \<Rightarrow> error + 'v option list" where
  "retain_path_fact slots ordinal v duplicate =
     (if slots ! ordinal \<noteq> None then Inl (Invalid_argument duplicate)
      else Inr (slots[ordinal := Some v]))"

definition materialize_path_slots :: "'v option list \<Rightarrow> 'v list" where
  "materialize_path_slots slots = List.map_filter id slots"

section \<open>Events of facts\<close>

fun replayed_event :: "operation_outcome \<Rightarrow> error + event_kind" where
  "replayed_event Outcome_completed = Inr Completed"
| "replayed_event Outcome_failed = Inr Failed"
| "replayed_event Outcome_indeterminate = Inr Indeterminate_event"
| "replayed_event Outcome_conditional_retained =
     Inl (Invalid_argument ''conditional retained outcome is not valid for this replay fact'')"

definition replayed_active_event :: "operation_outcome \<Rightarrow> error + event_kind" where
  "replayed_active_event outcome =
     (if outcome = Outcome_conditional_retained then Inr Completed else replayed_event outcome)"

fun replayed_durability_event :: "durability_status \<Rightarrow> error + event_kind" where
  "replayed_durability_event Durability_confirmed = Inr Completed"
| "replayed_durability_event Durability_visible = Inr Failed"
| "replayed_durability_event Durability_unconfirmed = Inr Failed"
| "replayed_durability_event Durability_indeterminate = Inr Indeterminate_event"
| "replayed_durability_event Durability_not_attempted =
     Inl (Invalid_argument ''replay synchronization fact is not attempted'')"

fun synchronization_domain :: "effect_kind \<Rightarrow> error + durability_domain" where
  "synchronization_domain Synchronize_incoming_staging = Inr Durable_incoming_staging"
| "synchronization_domain Synchronize_recovery_staging = Inr Durable_recovery_staging"
| "synchronization_domain Synchronize_active_namespace = Inr Durable_active_namespace"
| "synchronization_domain Synchronize_recovered_namespace = Inr Durable_active_namespace"
| "synchronization_domain Synchronize_rejected_store = Inr Durable_rejected_store"
| "synchronization_domain Synchronize_completed_evidence = Inr Durable_completed_evidence"
| "synchronization_domain _ = Inl (Invalid_argument
     ''application replay synchronization fact names a non-synchronization effect'')"

definition active_result_changed_target :: "('p, 'o) path_decision \<Rightarrow> operation_result \<Rightarrow> bool" where
  "active_result_changed_target decision result =
     (if operation_outcome result \<noteq> Outcome_completed then False
      else case decision_active decision of
        Activate_incoming \<Rightarrow> True | Remove_observed \<Rightarrow> True | Remove_directory_if_empty \<Rightarrow> True
      | Retain_observed \<Rightarrow> False | Remain_absent \<Rightarrow> False)"

section \<open>One retained fact\<close>

text \<open>The local variables of \<open>build_view\<close> that its loop over the steps fills in.\<close>

record ('p, 'o) view_slots =
  slot_payload :: "operation_result option"
  slot_captures :: "'p capture_result option list"
  slot_rejected :: "('p, publication_result) restart_effect option list"
  slot_active :: "('p, operation_result) restart_effect option list"
  slot_recovery :: "('p, operation_result) restart_effect option list"
  slot_synchronizations :: "durability_fact option list"
  slot_durability :: "durability_status list"
  slot_evidence :: "digest list"
  slot_completed :: "('p, 'o) completed_evidence option"

definition set_durability ::
  "durability_domain \<Rightarrow> durability_status \<Rightarrow> ('p, 'o) view_slots \<Rightarrow> ('p, 'o) view_slots" where
  "set_durability domain status v =
     v\<lparr>slot_durability := (slot_durability v)[durability_index domain := status]\<rparr>"

text \<open>The status a publication or recovery leaves in its domain; a failure leaves the one before.\<close>

definition set_outcome_durability ::
  "durability_domain \<Rightarrow> operation_outcome \<Rightarrow> ('p, 'o) view_slots \<Rightarrow> ('p, 'o) view_slots" where
  "set_outcome_durability domain outcome v =
     (if outcome = Outcome_completed then set_durability domain Durability_visible v
      else if outcome = Outcome_indeterminate then set_durability domain Durability_indeterminate v
      else v)"

definition staged_status :: "operation_outcome \<Rightarrow> durability_status" where
  "staged_status outcome =
     (if outcome = Outcome_completed then Durability_visible else Durability_indeterminate)"

definition retain_payload ::
  "journal_event \<Rightarrow> ('p, 'o) replay_fact \<Rightarrow> ('p, 'o) view_slots \<Rightarrow> error + ('p, 'o) view_slots" where
  "retain_payload event decoded v =
     (case decoded of
        Fact_payload result \<Rightarrow>
          rbind (replayed_event (operation_outcome result)) (\<lambda>kind.
          if event_kind event \<noteq> kind \<or> event_evidence event \<noteq> operation_evidence result
          then Inl (Invalid_argument
            ''incoming staging replay fact contradicts its terminal event'')
          else if (case slot_payload v of None \<Rightarrow> False | Some p \<Rightarrow>
             operation_outcome p \<noteq> operation_outcome result \<or>
             operation_evidence p \<noteq> operation_evidence result)
          then Inl (Invalid_argument ''incoming staging effects retain conflicting replay facts'')
          else Inr (set_durability Durable_incoming_staging (staged_status (operation_outcome result))
            (v\<lparr>slot_payload := Some result\<rparr>)))
      | _ \<Rightarrow> Inl (Invalid_argument ''incoming staging step has another replay fact type''))"

text \<open>A completed capture that cannot be restored exactly counts as failed when exactness is required.\<close>

definition replayed_capture_outcome ::
  "execution_control \<Rightarrow> 'p capture_request \<Rightarrow> 'p capture_result \<Rightarrow> operation_outcome" where
  "replayed_capture_outcome control request result =
     (if capture_outcome result = Outcome_completed \<and> for_recovery request \<and>
         control_recovery control = Recovery_exact \<and> \<not> exact_recovery_possible result
      then Outcome_failed else capture_outcome result)"

definition retain_capture ::
  "('p, 'o) environment \<Rightarrow> execution_control \<Rightarrow> (bytes \<rightharpoonup> nat) \<Rightarrow> 'p capture_request option list \<Rightarrow>
   'p journal_effect \<Rightarrow> journal_event \<Rightarrow> ('p, 'o) replay_fact \<Rightarrow> ('p, 'o) view_slots \<Rightarrow>
   error + ('p, 'o) view_slots" where
  "retain_capture E control index requests eff event decoded v =
     (case decoded of
        Fact_capture result \<Rightarrow>
          if effect_path eff \<noteq> Some (restart_capture_path result) \<or>
             event_evidence event \<noteq> capture_evidence result
          then Inl (Invalid_argument ''capture replay fact contradicts its journal effect'')
          else if capture_outcome result = Outcome_conditional_retained
          then Inl (Invalid_argument ''capture replay fact is conditional'')
          else
            rbind (path_ordinal E index (restart_capture_path result)) (\<lambda>ordinal.
            case requests ! ordinal of
              None \<Rightarrow> Inl (Invalid_argument ''capture replay fact cites an unplanned capture'')
            | Some request \<Rightarrow>
                rbind (replayed_event (replayed_capture_outcome control request result)) (\<lambda>kind.
                if event_kind event \<noteq> kind
                then Inl (Invalid_argument ''capture replay fact contradicts its terminal event'')
                else
                  rbind (retain_path_fact (slot_captures v) ordinal result
                    ''duplicate application replay capture path'') (\<lambda>captures.
                  Inr (set_durability Durable_recovery_staging (staged_status (capture_outcome result))
                    (v\<lparr>slot_captures := captures\<rparr>)))))
      | _ \<Rightarrow> Inl (Invalid_argument ''capture step has another replay fact type''))"

definition retain_rejected ::
  "('p, 'o) environment \<Rightarrow> (bytes \<rightharpoonup> nat) \<Rightarrow> 'p journal_effect \<Rightarrow> journal_event \<Rightarrow>
   ('p, 'o) replay_fact \<Rightarrow> ('p, 'o) view_slots \<Rightarrow> error + ('p, 'o) view_slots" where
  "retain_rejected E index eff event decoded v =
     (case decoded of
        Fact_rejected path result \<Rightarrow>
          if effect_path eff \<noteq> Some path
          then Inl (Invalid_argument ''rejected replay fact contradicts its terminal event'')
          else
            rbind (replayed_event (publication_outcome result)) (\<lambda>kind.
            if event_kind event \<noteq> kind \<or> event_evidence event \<noteq> publication_evidence result
            then Inl (Invalid_argument ''rejected replay fact contradicts its terminal event'')
            else
              rbind (path_ordinal E index path) (\<lambda>ordinal.
              rbind (retain_path_fact (slot_rejected v) ordinal
                \<lparr>restart_path = path, restart_result = result\<rparr>
                ''duplicate application replay rejected path'') (\<lambda>slots.
              Inr (set_outcome_durability Durable_rejected_store (publication_outcome result)
                (v\<lparr>slot_rejected := slots\<rparr>)))))
      | _ \<Rightarrow> Inl (Invalid_argument ''rejected step has another replay fact type''))"

definition retain_active ::
  "('p, 'o) environment \<Rightarrow> ('p, 'o) operation_plan \<Rightarrow> (bytes \<rightharpoonup> nat) \<Rightarrow> 'p journal_effect \<Rightarrow>
   journal_event \<Rightarrow> ('p, 'o) replay_fact \<Rightarrow> ('p, 'o) view_slots \<Rightarrow> error + ('p, 'o) view_slots" where
  "retain_active E plan index eff event decoded v =
     (case decoded of
        Fact_active path result \<Rightarrow>
          if effect_path eff \<noteq> Some path
          then Inl (Invalid_argument ''active replay fact contradicts its terminal event'')
          else
            rbind (replayed_active_event (operation_outcome result)) (\<lambda>kind.
            if event_kind event \<noteq> kind \<or> event_evidence event \<noteq> operation_evidence result
            then Inl (Invalid_argument ''active replay fact contradicts its terminal event'')
            else
              rbind (path_ordinal E index path) (\<lambda>ordinal.
              rbind (retain_path_fact (slot_active v) ordinal
                \<lparr>restart_path = path, restart_result = result\<rparr>
                ''duplicate application replay active path'') (\<lambda>slots.
              let v = v\<lparr>slot_active := slots\<rparr>;
                  v = (if active_result_changed_target (plan_paths plan ! ordinal) result
                       then set_durability Durable_active_namespace Durability_visible v else v);
                  v = (if operation_outcome result = Outcome_indeterminate
                       then set_durability Durable_active_namespace Durability_indeterminate v else v) in
              Inr v)))
      | _ \<Rightarrow> Inl (Invalid_argument ''active step has another replay fact type''))"

definition retain_recovery ::
  "('p, 'o) environment \<Rightarrow> (bytes \<rightharpoonup> nat) \<Rightarrow> 'p journal_effect \<Rightarrow> journal_event \<Rightarrow>
   ('p, 'o) replay_fact \<Rightarrow> ('p, 'o) view_slots \<Rightarrow> error + ('p, 'o) view_slots" where
  "retain_recovery E index eff event decoded v =
     (case decoded of
        Fact_recovery path result \<Rightarrow>
          if effect_path eff \<noteq> Some path
          then Inl (Invalid_argument ''recovery replay fact contradicts its terminal event'')
          else
            rbind (replayed_event (operation_outcome result)) (\<lambda>kind.
            if event_kind event \<noteq> kind \<or> event_evidence event \<noteq> operation_evidence result
            then Inl (Invalid_argument ''recovery replay fact contradicts its terminal event'')
            else
              rbind (path_ordinal E index path) (\<lambda>ordinal.
              rbind (retain_path_fact (slot_recovery v) ordinal
                \<lparr>restart_path = path, restart_result = result\<rparr>
                ''duplicate application replay recovery path'') (\<lambda>slots.
              Inr (set_outcome_durability Durable_active_namespace (operation_outcome result)
                (v\<lparr>slot_recovery := slots\<rparr>)))))
      | _ \<Rightarrow> Inl (Invalid_argument ''recovery step has another replay fact type''))"

definition retain_synchronization ::
  "'p journal_effect \<Rightarrow> journal_event \<Rightarrow> ('p, 'o) replay_fact \<Rightarrow> ('p, 'o) view_slots \<Rightarrow>
   error + ('p, 'o) view_slots" where
  "retain_synchronization eff event decoded v =
     (case decoded of
        Fact_synchronization result \<Rightarrow>
          rbind (synchronization_domain (effect_kind eff)) (\<lambda>domain.
          if fact_domain result \<noteq> domain
          then Inl (Invalid_argument ''synchronization replay fact contradicts its terminal event'')
          else
            rbind (replayed_durability_event (fact_status result)) (\<lambda>kind.
            if event_kind event \<noteq> kind \<or> event_evidence event \<noteq> []
            then Inl (Invalid_argument
              ''synchronization replay fact contradicts its terminal event'')
            else Inr (set_durability domain (fact_status result)
              (v\<lparr>slot_synchronizations :=
                 (slot_synchronizations v)[durability_index domain := Some result]\<rparr>))))
      | _ \<Rightarrow> Inl (Invalid_argument ''synchronization step has another replay fact type''))"

definition retain_evidence ::
  "('p, 'o) application_request \<Rightarrow> ('p, 'o) journal_header \<Rightarrow> journal_event \<Rightarrow>
   ('p, 'o) replay_fact \<Rightarrow> ('p, 'o) view_slots \<Rightarrow> error + ('p, 'o) view_slots" where
  "retain_evidence request header event decoded v =
     (case decoded of
        Fact_evidence evidence \<Rightarrow>
          if event_kind event \<noteq> Completed \<or> evidence_request evidence \<noteq> request_identity request \<or>
             evidence_plan evidence \<noteq> plan_identity (request_plan request) \<or>
             evidence_attempt evidence \<noteq> attempt_identity (header_attempt header) \<or>
             evidence_target evidence \<noteq> context_identity (request_target request) \<or>
             evidence_control evidence \<noteq> control_identity (request_control request) \<or>
             evidence_journal evidence \<noteq> header_identity header
          then Inl (Invalid_argument
            ''completed-evidence replay fact belongs to another authority'')
          else if (case slot_completed v of None \<Rightarrow> False | Some retained \<Rightarrow>
             evidence_identity retained \<noteq> evidence_identity evidence)
          then Inl (Invalid_argument ''application replay has conflicting completed evidence'')
          else Inr (set_durability Durable_completed_evidence Durability_visible
            (v\<lparr>slot_completed := Some evidence\<rparr>))
      | _ \<Rightarrow> Inl (Invalid_argument ''completed-evidence step has another replay fact type''))"

section \<open>The loop over the steps\<close>

text \<open>
  A decoding failure is a \<open>replay_codec_error\<close>, which derives from \<open>std::invalid_argument\<close>.  The model
  keeps its code; here it becomes the invalid argument with the message the code has most often.
\<close>

fun codec_message :: "codec_error_code \<Rightarrow> string" where
  "codec_message Invalid_magic = ''application replay fact encoding has invalid magic''"
| "codec_message Codec_unsupported_version =
     ''application replay fact encoding version is unsupported''"
| "codec_message Codec_truncated = ''application replay fact encoding is truncated''"
| "codec_message Invalid_value = ''application replay fact contains an invalid value''"
| "codec_message Limit_exceeded = ''application replay fact encoding exceeds the size limit''"
| "codec_message Trailing_data = ''application replay fact encoding contains trailing data''"
| "codec_message Identity_mismatch =
     ''completed evidence identity does not match replay fact content''"
| "codec_message Request_mismatch =
     ''completed evidence path universe differs from the immutable plan''"
| "codec_message _ = ''application replay fact encoding is invalid''"

definition require_decoded :: "codec_error + 'v \<Rightarrow> error + 'v" where
  "require_decoded r =
     (case r of
        Inl (Codec_error code) \<Rightarrow> Inl (Invalid_argument (codec_message code))
      | Inl (Codec_value e) \<Rightarrow> Inl e
      | Inl (Codec_digest code) \<Rightarrow> Inl (Invalid_argument (codec_message Invalid_value))
      | Inr v \<Rightarrow> Inr v)"

text \<open>The terminal events that may carry no fact.\<close>

definition factless :: "effect_kind \<Rightarrow> event_kind \<Rightarrow> bool" where
  "factless kind event \<longleftrightarrow> kind = Observe_result \<or> kind = Seal_receipt \<or>
     kind = Publish_completed_evidence \<and> event \<noteq> Completed"

definition retain_fact ::
  "('p, 'o) environment \<Rightarrow> ('p, 'o) application_request \<Rightarrow> ('p, 'o) journal_header \<Rightarrow>
   (bytes \<rightharpoonup> nat) \<Rightarrow> 'p capture_request option list \<Rightarrow> 'p journal_effect \<Rightarrow> journal_event \<Rightarrow>
   ('p, 'o) replay_fact \<Rightarrow> ('p, 'o) view_slots \<Rightarrow> error + ('p, 'o) view_slots" where
  "retain_fact E request header index requests eff event decoded v =
     (case effect_kind eff of
        Stage_incoming_payload \<Rightarrow> retain_payload event decoded v
      | Capture_old_object \<Rightarrow>
          retain_capture E (request_control request) index requests eff event decoded v
      | Publish_rejected_object \<Rightarrow> retain_rejected E index eff event decoded v
      | Publish_active_object \<Rightarrow> retain_active E (request_plan request) index eff event decoded v
      | Recover_active_object \<Rightarrow> retain_recovery E index eff event decoded v
      | Synchronize_incoming_staging \<Rightarrow> retain_synchronization eff event decoded v
      | Synchronize_recovery_staging \<Rightarrow> retain_synchronization eff event decoded v
      | Synchronize_active_namespace \<Rightarrow> retain_synchronization eff event decoded v
      | Synchronize_recovered_namespace \<Rightarrow> retain_synchronization eff event decoded v
      | Synchronize_rejected_store \<Rightarrow> retain_synchronization eff event decoded v
      | Synchronize_completed_evidence \<Rightarrow> retain_synchronization eff event decoded v
      | Publish_completed_evidence \<Rightarrow> retain_evidence request header event decoded v
      | Observe_result \<Rightarrow> Inl (Invalid_argument
          ''non-mechanism application step carries a replay fact'')
      | Seal_receipt \<Rightarrow> Inl (Invalid_argument
          ''non-mechanism application step carries a replay fact''))"

definition retain_step ::
  "('p::linorder, 'o) environment \<Rightarrow> ('p, 'o) history \<Rightarrow> ('p, 'o) application_request \<Rightarrow>
   (bytes \<rightharpoonup> nat) \<Rightarrow> 'p capture_request option list \<Rightarrow> journal_step \<Rightarrow> ('p, 'o) view_slots \<Rightarrow>
   error + ('p, 'o) view_slots" where
  "retain_step E h request index requests step v =
     (case step_event step of
        None \<Rightarrow> Inr v
      | Some event \<Rightarrow>
          if event_kind event = Intent then Inr v
          else
            rbind (history_effect h (event_effect event)) (\<lambda>eff.
            let v = v\<lparr>slot_evidence := append_first_evidence (slot_evidence v) (event_evidence event)\<rparr> in
            if step_fact step = []
            then (if factless (effect_kind eff) (event_kind event) then Inr v
                  else Inl (Invalid_argument
                    ''terminal application journal step lacks its replay fact''))
            else
              rbind (require_decoded (decode_replay_fact E request (step_fact step))) (\<lambda>decoded.
              retain_fact E request (declaration_header (history_declaration h)) index requests
                eff event decoded v)))"

definition initial_slots :: "nat \<Rightarrow> digest list \<Rightarrow> ('p, 'o) view_slots" where
  "initial_slots number evidence =
     \<lparr>slot_payload = None, slot_captures = replicate number None, slot_rejected = replicate number None,
      slot_active = replicate number None, slot_recovery = replicate number None,
      slot_synchronizations = replicate 6 None,
      slot_durability = Durability_confirmed # replicate 5 Durability_not_attempted,
      slot_evidence = append_first_evidence [] evidence, slot_completed = None\<rparr>"

definition view_of_slots ::
  "('p, 'o) history \<Rightarrow> 'p observation_batch \<Rightarrow> ('p, 'o) view_slots \<Rightarrow> error + ('p, 'o) restart_view" where
  "view_of_slots h admitted v =
     rbind (durability_profile_of (slot_durability v)) (\<lambda>durability.
     Inr \<lparr>view_declaration = declaration_identity (history_declaration h),
          view_attempt = header_attempt (declaration_header (history_declaration h)),
          view_admitted = admitted, view_payload = slot_payload v,
          view_captures = materialize_path_slots (slot_captures v),
          view_rejected = materialize_path_slots (slot_rejected v),
          view_active = materialize_path_slots (slot_active v),
          view_recovery = materialize_path_slots (slot_recovery v),
          view_synchronizations = materialize_path_slots (slot_synchronizations v),
          view_durability = durability,
          view_evidence = (case slot_completed v of None \<Rightarrow> slot_evidence v
            | Some e \<Rightarrow> append_first_evidence (slot_evidence v) (evidence_backend e)),
          view_completed = slot_completed v\<rparr>)"

definition build_view ::
  "('p::linorder, 'o) environment \<Rightarrow> ('p, 'o) history \<Rightarrow> ('p, 'o) application_request \<Rightarrow>
   error + ('p, 'o) restart_view" where
  "build_view E h request =
     (let plan = request_plan request; number = length (plan_paths plan) in
      rbind (require_decoded (decode_replay_seed E (declaration_seed (history_declaration h))))
        (\<lambda>admitted.
      rbind (make_check (plan_preconditions plan) admitted) (\<lambda>check.
      if \<not> satisfied check
      then Inl (Invalid_argument
        ''application journal replay seed does not contain admitted preconditions'')
      else
        rbind (prepare_captures plan (request_control request)) (\<lambda>captures.
        rbind (plan_path_ordinals E plan) (\<lambda>index.
        rbind (rfold (index_capture E index) (capture_requests captures) (replicate number None))
          (\<lambda>requests.
        rbind (rfold (retain_step E h request index requests) (history_steps h)
                (initial_slots number (batch_evidence admitted))) (\<lambda>v.
        view_of_slots h admitted v)))))))"

end
