(* ===== verification/Reopening.thy ===== *)
theory Reopening
  imports Viewing
begin

text \<open>
  Reopening a durable application (\<open>reopen_application_engine\<close>, \<open>finish_restart\<close>,
  \<open>rebuild_restart_application\<close> of application_engine.cpp): the journal is loaded and bound to the
  request, the backend reopens its transaction from the restart view, the attempt is reproduced, and
  the journaled application is derived again from the plan and compared with the declared effects.
\<close>

section \<open>The reopened application\<close>

record ('p, 'o) reopened_application =
  reopening_attempt :: attempt
  reopening_assessment :: restart_assessment
  reopening_history :: "('p, 'o) history"
  reopening_view :: "('p, 'o) restart_view"

text \<open>The transaction and the store are those of the engine; a missing transaction was refused before.\<close>

definition make_reopened ::
  "('p, 'o) environment \<Rightarrow> ('p, 'o) reopened_application \<Rightarrow> error + ('p, 'o) reopened_application" where
  "make_reopened E r =
     (let h = reopening_history r; view = reopening_view r in
      if \<not> resumable (reopening_assessment r)
      then Inl (Invalid_argument ''reopened application journal is not resumable'')
      else
        rbind (history_snapshot E h) (\<lambda>journal.
        if assessment_journal (reopening_assessment r) \<noteq> record_identity journal
        then Inl (Invalid_argument ''restart assessment names another journal'')
        else if attempt_identity (reopening_attempt r) \<noteq>
                  attempt_identity (header_attempt (declaration_header (history_declaration h))) \<or>
                attempt_identity (view_attempt view) \<noteq> attempt_identity (reopening_attempt r)
        then Inl (Invalid_argument ''reopened application names another attempt'')
        else if view_declaration view \<noteq> declaration_identity (history_declaration h)
        then Inl (Invalid_argument ''restart view names another declaration'')
        else Inr r))"

text \<open>The restart and admission errors derive from \<open>std::invalid_argument\<close>.\<close>

definition require_restart :: "'p restart_error + 'v \<Rightarrow> error + 'v" where
  "require_restart r =
     (case r of
        Inl (Restart_refused code message) \<Rightarrow> Inl (Invalid_argument message)
      | Inl (Restart_admission e) \<Rightarrow> require_admission (Inl e)
      | Inl (Restart_broken e) \<Rightarrow> Inl e
      | Inr v \<Rightarrow> Inr v)"

definition finish_restart ::
  "('p::linorder, 'o) environment \<Rightarrow> ('p, 'o) application_request \<Rightarrow> ('p, 'o) state_projection \<Rightarrow>
   mutation_lease \<Rightarrow> mutation_backend \<Rightarrow> ('p, 'o) history \<Rightarrow> ('p, 'o) restart_view \<Rightarrow>
   backend_transaction option \<Rightarrow> error + ('p, 'o) reopened_application" where
  "finish_restart E request state lease backend h view transaction =
     rbind (history_snapshot E h) (\<lambda>journal.
     case transaction of
       None \<Rightarrow> Inl (Logic_error ''application backend returned no reopened transaction'')
     | Some tx \<Rightarrow>
         rbind (require_restart (reopened_attempt E request state lease backend journal
           (view_attempt view) tx)) (\<lambda>attempt.
         rbind (assess_restart journal) (\<lambda>assessment.
         make_reopened E \<lparr>reopening_attempt = attempt, reopening_assessment = assessment,
           reopening_history = h, reopening_view = view\<rparr>)))"

text \<open>
  The backend's \<open>resume_with_incoming_image\<close> and \<open>resume_without_incoming_image\<close> are the argument
  \<open>resume_transaction\<close>; its checks are done through the values of \<open>backend_transaction\<close>.
\<close>

definition reopen_incoming ::
  "('s, 'p::linorder, 'o, 'sel) engine \<Rightarrow> ('p, 'o) application_request \<Rightarrow> incoming_authority \<Rightarrow>
   ('p, 'o) state_projection \<Rightarrow> mutation_lease \<Rightarrow> mutation_backend \<Rightarrow>
   (('p, 'o) restart_view \<Rightarrow> ('s, backend_transaction option) io) \<Rightarrow> digest \<Rightarrow> package_archive \<Rightarrow>
   ('s, ('p, 'o) reopened_application) io" where
  "reopen_incoming W request incoming state lease backend resume_transaction declaration archive =
     (let E = engine_environment W in
      io_bind (load_history E (engine_store W) declaration) (\<lambda>h.
      io_bind (io_lift (history_snapshot E h)) (\<lambda>journal.
      io_bind (io_lift (require_restart
        (validate_incoming_restart E request incoming state lease backend journal archive))) (\<lambda>_.
      io_bind (io_lift (build_view E h request)) (\<lambda>view.
      io_bind (resume_transaction view) (\<lambda>transaction.
      io_lift (finish_restart E request state lease backend h view transaction)))))))"

definition reopen_removal ::
  "('s, 'p::linorder, 'o, 'sel) engine \<Rightarrow> ('p, 'o) application_request \<Rightarrow>
   ('p, 'o) state_projection \<Rightarrow> mutation_lease \<Rightarrow> mutation_backend \<Rightarrow>
   (('p, 'o) restart_view \<Rightarrow> ('s, backend_transaction option) io) \<Rightarrow> digest \<Rightarrow>
   ('s, ('p, 'o) reopened_application) io" where
  "reopen_removal W request state lease backend resume_transaction declaration =
     (let E = engine_environment W in
      io_bind (load_history E (engine_store W) declaration) (\<lambda>h.
      io_bind (io_lift (history_snapshot E h)) (\<lambda>journal.
      io_bind (io_lift (require_restart
        (validate_removal_restart request state lease backend journal))) (\<lambda>_.
      io_bind (io_lift (build_view E h request)) (\<lambda>view.
      io_bind (resume_transaction view) (\<lambda>transaction.
      io_lift (finish_restart E request state lease backend h view transaction)))))))"

section \<open>The journaled application, derived again\<close>

definition validate_restart_effect_graph ::
  "('s, 'p, 'o, 'sel) engine \<Rightarrow> ('p, 'o) application_request \<Rightarrow> ('p, 'o, 'sel) journaled_application \<Rightarrow>
   bool \<Rightarrow> bool \<Rightarrow> bool \<Rightarrow> error + unit" where
  "validate_restart_effect_graph W request a has_recovery has_active has_rejected =
     rbind (journal_effects (engine_environment W) (journaled_schedule a) (has_payloads W a)
       has_recovery has_active has_rejected
       (control_durability (request_control request) = All_application_domains)) (\<lambda>expected.
     if length expected \<noteq> length (history_effects (journaled_history a))
     then Inl (Logic_error ''restart journal effect graph size changed'')
     else if map effect_identity expected \<noteq> map effect_identity (history_effects (journaled_history a))
     then Inl (Logic_error ''restart journal effect graph changed'')
     else Inr ())"

definition rebuild_journaled ::
  "('s, 'p::linorder, 'o, 'sel) engine \<Rightarrow> ('p, 'o) reopened_application \<Rightarrow>
   ('p, 'o) application_request \<Rightarrow> ('p, 'o) state_projection \<Rightarrow> mutation_lease \<Rightarrow>
   'p precondition_check \<Rightarrow> ('p, 'sel) payload_plan option \<Rightarrow> 'p capture_plan \<Rightarrow> 'p effect_step list \<Rightarrow>
   error + ('p, 'o, 'sel) journaled_application" where
  "rebuild_journaled W r request state lease check payloads captures schedule =
     rbind (make_admitted (reopening_attempt r) check) (\<lambda>admitted.
     rbind (make_journaled (engine_environment W)
       \<lparr>journaled_attempt = admitted_attempt admitted,
        journaled_preconditions = admitted_preconditions admitted,
        journaled_payloads = payloads, journaled_captures = captures,
        journaled_schedule = schedule, journaled_history = reopening_history r,
        journaled_projection = projection_identity state,
        journaled_lease = lease_identity lease\<rparr>) (\<lambda>a.
     rbind (validate_restart_effect_graph W request a (capture_requests captures \<noteq> [])
       (has_active_effect (request_plan request)) (has_rejected_effect (request_plan request))) (\<lambda>_.
     Inr a)))"

text \<open>The admitted preconditions come from the seed of the declaration.\<close>

definition readmitted_check ::
  "('p::linorder, 'o) environment \<Rightarrow> ('p, 'o) reopened_application \<Rightarrow> ('p, 'o) application_request \<Rightarrow>
   error + 'p precondition_check" where
  "readmitted_check E r request =
     rbind (require_decoded (decode_replay_seed E
       (declaration_seed (history_declaration (reopening_history r))))) (\<lambda>admitted.
     rbind (make_check (plan_preconditions (request_plan request)) admitted) (\<lambda>check.
     if \<not> satisfied check
     then Inl (Logic_error ''journal declaration does not contain admitted preconditions'')
     else Inr check))"

definition rebuild_incoming ::
  "('s, 'p::linorder, 'o, 'sel) engine \<Rightarrow> ('p, 'o) reopened_application \<Rightarrow>
   ('p, 'o) application_request \<Rightarrow> ('p, 'o) state_projection \<Rightarrow> mutation_lease \<Rightarrow> package_image \<Rightarrow>
   error + ('p, 'o, 'sel) journaled_application" where
  "rebuild_incoming W r request state lease img =
     (let E = engine_environment W; plan = request_plan request in
      rbind (readmitted_check E r request) (\<lambda>check.
      rbind (prepare_captures plan (request_control request)) (\<lambda>captures.
      rbind (prepare_payloads E (selection_from_ids W) plan img) (\<lambda>payloads.
      rbind (prepare_schedule E plan (Some img) (Some payloads) captures) (\<lambda>schedule.
      rebuild_journaled W r request state lease check (Some payloads) captures schedule)))))"

definition rebuild_removal ::
  "('s, 'p::linorder, 'o, 'sel) engine \<Rightarrow> ('p, 'o) reopened_application \<Rightarrow>
   ('p, 'o) application_request \<Rightarrow> ('p, 'o) state_projection \<Rightarrow> mutation_lease \<Rightarrow>
   error + ('p, 'o, 'sel) journaled_application" where
  "rebuild_removal W r request state lease =
     (let E = engine_environment W; plan = request_plan request in
      rbind (readmitted_check E r request) (\<lambda>check.
      rbind (prepare_captures plan (request_control request)) (\<lambda>captures.
      rbind (prepare_schedule E plan None (None :: ('p, 'sel) payload_plan option) captures) (\<lambda>schedule.
      rebuild_journaled W r request state lease check None captures schedule))))"

section \<open>Progress of an effect\<close>

fun resume_scan ::
  "'p journal_effect list \<Rightarrow> effect_progress list \<Rightarrow> journal_event list \<Rightarrow>
   error + effect_progress list" where
  "resume_scan effects cells [] = Inr cells"
| "resume_scan effects cells (e # es) =
     (case find (\<lambda>c. effect_identity c = event_effect e) effects of
        None \<Rightarrow> Inl (Logic_error ''validated restart journal lost an effect'')
      | Some c \<Rightarrow>
          let i = unat (effect_ordinal c) in
          resume_scan effects
            (cells[i := if event_kind e = Intent then (cells ! i)\<lparr>intended := True\<rparr>
                        else (cells ! i)\<lparr>terminal := Some (event_kind e)\<rparr>]) es)"

definition resume_progress :: "('p, 'o, 'sel) journaled_application \<Rightarrow> error + effect_progress list" where
  "resume_progress a =
     (let effects = history_effects (journaled_history a) in
      resume_scan effects (replicate (length effects) fresh_progress)
        (history_events (journaled_history a)))"

definition resume_progress_for ::
  "('p, 'o, 'sel) journaled_application \<Rightarrow> digest \<Rightarrow> error + effect_progress" where
  "resume_progress_for a eff =
     rbind (resume_progress a) (\<lambda>cells.
     case find (\<lambda>c. effect_identity c = eff) (history_effects (journaled_history a)) of
       None \<Rightarrow> Inl (Logic_error ''restart journal lost an effect identity'')
     | Some c \<Rightarrow>
         if length cells \<le> unat (effect_ordinal c)
         then Inl (Logic_error ''restart journal lost an effect identity'')
         else Inr (cells ! unat (effect_ordinal c)))"

text \<open>The effect of a kind and path with its progress, as most steps of a replay look it up.\<close>

definition find_progress ::
  "('p, 'o, 'sel) journaled_application \<Rightarrow> effect_kind \<Rightarrow> 'p option \<Rightarrow> error + digest \<times> effect_progress" where
  "find_progress a kind path =
     rbind (find_effect a kind path) (\<lambda>eff.
     rbind (resume_progress_for a eff) (\<lambda>current. Inr (eff, current)))"

text \<open>\<open>find_optional_effect\<close>: no effect, or more than one, is no effect.\<close>

fun find_optional_from ::
  "'p journal_effect option \<Rightarrow> effect_kind \<Rightarrow> 'p option \<Rightarrow> 'p journal_effect list \<Rightarrow>
   'p journal_effect option" where
  "find_optional_from found kind path [] = found"
| "find_optional_from found kind path (e # effects) =
     (if effect_kind e \<noteq> kind \<or> effect_path e \<noteq> path then find_optional_from found kind path effects
      else if found \<noteq> None then None
      else find_optional_from (Some e) kind path effects)"

definition find_optional_effect ::
  "('p, 'o, 'sel) journaled_application \<Rightarrow> effect_kind \<Rightarrow> 'p option \<Rightarrow> 'p journal_effect option" where
  "find_optional_effect a kind path =
     find_optional_from None kind path (history_effects (journaled_history a))"

section \<open>Events of a replay\<close>

definition restart_intent ::
  "('s, 'p, 'o, 'sel) engine \<Rightarrow> ('p, 'o, 'sel) journaled_application \<Rightarrow> journal_state \<Rightarrow> digest \<Rightarrow>
   ('s, ('p, 'o, 'sel) journaled_application) io" where
  "restart_intent W a state eff =
     io_bind (io_lift (resume_progress_for a eff)) (\<lambda>current.
     if \<not> intended current then journal_intent W a state eff else io_return a)"

definition restart_terminal ::
  "('s, 'p, 'o, 'sel) engine \<Rightarrow> ('p, 'o, 'sel) journaled_application \<Rightarrow> journal_state \<Rightarrow> digest \<Rightarrow>
   event_kind \<Rightarrow> digest list \<Rightarrow> bytes \<Rightarrow> ('s, ('p, 'o, 'sel) journaled_application) io" where
  "restart_terminal W a state eff kind evidence replayed =
     io_bind (io_lift (resume_progress_for a eff)) (\<lambda>current.
     if terminal current = None
     then journal_event_step W a state eff kind evidence replayed None None else io_return a)"

definition journaled_receipt :: "('p, 'o, 'sel) journaled_application \<Rightarrow> digest option" where
  "journaled_receipt a = cursor_receipt (history_cursor (journaled_history a))"

definition journaled_completed :: "('p, 'o, 'sel) journaled_application \<Rightarrow> digest option" where
  "journaled_completed a = cursor_completed (history_cursor (journaled_history a))"

definition check_restart_seal ::
  "('p, 'o, 'sel) journaled_application \<Rightarrow> effect_progress \<Rightarrow> ('p, 'o) application_receipt \<Rightarrow>
   digest option \<Rightarrow> error + unit" where
  "check_restart_seal a current receipt evidence =
     (if terminal current \<noteq> None \<and> terminal current \<noteq> Some Completed
      then Inl (Logic_error ''restart receipt seal has a non-completed terminal event'')
      else if journaled_receipt a \<noteq> None \<and> journaled_receipt a \<noteq> Some (terminal_identity receipt)
      then Inl (Logic_error ''restart journal contains another receipt'')
      else if journaled_completed a \<noteq> None \<and> journaled_completed a \<noteq> evidence
      then Inl (Logic_error ''restart journal contains another completed-evidence identity'')
      else throw_if (journaled_receipt a \<noteq> None \<and> terminal current = None)
        (Logic_error ''restart journal receipt lacks a completed seal''))"

definition restart_seal ::
  "('s, 'p, 'o, 'sel) engine \<Rightarrow> ('p, 'o, 'sel) journaled_application \<Rightarrow> journal_state \<Rightarrow>
   ('p, 'o) application_receipt \<Rightarrow> digest option \<Rightarrow> ('s, ('p, 'o, 'sel) journaled_application) io" where
  "restart_seal W a state receipt evidence =
     io_bind (io_lift (find_progress a Seal_receipt None)) (\<lambda>(seal, current).
     io_bind (io_lift (check_restart_seal a current receipt evidence)) (\<lambda>_.
     io_bind (restart_intent W a (journaled_state a) seal) (\<lambda>a.
     io_bind (io_lift (resume_progress_for a seal)) (\<lambda>current.
     if terminal current \<noteq> None \<and> journaled_receipt a \<noteq> None \<and> journaled_state a = state
     then io_return a
     else if terminal current = None
     then journal_event_step W a state seal Completed [] [] (Some (terminal_identity receipt)) evidence
     else if journaled_receipt a = None
     then io_lift (Inl (Logic_error ''completed restart seal lacks receipt authority''))
     else journal_state_step W a state (Some (terminal_identity receipt)) evidence))))"

definition restart_domain_status ::
  "('p, 'o) restart_view \<Rightarrow> durability_domain \<Rightarrow> durability_status \<Rightarrow> durability_status" where
  "restart_domain_status v domain fallback =
     (case find_restart_synchronization v domain of None \<Rightarrow> fallback | Some f \<Rightarrow> fact_status f)"

text \<open>A synchronization that was not run before, in the phases after preparation and in it.\<close>

definition run_synchronization ::
  "('s, 'p, 'o, 'sel) engine \<Rightarrow> durability_domain \<Rightarrow> journal_state \<Rightarrow> string \<Rightarrow> digest \<Rightarrow>
   ('p, 'o, 'sel) journaled_application \<Rightarrow>
   ('s, durability_status \<times> ('p, 'o, 'sel) journaled_application) io" where
  "run_synchronization W domain state message eff a =
     io_bind (restart_intent W a state eff) (\<lambda>a.
     io_bind (tx_synchronize (engine_transaction W) domain) (\<lambda>synchronized.
     if fact_domain synchronized \<noteq> domain then io_lift (Inl (Logic_error message))
     else
       io_bind (io_lift (durability_event (fact_status synchronized))) (\<lambda>event.
       io_bind (io_lift (encode_transition_fact (engine_environment W)
         (Fact_synchronization synchronized))) (\<lambda>replayed.
       io_bind (restart_terminal W a state eff event [] replayed) (\<lambda>a.
       io_return (fact_status synchronized, a))))))"

end
