(* ===== verification/Resuming.thy ===== *)
theory Resuming
  imports Reopening
begin

text \<open>
  The forward phases of a replay (\<open>resume_preparation\<close>, \<open>resume_rejected_publication\<close>,
  \<open>resume_active_execution\<close> of application_engine.cpp).  Every effect with a terminal event is taken
  from the restart view, every effect without events is run as in the first application, and a
  publication whose intent has no outcome is an indeterminate one.
\<close>

section \<open>Captures\<close>

definition retained_captures ::
  "('p::linorder, 'o) restart_view \<Rightarrow> 'p capture_request list \<Rightarrow> error + 'p capture_result list" where
  "retained_captures v requests =
     rmap (\<lambda>c. case find_restart_capture v (capture_path c) of
         None \<Rightarrow> Inl (Logic_error ''resumable prepared journal lacks a completed capture'')
       | Some retained \<Rightarrow>
           if capture_outcome retained \<noteq> Outcome_completed
           then Inl (Logic_error ''resumable prepared journal lacks a completed capture'')
           else Inr retained) requests"

definition restart_capture_terminal ::
  "'p capture_request \<Rightarrow> 'p capture_result \<Rightarrow> recovery_requirement \<Rightarrow> error + event_kind" where
  "restart_capture_terminal request result recovered =
     (if capture_outcome result = Outcome_conditional_retained
      then Inl (Logic_error ''restart capture has a conditional outcome'')
      else terminal_event (semantic_capture_outcome recovered request result))"

definition interrupted_status :: "bool \<Rightarrow> durability_status" where
  "interrupted_status indeterminate =
     (if indeterminate then Durability_indeterminate else Durability_unconfirmed)"

definition resume_one_capture ::
  "('s, 'p::linorder, 'o, 'sel) engine \<Rightarrow> recovery_requirement \<Rightarrow> 'p capture_request \<Rightarrow> digest \<Rightarrow>
   ('p, 'o, 'sel) journaled_application \<Rightarrow>
   ('s, event_kind \<times> 'p capture_result \<times> ('p, 'o, 'sel) journaled_application) io" where
  "resume_one_capture W recovered request eff a =
     io_bind (restart_intent W a Preparing eff) (\<lambda>a.
     io_bind (tx_capture (engine_transaction W) request) (\<lambda>captured.
     io_bind (io_lift (restart_capture_terminal request captured recovered)) (\<lambda>event.
     io_bind (io_lift (encode_transition_fact (engine_environment W) (Fact_capture captured))) (\<lambda>replayed.
     io_bind (restart_terminal W a Preparing eff event (capture_evidence captured) replayed) (\<lambda>a.
     io_return (event, captured, a))))))"

fun resume_captures ::
  "('s, 'p::linorder, 'o, 'sel) engine \<Rightarrow> ('p, 'o) application_request \<Rightarrow> ('p, 'o) state_projection \<Rightarrow>
   ('p, 'o) restart_view \<Rightarrow> 'p capture_request list \<Rightarrow>
   'p capture_result list \<times> digest list \<times> ('p, 'o, 'sel) journaled_application \<Rightarrow>
   ('s, (('p, 'o) application_receipt,
         'p capture_result list \<times> digest list \<times> ('p, 'o, 'sel) journaled_application) phase) io" where
  "resume_captures W request state v [] progress = io_return (Phase_done progress)"
| "resume_captures W request state v (c # cs) (captures, evidence, a) =
     io_bind (io_lift (find_progress a Capture_old_object (Some (capture_path c)))) (\<lambda>(eff, current).
     case terminal current of
       Some kind \<Rightarrow>
         (case find_restart_capture v (capture_path c) of
            None \<Rightarrow> io_lift (Inl (Logic_error ''terminal restart capture lacks restart-view fact''))
          | Some retained \<Rightarrow>
              let evidence = append_unique_evidence evidence (capture_evidence retained) in
              if kind \<noteq> Completed
              then fail_preparation W a request state Durability_confirmed Durability_not_attempted
                (interrupted_status (kind = Indeterminate_event)) evidence
              else resume_captures W request state v cs (captures @ [retained], evidence, a))
     | None \<Rightarrow>
         io_bind (resume_one_capture W (control_recovery (request_control request)) c eff a)
           (\<lambda>(kind, captured, a).
         let evidence = append_unique_evidence evidence (capture_evidence captured) in
         if kind \<noteq> Completed
         then fail_preparation W a request state Durability_confirmed Durability_not_attempted
           (interrupted_status (capture_outcome captured = Outcome_indeterminate)) evidence
         else resume_captures W request state v cs (captures @ [captured], evidence, a)))"

section \<open>Payloads\<close>

definition payload_effects :: "('p, 'o, 'sel) journaled_application \<Rightarrow> digest list" where
  "payload_effects a = map effect_identity
     (filter (\<lambda>e. effect_kind e = Stage_incoming_payload) (history_effects (journaled_history a)))"

fun restart_intents ::
  "('s, 'p, 'o, 'sel) engine \<Rightarrow> digest list \<Rightarrow> ('p, 'o, 'sel) journaled_application \<Rightarrow>
   ('s, ('p, 'o, 'sel) journaled_application) io" where
  "restart_intents W [] a = io_return a"
| "restart_intents W (eff # effs) a =
     io_bind (restart_intent W a Preparing eff) (restart_intents W effs)"

fun restart_settle_payloads ::
  "('s, 'p, 'o, 'sel) engine \<Rightarrow> operation_result \<Rightarrow> bytes \<Rightarrow> digest list \<Rightarrow>
   ('p, 'o, 'sel) journaled_application \<Rightarrow> ('s, ('p, 'o, 'sel) journaled_application) io" where
  "restart_settle_payloads W sealed replayed [] a = io_return a"
| "restart_settle_payloads W sealed replayed (eff # effs) a =
     io_bind (io_lift (terminal_event (operation_outcome sealed))) (\<lambda>event.
     io_bind (restart_terminal W a Preparing eff event (operation_evidence sealed) replayed)
       (restart_settle_payloads W sealed replayed effs))"

definition restart_stage ::
  "('s, 'p, 'o, 'sel) engine \<Rightarrow> package_archive \<Rightarrow> 'sel \<Rightarrow> ('s, nat \<times> operation_result) io" where
  "restart_stage W archive selection =
     io_bind (tx_begin_stage (engine_transaction W) (archive_image archive) selection) (\<lambda>begun.
     case begun of
       None \<Rightarrow> io_lift (Inl (Logic_error ''restart backend returned no payload stage''))
     | Some stage \<Rightarrow>
         io_bind (archive_replay W archive selection stage) (\<lambda>_.
         io_bind (tx_seal (engine_transaction W) stage) (\<lambda>sealed. io_return (stage, sealed))))"

definition abandon_stage :: "('s, 'p, 'o, 'sel) engine \<Rightarrow> nat \<Rightarrow> ('s, unit) io" where
  "abandon_stage W stage = (\<lambda>s. (Inr (), tx_abandon (engine_transaction W) stage s))"

definition restage_payloads ::
  "('s, 'p::linorder, 'o, 'sel) engine \<Rightarrow> ('p, 'o) application_request \<Rightarrow> ('p, 'o) state_projection \<Rightarrow>
   package_archive \<Rightarrow> 'sel \<Rightarrow> durability_status \<Rightarrow> digest list \<Rightarrow>
   ('p, 'o, 'sel) journaled_application \<Rightarrow>
   ('s, (('p, 'o) application_receipt,
         durability_status \<times> digest list \<times> ('p, 'o, 'sel) journaled_application) phase) io" where
  "restage_payloads W request state archive selection recovered evidence a =
     io_bind (restart_intents W (payload_effects a) a) (\<lambda>a.
     io_bind (restart_stage W archive selection) (\<lambda>(stage, sealed).
     let evidence = append_unique_evidence evidence (operation_evidence sealed) in
     io_bind (io_lift (encode_transition_fact (engine_environment W) (Fact_payload sealed))) (\<lambda>replayed.
     io_bind (restart_settle_payloads W sealed replayed (payload_effects a) a) (\<lambda>a.
     if operation_outcome sealed \<noteq> Outcome_completed
     then io_bind (abandon_stage W stage) (\<lambda>_.
       fail_preparation W a request state Durability_confirmed
         (interrupted_status (operation_outcome sealed = Outcome_indeterminate)) recovered evidence)
     else io_return (Phase_done (Durability_visible, evidence, a))))))"

definition payload_failed :: "effect_progress \<Rightarrow> bool" where
  "payload_failed current \<longleftrightarrow> terminal current \<noteq> None \<and> terminal current \<noteq> Some Completed"

definition resume_payloads ::
  "('s, 'p::linorder, 'o, 'sel) engine \<Rightarrow> ('p, 'o) application_request \<Rightarrow> ('p, 'o) state_projection \<Rightarrow>
   ('p, 'o) restart_view \<Rightarrow> package_archive option \<Rightarrow> durability_status \<Rightarrow> digest list \<Rightarrow>
   ('p, 'o, 'sel) journaled_application \<Rightarrow>
   ('s, (('p, 'o) application_receipt,
         durability_status \<times> digest list \<times> ('p, 'o, 'sel) journaled_application) phase) io" where
  "resume_payloads W request state v archive recovered evidence a =
     (case journaled_payloads a of
        None \<Rightarrow> io_return (Phase_done (Durability_not_attempted, evidence, a))
      | Some payloads \<Rightarrow>
          if selection_size W (payload_selection payloads) = 0
          then io_return (Phase_done (Durability_not_attempted, evidence, a))
          else case archive of
            None \<Rightarrow> io_lift (Inl (Logic_error ''incoming restart lost archive authority''))
          | Some archive \<Rightarrow>
              io_bind (io_lift (validate_preparation_archive W a request archive)) (\<lambda>_.
              io_bind (io_lift (rmap (resume_progress_for a) (payload_effects a))) (\<lambda>cells.
              if \<exists>c \<in> set cells. payload_failed c
              then fail_preparation W a request state Durability_confirmed
                (interrupted_status (case view_payload v of None \<Rightarrow> False
                   | Some r \<Rightarrow> operation_outcome r = Outcome_indeterminate)) recovered evidence
              else if \<forall>c \<in> set cells. terminal c = Some Completed
              then (case view_payload v of
                  None \<Rightarrow> io_lift (Inl (Logic_error
                    ''completed restart payload lacks restart-view fact''))
                | Some r \<Rightarrow>
                    if operation_outcome r \<noteq> Outcome_completed
                    then io_lift (Inl (Logic_error
                      ''completed restart payload lacks restart-view fact''))
                    else io_return (Phase_done (Durability_visible,
                      append_unique_evidence evidence (operation_evidence r), a)))
              else restage_payloads W request state archive (payload_selection payloads) recovered
                evidence a)))"

section \<open>Preparation\<close>

fun settled_status :: "event_kind \<Rightarrow> durability_status" where
  "settled_status Completed = Durability_confirmed"
| "settled_status Indeterminate_event = Durability_indeterminate"
| "settled_status _ = Durability_unconfirmed"

definition resume_staged ::
  "('s, 'p, 'o, 'sel) engine \<Rightarrow> durability_domain \<Rightarrow> effect_kind \<Rightarrow> durability_status \<Rightarrow>
   ('p, 'o, 'sel) journaled_application \<Rightarrow>
   ('s, bool \<times> durability_status \<times> ('p, 'o, 'sel) journaled_application) io" where
  "resume_staged W domain kind status a =
     (if status = Durability_not_attempted then io_return (True, status, a)
      else
        io_bind (io_lift (find_progress a kind None)) (\<lambda>(eff, current).
        case terminal current of
          Some event \<Rightarrow> io_return (settled_status event = Durability_confirmed, settled_status event, a)
        | None \<Rightarrow>
            io_bind (run_synchronization W domain Preparing
              ''restart synchronized another durability domain'' eff a) (\<lambda>(status, a).
            io_return (status = Durability_confirmed, status, a))))"

definition resume_prepared ::
  "('s, 'p::linorder, 'o, 'sel) engine \<Rightarrow> ('p, 'o) restart_view \<Rightarrow> ('p, 'o, 'sel) journaled_application \<Rightarrow>
   error + ('p, 'o, 'sel) prepared_application" where
  "resume_prepared W v a =
     rbind (retained_captures v (capture_requests (journaled_captures a))) (\<lambda>captures.
     rbind (throw_if (has_payloads W a \<and>
         (case view_payload v of None \<Rightarrow> True | Some r \<Rightarrow> operation_outcome r \<noteq> Outcome_completed))
       (Logic_error ''resumable prepared journal lacks completed incoming staging'')) (\<lambda>_.
     rbind (preparation_profile Durability_confirmed (staging_status (has_payloads W a))
       (staging_status (capture_requests (journaled_captures a) \<noteq> []))) (\<lambda>durability.
     make_prepared W \<lparr>prepared_journaled = a, prepared_captures = captures,
       prepared_durability = durability, prepared_evidence = view_evidence v\<rparr>)))"

definition resume_staging ::
  "('s, 'p::linorder, 'o, 'sel) engine \<Rightarrow> ('p, 'o) application_request \<Rightarrow> ('p, 'o) state_projection \<Rightarrow>
   'p capture_result list \<Rightarrow> durability_status \<Rightarrow> durability_status \<Rightarrow> digest list \<Rightarrow>
   ('p, 'o, 'sel) journaled_application \<Rightarrow>
   ('s, (('p, 'o) application_receipt, ('p, 'o, 'sel) prepared_application) phase) io" where
  "resume_staging W request state captures incoming recovered evidence a =
     io_bind (resume_staged W Durable_incoming_staging Synchronize_incoming_staging incoming a)
       (\<lambda>(done, incoming, a).
     if \<not> done
     then fail_preparation W a request state Durability_confirmed incoming recovered evidence
     else
       io_bind (resume_staged W Durable_recovery_staging Synchronize_recovery_staging recovered a)
         (\<lambda>(done, recovered, a).
       if \<not> done
       then fail_preparation W a request state Durability_confirmed incoming recovered evidence
       else finish_preparation W a captures incoming recovered evidence))"

definition resume_preparing ::
  "('s, 'p::linorder, 'o, 'sel) engine \<Rightarrow> ('p, 'o) restart_view \<Rightarrow> ('p, 'o) application_request \<Rightarrow>
   ('p, 'o) state_projection \<Rightarrow> package_archive option \<Rightarrow> digest list \<Rightarrow>
   ('p, 'o, 'sel) journaled_application \<Rightarrow>
   ('s, (('p, 'o) application_receipt, ('p, 'o, 'sel) prepared_application) phase) io" where
  "resume_preparing W v request state archive evidence a =
     (let requests = capture_requests (journaled_captures a);
          recovered = (if requests = [] then Durability_not_attempted else Durability_visible) in
      io_bind (resume_captures W request state v requests ([], evidence, a)) (\<lambda>captured.
      case captured of
        Phase_stopped receipt \<Rightarrow> io_return (Phase_stopped receipt)
      | Phase_done (captures, evidence, a) \<Rightarrow>
          io_bind (resume_payloads W request state v archive recovered evidence a) (\<lambda>staged.
          case staged of
            Phase_stopped receipt \<Rightarrow> io_return (Phase_stopped receipt)
          | Phase_done (incoming, evidence, a) \<Rightarrow>
              resume_staging W request state captures incoming recovered evidence a)))"

definition resume_preparation ::
  "('s, 'p::linorder, 'o, 'sel) engine \<Rightarrow> ('p, 'o) restart_view \<Rightarrow>
   ('p, 'o, 'sel) journaled_application \<Rightarrow> ('p, 'o) application_request \<Rightarrow>
   ('p, 'o) state_projection \<Rightarrow> mutation_lease \<Rightarrow> package_archive option \<Rightarrow>
   ('s, (('p, 'o) application_receipt, ('p, 'o, 'sel) prepared_application) phase) io" where
  "resume_preparation W v a request state lease archive =
     io_bind (io_lift (require_lease (request_target request) state lease)) (\<lambda>_.
     if journaled_state a \<noteq> Preparing
     then io_lift (rbind (resume_prepared W v a) (\<lambda>p. Inr (Phase_done p)))
     else
       (let pre = plan_preconditions (request_plan request) in
        io_bind (tx_observe (engine_transaction W) (precondition_paths pre)) (\<lambda>observed.
        io_bind (io_lift (make_check pre observed)) (\<lambda>current.
        let evidence = append_unique_evidence (view_evidence v)
              (batch_evidence (check_observations current)) in
        if \<not> satisfied current
        then fail_preparation W a request state Durability_confirmed
          (restart_domain_status v Durable_incoming_staging Durability_not_attempted)
          (restart_domain_status v Durable_recovery_staging Durability_not_attempted) evidence
        else resume_preparing W v request state archive evidence a))))"

section \<open>Rejected publication\<close>

definition fail_rejected_outcome ::
  "('s, 'p::linorder, 'o, 'sel) engine \<Rightarrow> ('p, 'o, 'sel) prepared_application \<Rightarrow>
   ('p, 'o) application_request \<Rightarrow> ('p, 'o) state_projection \<Rightarrow> ('p, 'o) rejected_effect list \<Rightarrow>
   operation_outcome \<Rightarrow> durability_status \<Rightarrow> digest list \<Rightarrow>
   ('s, (('p, 'o) application_receipt, 'a) phase) io" where
  "fail_rejected_outcome W prepared request state effects outcome status evidence =
     (if outcome = Outcome_indeterminate
      then fail_rejected_publication W prepared request state effects Attempt_indeterminate
        Requires_authoritative_observation Durability_indeterminate evidence
      else fail_rejected_publication W prepared request state effects Failed_before_target_mutation
        Recovery_unchanged status evidence)"

definition run_rejected ::
  "('s, 'p::linorder, 'o, 'sel) engine \<Rightarrow> 'p \<Rightarrow> ('p, 'o) rejected_effect_request \<Rightarrow> digest \<Rightarrow>
   ('p, 'o, 'sel) journaled_application \<Rightarrow>
   ('s, publication_result \<times> ('p, 'o, 'sel) journaled_application) io" where
  "run_rejected W path command eff a =
     io_bind (restart_intent W a Mutating eff) (\<lambda>a.
     io_bind (tx_rejected (engine_transaction W) command) (\<lambda>result.
     io_bind (io_lift (terminal_event (publication_outcome result))) (\<lambda>event.
     io_bind (io_lift (encode_transition_fact (engine_environment W) (Fact_rejected path result)))
       (\<lambda>replayed.
     io_bind (restart_terminal W a Mutating eff event (publication_evidence result) replayed) (\<lambda>a.
     io_return (result, a))))))"

fun resume_rejected_loop ::
  "('s, 'p::linorder, 'o, 'sel) engine \<Rightarrow> ('p, 'o) restart_view \<Rightarrow> ('p, 'o) application_request \<Rightarrow>
   ('p, 'o) state_projection \<Rightarrow> 'p effect_step list \<Rightarrow> ('p, 'o, 'sel) rejected_progress \<Rightarrow>
   ('s, (('p, 'o) application_receipt, ('p, 'o, 'sel) rejected_progress) phase) io" where
  "resume_rejected_loop W v request state [] progress = io_return (Phase_done progress)"
| "resume_rejected_loop W v request state (step # steps) (prepared, effects, status, evidence) =
     (if schedule_kind step \<noteq> Step_publish_rejected
      then resume_rejected_loop W v request state steps (prepared, effects, status, evidence)
      else
        io_bind (io_lift (find_decision (request_plan request) (schedule_path step)
          ''rejected-object schedule path lacks a plan decision'')) (\<lambda>decision.
        io_bind (io_lift (rejected_command decision step)) (\<lambda>command.
        io_bind (io_lift (validate_rejected_source prepared command)) (\<lambda>_.
        io_bind (io_lift (find_progress (prepared_journaled prepared) Publish_rejected_object
          (Some (schedule_path step)))) (\<lambda>(eff, current).
        if terminal current \<noteq> None
        then (case find_restart_rejected v (schedule_path step) of
            None \<Rightarrow> io_lift (Inl (Logic_error ''terminal rejected effect lacks restart-view result''))
          | Some result \<Rightarrow>
              let effects = effects @ [\<lparr>rejected_request = command, rejected_result = result\<rparr>];
                  evidence = append_unique_evidence evidence (publication_evidence result) in
              if publication_outcome result \<noteq> Outcome_completed
              then fail_rejected_outcome W prepared request state effects
                (publication_outcome result) status evidence
              else resume_rejected_loop W v request state steps
                (prepared, effects, Durability_visible, evidence))
        else if intended current
        then io_bind (io_lift (make_rejected_publication Outcome_indeterminate None [])) (\<lambda>result.
          fail_rejected_outcome W prepared request state
            (effects @ [\<lparr>rejected_request = command, rejected_result = result\<rparr>])
            Outcome_indeterminate status evidence)
        else
          io_bind (run_rejected W (schedule_path step) command eff (prepared_journaled prepared))
            (\<lambda>(result, a).
          let prepared = prepared\<lparr>prepared_journaled := a\<rparr>;
              effects = effects @ [\<lparr>rejected_request = command, rejected_result = result\<rparr>];
              evidence = append_unique_evidence evidence (publication_evidence result) in
          if publication_outcome result \<noteq> Outcome_completed
          then fail_rejected_outcome W prepared request state effects
            (publication_outcome result) status evidence
          else resume_rejected_loop W v request state steps
            (prepared, effects, Durability_visible, evidence)))))))"

text \<open>A synchronization with a terminal event is read off the view.\<close>

definition resume_synchronization ::
  "('s, 'p, 'o, 'sel) engine \<Rightarrow> ('p, 'o) restart_view \<Rightarrow> durability_domain \<Rightarrow> effect_kind \<Rightarrow> string \<Rightarrow>
   ('p, 'o, 'sel) journaled_application \<Rightarrow>
   ('s, durability_status \<times> ('p, 'o, 'sel) journaled_application) io" where
  "resume_synchronization W v domain kind message a =
     io_bind (io_lift (find_progress a kind None)) (\<lambda>(eff, current).
     if terminal current \<noteq> None
     then io_lift (rbind (profile_status (view_durability v) domain) (\<lambda>status. Inr (status, a)))
     else run_synchronization W domain Mutating message eff a)"

definition resume_rejected_completion ::
  "('s, 'p::linorder, 'o, 'sel) engine \<Rightarrow> ('p, 'o) restart_view \<Rightarrow> ('p, 'o) application_request \<Rightarrow>
   ('p, 'o) state_projection \<Rightarrow> ('p, 'o, 'sel) rejected_progress \<Rightarrow>
   ('s, (('p, 'o) application_receipt, ('p, 'o, 'sel) rejected_published) phase) io" where
  "resume_rejected_completion W v request state progress =
     (let (prepared, effects, status, evidence) = progress in
      if effects = [] \<or> \<not> requires_namespace_synchronization (request_control request)
      then io_lift (finish_rejected progress)
      else
        io_bind (resume_synchronization W v Durable_rejected_store Synchronize_rejected_store
          ''restart synchronized another rejected-store domain'' (prepared_journaled prepared))
          (\<lambda>(status, a).
        let prepared = prepared\<lparr>prepared_journaled := a\<rparr> in
        if status = Durability_confirmed
        then io_lift (finish_rejected (prepared, effects, status, evidence))
        else if status = Durability_indeterminate
        then fail_rejected_publication W prepared request state effects Attempt_indeterminate
          Requires_authoritative_observation status evidence
        else fail_rejected_publication W prepared request state effects
          Effects_visible_durability_unconfirmed Recovery_assets_retained status evidence))"

definition enter_mutating ::
  "('s, 'p, 'o, 'sel) engine \<Rightarrow> ('p, 'o, 'sel) journaled_application \<Rightarrow>
   ('s, ('p, 'o, 'sel) journaled_application) io" where
  "enter_mutating W a =
     (if journaled_state a = Prepared then journal_state_step W a Mutating None None else io_return a)"

definition resume_rejected ::
  "('s, 'p::linorder, 'o, 'sel) engine \<Rightarrow> ('p, 'o) restart_view \<Rightarrow> ('p, 'o, 'sel) prepared_application \<Rightarrow>
   ('p, 'o) application_request \<Rightarrow> ('p, 'o) state_projection \<Rightarrow> mutation_lease \<Rightarrow>
   ('s, (('p, 'o) application_receipt, ('p, 'o, 'sel) rejected_published) phase) io" where
  "resume_rejected W v prepared request state lease =
     io_bind (io_lift (require_lease (request_target request) state lease)) (\<lambda>_.
     io_bind (enter_mutating W (prepared_journaled prepared)) (\<lambda>a.
     io_bind (resume_rejected_loop W v request state (journaled_schedule a)
       (prepared\<lparr>prepared_journaled := a\<rparr>, [], Durability_not_attempted, view_evidence v))
       (\<lambda>progress.
     case progress of
       Phase_stopped receipt \<Rightarrow> io_return (Phase_stopped receipt)
     | Phase_done progress \<Rightarrow> resume_rejected_completion W v request state progress)))"

section \<open>Active execution\<close>

definition interrupt_active_outcome ::
  "('s, 'p, 'o, 'sel) engine \<Rightarrow> ('p, 'o, 'sel) rejected_published \<Rightarrow> 'p active_effect list \<Rightarrow>
   operation_outcome \<Rightarrow> durability_status \<Rightarrow> digest list \<Rightarrow>
   ('s, (('p, 'o, 'sel) active_interrupted, 'a) phase) io" where
  "interrupt_active_outcome W r effects outcome status evidence =
     io_bind (if outcome = Outcome_indeterminate
       then interrupt_active W r effects Effect_interruption_indeterminate Durability_indeterminate
         evidence
       else interrupt_active W r effects Effect_interruption_failed status evidence)
       (\<lambda>m. io_return (Phase_stopped m))"

definition run_active ::
  "('s, 'p, 'o, 'sel) engine \<Rightarrow> 'p \<Rightarrow> 'p active_effect_request \<Rightarrow> digest \<Rightarrow>
   ('p, 'o, 'sel) journaled_application \<Rightarrow>
   ('s, operation_result \<times> ('p, 'o, 'sel) journaled_application) io" where
  "run_active W path command eff a =
     io_bind (restart_intent W a Mutating eff) (\<lambda>a.
     io_bind (tx_active (engine_transaction W) command) (\<lambda>result.
     io_bind (io_lift (active_terminal_event (operation_outcome result))) (\<lambda>event.
     io_bind (io_lift (encode_transition_fact (engine_environment W) (Fact_active path result)))
       (\<lambda>replayed.
     io_bind (restart_terminal W a Mutating eff event (operation_evidence result) replayed) (\<lambda>a.
     io_return (result, a))))))"

definition no_result :: operation_result where
  "no_result = \<lparr>operation_outcome = Outcome_indeterminate, operation_evidence = []\<rparr>"

definition settled_outcome :: "operation_outcome \<Rightarrow> bool" where
  "settled_outcome outcome \<longleftrightarrow> outcome = Outcome_completed \<or> outcome = Outcome_conditional_retained"

definition changed_status :: "'p active_effect \<Rightarrow> durability_status \<Rightarrow> durability_status" where
  "changed_status e status = (if changed_target e then Durability_visible else status)"

type_synonym ('p, 'o, 'sel) active_progress =
  "('p, 'o, 'sel) rejected_published \<times> 'p active_effect list \<times> durability_status \<times> digest list"

fun resume_active_loop ::
  "('s, 'p::linorder, 'o, 'sel) engine \<Rightarrow> ('p, 'o) restart_view \<Rightarrow> ('p, 'o) operation_plan \<Rightarrow>
   'p effect_step list \<Rightarrow> ('p, 'o, 'sel) active_progress \<Rightarrow>
   ('s, (('p, 'o, 'sel) active_interrupted, ('p, 'o, 'sel) active_progress) phase) io" where
  "resume_active_loop W v plan [] progress = io_return (Phase_done progress)"
| "resume_active_loop W v plan (step # steps) (r, effects, status, evidence) =
     (if schedule_kind step \<noteq> Step_publish_active
      then resume_active_loop W v plan steps (r, effects, status, evidence)
      else
        io_bind (io_lift (find_decision plan (schedule_path step)
          ''active schedule path lacks a plan decision'')) (\<lambda>decision.
        io_bind (io_lift (active_command decision step)) (\<lambda>command.
        io_bind (io_lift (validate_active_source r command)) (\<lambda>_.
        io_bind (io_lift (find_progress (published_journaled r) Publish_active_object
          (Some (schedule_path step)))) (\<lambda>(eff, current).
        if terminal current \<noteq> None
        then (case find_restart_active v (schedule_path step) of
            None \<Rightarrow> io_lift (Inl (Logic_error ''terminal active effect lacks restart-view result''))
          | Some result \<Rightarrow>
              io_bind (io_lift (make_active_effect command result)) (\<lambda>applied.
              let effects = effects @ [applied]; status = changed_status applied status;
                  evidence = append_unique_evidence evidence (operation_evidence result) in
              if settled_outcome (operation_outcome result)
              then resume_active_loop W v plan steps (r, effects, status, evidence)
              else interrupt_active_outcome W r effects (operation_outcome result) status evidence))
        else if intended current
        then io_bind (io_lift (make_active_effect command no_result)) (\<lambda>applied.
          interrupt_active_outcome W r (effects @ [applied]) Outcome_indeterminate status evidence)
        else
          io_bind (run_active W (schedule_path step) command eff (published_journaled r))
            (\<lambda>(result, a).
          io_bind (io_lift (make_active_effect command result)) (\<lambda>applied.
          let r = with_journaled r a; effects = effects @ [applied];
              status = changed_status applied status;
              evidence = append_unique_evidence evidence (operation_evidence result) in
          if settled_outcome (operation_outcome result)
          then resume_active_loop W v plan steps (r, effects, status, evidence)
          else interrupt_active_outcome W r effects (operation_outcome result) status evidence)))))))"

text \<open>A journal that already observed its result keeps its state.\<close>

definition finish_resumed_active ::
  "('s, 'p, 'o, 'sel) engine \<Rightarrow> ('p, 'o, 'sel) active_progress \<Rightarrow>
   ('s, ('p, 'o, 'sel) active_execution) io" where
  "finish_resumed_active W progress =
     (let (r, effects, status, evidence) = progress; a = published_journaled r in
      io_bind (if journaled_state a \<noteq> Result_observed
        then journal_state_step W a Effects_visible None None else io_return a) (\<lambda>a.
      io_lift (rbind (with_active_durability (published_durability r) status) (\<lambda>durability.
        rbind (make_active_mutated \<lparr>mutated_rejected = with_journaled r a, mutated_effects = effects,
                 mutated_durability = durability, mutated_evidence = evidence\<rparr>) (\<lambda>m.
        Inr (Phase_done m))))))"

definition resume_active_completion ::
  "('s, 'p, 'o, 'sel) engine \<Rightarrow> ('p, 'o) restart_view \<Rightarrow> execution_control \<Rightarrow>
   ('p, 'o, 'sel) active_progress \<Rightarrow> ('s, ('p, 'o, 'sel) active_execution) io" where
  "resume_active_completion W v control progress =
     (let (r, effects, status, evidence) = progress in
      if status \<noteq> Durability_visible \<or> \<not> requires_namespace_synchronization control
      then finish_resumed_active W progress
      else
        io_bind (resume_synchronization W v Durable_active_namespace Synchronize_active_namespace
          ''restart synchronized another active domain'' (published_journaled r)) (\<lambda>(status, a).
        let r = with_journaled r a in
        if status = Durability_confirmed
        then finish_resumed_active W (r, effects, status, evidence)
        else
          io_bind (interrupt_active W r effects
            (if status = Durability_indeterminate then Durability_interruption_indeterminate
             else Durability_interruption_unconfirmed) status evidence)
            (\<lambda>m. io_return (Phase_stopped m))))"

definition resume_active ::
  "('s, 'p::linorder, 'o, 'sel) engine \<Rightarrow> ('p, 'o) restart_view \<Rightarrow> ('p, 'o, 'sel) rejected_published \<Rightarrow>
   ('p, 'o) application_request \<Rightarrow> ('p, 'o) state_projection \<Rightarrow> mutation_lease \<Rightarrow>
   ('s, ('p, 'o, 'sel) active_execution) io" where
  "resume_active W v r request state lease =
     io_bind (io_lift (require_lease (request_target request) state lease)) (\<lambda>_.
     io_bind (resume_active_loop W v (request_plan request) (journaled_schedule (published_journaled r))
       (r, [], Durability_not_attempted, view_evidence v)) (\<lambda>progress.
     case progress of
       Phase_stopped m \<Rightarrow> io_return (Phase_stopped m)
     | Phase_done progress \<Rightarrow> resume_active_completion W v (request_control request) progress))"

end
