(* ===== verification/Replaying.thy ===== *)
theory Replaying
  imports Resuming
begin

text \<open>
  The end of a replay (\<open>restart_interruption\<close>, \<open>resume_recovery\<close>, \<open>resume_completion\<close>,
  \<open>finish_replay\<close> of application_engine.cpp) and the entry points \<open>resume_application\<close> of restart.cpp.
\<close>

section \<open>The interruption of a journal sent to recovery\<close>

text \<open>The active effects in schedule order up to the first without intent, and the one that stopped it.\<close>

fun scan_active ::
  "('p::linorder, 'o) restart_view \<Rightarrow> ('p, 'o) operation_plan \<Rightarrow> ('p, 'o, 'sel) journaled_application \<Rightarrow>
   'p effect_step list \<Rightarrow> 'p active_effect list \<Rightarrow>
   error + 'p active_effect list \<times> interruption option" where
  "scan_active v plan a [] effects = Inr (effects, None)"
| "scan_active v plan a (step # steps) effects =
     (if schedule_kind step \<noteq> Step_publish_active then scan_active v plan a steps effects
      else
        rbind (find_progress a Publish_active_object (Some (schedule_path step))) (\<lambda>(eff, current).
        if \<not> intended current then Inr (effects, None)
        else
          rbind (find_decision plan (schedule_path step)
            ''active schedule path lacks a plan decision'') (\<lambda>decision.
          rbind (active_command decision step) (\<lambda>command.
          if terminal current = None
          then rbind (make_active_effect command no_result) (\<lambda>applied.
            Inr (effects @ [applied], Some Effect_interruption_indeterminate))
          else case find_restart_active v (schedule_path step) of
            None \<Rightarrow> Inl (Logic_error ''terminal restart active effect lacks restart'')
          | Some result \<Rightarrow>
              rbind (make_active_effect command result) (\<lambda>applied.
              let effects = effects @ [applied] in
              if operation_outcome result = Outcome_failed
              then Inr (effects, Some Effect_interruption_failed)
              else if operation_outcome result = Outcome_indeterminate
              then Inr (effects, Some Effect_interruption_indeterminate)
              else scan_active v plan a steps effects)))))"

definition scan_synchronization ::
  "('p, 'o, 'sel) journaled_application \<Rightarrow> error + interruption option" where
  "scan_synchronization a =
     (case find_optional_effect a Synchronize_active_namespace None of
        None \<Rightarrow> Inr None
      | Some e \<Rightarrow>
          rbind (resume_progress_for a (effect_identity e)) (\<lambda>current.
          if \<not> intended current \<or> terminal current = Some Completed then Inr None
          else if terminal current = Some Indeterminate_event \<or> terminal current = None
          then Inr (Some Durability_interruption_indeterminate)
          else Inr (Some Durability_interruption_unconfirmed)))"

fun scan_observations ::
  "('p, 'o, 'sel) journaled_application \<Rightarrow> 'p journal_effect list \<Rightarrow> error + interruption option" where
  "scan_observations a [] = Inr None"
| "scan_observations a (e # effects) =
     (if effect_kind e \<noteq> Observe_result then scan_observations a effects
      else
        rbind (resume_progress_for a (effect_identity e)) (\<lambda>current.
        if terminal current = Some Failed then Inr (Some Observation_mismatch)
        else if terminal current = Some Indeterminate_event \<or> intended current \<and> terminal current = None
        then Inr (Some Observation_indeterminate)
        else scan_observations a effects))"

definition scan_interruption ::
  "('p::linorder, 'o) restart_view \<Rightarrow> ('p, 'o) operation_plan \<Rightarrow> ('p, 'o, 'sel) journaled_application \<Rightarrow>
   error + 'p active_effect list \<times> interruption" where
  "scan_interruption v plan a =
     rbind (scan_active v plan a (journaled_schedule a) []) (\<lambda>(effects, found).
     case found of
       Some reason \<Rightarrow> Inr (effects, reason)
     | None \<Rightarrow>
         rbind (scan_synchronization a) (\<lambda>found.
         case found of
           Some reason \<Rightarrow> Inr (effects, reason)
         | None \<Rightarrow>
             rbind (scan_observations a (history_effects (journaled_history a))) (\<lambda>found.
             case found of
               Some reason \<Rightarrow> Inr (effects, reason)
             | None \<Rightarrow> Inl (Logic_error ''recovery restart lacks an interrupted effect''))))"

definition scanned_durability :: "interruption \<Rightarrow> durability_status \<Rightarrow> durability_status" where
  "scanned_durability reason active =
     (if interruption_indeterminate reason then Durability_indeterminate
      else if reason = Durability_interruption_unconfirmed then Durability_unconfirmed
      else active)"

definition restart_interruption ::
  "('s, 'p::linorder, 'o, 'sel) engine \<Rightarrow> ('p, 'o) restart_view \<Rightarrow> ('p, 'o, 'sel) rejected_published \<Rightarrow>
   ('p, 'o) application_request \<Rightarrow> ('s, ('p, 'o, 'sel) active_interrupted) io" where
  "restart_interruption W v r request =
     (let a = published_journaled r in
      io_bind (io_lift (profile_status (view_durability v) Durable_active_namespace)) (\<lambda>active.
      io_bind (io_lift (scan_interruption v (request_plan request) a)) (\<lambda>(effects, reason).
      io_bind (if journaled_state a = Recovering then io_return a
        else journal_state_step W a
          (if interruption_indeterminate reason then Indeterminate else Recovery_pending) None None)
        (\<lambda>a.
      io_lift (rbind (with_active_durability (published_durability r) (scanned_durability reason active))
        (\<lambda>durability.
        make_active_interrupted \<lparr>interrupted_rejected = with_journaled r a,
          interrupted_effects = effects, interrupted_reason = reason,
          interrupted_durability = durability, interrupted_evidence = view_evidence v\<rparr>))))))"

section \<open>Recovery\<close>

definition run_recovery ::
  "('s, 'p, 'o, 'sel) engine \<Rightarrow> 'p \<Rightarrow> digest \<Rightarrow> ('p, 'o, 'sel) journaled_application \<Rightarrow>
   ('s, operation_result \<times> ('p, 'o, 'sel) journaled_application) io" where
  "run_recovery W path eff a =
     io_bind (restart_intent W a Recovering eff) (\<lambda>a.
     io_bind (tx_recover (engine_transaction W) path) (\<lambda>result.
     io_bind (io_lift (terminal_event (operation_outcome result))) (\<lambda>event.
     io_bind (io_lift (encode_transition_fact (engine_environment W) (Fact_recovery path result)))
       (\<lambda>replayed.
     io_bind (restart_terminal W a Recovering eff event (operation_evidence result) replayed) (\<lambda>a.
     io_return (result, a))))))"

fun resume_recover_loop ::
  "('s, 'p::linorder, 'o, 'sel) engine \<Rightarrow> ('p, 'o) restart_view \<Rightarrow> 'p active_effect list \<Rightarrow>
   'p recovery_effect list \<times> digest list \<times> ('p, 'o, 'sel) active_interrupted \<Rightarrow>
   ('s, 'p recovery_effect list \<times> digest list \<times> ('p, 'o, 'sel) active_interrupted) io" where
  "resume_recover_loop W v [] progress = io_return progress"
| "resume_recover_loop W v (e # candidates) (recoveries, evidence, i) =
     (let path = active_path (effect_request e) in
      io_bind (io_lift (recovery_is_exact i path)) (\<lambda>exact.
      io_bind (io_lift (find_progress (interrupted_journaled i) Recover_active_object (Some path)))
        (\<lambda>(eff, current).
      if terminal current \<noteq> None
      then (case find_restart_recovery v path of
          None \<Rightarrow> io_lift (Inl (Logic_error ''terminal recovery lacks restart-view result''))
        | Some result \<Rightarrow>
            let recoveries = recoveries @
                  [\<lparr>recovery_path = path, recovery_result = result, recovery_exact = exact\<rparr>];
                evidence = append_unique_evidence evidence (operation_evidence result) in
            if operation_outcome result \<noteq> Outcome_completed then io_return (recoveries, evidence, i)
            else resume_recover_loop W v candidates (recoveries, evidence, i))
      else if intended current
      then io_return (recoveries @
        [\<lparr>recovery_path = path, recovery_result = no_result, recovery_exact = exact\<rparr>], evidence, i)
      else
        io_bind (run_recovery W path eff (interrupted_journaled i)) (\<lambda>(result, a).
        let i = interrupted_with i a;
            recoveries = recoveries @
              [\<lparr>recovery_path = path, recovery_result = result, recovery_exact = exact\<rparr>];
            evidence = append_unique_evidence evidence (operation_evidence result) in
        if operation_outcome result \<noteq> Outcome_completed then io_return (recoveries, evidence, i)
        else resume_recover_loop W v candidates (recoveries, evidence, i)))))"

definition resume_recovered ::
  "('s, 'p, 'o, 'sel) engine \<Rightarrow> ('p, 'o) restart_view \<Rightarrow> ('p, 'o, 'sel) active_interrupted \<Rightarrow>
   ('s, durability_status \<times> ('p, 'o, 'sel) active_interrupted) io" where
  "resume_recovered W v i =
     (let a = interrupted_journaled i in
      io_bind (io_lift (find_progress a Synchronize_recovered_namespace None)) (\<lambda>(eff, current).
      if terminal current \<noteq> None
      then io_lift (rbind (profile_status (view_durability v) Durable_active_namespace)
        (\<lambda>status. Inr (status, i)))
      else if intended current then io_return (Durability_indeterminate, i)
      else
        io_bind (run_synchronization W Durable_active_namespace Recovering
          ''restart synchronized another recovery domain'' eff a) (\<lambda>(status, a).
        io_return (status, interrupted_with i a))))"

definition all_recovered :: "'p recovery_effect list \<Rightarrow> bool" where
  "all_recovered recoveries \<longleftrightarrow>
     (\<forall>r \<in> set recoveries. operation_outcome (recovery_result r) = Outcome_completed)"

text \<open>
  Unlike the live recovery, the resumed one counts an unconfirmed namespace synchronization, the
  argument \<open>status\<close>, as a recovery that is not complete.
\<close>

definition resumed_outcome ::
  "interruption \<Rightarrow> 'p recovery_effect list \<Rightarrow> durability_status option \<Rightarrow>
   attempt_outcome \<times> recovery_state" where
  "resumed_outcome reason recoveries status =
     (let confirmed = (status = None \<or> status = Some Durability_confirmed);
          complete = (all_recovered recoveries \<and> confirmed);
          all_exact = (\<forall>r \<in> set recoveries. recovery_exact r);
          indeterminate = (interruption_indeterminate reason \<or>
            (\<exists>r \<in> set recoveries. operation_outcome (recovery_result r) = Outcome_indeterminate) \<or>
            status = Some Durability_indeterminate) in
      if complete \<and> all_exact then (Failed_fully_recovered, Exact_prior_state_restored)
      else if indeterminate \<or> complete \<and> \<not> all_exact
      then (Attempt_indeterminate, Requires_authoritative_observation)
      else (Failed_with_partial_effects, Known_residual_effects))"

definition resume_undo ::
  "('s, 'p::linorder, 'o, 'sel) engine \<Rightarrow> ('p, 'o) restart_view \<Rightarrow> ('p, 'o, 'sel) active_interrupted \<Rightarrow>
   ('p, 'o) application_request \<Rightarrow> ('p, 'o) state_projection \<Rightarrow> ('s, ('p, 'o) application_receipt) io" where
  "resume_undo W v i request state =
     (let candidates = recovery_candidates i in
      io_bind (if journaled_state (interrupted_journaled i) \<noteq> Recovering
        then journal_state_step W (interrupted_journaled i) Recovering None None
        else io_return (interrupted_journaled i)) (\<lambda>a.
      io_bind (resume_recover_loop W v candidates ([], view_evidence v, interrupted_with i a))
        (\<lambda>(recoveries, evidence, i).
      io_bind (io_lift (if recoveries \<noteq> []
          then with_active_durability (interrupted_durability i) Durability_visible
          else Inr (interrupted_durability i))) (\<lambda>durability.
      if all_recovered recoveries \<and> requires_namespace_synchronization (request_control request)
      then
        io_bind (resume_recovered W v i) (\<lambda>(status, i).
        io_bind (io_lift (with_active_durability durability status)) (\<lambda>durability.
        let (outcome, recovered) = resumed_outcome (interrupted_reason i) recoveries (Some status) in
        seal_recovery_receipt W i request state outcome recovered durability recoveries evidence))
      else
        let (outcome, recovered) = resumed_outcome (interrupted_reason i) recoveries None in
        seal_recovery_receipt W i request state outcome recovered durability recoveries evidence))))"

definition resume_recovery ::
  "('s, 'p::linorder, 'o, 'sel) engine \<Rightarrow> ('p, 'o) restart_view \<Rightarrow> ('p, 'o, 'sel) active_interrupted \<Rightarrow>
   ('p, 'o) application_request \<Rightarrow> ('p, 'o) state_projection \<Rightarrow> mutation_lease \<Rightarrow>
   ('s, ('p, 'o) application_receipt) io" where
  "resume_recovery W v i request state lease =
     io_bind (io_lift (validate_recovery_binding i request state lease)) (\<lambda>_.
     if \<not> recovery_selected (request_control request) \<or> recovery_candidates i = []
     then recover_interrupted W i request state lease
     else resume_undo W v i request state)"

section \<open>Completion\<close>

text \<open>
  The loop over the plan: a path whose durable outcome contradicts the new observation makes the
  result both a mismatch and indeterminate.
\<close>

type_synonym ('p, 'o, 'sel) observing_progress =
  "bool \<times> bool \<times> ('p, 'o) path_consequence list \<times> ('p, 'o, 'sel) active_mutated"

definition resume_observation ::
  "('s, 'p::linorder, 'o, 'sel) engine \<Rightarrow> package_image option \<Rightarrow> 'p observation_batch \<Rightarrow>
   ('p, 'o) path_decision \<Rightarrow> ('p, 'o, 'sel) observing_progress \<Rightarrow>
   ('s, ('p, 'o, 'sel) observing_progress) io" where
  "resume_observation W img observed d progress =
     (let (mismatch, indeterminate, paths, m) = progress;
          a = published_journaled (mutated_rejected m) in
      case (find_observation (check_observations (journaled_preconditions a)) (decision_path d),
            find_observation observed (decision_path d)) of
        (Some prior, Some after) \<Rightarrow>
          io_bind (io_lift (match_result_observation (engine_environment W) (mutated_effects m) d
            prior after img)) (\<lambda>match.
          io_bind (io_lift (find_progress a Observe_result (Some (decision_path d)))) (\<lambda>(eff, current).
          let event = observation_event match;
              contradicts = (terminal current \<noteq> None \<and> terminal current \<noteq> Some event) in
          io_bind (if contradicts then io_return a
            else io_bind (restart_intent W a Effects_visible eff) (\<lambda>a.
              restart_terminal W a Effects_visible eff event (batch_evidence observed) [])) (\<lambda>a.
          let m = mutated_journaled m a in
          io_bind (io_lift (if match = Match_matched
            then rbind (completed_path_consequence m d prior after Eligible) (\<lambda>c. Inr [c])
            else Inr [])) (\<lambda>more_paths.
          io_return (mismatch \<or> match = Match_mismatch \<or> contradicts,
            indeterminate \<or> match = Match_indeterminate \<or> contradicts, paths @ more_paths, m)))))
      | _ \<Rightarrow> io_lift (Inl (Logic_error ''restart result observation lacks path closure'')))"

fun resume_observations ::
  "('s, 'p::linorder, 'o, 'sel) engine \<Rightarrow> package_image option \<Rightarrow> 'p observation_batch \<Rightarrow>
   ('p, 'o) path_decision list \<Rightarrow> ('p, 'o, 'sel) observing_progress \<Rightarrow>
   ('s, ('p, 'o, 'sel) observing_progress) io" where
  "resume_observations W img observed [] progress = io_return progress"
| "resume_observations W img observed (d # decisions) progress =
     io_bind (resume_observation W img observed d progress)
       (resume_observations W img observed decisions)"

text \<open>The retained evidence, if it is of this application, and whether it must be published again.\<close>

definition select_completed ::
  "('p::linorder, 'o) environment \<Rightarrow> ('p, 'o) application_request \<Rightarrow> ('p, 'o) restart_view \<Rightarrow>
   ('p, 'o, 'sel) journaled_application \<Rightarrow> ('p, 'o) state_projection \<Rightarrow> ('p, 'o) path_consequence list \<Rightarrow>
   ('p, 'o) completed_evidence \<Rightarrow> error + ('p, 'o) completed_evidence \<times> bool" where
  "select_completed E request v a state paths completed =
     (case view_completed v of
        None \<Rightarrow> Inr (completed, False)
      | Some retained \<Rightarrow>
          if evidence_kind retained \<noteq> plan_kind (request_plan request) \<or>
             evidence_request retained \<noteq> request_identity request \<or>
             evidence_plan retained \<noteq> plan_identity (request_plan request) \<or>
             evidence_attempt retained \<noteq> attempt_identity (journaled_attempt a) \<or>
             evidence_target retained \<noteq> context_identity (request_target request) \<or>
             evidence_control retained \<noteq> control_identity (request_control request) \<or>
             evidence_journal retained \<noteq> header_identity (journaled_header a)
          then Inl (Logic_error ''restart view completed evidence has another authority'')
          else
            rbind (completed_application_evidence E request (evidence_attempt retained)
              (evidence_projection retained) (evidence_journal retained) paths
              (evidence_durability retained) (evidence_backend retained)) (\<lambda>expected.
            if evidence_identity expected \<noteq> evidence_identity retained
            then Inl (Logic_error ''restart view completed evidence contradicts observations'')
            else if evidence_projection retained = projection_identity state
            then Inr (retained, False)
            else Inr (completed, True)))"

definition check_published ::
  "effect_progress \<Rightarrow> ('p, 'o) restart_view \<Rightarrow> ('p, 'o) completed_evidence \<Rightarrow> bool \<Rightarrow> error + unit" where
  "check_published current v completed refresh =
     throw_if (terminal current \<noteq> None \<and>
        (terminal current \<noteq> Some Completed \<or>
         (case view_completed v of None \<Rightarrow> True
            | Some retained \<Rightarrow> \<not> refresh \<and> evidence_identity retained \<noteq> evidence_identity completed)))
       (Logic_error ''restart completed-evidence restart view contradicts journal'')"

definition republish_evidence ::
  "('s, 'p, 'o, 'sel) engine \<Rightarrow> ('p, 'o) completed_evidence \<Rightarrow> digest \<Rightarrow> bool \<Rightarrow>
   ('p, 'o, 'sel) journaled_application \<Rightarrow>
   ('s, publication_result \<times> ('p, 'o, 'sel) journaled_application) io" where
  "republish_evidence W completed eff fresh a =
     io_bind (if fresh then restart_intent W a Result_observed eff else io_return a) (\<lambda>a.
     io_bind (tx_evidence (engine_transaction W) completed) (\<lambda>result.
     if publication_outcome result = Outcome_completed \<and>
        publication_record result \<noteq> Some (evidence_identity completed)
     then io_lift (Inl (Logic_error ''restart backend published another completed-evidence record''))
     else if \<not> fresh then io_return (result, a)
     else
       io_bind (io_lift (terminal_event (publication_outcome result))) (\<lambda>event.
       io_bind (io_lift (if publication_outcome result = Outcome_completed
         then encode_transition_fact (engine_environment W) (Fact_evidence completed)
         else Inr [])) (\<lambda>replayed.
       io_bind (restart_terminal W a Result_observed eff event (publication_evidence result) replayed)
         (\<lambda>a.
       io_return (result, a))))))"

definition resynchronize_evidence ::
  "('s, 'p, 'o, 'sel) engine \<Rightarrow> ('p, 'o) restart_view \<Rightarrow> bool \<Rightarrow> ('p, 'o, 'sel) journaled_application \<Rightarrow>
   ('s, durability_status \<times> ('p, 'o, 'sel) journaled_application) io" where
  "resynchronize_evidence W v refresh a =
     io_bind (io_lift (find_progress a Synchronize_completed_evidence None)) (\<lambda>(eff, current).
     if terminal current \<noteq> None \<and> \<not> refresh
     then io_lift (rbind (profile_status (view_durability v) Durable_completed_evidence)
       (\<lambda>status. Inr (status, a)))
     else
       io_bind (if terminal current = None then restart_intent W a Result_observed eff
         else io_return a) (\<lambda>a.
       io_bind (tx_synchronize (engine_transaction W) Durable_completed_evidence) (\<lambda>synchronized.
       if fact_domain synchronized \<noteq> Durable_completed_evidence
       then io_lift (Inl (Logic_error ''restart synchronized another completed-evidence domain''))
       else if terminal current \<noteq> None then io_return (fact_status synchronized, a)
       else
         io_bind (io_lift (durability_event (fact_status synchronized))) (\<lambda>event.
         io_bind (io_lift (encode_transition_fact (engine_environment W)
           (Fact_synchronization synchronized))) (\<lambda>replayed.
         io_bind (restart_terminal W a Result_observed eff event [] replayed) (\<lambda>a.
         io_return (fact_status synchronized, a)))))))"

definition reseal_unconfirmed ::
  "('s, 'p::linorder, 'o, 'sel) engine \<Rightarrow> ('p, 'o) application_request \<Rightarrow> ('p, 'o) state_projection \<Rightarrow>
   ('p, 'o, 'sel) active_mutated \<Rightarrow> ('p, 'o, 'sel) journaled_application \<Rightarrow>
   ('p, 'o) path_consequence list \<Rightarrow> digest list \<Rightarrow> bool \<Rightarrow>
   ('s, ('p, 'o) application_receipt) io" where
  "reseal_unconfirmed W request state m a paths evidence uncertain =
     io_bind (io_lift (rbind (with_evidence_durability (mutated_durability m)
         (if uncertain then Durability_indeterminate else Durability_unconfirmed)) (\<lambda>durability.
       completion_failure_receipt (engine_environment W) request a state
         (if uncertain then Attempt_indeterminate else Effects_visible_durability_unconfirmed)
         (if uncertain then Requires_authoritative_observation else Recovery_assets_retained)
         durability paths evidence))) (\<lambda>receipt.
     io_bind (restart_seal W a (if uncertain then Indeterminate else Effects_visible) receipt None)
       (\<lambda>_.
     io_return receipt))"

definition reseal_completion ::
  "('s, 'p::linorder, 'o, 'sel) engine \<Rightarrow> ('p, 'o, 'sel) active_mutated \<Rightarrow>
   ('p, 'o, 'sel) journaled_application \<Rightarrow> ('p, 'o) completed_evidence \<Rightarrow> digest list \<Rightarrow>
   ('s, ('p, 'o) application_receipt) io" where
  "reseal_completion W m a completed evidence =
     io_bind (io_lift (completed_receipt (engine_environment W) completed
       (if prepared_captures (published_prepared (mutated_rejected m)) = [] then Recovery_unchanged
        else Recovery_assets_retained) evidence)) (\<lambda>receipt.
     io_bind (restart_seal W a Application_completed receipt (Some (evidence_identity completed))) (\<lambda>_.
     io_return receipt))"

text \<open>After the evidence is published: synchronization and the receipt.\<close>

definition conclude_synchronization ::
  "('s, 'p::linorder, 'o, 'sel) engine \<Rightarrow> ('p, 'o) restart_view \<Rightarrow> ('p, 'o) application_request \<Rightarrow>
   ('p, 'o) state_projection \<Rightarrow> ('p, 'o, 'sel) active_mutated \<Rightarrow> ('p, 'o) path_consequence list \<Rightarrow>
   ('p, 'o) completed_evidence \<Rightarrow> bool \<Rightarrow> digest list \<Rightarrow> ('p, 'o, 'sel) journaled_application \<Rightarrow>
   ('s, ('p, 'o) application_receipt) io" where
  "conclude_synchronization W v request state m paths completed refresh evidence a =
     io_bind (resynchronize_evidence W v refresh a) (\<lambda>(status, a).
     if status \<noteq> Durability_confirmed
     then reseal_unconfirmed W request state m a paths evidence (status = Durability_indeterminate)
     else reseal_completion W m a completed evidence)"

definition conclude_publication ::
  "('s, 'p::linorder, 'o, 'sel) engine \<Rightarrow> ('p, 'o) restart_view \<Rightarrow> ('p, 'o) application_request \<Rightarrow>
   ('p, 'o) state_projection \<Rightarrow> ('p, 'o, 'sel) active_mutated \<Rightarrow> ('p, 'o) path_consequence list \<Rightarrow>
   ('p, 'o) completed_evidence \<Rightarrow> bool \<Rightarrow> digest list \<Rightarrow> ('p, 'o, 'sel) journaled_application \<Rightarrow>
   ('s, ('p, 'o) application_receipt) io" where
  "conclude_publication W v request state m paths completed refresh evidence a =
     io_bind (io_lift (find_progress a Publish_completed_evidence None)) (\<lambda>(eff, current).
     io_bind (io_lift (check_published current v completed refresh)) (\<lambda>_.
     if terminal current \<noteq> None \<and> \<not> refresh
     then conclude_synchronization W v request state m paths completed refresh evidence a
     else
       io_bind (republish_evidence W completed eff (terminal current = None) a) (\<lambda>(result, a).
       let evidence = append_unique_evidence evidence (publication_evidence result) in
       if publication_outcome result \<noteq> Outcome_completed
       then reseal_unconfirmed W request state m a paths evidence
         (publication_outcome result = Outcome_indeterminate)
       else conclude_synchronization W v request state m paths completed refresh evidence a)))"

definition conclude_resumed ::
  "('s, 'p::linorder, 'o, 'sel) engine \<Rightarrow> ('p, 'o) restart_view \<Rightarrow> ('p, 'o) application_request \<Rightarrow>
   ('p, 'o) state_projection \<Rightarrow> ('p, 'o, 'sel) active_mutated \<Rightarrow> ('p, 'o) path_consequence list \<Rightarrow>
   digest list \<Rightarrow> ('s, ('p, 'o) application_receipt) io" where
  "conclude_resumed W v request state m paths evidence =
     (let E = engine_environment W; a = published_journaled (mutated_rejected m) in
      io_bind (if journaled_state a \<noteq> Result_observed
        then journal_state_step W a Result_observed None None else io_return a) (\<lambda>a.
      io_bind (io_lift (rbind (with_evidence_durability (mutated_durability m) Durability_confirmed)
        (\<lambda>durability. make_completed_evidence E request a state paths durability evidence)))
        (\<lambda>completed.
      io_bind (io_lift (select_completed E request v a state paths completed)) (\<lambda>(completed, refresh).
      conclude_publication W v request state m paths completed refresh evidence a))))"

definition resume_completion ::
  "('s, 'p::linorder, 'o, 'sel) engine \<Rightarrow> ('p, 'o) restart_view \<Rightarrow> ('p, 'o, 'sel) active_mutated \<Rightarrow>
   ('p, 'o) application_request \<Rightarrow> ('p, 'o) state_projection \<Rightarrow> mutation_lease \<Rightarrow>
   package_image option \<Rightarrow> ('s, ('p, 'o, 'sel) completion) io" where
  "resume_completion W v m request state lease img =
     io_bind (io_lift (validate_completion_binding m request state lease img)) (\<lambda>_.
     io_bind (tx_observe (engine_transaction W) (result_paths (request_plan request))) (\<lambda>observed.
     let evidence = append_unique_evidence (view_evidence v) (batch_evidence observed) in
     io_bind (resume_observations W img observed (plan_paths (request_plan request))
       (False, False, [], m)) (\<lambda>(mismatch, indeterminate, paths, m).
     if mismatch \<or> indeterminate then interrupt_completion W m indeterminate evidence
     else io_bind (conclude_resumed W v request state m paths evidence)
       (\<lambda>receipt. io_return (Phase_stopped receipt)))))"

section \<open>The whole replay\<close>

definition replay_disposition ::
  "('p, 'o) environment \<Rightarrow> ('p, 'o, 'sel) journaled_application \<Rightarrow> error + restart_disposition" where
  "replay_disposition E a =
     (if journaled_state a = Recovery_pending \<or> journaled_state a = Recovering \<or>
         journaled_state a = Indeterminate
      then Inr Resume_recovery
      else
        rbind (history_snapshot E (journaled_history a)) (\<lambda>journal.
        rbind (assess_restart journal) (\<lambda>assessment. Inr (assessment_disposition assessment))))"

definition replay_forward ::
  "('s, 'p::linorder, 'o, 'sel) engine \<Rightarrow> ('p, 'o) restart_view \<Rightarrow> ('p, 'o, 'sel) rejected_published \<Rightarrow>
   ('p, 'o) application_request \<Rightarrow> ('p, 'o) state_projection \<Rightarrow> mutation_lease \<Rightarrow>
   package_image option \<Rightarrow> ('s, ('p, 'o) application_receipt) io" where
  "replay_forward W v r request state lease img =
     io_bind (resume_active W v r request state lease) (\<lambda>active.
     case active of
       Phase_stopped i \<Rightarrow> resume_recovery W v i request state lease
     | Phase_done m \<Rightarrow>
         io_bind (resume_completion W v m request state lease img) (\<lambda>completion.
         case completion of
           Phase_stopped receipt \<Rightarrow> io_return receipt
         | Phase_done i \<Rightarrow> resume_recovery W v i request state lease))"

definition finish_replay ::
  "('s, 'p::linorder, 'o, 'sel) engine \<Rightarrow> ('p, 'o) restart_view \<Rightarrow> ('p, 'o, 'sel) journaled_application \<Rightarrow>
   ('p, 'o) application_request \<Rightarrow> ('p, 'o) state_projection \<Rightarrow> mutation_lease \<Rightarrow>
   package_archive option \<Rightarrow> ('s, ('p, 'o) application_receipt) io" where
  "finish_replay W v a request state lease archive =
     io_bind (io_lift (replay_disposition (engine_environment W) a)) (\<lambda>disposition.
     io_bind (resume_preparation W v a request state lease archive) (\<lambda>preparation.
     case preparation of
       Phase_stopped receipt \<Rightarrow> io_return receipt
     | Phase_done prepared \<Rightarrow>
         io_bind (resume_rejected W v prepared request state lease) (\<lambda>publication.
         case publication of
           Phase_stopped receipt \<Rightarrow> io_return receipt
         | Phase_done r \<Rightarrow>
             if disposition = Resume_recovery
             then io_bind (restart_interruption W v r request)
               (\<lambda>i. resume_recovery W v i request state lease)
             else replay_forward W v r request state lease (map_option archive_image archive))))"

definition replay_incoming ::
  "('s, 'p::linorder, 'o, 'sel) engine \<Rightarrow> ('p, 'o) reopened_application \<Rightarrow>
   ('p, 'o) application_request \<Rightarrow> ('p, 'o) state_projection \<Rightarrow> mutation_lease \<Rightarrow> package_archive \<Rightarrow>
   ('s, ('p, 'o) application_receipt) io" where
  "replay_incoming W r request state lease archive =
     io_bind (io_lift (rebuild_incoming W r request state lease (archive_image archive))) (\<lambda>a.
     finish_replay W (reopening_view r) a request state lease (Some archive))"

definition replay_removal ::
  "('s, 'p::linorder, 'o, 'sel) engine \<Rightarrow> ('p, 'o) reopened_application \<Rightarrow>
   ('p, 'o) application_request \<Rightarrow> ('p, 'o) state_projection \<Rightarrow> mutation_lease \<Rightarrow>
   ('s, ('p, 'o) application_receipt) io" where
  "replay_removal W r request state lease =
     io_bind (io_lift (rebuild_removal W r request state lease)) (\<lambda>a.
     finish_replay W (reopening_view r) a request state lease None)"

definition resume_incoming ::
  "('s, 'p::linorder, 'o, 'sel) engine \<Rightarrow> ('p, 'o) application_request \<Rightarrow> incoming_authority \<Rightarrow>
   ('p, 'o) state_projection \<Rightarrow> mutation_lease \<Rightarrow> mutation_backend \<Rightarrow>
   (('p, 'o) restart_view \<Rightarrow> ('s, backend_transaction option) io) \<Rightarrow> digest \<Rightarrow> package_archive \<Rightarrow>
   ('s, ('p, 'o) application_receipt) io" where
  "resume_incoming W request incoming state lease backend resume_transaction declaration archive =
     io_bind (reopen_incoming W request incoming state lease backend resume_transaction declaration
       archive) (\<lambda>r. replay_incoming W r request state lease archive)"

definition resume_removal ::
  "('s, 'p::linorder, 'o, 'sel) engine \<Rightarrow> ('p, 'o) application_request \<Rightarrow>
   ('p, 'o) state_projection \<Rightarrow> mutation_lease \<Rightarrow> mutation_backend \<Rightarrow>
   (('p, 'o) restart_view \<Rightarrow> ('s, backend_transaction option) io) \<Rightarrow> digest \<Rightarrow>
   ('s, ('p, 'o) application_receipt) io" where
  "resume_removal W request state lease backend resume_transaction declaration =
     io_bind (reopen_removal W request state lease backend resume_transaction declaration)
       (\<lambda>r. replay_removal W r request state lease)"

end
