(* ===== verification/Reporting.thy ===== *)
theory Reporting
  imports Viewing
begin

text \<open>
  What a restart view says of the journal it was built from: the lookups by path find exactly the
  facts of the terminal steps, each fact agrees with its event, and no mechanism that ended is
  missing.  The resuming half of the engine decides by these lookups alone.
\<close>

section \<open>Slots\<close>

text \<open>One slot per path of the plan; a slot holds a fact of its own path only.\<close>

definition slots_fit :: "('v \<Rightarrow> 'p) \<Rightarrow> 'p list \<Rightarrow> 'v option list \<Rightarrow> bool" where
  "slots_fit key paths slots \<longleftrightarrow> list_all2 (\<lambda>p. pred_option (\<lambda>f. key f = p)) paths slots"

definition slots_hold :: "('v \<Rightarrow> 'p) \<Rightarrow> 'p list \<Rightarrow> 'v option list \<Rightarrow> 'v set \<Rightarrow> bool" where
  "slots_hold key paths slots held \<longleftrightarrow>
     slots_fit key paths slots \<and> set (materialize_path_slots slots) = held"

lemma materialize_simps [simp]:
  "materialize_path_slots [] = []"
  "materialize_path_slots (None # slots) = materialize_path_slots slots"
  "materialize_path_slots (Some f # slots) = f # materialize_path_slots slots"
  by (simp_all add: materialize_path_slots_def map_filter_def)

lemma slots_fit_Cons:
  "slots_fit key (p # ps) slots \<longleftrightarrow>
     (\<exists>s ss. slots = s # ss \<and> pred_option (\<lambda>f. key f = p) s \<and> slots_fit key ps ss)"
  by (auto simp: slots_fit_def list_all2_Cons1)

lemma slots_fit_Nil: "slots_fit key [] slots \<longleftrightarrow> slots = []"
  by (simp add: slots_fit_def)

lemma materialize_fit:
  "slots_fit key paths slots \<Longrightarrow> key ` set (materialize_path_slots slots) \<subseteq> set paths"
proof (induction paths arbitrary: slots)
  case (Cons p ps)
  then obtain s ss where slots: "slots = s # ss" "pred_option (\<lambda>f. key f = p) s" "slots_fit key ps ss"
    unfolding slots_fit_Cons by blast
  with Cons.IH [OF slots(3)] show ?case by (cases s) auto
qed (simp add: slots_fit_Nil)

lemma materialize_ascending:
  "slots_fit key paths slots \<Longrightarrow> sorted_wrt (<) paths \<Longrightarrow>
   sorted_wrt (<) (map key (materialize_path_slots slots))"
proof (induction paths arbitrary: slots)
  case (Cons p ps)
  then obtain s ss where slots: "slots = s # ss" "pred_option (\<lambda>f. key f = p) s" "slots_fit key ps ss"
    unfolding slots_fit_Cons by blast
  have "\<forall>f \<in> set (materialize_path_slots ss). p < key f"
    using materialize_fit [OF slots(3)] Cons.prems(2) by auto
  with Cons.IH [OF slots(3)] Cons.prems(2) slots(1,2) show ?case
    by (cases s) simp_all
qed (simp add: slots_fit_Nil)

lemma retain_held:
  "slots_hold key paths slots held \<Longrightarrow> ordinal < length paths \<Longrightarrow> paths ! ordinal = key f \<Longrightarrow>
   retain_path_fact slots ordinal f message = Inr slots' \<Longrightarrow> held' = insert f held \<Longrightarrow>
   slots_hold key paths slots' held'"
  unfolding slots_hold_def
proof (induction paths arbitrary: slots ordinal slots' held held')
  case (Cons p ps)
  then obtain s ss where slots: "slots = s # ss" "pred_option (\<lambda>f. key f = p) s" "slots_fit key ps ss"
    unfolding slots_fit_Cons by blast
  show ?case
  proof (cases ordinal)
    case 0
    with Cons.prems slots show ?thesis
      by (auto simp: retain_path_fact_def slots_fit_Cons split: if_splits)
  next
    case (Suc n)
    with Cons.prems slots obtain ss' where rest: "retain_path_fact ss n f message = Inr ss'"
      "slots' = s # ss'"
      by (auto simp: retain_path_fact_def split: if_splits)
    have "slots_fit key ps ss' \<and>
        set (materialize_path_slots ss') = insert f (set (materialize_path_slots ss))"
      using Cons.IH [of ss _ n ss'] Cons.prems(2,3) slots(3) rest(1) Suc by simp
    with slots rest Cons.prems(1,5) show ?thesis by (cases s) (auto simp: slots_fit_Cons)
  qed
qed simp

lemma slots_empty: "slots_hold key paths (replicate (length paths) None) {}"
  unfolding slots_hold_def by (induction paths) (auto simp: slots_fit_Cons slots_fit_Nil)

text \<open>The lookups of the view are lower bounds; the slots are in the order of the paths.\<close>

lemma held_found:
  assumes "slots_hold key paths slots held" and "sorted_wrt (<) paths"
  shows "find_sorted key (materialize_path_slots slots) p = Some f \<longleftrightarrow> f \<in> held \<and> key f = p"
proof -
  let ?xs = "materialize_path_slots slots"
  have ascending: "sorted_wrt (<) (map key ?xs)"
    using assms materialize_ascending unfolding slots_hold_def by blast
  then have sorted: "sorted (map key ?xs)" and distinct: "distinct (map key ?xs)"
    by (simp_all add: strict_sorted_iff)
  have "distinct (map fst (map (\<lambda>x. (key x, x)) ?xs))"
    using distinct by (simp add: comp_def)
  then have "map_of (map (\<lambda>x. (key x, x)) ?xs) p = Some f \<longleftrightarrow> f \<in> set ?xs \<and> key f = p"
    by (auto dest: map_of_SomeD intro: map_of_is_SomeI)
  with find_sorted_map_of [OF sorted] assms(1) show ?thesis
    by (simp add: slots_hold_def)
qed

lemma effect_found:
  fixes slots :: "('p::linorder, 'x) restart_effect option list"
  assumes "slots_hold restart_path paths slots {e. F (restart_path e) (restart_result e)}"
    and "sorted_wrt (<) paths"
  shows "map_option restart_result (find_sorted restart_path (materialize_path_slots slots) p) = Some x
    \<longleftrightarrow> F p x"
  using held_found [OF assms] by (auto intro: exI [of _ "\<lparr>restart_path = p, restart_result = x\<rparr>"])

section \<open>Ordinals\<close>

lemma ordinals_from:
  assumes "plan_path_ordinals_from E ordinal previous index paths = Inr index'" and "path_texts E"
    and "\<And>p i. index (path_string E p) = Some i \<Longrightarrow> P p i"
    and "\<And>k. k < length paths \<Longrightarrow> P (paths ! k) (ordinal + k)"
  shows "(case previous of None \<Rightarrow> True | Some q \<Rightarrow> list_all (\<lambda>p. q < p) paths) \<and>
    sorted_wrt (<) paths \<and> (\<forall>p i. index' (path_string E p) = Some i \<longrightarrow> P p i)"
  using assms(1,3,4)
proof (induction paths arbitrary: ordinal previous index)
  case Nil
  then show ?case by (simp split: option.splits)
next
  case (Cons path paths)
  have injective: "path_string E p = path_string E path \<Longrightarrow> p = path" for p
    using assms(2) unfolding path_texts_def by (metis sum.inject(2))
  have "P p i" if "(index(path_string E path \<mapsto> ordinal)) (path_string E p) = Some i" for p i
    using that Cons.prems(2) Cons.prems(3) [of 0] injective by (auto split: if_splits)
  moreover have "P (paths ! k) (Suc ordinal + k)" if "k < length paths" for k
    using Cons.prems(3) [of "Suc k"] that by simp
  moreover have rest: "plan_path_ordinals_from E (Suc ordinal) (Some path)
      (index(path_string E path \<mapsto> ordinal)) paths = Inr index'"
    and previous: "case previous of None \<Rightarrow> True | Some q \<Rightarrow> q < path"
    using Cons.prems(1) by (auto split: if_splits option.splits)
  ultimately have "list_all (\<lambda>p. path < p) paths \<and> sorted_wrt (<) paths \<and>
      (\<forall>p i. index' (path_string E p) = Some i \<longrightarrow> P p i)"
    using Cons.IH [OF rest] by simp
  with previous show ?case
    by (auto simp: list_all_iff split: option.splits)
qed

lemma plan_ordinals:
  assumes "plan_path_ordinals E plan = Inr index" and "path_texts E"
    and paths: "map decision_path (plan_paths plan) = paths"
  shows "sorted_wrt (<) paths"
    and "path_ordinal E index p = Inr i \<Longrightarrow> i < length paths \<and> paths ! i = p"
proof -
  have "plan_path_ordinals_from E 0 None (\<lambda>_. None) paths = Inr index"
    using assms(1) by (simp add: plan_path_ordinals_def paths)
  from ordinals_from [OF this assms(2), of "\<lambda>p i. i < length paths \<and> paths ! i = p"]
  show "sorted_wrt (<) paths"
    and "path_ordinal E index p = Inr i \<Longrightarrow> i < length paths \<and> paths ! i = p"
    by (auto simp: path_ordinal_def split: option.splits)
qed

section \<open>Facts\<close>

text \<open>A step settles an effect when it carries a terminal event of it; it tells the fact it decodes to.\<close>

definition settles :: "('p, 'o) history \<Rightarrow> journal_step \<Rightarrow> 'p journal_effect \<Rightarrow> journal_event \<Rightarrow> bool" where
  "settles h step eff ev \<longleftrightarrow> step_event step = Some ev \<and> event_kind ev \<noteq> Intent \<and>
     history_effect h (event_effect ev) = Inr eff"

definition step_tells ::
  "('p::linorder, 'o) environment \<Rightarrow> ('p, 'o) application_request \<Rightarrow> journal_step \<Rightarrow>
   ('p, 'o) replay_fact \<Rightarrow> bool" where
  "step_tells E request step f \<longleftrightarrow> step_fact step \<noteq> [] \<and>
     require_decoded (decode_replay_fact E request (step_fact step)) = Inr f"

text \<open>A fact agrees with the event and the effect it settles.\<close>

fun fact_settles :: "'p journal_effect \<Rightarrow> journal_event \<Rightarrow> ('p, 'o) replay_fact \<Rightarrow> bool" where
  "fact_settles eff ev (Fact_payload r) \<longleftrightarrow> effect_kind eff = Stage_incoming_payload \<and>
     replayed_event (operation_outcome r) = Inr (event_kind ev) \<and>
     event_evidence ev = operation_evidence r"
| "fact_settles eff ev (Fact_capture c) \<longleftrightarrow> effect_kind eff = Capture_old_object \<and>
     effect_path eff = Some (restart_capture_path c) \<and> event_evidence ev = capture_evidence c \<and>
     (replayed_event (capture_outcome c) = Inr (event_kind ev) \<or>
      capture_outcome c = Outcome_completed \<and> \<not> exact_recovery_possible c \<and> event_kind ev = Failed)"
| "fact_settles eff ev (Fact_rejected p r) \<longleftrightarrow> effect_kind eff = Publish_rejected_object \<and>
     effect_path eff = Some p \<and> replayed_event (publication_outcome r) = Inr (event_kind ev) \<and>
     event_evidence ev = publication_evidence r"
| "fact_settles eff ev (Fact_active p r) \<longleftrightarrow> effect_kind eff = Publish_active_object \<and>
     effect_path eff = Some p \<and> replayed_active_event (operation_outcome r) = Inr (event_kind ev) \<and>
     event_evidence ev = operation_evidence r"
| "fact_settles eff ev (Fact_recovery p r) \<longleftrightarrow> effect_kind eff = Recover_active_object \<and>
     effect_path eff = Some p \<and> replayed_event (operation_outcome r) = Inr (event_kind ev) \<and>
     event_evidence ev = operation_evidence r"
| "fact_settles eff ev (Fact_synchronization d) \<longleftrightarrow>
     synchronization_domain (effect_kind eff) = Inr (fact_domain d) \<and>
     replayed_durability_event (fact_status d) = Inr (event_kind ev) \<and> event_evidence ev = []"
| "fact_settles eff ev (Fact_evidence e) \<longleftrightarrow> effect_kind eff = Publish_completed_evidence \<and>
     event_kind ev = Completed"

lemmas retain_defs = retain_payload_def retain_capture_def retain_rejected_def retain_active_def
  retain_recovery_def retain_synchronization_def retain_evidence_def

lemma capture_settles:
  assumes "retain_capture E control index requests eff ev f v = Inr v'"
    and "effect_kind eff = Capture_old_object"
  shows "fact_settles eff ev f"
proof (cases f)
  case (Fact_capture c)
  with assms(1) obtain request where
    "effect_path eff = Some (restart_capture_path c)" "event_evidence ev = capture_evidence c"
    "replayed_event (replayed_capture_outcome control request c) = Inr (event_kind ev)"
    by (auto simp: retain_capture_def result_simps split: if_splits option.splits)
  with assms(2) Fact_capture show ?thesis
    by (auto simp: replayed_capture_outcome_def split: if_splits)
qed (use assms(1) in \<open>simp_all add: retain_capture_def\<close>)

lemma payload_settles:
  "retain_payload ev f v = Inr v' \<Longrightarrow> effect_kind eff = Stage_incoming_payload \<Longrightarrow> fact_settles eff ev f"
  by (cases f) (auto simp: retain_payload_def result_simps split: if_splits)

lemma rejected_settles:
  "retain_rejected E index eff ev f v = Inr v' \<Longrightarrow> effect_kind eff = Publish_rejected_object \<Longrightarrow>
   fact_settles eff ev f"
  by (cases f) (auto simp: retain_rejected_def result_simps split: if_splits)

lemma active_settles:
  "retain_active E plan index eff ev f v = Inr v' \<Longrightarrow> effect_kind eff = Publish_active_object \<Longrightarrow>
   fact_settles eff ev f"
  by (cases f) (auto simp: retain_active_def result_simps split: if_splits)

lemma recovery_settles:
  "retain_recovery E index eff ev f v = Inr v' \<Longrightarrow> effect_kind eff = Recover_active_object \<Longrightarrow>
   fact_settles eff ev f"
  by (cases f) (auto simp: retain_recovery_def result_simps split: if_splits)

lemma synchronization_settles:
  "retain_synchronization eff ev f v = Inr v' \<Longrightarrow> fact_settles eff ev f"
  by (cases f) (auto simp: retain_synchronization_def result_simps split: if_splits)

lemma evidence_settles:
  "retain_evidence request header ev f v = Inr v' \<Longrightarrow>
   effect_kind eff = Publish_completed_evidence \<Longrightarrow> fact_settles eff ev f"
  by (cases f) (auto simp: retain_evidence_def result_simps split: if_splits)

lemma retained_settles:
  assumes "retain_fact E request header index requests eff ev f v = Inr v'"
  shows "fact_settles eff ev f"
  using assms unfolding retain_fact_def
  by (cases "effect_kind eff") (auto intro: capture_settles payload_settles rejected_settles
      active_settles recovery_settles synchronization_settles evidence_settles)

definition view_holds ::
  "'p list \<Rightarrow> ('p, 'o) view_slots \<Rightarrow> ('p, 'o) replay_fact set \<Rightarrow> bool" where
  "view_holds paths v fs \<longleftrightarrow>
     slots_hold restart_capture_path paths (slot_captures v) {c. Fact_capture c \<in> fs} \<and>
     slots_hold restart_path paths (slot_rejected v)
       {e. Fact_rejected (restart_path e) (restart_result e) \<in> fs} \<and>
     slots_hold restart_path paths (slot_active v)
       {e. Fact_active (restart_path e) (restart_result e) \<in> fs} \<and>
     slots_hold restart_path paths (slot_recovery v)
       {e. Fact_recovery (restart_path e) (restart_result e) \<in> fs}"

lemma slot_updates [simp]:
  "slot_captures (set_durability d s v) = slot_captures v"
  "slot_rejected (set_durability d s v) = slot_rejected v"
  "slot_active (set_durability d s v) = slot_active v"
  "slot_recovery (set_durability d s v) = slot_recovery v"
  "slot_captures (set_outcome_durability d s' v) = slot_captures v"
  "slot_rejected (set_outcome_durability d s' v) = slot_rejected v"
  "slot_active (set_outcome_durability d s' v) = slot_active v"
  "slot_recovery (set_outcome_durability d s' v) = slot_recovery v"
  by (simp_all add: set_outcome_durability_def set_durability_def)

lemma capture_retained:
  assumes "retain_capture E control index requests eff ev (Fact_capture c) v = Inr v'"
  shows "\<exists>i slots. path_ordinal E index (restart_capture_path c) = Inr i \<and>
    retain_path_fact (slot_captures v) i c ''duplicate application replay capture path'' = Inr slots \<and>
    v' = set_durability Durable_recovery_staging (staged_status (capture_outcome c))
      (v\<lparr>slot_captures := slots\<rparr>)"
proof -
  obtain i request where i: "path_ordinal E index (restart_capture_path c) = Inr i"
    and "requests ! i = Some request"
    using assms by (auto simp: retain_capture_def rbind_Inr_iff split: if_splits option.splits)
  then show ?thesis
    using assms by (simp add: retain_capture_def rbind_Inr_iff split: if_splits) blast
qed

lemma told_insert:
  "{e. restart_path e = p \<and> restart_result e = r \<or> Q e} =
     insert \<lparr>restart_path = p, restart_result = r\<rparr> {e. Q e}"
  by (auto intro: restart_effect.equality)

lemma told_capture: "{c. c = d \<or> Q c} = insert d {c. Q c}"
  by auto

lemma retained_holds:
  assumes retained: "retain_fact E request header index requests eff ev f v = Inr v'"
    and ordinals: "\<And>p i. path_ordinal E index p = Inr i \<Longrightarrow> i < length paths \<and> paths ! i = p"
    and "view_holds paths v fs"
  shows "view_holds paths v' (insert f fs)"
proof (cases f)
  case (Fact_payload r)
  with retained retained_settles [OF retained] have "retain_payload ev f v = Inr v'"
    by (simp add: retain_fact_def)
  with Fact_payload assms(3) show ?thesis
    by (auto simp: view_holds_def retain_payload_def result_simps split: if_splits)
next
  case (Fact_capture c)
  with retained retained_settles [OF retained]
  have "retain_capture E (request_control request) index requests eff ev f v = Inr v'"
    by (simp add: retain_fact_def)
  from capture_retained [OF this [unfolded Fact_capture]] obtain i slots where
    i: "path_ordinal E index (restart_capture_path c) = Inr i"
    and slots: "retain_path_fact (slot_captures v) i c ''duplicate application replay capture path'' = Inr slots"
    and v': "v' = set_durability Durable_recovery_staging (staged_status (capture_outcome c))
      (v\<lparr>slot_captures := slots\<rparr>)"
    by blast
  have "slots_hold restart_capture_path paths slots (insert c {c. Fact_capture c \<in> fs})"
    by (rule retain_held [OF _ _ _ slots refl])
      (use ordinals [OF i] assms(3) in \<open>simp_all add: view_holds_def\<close>)
  with v' assms(3) Fact_capture show ?thesis
    by (simp add: view_holds_def told_capture)
next
  case (Fact_rejected p r)
  with retained retained_settles [OF retained] have "retain_rejected E index eff ev f v = Inr v'"
    by (simp add: retain_fact_def)
  with Fact_rejected obtain i slots where i: "path_ordinal E index p = Inr i"
    and slots: "retain_path_fact (slot_rejected v) i \<lparr>restart_path = p, restart_result = r\<rparr>
      ''duplicate application replay rejected path'' = Inr slots"
    and v': "v' = set_outcome_durability Durable_rejected_store (publication_outcome r)
      (v\<lparr>slot_rejected := slots\<rparr>)"
    by (auto simp: retain_rejected_def result_simps split: if_splits)
  have "slots_hold restart_path paths slots (insert \<lparr>restart_path = p, restart_result = r\<rparr>
      {e. Fact_rejected (restart_path e) (restart_result e) \<in> fs})"
    by (rule retain_held [OF _ _ _ slots refl])
      (use ordinals [OF i] assms(3) in \<open>simp_all add: view_holds_def\<close>)
  with v' assms(3) Fact_rejected show ?thesis
    by (simp add: view_holds_def told_insert)
next
  case (Fact_active p r)
  with retained retained_settles [OF retained]
  have "retain_active E (request_plan request) index eff ev f v = Inr v'"
    by (simp add: retain_fact_def)
  with Fact_active obtain i slots where i: "path_ordinal E index p = Inr i"
    and slots: "retain_path_fact (slot_active v) i \<lparr>restart_path = p, restart_result = r\<rparr>
      ''duplicate application replay active path'' = Inr slots"
    and v': "slot_active v' = slots" "slot_captures v' = slot_captures v"
      "slot_rejected v' = slot_rejected v" "slot_recovery v' = slot_recovery v"
    by (auto simp: retain_active_def result_simps Let_def split: if_splits)
  have "slots_hold restart_path paths slots (insert \<lparr>restart_path = p, restart_result = r\<rparr>
      {e. Fact_active (restart_path e) (restart_result e) \<in> fs})"
    by (rule retain_held [OF _ _ _ slots refl])
      (use ordinals [OF i] assms(3) in \<open>simp_all add: view_holds_def\<close>)
  with v' assms(3) Fact_active show ?thesis
    by (simp add: view_holds_def told_insert)
next
  case (Fact_recovery p r)
  with retained retained_settles [OF retained] have "retain_recovery E index eff ev f v = Inr v'"
    by (simp add: retain_fact_def)
  with Fact_recovery obtain i slots where i: "path_ordinal E index p = Inr i"
    and slots: "retain_path_fact (slot_recovery v) i \<lparr>restart_path = p, restart_result = r\<rparr>
      ''duplicate application replay recovery path'' = Inr slots"
    and v': "v' = set_outcome_durability Durable_active_namespace (operation_outcome r)
      (v\<lparr>slot_recovery := slots\<rparr>)"
    by (auto simp: retain_recovery_def result_simps split: if_splits)
  have "slots_hold restart_path paths slots (insert \<lparr>restart_path = p, restart_result = r\<rparr>
      {e. Fact_recovery (restart_path e) (restart_result e) \<in> fs})"
    by (rule retain_held [OF _ _ _ slots refl])
      (use ordinals [OF i] assms(3) in \<open>simp_all add: view_holds_def\<close>)
  with v' assms(3) Fact_recovery show ?thesis
    by (simp add: view_holds_def told_insert)
next
  case (Fact_synchronization d)
  with retained_settles [OF retained]
  have domain: "synchronization_domain (effect_kind eff) = Inr (fact_domain d)" by simp
  have "retain_synchronization eff ev f v = Inr v'"
    using retained domain by (cases "effect_kind eff") (simp_all add: retain_fact_def)
  with Fact_synchronization assms(3) show ?thesis
    by (auto simp: view_holds_def retain_synchronization_def result_simps split: if_splits)
next
  case (Fact_evidence e)
  with retained retained_settles [OF retained] have "retain_evidence request header ev f v = Inr v'"
    by (simp add: retain_fact_def)
  with Fact_evidence assms(3) show ?thesis
    by (auto simp: view_holds_def retain_evidence_def result_simps split: if_splits)
qed

lemma retained_step:
  assumes "retain_step E h request index requests step v = Inr v'"
    and ordinals: "\<And>p i. path_ordinal E index p = Inr i \<Longrightarrow> i < length paths \<and> paths ! i = p"
    and holds: "view_holds paths v fs"
  shows "view_holds paths v' (fs \<union> {f. \<exists>eff ev. settles h step eff ev \<and> step_tells E request step f})"
    and "settles h step eff ev \<Longrightarrow> factless (effect_kind eff) (event_kind ev) \<or>
      (\<exists>f. step_tells E request step f \<and> fact_settles eff ev f)"
proof -
  let ?told = "{f. \<exists>eff ev. settles h step eff ev \<and> step_tells E request step f}"
  have "view_holds paths v' (fs \<union> ?told) \<and> (\<forall>eff ev. settles h step eff ev \<longrightarrow>
      factless (effect_kind eff) (event_kind ev) \<or>
      (\<exists>f. step_tells E request step f \<and> fact_settles eff ev f))"
  proof (cases "\<exists>eff ev. settles h step eff ev")
    case False
    then have "v' = v" and "?told = {}"
      using assms(1) by (auto simp: retain_step_def settles_def result_simps split: option.splits if_splits)
    with holds False show ?thesis by auto
  next
    case True
    then obtain eff ev where settled: "settles h step eff ev" by blast
    then have unique: "settles h step eff' ev' \<longleftrightarrow> eff' = eff \<and> ev' = ev" for eff' ev'
      by (auto simp: settles_def)
    let ?v = "v\<lparr>slot_evidence := append_first_evidence (slot_evidence v) (event_evidence ev)\<rparr>"
    have kept: "view_holds paths ?v fs"
      using holds by (simp add: view_holds_def)
    show ?thesis
    proof (cases "step_fact step = []")
      case True
      with assms(1) settled have "v' = ?v" and "factless (effect_kind eff) (event_kind ev)"
        by (auto simp: retain_step_def settles_def result_simps split: if_splits)
      with True kept show ?thesis by (auto simp: step_tells_def unique)
    next
      case False
      with assms(1) settled obtain f where
        f: "require_decoded (decode_replay_fact E request (step_fact step)) = Inr f"
          "retain_fact E request (declaration_header (history_declaration h)) index requests eff ev f ?v
            = Inr v'"
        by (auto simp: retain_step_def settles_def result_simps Let_def)
      then have "?told = {f}"
        using False settled by (auto simp: step_tells_def)
      with f False retained_settles [OF f(2)] retained_holds [OF f(2) ordinals kept] show ?thesis
        by (auto simp: unique step_tells_def)
    qed
  qed
  then show "view_holds paths v' (fs \<union> ?told)"
    and "settles h step eff ev \<Longrightarrow> factless (effect_kind eff) (event_kind ev) \<or>
      (\<exists>f. step_tells E request step f \<and> fact_settles eff ev f)" by blast+
qed

lemma retained_steps:
  assumes "rfold (retain_step E h request index requests) steps v = Inr v'"
    and ordinals: "\<And>p i. path_ordinal E index p = Inr i \<Longrightarrow> i < length paths \<and> paths ! i = p"
    and "view_holds paths v fs"
  shows "view_holds paths v' (fs \<union> {f. \<exists>step \<in> set steps. \<exists>eff ev.
      settles h step eff ev \<and> step_tells E request step f}) \<and>
    (\<forall>step \<in> set steps. \<forall>eff ev. settles h step eff ev \<longrightarrow>
      factless (effect_kind eff) (event_kind ev) \<or>
      (\<exists>f. step_tells E request step f \<and> fact_settles eff ev f))"
  using assms(1,3)
proof (induction steps arbitrary: v fs)
  case (Cons step steps)
  then obtain w where w: "retain_step E h request index requests step v = Inr w"
    "rfold (retain_step E h request index requests) steps w = Inr v'"
    by (auto simp: result_simps)
  have "A \<union> {f. \<exists>eff ev. settles h step eff ev \<and> step_tells E request step f} \<union>
      {f. \<exists>s \<in> set steps. \<exists>eff ev. settles h s eff ev \<and> step_tells E request s f} =
    A \<union> {f. \<exists>s \<in> set (step # steps). \<exists>eff ev. settles h s eff ev \<and> step_tells E request s f}" for A
    by auto
  with Cons.IH [OF w(2) retained_step(1) [OF w(1) ordinals Cons.prems(2)]]
    retained_step(2) [OF w(1) ordinals Cons.prems(2)] show ?case
    by auto
qed simp

section \<open>The view\<close>

definition reported ::
  "('p::linorder, 'o) environment \<Rightarrow> ('p, 'o) application_request \<Rightarrow> ('p, 'o) history \<Rightarrow>
   ('p, 'o) replay_fact \<Rightarrow> bool" where
  "reported E request h f \<longleftrightarrow>
     (\<exists>step \<in> set (history_steps h). \<exists>eff ev. settles h step eff ev \<and> step_tells E request step f)"

text \<open>
  C35: the view of a reopened journal is the journal.  Its lookups, which are lower bounds in the order
  of the plan, find for every path exactly the capture, the rejected and active publication and the
  recovery that a terminal step of the history tells of; and every terminal step whose event may not
  stand alone tells a fact that agrees with its effect in kind and path and with its event in outcome
  and evidence.
\<close>

theorem view_reports_journal:
  assumes texts: "path_texts E" and built: "build_view E h request = Inr v"
  shows "(find_restart_active v p = Some a \<longleftrightarrow> reported E request h (Fact_active p a)) \<and>
    (find_restart_recovery v p = Some b \<longleftrightarrow> reported E request h (Fact_recovery p b)) \<and>
    (find_restart_rejected v p = Some q \<longleftrightarrow> reported E request h (Fact_rejected p q)) \<and>
    (find_restart_capture v p = Some c \<longleftrightarrow>
       reported E request h (Fact_capture c) \<and> restart_capture_path c = p) \<and>
    (\<forall>step \<in> set (history_steps h). \<forall>eff ev. settles h step eff ev \<longrightarrow>
       factless (effect_kind eff) (event_kind ev) \<or>
       (\<exists>f. step_tells E request step f \<and> fact_settles eff ev f))"
proof -
  define paths where "paths = map decision_path (plan_paths (request_plan request))"
  obtain admitted index requests w where
    index: "plan_path_ordinals E (request_plan request) = Inr index"
    and steps: "rfold (retain_step E h request index requests) (history_steps h)
      (initial_slots (length paths) (batch_evidence admitted)) = Inr w"
    and view: "view_of_slots h admitted w = Inr v"
    using built by (auto simp: build_view_def Let_def result_simps paths_def split: if_splits)
  note ordinals = plan_ordinals [OF index texts paths_def [symmetric]]
  have "view_holds paths (initial_slots (length paths) (batch_evidence admitted)) {}"
    by (simp add: view_holds_def initial_slots_def slots_empty)
  from retained_steps [OF steps ordinals(2) this]
  have holds: "view_holds paths w {f. reported E request h f}"
    and settled: "\<forall>step \<in> set (history_steps h). \<forall>eff ev. settles h step eff ev \<longrightarrow>
      factless (effect_kind eff) (event_kind ev) \<or>
      (\<exists>f. step_tells E request step f \<and> fact_settles eff ev f)"
    by (simp_all add: reported_def)
  have fields: "view_captures v = materialize_path_slots (slot_captures w)"
    "view_rejected v = materialize_path_slots (slot_rejected w)"
    "view_active v = materialize_path_slots (slot_active w)"
    "view_recovery v = materialize_path_slots (slot_recovery w)"
    using view by (auto simp: view_of_slots_def result_simps)
  note found = effect_found [OF _ ordinals(1)]
  have active: "find_restart_active v p = Some a \<longleftrightarrow> reported E request h (Fact_active p a)"
    unfolding find_restart_active_def fields
    by (rule found) (use holds in \<open>simp add: view_holds_def\<close>)
  have recovery: "find_restart_recovery v p = Some b \<longleftrightarrow> reported E request h (Fact_recovery p b)"
    unfolding find_restart_recovery_def fields
    by (rule found) (use holds in \<open>simp add: view_holds_def\<close>)
  have rejected: "find_restart_rejected v p = Some q \<longleftrightarrow> reported E request h (Fact_rejected p q)"
    unfolding find_restart_rejected_def fields
    by (rule found) (use holds in \<open>simp add: view_holds_def\<close>)
  have "find_restart_capture v p = Some c \<longleftrightarrow>
      c \<in> {c. reported E request h (Fact_capture c)} \<and> restart_capture_path c = p"
    unfolding find_restart_capture_def fields
    by (rule held_found [OF _ ordinals(1)]) (use holds in \<open>simp add: view_holds_def\<close>)
  with active recovery rejected settled show ?thesis by blast
qed

text \<open>A removal whose one active publication completed before the crash.\<close>

definition viewed_effect :: "8 word journal_effect" where
  "viewed_effect = \<lparr>effect_identity = 0, effect_ordinal = 0, effect_kind = Publish_active_object,
     effect_path = Some 1\<rparr>"

definition viewed_result :: operation_result where
  "viewed_result = \<lparr>operation_outcome = Outcome_completed, operation_evidence = [3]\<rparr>"

definition viewed_event :: journal_event where
  "viewed_event = \<lparr>event_sequence = 1, event_kind = Completed, event_effect = 0, event_evidence = [3]\<rparr>"

definition viewed_step :: journal_step where
  "viewed_step = sample_step\<lparr>step_event := Some viewed_event,
     step_fact := replay_append_fact sample_paths (Fact_active (1 :: 8 word) viewed_result :: (8 word, 8 word) replay_fact)\<rparr>"

definition viewed_declaration :: "(8 word, 8 word) journal_declaration" where
  "viewed_declaration = sample_declaration\<lparr>declaration_effects := [viewed_effect],
     declaration_seed := replay_append_batch sample_paths (replay_writer Tag_seed) Replay.sample_batch\<rparr>"

definition viewed_history :: "(8 word, 8 word) history" where
  "viewed_history = sample_history\<lparr>history_declaration := viewed_declaration, history_steps := [viewed_step]\<rparr>"

lemma sample_seed_decoded:
  "decode_replay_seed sample_paths
     (replay_append_batch sample_paths (replay_writer Tag_seed) Replay.sample_batch) = Inr Replay.sample_batch"
proof (rule decode_written_seed)
  show "path_texts sample_paths" using sample_replayable by (simp add: replayable_def)
  have "observation_path (consequence_before sample_removed) = 1" by (simp add: sample_removed_def)
  then show "batch_fits sample_paths sample_batch"
    using sample_observations_ok
    by (simp add: batch_fits_def sample_batch_def make_batch_def Backend.normalize_paths_def
        Backend.normalize_backend_evidence_def maximum_item_count_def maximum_text_size_def sample_paths_def
        Let_def)
  show "length (replay_append_batch sample_paths (replay_writer Tag_seed) sample_batch) \<le> maximum_replay_size"
    by (simp add: Let_def replay_append_batch_def sample_batch_def replay_append_evidence_def
        append_counted_def replay_append_observation_def sample_removed_def replay_append_object_def
        append_path_text_def append_fact_def append_lengths sample_replay_header sample_paths_def
        maximum_replay_size_def)
qed

lemma viewed_decoded:
  "decode_replay_fact sample_paths Result.sample_removal_request
     (replay_append_fact sample_paths (Fact_active 1 viewed_result)) = Inr (Fact_active 1 viewed_result)"
  by (rule decode_written_fact [OF sample_replayable])
    (simp_all add: Let_def viewed_result_def result_ok_def make_operation_result_def Backend.normalize_backend_evidence_def maximum_item_count_def
      sample_paths_def maximum_text_size_def append_path_text_def replay_append_result_def
      replay_append_evidence_def append_counted_def append_lengths sample_replay_header maximum_replay_size_def)

lemma viewed_fact: "step_fact viewed_step \<noteq> []"
proof -
  have "length (step_fact viewed_step) > 0"
    by (simp add: viewed_step_def viewed_result_def append_path_text_def replay_append_result_def
      replay_append_evidence_def append_counted_def append_lengths)
  then show ?thesis by blast
qed

lemma viewed_check:
  "make_check (plan_preconditions sample_plan) Replay.sample_batch =
     Inr \<lparr>check_observations = Replay.sample_batch, check_failures = []\<rparr>"
  by code_simp

lemma viewed_index: "plan_path_ordinals sample_paths sample_plan = Inr [[1] \<mapsto> 0]"
  by (simp add: plan_path_ordinals_def sample_plan_def sample_paths_def)


definition viewed_slots :: "(8 word, 8 word) view_slots" where
  "viewed_slots = (initial_slots 1 [9])
     \<lparr>slot_active := [Some \<lparr>restart_path = 1, restart_result = viewed_result\<rparr>],
      slot_durability := (slot_durability (initial_slots 1 [9] :: (8 word, 8 word) view_slots))[3 := Durability_visible], slot_evidence := [9, 3]\<rparr>"

lemma viewed_retained:
  "retain_step sample_paths viewed_history Result.sample_removal_request [[1] \<mapsto> 0] requests viewed_step
     (initial_slots 1 [9]) = Inr viewed_slots"
  using viewed_decoded viewed_fact
  by (simp add: retain_step_def viewed_history_def viewed_declaration_def history_effect_def effect_at_def
    sample_history_def sample_declaration_def viewed_step_def viewed_event_def viewed_effect_def
    require_decoded_def retain_fact_def retain_active_def viewed_result_def replayed_active_event_def
    path_ordinal_def sample_paths_def retain_path_fact_def initial_slots_def viewed_slots_def Let_def
    active_result_changed_target_def set_durability_def Result.sample_removal_request_def sample_plan_def)

lemma viewed_built: "\<exists>v. build_view sample_paths viewed_history Result.sample_removal_request = Inr v"
proof -
  have "\<exists>v. view_of_slots viewed_history Replay.sample_batch viewed_slots = Inr v"
    by (simp add: view_of_slots_def durability_profile_of_def viewed_slots_def initial_slots_def make_profile_def Let_def rbind_Inr_iff)
  moreover have "rfold (index_capture sample_paths [[1] \<mapsto> 0]) (capture_requests sample_captures) [None] =
      Inr [Some (capture_requests sample_captures ! 0)]"
    by (simp add: sample_captures_def index_capture_def path_ordinal_def sample_paths_def)
  moreover have "request_plan Result.sample_removal_request = sample_plan"
    "request_control Result.sample_removal_request = sample_control"
    "length (plan_paths sample_plan) = 1" "batch_evidence Replay.sample_batch = [9]"
    "history_steps viewed_history = [viewed_step]"
    "declaration_seed (history_declaration viewed_history) =
       replay_append_batch sample_paths (replay_writer Tag_seed) Replay.sample_batch"
    by (simp_all add: Result.sample_removal_request_def sample_plan_def Replay.sample_batch_def
        viewed_history_def viewed_declaration_def)
  ultimately show ?thesis
    using sample_seed_decoded viewed_check sample_captures_prepared viewed_index viewed_retained
    by (simp add: build_view_def require_decoded_def satisfied_def del: length_greater_0_conv)
qed

theorem view_reports_journal_witness:
  "\<exists>v. build_view sample_paths viewed_history Result.sample_removal_request = Inr v \<and>
     find_restart_active v 1 = Some viewed_result \<and> find_restart_recovery v 1 \<noteq> Some viewed_result"
proof -
  obtain v where built: "build_view sample_paths viewed_history Result.sample_removal_request = Inr v"
    using viewed_built by blast
  have texts: "path_texts sample_paths" using sample_replayable by (simp add: replayable_def)
  have settled: "settles viewed_history viewed_step viewed_effect viewed_event"
    by (simp add: settles_def viewed_step_def viewed_event_def viewed_history_def viewed_declaration_def
        history_effect_def effect_at_def sample_history_def)
  have told: "step_tells sample_paths Result.sample_removal_request viewed_step f \<longleftrightarrow>
      f = Fact_active 1 viewed_result" for f
    using viewed_fact viewed_decoded
    by (auto simp: step_tells_def viewed_step_def require_decoded_def simp del: replay_append_fact.simps)
  have "reported sample_paths Result.sample_removal_request viewed_history f \<longleftrightarrow>
      f = Fact_active 1 viewed_result" for f
    using settled told by (auto simp: reported_def viewed_history_def)
  with view_reports_journal [OF texts built] built show ?thesis by blast
qed
end
