(* ===== verification/Wiring.thy ===== *)
theory Wiring
  imports Replay Restart
begin

text \<open>
  The durable bytes of journals.  \<open>journal_codec.cpp\<close> and \<open>journal_transport_codec.cpp\<close> carry the same
  readers of identities, state projections, effects and events; this theory holds them once, with the
  writers they invert.  Planning identities are parsed by the planning library; its parsers are the
  fields of \<open>planning\<close>.
\<close>

section \<open>Readers\<close>

record 'o planning =
  parse_plan :: "bytes \<Rightarrow> error + bytes"
  parse_snapshot :: "bytes \<Rightarrow> error + bytes"
  parse_inventory :: "bytes \<Rightarrow> error + bytes"
  parse_owner :: "bytes \<Rightarrow> error + 'o"

definition maximum_journal_count :: u64 where "maximum_journal_count = 1000000"
definition maximum_journal_size :: nat where "maximum_journal_size = 268435456"
definition maximum_path_text_size :: u64 where "maximum_path_text_size = 268435456"

definition expect_bytes :: "bytes \<Rightarrow> unit reader" where
  "expect_bytes magic = (\<lambda>bs.
     if length bs < length magic then Inl (Codec_error Codec_truncated)
     else if take (length magic) bs \<noteq> magic then Inl (Codec_error Invalid_magic)
     else Inr ((), drop (length magic) bs))"

definition read_version :: "u16 \<Rightarrow> unit reader" where
  "read_version supported = reader_bind read_u16 (\<lambda>v.
     if v \<noteq> supported then reader_fail Codec_unsupported_version else reader_return ())"

definition read_planning :: "(bytes \<Rightarrow> error + 'a) \<Rightarrow> 'a reader" where
  "read_planning parse =
     reader_bind (read_string maximum_digest_text_size) (\<lambda>t. reader_lift (parse t))"

text \<open>The loop that fills the byte array of a nonce.\<close>

definition read_nonce :: "nonce reader" where "read_nonce = read_word 32"

definition read_projected_path ::
  "('p, 'o::linorder) environment \<Rightarrow> 'o planning \<Rightarrow> ('p, 'o) projected_path reader" where
  "read_projected_path E P =
     reader_bind (read_path E maximum_path_text_size) (\<lambda>path.
     reader_bind (reader_bind (read_count maximum_journal_count)
       (read_many (read_planning (parse_owner P)))) (\<lambda>owners.
     reader_lift (make_projected_path path owners)))"

definition read_projection ::
  "('p::linorder, 'o::linorder) environment \<Rightarrow> 'o planning \<Rightarrow> ('p, 'o) state_projection reader" where
  "read_projection E P =
     reader_bind read_identity (\<lambda>expected.
     reader_bind (read_version 1) (\<lambda>_.
     reader_bind read_identity (\<lambda>lease.
     reader_bind (read_planning (parse_snapshot P)) (\<lambda>snapshot.
     reader_bind (read_planning (parse_inventory P)) (\<lambda>inventory.
     reader_bind (read_enum canonical_completeness [Projection_complete, Projection_incomplete])
       (\<lambda>completeness.
     reader_bind (reader_bind (read_count maximum_journal_count)
       (read_many (read_projected_path E P))) (\<lambda>paths.
     reader_bind read_identity (\<lambda>evidence.
     reader_bind (reader_lift (make_projection E
       \<lparr>projection_identity = 0, projection_lease = lease, projection_snapshot = snapshot,
        projection_inventory = inventory, projection_completeness = completeness,
        projection_paths = paths, projection_evidence = evidence\<rparr>)) (\<lambda>projection.
     if projection_identity projection \<noteq> expected then reader_fail Identity_mismatch
     else reader_return projection)))))))))"

definition read_header ::
  "('p::linorder, 'o::linorder) environment \<Rightarrow> 'o planning \<Rightarrow> ('p, 'o) journal_header reader" where
  "read_header E P =
     reader_bind (read_version 1) (\<lambda>_.
     reader_bind (read_enum canonical_kind [Install, Upgrade, Remove]) (\<lambda>kind.
     reader_bind read_identity (\<lambda>request.
     reader_bind (read_planning (parse_plan P)) (\<lambda>plan.
     reader_bind (read_version 1) (\<lambda>_.
     reader_bind read_nonce (\<lambda>nonce.
     reader_bind read_identity (\<lambda>target.
     reader_bind read_identity (\<lambda>control.
     reader_bind (read_projection E P) (\<lambda>projection.
     reader_bind read_identity (\<lambda>lease.
     reader_bind read_identity (\<lambda>backend.
     reader_lift (make_header E
       \<lparr>header_identity = 0, header_kind = kind, header_request = request, header_plan = plan,
        header_attempt = make_attempt E request target backend nonce, header_target = target,
        header_control = control, header_projection = projection, header_lease = lease,
        header_backend = backend\<rparr>))))))))))))"

definition all_effect_kinds :: "effect_kind list" where
  "all_effect_kinds =
     [Capture_old_object, Stage_incoming_payload, Publish_active_object, Publish_rejected_object,
      Observe_result, Synchronize_active_namespace, Synchronize_rejected_store, Seal_receipt,
      Synchronize_incoming_staging, Synchronize_recovery_staging, Synchronize_completed_evidence,
      Recover_active_object, Synchronize_recovered_namespace, Publish_completed_evidence]"

definition all_states :: "journal_state list" where
  "all_states =
     [Preparing, Prepared, Mutating, Effects_visible, Result_observed, Application_completed,
      External_resolution_pending, Recovering, Recovered, Finalized, Abandoned, Indeterminate,
      Recovery_pending]"

definition read_effect_kind :: "effect_kind reader" where
  "read_effect_kind = read_enum canonical_effect all_effect_kinds"

definition read_state :: "journal_state reader" where
  "read_state = read_enum canonical_state all_states"

definition read_event_kind :: "event_kind reader" where
  "read_event_kind = read_enum canonical_event [Intent, Completed, Failed, Indeterminate_event]"

definition read_effect :: "('p, 'o) environment \<Rightarrow> 'p journal_effect reader" where
  "read_effect E =
     reader_bind read_u64 (\<lambda>ordinal.
     reader_bind read_effect_kind (\<lambda>kind.
     reader_bind (read_optional (read_path E maximum_path_text_size)) (\<lambda>path.
     reader_lift (make_effect E ordinal kind path))))"

definition read_event :: "journal_event reader" where
  "read_event =
     reader_bind read_u64 (\<lambda>sequence.
     reader_bind read_event_kind (\<lambda>kind.
     reader_bind read_identity (\<lambda>eff.
     reader_bind (reader_bind (read_count maximum_journal_count) (read_many read_identity))
       (\<lambda>evidence.
     reader_lift (make_event sequence kind eff evidence)))))"

text \<open>
  Every failure of a constructor or parser that is an \<open>std::invalid_argument\<close> becomes an invalid
  value; a logic error passes through.
\<close>

fun translate_invalid :: "codec_error + 'a \<Rightarrow> codec_error + 'a" where
  "translate_invalid (Inl (Codec_value (Invalid_argument message))) = Inl (Codec_error Invalid_value)"
| "translate_invalid (Inl (Codec_digest code)) = Inl (Codec_error Invalid_value)"
| "translate_invalid r = r"

definition journal_run :: "'a reader \<Rightarrow> bytes \<Rightarrow> codec_error + 'a" where
  "journal_run rd bs = translate_invalid
     (if length bs > maximum_journal_size then Inl (Codec_error Limit_exceeded)
      else rbind (rd bs) (\<lambda>(x, _). Inr x))"

definition journal_finish :: "bytes \<Rightarrow> codec_error + bytes" where
  "journal_finish bs =
     (if length bs > maximum_journal_size then Inl (Codec_error Limit_exceeded) else Inr bs)"

section \<open>Writers\<close>

definition append_owner :: "('p, 'o) environment \<Rightarrow> bytes \<Rightarrow> 'o \<Rightarrow> bytes" where
  "append_owner E r owner = append_bytes r (owner_string E owner)"

definition wire_projected_path ::
  "('p, 'o) environment \<Rightarrow> bytes \<Rightarrow> ('p, 'o) projected_path \<Rightarrow> bytes" where
  "wire_projected_path E r item =
     append_counted (append_owner E) (append_path_text E r (projected_path item)) (projected_owners item)"

definition wire_projection ::
  "('p, 'o) environment \<Rightarrow> bytes \<Rightarrow> ('p, 'o) state_projection \<Rightarrow> bytes" where
  "wire_projection E r p =
     (let r = append_identity r (projection_identity p);
          r = append_u16 r 1;
          r = append_identity r (projection_lease p);
          r = append_bytes r (projection_snapshot p);
          r = append_bytes r (projection_inventory p);
          r = append_u8 r (canonical_completeness (projection_completeness p));
          r = append_counted (wire_projected_path E) r (projection_paths p) in
      append_identity r (projection_evidence p))"

definition wire_header :: "('p, 'o) environment \<Rightarrow> bytes \<Rightarrow> ('p, 'o) journal_header \<Rightarrow> bytes" where
  "wire_header E r h =
     (let r = append_u16 r 1;
          r = append_u8 r (canonical_kind (header_kind h));
          r = append_identity r (header_request h);
          r = append_bytes r (header_plan h);
          r = append_u16 r 1;
          r = append_nonce r (attempt_nonce (header_attempt h));
          r = append_identity r (header_target h);
          r = append_identity r (header_control h);
          r = wire_projection E r (header_projection h);
          r = append_identity r (header_lease h) in
      append_identity r (header_backend h))"

definition wire_effect :: "('p, 'o) environment \<Rightarrow> bytes \<Rightarrow> 'p journal_effect \<Rightarrow> bytes" where
  "wire_effect E r e =
     append_optional (append_path_text E)
       (append_u8 (append_u64 r (effect_ordinal e)) (canonical_effect (effect_kind e))) (effect_path e)"

definition wire_event :: "bytes \<Rightarrow> journal_event \<Rightarrow> bytes" where
  "wire_event r e =
     (let r = append_u64 r (event_sequence e);
          r = append_u8 r (canonical_event (event_kind e));
          r = append_identity r (event_effect e) in
      append_counted append_identity r (event_evidence e))"

text \<open>An optional identity behind its flag.\<close>

definition append_optional_identity :: "bytes \<Rightarrow> digest option \<Rightarrow> bytes" where
  "append_optional_identity = append_optional append_identity"

section \<open>Round trips\<close>

text \<open>The texts of planning identities: the documented round trip of their parsers, and their size.\<close>

definition planning_text :: "(bytes \<Rightarrow> error + bytes) \<Rightarrow> bytes \<Rightarrow> bool" where
  "planning_text parse t \<longleftrightarrow> length t \<le> unat maximum_digest_text_size \<and> parse t = Inr t"

definition owner_text :: "('p, 'o) environment \<Rightarrow> 'o planning \<Rightarrow> 'o \<Rightarrow> bool" where
  "owner_text E P owner \<longleftrightarrow> length (owner_string E owner) \<le> unat maximum_digest_text_size \<and>
     parse_owner P (owner_string E owner) = Inr owner"

definition path_fits :: "('p, 'o) environment \<Rightarrow> 'p \<Rightarrow> bool" where
  "path_fits E p \<longleftrightarrow> length (path_string E p) \<le> unat maximum_path_text_size"

lemma planning_trip: "planning_text parse t \<Longrightarrow> read_planning parse (wire append_bytes t @ s) = Inr (t, s)"
  by (simp add: read_planning_def planning_text_def round_trip.read_wire [OF string_round_trip])

lemma owner_round_trip:
  "round_trip (append_owner E) (read_planning (parse_owner P)) (owner_text E P)"
proof
  show "append_owner E r p = r @ wire (append_owner E) p" for r p
    by (simp add: append_owner_def wire_def [of "append_owner E"] bytes_code.app_wire)
  show "read_planning (parse_owner P) (wire (append_owner E) p @ s) = Inr (p, s)"
    if "owner_text E P p" for p s
    using that by (simp add: append_owner_def wire_def [of "append_owner E"] bytes_code.app_wire
        read_planning_def owner_text_def round_trip.read_wire [OF string_round_trip])
qed

interpretation nonce_trip: round_trip append_nonce read_nonce "\<lambda>_. True"
proof
  show "append_nonce r n = r @ wire append_nonce n" for r n by (rule nonce_code.app_wire)
  show "read_nonce (wire append_nonce n @ s) = Inr (n, s)" for n s
    by (simp add: wire_def append_nonce_bytes read_nonce_def digest_array_def read_word_be_bytes)
qed

lemma version_trip [reader_wire]: "read_version v (wire append_u16 v @ s) = Inr ((), s)"
  by (simp add: read_version_def reader_wire)

lemma magic_trip: "expect_bytes magic (magic @ s) = Inr ((), s)"
  by (simp add: expect_bytes_def)

lemma wire_enumerators:
  "e \<in> set all_effect_kinds" "st \<in> set all_states"
  "k \<in> set [Intent, Completed, Failed, Indeterminate_event]"
  "kind \<in> set [Install, Upgrade, Remove]" "c \<in> set [Projection_complete, Projection_incomplete]"
  subgoal by (cases e) (simp_all add: all_effect_kinds_def)
  subgoal by (cases st) (simp_all add: all_states_def)
  subgoal by (cases k) simp_all
  subgoal by (cases kind) simp_all
  subgoal by (cases c) simp_all
  done

lemma wire_tags_inj: "inj canonical_effect" "inj canonical_state" "inj canonical_event"
  "inj canonical_kind" "inj canonical_completeness"
  by (simp_all add: inj_def)

lemmas wire_enum_reads [reader_wire] =
  enum_read [OF wire_tags_inj(1) wire_enumerators(1), folded read_effect_kind_def]
  enum_read [OF wire_tags_inj(2) wire_enumerators(2), folded read_state_def]
  enum_read [OF wire_tags_inj(3) wire_enumerators(3), folded read_event_kind_def]
  enum_read [OF wire_tags_inj(4) wire_enumerators(4)]
  enum_read [OF wire_tags_inj(5) wire_enumerators(5)]


definition projected_ok :: "('p, 'o::linorder) environment \<Rightarrow> 'o planning \<Rightarrow> ('p, 'o) projected_path \<Rightarrow> bool" where
  "projected_ok E P item \<longleftrightarrow>
     make_projected_path (projected_path item) (projected_owners item) = Inr item \<and>
     path_fits E (projected_path item) \<and> list_all (owner_text E P) (projected_owners item) \<and>
     length (projected_owners item) \<le> unat maximum_journal_count"

lemma projected_round_trip:
  assumes "path_texts E"
  shows "round_trip (wire_projected_path E) (read_projected_path E P) (projected_ok E P)"
proof
  note path = path_round_trip [OF assms, of maximum_path_text_size]
  note owners = round_trip.counted_round_trip [OF owner_round_trip, where maximum = maximum_journal_count]
  show "wire_projected_path E r x = r @ wire (wire_projected_path E) x" for r x
    by (simp add: wire_projected_path_def wire_def [of "wire_projected_path E"]
        round_trip.append_wire [OF owners] round_trip.append_wire [OF path])
  show "read_projected_path E P (wire (wire_projected_path E) x @ s) = Inr (x, s)"
    if "projected_ok E P x" for x s
    using that by (simp add: wire_projected_path_def wire_def [of "wire_projected_path E"]
        round_trip.append_wire [OF owners] round_trip.append_wire [OF path] read_projected_path_def
        reader_bind_def round_trip.read_wire [OF owners, unfolded reader_bind_def]
        round_trip.read_wire [OF path] projected_ok_def path_fits_def)
qed

definition projection_ok ::
  "('p::linorder, 'o::linorder) environment \<Rightarrow> 'o planning \<Rightarrow> ('p, 'o) state_projection \<Rightarrow> bool" where
  "projection_ok E P p \<longleftrightarrow> make_projection E p = Inr p \<and>
     planning_text (parse_snapshot P) (projection_snapshot p) \<and>
     planning_text (parse_inventory P) (projection_inventory p) \<and>
     list_all (projected_ok E P) (projection_paths p) \<and>
     length (projection_paths p) \<le> unat maximum_journal_count"

lemma projection_unidentified:
  "make_projection E \<lparr>projection_identity = 0, projection_lease = projection_lease p,
      projection_snapshot = projection_snapshot p, projection_inventory = projection_inventory p,
      projection_completeness = projection_completeness p, projection_paths = projection_paths p,
      projection_evidence = projection_evidence p\<rparr> = make_projection E p"
  by (cases p) (simp add: make_projection_def Let_def projection_record_def)

lemma projection_round_trip:
  assumes "path_texts E"
  shows "round_trip (wire_projection E) (read_projection E P) (projection_ok E P)"
proof
  note paths = round_trip.counted_round_trip [OF projected_round_trip [OF assms], where maximum = maximum_journal_count]
  show "wire_projection E r x = r @ wire (wire_projection E) x" for r x
    by (simp add: wire_projection_def wire_def [of "wire_projection E"] Let_def record_defs
        round_trip.append_wire [OF paths] identity_trip.append_wire bytes_code.app_wire)
  show "read_projection E P (wire (wire_projection E) x @ s) = Inr (x, s)" if "projection_ok E P x" for x s
    using that by (simp add: wire_projection_def wire_def [of "wire_projection E"] Let_def record_defs
        round_trip.append_wire [OF paths] identity_trip.append_wire bytes_code.app_wire
        read_projection_def reader_bind_def reader_wire planning_trip
        round_trip.read_wire [OF paths, unfolded reader_bind_def] projection_ok_def projection_unidentified)
qed

definition header_ok ::
  "('p::linorder, 'o::linorder) environment \<Rightarrow> 'o planning \<Rightarrow> ('p, 'o) journal_header \<Rightarrow> bool" where
  "header_ok E P h \<longleftrightarrow> make_header E h = Inr h \<and> planning_text (parse_plan P) (header_plan h) \<and>
     valid_attempt E (header_attempt h) \<and> projection_ok E P (header_projection h)"

lemma attempt_remade:
  assumes "make_header E h = Inr h" and "valid_attempt E (header_attempt h)"
  shows "make_attempt E (header_request h) (header_target h) (header_backend h)
    (attempt_nonce (header_attempt h)) = header_attempt h"
  using assms by (cases "header_attempt h")
    (auto simp: make_header_Inr valid_attempt_def encode_attempt_def make_attempt_def)

lemma header_unidentified:
  "make_header E \<lparr>header_identity = 0, header_kind = header_kind h, header_request = header_request h,
      header_plan = header_plan h, header_attempt = header_attempt h, header_target = header_target h,
      header_control = header_control h, header_projection = header_projection h,
      header_lease = header_lease h, header_backend = header_backend h\<rparr> = make_header E h"
  by (cases h) (simp add: make_header_def header_record_def)

lemma header_round_trip:
  assumes "path_texts E"
  shows "round_trip (wire_header E) (read_header E P) (header_ok E P)"
proof
  note projection = projection_round_trip [OF assms]
  note chain = record_defs round_trip.append_wire [OF projection] identity_trip.append_wire
    bytes_code.app_wire nonce_trip.append_wire
  show "wire_header E r x = r @ wire (wire_header E) x" for r x
    by (simp add: wire_header_def wire_def [of "wire_header E"] Let_def chain)
  show "read_header E P (wire (wire_header E) x @ s) = Inr (x, s)" if "header_ok E P x" for x s
    using that by (simp add: wire_header_def wire_def [of "wire_header E"] Let_def chain
        read_header_def reader_wire planning_trip nonce_trip.read_wire
        round_trip.read_wire [OF projection] header_ok_def attempt_remade header_unidentified)
qed

definition wire_effect_ok :: "('p, 'o) environment \<Rightarrow> 'p journal_effect \<Rightarrow> bool" where
  "wire_effect_ok E e \<longleftrightarrow> make_effect E (effect_ordinal e) (effect_kind e) (effect_path e) = Inr e \<and>
     pred_option (path_fits E) (effect_path e)"

lemma effect_round_trip:
  assumes "path_texts E"
  shows "round_trip (wire_effect E) (read_effect E) (wire_effect_ok E)"
proof
  note path = round_trip.optional_round_trip [OF path_round_trip [OF assms, of maximum_path_text_size]]
  show "wire_effect E r x = r @ wire (wire_effect E) x" for r x
    by (simp add: wire_effect_def wire_def [of "wire_effect E"] record_defs round_trip.append_wire [OF path])
  show "read_effect E (wire (wire_effect E) x @ s) = Inr (x, s)" if "wire_effect_ok E x" for x s
    using that by (simp add: wire_effect_def wire_def [of "wire_effect E"] record_defs
        round_trip.append_wire [OF path] read_effect_def reader_wire round_trip.read_wire [OF path]
        wire_effect_ok_def path_fits_def [abs_def])
qed

definition event_ok :: "journal_event \<Rightarrow> bool" where
  "event_ok e \<longleftrightarrow> make_event (event_sequence e) (event_kind e) (event_effect e) (event_evidence e) = Inr e \<and>
     length (event_evidence e) \<le> unat maximum_journal_count"

interpretation event_trip: round_trip wire_event read_event event_ok
proof
  note evidence = identity_trip.counted_round_trip [where maximum = maximum_journal_count]
  show "wire_event r x = r @ wire wire_event x" for r x
    by (simp add: wire_event_def wire_def [of wire_event] Let_def record_defs
        round_trip.append_wire [OF evidence] identity_trip.append_wire)
  show "read_event (wire wire_event x @ s) = Inr (x, s)" if "event_ok x" for x s
    using that by (simp add: wire_event_def wire_def [of wire_event] Let_def record_defs
        round_trip.append_wire [OF evidence] identity_trip.append_wire read_event_def reader_bind_def
        reader_wire round_trip.read_wire [OF evidence, unfolded reader_bind_def] event_ok_def)
qed

lemmas optional_identity_trip = identity_trip.optional_round_trip [folded append_optional_identity_def]

lemma optional_identity_reads:
  "append_optional_identity r x = r @ wire append_optional_identity x"
  "read_optional read_identity (wire append_optional_identity x @ s) = Inr (x, s)"
  "read_optional read_identity (wire append_optional_identity x) = Inr (x, [])"
  using round_trip.append_wire [OF optional_identity_trip]
    round_trip.read_wire [OF optional_identity_trip, of x]
    round_trip.read_end [OF optional_identity_trip, of x]
  by (simp_all add: option.pred_True)

section \<open>What a codec owes\<close>

definition decoded :: "codec_error + 'a \<Rightarrow> 'a option" where
  "decoded r = (case r of Inl e \<Rightarrow> None | Inr x \<Rightarrow> Some x)"

text \<open>What a codec owes: an encoding within the size limit, decoded again to the value.\<close>

definition restored :: "(bytes \<Rightarrow> codec_error + 'a) \<Rightarrow> 'a \<Rightarrow> codec_error + bytes \<Rightarrow> bool" where
  "restored decode x encoded =
     (case encoded of Inl e \<Rightarrow> e = Codec_error Limit_exceeded | Inr bs \<Rightarrow> decode bs = Inr x)"

lemma restored_finish:
  assumes "length bs \<le> maximum_journal_size \<Longrightarrow> decode bs = Inr x"
  shows "restored decode x (journal_finish bs)"
  using assms by (simp add: restored_def journal_finish_def)

text \<open>Every value a reader returns satisfies \<open>Q\<close>, whatever the bytes.\<close>

definition reads_only :: "'a reader \<Rightarrow> ('a \<Rightarrow> bool) \<Rightarrow> bool" where
  "reads_only rd Q \<longleftrightarrow> (\<forall>bs. case rd bs of Inl e \<Rightarrow> True | Inr (x, rest) \<Rightarrow> Q x)"

lemma reads_bind: "(\<And>x. reads_only (f x) Q) \<Longrightarrow> reads_only (reader_bind m f) Q"
  unfolding reads_only_def
proof (rule allI)
  fix bs
  assume f: "\<And>x. \<forall>bs. case f x bs of Inl e \<Rightarrow> True | Inr (x, rest) \<Rightarrow> Q x"
  show "case reader_bind m f bs of Inl e \<Rightarrow> True | Inr (x, rest) \<Rightarrow> Q x"
  proof (cases "m bs")
    case (Inr p)
    then show ?thesis using f [of "fst p"] by (cases p) simp
  qed simp
qed

lemma reads_lift: "(\<And>x. v = Inr x \<Longrightarrow> reads_only (f x) Q) \<Longrightarrow> reads_only (reader_bind (reader_lift v) f) Q"
  by (cases v) (simp_all add: reads_only_def)

lemma reads_checked:
  "(\<not> bad \<Longrightarrow> Q x) \<Longrightarrow> reads_only (if bad then reader_fail code else reader_return x) Q"
  by (simp add: reads_only_def)

lemma reads_if: "(\<not> bad \<Longrightarrow> reads_only rd Q) \<Longrightarrow> reads_only (if bad then reader_fail code else rd) Q"
  by (simp add: reads_only_def)

lemma run_reads: "reads_only rd Q \<Longrightarrow> journal_run rd bs = Inr x \<Longrightarrow> Q x"
proof -
  have inr: "translate_invalid r = Inr x \<longleftrightarrow> r = Inr x" for r
    by (cases r rule: translate_invalid.cases) simp_all
  show "reads_only rd Q \<Longrightarrow> journal_run rd bs = Inr x \<Longrightarrow> Q x"
    by (auto simp: journal_run_def inr reads_only_def rbind_Inr_iff split: if_splits dest: spec [of _ bs])
qed

text \<open>The sample authorities as values of the codecs.\<close>

definition sample_planning :: "8 word planning" where
  "sample_planning = \<lparr>parse_plan = Inr, parse_snapshot = Inr, parse_inventory = Inr,
     parse_owner = (\<lambda>bs. Inr (case bs of [] \<Rightarrow> 0 | w # _ \<Rightarrow> w))\<rparr>"

lemma sample_header_ok: "header_ok sample_paths sample_planning sample_durable_header"
  using sample_durable_header_valid
  by (simp add: header_ok_def valid_header_def valid_projection_def projection_ok_def planning_text_def
      sample_planning_def sample_durable_header_def sample_projected_state_def maximum_digest_text_size_def
      maximum_journal_count_def projected_ok_def make_projected_path_def path_fits_def owner_text_def
      sample_paths_def maximum_path_text_size_def)

end
