(* ===== verification/Transporting.thy ===== *)
theory Transporting
  imports Wiring
begin

text \<open>
  The codec of the append-only journal (\<open>journal_transport_codec.cpp\<close>): declarations, steps and cursors
  as bytes, and the proof that decoding inverts encoding.
\<close>

section \<open>Writers that check their counts\<close>

fun append_each :: "(bytes \<Rightarrow> 'a \<Rightarrow> codec_error + bytes) \<Rightarrow> bytes \<Rightarrow> 'a list \<Rightarrow> codec_error + bytes" where
  "append_each f r [] = Inr r"
| "append_each f r (x # xs) = rbind (f r x) (\<lambda>r. append_each f r xs)"

definition append_limited ::
  "u64 \<Rightarrow> (bytes \<Rightarrow> 'a \<Rightarrow> codec_error + bytes) \<Rightarrow> bytes \<Rightarrow> 'a list \<Rightarrow> codec_error + bytes" where
  "append_limited maximum f r xs =
     (if length xs > unat maximum then Inl (Codec_error Limit_exceeded)
      else append_each f (append_u64 r (word_of_nat (length xs))) xs)"

definition transport_append_path ::
  "('p, 'o) environment \<Rightarrow> bytes \<Rightarrow> ('p, 'o) projected_path \<Rightarrow> codec_error + bytes" where
  "transport_append_path E r item =
     append_limited maximum_journal_count (\<lambda>r owner. Inr (append_owner E r owner))
       (append_path_text E r (projected_path item)) (projected_owners item)"

definition transport_append_projection ::
  "('p, 'o) environment \<Rightarrow> bytes \<Rightarrow> ('p, 'o) state_projection \<Rightarrow> codec_error + bytes" where
  "transport_append_projection E r p =
     (let r = append_identity r (projection_identity p);
          r = append_u16 r 1;
          r = append_identity r (projection_lease p);
          r = append_bytes r (projection_snapshot p);
          r = append_bytes r (projection_inventory p);
          r = append_u8 r (canonical_completeness (projection_completeness p)) in
      rbind (append_limited maximum_journal_count (transport_append_path E) r (projection_paths p))
        (\<lambda>r. Inr (append_identity r (projection_evidence p))))"

definition transport_append_header ::
  "('p, 'o) environment \<Rightarrow> bytes \<Rightarrow> ('p, 'o) journal_header \<Rightarrow> codec_error + bytes" where
  "transport_append_header E r h =
     (let r = append_u16 r 1;
          r = append_u8 r (canonical_kind (header_kind h));
          r = append_identity r (header_request h);
          r = append_bytes r (header_plan h);
          r = append_u16 r 1;
          r = append_nonce r (attempt_nonce (header_attempt h));
          r = append_identity r (header_target h);
          r = append_identity r (header_control h) in
      rbind (transport_append_projection E r (header_projection h)) (\<lambda>r.
      Inr (append_identity (append_identity r (header_lease h)) (header_backend h))))"

definition transport_append_event :: "bytes \<Rightarrow> journal_event \<Rightarrow> codec_error + bytes" where
  "transport_append_event r e =
     (let r = append_u64 r (event_sequence e);
          r = append_u8 r (canonical_event (event_kind e));
          r = append_identity r (event_effect e) in
      append_limited maximum_journal_count (\<lambda>r i. Inr (append_identity r i)) r (event_evidence e))"

section \<open>Encoding\<close>

definition declaration_magic :: bytes where "declaration_magic = str_bytes ''ZLAPJDC'' @ [0]"
definition step_magic :: bytes where "step_magic = str_bytes ''ZLAPJST'' @ [0]"
definition cursor_magic :: bytes where "cursor_magic = str_bytes ''ZLAPJCU'' @ [0]"

definition encode_declaration :: "('p, 'o) environment \<Rightarrow> ('p, 'o) journal_declaration \<Rightarrow> codec_error + bytes" where
  "encode_declaration E d =
     (let r = append_u16 declaration_magic 1;
          r = append_u16 r 1;
          r = append_identity r (declaration_identity d) in
      rbind (transport_append_header E r (declaration_header d)) (\<lambda>r.
      rbind (append_limited maximum_journal_count (\<lambda>r e. Inr (wire_effect E r e)) r
        (declaration_effects d)) (\<lambda>r.
      journal_finish (append_bytes r (declaration_seed d)))))"

definition encode_step :: "journal_step \<Rightarrow> codec_error + bytes" where
  "encode_step s =
     (let r = append_u16 step_magic 1;
          r = append_u16 r 1;
          r = append_identity r (step_identity s);
          r = append_identity r (step_declaration s);
          r = append_u64 r (step_sequence s);
          r = append_optional_identity r (step_predecessor s);
          r = append_u8 r (canonical_state (step_state s)) in
      rbind (case step_event s of
          None \<Rightarrow> Inr (append_bool r False)
        | Some e \<Rightarrow> transport_append_event (append_bool r True) e) (\<lambda>r.
      let r = append_bytes r (step_fact s);
          r = append_optional_identity r (step_receipt s);
          r = append_optional_identity r (step_completed s) in
      journal_finish r))"

definition encode_transport_cursor :: "journal_cursor \<Rightarrow> codec_error + bytes" where
  "encode_transport_cursor c =
     (let r = append_u16 cursor_magic 1;
          r = append_u16 r 1;
          r = append_identity r (cursor_identity c);
          r = append_identity r (cursor_declaration c);
          r = append_u64 r (cursor_count c);
          r = append_optional_identity r (cursor_latest c);
          r = append_u8 r (canonical_state (cursor_state c));
          r = append_optional_identity r (cursor_receipt c);
          r = append_optional_identity r (cursor_completed c) in
      journal_finish r)"

section \<open>Decoding\<close>

definition read_blob :: "bytes reader" where "read_blob = read_string maximum_path_text_size"

definition decode_declaration ::
  "('p::linorder, 'o::linorder) environment \<Rightarrow> 'o planning \<Rightarrow> bytes \<Rightarrow>
   codec_error + ('p, 'o) journal_declaration" where
  "decode_declaration E P = journal_run
     (reader_bind (expect_bytes declaration_magic) (\<lambda>_.
      reader_bind (read_version 1) (\<lambda>_.
      reader_bind (read_version 1) (\<lambda>_.
      reader_bind read_identity (\<lambda>expected.
      reader_bind (read_header E P) (\<lambda>header.
      reader_bind (reader_bind (read_count maximum_journal_count) (read_many (read_effect E)))
        (\<lambda>effects.
      reader_bind read_blob (\<lambda>seed.
      reader_bind require_end (\<lambda>_.
      reader_bind (reader_lift (make_declaration E header effects seed)) (\<lambda>d.
      if declaration_identity d \<noteq> expected then reader_fail Identity_mismatch
      else reader_return d))))))))))"

definition decode_step :: "('p, 'o) environment \<Rightarrow> bytes \<Rightarrow> codec_error + journal_step" where
  "decode_step E = journal_run
     (reader_bind (expect_bytes step_magic) (\<lambda>_.
      reader_bind (read_version 1) (\<lambda>_.
      reader_bind (read_version 1) (\<lambda>_.
      reader_bind read_identity (\<lambda>expected.
      reader_bind read_identity (\<lambda>declaration.
      reader_bind read_u64 (\<lambda>sequence.
      reader_bind (read_optional read_identity) (\<lambda>predecessor.
      reader_bind read_state (\<lambda>state.
      reader_bind (read_optional read_event) (\<lambda>event.
      reader_bind read_blob (\<lambda>replayed.
      reader_bind (read_optional read_identity) (\<lambda>receipt.
      reader_bind (read_optional read_identity) (\<lambda>completed.
      reader_bind require_end (\<lambda>_.
      reader_bind (reader_lift (make_step E
        \<lparr>step_identity = 0, step_declaration = declaration, step_sequence = sequence,
         step_predecessor = predecessor, step_state = state, step_event = event,
         step_fact = replayed, step_receipt = receipt, step_completed = completed\<rparr>)) (\<lambda>s.
      if step_identity s \<noteq> expected then reader_fail Identity_mismatch
      else reader_return s)))))))))))))))"

definition decode_transport_cursor :: "('p, 'o) environment \<Rightarrow> bytes \<Rightarrow> codec_error + journal_cursor" where
  "decode_transport_cursor E = journal_run
     (reader_bind (expect_bytes cursor_magic) (\<lambda>_.
      reader_bind (read_version 1) (\<lambda>_.
      reader_bind (read_version 1) (\<lambda>_.
      reader_bind read_identity (\<lambda>expected.
      reader_bind read_identity (\<lambda>declaration.
      reader_bind read_u64 (\<lambda>step_count.
      reader_bind (read_optional read_identity) (\<lambda>latest.
      reader_bind read_state (\<lambda>state.
      reader_bind (read_optional read_identity) (\<lambda>receipt.
      reader_bind (read_optional read_identity) (\<lambda>completed.
      reader_bind require_end (\<lambda>_.
      if (step_count = 0) \<noteq> (latest = None) then reader_fail Invalid_value
      else
        reader_bind (reader_lift
          (restore_cursor E declaration step_count latest state receipt completed)) (\<lambda>c.
        if cursor_identity c \<noteq> expected then reader_fail Identity_mismatch
        else reader_return c)))))))))))))"

section \<open>Round trips\<close>

lemma limited_Inr:
  assumes "\<And>r x. x \<in> set xs \<Longrightarrow> f r x = Inr (g r x)"
  shows "append_limited maximum f r xs =
    (if length xs > unat maximum then Inl (Codec_error Limit_exceeded) else Inr (append_counted g r xs))"
proof -
  have "append_each f r xs = Inr (foldl g r xs)" for r
    using assms by (induction xs arbitrary: r) simp_all
  then show ?thesis by (simp add: append_limited_def append_counted_def)
qed

lemma transport_path_Inr:
  "projected_ok E P item \<Longrightarrow> transport_append_path E r item = Inr (wire_projected_path E r item)"
  by (simp add: transport_append_path_def wire_projected_path_def projected_ok_def
      limited_Inr [where g = "append_owner E"])

lemma transport_projection_Inr:
  assumes "projection_ok E P p"
  shows "transport_append_projection E r p = Inr (wire_projection E r p)"
proof -
  have "append_limited maximum_journal_count (transport_append_path E) r (projection_paths p) =
      Inr (append_counted (wire_projected_path E) r (projection_paths p))" for r
    using assms by (subst limited_Inr [where g = "wire_projected_path E"])
      (auto simp: projection_ok_def list_all_iff transport_path_Inr)
  then show ?thesis by (simp add: transport_append_projection_def wire_projection_def Let_def)
qed

lemma transport_header_Inr:
  "header_ok E P h \<Longrightarrow> transport_append_header E r h = Inr (wire_header E r h)"
  using transport_projection_Inr [of E P "header_projection h"]
  by (simp add: transport_append_header_def wire_header_def Let_def header_ok_def)

lemma transport_event_Inr: "event_ok e \<Longrightarrow> transport_append_event r e = Inr (wire_event r e)"
  by (simp add: transport_append_event_def wire_event_def Let_def event_ok_def
      limited_Inr [where g = append_identity])

definition declaration_ok ::
  "('p::linorder, 'o::linorder) environment \<Rightarrow> 'o planning \<Rightarrow> ('p, 'o) journal_declaration \<Rightarrow> bool" where
  "declaration_ok E P d \<longleftrightarrow>
     make_declaration E (declaration_header d) (declaration_effects d) (declaration_seed d) = Inr d \<and>
     header_ok E P (declaration_header d) \<and> list_all (wire_effect_ok E) (declaration_effects d) \<and>
     length (declaration_effects d) \<le> unat maximum_journal_count \<and>
     length (declaration_seed d) \<le> unat maximum_path_text_size"

definition step_ok :: "('p, 'o) environment \<Rightarrow> journal_step \<Rightarrow> bool" where
  "step_ok E s \<longleftrightarrow> make_step E s = Inr s \<and> pred_option event_ok (step_event s) \<and>
     length (step_fact s) \<le> unat maximum_path_text_size"

definition cursor_ok :: "('p, 'o) environment \<Rightarrow> journal_cursor \<Rightarrow> bool" where
  "cursor_ok E c \<longleftrightarrow> restore_cursor E (cursor_declaration c) (cursor_count c) (cursor_latest c)
     (cursor_state c) (cursor_receipt c) (cursor_completed c) = Inr c"

lemma step_unidentified:
  "make_step E \<lparr>step_identity = 0, step_declaration = step_declaration s, step_sequence = step_sequence s,
     step_predecessor = step_predecessor s, step_state = step_state s, step_event = step_event s,
     step_fact = step_fact s, step_receipt = step_receipt s, step_completed = step_completed s\<rparr> =
   make_step E s"
proof -
  have "make_step E (s\<lparr>step_identity := 0\<rparr>) = make_step E s"
    unfolding make_step_def by (auto split: if_splits)
  then show ?thesis by (cases s) simp
qed

lemma blob_trip:
  "length t \<le> unat maximum_path_text_size \<Longrightarrow> read_blob (wire append_bytes t @ s) = Inr (t, s)"
  "length t \<le> unat maximum_path_text_size \<Longrightarrow> read_blob (wire append_bytes t) = Inr (t, [])"
  unfolding read_blob_def
  by (rule round_trip.read_wire [OF string_round_trip] round_trip.read_end [OF string_round_trip],
      assumption)+

lemma cursor_restored:
  assumes "cursor_ok E c"
  shows "restored (decode_transport_cursor E) c (encode_transport_cursor c)"
proof -
  have made: "restore_cursor E (cursor_declaration c) (cursor_count c) (cursor_latest c) (cursor_state c)
      (cursor_receipt c) (cursor_completed c) = Inr c"
    and head: "(cursor_count c = 0) = (cursor_latest c = None)"
    using assms by (auto simp: cursor_ok_def restore_cursor_def split: if_splits)
  show ?thesis
    unfolding encode_transport_cursor_def Let_def
    by (rule restored_finish)
      (simp add: decode_transport_cursor_def journal_run_def record_defs optional_identity_reads
        identity_trip.append_wire magic_trip reader_wire require_end_def made head)
qed

lemma step_restored:
  assumes "step_ok E s"
  shows "restored (decode_step E) s (encode_step s)"
proof -
  have event: "(case step_event s of None \<Rightarrow> Inr (append_bool r False)
      | Some e \<Rightarrow> transport_append_event (append_bool r True) e) =
      Inr (append_optional wire_event r (step_event s))" for r
    using assms by (auto simp: append_optional_def step_ok_def transport_event_Inr split: option.split)
  note trip = event_trip.optional_round_trip
  show ?thesis
    unfolding encode_step_def Let_def event rbind.simps
    by (rule restored_finish)
      (use assms in \<open>simp add: decode_step_def journal_run_def record_defs optional_identity_reads
        identity_trip.append_wire bytes_code.app_wire magic_trip reader_wire require_end_def step_ok_def
        blob_trip round_trip.append_wire [OF trip] round_trip.read_wire [OF trip] step_unidentified\<close>)
qed

lemma declaration_restored:
  assumes texts: "path_texts E" and ok: "declaration_ok E P d"
  shows "restored (decode_declaration E P) d (encode_declaration E d)"
proof -
  note effects = round_trip.counted_round_trip [OF effect_round_trip [OF texts],
      where maximum = maximum_journal_count]
  note header = header_round_trip [OF texts]
  have limited: "append_limited maximum_journal_count (\<lambda>r e. Inr (wire_effect E r e)) r
      (declaration_effects d) = Inr (append_counted (wire_effect E) r (declaration_effects d))" for r
    using ok by (simp add: declaration_ok_def limited_Inr [where g = "wire_effect E"])
  have head: "transport_append_header E r (declaration_header d) =
      Inr (wire_header E r (declaration_header d))" for r
    using ok transport_header_Inr [of E P] unfolding declaration_ok_def by blast
  show ?thesis
    unfolding encode_declaration_def Let_def limited head rbind.simps
    by (rule restored_finish)
      (use ok in \<open>simp add: decode_declaration_def journal_run_def record_defs identity_trip.append_wire
        bytes_code.app_wire magic_trip reader_wire require_end_def declaration_ok_def blob_trip
        round_trip.append_wire [OF effects] round_trip.append_wire [OF header]
        round_trip.read_wire [OF header] reader_bind_def
        round_trip.read_wire [OF effects, unfolded reader_bind_def]\<close>)
qed

section \<open>What a decoder accepts\<close>

lemma restored_identity:
  "restore_cursor E d n l st rc ce = Inr c \<Longrightarrow> cursor_ok E c"
  by (auto simp: cursor_ok_def restore_cursor_def identified_cursor_def split: if_splits)

lemma decoded_cursor: "decode_transport_cursor E bs = Inr c \<Longrightarrow> cursor_ok E c"
  unfolding decode_transport_cursor_def
  by (erule run_reads [rotated]) (intro reads_bind reads_if reads_lift reads_checked restored_identity)

lemma decoded_step: "decode_step E bs = Inr s \<Longrightarrow> make_step E s = Inr s"
proof -
  have made: "make_step E s = Inr t \<Longrightarrow> make_step E t = Inr t" for s t
    by (auto simp: make_step_def split: if_splits)
  show "decode_step E bs = Inr s \<Longrightarrow> make_step E s = Inr s"
    unfolding decode_step_def
    by (erule run_reads [rotated]) (intro reads_bind reads_lift reads_checked made)
qed

lemma decoded_declaration:
  "decode_declaration E P bs = Inr d \<Longrightarrow>
   make_declaration E (declaration_header d) (declaration_effects d) (declaration_seed d) = Inr d"
proof -
  have made: "make_declaration E h es seed = Inr d \<Longrightarrow>
      make_declaration E (declaration_header d) (declaration_effects d) (declaration_seed d) = Inr d"
    for h es seed d by (auto simp: make_declaration_Inr)
  show "decode_declaration E P bs = Inr d \<Longrightarrow>
      make_declaration E (declaration_header d) (declaration_effects d) (declaration_seed d) = Inr d"
    unfolding decode_declaration_def
    by (erule run_reads [rotated]) (intro reads_bind reads_lift reads_checked made)
qed

text \<open>
  C36: the journal survives storage.  The bytes of every declaration, step and cursor that its factory
  made are refused for their size or decode to exactly that value; and whatever bytes a store returns,
  a decoder gives only values that their factory makes again with the same identity, so a damaged
  record is refused or has the identity of its content.
\<close>

theorem transport_round_trip:
  assumes "path_texts E" and "declaration_ok E P d" and "step_ok E s" and "cursor_ok E c"
  shows "restored (decode_declaration E P) d (encode_declaration E d) \<and>
    restored (decode_step E) s (encode_step s) \<and>
    restored (decode_transport_cursor E) c (encode_transport_cursor c) \<and>
    pred_option (\<lambda>d. make_declaration E (declaration_header d) (declaration_effects d)
      (declaration_seed d) = Inr d) (decoded (decode_declaration E P bs)) \<and>
    pred_option (\<lambda>s. make_step E s = Inr s) (decoded (decode_step E bs)) \<and>
    pred_option (cursor_ok E) (decoded (decode_transport_cursor E bs))"
  using declaration_restored [OF assms(1,2)] step_restored [OF assms(3)] cursor_restored [OF assms(4)]
    decoded_declaration [of E P bs] decoded_step [of E bs] decoded_cursor [of E bs]
  by (auto simp: decoded_def split: sum.split)

definition sample_transport :: "(8 word, 8 word) journal_declaration" where
  "sample_transport = \<lparr>declaration_identity = 0, declaration_header = sample_durable_header,
     declaration_effects = [\<lparr>effect_identity = 0, effect_ordinal = 0,
       effect_kind = Publish_active_object, effect_path = Some 1\<rparr>], declaration_seed = [1, 2]\<rparr>"

definition sample_intent :: journal_step where
  "sample_intent = \<lparr>step_identity = 0, step_declaration = 0, step_sequence = 1, step_predecessor = Some 5,
     step_state = Mutating, step_event = Some \<lparr>event_sequence = 0, event_kind = Intent, event_effect = 0,
       event_evidence = []\<rparr>, step_fact = [], step_receipt = None, step_completed = None\<rparr>"

theorem transport_round_trip_witness:
  "restored (decode_declaration sample_paths sample_planning) sample_transport
     (encode_declaration sample_paths sample_transport) \<and>
   restored (decode_step sample_paths) sample_intent (encode_step sample_intent)"
proof -
  have texts: "path_texts sample_paths" using sample_replayable by (simp add: replayable_def)
  have 1: "declaration_ok sample_paths sample_planning sample_transport"
    using sample_header_ok
    by (simp add: declaration_ok_def sample_transport_def make_declaration_Inr wire_effect_ok_def
        make_effect_Inr path_fits_def sample_paths_def maximum_path_text_size_def maximum_journal_count_def)
  have 2: "step_ok sample_paths sample_intent"
    by (simp add: step_ok_def sample_intent_def make_step_def sample_paths_def event_ok_def make_event_def
        normalize_evidence_def)
  have 3: "cursor_ok sample_paths (identified_cursor sample_paths 0 2 (Some 5) Mutating None None)"
    by (simp add: cursor_ok_def restore_cursor_def identified_cursor_def)
  show ?thesis using transport_round_trip [OF texts 1 2 3] by blast
qed

end
