(* ===== verification/Persisting.thy ===== *)
theory Persisting
  imports Wiring
begin

text \<open>
  Complete journal records as bytes and as successive snapshots (\<open>journal_codec.cpp\<close>): the codec with
  its round trip, the validation of a replacement, and the proof that the snapshots of a history that
  grows step by step are replacements the validation accepts.
\<close>

section \<open>The codec\<close>

definition journal_magic :: bytes where "journal_magic = str_bytes ''ZLAPJNL'' @ [0]"
definition maximum_event_count :: u64 where "maximum_event_count = 4000000"

definition encode_journal :: "('p, 'o) environment \<Rightarrow> ('p, 'o) journal_record \<Rightarrow> codec_error + bytes" where
  "encode_journal E j =
     (let r = append_u16 journal_magic 1;
          r = append_identity r (record_identity j);
          r = append_u16 r 1;
          r = wire_header E r (record_header j);
          r = append_u8 r (canonical_state (record_state j));
          r = append_counted (wire_effect E) r (record_effects j);
          r = append_counted wire_event r (record_events j);
          r = append_optional_identity r (record_receipt j);
          r = append_optional_identity r (record_completed j) in
      journal_finish r)"

definition decode_journal ::
  "('p::linorder, 'o::linorder) environment \<Rightarrow> 'o planning \<Rightarrow> bytes \<Rightarrow>
   codec_error + ('p, 'o) journal_record" where
  "decode_journal E P = journal_run
     (reader_bind (expect_bytes journal_magic) (\<lambda>_.
      reader_bind (read_version 1) (\<lambda>_.
      reader_bind read_identity (\<lambda>expected.
      reader_bind (read_version 1) (\<lambda>_.
      reader_bind (read_header E P) (\<lambda>header.
      reader_bind read_state (\<lambda>state.
      reader_bind (reader_bind (read_count maximum_journal_count) (read_many (read_effect E)))
        (\<lambda>effects.
      reader_bind (reader_bind (read_count maximum_event_count) (read_many read_event)) (\<lambda>events.
      reader_bind (read_optional read_identity) (\<lambda>receipt.
      reader_bind (read_optional read_identity) (\<lambda>completed.
      reader_bind require_end (\<lambda>_.
      reader_bind (reader_lift (make_record E header state effects events receipt completed)) (\<lambda>j.
      if record_identity j \<noteq> expected then reader_fail Identity_mismatch
      else reader_return j)))))))))))))"

definition record_remade :: "('p, 'o) environment \<Rightarrow> ('p, 'o) journal_record \<Rightarrow> bool" where
  "record_remade E j \<longleftrightarrow> make_record E (record_header j) (record_state j) (record_effects j)
     (record_events j) (record_receipt j) (record_completed j) = Inr j"

definition journal_fits ::
  "('p::linorder, 'o::linorder) environment \<Rightarrow> 'o planning \<Rightarrow> ('p, 'o) journal_record \<Rightarrow> bool" where
  "journal_fits E P j \<longleftrightarrow> record_remade E j \<and> header_ok E P (record_header j) \<and>
     list_all (wire_effect_ok E) (record_effects j) \<and> list_all event_ok (record_events j) \<and>
     length (record_effects j) \<le> unat maximum_journal_count \<and>
     length (record_events j) \<le> unat maximum_event_count"

lemma journal_restored:
  assumes texts: "path_texts E" and ok: "journal_fits E P j"
  shows "restored (decode_journal E P) j (encode_journal E j)"
proof -
  note effects = round_trip.counted_round_trip [OF effect_round_trip [OF texts],
      where maximum = maximum_journal_count]
  note events = event_trip.counted_round_trip [where maximum = maximum_event_count]
  note header = header_round_trip [OF texts]
  show ?thesis
    unfolding encode_journal_def Let_def
    by (rule restored_finish)
      (use ok in \<open>simp add: decode_journal_def journal_run_def record_defs identity_trip.append_wire
        magic_trip reader_wire require_end_def journal_fits_def record_remade_def optional_identity_reads
        round_trip.append_wire [OF effects] round_trip.append_wire [OF events]
        round_trip.append_wire [OF header] round_trip.read_wire [OF header] reader_bind_def
        round_trip.read_wire [OF effects, unfolded reader_bind_def]
        round_trip.read_wire [OF events, unfolded reader_bind_def]\<close>)
qed

lemma record_made_again:
  assumes "make_record E header state effects events receipt completed = Inr j"
  shows "record_remade E j"
proof -
  have same: "record_header j = header" "record_state j = state" "record_effects j = sort_key effect_ordinal effects"
    "record_events j = events" "record_receipt j = receipt" "record_completed j = completed"
    using assms by (auto simp: make_record_def Let_def result_simps)
  have "sort_key effect_ordinal (sort_key effect_ordinal effects) = sort_key effect_ordinal effects"
    by (simp add: sort_key_id_if_sorted)
  with assms show ?thesis
    unfolding record_remade_def same by (simp add: make_record_def Let_def)
qed

lemma decoded_journal: "decode_journal E P bs = Inr j \<Longrightarrow> record_remade E j"
  unfolding decode_journal_def
  by (erule run_reads [rotated]) (intro reads_bind reads_lift reads_checked record_made_again)

text \<open>
  C37: a complete journal record survives storage.  The bytes of every record within the limits of the
  decoder are refused for their size or decode to exactly that record; and every record a decoder
  accepts, from any bytes, is one its factory makes again, so its events, its resolution and its
  identity are those of a valid journal.
\<close>

theorem journal_round_trip:
  assumes "path_texts E" and "journal_fits E P j"
  shows "restored (decode_journal E P) j (encode_journal E j) \<and>
    pred_option (record_remade E) (decoded (decode_journal E P bs))"
  using journal_restored [OF assms] decoded_journal [of E P bs] by (simp add: decoded_def split: sum.split)

section \<open>Replacement of a snapshot\<close>

datatype transition_error =
  Different_journal | Effect_graph_changed | Event_history_rewritten | Resolution_regressed
| Terminal_replaced | State_regressed

definition same_event :: "journal_event \<Rightarrow> journal_event \<Rightarrow> bool" where
  "same_event a b \<longleftrightarrow> event_sequence a = event_sequence b \<and> event_kind a = event_kind b \<and>
     event_effect a = event_effect b \<and> event_evidence a = event_evidence b"

text \<open>The codec's own copy of the state machine.\<close>

fun snapshot_may_follow :: "journal_state \<Rightarrow> journal_state \<Rightarrow> bool" where
  "snapshot_may_follow previous next \<longleftrightarrow> previous = next \<or>
     (case previous of
        Preparing \<Rightarrow> next = Prepared \<or> next = Abandoned
      | Prepared \<Rightarrow> next = Mutating
      | Mutating \<Rightarrow> next = Effects_visible \<or> next = Recovery_pending \<or> next = Indeterminate \<or>
          next = Abandoned
      | Effects_visible \<Rightarrow> next = Result_observed \<or> next = Recovery_pending \<or> next = Indeterminate \<or>
          next = Abandoned
      | Result_observed \<Rightarrow> next = Application_completed \<or> next = Effects_visible \<or>
          next = Recovery_pending \<or> next = Indeterminate
      | Recovery_pending \<Rightarrow> next = Recovering \<or> next = Recovered \<or> next = Effects_visible \<or>
          next = Indeterminate \<or> next = Abandoned
      | Indeterminate \<Rightarrow> next = Recovering \<or> next = Effects_visible \<or> next = Abandoned
      | Recovering \<Rightarrow> next = Recovered \<or> next = Effects_visible \<or> next = Indeterminate \<or>
          next = Abandoned
      | Application_completed \<Rightarrow> False
      | External_resolution_pending \<Rightarrow> False
      | Recovered \<Rightarrow> False
      | Finalized \<Rightarrow> False
      | Abandoned \<Rightarrow> False)"

definition validate_journal_successor ::
  "('p, 'o) journal_record \<Rightarrow> ('p, 'o) journal_record \<Rightarrow> transition_error + unit" where
  "validate_journal_successor previous next =
     (if header_identity (record_header previous) \<noteq> header_identity (record_header next)
      then Inl Different_journal
      else if length (record_effects previous) \<noteq> length (record_effects next)
      then Inl Effect_graph_changed
      else if \<not> list_all2 (\<lambda>a b. effect_identity a = effect_identity b)
        (record_effects previous) (record_effects next)
      then Inl Effect_graph_changed
      else if length (record_events next) < length (record_events previous)
      then Inl Event_history_rewritten
      else if \<not> list_all2 same_event (record_events previous)
        (take (length (record_events previous)) (record_events next))
      then Inl Event_history_rewritten
      else if record_receipt previous \<noteq> None \<and> record_receipt previous \<noteq> record_receipt next
      then Inl Resolution_regressed
      else if record_completed previous \<noteq> None \<and> record_completed previous \<noteq> record_completed next
      then Inl Resolution_regressed
      else if record_receipt previous \<noteq> None \<and> record_identity previous \<noteq> record_identity next
      then Inl Terminal_replaced
      else if \<not> snapshot_may_follow (record_state previous) (record_state next)
      then Inl State_regressed
      else Inr ())"

lemma state_machines_agree: "snapshot_may_follow = state_may_follow"
  by (intro ext, unfold snapshot_may_follow.simps state_may_follow.simps) (simp split: journal_state.split)

lemma snapshot_fields:
  assumes "history_snapshot E h = Inr j"
  shows "record_header j = declaration_header (history_declaration h)"
    "record_effects j = sort_key effect_ordinal (declaration_effects (history_declaration h))"
    "record_events j = history_events h" "record_state j = cursor_state (history_cursor h)"
    "record_receipt j = cursor_receipt (history_cursor h)"
    "record_completed j = cursor_completed (history_cursor h)"
  using make_record_fields [OF assms [unfolded history_snapshot_def]] by simp_all

lemma same_event_refl [simp]: "same_event e e"
  by (simp add: same_event_def)

text \<open>
  C38: the two forms of a journal agree on what may come next.  When a step is appended to any
  reachable history, the snapshot of the longer history is a replacement that the snapshot validation
  accepts: same attempt, same effect graph, the events only extended, receipt and completed evidence
  kept, and a state that may follow.  The one exception is a sealed history: its snapshot is final,
  and a successor that differs from it is refused as the replacement of a terminal journal.
\<close>

theorem appended_snapshot_succeeds:
  assumes "reachable_history E d h" and "append_step E h s = Inr h'"
    and "history_snapshot E h = Inr j" and "history_snapshot E h' = Inr k"
  shows "validate_journal_successor j k =
    (if record_receipt j \<noteq> None \<and> record_identity j \<noteq> record_identity k
     then Inl Terminal_replaced else Inr ())"
proof -
  note fields = append_step_Inr [OF reachable_memory [OF assms(1)] assms(2)]
  have next_ok: "successor_ok (history_cursor h) s" using fields(1) by (simp add: step_admitted_def)
  have "state_may_follow (cursor_state (history_cursor h)) (cursor_state (history_cursor h'))"
    and "cursor_receipt (history_cursor h) = None \<or>
      cursor_receipt (history_cursor h') = cursor_receipt (history_cursor h)"
    and "cursor_completed (history_cursor h) = None \<or>
      cursor_completed (history_cursor h') = cursor_completed (history_cursor h)"
    using next_ok by (auto simp: fields(6) successor_ok_def identified_cursor_def
        simp del: state_may_follow.simps)
  moreover have "history_events h' = history_events h @ (case step_event s of None \<Rightarrow> [] | Some e \<Rightarrow> [e])"
    by (simp add: fields(4) record_events_of_def)
  ultimately show ?thesis
    unfolding validate_journal_successor_def state_machines_agree
    by (auto simp: snapshot_fields [OF assms(3)] snapshot_fields [OF assms(4)] fields(3) list_all2_refl
        simp del: state_may_follow.simps split: option.split)
qed

theorem appended_snapshot_succeeds_witness:
  "\<exists>j k. history_snapshot sample_environment sample_history = Inr j \<and>
     history_snapshot sample_environment sample_successor = Inr k \<and>
     record_state j = Preparing \<and> record_state k = Prepared \<and> validate_journal_successor j k = Inr ()"
proof -
  have "\<exists>j. history_snapshot sample_environment sample_history = Inr j \<and> record_state j = Preparing \<and>
      record_receipt j = None"
    by (simp add: history_snapshot_def sample_history_def sample_declaration_def sample_seal_def
        initial_cursor_def identified_cursor_def make_record_def validate_events_def
        validate_resolution_def successful_state_def Let_def)
  moreover have "\<exists>k. history_snapshot sample_environment sample_successor = Inr k \<and> record_state k = Prepared"
    by (simp add: history_snapshot_def sample_successor_def sample_history_def sample_declaration_def
        sample_seal_def identified_cursor_def make_record_def validate_events_def
        validate_resolution_def successful_state_def Let_def)
  ultimately show ?thesis
    using appended_snapshot_succeeds [OF sample_reachable sample_append] by fastforce
qed

text \<open>A journal that stopped in its only publication, on its way through the codec.\<close>

definition stored_journal :: "(8 word, 8 word) journal_record" where
  "stored_journal = \<lparr>record_identity = 0, record_header = sample_durable_header, record_state = Mutating,
     record_effects = [\<lparr>effect_identity = 0, effect_ordinal = 0, effect_kind = Publish_active_object,
       effect_path = Some 1\<rparr>],
     record_events = [\<lparr>event_sequence = 0, event_kind = Intent, event_effect = 0, event_evidence = []\<rparr>],
     record_receipt = None, record_completed = None\<rparr>"

theorem journal_round_trip_witness:
  "restored (decode_journal sample_paths sample_planning) stored_journal
     (encode_journal sample_paths stored_journal)"
proof -
  have texts: "path_texts sample_paths" using sample_replayable by (simp add: replayable_def)
  have "journal_fits sample_paths sample_planning stored_journal"
    using sample_header_ok
    by (simp add: journal_fits_def stored_journal_def record_remade_def make_record_def
        validate_events_def Let_def fresh_progress_def validate_resolution_def successful_state_def
        wire_effect_ok_def make_effect_Inr path_fits_def sample_paths_def maximum_path_text_size_def
        maximum_journal_count_def maximum_event_count_def event_ok_def make_event_def normalize_evidence_def)
  from journal_round_trip [OF texts this] show ?thesis by blast
qed

end
