(* ===== verification/Certifying.thy ===== *)
theory Certifying
  imports Wiring
begin

text \<open>
  The durable bytes of completed evidence (\<open>completed_evidence_codec.cpp\<close>), with the readers and
  writers of path consequences that the receipt codec shares.  A record travels in an envelope of a
  magic, a version, the size of its body and a checksum over the body.  The maximal entry number
  comes from the package image library and is a field of \<open>sealing\<close>; the size limit of a text is the
  limit of the codec and an argument of the readers.
\<close>

section \<open>Readers\<close>

record 'o sealing =
  seal_planning :: "'o planning"
  seal_entry_limit :: u64

definition all_completenesses :: "object_fact_completeness list" where
  "all_completenesses = [Fact_complete, Fact_partial]"

definition seal_read_object :: "('p, 'o) environment \<Rightarrow> u64 \<Rightarrow> 'p completed_object_fact reader" where
  "seal_read_object E maximum =
     reader_bind (read_path E maximum) (\<lambda>path.
     reader_bind (read_enum object_kind_tag all_object_kinds) (\<lambda>kind.
     reader_bind (read_fact read_u32) (\<lambda>mode.
     reader_bind (read_fact read_u64) (\<lambda>uid.
     reader_bind (read_fact read_u64) (\<lambda>gid.
     reader_bind (read_fact read_u64) (\<lambda>size.
     reader_bind (read_fact replay_read_timestamp) (\<lambda>mtime.
     reader_bind (read_fact read_identity) (\<lambda>regular.
     reader_bind (read_fact (read_string maximum)) (\<lambda>symlink.
     reader_bind (read_fact read_device) (\<lambda>device.
     reader_bind (read_fact (read_path E maximum)) (\<lambda>hardlink.
     reader_bind read_u8 (\<lambda>provenance.
     reader_bind read_u8 (\<lambda>completeness.
     case (find (\<lambda>x. provenance_tag x = provenance) all_provenances,
           find (\<lambda>x. completeness_tag x = completeness) all_completenesses) of
       (Some p, Some c) \<Rightarrow> reader_lift (make_object_fact
         \<lparr>object_path = path, object_kind = kind, object_mode = mode, object_uid = uid,
          object_gid = gid, object_size = size, object_mtime = mtime, object_content = regular,
          object_symlink_target = symlink, object_device = device, object_hardlink = hardlink,
          object_provenance = p, object_completeness = c\<rparr>)
     | _ \<Rightarrow> reader_fail Invalid_value)))))))))))))"

definition seal_read_observation :: "('p, 'o) environment \<Rightarrow> u64 \<Rightarrow> 'p path_observation reader" where
  "seal_read_observation E maximum =
     reader_bind (read_path E maximum) (\<lambda>path.
     reader_bind read_u8 (\<lambda>state.
     if state = 1
     then reader_bind (seal_read_object E maximum) (\<lambda>obj.
       if object_path obj \<noteq> path then reader_fail Invalid_value
       else reader_lift (observation_present obj))
     else if state = 2 then reader_lift (observation_unknown path)
     else if state = 3 then reader_lift (observation_absent path)
     else reader_fail Invalid_value))"

definition all_roles :: "path_role list" where
  "all_roles = [Incoming_entry, Obsolete_old_path, Structural_parent, Installed_owned_path]"

definition all_active_outcomes :: "planned_active_outcome list" where
  "all_active_outcomes =
     [Activate_incoming, Retain_observed, Remove_observed, Remove_directory_if_empty, Remain_absent]"

definition all_rejected_outcomes :: "planned_rejected_outcome list" where
  "all_rejected_outcomes = [No_rejected, Stage_incoming, Stage_old]"

definition read_owners :: "'o sealing \<Rightarrow> 'o list reader" where
  "read_owners S = reader_bind (read_count maximum_item_count)
     (read_many (read_planning (parse_owner (seal_planning S))))"

definition read_entry :: "'o sealing \<Rightarrow> entry_id reader" where
  "read_entry S = reader_bind read_u64 (\<lambda>v.
     if v > seal_entry_limit S then reader_fail Invalid_value else reader_return v)"

text \<open>The path and its decision are known when the rest of a consequence is read.\<close>

definition read_decided ::
  "('p, 'o) environment \<Rightarrow> 'o sealing \<Rightarrow> u64 \<Rightarrow> 'p \<Rightarrow> ('p, 'o) path_decision \<Rightarrow>
   ('p, 'o) path_consequence reader" where
  "read_decided E S maximum path d =
     reader_bind (read_enum role_tag all_roles) (\<lambda>role.
     reader_bind (read_enum active_outcome_tag all_active_outcomes) (\<lambda>active.
     reader_bind (read_enum rejected_outcome_tag all_rejected_outcomes) (\<lambda>rejected.
     reader_bind (read_optional (read_entry S)) (\<lambda>entry.
     reader_bind (read_owners S) (\<lambda>before_owners.
     reader_bind (read_owners S) (\<lambda>after_owners.
     reader_bind read_bool (\<lambda>incoming_owns.
     if path \<noteq> decision_path d \<or> role \<noteq> replay_role d \<or> active \<noteq> decision_active d \<or>
        rejected \<noteq> decision_rejected d \<or> entry \<noteq> replay_entry d \<or>
        before_owners \<noteq> before_existing_owners (decision_ownership d) \<or>
        after_owners \<noteq> after_existing_owners (decision_ownership d) \<or>
        incoming_owns \<noteq> incoming_package_owns_after (decision_ownership d)
     then reader_fail Request_mismatch
     else
       reader_bind read_u8 (\<lambda>active_value.
       reader_bind read_u8 (\<lambda>rejected_value.
       case (find (\<lambda>x. effect_status_tag x = active_value) all_effect_statuses,
             find (\<lambda>x. effect_status_tag x = rejected_value) all_effect_statuses) of
         (Some a, Some j) \<Rightarrow>
           reader_bind (seal_read_observation E maximum) (\<lambda>prior.
           reader_bind (seal_read_observation E maximum) (\<lambda>after.
           reader_bind (read_optional read_identity) (\<lambda>record.
           reader_bind (read_enum publication_tag all_publications) (\<lambda>publish.
           reader_lift (make_consequence
             \<lparr>consequence_path = path, consequence_role = role, requested_active = active,
              requested_rejected = rejected, consequence_entry = entry,
              consequence_ownership = decision_ownership d, active_status = a, rejected_status = j,
              consequence_before = prior, consequence_after = after, rejected_object = record,
              publication = publish\<rparr>)))))
       | _ \<Rightarrow> reader_fail Invalid_value)))))))))"

definition seal_read_path ::
  "('p, 'o) environment \<Rightarrow> 'o sealing \<Rightarrow> u64 \<Rightarrow> ('p, 'o) path_decision \<Rightarrow>
   ('p, 'o) path_consequence reader" where
  "seal_read_path E S maximum d =
     reader_bind (read_path E maximum) (\<lambda>path. read_decided E S maximum path d)"

fun seal_read_paths ::
  "('p, 'o) environment \<Rightarrow> 'o sealing \<Rightarrow> u64 \<Rightarrow> ('p, 'o) path_decision list \<Rightarrow>
   ('p, 'o) path_consequence list reader" where
  "seal_read_paths E S maximum [] = reader_return []"
| "seal_read_paths E S maximum (d # ds) = reader_bind (seal_read_path E S maximum d) (\<lambda>c.
     reader_bind (seal_read_paths E S maximum ds) (\<lambda>cs. reader_return (c # cs)))"

section \<open>Writers\<close>

definition seal_append_decided ::
  "('p, 'o) environment \<Rightarrow> bytes \<Rightarrow> ('p, 'o) path_consequence \<Rightarrow> bytes" where
  "seal_append_decided E r c =
     (let r = append_u8 r (role_tag (consequence_role c));
          r = append_u8 r (active_outcome_tag (requested_active c));
          r = append_u8 r (rejected_outcome_tag (requested_rejected c));
          r = append_optional append_u64 r (consequence_entry c);
          r = append_counted (append_owner E) r (before_existing_owners (consequence_ownership c));
          r = append_counted (append_owner E) r (after_existing_owners (consequence_ownership c));
          r = append_bool r (incoming_package_owns_after (consequence_ownership c));
          r = append_u8 r (effect_status_tag (active_status c));
          r = append_u8 r (effect_status_tag (rejected_status c));
          r = replay_append_observation E r (consequence_before c);
          r = replay_append_observation E r (consequence_after c);
          r = append_optional append_identity r (rejected_object c) in
      append_u8 r (publication_tag (publication c)))"

definition seal_append_path ::
  "('p, 'o) environment \<Rightarrow> bytes \<Rightarrow> ('p, 'o) path_consequence \<Rightarrow> bytes" where
  "seal_append_path E r c = seal_append_decided E (append_path_text E r (consequence_path c)) c"

section \<open>Envelopes\<close>

definition seal_finish :: "nat \<Rightarrow> bytes \<Rightarrow> codec_error + bytes" where
  "seal_finish limit bs = (if length bs > limit then Inl (Codec_error Limit_exceeded) else Inr bs)"

definition close_envelope ::
  "('p, 'o) environment \<Rightarrow> bytes \<Rightarrow> nat \<Rightarrow> bytes \<Rightarrow> codec_error + bytes" where
  "close_envelope E magic limit body =
     rbind (seal_finish limit body) (\<lambda>body.
     let r = append_u16 magic 1;
         r = append_u64 r (word_of_nat (length body));
         r = r @ digest_array (hash E body) in
     seal_finish limit (r @ body))"

definition open_envelope ::
  "('p, 'o) environment \<Rightarrow> bytes \<Rightarrow> nat \<Rightarrow> 'a reader \<Rightarrow> bytes \<Rightarrow> codec_error + 'a" where
  "open_envelope E magic limit rd bs =
     (if length bs > limit then Inl (Codec_error Limit_exceeded)
      else rbind
        (reader_bind (expect_bytes magic) (\<lambda>_.
         reader_bind (read_version 1) (\<lambda>_.
         reader_bind read_u64 (\<lambda>size.
         if unat size > limit then reader_fail Limit_exceeded
         else
           reader_bind (read_word 32) (\<lambda>checksum body.
           if unat size > length body then Inl (Codec_error Codec_truncated)
           else if unat size < length body then Inl (Codec_error Trailing_data)
           else if hash E body \<noteq> checksum then Inl (Codec_error Checksum_mismatch)
           else reader_bind rd (\<lambda>x. reader_bind require_end (\<lambda>_. reader_return x)) body)))) bs)
        (\<lambda>(x, _). Inr x))"

section \<open>Completed evidence\<close>

definition evidence_magic :: bytes where "evidence_magic = str_bytes ''ZLAPEVD'' @ [0]"
definition maximum_evidence_size :: nat where "maximum_evidence_size = 268435456"

definition append_evidence_body ::
  "('p, 'o) environment \<Rightarrow> bytes \<Rightarrow> ('p, 'o) completed_evidence \<Rightarrow> bytes" where
  "append_evidence_body E r e =
     (let r = append_u16 r 1;
          r = append_identity r (evidence_identity e);
          r = append_u8 r (canonical_kind (evidence_kind e));
          r = append_identity r (evidence_request e);
          r = append_bytes r (evidence_plan e);
          r = append_identity r (evidence_attempt e);
          r = append_identity r (evidence_target e);
          r = append_identity r (evidence_control e);
          r = append_identity r (evidence_projection e);
          r = append_identity r (evidence_journal e);
          r = append_counted (seal_append_path E) r (evidence_paths e);
          r = replay_append_durability r (evidence_durability e) in
      replay_append_evidence r (evidence_backend e))"

definition encode_evidence :: "('p, 'o) environment \<Rightarrow> ('p, 'o) completed_evidence \<Rightarrow> codec_error + bytes" where
  "encode_evidence E e =
     close_envelope E evidence_magic maximum_evidence_size (append_evidence_body E [] e)"

definition read_evidence_body ::
  "('p::linorder, 'o) environment \<Rightarrow> 'o sealing \<Rightarrow> ('p, 'o) application_request \<Rightarrow>
   ('p, 'o) completed_evidence reader" where
  "read_evidence_body E S request =
     reader_bind (read_version 1) (\<lambda>_.
     reader_bind read_identity (\<lambda>expected.
     reader_bind (read_enum canonical_kind [Install, Upgrade, Remove]) (\<lambda>kind.
     reader_bind read_identity (\<lambda>named.
     reader_bind (read_planning (parse_plan (seal_planning S))) (\<lambda>plan.
     reader_bind read_identity (\<lambda>attempt.
     reader_bind read_identity (\<lambda>target.
     reader_bind read_identity (\<lambda>control.
     reader_bind read_identity (\<lambda>state.
     reader_bind read_identity (\<lambda>journal.
     if kind \<noteq> request_kind request \<or> named \<noteq> request_identity request \<or>
        plan \<noteq> plan_identity (request_plan request) \<or>
        target \<noteq> context_identity (request_target request) \<or>
        control \<noteq> control_identity (request_control request)
     then reader_fail Request_mismatch
     else
       reader_bind (read_count maximum_item_count) (\<lambda>path_count.
       let decisions = plan_paths (request_plan request) in
       if path_count \<noteq> length decisions then reader_fail Request_mismatch
       else
         reader_bind (seal_read_paths E S maximum_text_size decisions) (\<lambda>paths.
         reader_bind replay_read_durability (\<lambda>durability.
         reader_bind replay_read_evidence (\<lambda>backend.
         reader_bind (reader_lift (completed_application_evidence E request attempt state journal
           paths durability backend)) (\<lambda>result.
         if evidence_identity result \<noteq> expected then reader_fail Identity_mismatch
         else reader_return result)))))))))))))))"

definition decode_evidence ::
  "('p::linorder, 'o) environment \<Rightarrow> 'o sealing \<Rightarrow> ('p, 'o) application_request \<Rightarrow> bytes \<Rightarrow>
   codec_error + ('p, 'o) completed_evidence" where
  "decode_evidence E S request bs = translate_invalid
     (open_envelope E evidence_magic maximum_evidence_size (read_evidence_body E S request) bs)"

section \<open>Round trips\<close>

definition text_within :: "('p, 'o) environment \<Rightarrow> u64 \<Rightarrow> 'p \<Rightarrow> bool" where
  "text_within E maximum p \<longleftrightarrow> length (path_string E p) \<le> unat maximum"

definition object_within :: "('p, 'o) environment \<Rightarrow> u64 \<Rightarrow> 'p completed_object_fact \<Rightarrow> bool" where
  "object_within E maximum obj \<longleftrightarrow> make_object_fact obj = Inr obj \<and>
     text_within E maximum (object_path obj) \<and>
     fact_ok (\<lambda>t. length t \<le> unat maximum) (object_symlink_target obj) \<and>
     fact_ok (text_within E maximum) (object_hardlink obj)"

lemma path_within_trip:
  assumes "path_texts E"
  shows "round_trip (append_path_text E) (read_path E maximum) (text_within E maximum)"
  unfolding text_within_def [abs_def] by (rule path_round_trip [OF assms])

lemmas provenance_found = find_self [OF all_enumerators(2)]
  find_self [OF all_enumerators(3), folded all_completenesses_def]

lemma object_within_trip:
  assumes "path_texts E"
  shows "round_trip (replay_append_object E) (seal_read_object E maximum) (object_within E maximum)"
proof
  note ptext = path_within_trip [OF assms, of maximum]
  note facts = u32_trip.fact_round_trip u64_trip.fact_round_trip replay_timestamp_trip.fact_round_trip
    identity_trip.fact_round_trip round_trip.fact_round_trip [OF string_round_trip [of maximum]]
    device_trip.fact_round_trip round_trip.fact_round_trip [OF ptext]
  note chain = facts [THEN round_trip.append_wire] round_trip.append_wire [OF ptext] record_defs
  note reads = facts [THEN round_trip.read_wire] round_trip.read_wire [OF ptext] reader_wire
  show "replay_append_object E r obj = r @ wire (replay_append_object E) obj" for r obj
    by (rule round_trip.append_wire [OF object_round_trip [OF assms]])
  show "object_within E maximum obj \<Longrightarrow>
      seal_read_object E maximum (wire (replay_append_object E) obj @ s) = Inr (obj, s)" for obj s
    by (cases obj) (simp add: replay_append_object_def wire_def [of "replay_append_object E"] chain
        object_within_def seal_read_object_def reads provenance_found)
qed

definition observation_within :: "('p, 'o) environment \<Rightarrow> u64 \<Rightarrow> 'p path_observation \<Rightarrow> bool" where
  "observation_within E maximum ob \<longleftrightarrow> observation_wf ob \<and>
     text_within E maximum (observation_path ob) \<and> pred_option (object_within E maximum) (observation_object ob)"

lemma observation_within_trip:
  assumes "path_texts E"
  shows "round_trip (replay_append_observation E) (seal_read_observation E maximum) (observation_within E maximum)"
proof
  note ptext = path_within_trip [OF assms, of maximum]
  note obj = object_within_trip [OF assms, of maximum]
  note chain = round_trip.append_wire [OF ptext] round_trip.append_wire [OF obj] record_defs
  note reads = round_trip.read_wire [OF ptext] round_trip.read_wire [OF obj] reader_wire
  show "replay_append_observation E r ob = r @ wire (replay_append_observation E) ob" for r ob
    by (rule round_trip.append_wire [OF observation_round_trip [OF assms]])
  show "seal_read_observation E maximum (wire (replay_append_observation E) ob @ s) = Inr (ob, s)"
    if "observation_within E maximum ob" for ob s
    using that
    by (cases "observation_state ob")
      (auto simp: replay_append_observation_def wire_def [of "replay_append_observation E"] chain
        observation_within_def seal_read_observation_def reads observation_wf_def observation_factories
        intro!: path_observation.equality)
qed

lemma decision_enumerators:
  "role \<in> set all_roles" "active \<in> set all_active_outcomes" "rejected \<in> set all_rejected_outcomes"
  subgoal by (cases role) (simp_all add: all_roles_def)
  subgoal by (cases active) (simp_all add: all_active_outcomes_def)
  subgoal by (cases rejected) (simp_all add: all_rejected_outcomes_def)
  done

lemma decision_tags_inj: "inj role_tag" "inj active_outcome_tag" "inj rejected_outcome_tag"
  by (simp_all add: inj_def)

lemmas decision_reads = enum_read [OF decision_tags_inj(1) decision_enumerators(1)]
  enum_read [OF decision_tags_inj(2) decision_enumerators(2)]
  enum_read [OF decision_tags_inj(3) decision_enumerators(3)]
  enum_read [OF tags_inj(8) all_enumerators(8)]

lemma entry_round_trip: "round_trip append_u64 (read_entry S) (\<lambda>n. n \<le> seal_entry_limit S)"
  by unfold_locales (simp_all add: u64_trip.append_wire read_entry_def reader_wire not_less)

definition owners_within :: "('p, 'o) environment \<Rightarrow> 'o sealing \<Rightarrow> 'o list \<Rightarrow> bool" where
  "owners_within E S owners \<longleftrightarrow> list_all (owner_text E (seal_planning S)) owners \<and>
     length owners \<le> unat maximum_item_count"

lemma owners_round_trip: "round_trip (append_counted (append_owner E)) (read_owners S) (owners_within E S)"
  unfolding read_owners_def owners_within_def [abs_def]
  by (rule round_trip.counted_round_trip [OF owner_round_trip])

definition consequence_within ::
  "('p, 'o) environment \<Rightarrow> 'o sealing \<Rightarrow> u64 \<Rightarrow> ('p, 'o) path_consequence \<Rightarrow> bool" where
  "consequence_within E S maximum c \<longleftrightarrow> make_consequence c = Inr c \<and>
     text_within E maximum (consequence_path c) \<and>
     pred_option (\<lambda>n. n \<le> seal_entry_limit S) (consequence_entry c) \<and>
     owners_within E S (before_existing_owners (consequence_ownership c)) \<and>
     owners_within E S (after_existing_owners (consequence_ownership c)) \<and>
     observation_within E maximum (consequence_before c) \<and>
     observation_within E maximum (consequence_after c)"

lemma decided_wire:
  assumes "path_texts E"
  shows "seal_append_decided E r c = r @ wire (seal_append_decided E) c"
  by (simp add: seal_append_decided_def wire_def [of "seal_append_decided E"] record_defs
      round_trip.append_wire [OF observation_within_trip [OF assms]]
      round_trip.append_wire [OF round_trip.optional_round_trip [OF entry_round_trip]]
      round_trip.append_wire [OF owners_round_trip] round_trip.append_wire [OF identity_trip.optional_round_trip])

lemma decision_projected:
  assumes "plan_matches kind c d" and "decision_role d = None \<longleftrightarrow> kind = Remove"
  shows "consequence_path c = decision_path d \<and> consequence_role c = replay_role d \<and>
    requested_active c = decision_active d \<and> requested_rejected c = decision_rejected d \<and>
    consequence_entry c = replay_entry d \<and> consequence_ownership c = decision_ownership d"
  using assms
  by (auto simp: plan_matches_def matches_decision_def matches_removal_decision_def replay_role_def
      replay_entry_def split: operation_kind.splits option.splits)

lemma decided_read:
  assumes texts: "path_texts E" and within: "consequence_within E S maximum c"
    and matches: "plan_matches kind c d" "decision_role d = None \<longleftrightarrow> kind = Remove"
  shows "read_decided E S maximum (consequence_path c) d (wire (seal_append_decided E) c @ s) = Inr (c, s)"
proof -
  note ob = observation_within_trip [OF texts]
  note entry = round_trip.optional_round_trip [OF entry_round_trip]
  note opt = identity_trip.optional_round_trip
  note wires = round_trip.append_wire [OF ob] round_trip.append_wire [OF entry]
    round_trip.append_wire [OF owners_round_trip] round_trip.append_wire [OF opt]
  note reads = round_trip.read_wire [OF ob] round_trip.read_wire [OF entry]
    round_trip.read_wire [OF owners_round_trip] round_trip.read_wire [OF opt]
  note projected = decision_projected [OF matches]
  have "c = \<lparr>consequence_path = decision_path d, consequence_role = replay_role d,
      requested_active = decision_active d, requested_rejected = decision_rejected d,
      consequence_entry = replay_entry d, consequence_ownership = decision_ownership d,
      active_status = active_status c, rejected_status = rejected_status c,
      consequence_before = consequence_before c, consequence_after = consequence_after c,
      rejected_object = rejected_object c, publication = publication c\<rparr>" (is "c = ?c")
    using projected by (intro path_consequence.equality) simp_all
  moreover have "make_consequence c = Inr c" using within by (simp add: consequence_within_def)
  ultimately have made: "make_consequence ?c = Inr c" by simp
  with within projected show ?thesis
    by (simp add: seal_append_decided_def wire_def [of "seal_append_decided E"] record_defs wires
        read_decided_def decision_reads reads reader_wire find_tags consequence_within_def made)
qed

lemma seal_path_wire:
  assumes "path_texts E"
  shows "seal_append_path E r c = r @ wire (seal_append_path E) c"
  by (simp add: seal_append_path_def wire_def [of "seal_append_path E"] decided_wire [OF assms]
      round_trip.append_wire [OF path_within_trip [OF assms]])

lemma seal_path_parts:
  assumes "path_texts E"
  shows "wire (seal_append_path E) c =
    wire (append_path_text E) (consequence_path c) @ wire (seal_append_decided E) c"
  by (simp add: wire_def [of "seal_append_path E"] seal_append_path_def decided_wire [OF assms]
      round_trip.append_wire [OF path_within_trip [OF assms]])

lemma seal_path_read:
  assumes texts: "path_texts E" and within: "consequence_within E S maximum c"
    and matches: "plan_matches kind c d" "decision_role d = None \<longleftrightarrow> kind = Remove"
  shows "seal_read_path E S maximum d (wire (seal_append_path E) c @ s) = Inr (c, s)"
  using within decided_read [OF assms]
  by (simp add: seal_path_parts [OF texts] seal_read_path_def consequence_within_def
      round_trip.read_wire [OF path_within_trip [OF texts]])

lemma seal_paths_read:
  assumes "path_texts E" and "list_all2 (plan_matches kind) cs ds"
    and "list_all (consequence_within E S maximum) cs"
    and "\<forall>d \<in> set ds. decision_role d = None \<longleftrightarrow> kind = Remove"
  shows "seal_read_paths E S maximum ds (concat (map (wire (seal_append_path E)) cs) @ s) = Inr (cs, s)"
  using assms(2-4)
  by (induction rule: list_all2_induct) (simp_all add: seal_path_read [OF assms(1)])

lemma digest_word_read: "read_word 32 (digest_array d @ s) = Inr (d, s)"
  by (simp add: digest_array_def read_word_be_bytes)

text \<open>An envelope opens to the body it closed over, which its reader must exhaust.\<close>

lemma envelope_opens:
  assumes closed: "close_envelope E magic limit body = Inr bs" and small: "limit < 2 ^ 64"
    and body: "rd body = Inr (x, [])"
  shows "open_envelope E magic limit rd bs = Inr x"
proof -
  have size: "length body \<le> limit" and bytes: "length bs \<le> limit"
    "bs = magic @ wire append_u16 1 @ wire append_u64 (word_of_nat (length body)) @
      digest_array (hash E body) @ body"
    using closed by (auto simp: close_envelope_def seal_finish_def Let_def record_defs split: if_splits)
  have "unat (word_of_nat (length body) :: u64) = length body"
    using size small by (simp add: unat_of_nat)
  then show ?thesis
    using size bytes(1) body unfolding bytes(2)
    by (simp add: open_envelope_def magic_trip reader_wire digest_word_read require_end_def)
qed

lemma closed_size: "close_envelope E magic limit body = Inl e \<Longrightarrow> e = Codec_error Limit_exceeded"
  by (auto simp: close_envelope_def seal_finish_def Let_def split: if_splits)

text \<open>What an envelope opens to is what the reader of its body returned, over bytes that carry their hash.\<close>

lemma opened_reads:
  assumes opened: "open_envelope E magic limit rd bs = Inr x" and reads: "reads_only rd Q"
  shows "Q x"
proof -
  obtain body where "reader_bind rd (\<lambda>x. reader_bind require_end (\<lambda>_. reader_return x)) body = Inr (x, [])"
    using opened
    by (auto simp: open_envelope_def rbind_Inr_iff require_end_def split: if_splits)
  then obtain rest where "rd body = Inr (x, rest)" by (auto simp: rbind_Inr_iff require_end_def)
  then show ?thesis using reads by (auto simp: reads_only_def dest: spec [of _ body])
qed

definition evidence_fits ::
  "('p::linorder, 'o) environment \<Rightarrow> 'o sealing \<Rightarrow> ('p, 'o) application_request \<Rightarrow>
   ('p, 'o) completed_evidence \<Rightarrow> bool" where
  "evidence_fits E S request e \<longleftrightarrow>
     completed_application_evidence E request (evidence_attempt e) (evidence_projection e)
       (evidence_journal e) (evidence_paths e) (evidence_durability e) (evidence_backend e) = Inr e \<and>
     valid_profile (evidence_durability e) \<and>
     list_all (consequence_within E S maximum_text_size) (evidence_paths e) \<and>
     length (evidence_paths e) \<le> unat maximum_item_count \<and>
     length (evidence_backend e) \<le> unat maximum_item_count \<and>
     planning_text (parse_plan (seal_planning S)) (evidence_plan e)"

lemma evidence_bound:
  assumes "completed_application_evidence E request attempt projection journal paths durability backend = Inr e"
  shows "evidence_kind e = request_kind request" "evidence_request e = request_identity request"
    "evidence_plan e = plan_identity (request_plan request)"
    "evidence_target e = context_identity (request_target request)"
    "evidence_control e = control_identity (request_control request)"
  using assms by (auto simp: completed_application_evidence_def make_evidence_def Let_def result_simps)

lemma evidence_matches:
  assumes ordered: "plan_ordered (request_plan request)"
    and made: "completed_application_evidence E request attempt projection journal paths durability backend = Inr e"
  shows "list_all2 (plan_matches (request_kind request)) (evidence_paths e) (plan_paths (request_plan request))"
proof -
  obtain ps where ps: "normalize_result_paths paths = Inr ps" and same: "normalize_result_paths ps = Inr (evidence_paths e)"
    and valid: "validate_plan_paths (request_kind request) (request_plan request) ps True = Inr ()"
    using made by (auto simp: completed_application_evidence_def make_evidence_def Let_def result_simps)
  note sorted = normalize_result_paths_sorted(1,2) [OF ps]
  have "evidence_paths e = ps"
    using same sorted by (simp add: normalize_result_paths_Inr sort_key_id_if_sorted)
  with valid validate_plan_paths_complete [OF ordered sorted] show ?thesis by simp
qed

lemma evidence_body_wire:
  assumes "path_texts E"
  shows "append_evidence_body E r e = r @ wire append_u16 1 @ wire append_identity (evidence_identity e) @
    wire append_u8 (canonical_kind (evidence_kind e)) @ wire append_identity (evidence_request e) @
    wire append_bytes (evidence_plan e) @ wire append_identity (evidence_attempt e) @
    wire append_identity (evidence_target e) @ wire append_identity (evidence_control e) @
    wire append_identity (evidence_projection e) @ wire append_identity (evidence_journal e) @
    wire append_u64 (word_of_nat (length (evidence_paths e))) @
    concat (map (wire (seal_append_path E)) (evidence_paths e)) @
    wire replay_append_durability (evidence_durability e) @
    wire replay_append_evidence (evidence_backend e)"
proof -
  have fold: "foldl (seal_append_path E) r cs = r @ concat (map (wire (seal_append_path E)) cs)" for r cs
    by (induction cs arbitrary: r) (simp_all add: seal_path_wire [OF assms])
  show ?thesis
    by (simp add: append_evidence_body_def append_counted_def identity_trip.append_wire fold record_defs
        bytes_code.app_wire profile_trip.append_wire replay_evidence_trip.append_wire)
qed

lemma evidence_body_read:
  assumes replay: "replayable E request" and fits: "evidence_fits E S request e"
  shows "read_evidence_body E S request (append_evidence_body E [] e) = Inr (e, [])"
proof -
  have texts: "path_texts E" and ordered: "plan_ordered (request_plan request)"
    and typed: "plan_typed (request_kind request) (request_plan request)"
    using replay by (simp_all add: replayable_def)
  have made: "completed_application_evidence E request (evidence_attempt e) (evidence_projection e)
      (evidence_journal e) (evidence_paths e) (evidence_durability e) (evidence_backend e) = Inr e"
    using fits by (simp add: evidence_fits_def)
  have matches: "list_all2 (plan_matches (request_kind request)) (evidence_paths e)
      (plan_paths (request_plan request))"
    by (rule evidence_matches [OF ordered made])
  note paths = seal_paths_read [OF texts matches _ typed [unfolded plan_typed_def]]
  have count: "unat (word_of_nat (length (evidence_paths e)) :: u64) = length (evidence_paths e)"
    "word_of_nat (length (evidence_paths e)) \<le> maximum_item_count"
    using fits unsigned_less [of maximum_item_count, where 'a = nat]
    by (simp_all add: evidence_fits_def unat_of_nat word_le_nat_alt)
  show ?thesis
    using fits list_all2_lengthD [OF matches] count
    unfolding evidence_body_wire [OF texts]
    by (simp add: read_evidence_body_def reader_wire planning_trip read_count_def not_less paths Let_def
        profile_trip.read_wire replay_evidence_trip.read_wire replay_evidence_trip.read_end
        evidence_fits_def evidence_bound [OF made])
qed

lemma evidence_restored:
  assumes "replayable E request" and "evidence_fits E S request e"
  shows "restored (decode_evidence E S request) e (encode_evidence E e)"
proof (cases "encode_evidence E e")
  case (Inl error)
  then show ?thesis using closed_size by (simp add: restored_def encode_evidence_def)
next
  case (Inr bs)
  have "open_envelope E evidence_magic maximum_evidence_size (read_evidence_body E S request) bs = Inr e"
    by (rule envelope_opens [OF Inr [unfolded encode_evidence_def]])
      (simp_all add: maximum_evidence_size_def evidence_body_read [OF assms])
  with Inr show ?thesis by (simp add: restored_def decode_evidence_def)
qed

definition evidence_of ::
  "('p::linorder, 'o) environment \<Rightarrow> ('p, 'o) application_request \<Rightarrow> ('p, 'o) completed_evidence \<Rightarrow> bool" where
  "evidence_of E request e \<longleftrightarrow> (\<exists>attempt projection journal paths durability backend.
     completed_application_evidence E request attempt projection journal paths durability backend = Inr e \<and>
     valid_profile durability)"

lemma evidence_ofI:
  "completed_application_evidence E request attempt projection journal paths durability backend = Inr e \<Longrightarrow>
   valid_profile durability \<Longrightarrow> evidence_of E request e"
  unfolding evidence_of_def by (intro exI conjI)

lemma reader_lift_Inr: "reader_lift v bs = Inr r \<longleftrightarrow> (\<exists>x. v = Inr x \<and> r = (x, bs))"
  by (cases v) auto

lemma reads_durability:
  assumes f: "\<And>p. valid_profile p \<Longrightarrow> reads_only (f p) Q"
  shows "reads_only (reader_bind replay_read_durability f) Q"
  unfolding reads_only_def
proof (rule allI)
  fix bs
  show "case reader_bind replay_read_durability f bs of Inl e \<Rightarrow> True | Inr (x, rest) \<Rightarrow> Q x"
  proof (cases "replay_read_durability bs")
    case (Inr r)
    obtain p rest where r: "r = (p, rest)" by (cases r)
    have "valid_profile p"
      using Inr unfolding r replay_read_durability_def
      by (auto simp: rbind_Inr_iff reader_lift_Inr dest: make_profile_valid)
    with f [of p] Inr show ?thesis by (simp add: r reads_only_def)
  qed simp
qed

lemma evidence_reads: "reads_only (read_evidence_body E S request) (evidence_of E request)"
  unfolding read_evidence_body_def Let_def
  by (intro reads_if reads_lift reads_durability reads_bind reads_checked evidence_ofI)

lemma translated_Inr: "translate_invalid r = Inr x \<longleftrightarrow> r = Inr x"
  by (cases r rule: translate_invalid.cases) simp_all

lemma decoded_evidence: "decode_evidence E S request bs = Inr e \<Longrightarrow> evidence_of E request e"
  unfolding decode_evidence_def translated_Inr by (erule opened_reads) (rule evidence_reads)

text \<open>
  C40: completed evidence survives storage and cannot be passed off.  The bytes of every evidence within
  the limits are refused for their size or decode, against the request they were made for, to exactly
  that evidence; and whatever bytes the decoder accepts for a request, the result is evidence that the
  factory makes for that request: of its kind, plan, target and control, and complete on the paths of
  its plan.
\<close>

theorem evidence_round_trip:
  assumes "replayable E request" and "evidence_fits E S request e"
  shows "restored (decode_evidence E S request) e (encode_evidence E e) \<and>
    pred_option (\<lambda>f. evidence_of E request f \<and> evidence_request f = request_identity request \<and>
        list_all2 (plan_matches (request_kind request)) (evidence_paths f) (plan_paths (request_plan request)))
      (decoded (decode_evidence E S request bs))"
proof -
  have "plan_ordered (request_plan request)" using assms(1) by (simp add: replayable_def)
  then have "evidence_request f = request_identity request \<and>
      list_all2 (plan_matches (request_kind request)) (evidence_paths f) (plan_paths (request_plan request))"
    if "evidence_of E request f" for f
    using that evidence_bound(2) evidence_matches unfolding evidence_of_def by blast
  then show ?thesis
    using evidence_restored [OF assms] decoded_evidence [of E S request bs]
    by (auto simp: decoded_def split: sum.split)
qed

text \<open>The sample removal, stored and read back.\<close>

definition sample_sealing :: "8 word sealing" where
  "sample_sealing = \<lparr>seal_planning = sample_planning, seal_entry_limit = 2 ^ 32 - 1\<rparr>"

lemma sample_removed_within:
  "unat maximum = 268435456 \<or> unat maximum = 536870912 \<Longrightarrow>
   consequence_within sample_paths sample_sealing maximum sample_removed"
  by (auto simp: consequence_within_def make_consequence_def text_within_def owners_within_def owner_text_def
      observation_within_def observation_wf_def object_within_def make_object_fact_def
      validate_kind_fields_def sample_removed_def sample_paths_def sample_sealing_def sample_planning_def
      maximum_digest_text_size_def maximum_item_count_def)

lemma sample_refused_within:
  assumes "unat maximum = 268435456 \<or> unat maximum = 536870912"
  shows "consequence_within sample_paths sample_sealing maximum sample_refused"
proof -
  have same: "consequence_path sample_refused = consequence_path sample_removed"
    "consequence_entry sample_refused = consequence_entry sample_removed"
    "consequence_ownership sample_refused = consequence_ownership sample_removed"
    "consequence_before sample_refused = consequence_before sample_removed"
    "consequence_after sample_refused = consequence_after sample_removed"
    by (simp_all add: sample_refused_def)
  have "make_consequence sample_refused = Inr sample_refused"
    by (simp add: sample_refused_def sample_removed_def make_consequence_def)
  with sample_removed_within [OF assms] show ?thesis by (simp add: consequence_within_def same)
qed

lemma sample_evidence:
  "\<exists>e. completed_application_evidence sample_paths Result.sample_removal_request 1 2 3 [sample_removed] sample_profile
      [5] = Inr e"
  by (simp add: completed_application_evidence_def make_evidence_def Result.sample_removal_request_def
      sample_plan_def normalize_result_paths_def normalize_result_evidence_def Let_def
      validate_plan_paths_def validate_path_projection_def find_sorted_def plan_matches_def
      matches_removal_decision_def sample_removed_def completed_path_def
      validate_completed_durability_def profile_status_def sample_profile_def all_domains_def
      sample_control_def)

theorem evidence_round_trip_witness:
  "\<exists>e. completed_application_evidence sample_paths Result.sample_removal_request 1 2 3 [sample_removed] sample_profile
       [5] = Inr e \<and>
     restored (decode_evidence sample_paths sample_sealing Result.sample_removal_request) e (encode_evidence sample_paths e)"
proof -
  obtain e where e: "completed_application_evidence sample_paths Result.sample_removal_request 1 2 3 [sample_removed]
      sample_profile [5] = Inr e"
    using sample_evidence by blast
  note fields = e [unfolded completed_evidence_Inr [OF sample_result_valid]]
  have "consequence_within sample_paths sample_sealing maximum_text_size sample_removed"
    by (rule sample_removed_within) (simp add: maximum_text_size_def)
  then have "evidence_fits sample_paths sample_sealing Result.sample_removal_request e"
    using e fields sample_result_valid(2)
    by (simp add: evidence_fits_def maximum_item_count_def planning_text_def sample_sealing_def
        sample_planning_def Result.sample_removal_request_def sample_plan_def maximum_digest_text_size_def)
  from evidence_round_trip [OF sample_replayable this] e show ?thesis by blast
qed

end
