(* ===== verification/Receipting.thy ===== *)
theory Receipting
  imports Certifying
begin

text \<open>
  The durable bytes of terminal receipts (\<open>application_receipt_codec.cpp\<close>).  A completed receipt
  nests the encoding of its evidence; a failed one carries its paths, each looked up in the plan.  The
  decoder writes the receipt again and refuses bytes that differ.  The path readers are those of the
  evidence codec at the larger text limit.
\<close>

section \<open>Writing\<close>

definition receipt_magic :: bytes where "receipt_magic = str_bytes ''ZLAPRCPT''"
definition maximum_receipt_size :: nat where "maximum_receipt_size = 536870912"
definition maximum_receipt_text_size :: u64 where "maximum_receipt_text_size = 536870912"

text \<open>
  The evidence codec reports its limit with an exception of its own, an \<open>std::invalid_argument\<close> to
  the receipt codec.
\<close>

definition evidence_too_large :: codec_error where
  "evidence_too_large = Codec_value (Invalid_argument ''completed-evidence encoding exceeds the size limit'')"

definition nested_evidence :: "('p, 'o) environment \<Rightarrow> ('p, 'o) completed_evidence \<Rightarrow> codec_error + bytes" where
  "nested_evidence E e = (case encode_evidence E e of Inl _ \<Rightarrow> Inl evidence_too_large | Inr bs \<Rightarrow> Inr bs)"

definition append_failed_part ::
  "('p, 'o) environment \<Rightarrow> bytes \<Rightarrow> ('p, 'o) application_receipt \<Rightarrow> bytes" where
  "append_failed_part E r x =
     (let r = append_identity r (terminal_attempt x);
          r = append_identity r (terminal_projection x);
          r = append_optional_identity r (terminal_journal x);
          r = replay_append_durability r (terminal_durability x) in
      append_counted (seal_append_path E) r (terminal_paths x))"

definition append_receipt_body ::
  "('p, 'o) environment \<Rightarrow> bytes \<Rightarrow> ('p, 'o) application_receipt \<Rightarrow> codec_error + bytes" where
  "append_receipt_body E r x =
     (let r = append_u16 r 1;
          r = append_identity r (terminal_identity x);
          r = append_u8 r (canonical_kind (terminal_kind x));
          r = append_identity r (terminal_request x);
          r = append_u8 r (outcome_tag (terminal_outcome x));
          r = append_u8 r (recovery_tag (terminal_recovery x));
          r = replay_append_evidence r (terminal_backend x) in
      case terminal_completed x of
        Some e \<Rightarrow> rbind (nested_evidence E e) (\<lambda>blob. Inr (append_bytes (append_bool r True) blob))
      | None \<Rightarrow> Inr (append_failed_part E (append_bool r False) x))"

definition encode_receipt :: "('p, 'o) environment \<Rightarrow> ('p, 'o) application_receipt \<Rightarrow> codec_error + bytes" where
  "encode_receipt E x = rbind (append_receipt_body E [] x) (close_envelope E receipt_magic maximum_receipt_size)"

section \<open>Reading\<close>

definition all_attempt_outcomes :: "attempt_outcome list" where
  "all_attempt_outcomes =
     [Precondition_refused, Failed_before_target_mutation, Attempt_completed, Failed_fully_recovered,
      Failed_with_partial_effects, Effects_visible_durability_unconfirmed, Attempt_indeterminate]"

definition all_recovery_states :: "recovery_state list" where
  "all_recovery_states =
     [Recovery_unchanged, Exact_prior_state_restored, Recovery_assets_retained, Known_residual_effects,
      Recovery_not_representable, Requires_authoritative_observation]"

definition read_failed_path ::
  "('p::linorder, 'o) environment \<Rightarrow> 'o sealing \<Rightarrow> ('p, 'o) path_decision list \<Rightarrow>
   ('p, 'o) path_consequence reader" where
  "read_failed_path E S decisions =
     reader_bind (read_path E maximum_receipt_text_size) (\<lambda>path.
     case find_sorted decision_path decisions path of
       None \<Rightarrow> reader_fail Request_mismatch
     | Some d \<Rightarrow> read_decided E S maximum_receipt_text_size path d)"

definition read_failed_paths ::
  "('p::linorder, 'o) environment \<Rightarrow> 'o sealing \<Rightarrow> ('p, 'o) path_decision list \<Rightarrow>
   ('p, 'o) path_consequence list reader" where
  "read_failed_paths E S decisions =
     reader_bind (read_count maximum_item_count) (read_many (read_failed_path E S decisions))"

definition nested_decode ::
  "('p::linorder, 'o) environment \<Rightarrow> 'o sealing \<Rightarrow> ('p, 'o) application_request \<Rightarrow> bytes \<Rightarrow>
   ('p, 'o) completed_evidence reader" where
  "nested_decode E S request nested = (\<lambda>bs.
     case decode_evidence E S request nested of
       Inl (Codec_error _) \<Rightarrow> Inl (Codec_error Completed_evidence_invalid)
     | Inl e \<Rightarrow> Inl e
     | Inr e \<Rightarrow> Inr (e, bs))"

definition read_receipt_body ::
  "('p::linorder, 'o) environment \<Rightarrow> 'o sealing \<Rightarrow> ('p, 'o) application_request \<Rightarrow>
   ('p, 'o) application_receipt reader" where
  "read_receipt_body E S request =
     reader_bind (read_version 1) (\<lambda>_.
     reader_bind read_identity (\<lambda>expected.
     reader_bind (read_enum canonical_kind [Install, Upgrade, Remove]) (\<lambda>kind.
     reader_bind read_identity (\<lambda>named.
     reader_bind (read_enum outcome_tag all_attempt_outcomes) (\<lambda>result.
     reader_bind (read_enum recovery_tag all_recovery_states) (\<lambda>recovery.
     reader_bind replay_read_evidence (\<lambda>backend.
     reader_bind read_bool (\<lambda>has_completed.
     if kind \<noteq> request_kind request \<or> named \<noteq> request_identity request
     then reader_fail Request_mismatch
     else
       reader_bind
         (if has_completed then
            (if result \<noteq> Attempt_completed then reader_fail Invalid_value
             else
               reader_bind (read_string maximum_text_size) (\<lambda>nested.
               reader_bind (nested_decode E S request nested) (\<lambda>completed.
               reader_lift (completed_receipt E completed recovery backend))))
          else if result = Attempt_completed then reader_fail Invalid_value
          else
            reader_bind read_identity (\<lambda>attempt.
            reader_bind read_identity (\<lambda>state.
            reader_bind (read_optional read_identity) (\<lambda>journal.
            reader_bind replay_read_durability (\<lambda>durability.
            reader_bind (read_failed_paths E S (plan_paths (request_plan request))) (\<lambda>paths.
            reader_lift (failed_receipt E request attempt state result recovery durability paths
              journal backend)))))))
         (\<lambda>x.
       if terminal_identity x \<noteq> expected then reader_fail Identity_mismatch
       else reader_return x)))))))))"

definition decode_receipt ::
  "('p::linorder, 'o) environment \<Rightarrow> 'o sealing \<Rightarrow> ('p, 'o) application_request \<Rightarrow> bytes \<Rightarrow>
   codec_error + ('p, 'o) application_receipt" where
  "decode_receipt E S request bs = translate_invalid
     (rbind (open_envelope E receipt_magic maximum_receipt_size (read_receipt_body E S request) bs) (\<lambda>x.
      rbind (encode_receipt E x) (\<lambda>canonical.
      if canonical \<noteq> bs then Inl (Codec_error Noncanonical_encoding) else Inr x)))"

section \<open>Round trip\<close>

definition receipt_fits ::
  "('p::linorder, 'o) environment \<Rightarrow> 'o sealing \<Rightarrow> ('p, 'o) application_request \<Rightarrow>
   ('p, 'o) application_receipt \<Rightarrow> bool" where
  "receipt_fits E S request x \<longleftrightarrow> length (terminal_backend x) \<le> unat maximum_item_count \<and>
     (case terminal_completed x of
        Some e \<Rightarrow> evidence_fits E S request e \<and>
          completed_receipt E e (terminal_recovery x) (terminal_backend x) = Inr x
      | None \<Rightarrow> failed_receipt E request (terminal_attempt x) (terminal_projection x)
            (terminal_outcome x) (terminal_recovery x) (terminal_durability x) (terminal_paths x)
            (terminal_journal x) (terminal_backend x) = Inr x \<and>
          valid_profile (terminal_durability x) \<and>
          list_all (consequence_within E S maximum_receipt_text_size) (terminal_paths x) \<and>
          length (terminal_paths x) \<le> unat maximum_item_count)"

lemma receipt_enumerators: "o' \<in> set all_attempt_outcomes" "st \<in> set all_recovery_states"
  subgoal by (cases o') (simp_all add: all_attempt_outcomes_def)
  subgoal by (cases st) (simp_all add: all_recovery_states_def)
  done

lemma receipt_tags_inj: "inj outcome_tag" "inj recovery_tag"
  by (simp_all add: inj_def)

lemmas receipt_reads = enum_read [OF receipt_tags_inj(1) receipt_enumerators(1)]
  enum_read [OF receipt_tags_inj(2) receipt_enumerators(2)]

lemma failed_path_trip:
  assumes texts: "path_texts E" and ordered: "plan_ordered plan" and typed: "plan_typed kind plan"
  shows "round_trip (seal_append_path E) (read_failed_path E S (plan_paths plan))
    (\<lambda>c. consequence_within E S maximum_receipt_text_size c \<and>
       (\<exists>d \<in> set (plan_paths plan). plan_matches kind c d))"
proof
  show "seal_append_path E r c = r @ wire (seal_append_path E) c" for r c by (rule seal_path_wire [OF texts])
  fix c s
  assume ok: "consequence_within E S maximum_receipt_text_size c \<and>
      (\<exists>d \<in> set (plan_paths plan). plan_matches kind c d)"
  then obtain d where d: "d \<in> set (plan_paths plan)" "plan_matches kind c d" by blast
  then have "find_sorted decision_path (plan_paths plan) (consequence_path c) = Some d"
    using plan_table.lookup_Some_iff [OF ordered, of "consequence_path c" d] plan_matches_path by metis
  then show "read_failed_path E S (plan_paths plan) (wire (seal_append_path E) c @ s) = Inr (c, s)"
    using ok d typed decided_read [OF texts _ d(2)]
    by (simp add: read_failed_path_def seal_path_parts [OF texts] consequence_within_def plan_typed_def
        round_trip.read_wire [OF path_within_trip [OF texts]])
qed

lemma failed_part_read:
  assumes replay: "replayable E request" and fits: "receipt_fits E S request x"
    and failed: "terminal_completed x = None"
  shows "read_receipt_body E S request
    (wire append_u16 1 @ wire append_identity (terminal_identity x) @
     wire append_u8 (canonical_kind (terminal_kind x)) @ wire append_identity (terminal_request x) @
     wire append_u8 (outcome_tag (terminal_outcome x)) @ wire append_u8 (recovery_tag (terminal_recovery x)) @
     wire replay_append_evidence (terminal_backend x) @ wire append_bool False @
     wire append_identity (terminal_attempt x) @ wire append_identity (terminal_projection x) @
     wire append_optional_identity (terminal_journal x) @
     wire replay_append_durability (terminal_durability x) @
     wire (append_counted (seal_append_path E)) (terminal_paths x)) = Inr (x, [])"
proof -
  have texts: "path_texts E" and ordered: "plan_ordered (request_plan request)"
    and typed: "plan_typed (request_kind request) (request_plan request)"
    using replay by (simp_all add: replayable_def)
  have made: "failed_receipt E request (terminal_attempt x) (terminal_projection x)
      (terminal_outcome x) (terminal_recovery x) (terminal_durability x) (terminal_paths x)
      (terminal_journal x) (terminal_backend x) = Inr x"
    using fits failed by (simp add: receipt_fits_def)
  note fields = made [unfolded failed_receipt_Inr [OF ordered]]
  have bound: "terminal_kind x = request_kind request" "terminal_request x = request_identity request"
    "terminal_outcome x \<noteq> Attempt_completed"
    using fields by auto
  note trip = round_trip.counted_round_trip [OF failed_path_trip [OF texts ordered typed],
      where maximum = maximum_item_count, folded read_failed_paths_def]
  have "list_all (\<lambda>c. consequence_within E S maximum_receipt_text_size c \<and>
      (\<exists>d \<in> set (plan_paths (request_plan request)). plan_matches (request_kind request) c d))
      (terminal_paths x) \<and> length (terminal_paths x) \<le> unat maximum_item_count"
    using fits failed fields by (simp add: receipt_fits_def list_all_iff)
  note paths = round_trip.read_end [OF trip this]
  have "length (terminal_backend x) \<le> unat maximum_item_count" "valid_profile (terminal_durability x)"
    using fits failed by (simp_all add: receipt_fits_def)
  then show ?thesis
    by (simp add: read_receipt_body_def reader_wire receipt_reads bound optional_identity_reads paths made
        replay_evidence_trip.read_wire profile_trip.read_wire)
qed

lemma completed_part_read:
  assumes replay: "replayable E request" and fits: "receipt_fits E S request x"
    and completed: "terminal_completed x = Some e" and nested: "nested_evidence E e = Inr blob"
  shows "read_receipt_body E S request
    (wire append_u16 1 @ wire append_identity (terminal_identity x) @
     wire append_u8 (canonical_kind (terminal_kind x)) @ wire append_identity (terminal_request x) @
     wire append_u8 (outcome_tag (terminal_outcome x)) @ wire append_u8 (recovery_tag (terminal_recovery x)) @
     wire replay_append_evidence (terminal_backend x) @ wire append_bool True @ wire append_bytes blob) =
    Inr (x, [])"
proof -
  have ok: "evidence_fits E S request e"
    and made: "completed_receipt E e (terminal_recovery x) (terminal_backend x) = Inr x"
    and size: "length (terminal_backend x) \<le> unat maximum_item_count"
    using fits completed by (simp_all add: receipt_fits_def)
  have encoded: "encode_evidence E e = Inr blob"
    using nested by (simp add: nested_evidence_def split: sum.split_asm)
  then have decoded: "decode_evidence E S request blob = Inr e"
    using evidence_restored [OF replay ok] by (simp add: restored_def)
  have "length blob \<le> unat maximum_text_size"
    using encoded by (auto simp: encode_evidence_def close_envelope_def seal_finish_def Let_def
        maximum_evidence_size_def maximum_text_size_def split: if_splits)
  note blob = round_trip.read_end [OF string_round_trip this]
  have "evidence_kind e = request_kind request" "evidence_request e = request_identity request"
    using evidence_bound(1,2) ok unfolding evidence_fits_def by blast+
  then have bound: "terminal_kind x = request_kind request" "terminal_request x = request_identity request"
    "terminal_outcome x = Attempt_completed"
    using made by (auto simp: completed_receipt_def Let_def result_simps)
  note third = receipt_reads(1) [of Attempt_completed, unfolded outcome_tag.simps]
  show ?thesis
    using size by (simp add: read_receipt_body_def reader_wire third receipt_reads bound blob made nested_decode_def
        decoded replay_evidence_trip.read_wire)
qed

lemma receipt_body_read:
  assumes "replayable E request" and "receipt_fits E S request x" and body: "append_receipt_body E [] x = Inr b"
  shows "read_receipt_body E S request b = Inr (x, [])"
proof (cases "terminal_completed x")
  case None
  have texts: "path_texts E" using assms(1) by (simp add: replayable_def)
  have chain: "append_counted (seal_append_path E) r xs = r @ wire (append_counted (seal_append_path E)) xs" for r xs
  proof -
    have "foldl (seal_append_path E) r cs = r @ concat (map (wire (seal_append_path E)) cs)" for r cs
      by (induction cs arbitrary: r) (simp_all add: seal_path_wire [OF texts])
    then show ?thesis by (simp add: append_counted_def wire_def [of "append_counted (seal_append_path E)"] record_defs)
  qed
  show ?thesis
    using failed_part_read [OF assms(1,2) None] body None
    by (simp add: append_receipt_body_def append_failed_part_def Let_def chain identity_trip.append_wire
        record_defs optional_identity_reads(1) replay_evidence_trip.append_wire profile_trip.append_wire)
next
  case (Some e)
  then obtain blob where blob: "nested_evidence E e = Inr blob"
    using body by (auto simp: append_receipt_body_def Let_def rbind_Inr_iff)
  show ?thesis
    using completed_part_read [OF assms(1,2) Some blob] body Some blob
    by (simp add: append_receipt_body_def Let_def identity_trip.append_wire record_defs
        replay_evidence_trip.append_wire bytes_code.app_wire)
qed

lemma receipt_decoded:
  assumes "replayable E request" and "receipt_fits E S request x" and encoded: "encode_receipt E x = Inr bs"
  shows "decode_receipt E S request bs = Inr x"
proof -
  obtain b where b: "append_receipt_body E [] x = Inr b"
    and closed: "close_envelope E receipt_magic maximum_receipt_size b = Inr bs"
    using encoded by (auto simp: encode_receipt_def rbind_Inr_iff)
  have "open_envelope E receipt_magic maximum_receipt_size (read_receipt_body E S request) bs = Inr x"
    by (rule envelope_opens [OF closed])
      (simp_all add: maximum_receipt_size_def receipt_body_read [OF assms(1,2) b])
  then show ?thesis by (simp add: decode_receipt_def encoded)
qed

lemma refused_encoding:
  "encode_receipt E x = Inl e \<Longrightarrow> e = Codec_error Limit_exceeded \<or> e = evidence_too_large"
  by (auto simp: encode_receipt_def rbind_Inl_iff append_receipt_body_def Let_def nested_evidence_def
      dest: closed_size split: option.split_asm sum.split_asm)

text \<open>Whatever the decoder accepts is a receipt that the factories issue for the request.\<close>

lemma reads_nested:
  assumes "\<And>e. evidence_of E request e \<Longrightarrow> reads_only (f e) Q"
  shows "reads_only (reader_bind (nested_decode E S request nested) f) Q"
proof (cases "decode_evidence E S request nested")
  case (Inl e)
  then show ?thesis by (cases e) (simp_all add: reads_only_def nested_decode_def)
next
  case (Inr e)
  with assms [OF decoded_evidence [OF Inr]] show ?thesis by (simp add: reads_only_def nested_decode_def)
qed

lemma reads_either: "reads_only a Q \<Longrightarrow> reads_only b Q \<Longrightarrow> reads_only (if p then a else b) Q"
  by simp

lemma reads_end: "(\<And>x. v = Inr x \<Longrightarrow> Q x) \<Longrightarrow> reads_only (reader_lift v) Q"
  by (cases v) (simp_all add: reads_only_def)

lemma reads_then:
  assumes m: "reads_only m Q" and f: "\<And>x. Q x \<Longrightarrow> reads_only (f x) Q"
  shows "reads_only (reader_bind m f) Q"
  unfolding reads_only_def
proof (rule allI)
  fix bs
  show "case reader_bind m f bs of Inl e \<Rightarrow> True | Inr (x, rest) \<Rightarrow> Q x"
  proof (cases "m bs")
    case (Inr p)
    obtain y rest where p: "p = (y, rest)" by (cases p)
    have "Q y" using m [unfolded reads_only_def, rule_format, of bs] Inr p by simp
    from f [OF this] Inr show ?thesis by (simp add: p reads_only_def)
  qed simp
qed

lemma reads_same: "Q x \<Longrightarrow> reads_only (if bad then reader_fail code else reader_return x) Q"
  by (simp add: reads_only_def)

lemma issued_complete: "evidence_of E request e \<Longrightarrow> completed_receipt E e recovery backend = Inr x \<Longrightarrow> issued E request x"
  by (auto simp: evidence_of_def intro: issued_completed)

lemma failed_reads:
  "reads_only (reader_bind read_identity (\<lambda>attempt.
     reader_bind read_identity (\<lambda>state.
     reader_bind (read_optional read_identity) (\<lambda>journal.
     reader_bind replay_read_durability (\<lambda>durability.
     reader_bind (read_failed_paths E S decisions) (\<lambda>paths.
     reader_lift (failed_receipt E request attempt state result recovery durability paths journal
       backend))))))) (issued E request)"
  by (rule reads_bind, rule reads_bind, rule reads_bind, rule reads_durability, rule reads_bind, rule reads_end)
    (rule issued_failed)

lemma completed_reads:
  "reads_only (reader_bind (read_string maximum) (\<lambda>nested.
     reader_bind (nested_decode E S request nested) (\<lambda>completed.
     reader_lift (completed_receipt E completed recovery backend)))) (issued E request)"
  by (rule reads_bind, rule reads_nested, rule reads_end) (rule issued_complete)

lemma receipt_reads_issued: "reads_only (read_receipt_body E S request) (issued E request)"
  unfolding read_receipt_body_def
  by (rule reads_bind, rule reads_bind, rule reads_bind, rule reads_bind, rule reads_bind, rule reads_bind,
      rule reads_bind, rule reads_bind, rule reads_if, rule reads_then)
    (intro reads_either reads_if completed_reads failed_reads reads_same; assumption)+

text \<open>
  C39: terminal receipts survive storage, in one form.  The bytes of every receipt within the limits are
  refused for their size or decode, against the request they were issued for, to exactly that receipt.
  And whatever bytes the decoder accepts are the encoding of the receipt it returns, so two different
  byte strings never pass for one receipt; and that receipt is one the factories issue for the request,
  so no stored bytes report a completion that the plan, the paths and the durability do not support.
\<close>

theorem receipt_round_trip:
  assumes "replayable E request" and "receipt_fits E S request x"
  shows "(case encode_receipt E x of
      Inl e \<Rightarrow> e = Codec_error Limit_exceeded \<or> e = evidence_too_large
    | Inr bs \<Rightarrow> decode_receipt E S request bs = Inr x) \<and>
    pred_option (\<lambda>y. issued E request y \<and> encode_receipt E y = Inr bytes) (decoded (decode_receipt E S request bytes))"
proof
  show "case encode_receipt E x of
      Inl e \<Rightarrow> e = Codec_error Limit_exceeded \<or> e = evidence_too_large
    | Inr bs \<Rightarrow> decode_receipt E S request bs = Inr x"
    using refused_encoding [of E x] receipt_decoded [OF assms] by (simp split: sum.split)
  have "issued E request y \<and> encode_receipt E y = Inr bytes" if "decode_receipt E S request bytes = Inr y" for y
    using that opened_reads [OF _ receipt_reads_issued]
    by (auto simp: decode_receipt_def translated_Inr rbind_Inr_iff split: if_splits)
  then show "pred_option (\<lambda>y. issued E request y \<and> encode_receipt E y = Inr bytes)
      (decoded (decode_receipt E S request bytes))"
    by (simp add: decoded_def split: sum.split)
qed

text \<open>The receipt of a refused precondition, stored and read back.\<close>

theorem receipt_round_trip_witness:
  "\<exists>x bs. failed_receipt sample_paths Result.sample_removal_request 1 2 Precondition_refused Recovery_unchanged
       sample_profile [sample_refused] None [5] = Inr x \<and> encode_receipt sample_paths x = Inr bs \<and>
     decode_receipt sample_paths sample_sealing Result.sample_removal_request bs = Inr x"
proof -
  obtain x where x: "failed_receipt sample_paths Result.sample_removal_request 1 2 Precondition_refused
      Recovery_unchanged sample_profile [sample_refused] None [5] = Inr x"
    using sample_failed_valid [of "[5]"] by auto
  note fields = x [unfolded failed_receipt_Inr [OF sample_result_valid(1)]]
  have "receipt_fits sample_paths sample_sealing Result.sample_removal_request x"
    using x fields sample_result_valid(2) sample_refused_within [of maximum_receipt_text_size]
    by (simp add: receipt_fits_def maximum_item_count_def maximum_receipt_text_size_def)
  note trip = receipt_round_trip [OF sample_replayable this]
  have "length (append_failed_part sample_paths r x) \<le> length r + 1000" for r
    using fields
    by (simp add: append_failed_part_def Let_def append_optional_identity_def append_optional_def
        append_counted_def replay_append_durability_def sample_profile_def all_domains_def
        seal_append_path_def seal_append_decided_def append_owner_def append_path_text_def
        replay_append_observation_def replay_append_object_def append_fact_def sample_refused_def
        sample_removed_def append_lengths sample_paths_def)
  note part = this
  have short: "length (append_failed_part sample_paths r x) \<le> 2000" if "length r \<le> 1000" for r
    using part [of r] that by linarith
  have none: "terminal_completed x = None" using fields by simp
  have "\<exists>r. append_receipt_body sample_paths [] x = Inr (append_failed_part sample_paths r x) \<and> length r \<le> 1000"
    unfolding append_receipt_body_def Let_def none option.case
    by (rule exI, rule conjI, rule refl)
      (use fields in \<open>simp add: append_lengths replay_append_evidence_def append_counted_def\<close>)
  with short obtain b where "append_receipt_body sample_paths [] x = Inr b" "length b \<le> 2000" by blast
  then have "\<exists>bs. encode_receipt sample_paths x = Inr bs"
    by (simp add: encode_receipt_def close_envelope_def seal_finish_def maximum_receipt_size_def Let_def
        append_lengths receipt_magic_def digest_array_def)
  with trip x show ?thesis by auto
qed

end
