(* ===== verification/Rerunning.thy ===== *)
theory Rerunning
  imports Discipline Replaying
begin

text \<open>
  What a replay may call.  A resumed application runs on a journal whose effects were partly done:
  the licence \<open>relicensed effects start\<close> says, for the events \<open>start\<close> of the reopened journal and those
  durable now, which calls do not repeat an effect.  The phases of the replay are shown to call
  nothing else, over any backend and over any store that returns the steps it stores.
\<close>

section \<open>The licence of a replay\<close>

text \<open>
  An effect is begun when it had no event in the reopened journal and its intent is durable now; it is
  announced when it has any event.
\<close>

definition begun ::
  "'p journal_effect list \<Rightarrow> journal_event list \<Rightarrow> journal_event list \<Rightarrow> effect_kind \<Rightarrow> 'p option \<Rightarrow> bool" where
  "begun effects start es kind path \<longleftrightarrow> (\<exists>e \<in> set effects.
     effect_kind e = kind \<and> effect_path e = path \<and>
     kinds_of start (effect_identity e) = [] \<and> kinds_of es (effect_identity e) = [Intent])"

definition announced ::
  "'p journal_effect list \<Rightarrow> journal_event list \<Rightarrow> effect_kind \<Rightarrow> 'p option \<Rightarrow> bool" where
  "announced effects es kind path \<longleftrightarrow> (\<exists>e \<in> set effects.
     effect_kind e = kind \<and> effect_path e = path \<and> kinds_of es (effect_identity e) \<noteq> [])"

definition restaged :: "'p journal_effect list \<Rightarrow> journal_event list \<Rightarrow> bool" where
  "restaged effects es \<longleftrightarrow>
     (\<forall>e \<in> set effects. effect_kind e = Stage_incoming_payload \<longrightarrow>
        kinds_of es (effect_identity e) \<noteq> []) \<and>
     (\<exists>e \<in> set effects. effect_kind e = Stage_incoming_payload \<and>
        kinds_of es (effect_identity e) = [Intent])"

definition publishing :: "effect_kind \<Rightarrow> bool" where
  "publishing kind \<longleftrightarrow>
     kind = Publish_rejected_object \<or> kind = Publish_active_object \<or> kind = Recover_active_object"

fun relicensed ::
  "'p journal_effect list \<Rightarrow> journal_event list \<Rightarrow> journal_event list \<Rightarrow> 'p call \<Rightarrow> bool" where
  "relicensed effects start es (Called kind path) \<longleftrightarrow>
     (if publishing kind then begun effects start es kind path
      else if kind = Publish_completed_evidence then announced effects es kind path
      else opened effects es kind path)"
| "relicensed effects start es Staging \<longleftrightarrow> restaged effects es"
| "relicensed effects start es (Synchronizing d) \<longleftrightarrow>
     (\<exists>kind \<in> set (synchronize_kinds d).
        if d = Durable_completed_evidence then announced effects es kind None
        else opened effects es kind None)"
| "relicensed effects start es (Declared _) \<longleftrightarrow> False"
| "relicensed effects start es _ \<longleftrightarrow> True"

lemma relicensed_quiet: "quiet (relicensed effects start)"
  by (simp add: quiet_def)

abbreviation replays ::
  "'p journal_effect list \<Rightarrow> journal_event list \<Rightarrow> 'p call list \<Rightarrow> bool" where
  "replays effects start \<equiv> ahead_by (relicensed effects start) start"

abbreviation replayed_to ::
  "'p journal_effect list \<Rightarrow> 'p list \<Rightarrow> journal_event list \<Rightarrow> ('p, 'o, 'sel) journaled_application \<Rightarrow>
   'p call list \<Rightarrow> bool" where
  "replayed_to effects staged start \<equiv> in_step_by (relicensed effects start) effects staged start"

section \<open>Progress, read off the history\<close>

definition indexed :: "'p journal_effect list \<Rightarrow> bool" where
  "indexed effects \<longleftrightarrow> consecutive_ordinals 0 effects \<and> size_ok effects"

lemma resume_scan_same:
  "restart_scan effects cells es = Inr cells' \<Longrightarrow> resume_scan effects cells es = Inr cells'"
  by (induction effects cells es rule: restart_scan.induct) (auto simp: Let_def split: option.splits)

lemma resume_progress_member:
  assumes mem: "history_memory_ok (journaled_history a)"
    and graph: "indexed (history_effects (journaled_history a))"
    and e: "e \<in> set (history_effects (journaled_history a))"
    and run: "resume_progress_for a (effect_identity e) = Inr current"
  shows "current = progress_of (kinds_of (events_of a) (effect_identity e))"
proof -
  let ?effects = "history_effects (journaled_history a)"
  have dist: "distinct (map effect_identity ?effects)"
    and log: "event_log_ok (effect_identity ` set ?effects) (events_of a)"
    using mem by (simp_all add: history_memory_ok_def)
  have ord: "consecutive_ordinals 0 ?effects" and size: "size_ok ?effects"
    using graph by (simp_all add: indexed_def)
  from restart_scan_progress [OF dist ord size log] obtain cells
    where "resume_progress a = Inr cells" and match: "progress_matches (ordinal_map ?effects) (events_of a) cells"
    by (auto simp: resume_progress_def dest!: resume_scan_same)
  from e obtain i where i: "i < length ?effects" "?effects ! i = e" by (auto simp: in_set_conv_nth)
  have ordinal: "unat (effect_ordinal e) = i"
    using i ord size
    by (auto simp: consecutive_ordinals_iff unat_of_nat take_bit_nat_eq_self unsigned_of_nat)
  have "find (\<lambda>c. effect_identity c = effect_identity e) ?effects = Some e"
    using find_distinct [OF dist i(1)] i(2) by simp
  then have "current = cells ! i"
    using run by (simp add: resume_progress_for_def \<open>resume_progress a = Inr cells\<close> ordinal split: if_splits)
  moreover have "ordinal_map ?effects (effect_identity e) = Some i"
    using ordinal_map_nth [OF dist ord size] i by simp
  ultimately show ?thesis using match by (simp add: progress_matches_def)
qed

lemma progress_of_open:
  "\<not> intended (progress_of ks) \<longleftrightarrow> ks = []"
  "follows_protocol ks \<Longrightarrow> terminal (progress_of ks) = None \<longleftrightarrow> ks = [] \<or> ks = [Intent]"
  by (simp add: progress_of_def) (cases ks rule: follows_protocol.cases, auto simp: progress_of_def)

text \<open>Facts every state of a replay keeps.\<close>

lemma kinds_of_append [simp]: "kinds_of (es @ fs) d = kinds_of es d @ kinds_of fs d"
  by (simp add: kinds_of_def)

lemma note_call_grows: "\<exists>more. snd (foldl note_call (pending, es) tr) = es @ more"
proof (induction tr arbitrary: pending es)
  case (Cons c tr)
  obtain p fs where c: "note_call (pending, es) c = (p, fs)" by (metis prod.collapse)
  then have "\<exists>m. fs = es @ m" by (cases c) (auto split: option.splits if_splits)
  then show ?case using Cons.IH [of p fs] c by auto
qed simp

lemma triple_known:
  assumes "history_memory_ok (journaled_history a) \<Longrightarrow> history_effects (journaled_history a) = effects \<Longrightarrow>
    \<exists>more. events_of a = es @ more \<Longrightarrow> triple (in_step_by L effects staged es a) m Q E"
  shows "triple (in_step_by L effects staged es a) m Q E"
proof (rule tripleI)
  fix s tr
  assume inv: "in_step_by L effects staged es a tr"
  then have mem: "history_memory_ok (journaled_history a)"
    and effects: "history_effects (journaled_history a) = effects"
    and run: "foldl note_call (None, es) tr = (None, events_of a)" by (simp_all add: in_step_by_def)
  have "\<exists>more. events_of a = es @ more"
    using note_call_grows [of None es tr] run by simp
  then have "triple (in_step_by L effects staged es a) m Q E" by (rule assms [OF mem effects])
  then show "ends_in Q E (m (s, tr)) \<and> (\<exists>rest. snd (snd (m (s, tr))) = tr @ rest)"
    using inv unfolding triple_def by blast
qed

lemma kinds_follow:
  "history_memory_ok h \<Longrightarrow> follows_protocol (kinds_of (history_events h) d)"
  by (simp add: history_memory_ok_def event_log_ok_def)

section \<open>Intents and outcomes\<close>

text \<open>
  \<open>intended_after effs ks\<close>: the kinds of events once each effect of \<open>effs\<close> without events has its
  intent.  \<open>restart_intent\<close> adds no other event.
\<close>

definition intended_after ::
  "digest set \<Rightarrow> journal_event list \<Rightarrow> journal_event list \<Rightarrow> bool" where
  "intended_after effs es es' \<longleftrightarrow>
     (\<forall>d. kinds_of es' d = (if d \<in> effs \<and> kinds_of es d = [] then [Intent] else kinds_of es d))"

lemma intended_after_Nil [simp]: "intended_after {} es es"
  by (simp add: intended_after_def)

lemma intended_after_insert:
  "intended_after {d} es es' \<Longrightarrow> intended_after effs es' es'' \<Longrightarrow> intended_after (insert d effs) es es''"
  by (simp add: intended_after_def)

lemma restart_intent_by:
  assumes store: "returns_stored (engine_store W)" and graph: "indexed effects"
    and eff: "eff \<in> effect_identity ` set effects"
  shows "triple (replayed_to effects staged es a) (restart_intent (traced_engine W) a st eff)
    (\<lambda>b tr. replayed_to effects staged es b tr \<and> b = a\<lparr>journaled_history := journaled_history b\<rparr> \<and>
       intended_after {eff} (events_of a) (events_of b)) (replays effects es)"
proof (rule triple_known)
  assume mem: "history_memory_ok (journaled_history a)"
    and effects: "history_effects (journaled_history a) = effects"
  have now: "current = progress_of (kinds_of (events_of a) eff)"
    if "resume_progress_for a eff = Inr current" for current
    using resume_progress_member [OF mem] graph eff that by (auto simp: effects)
  show ?thesis
    unfolding restart_intent_def
  proof (rule triple_bind_lift)
    fix current
    assume "resume_progress_for a eff = Inr current"
    note now = now [OF this]
    show "triple (replayed_to effects staged es a)
      (if \<not> intended current then journal_intent (traced_engine W) a st eff else io_return a)
      (\<lambda>b tr. replayed_to effects staged es b tr \<and> b = a\<lparr>journaled_history := journaled_history b\<rparr> \<and>
         intended_after {eff} (events_of a) (events_of b)) (replays effects es)"
    proof (rule triple_if)
      assume "\<not> intended current"
      then have fresh: "kinds_of (events_of a) eff = []" by (simp add: now progress_of_open)
      show "triple (replayed_to effects staged es a) (journal_intent (traced_engine W) a st eff)
        (\<lambda>b tr. replayed_to effects staged es b tr \<and> b = a\<lparr>journaled_history := journaled_history b\<rparr> \<and>
           intended_after {eff} (events_of a) (events_of b)) (replays effects es)"
        by (rule triple_consequence [OF event_by [OF relicensed_quiet store]])
          (auto simp: intended_after_def kinds_of_snoc fresh simp del: kinds_of_append)
    next
      assume "\<not> \<not> intended current"
      then have "kinds_of (events_of a) eff \<noteq> []" by (simp add: now progress_of_open)
      then show "triple (replayed_to effects staged es a) (io_return a)
        (\<lambda>b tr. replayed_to effects staged es b tr \<and> b = a\<lparr>journaled_history := journaled_history b\<rparr> \<and>
           intended_after {eff} (events_of a) (events_of b)) (replays effects es)"
        by (intro triple_return) (simp add: intended_after_def)
    qed
  qed (simp add: in_step_ahead)
qed

text \<open>An effect that was looked up with its progress.\<close>

lemma find_progress_known:
  assumes found: "find_progress a kind path = Inr (eff, current)"
    and mem: "history_memory_ok (journaled_history a)"
    and effects: "history_effects (journaled_history a) = effects" and graph: "indexed effects"
  obtains e where "e \<in> set effects" and "effect_kind e = kind" and "effect_path e = path"
    and "effect_identity e = eff" and "current = progress_of (kinds_of (events_of a) eff)"
proof -
  have eff: "find_effect a kind path = Inr eff" and run: "resume_progress_for a eff = Inr current"
    using found by (auto simp: find_progress_def result_simps)
  obtain e where e: "e \<in> set effects" "effect_kind e = kind" "effect_path e = path" "effect_identity e = eff"
    using find_effect_member [OF eff] effects by auto
  moreover have "current = progress_of (kinds_of (events_of a) eff)"
    using resume_progress_member [OF mem _ _ run [folded e(4)]] graph e by (simp add: effects)
  ultimately show ?thesis using that by blast
qed

text \<open>
  Intent and call, for an effect without outcome: it is open at the call, and begun when it had no
  intent either.
\<close>

lemma resume_bracket:
  assumes store: "returns_stored (engine_store W)" and graph: "indexed effects"
    and found: "find_progress a kind path = Inr (eff, current)" and pending: "terminal current = None"
    and licence: "\<And>es'. opened effects es' kind path \<Longrightarrow>
      (\<not> intended current \<Longrightarrow> begun effects es es' kind path) \<Longrightarrow> relicensed effects es es' c"
    and unnoted: "\<And>pending es'. note_call (pending, es') c = (pending, es')"
    and rest: "\<And>b x. b = a\<lparr>journaled_history := journaled_history b\<rparr> \<Longrightarrow>
      triple (replayed_to effects staged es b) (f b x) Q (replays effects es)"
  shows "triple (replayed_to effects staged es a)
    (io_bind (restart_intent (traced_engine W) a st eff) (\<lambda>b. io_bind (noted c m) (f b))) Q
    (replays effects es)"
proof (rule triple_known)
  assume mem: "history_memory_ok (journaled_history a)"
    and effects: "history_effects (journaled_history a) = effects"
  assume "\<exists>more. events_of a = es @ more"
  then obtain more where es: "events_of a = es @ more" by blast
  obtain e where e: "e \<in> set effects" "effect_kind e = kind" "effect_path e = path" "effect_identity e = eff"
    and current: "current = progress_of (kinds_of (events_of a) eff)"
    by (rule find_progress_known [OF found mem effects graph])
  have eff: "eff \<in> effect_identity ` set effects" using e by auto
  have open_now: "kinds_of (events_of a) eff = [] \<or> kinds_of (events_of a) eff = [Intent]"
    using pending kinds_follow [OF mem] by (simp add: current progress_of_open(2))
  have licensed: "relicensed effects es es' c" if after: "intended_after {eff} (events_of a) es'" for es'
  proof (rule licence)
    have now: "kinds_of es' eff = [Intent]" using after open_now by (auto simp: intended_after_def)
    then show "opened effects es' kind path" using e by (auto simp: opened_def)
    assume "\<not> intended current"
    then have "kinds_of es eff = []" by (simp add: current progress_of_open es)
    with now show "begun effects es es' kind path" using e by (auto simp: begun_def)
  qed
  show ?thesis
  proof (rule triple_bind [OF restart_intent_by [OF store graph eff]])
    fix b
    show "triple (\<lambda>tr. replayed_to effects staged es b tr \<and> b = a\<lparr>journaled_history := journaled_history b\<rparr> \<and>
        intended_after {eff} (events_of a) (events_of b)) (io_bind (noted c m) (f b)) Q (replays effects es)"
      by (rule triple_pure, rule triple_bind [OF called_traced [where c = c, OF _ unnoted]])
        (auto intro: rest licensed)
  qed
qed

lemma restart_terminal_by:
  assumes store: "returns_stored (engine_store W)"
    and rest: "\<And>b. b = a\<lparr>journaled_history := journaled_history b\<rparr> \<Longrightarrow>
      triple (replayed_to effects staged es b) (f b) Q (replays effects es)"
  shows "triple (replayed_to effects staged es a)
    (io_bind (restart_terminal (traced_engine W) a st eff kind evidence replayed) f) Q
    (replays effects es)"
proof -
  have run: "triple (replayed_to effects staged es a)
    (restart_terminal (traced_engine W) a st eff kind evidence replayed)
    (\<lambda>b tr. replayed_to effects staged es b tr \<and> b = a\<lparr>journaled_history := journaled_history b\<rparr>)
    (replays effects es)"
    unfolding restart_terminal_def
    by (rule triple_bind_lift triple_if triple_return triple_consequence [OF event_by [OF relicensed_quiet store]]
        | auto simp: in_step_ahead)+
  show ?thesis by (rule triple_bind [OF run], rule triple_pure) (rule rest)
qed

end
