(* ===== verification/Resumption.thy ===== *)
theory Resumption
  imports Rerunning
begin

text \<open>
  The phases of a replay call only what the licence of \<open>Rerunning\<close> allows: preparation, rejected
  publication and active execution here, recovery and completion in the second half, and the entry
  points \<open>resume_incoming\<close> and \<open>resume_removal\<close> at the end.
\<close>

section \<open>Synchronization\<close>

lemma triple_option:
  "(x = None \<Longrightarrow> triple P m Q E) \<Longrightarrow> (\<And>y. x = Some y \<Longrightarrow> triple P (f y) Q E) \<Longrightarrow>
   triple P (case x of None \<Rightarrow> m | Some y \<Rightarrow> f y) Q E"
  by (cases x) simp_all

lemma run_synchronization_by:
  assumes store: "returns_stored (engine_store W)" and graph: "indexed effects"
    and found: "find_progress a kind None = Inr (eff, current)" and pending: "terminal current = None"
    and kind: "kind \<in> set (synchronize_kinds domain)" and other: "domain \<noteq> Durable_completed_evidence"
  shows "triple (replayed_to effects staged es a)
    (run_synchronization (traced_engine W) domain st message eff a)
    (\<lambda>(status, b). replayed_to effects staged es b) (replays effects es)"
proof -
  have licence: "relicensed effects es es' (Synchronizing domain)" if "opened effects es' kind None" for es'
    using that kind other by auto
  show ?thesis
    unfolding run_synchronization_def traced_engine_simps traced_transaction_simps
    by (rule resume_bracket [OF store graph found pending], erule licence, simp)
      (rule triple_if triple_stop triple_bind_lift restart_terminal_by [OF store] triple_return
        | simp add: in_step_ahead)+
qed

section \<open>Preparation\<close>

lemma resume_one_capture_by:
  assumes store: "returns_stored (engine_store W)" and graph: "indexed effects"
    and found: "find_progress a Capture_old_object (Some (capture_path request)) = Inr (eff, current)"
    and pending: "terminal current = None"
  shows "triple (replayed_to effects staged es a)
    (resume_one_capture (traced_engine W) recovered request eff a)
    (\<lambda>(kind, captured, b). replayed_to effects staged es b) (replays effects es)"
  unfolding resume_one_capture_def traced_engine_simps traced_transaction_simps
  by (rule resume_bracket [OF store graph found pending], simp add: publishing_def, simp)
    (rule triple_bind_lift restart_terminal_by [OF store] triple_return | simp add: in_step_ahead)+

lemma resume_captures_by:
  assumes store: "returns_stored (engine_store W)" and graph: "indexed effects"
  shows "triple (replayed_to effects staged es (snd (snd progress)))
    (resume_captures (traced_engine W) request state v requests progress)
    (phase_by (relicensed effects es) (\<lambda>x. snd (snd x)) effects staged es) (replays effects es)"
proof (induction requests arbitrary: progress)
  case Nil
  show ?case unfolding resume_captures.simps by (rule triple_return) simp
next
  case (Cons c cs)
  obtain captures evidence a where p: "progress = (captures, evidence, a)" by (cases progress) auto
  note fail = fail_preparation_by [OF relicensed_quiet store]
  have rest: "triple (replayed_to effects staged es b)
      (resume_captures (traced_engine W) request state v cs (cs', evs, b))
      (phase_by (relicensed effects es) (\<lambda>x. snd (snd x)) effects staged es) (replays effects es)"
    for cs' evs b using Cons.IH [of "(cs', evs, b)"] by simp
  show ?case
    unfolding p resume_captures.simps snd_conv Let_def
    apply (rule triple_bind_lift)
     apply (rule triple_split, simp only: prod.case)
     apply (rule triple_option)
      apply (rule triple_bind [OF resume_one_capture_by [OF store graph]], assumption, assumption)
      apply (rule triple_split)+
      apply (simp only: prod.case)
      apply (rule triple_if, rule fail, rule rest)
     apply (rule triple_option)
      apply (rule triple_stop, erule in_step_ahead)
     apply (rule triple_if, rule fail, rule rest)
    apply (erule in_step_ahead)
    done
qed

lemma restart_intents_by:
  assumes store: "returns_stored (engine_store W)" and graph: "indexed effects"
    and "set effs \<subseteq> effect_identity ` set effects"
  shows "triple (replayed_to effects staged es a) (restart_intents (traced_engine W) effs a)
    (\<lambda>b tr. replayed_to effects staged es b tr \<and> b = a\<lparr>journaled_history := journaled_history b\<rparr> \<and>
       intended_after (set effs) (events_of a) (events_of b)) (replays effects es)"
  using assms(3)
proof (induction effs arbitrary: a)
  case Nil
  show ?case unfolding restart_intents.simps by (rule triple_return) simp
next
  case (Cons eff effs)
  then have eff: "eff \<in> effect_identity ` set effects" and effs: "set effs \<subseteq> effect_identity ` set effects"
    by simp_all
  show ?case
    unfolding restart_intents.simps
  proof (rule triple_bind [OF restart_intent_by [OF store graph eff]])
    fix b
    show "triple (\<lambda>tr. replayed_to effects staged es b tr \<and> b = a\<lparr>journaled_history := journaled_history b\<rparr> \<and>
        intended_after {eff} (events_of a) (events_of b)) (restart_intents (traced_engine W) effs b)
      (\<lambda>b tr. replayed_to effects staged es b tr \<and> b = a\<lparr>journaled_history := journaled_history b\<rparr> \<and>
         intended_after (set (eff # effs)) (events_of a) (events_of b)) (replays effects es)"
    proof (rule triple_pure)
      assume b: "b = a\<lparr>journaled_history := journaled_history b\<rparr> \<and>
        intended_after {eff} (events_of a) (events_of b)"
      show "triple (replayed_to effects staged es b) (restart_intents (traced_engine W) effs b)
        (\<lambda>b tr. replayed_to effects staged es b tr \<and> b = a\<lparr>journaled_history := journaled_history b\<rparr> \<and>
           intended_after (set (eff # effs)) (events_of a) (events_of b)) (replays effects es)"
        by (rule triple_consequence [OF Cons.IH [OF effs]])
          (use b in \<open>auto intro: intended_after_insert history_replaced\<close>)
    qed
  qed
qed

lemma restart_settle_by:
  assumes store: "returns_stored (engine_store W)"
  shows "triple (replayed_to effects staged es a)
    (restart_settle_payloads (traced_engine W) sealed replayed effs a) (replayed_to effects staged es)
    (replays effects es)"
proof (induction effs arbitrary: a)
  case Nil
  show ?case unfolding restart_settle_payloads.simps by (rule triple_return)
next
  case (Cons eff effs)
  show ?case
    unfolding restart_settle_payloads.simps
    by (rule triple_bind_lift restart_terminal_by [OF store] Cons.IH | simp add: in_step_ahead)+
qed

lemma restart_stage_by:
  assumes "restaged effects (events_of b)"
  shows "triple (replayed_to effects staged es b) (restart_stage (traced_engine W) archive selection)
    (\<lambda>x. replayed_to effects staged es b) (replays effects es)"
proof -
  have staging: "triple (replayed_to effects staged es b) (noted Staging m)
      (\<lambda>x. replayed_to effects staged es b) (replays effects es)" for m :: "('s, 'x) io"
    by (rule called_traced) (use assms in simp_all)
  show ?thesis
    unfolding restart_stage_def traced_engine_simps traced_transaction_simps
    by (rule triple_bind [OF staging] triple_option triple_stop triple_return | simp add: in_step_ahead)+
qed

lemma abandon_stage_by: "triple P (abandon_stage (traced_engine W) stage) (\<lambda>_. P) E"
  by (rule tripleI) (simp add: abandon_stage_def traced_transaction_def)

lemma payload_effects_of:
  "history_effects (journaled_history a) = effects \<Longrightarrow>
   set (payload_effects a) = effect_identity ` {e \<in> set effects. effect_kind e = Stage_incoming_payload}"
  by (auto simp: payload_effects_def)

text \<open>A stage is run again only when some of its effects has no outcome; then each has an intent.\<close>

definition unsettled :: "'p journal_effect list \<Rightarrow> journal_event list \<Rightarrow> bool" where
  "unsettled effects es \<longleftrightarrow> (\<exists>e \<in> set effects. effect_kind e = Stage_incoming_payload \<and>
     (kinds_of es (effect_identity e) = [] \<or> kinds_of es (effect_identity e) = [Intent]))"

lemma unsettled_restaged:
  assumes "unsettled effects es" and "history_effects (journaled_history a) = effects"
    and "intended_after (set (payload_effects a)) es es'"
  shows "restaged effects es'"
  using assms(1,3) unfolding unsettled_def restaged_def intended_after_def payload_effects_of [OF assms(2)]
  by auto

lemma restage_payloads_by:
  assumes store: "returns_stored (engine_store W)" and graph: "indexed effects"
    and pending: "unsettled effects (events_of a)"
  shows "triple (replayed_to effects staged es a)
    (restage_payloads (traced_engine W) request state archive selection recovered evidence a)
    (phase_by (relicensed effects es) (\<lambda>x. snd (snd x)) effects staged es) (replays effects es)"
proof (rule triple_known)
  assume effects: "history_effects (journaled_history a) = effects"
  then have known: "set (payload_effects a) \<subseteq> effect_identity ` set effects"
    by (auto simp: payload_effects_of)
  note fail = fail_preparation_by [OF relicensed_quiet store]
  show ?thesis
    unfolding restage_payloads_def Let_def
    apply (rule triple_bind [OF restart_intents_by [OF store graph known]])
    apply (rule triple_pure)
    apply (rule triple_bind [OF restart_stage_by])
     apply (rule unsettled_restaged [OF pending effects], blast)
    apply (rule triple_split)
    apply (rule triple_bind_lift)
     apply (rule triple_bind [OF restart_settle_by [OF store]])
     apply (rule triple_if)
      apply (rule triple_bind [OF abandon_stage_by], rule fail)
     apply (rule triple_return, simp)
    apply (erule in_step_ahead)
    done
qed

lemma rmap_progress:
  assumes "rmap (resume_progress_for a) (payload_effects a) = Inr cells"
    and mem: "history_memory_ok (journaled_history a)"
    and effects: "history_effects (journaled_history a) = effects" and graph: "indexed effects"
    and "\<not> (\<exists>c \<in> set cells. payload_failed c)" and "\<not> (\<forall>c \<in> set cells. terminal c = Some Completed)"
  shows "unsettled effects (events_of a)"
proof -
  from assms(5,6) obtain c where c: "c \<in> set cells" "terminal c = None" by (auto simp: payload_failed_def)
  have "\<exists>eff \<in> set (payload_effects a). resume_progress_for a eff = Inr c"
    by (rule rmap_origin [OF assms(1) c(1)])
  then obtain e where e: "e \<in> set effects" "effect_kind e = Stage_incoming_payload"
    and run: "resume_progress_for a (effect_identity e) = Inr c" by (auto simp: payload_effects_of [OF effects])
  have "c = progress_of (kinds_of (events_of a) (effect_identity e))"
    using resume_progress_member [OF mem _ _ run] graph e by (simp add: effects)
  then have "kinds_of (events_of a) (effect_identity e) = [] \<or> kinds_of (events_of a) (effect_identity e) = [Intent]"
    using c(2) kinds_follow [OF mem] by (simp add: progress_of_open(2))
  then show ?thesis using e unfolding unsettled_def by blast
qed

lemma resume_payloads_by:
  assumes store: "returns_stored (engine_store W)" and graph: "indexed effects"
  shows "triple (replayed_to effects staged es a)
    (resume_payloads (traced_engine W) request state v archive recovered evidence a)
    (phase_by (relicensed effects es) (\<lambda>x. snd (snd x)) effects staged es) (replays effects es)"
proof (rule triple_known)
  assume mem: "history_memory_ok (journaled_history a)"
    and effects: "history_effects (journaled_history a) = effects"
  note fail = fail_preparation_by [OF relicensed_quiet store]
  show ?thesis
    unfolding resume_payloads_def
    apply (rule triple_option)
     apply (rule triple_return, simp)
    apply (rule triple_if)
     apply (rule triple_return, simp)
    apply (rule triple_option)
     apply (rule triple_stop, erule in_step_ahead)
    apply (rule triple_bind_lift)+
      apply (rule triple_if, rule fail)
      apply (rule triple_if)
       apply (rule triple_option)
        apply (rule triple_stop, erule in_step_ahead)
       apply (rule triple_if)
        apply (rule triple_stop, erule in_step_ahead)
       apply (rule triple_return, simp)
      apply (rule restage_payloads_by [OF store graph])
      apply (rule rmap_progress [OF _ mem effects graph], assumption+)
     apply (erule in_step_ahead)+
    done
qed

lemma resume_staged_by:
  assumes store: "returns_stored (engine_store W)" and graph: "indexed effects"
    and kind: "kind \<in> set (synchronize_kinds domain)" and other: "domain \<noteq> Durable_completed_evidence"
  shows "triple (replayed_to effects staged es a) (resume_staged (traced_engine W) domain kind status a)
    (\<lambda>(done, status, b). replayed_to effects staged es b) (replays effects es)"
  unfolding resume_staged_def
  apply (rule triple_if)
   apply (rule triple_return, simp)
  apply (rule triple_bind_lift)
   apply (rule triple_split, simp only: prod.case)
   apply (rule triple_option)
    apply (rule triple_bind [OF run_synchronization_by [OF store graph _ _ kind other]], assumption, assumption)
    apply (rule triple_split, simp only: prod.case)
    apply (rule triple_return, simp)
   apply (rule triple_return, simp)
  apply (erule in_step_ahead)
  done

lemma resume_staging_by:
  assumes store: "returns_stored (engine_store W)" and graph: "indexed effects"
  shows "triple (replayed_to effects staged es a)
    (resume_staging (traced_engine W) request state captures incoming recovered evidence a)
    (phase_by (relicensed effects es) prepared_journaled effects staged es) (replays effects es)"
proof -
  have incoming: "Synchronize_incoming_staging \<in> set (synchronize_kinds Durable_incoming_staging)"
    and recovery: "Synchronize_recovery_staging \<in> set (synchronize_kinds Durable_recovery_staging)"
    and other: "Durable_incoming_staging \<noteq> Durable_completed_evidence"
      "Durable_recovery_staging \<noteq> Durable_completed_evidence"
    by simp_all
  note fail = fail_preparation_by [OF relicensed_quiet store]
  show ?thesis
    unfolding resume_staging_def
    apply (rule triple_bind [OF resume_staged_by [OF store graph incoming other(1)]])
    apply (rule triple_split)+
    apply (simp only: prod.case)
    apply (rule triple_if, rule fail)
    apply (rule triple_bind [OF resume_staged_by [OF store graph recovery other(2)]])
    apply (rule triple_split)+
    apply (simp only: prod.case)
    apply (rule triple_if, rule fail)
    apply (rule finish_preparation_by [OF relicensed_quiet store])
    done
qed

lemma resume_preparing_by:
  assumes store: "returns_stored (engine_store W)" and graph: "indexed effects"
  shows "triple (replayed_to effects staged es a)
    (resume_preparing (traced_engine W) v request state archive evidence a)
    (phase_by (relicensed effects es) prepared_journaled effects staged es) (replays effects es)"
proof -
  have captures: "triple (replayed_to effects staged es a)
      (resume_captures (traced_engine W) request state v requests ([], evidence, a))
      (phase_by (relicensed effects es) (\<lambda>x. snd (snd x)) effects staged es) (replays effects es)"
    for requests
    using resume_captures_by [OF store graph, where progress = "([], evidence, a)"] by simp
  show ?thesis
    unfolding resume_preparing_def Let_def
    apply (rule phase_bind [OF captures])
     apply (simp only: phase.case, rule triple_return, simp)
    apply (simp only: phase.case)
    apply (rule triple_split)+
    apply (simp only: snd_conv)
    apply (rule phase_bind [OF resume_payloads_by [OF store graph]])
     apply (simp only: phase.case, rule triple_return, simp)
    apply (simp only: phase.case)
    apply (rule triple_split)+
    apply (simp only: snd_conv)
    apply (rule resume_staging_by [OF store graph])
    done
qed

lemma resume_prepared_journaled:
  "resume_prepared W v a = Inr p \<Longrightarrow> prepared_journaled p = a"
  by (auto simp: resume_prepared_def result_simps dest!: prepared_made)

lemma resume_preparation_by:
  assumes store: "returns_stored (engine_store W)" and graph: "indexed effects"
  shows "triple (replayed_to effects staged es a)
    (resume_preparation (traced_engine W) v a request state lease archive)
    (phase_by (relicensed effects es) prepared_journaled effects staged es) (replays effects es)"
  unfolding resume_preparation_def Let_def traced_engine_simps traced_transaction_simps
  apply (rule triple_bind_lift)
   apply (rule triple_if)
    apply (rule triple_lift)
     apply (auto simp: result_simps in_step_ahead dest!: resume_prepared_journaled) [2]
   apply (rule triple_bind [OF triple_traced], erule in_step_ahead)
   apply (rule triple_bind_lift)
    apply (rule triple_if, rule fail_preparation_by [OF relicensed_quiet store])
    apply (rule resume_preparing_by [OF store graph])
   apply (erule in_step_ahead)+
  done

section \<open>Rejected publication\<close>

lemma fail_rejected_outcome_by:
  assumes "returns_stored (engine_store W)"
  shows "triple (replayed_to effects staged es (prepared_journaled prepared))
    (fail_rejected_outcome (traced_engine W) prepared request state ds outcome status evidence)
    (phase_by (relicensed effects es) g effects staged es) (replays effects es)"
  unfolding fail_rejected_outcome_def
  by (intro triple_if fail_rejected_by [OF relicensed_quiet assms])

lemma run_rejected_by:
  assumes store: "returns_stored (engine_store W)" and graph: "indexed effects"
    and command: "rejected_command decision step = Inr command"
    and found: "find_progress a Publish_rejected_object (Some (schedule_path step)) = Inr (eff, current)"
    and fresh: "terminal current = None" "\<not> intended current"
  shows "triple (replayed_to effects staged es a)
    (run_rejected (traced_engine W) path command eff a)
    (\<lambda>(result, b). replayed_to effects staged es b) (replays effects es)"
  unfolding run_rejected_def traced_engine_simps traced_transaction_simps
  by (rule resume_bracket [OF store graph found fresh(1)],
      simp add: publishing_def rejected_effect_path [OF command] fresh(2), simp)
    (rule triple_bind_lift restart_terminal_by [OF store] triple_return | simp add: in_step_ahead)+

lemma resume_rejected_loop_by:
  assumes store: "returns_stored (engine_store W)" and graph: "indexed effects"
  shows "triple (replayed_to effects staged es (prepared_journaled (fst progress)))
    (resume_rejected_loop (traced_engine W) v request state steps progress)
    (phase_by (relicensed effects es) (\<lambda>x. prepared_journaled (fst x)) effects staged es)
    (replays effects es)"
proof (induction steps arbitrary: progress)
  case Nil
  show ?case unfolding resume_rejected_loop.simps by (rule triple_return) simp
next
  case (Cons step steps)
  obtain prepared so_far status evidence where p: "progress = (prepared, so_far, status, evidence)"
    by (cases progress) auto
  note stop = fail_rejected_outcome_by [OF store]
  have rest: "triple (replayed_to effects staged es (prepared_journaled q))
      (resume_rejected_loop (traced_engine W) v request state steps (q, ds, st, evs))
      (phase_by (relicensed effects es) (\<lambda>x. prepared_journaled (fst x)) effects staged es)
      (replays effects es)" for q ds st evs
    using Cons.IH [of "(q, ds, st, evs)"] by simp
  have carry: "triple (replayed_to effects staged es b)
      (if C then fail_rejected_outcome (traced_engine W) (prepared\<lparr>prepared_journaled := b\<rparr>) request state
              ds outcome st evs
       else resume_rejected_loop (traced_engine W) v request state steps
              (prepared\<lparr>prepared_journaled := b\<rparr>, ds', st', evs'))
      (phase_by (relicensed effects es) (\<lambda>x. prepared_journaled (fst x)) effects staged es)
      (replays effects es)" for C b ds outcome st evs ds' st' evs'
    by (rule triple_if; rule stop [where prepared = "prepared\<lparr>prepared_journaled := b\<rparr>", simplified]
        rest [where q = "prepared\<lparr>prepared_journaled := b\<rparr>", simplified])
  show ?case
    unfolding p resume_rejected_loop.simps fst_conv Let_def
    apply (rule triple_if, rule rest)
    apply (rule triple_bind_lift)+
        apply (rule triple_split, simp only: prod.case)
        apply (rule triple_if)
         apply (rule triple_option)
          apply (rule triple_stop, erule in_step_ahead)
         apply (rule triple_if, rule stop, rule rest)
        apply (rule triple_if)
         apply (rule triple_bind_lift, rule stop, erule in_step_ahead)
        apply (rule triple_bind [OF run_rejected_by [OF store graph]], assumption, assumption, simp, assumption)
        apply (rule triple_split, simp only: prod.case)
        apply (rule carry)
       apply (erule in_step_ahead)+
    done
qed

lemma resume_synchronization_by:
  assumes store: "returns_stored (engine_store W)" and graph: "indexed effects"
    and kind: "kind \<in> set (synchronize_kinds domain)" and other: "domain \<noteq> Durable_completed_evidence"
  shows "triple (replayed_to effects staged es a)
    (resume_synchronization (traced_engine W) v domain kind message a)
    (\<lambda>(status, b). replayed_to effects staged es b) (replays effects es)"
  unfolding resume_synchronization_def
  apply (rule triple_bind_lift)
   apply (rule triple_split, simp only: prod.case)
   apply (rule triple_if)
    apply (rule triple_lift)
     apply (auto simp: result_simps in_step_ahead) [2]
   apply (rule run_synchronization_by [OF store graph _ _ kind other], assumption, simp)
  apply (erule in_step_ahead)
  done

lemma resume_rejected_completion_by:
  assumes store: "returns_stored (engine_store W)" and graph: "indexed effects"
  shows "triple (replayed_to effects staged es (prepared_journaled (fst progress)))
    (resume_rejected_completion (traced_engine W) v request state progress)
    (phase_by (relicensed effects es) published_journaled effects staged es) (replays effects es)"
proof -
  obtain prepared so_far status evidence where p: "progress = (prepared, so_far, status, evidence)"
    by (cases progress) auto
  have kind: "Synchronize_rejected_store \<in> set (synchronize_kinds Durable_rejected_store)"
    and other: "Durable_rejected_store \<noteq> Durable_completed_evidence" by simp_all
  have carry: "triple (replayed_to effects staged es b)
      (io_lift (finish_rejected (prepared\<lparr>prepared_journaled := b\<rparr>, so_far, st, evidence)))
      (phase_by (relicensed effects es) published_journaled effects staged es) (replays effects es)"
    and stop: "triple (replayed_to effects staged es b)
      (fail_rejected_publication (traced_engine W) (prepared\<lparr>prepared_journaled := b\<rparr>) request state
        so_far outcome recovered st evidence)
      (phase_by (relicensed effects es) published_journaled effects staged es) (replays effects es)"
    for b st outcome recovered
    using finish_rejected_by [where L = "relicensed effects es" and prepared = "prepared\<lparr>prepared_journaled := b\<rparr>"
        and effects = effects and staged = staged and es = es]
      fail_rejected_by [OF relicensed_quiet store, where prepared = "prepared\<lparr>prepared_journaled := b\<rparr>"]
    by simp_all
  show ?thesis
    unfolding p resume_rejected_completion_def Let_def prod.case fst_conv
    apply (rule triple_if, rule finish_rejected_by)
    apply (rule triple_bind [OF resume_synchronization_by [OF store graph kind other]])
    apply (rule triple_split, simp only: prod.case)
    apply (intro triple_if carry stop)
    done
qed

lemma resume_rejected_by:
  assumes store: "returns_stored (engine_store W)" and graph: "indexed effects"
  shows "triple (replayed_to effects staged es (prepared_journaled prepared))
    (resume_rejected (traced_engine W) v prepared request state lease)
    (phase_by (relicensed effects es) published_journaled effects staged es) (replays effects es)"
proof -
  have enter: "triple (replayed_to effects staged es a) (enter_mutating (traced_engine W) a)
      (replayed_to effects staged es) (replays effects es)" for a
    unfolding enter_mutating_def
    by (intro triple_if triple_return triple_consequence [OF state_by [OF relicensed_quiet store]])
      (blast | assumption)+
  have loop: "triple (replayed_to effects staged es b)
      (resume_rejected_loop (traced_engine W) v request state steps
        (prepared\<lparr>prepared_journaled := b\<rparr>, [], Durability_not_attempted, evidence))
      (phase_by (relicensed effects es) (\<lambda>x. prepared_journaled (fst x)) effects staged es)
      (replays effects es)" for b steps evidence
    using resume_rejected_loop_by [OF store graph, where progress =
        "(prepared\<lparr>prepared_journaled := b\<rparr>, [], Durability_not_attempted, evidence)"] by simp
  show ?thesis
    unfolding resume_rejected_def
    apply (rule triple_bind_lift)
     apply (rule triple_bind [OF enter])
     apply (rule phase_bind [OF loop])
      apply (simp only: phase.case, rule triple_return, simp)
     apply (simp only: phase.case)
     apply (rule resume_rejected_completion_by [OF store graph])
    apply (erule in_step_ahead)
    done
qed

section \<open>Active execution\<close>

lemma interrupt_outcome_by:
  assumes store: "returns_stored (engine_store W)"
  shows "triple (replayed_to effects staged es (published_journaled r))
    (interrupt_active_outcome (traced_engine W) r so_far outcome status evidence)
    (active_by (relicensed effects es) g effects staged es) (replays effects es)"
  unfolding interrupt_active_outcome_def
  by (rule triple_bind [where R = "\<lambda>i. replayed_to effects staged es (interrupted_journaled i)"])
    (auto intro!: triple_if interrupt_by [OF relicensed_quiet store] triple_return)

lemma run_active_by:
  assumes store: "returns_stored (engine_store W)" and graph: "indexed effects"
    and command: "active_command decision step = Inr command"
    and found: "find_progress a Publish_active_object (Some (schedule_path step)) = Inr (eff, current)"
    and fresh: "terminal current = None" "\<not> intended current"
  shows "triple (replayed_to effects staged es a)
    (run_active (traced_engine W) path command eff a)
    (\<lambda>(result, b). replayed_to effects staged es b) (replays effects es)"
  unfolding run_active_def traced_engine_simps traced_transaction_simps
  by (rule resume_bracket [OF store graph found fresh(1)],
      simp add: publishing_def active_request_path [OF command] fresh(2), simp)
    (rule triple_bind_lift restart_terminal_by [OF store] triple_return | simp add: in_step_ahead)+

lemma resume_active_loop_by:
  assumes store: "returns_stored (engine_store W)" and graph: "indexed effects"
  shows "triple (replayed_to effects staged es (published_journaled (fst progress)))
    (resume_active_loop (traced_engine W) v plan steps progress)
    (active_by (relicensed effects es) (\<lambda>x. published_journaled (fst x)) effects staged es)
    (replays effects es)"
proof (induction steps arbitrary: progress)
  case Nil
  show ?case unfolding resume_active_loop.simps by (rule triple_return) simp
next
  case (Cons step steps)
  obtain r so_far status evidence where p: "progress = (r, so_far, status, evidence)"
    by (cases progress) auto
  note stop = interrupt_outcome_by [OF store]
  have rest: "triple (replayed_to effects staged es (published_journaled q))
      (resume_active_loop (traced_engine W) v plan steps (q, ds, st, evs))
      (active_by (relicensed effects es) (\<lambda>x. published_journaled (fst x)) effects staged es)
      (replays effects es)" for q ds st evs
    using Cons.IH [of "(q, ds, st, evs)"] by simp
  show ?case
    unfolding p resume_active_loop.simps fst_conv Let_def
    apply (rule triple_if, rule rest)
    apply (rule triple_bind_lift)+
        apply (rule triple_split, simp only: prod.case)
        apply (rule triple_if)
         apply (rule triple_option)
          apply (rule triple_stop, erule in_step_ahead)
         apply (rule triple_bind_lift)
          apply (rule triple_if, rule rest, rule stop)
         apply (erule in_step_ahead)
        apply (rule triple_if)
         apply (rule triple_bind_lift, rule stop, erule in_step_ahead)
        apply (rule triple_bind [OF run_active_by [OF store graph]], assumption, assumption, simp, assumption)
        apply (rule triple_split, simp only: prod.case)
        apply (rule triple_bind_lift)
         apply (rule triple_if)
          apply (rule rest [where q = "with_journaled r b" for b, simplified])
         apply (rule stop [where r = "with_journaled r b" for b, simplified])
        apply (erule in_step_ahead)+
    done
qed

lemma finish_resumed_active_by:
  assumes store: "returns_stored (engine_store W)"
  shows "triple (replayed_to effects staged es (published_journaled (fst progress)))
    (finish_resumed_active (traced_engine W) progress)
    (active_by (relicensed effects es) (\<lambda>m. published_journaled (mutated_rejected m)) effects staged es)
    (replays effects es)"
proof -
  obtain r so_far status evidence where p: "progress = (r, so_far, status, evidence)"
    by (cases progress) auto
  have enter: "triple (replayed_to effects staged es a)
      (if C then journal_state_step (traced_engine W) a st rc ce else io_return a)
      (replayed_to effects staged es) (replays effects es)" for C a st rc ce
    by (intro triple_if triple_return triple_consequence [OF state_by [OF relicensed_quiet store]])
      (blast | assumption)+
  show ?thesis
    unfolding p finish_resumed_active_def Let_def prod.case fst_conv
    by (rule triple_bind [OF enter], rule triple_lift)
      (auto simp: result_simps in_step_ahead dest!: mutated_made)
qed

lemma resume_active_by:
  assumes store: "returns_stored (engine_store W)" and graph: "indexed effects"
  shows "triple (replayed_to effects staged es (published_journaled r))
    (resume_active (traced_engine W) v r request state lease)
    (active_by (relicensed effects es) (\<lambda>m. published_journaled (mutated_rejected m)) effects staged es)
    (replays effects es)"
proof -
  have kind: "Synchronize_active_namespace \<in> set (synchronize_kinds Durable_active_namespace)"
    and other: "Durable_active_namespace \<noteq> Durable_completed_evidence" by simp_all
  have complete: "triple (replayed_to effects staged es (published_journaled (fst progress)))
      (resume_active_completion (traced_engine W) v control progress)
      (active_by (relicensed effects es) (\<lambda>m. published_journaled (mutated_rejected m)) effects staged es)
      (replays effects es)" for progress control
  proof -
    obtain r so_far status evidence where p: "progress = (r, so_far, status, evidence)"
      by (cases progress) auto
    show ?thesis
      unfolding p resume_active_completion_def Let_def prod.case fst_conv
      apply (rule triple_if)
       apply (rule finish_resumed_active_by [OF store, where progress = "(r, so_far, status, evidence)",
           unfolded fst_conv])
      apply (rule triple_bind [OF resume_synchronization_by [OF store graph kind other]])
      apply (rule triple_split, simp only: prod.case)
      apply (rule triple_if)
       apply (rule finish_resumed_active_by [OF store, where progress = "(with_journaled r b, ds, st, evs)"
           for b ds st evs, simplified])
      apply (rule stop_by [OF relicensed_quiet store, where r = "with_journaled r b" for b, simplified])
      done
  qed
  have loop: "triple (replayed_to effects staged es (published_journaled r))
      (resume_active_loop (traced_engine W) v plan steps (r, [], Durability_not_attempted, evidence))
      (active_by (relicensed effects es) (\<lambda>x. published_journaled (fst x)) effects staged es)
      (replays effects es)" for plan steps evidence
    using resume_active_loop_by [OF store graph, where progress =
        "(r, [], Durability_not_attempted, evidence)"] by simp
  show ?thesis
    unfolding resume_active_def
    apply (rule triple_bind_lift)
     apply (rule active_bind [OF loop])
      apply (simp only: phase.case, rule triple_return, simp)
     apply (simp only: phase.case, rule complete)
    apply (erule in_step_ahead)
    done
qed

end
