(* ===== verification/Echoing.thy ===== *)
theory Echoing
  imports Mirroring Replaying
begin

text \<open>
  Recording changes nothing in a replay either: reopening and resuming on the recording engine return
  what the engine returns and leave the outside world as the engine leaves it.
\<close>

section \<open>Reopening\<close>

lemma load_committed_mirrors:
  "mirrors (load_committed E (traced_store store) i ns h) (load_committed E store i ns h)"
  by (induction ns arbitrary: h; unfold load_committed.simps traced_store_def journal_store.simps)
    (rule mirror_rules | assumption)+

lemma load_history_mirrors:
  "mirrors (load_history E (traced_store store) i) (load_history E store i)"
proof -
  have cursor: "mirrors (load_or_create_cursor E (traced_store store) d i) (load_or_create_cursor E store d i)"
    and orphan: "mirrors (adopt_orphan E (traced_store store) i c h) (adopt_orphan E store i c h)"
    and declared: "load_declaration (traced_store store) i = traced (load_declaration store i)" for d c h
    unfolding load_or_create_cursor_def adopt_orphan_def Let_def traced_store_def journal_store.simps
    by (rule refl mirror_rules)+
  show ?thesis
    unfolding load_history_def declared
    by (rule cursor orphan load_committed_mirrors mirror_rules)+
qed

lemma reopen_incoming_mirrors:
  "mirrors (reopen_incoming (traced_engine W) request incoming state lease backend
      (\<lambda>v. traced (resume_transaction v)) declaration archive)
     (reopen_incoming W request incoming state lease backend resume_transaction declaration archive)"
  unfolding reopen_incoming_def Let_def traced_engine_simps
  by (rule load_history_mirrors mirror_rules)+

lemma reopen_removal_mirrors:
  "mirrors (reopen_removal (traced_engine W) request state lease backend
      (\<lambda>v. traced (resume_transaction v)) declaration)
     (reopen_removal W request state lease backend resume_transaction declaration)"
  unfolding reopen_removal_def Let_def traced_engine_simps
  by (rule load_history_mirrors mirror_rules)+

lemma rebuild_traced:
  "rebuild_incoming (traced_engine W) r request state lease img = rebuild_incoming W r request state lease img"
  "rebuild_removal (traced_engine W) r request state lease = rebuild_removal W r request state lease"
  unfolding rebuild_incoming_def rebuild_removal_def rebuild_journaled_def
    validate_restart_effect_graph_def has_payloads_def traced_engine_simps by (rule refl)+

section \<open>Events\<close>

lemma restart_intent_mirrors:
  "mirrors (restart_intent (traced_engine W) a st eff) (restart_intent W a st eff)"
  unfolding restart_intent_def by (rule step_mirrors)+

lemma restart_terminal_mirrors:
  "mirrors (restart_terminal (traced_engine W) a st eff kind evidence replayed)
     (restart_terminal W a st eff kind evidence replayed)"
  unfolding restart_terminal_def by (rule step_mirrors)+

lemmas restart_mirrors = restart_intent_mirrors restart_terminal_mirrors step_mirrors

lemma restart_seal_mirrors:
  "mirrors (restart_seal (traced_engine W) a st receipt evidence) (restart_seal W a st receipt evidence)"
  unfolding restart_seal_def by (rule restart_mirrors)+

lemma run_synchronization_mirrors:
  "mirrors (run_synchronization (traced_engine W) domain st message eff a)
     (run_synchronization W domain st message eff a)"
  unfolding run_synchronization_def traced_engine_simps traced_transaction_simps
  by (rule restart_mirrors)+

section \<open>Preparation\<close>

lemma resume_captures_mirrors:
  "mirrors (resume_captures (traced_engine W) request state v requests progress)
     (resume_captures W request state v requests progress)"
proof -
  have one: "mirrors (resume_one_capture (traced_engine W) recovered c eff a)
      (resume_one_capture W recovered c eff a)" for recovered c eff a
    unfolding resume_one_capture_def traced_engine_simps traced_transaction_simps
    by (rule restart_mirrors)+
  show ?thesis
    by (induction requests arbitrary: progress; case_tac progress; simp only: resume_captures.simps Let_def)
      (rule one fail_preparation_mirrors mirror_rules | assumption)+
qed

lemma resume_payloads_mirrors:
  "mirrors (resume_payloads (traced_engine W) request state v archive recovered evidence a)
     (resume_payloads W request state v archive recovered evidence a)"
proof -
  have intents: "mirrors (restart_intents (traced_engine W) effs a) (restart_intents W effs a)" for effs a
    by (induction effs arbitrary: a; unfold restart_intents.simps) (rule restart_mirrors | assumption)+
  have settle: "mirrors (restart_settle_payloads (traced_engine W) sealed replayed effs a)
      (restart_settle_payloads W sealed replayed effs a)" for sealed replayed effs a
    by (induction effs arbitrary: a; unfold restart_settle_payloads.simps)
      (rule restart_mirrors | assumption)+
  have stage: "mirrors (restart_stage (traced_engine W) archive selection) (restart_stage W archive selection)"
    for archive selection
    unfolding restart_stage_def traced_engine_simps traced_transaction_simps by (rule mirror_rules)+
  have abandon: "mirrors (abandon_stage (traced_engine W) stage) (abandon_stage W stage)" for stage
    by (rule mirrorsI) (simp add: abandon_stage_def traced_transaction_def)
  have restage: "mirrors (restage_payloads (traced_engine W) request state archive selection recovered evidence a)
      (restage_payloads W request state archive selection recovered evidence a)" for archive selection
    unfolding restage_payloads_def Let_def traced_engine_simps
    by (rule intents settle stage abandon fail_preparation_mirrors mirror_rules)+
  show ?thesis
    unfolding resume_payloads_def validate_archive_traced traced_engine_simps
    by (rule restage fail_preparation_mirrors mirror_rules)+
qed

lemma resume_preparation_mirrors:
  "mirrors (resume_preparation (traced_engine W) v a request state lease archive)
     (resume_preparation W v a request state lease archive)"
proof -
  have staged: "mirrors (resume_staged (traced_engine W) domain kind status a)
      (resume_staged W domain kind status a)" for domain kind status a
    unfolding resume_staged_def by (rule run_synchronization_mirrors mirror_rules)+
  have prepared: "resume_prepared (traced_engine W) v a = resume_prepared W v a"
    unfolding resume_prepared_def has_payloads_def make_prepared_traced traced_engine_simps by (rule refl)
  have preparing: "mirrors (resume_preparing (traced_engine W) v request state archive evidence a)
      (resume_preparing W v request state archive evidence a)" for evidence
    unfolding resume_preparing_def resume_staging_def Let_def
    by (rule resume_captures_mirrors resume_payloads_mirrors staged fail_preparation_mirrors
        finish_preparation_mirrors mirror_rules)+
  show ?thesis
    unfolding resume_preparation_def prepared Let_def traced_engine_simps traced_transaction_simps
    by (rule preparing fail_preparation_mirrors mirror_rules)+
qed

section \<open>Rejected and active effects\<close>

lemma resume_rejected_mirrors:
  "mirrors (resume_rejected (traced_engine W) v prepared request state lease)
     (resume_rejected W v prepared request state lease)"
proof -
  have run: "mirrors (run_rejected (traced_engine W) path command eff a) (run_rejected W path command eff a)"
    for path command eff a
    unfolding run_rejected_def traced_engine_simps traced_transaction_simps by (rule restart_mirrors)+
  have fail: "mirrors (fail_rejected_outcome (traced_engine W) p request state ds outcome status evidence)
      (fail_rejected_outcome W p request state ds outcome status evidence)"
    for p ds outcome status evidence
    unfolding fail_rejected_outcome_def by (rule fail_rejected_mirrors mirror_rules)+
  have loop: "mirrors (resume_rejected_loop (traced_engine W) v request state steps progress)
      (resume_rejected_loop W v request state steps progress)" for steps progress
    by (induction steps arbitrary: progress; case_tac progress; simp only: resume_rejected_loop.simps Let_def)
      (rule run fail mirror_rules | assumption)+
  show ?thesis
    unfolding resume_rejected_def resume_rejected_completion_def resume_synchronization_def
      enter_mutating_def Let_def
    by (rule loop fail_rejected_mirrors run_synchronization_mirrors step_mirrors)+
qed

lemma resume_active_mirrors:
  "mirrors (resume_active (traced_engine W) v r request state lease)
     (resume_active W v r request state lease)"
proof -
  have run: "mirrors (run_active (traced_engine W) path command eff a) (run_active W path command eff a)"
    for path command eff a
    unfolding run_active_def traced_engine_simps traced_transaction_simps by (rule restart_mirrors)+
  have stop: "mirrors (interrupt_active_outcome (traced_engine W) r so_far outcome status evidence)
      (interrupt_active_outcome W r so_far outcome status evidence)" for r so_far outcome status evidence
    unfolding interrupt_active_outcome_def by (rule interrupt_mirrors mirror_rules)+
  have loop: "mirrors (resume_active_loop (traced_engine W) v plan steps progress)
      (resume_active_loop W v plan steps progress)" for plan steps progress
    by (induction steps arbitrary: progress; case_tac progress; simp only: resume_active_loop.simps Let_def)
      (rule run stop mirror_rules | assumption)+
  have finish: "mirrors (finish_resumed_active (traced_engine W) progress)
      (finish_resumed_active W progress)" for progress
    unfolding finish_resumed_active_def Let_def by (rule step_mirrors)+
  show ?thesis
    unfolding resume_active_def resume_active_completion_def resume_synchronization_def Let_def
    by (rule loop finish interrupt_mirrors run_synchronization_mirrors mirror_rules)+
qed

section \<open>Recovery and completion\<close>

lemma restart_interruption_mirrors:
  "mirrors (restart_interruption (traced_engine W) v r request) (restart_interruption W v r request)"
  unfolding restart_interruption_def Let_def by (rule step_mirrors)+

lemma resume_recovery_mirrors:
  "mirrors (resume_recovery (traced_engine W) v i request state lease)
     (resume_recovery W v i request state lease)"
proof -
  have run: "mirrors (run_recovery (traced_engine W) path eff a) (run_recovery W path eff a)" for path eff a
    unfolding run_recovery_def traced_engine_simps traced_transaction_simps by (rule restart_mirrors)+
  have loop: "mirrors (resume_recover_loop (traced_engine W) v candidates progress)
      (resume_recover_loop W v candidates progress)" for candidates progress
    by (induction candidates arbitrary: progress; case_tac progress; simp only: resume_recover_loop.simps Let_def)
      (rule run mirror_rules | assumption)+
  show ?thesis
    unfolding resume_recovery_def resume_undo_def resume_recovered_def Let_def
    by (rule recover_mirrors loop run_synchronization_mirrors seal_recovery_mirrors step_mirrors)+
qed

lemma resume_completion_mirrors:
  "mirrors (resume_completion (traced_engine W) v m request state lease img)
     (resume_completion W v m request state lease img)"
proof -
  have observe: "mirrors (resume_observation (traced_engine W) img observed d progress)
      (resume_observation W img observed d progress)" for observed d progress
    unfolding resume_observation_def Let_def traced_engine_simps by (rule restart_mirrors)+
  have observations: "mirrors (resume_observations (traced_engine W) img observed decisions progress)
      (resume_observations W img observed decisions progress)" for observed decisions progress
    by (induction decisions arbitrary: progress; unfold resume_observations.simps)
      (rule observe mirror_rules | assumption)+
  have conclude: "mirrors (conclude_resumed (traced_engine W) v request state m paths evidence)
      (conclude_resumed W v request state m paths evidence)" for m paths evidence
    unfolding conclude_resumed_def conclude_publication_def conclude_synchronization_def
      republish_evidence_def resynchronize_evidence_def reseal_unconfirmed_def reseal_completion_def
      Let_def traced_engine_simps traced_transaction_simps
    by (rule restart_seal_mirrors restart_mirrors)+
  show ?thesis
    unfolding resume_completion_def interrupt_completion_def Let_def traced_engine_simps
      traced_transaction_simps
    by (rule observations conclude step_mirrors)+
qed

section \<open>The entry points\<close>

lemma finish_replay_mirrors:
  "mirrors (finish_replay (traced_engine W) v a request state lease archive)
     (finish_replay W v a request state lease archive)"
  unfolding finish_replay_def replay_forward_def traced_engine_simps
  by (rule resume_preparation_mirrors resume_rejected_mirrors restart_interruption_mirrors
      resume_recovery_mirrors resume_active_mirrors resume_completion_mirrors mirror_rules)+

lemma resume_incoming_mirrors:
  "mirrors (resume_incoming (traced_engine W) request incoming state lease backend
      (\<lambda>v. traced (resume_transaction v)) declaration archive)
     (resume_incoming W request incoming state lease backend resume_transaction declaration archive)"
  unfolding resume_incoming_def replay_incoming_def rebuild_traced
  by (rule reopen_incoming_mirrors finish_replay_mirrors mirror_rules)+

lemma resume_removal_mirrors:
  "mirrors (resume_removal (traced_engine W) request state lease backend
      (\<lambda>v. traced (resume_transaction v)) declaration)
     (resume_removal W request state lease backend resume_transaction declaration)"
  unfolding resume_removal_def replay_removal_def rebuild_traced
  by (rule reopen_removal_mirrors finish_replay_mirrors mirror_rules)+

end
