(* ===== verification/Continuing.thy ===== *)
theory Continuing
  imports Resumption Echoing Sealing
begin

text \<open>
  The end of a replay under the licence of \<open>Rerunning\<close>: recovery, completion and the entry points.
\<close>

section \<open>The interruption\<close>

lemma enter_if_by:
  assumes "returns_stored (engine_store W)"
  shows "triple (replayed_to effects staged es a)
      (if C then journal_state_step (traced_engine W) a st rc ce else io_return a)
      (replayed_to effects staged es) (replays effects es)"
    and "triple (replayed_to effects staged es a)
      (if C then io_return a else journal_state_step (traced_engine W) a st rc ce)
      (replayed_to effects staged es) (replays effects es)"
  by (intro triple_if triple_return triple_consequence [OF state_by [OF relicensed_quiet assms]];
      blast | assumption)+

lemma restart_interruption_by:
  assumes store: "returns_stored (engine_store W)"
  shows "triple (replayed_to effects staged es (published_journaled r))
    (restart_interruption (traced_engine W) v r request)
    (\<lambda>i. replayed_to effects staged es (interrupted_journaled i)) (replays effects es)"
  unfolding restart_interruption_def Let_def
  apply (rule triple_bind_lift)+
    apply (rule triple_split)
    apply (rule triple_bind [OF enter_if_by(2) [OF store]])
    apply (rule triple_lift)
     apply (auto simp: result_simps in_step_ahead dest!: interrupted_journaled_made)
  done

section \<open>Recovery\<close>

lemma run_recovery_by:
  assumes store: "returns_stored (engine_store W)" and graph: "indexed effects"
    and found: "find_progress a Recover_active_object (Some path) = Inr (eff, current)"
    and fresh: "terminal current = None" "\<not> intended current"
  shows "triple (replayed_to effects staged es a) (run_recovery (traced_engine W) path eff a)
    (\<lambda>(result, b). replayed_to effects staged es b) (replays effects es)"
  unfolding run_recovery_def traced_engine_simps traced_transaction_simps
  by (rule resume_bracket [OF store graph found fresh(1)], simp add: publishing_def fresh(2), simp)
    (rule triple_bind_lift restart_terminal_by [OF store] triple_return | simp add: in_step_ahead)+

lemma resume_recover_loop_by:
  assumes store: "returns_stored (engine_store W)" and graph: "indexed effects"
  shows "triple (replayed_to effects staged es (interrupted_journaled (snd (snd progress))))
    (resume_recover_loop (traced_engine W) v candidates progress)
    (\<lambda>(recoveries, evidence, j). replayed_to effects staged es (interrupted_journaled j))
    (replays effects es)"
proof (induction candidates arbitrary: progress)
  case Nil
  show ?case unfolding resume_recover_loop.simps by (rule triple_return) (auto split: prod.splits)
next
  case (Cons e candidates)
  obtain recoveries evidence i where p: "progress = (recoveries, evidence, i)" by (cases progress) auto
  have rest: "triple (replayed_to effects staged es (interrupted_journaled j))
      (resume_recover_loop (traced_engine W) v candidates (rs, evs, j))
      (\<lambda>(recoveries, evidence, j). replayed_to effects staged es (interrupted_journaled j))
      (replays effects es)" for rs evs j
    using Cons.IH [of "(rs, evs, j)"] by simp
  show ?case
    unfolding p resume_recover_loop.simps snd_conv Let_def
    apply (rule triple_bind_lift)+
      apply (rule triple_split, simp only: prod.case)
      apply (rule triple_if)
       apply (rule triple_option)
        apply (rule triple_stop, erule in_step_ahead)
       apply (rule triple_if)
        apply (rule triple_return, simp)
       apply (rule rest)
      apply (rule triple_if)
       apply (rule triple_return, simp)
      apply (rule triple_bind [OF run_recovery_by [OF store graph]], assumption, simp, assumption)
      apply (rule triple_split, simp only: prod.case)
      apply (rule triple_if)
       apply (rule triple_return, simp)
      apply (rule rest [where j = "interrupted_with i b" for b, simplified])
     apply (erule in_step_ahead)+
    done
qed

lemma resume_recovered_by:
  assumes store: "returns_stored (engine_store W)" and graph: "indexed effects"
  shows "triple (replayed_to effects staged es (interrupted_journaled i))
    (resume_recovered (traced_engine W) v i)
    (\<lambda>(status, j). replayed_to effects staged es (interrupted_journaled j)) (replays effects es)"
proof -
  have kind: "Synchronize_recovered_namespace \<in> set (synchronize_kinds Durable_active_namespace)"
    and other: "Durable_active_namespace \<noteq> Durable_completed_evidence" by simp_all
  show ?thesis
    unfolding resume_recovered_def Let_def
    apply (rule triple_bind_lift)
     apply (rule triple_split, simp only: prod.case)
     apply (rule triple_if)
      apply (rule triple_lift)
       apply (auto simp: result_simps in_step_ahead) [2]
     apply (rule triple_if)
      apply (rule triple_return, simp)
     apply (rule triple_bind [OF run_synchronization_by [OF store graph _ _ kind other]], assumption, simp)
     apply (rule triple_split, simp only: prod.case)
     apply (rule triple_return, simp)
    apply (erule in_step_ahead)
    done
qed

lemma resume_undo_by:
  assumes store: "returns_stored (engine_store W)" and graph: "indexed effects"
  shows "triple (replayed_to effects staged es (interrupted_journaled i))
    (resume_undo (traced_engine W) v i request state) (\<lambda>r. replays effects es) (replays effects es)"
proof -
  have loop: "triple (replayed_to effects staged es b)
      (resume_recover_loop (traced_engine W) v candidates ([], evidence, interrupted_with i b))
      (\<lambda>(recoveries, evidence, j). replayed_to effects staged es (interrupted_journaled j))
      (replays effects es)" for b candidates evidence
    using resume_recover_loop_by [OF store graph, where progress = "([], evidence, interrupted_with i b)"]
    by simp
  note seal = seal_recovery_by [OF relicensed_quiet store]
  show ?thesis
    unfolding resume_undo_def Let_def
    apply (rule triple_bind [OF enter_if_by(1) [OF store]])
    apply (rule triple_bind [OF loop])
    apply (rule triple_split)+
    apply (simp only: prod.case)
    apply (rule triple_bind_lift)
     apply (rule triple_if)
      apply (rule triple_bind [OF resume_recovered_by [OF store graph]])
      apply (rule triple_split, simp only: prod.case)
      apply (rule triple_bind_lift)
       apply (rule triple_split, rule seal)
      apply (erule in_step_ahead)
     apply (rule triple_split, rule seal)
    apply (erule in_step_ahead)
    done
qed

lemma resume_recovery_by:
  assumes store: "returns_stored (engine_store W)" and graph: "indexed effects"
  shows "triple (replayed_to effects staged es (interrupted_journaled i))
    (resume_recovery (traced_engine W) v i request state lease)
    (\<lambda>r. replays effects es) (replays effects es)"
proof -
  note seal = seal_recovery_by [OF relicensed_quiet store]
  have sealed: "triple (replayed_to effects staged es (interrupted_journaled i))
      (recover_interrupted (traced_engine W) i request state lease)
      (\<lambda>r. replays effects es) (replays effects es)"
    if "\<not> recovery_selected (request_control request) \<or> recovery_candidates i = []"
    unfolding recover_interrupted_def seal_without_candidates_def seal_without_recovery_def
    apply (rule triple_bind_lift)
     apply (intro triple_if seal)
     using that apply simp
    apply (erule in_step_ahead)
    done
  show ?thesis
    unfolding resume_recovery_def
    by (rule triple_bind_lift triple_if sealed resume_undo_by [OF store graph] | assumption
        | erule in_step_ahead)+
qed

section \<open>Completion\<close>

lemma io_bind_same: "io_bind m io_return = m"
  by (rule ext) (simp add: io_bind_def split: prod.split sum.split)

lemma resume_observation_by:
  assumes store: "returns_stored (engine_store W)" and graph: "indexed effects"
  shows "triple (replayed_to effects staged es (published_journaled (mutated_rejected (snd (snd (snd progress))))))
    (resume_observation (traced_engine W) img observed d progress)
    (\<lambda>x. replayed_to effects staged es (published_journaled (mutated_rejected (snd (snd (snd x))))))
    (replays effects es)"
proof -
  obtain mismatch indeterminate paths m where p: "progress = (mismatch, indeterminate, paths, m)"
    by (cases progress) auto
  define a where "a = published_journaled (mutated_rejected m)"
  have observe: "triple (replayed_to effects staged es a)
      (if C then io_return a
       else io_bind (restart_intent (traced_engine W) a st eff) (\<lambda>b.
         restart_terminal (traced_engine W) b st eff event evidence replayed))
      (replayed_to effects staged es) (replays effects es)"
    if found: "find_progress a kind path = Inr (eff, current)" for C st eff event evidence replayed kind path current
  proof (rule triple_known)
    assume mem: "history_memory_ok (journaled_history a)"
      and effects: "history_effects (journaled_history a) = effects"
    obtain e where "e \<in> set effects" "effect_identity e = eff"
      by (rule find_progress_known [OF found mem effects graph])
    then have eff: "eff \<in> effect_identity ` set effects" by auto
    have settle: "triple (replayed_to effects staged es b)
        (restart_terminal (traced_engine W) b st eff event evidence replayed)
        (replayed_to effects staged es) (replays effects es)" for b
      using restart_terminal_by [OF store, where f = io_return, OF triple_return]
      by (simp add: io_bind_same)
    show ?thesis
      by (rule triple_if, rule triple_return, assumption,
          rule triple_bind [OF restart_intent_by [OF store graph eff]], rule triple_pure, rule settle)
  qed
  show ?thesis
    unfolding p resume_observation_def Let_def prod.case snd_conv
    apply (fold a_def)
    apply (rule triple_option)
     apply (rule triple_stop, erule in_step_ahead)
    apply (rule triple_option)
     apply (rule triple_stop, erule in_step_ahead)
    apply (rule triple_bind_lift)+
      apply (rule triple_split, simp only: prod.case)
      apply (rule triple_bind [OF observe], assumption)
      apply (rule triple_bind_lift)
       apply (rule triple_return, simp)
      apply (erule in_step_ahead)+
    done
qed

lemma resume_observations_by:
  assumes store: "returns_stored (engine_store W)" and graph: "indexed effects"
  shows "triple (replayed_to effects staged es (published_journaled (mutated_rejected (snd (snd (snd progress))))))
    (resume_observations (traced_engine W) img observed decisions progress)
    (\<lambda>x. replayed_to effects staged es (published_journaled (mutated_rejected (snd (snd (snd x))))))
    (replays effects es)"
proof (induction decisions arbitrary: progress)
  case Nil
  show ?case unfolding resume_observations.simps by (rule triple_return)
next
  case (Cons d decisions)
  show ?case
    unfolding resume_observations.simps
    by (rule triple_bind [OF resume_observation_by [OF store graph]], rule Cons.IH)
qed

text \<open>Publishing or synchronizing the evidence again needs its intent, not an open effect.\<close>

lemma intended_after_some: "intended_after {eff} es es' \<Longrightarrow> kinds_of es' eff \<noteq> []"
  by (simp add: intended_after_def)

lemma announced_by:
  assumes store: "returns_stored (engine_store W)" and graph: "indexed effects"
    and found: "find_progress a kind path = Inr (eff, current)"
  shows "triple (replayed_to effects staged es a)
    (if terminal current = None then restart_intent (traced_engine W) a st eff else io_return a)
    (\<lambda>b tr. replayed_to effects staged es b tr \<and> announced effects (events_of b) kind path)
    (replays effects es)"
proof (rule triple_known)
  assume mem: "history_memory_ok (journaled_history a)"
    and effects: "history_effects (journaled_history a) = effects"
  obtain e where e: "e \<in> set effects" "effect_kind e = kind" "effect_path e = path" "effect_identity e = eff"
    and current: "current = progress_of (kinds_of (events_of a) eff)"
    by (rule find_progress_known [OF found mem effects graph])
  have eff: "eff \<in> effect_identity ` set effects" using e by auto
  have now: "announced effects es' kind path" if "kinds_of es' eff \<noteq> []" for es'
    using that e by (auto simp: announced_def)
  show ?thesis
  proof (rule triple_if)
    show "triple (replayed_to effects staged es a) (restart_intent (traced_engine W) a st eff)
      (\<lambda>b tr. replayed_to effects staged es b tr \<and> announced effects (events_of b) kind path)
      (replays effects es)"
      by (rule triple_consequence [OF restart_intent_by [OF store graph eff]])
        (auto intro!: now dest: intended_after_some)
    assume "terminal current \<noteq> None"
    then have "kinds_of (events_of a) eff \<noteq> []" by (auto simp: current progress_of_def)
    then show "triple (replayed_to effects staged es a) (io_return a)
      (\<lambda>b tr. replayed_to effects staged es b tr \<and> announced effects (events_of b) kind path)
      (replays effects es)" by (intro triple_return) (simp add: now)
  qed
qed

lemma announced_bracket:
  assumes store: "returns_stored (engine_store W)" and graph: "indexed effects"
    and found: "find_progress a kind path = Inr (eff, current)"
    and licence: "\<And>es'. announced effects es' kind path \<Longrightarrow> relicensed effects es es' c"
    and unnoted: "\<And>pending es'. note_call (pending, es') c = (pending, es')"
    and rest: "\<And>b x. triple (replayed_to effects staged es b) (f b x) Q (replays effects es)"
  shows "triple (replayed_to effects staged es a)
    (io_bind (if terminal current = None then restart_intent (traced_engine W) a st eff else io_return a)
      (\<lambda>b. io_bind (noted c m) (f b))) Q (replays effects es)"
  by (rule triple_bind [OF announced_by [OF store graph found]], rule triple_pure,
      rule triple_bind [OF called_traced [where L = "relicensed effects es" and c = c, OF licence unnoted]],
      assumption, rule rest)

lemma republish_evidence_by:
  assumes store: "returns_stored (engine_store W)" and graph: "indexed effects"
    and found: "find_progress a Publish_completed_evidence None = Inr (eff, current)"
  shows "triple (replayed_to effects staged es a)
    (republish_evidence (traced_engine W) completed eff (terminal current = None) a)
    (\<lambda>(result, b). replayed_to effects staged es b) (replays effects es)"
  unfolding republish_evidence_def traced_engine_simps traced_transaction_simps
  by (rule announced_bracket [OF store graph found], simp add: publishing_def, simp)
    (rule triple_if triple_stop triple_bind_lift restart_terminal_by [OF store] triple_return
      | simp add: in_step_ahead)+

lemma resynchronize_evidence_by:
  assumes store: "returns_stored (engine_store W)" and graph: "indexed effects"
  shows "triple (replayed_to effects staged es a) (resynchronize_evidence (traced_engine W) v refresh a)
    (\<lambda>(status, b). replayed_to effects staged es b) (replays effects es)"
  unfolding resynchronize_evidence_def traced_engine_simps traced_transaction_simps
  apply (rule triple_bind_lift)
   apply (rule triple_split, simp only: prod.case)
   apply (rule triple_if)
    apply (rule triple_lift)
     apply (auto simp: result_simps in_step_ahead) [2]
   apply (rule announced_bracket [OF store graph], assumption, simp, simp)
   apply (rule triple_if triple_stop triple_bind_lift restart_terminal_by [OF store] triple_return
      | simp add: in_step_ahead)+
  done

lemma restart_seal_by:
  assumes store: "returns_stored (engine_store W)" and graph: "indexed effects"
  shows "triple (replayed_to effects staged es a) (restart_seal (traced_engine W) a st receipt evidence)
    (\<lambda>b. replays effects es) (replays effects es)"
proof (rule triple_known)
  assume mem: "history_memory_ok (journaled_history a)"
    and effects: "history_effects (journaled_history a) = effects"
  have intent: "triple (replayed_to effects staged es a) (restart_intent (traced_engine W) a st' seal)
      (replayed_to effects staged es) (replays effects es)"
    if found: "find_progress a Seal_receipt None = Inr (seal, current)" for seal current st'
  proof -
    obtain e where "e \<in> set effects" "effect_identity e = seal"
      by (rule find_progress_known [OF found mem effects graph])
    then have "seal \<in> effect_identity ` set effects" by auto
    from restart_intent_by [OF store graph this]
    show ?thesis by (rule triple_consequence) auto
  qed
  show ?thesis
    unfolding restart_seal_def
    apply (rule triple_bind_lift)
     apply (rule triple_split, simp only: prod.case)
     apply (rule triple_bind_lift)
      apply (rule triple_bind [OF intent], assumption)
      apply (rule triple_bind_lift)
       apply (rule triple_if)
        apply (rule triple_return, erule in_step_ahead)
       apply (rule triple_if)
        apply (rule triple_consequence [OF event_by [OF relicensed_quiet store]])
          apply (auto simp: in_step_ahead) [3]
       apply (rule triple_if)
        apply (rule triple_stop, erule in_step_ahead)
       apply (rule triple_consequence [OF state_by [OF relicensed_quiet store]])
         apply (auto simp: in_step_ahead) [3]
      apply (erule in_step_ahead)+
    done
qed

lemma reseal_by:
  assumes store: "returns_stored (engine_store W)" and graph: "indexed effects"
  shows "triple (replayed_to effects staged es a)
      (reseal_unconfirmed (traced_engine W) request state m a paths evidence uncertain)
      (\<lambda>r. replays effects es) (replays effects es)"
    and "triple (replayed_to effects staged es a)
      (reseal_completion (traced_engine W) m a completed evidence)
      (\<lambda>r. replays effects es) (replays effects es)"
  unfolding reseal_unconfirmed_def reseal_completion_def
  by (rule triple_bind_lift triple_bind [OF restart_seal_by [OF store graph]] triple_return
      | simp add: in_step_ahead)+

lemma conclude_synchronization_by:
  assumes store: "returns_stored (engine_store W)" and graph: "indexed effects"
  shows "triple (replayed_to effects staged es a)
    (conclude_synchronization (traced_engine W) v request state m paths completed refresh evidence a)
    (\<lambda>r. replays effects es) (replays effects es)"
  unfolding conclude_synchronization_def
  apply (rule triple_bind [OF resynchronize_evidence_by [OF store graph]])
  apply (rule triple_split, simp only: prod.case)
  apply (rule triple_if, rule reseal_by(1) [OF store graph], rule reseal_by(2) [OF store graph])
  done

lemma conclude_publication_by:
  assumes store: "returns_stored (engine_store W)" and graph: "indexed effects"
  shows "triple (replayed_to effects staged es a)
    (conclude_publication (traced_engine W) v request state m paths completed refresh evidence a)
    (\<lambda>r. replays effects es) (replays effects es)"
  unfolding conclude_publication_def Let_def
  apply (rule triple_bind_lift)
   apply (rule triple_split, simp only: prod.case)
   apply (rule triple_bind_lift)
    apply (rule triple_if, rule conclude_synchronization_by [OF store graph])
    apply (rule triple_bind [OF republish_evidence_by [OF store graph]], assumption)
    apply (rule triple_split, simp only: prod.case)
    apply (rule triple_if, rule reseal_by(1) [OF store graph],
      rule conclude_synchronization_by [OF store graph])
   apply (erule in_step_ahead)+
  done

lemma conclude_resumed_by:
  assumes store: "returns_stored (engine_store W)" and graph: "indexed effects"
  shows "triple (replayed_to effects staged es (published_journaled (mutated_rejected m)))
    (conclude_resumed (traced_engine W) v request state m paths evidence)
    (\<lambda>r. replays effects es) (replays effects es)"
  unfolding conclude_resumed_def Let_def
  apply (rule triple_bind [OF enter_if_by(1) [OF store]])
  apply (rule triple_bind_lift)+
    apply (rule triple_split, rule conclude_publication_by [OF store graph])
   apply (erule in_step_ahead)+
  done

lemma resume_completion_by:
  assumes store: "returns_stored (engine_store W)" and graph: "indexed effects"
  shows "triple (replayed_to effects staged es (published_journaled (mutated_rejected m)))
    (resume_completion (traced_engine W) v m request state lease img)
    (phase_by (relicensed effects es) interrupted_journaled effects staged es) (replays effects es)"
proof -
  have observe: "triple (replayed_to effects staged es (published_journaled (mutated_rejected m)))
      (resume_observations (traced_engine W) img observed decisions (False, False, [], m))
      (\<lambda>x. replayed_to effects staged es (published_journaled (mutated_rejected (snd (snd (snd x))))))
      (replays effects es)" for observed decisions
    using resume_observations_by [OF store graph, where progress = "(False, False, [], m)"] by simp
  show ?thesis
    unfolding resume_completion_def Let_def traced_engine_simps traced_transaction_simps
    apply (rule triple_bind_lift)
     apply (rule triple_bind [OF triple_traced], erule in_step_ahead)
     apply (rule triple_bind [OF observe])
     apply (rule triple_split)+
     apply (simp only: snd_conv)
     apply (rule triple_if, rule interrupt_completion_by [OF relicensed_quiet store])
     apply (rule triple_bind [OF conclude_resumed_by [OF store graph]])
     apply (rule triple_return, simp)
    apply (erule in_step_ahead)
    done
qed

section \<open>The whole replay\<close>

lemma replay_forward_by:
  assumes store: "returns_stored (engine_store W)" and graph: "indexed effects"
  shows "triple (replayed_to effects staged es (published_journaled r))
    (replay_forward (traced_engine W) v r request state lease img)
    (\<lambda>x. replays effects es) (replays effects es)"
  unfolding replay_forward_def
  apply (rule active_bind [OF resume_active_by [OF store graph]])
   apply (simp only: phase.case, rule resume_recovery_by [OF store graph])
  apply (simp only: phase.case)
  apply (rule phase_bind [OF resume_completion_by [OF store graph]])
   apply (simp only: phase.case, rule triple_return, assumption)
  apply (simp only: phase.case, rule resume_recovery_by [OF store graph])
  done

lemma finish_replay_by:
  assumes store: "returns_stored (engine_store W)" and graph: "indexed effects"
  shows "triple (replayed_to effects staged es a)
    (finish_replay (traced_engine W) v a request state lease archive)
    (\<lambda>x. replays effects es) (replays effects es)"
  unfolding finish_replay_def
  apply (rule triple_bind_lift)
   apply (rule phase_bind [OF resume_preparation_by [OF store graph]])
    apply (simp only: phase.case, rule triple_return, assumption)
   apply (simp only: phase.case)
   apply (rule phase_bind [OF resume_rejected_by [OF store graph]])
    apply (simp only: phase.case, rule triple_return, assumption)
   apply (simp only: phase.case)
   apply (rule triple_if)
    apply (rule triple_bind [OF restart_interruption_by [OF store]])
    apply (rule resume_recovery_by [OF store graph])
   apply (rule replay_forward_by [OF store graph])
  apply (erule in_step_ahead)
  done

section \<open>Reopening\<close>

definition committing :: "'p call list \<Rightarrow> bool" where
  "committing tr \<longleftrightarrow> (\<forall>c \<in> set tr. \<exists>k. c = Committed k)"

lemma committing_simps [simp]: "committing []" "committing (tr @ [Committed k]) \<longleftrightarrow> committing tr"
  by (auto simp: committing_def)

lemma committing_unnoted: "committing tr \<Longrightarrow> foldl note_call (None, es) tr = (None, es)"
  by (induction tr) (auto simp: committing_def)

lemma committing_replays: "committing tr \<Longrightarrow> replays effects es tr"
  by (induction tr rule: rev_induct) (auto simp: ahead_by_snoc committing_def)

lemma triple_acknowledged:
  "(\<And>x tr. P tr \<Longrightarrow> P (tr @ [c x])) \<Longrightarrow> (\<And>tr. P tr \<Longrightarrow> E tr) \<Longrightarrow>
   triple P (acknowledged c m) (\<lambda>x. P) E"
  by (rule tripleI) (auto simp: acknowledged_def ends_in_def split: prod.splits sum.splits)

lemma load_committed_by:
  "history_memory_ok h \<Longrightarrow> triple committing (load_committed E (traced_store store) i ns h)
     (\<lambda>h tr. committing tr \<and> history_memory_ok h) committing"
proof (induction ns arbitrary: h)
  case Nil
  then show ?case unfolding load_committed.simps by (intro triple_return) simp
next
  case (Cons n ns)
  show ?case
    unfolding load_committed.simps traced_store_def journal_store.simps
    unfolding traced_store_def [symmetric]
    apply (rule triple_bind [OF triple_traced], assumption)
    apply (rule triple_option)
     apply (rule triple_stop, assumption)
    apply (rule triple_bind_lift)
     apply (rule Cons.IH)
     apply (erule append_step_Inr(2) [OF Cons.prems])
    apply assumption
    done
qed

lemma load_history_by:
  "triple committing (load_history E (traced_store store) i)
     (\<lambda>h tr. committing tr \<and> history_memory_ok h) committing"
proof -
  have loads: "load_declaration (traced_store store) i = traced (load_declaration store i)"
    "load_cursor (traced_store store) i = traced (load_cursor store i)"
    "load_step (traced_store store) i n = traced (load_step store i n)"
    "compare_and_publish_cursor (traced_store store) expected c =
       acknowledged (\<lambda>_. Committed c) (compare_and_publish_cursor store expected c)" for n expected c
    by (simp_all add: traced_store_def)
  have publish: "triple committing (acknowledged (\<lambda>_. Committed c) m) (\<lambda>x. committing) committing" for c m
    by (rule triple_acknowledged) simp_all
  have cursor: "triple committing (load_or_create_cursor E (traced_store store) d i) (\<lambda>c. committing) committing"
    for d
    unfolding load_or_create_cursor_def Let_def loads
    apply (rule triple_bind [OF triple_traced], assumption)
    apply (rule triple_option)
     apply (rule triple_bind [OF publish])
     apply (rule triple_if, rule triple_stop, assumption)
     apply (rule triple_return, assumption)+
    done
  have orphan: "triple committing (adopt_orphan E (traced_store store) i c h)
      (\<lambda>h tr. committing tr \<and> history_memory_ok h) committing" if mem: "history_memory_ok h" for c h
    unfolding adopt_orphan_def Let_def loads
    apply (rule triple_bind [OF triple_traced], assumption)
    apply (rule triple_option)
     apply (rule triple_return, simp add: mem)
    apply (rule triple_bind_lift)
     apply (rule triple_bind [OF publish])
     apply (rule triple_if, rule triple_stop, assumption)
     apply (rule triple_lift)
      apply (simp add: append_step_Inr(2) [OF mem])
     apply assumption+
    done
  show ?thesis
    unfolding load_history_def loads
    apply (rule triple_bind [OF triple_traced], assumption)
    apply (rule triple_option)
     apply (rule triple_stop, assumption)
    apply (rule triple_if, rule triple_stop, assumption)
    apply (rule triple_bind [OF cursor])
    apply (rule triple_if, rule triple_stop, assumption)
    apply (rule triple_bind_lift)
     apply (rule triple_bind [OF load_committed_by], erule initial_history_memory)
     apply (rule triple_pure)
     apply (rule triple_if, rule triple_stop, assumption)
     apply (rule orphan, assumption+)
    done
qed

text \<open>After loading: the rest of the run, on the loaded history.\<close>

definition reopened_at ::
  "'p journal_effect list \<Rightarrow> journal_event list \<Rightarrow> ('p, 'o) history \<Rightarrow> 'p call list \<Rightarrow> bool" where
  "reopened_at effects es h tr \<longleftrightarrow> history_memory_ok h \<and> history_effects h = effects \<and>
     foldl note_call (None, es) tr = (None, history_events h) \<and> replays effects es tr"

lemma reopened_replays: "reopened_at effects es h tr \<Longrightarrow> replays effects es tr"
  by (simp add: reopened_at_def)

lemma reopened_replayed:
  "reopened_at effects es h tr \<Longrightarrow> journaled_history a = h \<Longrightarrow>
   replayed_to effects (payload_paths (journaled_schedule a)) es a tr"
  by (simp add: reopened_at_def in_step_by_def)

lemma finish_restart_history:
  "finish_restart E request state lease backend h view tx = Inr r \<Longrightarrow> reopening_history r = h"
  by (auto simp: finish_restart_def make_reopened_def Let_def result_simps split: option.splits if_splits)

lemma rebuild_history:
  "rebuild_incoming W r request state lease img = Inr a \<Longrightarrow> journaled_history a = reopening_history r"
  "rebuild_removal W r request state lease = Inr b \<Longrightarrow> journaled_history b = reopening_history r"
  by (auto simp: rebuild_incoming_def rebuild_removal_def rebuild_journaled_def Let_def result_simps
      dest!: make_journaled_same)

lemma replay_by:
  assumes store: "returns_stored (engine_store W)" and graph: "indexed effects"
    and history: "reopening_history r = h"
  shows "triple (reopened_at effects es h) (replay_incoming (traced_engine W) r request state lease archive)
      (\<lambda>x. replays effects es) (replays effects es)"
    and "triple (reopened_at effects es h) (replay_removal (traced_engine W) r request state lease)
      (\<lambda>x. replays effects es) (replays effects es)"
proof -
  have finish: "triple (reopened_at effects es h)
      (finish_replay (traced_engine W) v a request state lease archive)
      (\<lambda>x. replays effects es) (replays effects es)" if "journaled_history a = h" for v a archive
    by (rule triple_consequence [OF finish_replay_by [OF store graph]])
      (auto intro: reopened_replayed [OF _ that])
  show "triple (reopened_at effects es h) (replay_incoming (traced_engine W) r request state lease archive)
      (\<lambda>x. replays effects es) (replays effects es)"
    unfolding replay_incoming_def
    by (rule triple_bind_lift) (auto intro: finish simp: rebuild_history(1) history reopened_replays)
  show "triple (reopened_at effects es h) (replay_removal (traced_engine W) r request state lease)
      (\<lambda>x. replays effects es) (replays effects es)"
    unfolding replay_removal_def
    by (rule triple_bind_lift) (auto intro: finish simp: rebuild_history(2) history reopened_replays)
qed

lemma io_bind_assoc: "io_bind (io_bind m f) g = io_bind m (\<lambda>x. io_bind (f x) g)"
  by (rule ext) (simp add: io_bind_def split: prod.split sum.split)

lemma after_load:
  assumes load: "load_history E store i s = (Inr h, s1)"
    and rest: "triple (reopened_at (history_effects h) (history_events h) h) (rest h)
      (\<lambda>x. replays (history_effects h) (history_events h)) (replays (history_effects h) (history_events h))"
  shows "replays (history_effects h) (history_events h)
    (snd (snd (io_bind (load_history E (traced_store store) i) rest (s, []))))"
proof -
  obtain r s2 tr where run: "load_history E (traced_store store) i (s, []) = (r, s2, tr)"
    by (metis prod_cases3)
  moreover have "fst (load_history E (traced_store store) i (s, [])) = Inr h"
    using load_history_mirrors [of E store i] load by (simp add: mirrors_def)
  ultimately have r: "r = Inr h" by simp
  have "committing tr" and mem: "history_memory_ok h"
    using tripleD(1) [OF load_history_by, of "[]" E store i s] by (simp_all add: run r)
  then have "reopened_at (history_effects h) (history_events h) h tr"
    by (simp add: reopened_at_def committing_unnoted committing_replays)
  from tripleD(1) [OF rest this, of s2] show ?thesis
    by (cases "rest h (s2, tr)"; cases "fst (rest h (s2, tr))") (auto simp: io_bind_def run r)
qed

lemma resume_by:
  assumes store: "returns_stored (engine_store W)" and graph: "indexed (history_effects h)"
    and load: "load_history (engine_environment W) (engine_store W) i s = (Inr h, s1)"
  shows "replays (history_effects h) (history_events h) (snd (snd
      (resume_incoming (traced_engine W) request incoming state lease backend
        (\<lambda>v. traced (resume_transaction v)) i archive (s, []))))"
    and "replays (history_effects h) (history_events h) (snd (snd
      (resume_removal (traced_engine W) request state lease backend
        (\<lambda>v. traced (resume_transaction v)) i (s, []))))"
proof -
  let ?P = "reopened_at (history_effects h) (history_events h) h"
  let ?E = "replays (history_effects h) (history_events h)"
  have finish: "triple ?P (io_bind (io_lift (finish_restart E request state lease backend h view tx)) f)
      (\<lambda>x. ?E) ?E" if "\<And>r. reopening_history r = h \<Longrightarrow> triple ?P (f r) (\<lambda>x. ?E) ?E" for E view tx f
    by (rule triple_bind_lift) (auto intro: that finish_restart_history reopened_replays)
  show "?E (snd (snd (resume_incoming (traced_engine W) request incoming state lease backend
        (\<lambda>v. traced (resume_transaction v)) i archive (s, []))))"
    unfolding resume_incoming_def reopen_incoming_def Let_def io_bind_assoc traced_engine_simps
    by (rule after_load [OF load])
      (rule triple_bind_lift triple_bind [OF triple_traced] finish replay_by [OF store graph]
        | assumption | erule reopened_replays)+
  show "?E (snd (snd (resume_removal (traced_engine W) request state lease backend
        (\<lambda>v. traced (resume_transaction v)) i (s, []))))"
    unfolding resume_removal_def reopen_removal_def Let_def io_bind_assoc traced_engine_simps
    by (rule after_load [OF load])
      (rule triple_bind_lift triple_bind [OF triple_traced] finish replay_by [OF store graph]
        | assumption | erule reopened_replays)+
qed

section \<open>A replay repeats nothing\<close>

text \<open>
  A recorded run of a replay next to the run of the engine: the same answer and the same outside
  state, and every call of the record is licensed by the journal that was durable before it.
\<close>

definition unrepeated ::
  "('p, 'o) history \<Rightarrow> ('s \<times> 'p call list, 'a) io \<Rightarrow> ('s, 'a) io \<Rightarrow> 's \<Rightarrow> bool" where
  "unrepeated h m n s \<longleftrightarrow>
     (let (r, s', tr) = m (s, []) in
      n s = (r, s') \<and>
      (\<forall>i < length tr. relicensed (history_effects h) (history_events h)
         (durable_events (history_events h) (take i tr)) (tr ! i)))"

lemma unrepeatedI:
  assumes "mirrors m n" and "replays (history_effects h) (history_events h) (snd (snd (m (s, []))))"
  shows "unrepeated h m n s"
proof -
  obtain r s' tr where "m (s, []) = (r, s', tr)" by (metis prod_cases3)
  then show ?thesis
    using assms by (auto simp: unrepeated_def mirrors_def ahead_by_def prod_eq_iff)
qed

text \<open>
  C6: a replay repeats nothing.  Resume an installation, upgrade or removal whose journal loads as
  \<open>h\<close>, over any backend and any outcome.  Recording does not change the run; and the run publishes
  or recovers an object only for a declared effect that had no event at all in \<open>h\<close> and whose intent is
  durable now, so an effect the crash left open is never run again; it captures, and synchronizes
  target domains, only for effects whose intent is durable and whose outcome is not; it stages payloads
  again only when some payload effect has no outcome; and it never declares a journal.  Only the
  completed evidence may be published and synchronized again.  The store is assumed to return what it
  stored, and the declared effects to be numbered in order, as the declaration factory numbers them.
\<close>

theorem resumption_never_repeats:
  assumes "returns_stored (engine_store W)"
    and "load_history (engine_environment W) (engine_store W) declaration s = (Inr h, s1)"
    and "consecutive_ordinals 0 (history_effects h)" and "size_ok (history_effects h)"
  shows "unrepeated h
      (resume_incoming (traced_engine W) request incoming state lease backend
        (\<lambda>v. traced (resume_transaction v)) declaration archive)
      (resume_incoming W request incoming state lease backend resume_transaction declaration archive) s \<and>
    unrepeated h
      (resume_removal (traced_engine W) request state lease backend
        (\<lambda>v. traced (resume_transaction v)) declaration)
      (resume_removal W request state lease backend resume_transaction declaration) s"
proof -
  have "indexed (history_effects h)" using assms(3,4) by (simp add: indexed_def)
  note run = resume_by [OF assms(1) this assms(2)]
  show ?thesis
    by (intro conjI unrepeatedI resume_incoming_mirrors resume_removal_mirrors run)
qed

section \<open>A journal that a crash left open\<close>

text \<open>
  The engine of the trial over a store that holds one journal: prepared, mutating, and stopped between
  the intent and the outcome of its only publication.
\<close>

definition halted_effect :: "8 word journal_effect" where
  "halted_effect = \<lparr>effect_identity = 7, effect_ordinal = 0, effect_kind = Publish_active_object,
     effect_path = Some 1\<rparr>"

definition halted_declaration :: "(8 word, 8 word) journal_declaration" where
  "halted_declaration = \<lparr>declaration_identity = 0, declaration_header = sample_durable_header,
     declaration_effects = [halted_effect], declaration_seed = []\<rparr>"

definition halted_event :: journal_event where
  "halted_event = \<lparr>event_sequence = 0, event_kind = Intent, event_effect = 7, event_evidence = []\<rparr>"

definition halted_step :: "u64 \<Rightarrow> journal_step" where
  "halted_step n = \<lparr>step_identity = 0, step_declaration = 0, step_sequence = n,
     step_predecessor = (if n = 0 then None else Some 0),
     step_state = (if n = 0 then Prepared else Mutating),
     step_event = (if n = 2 then Some halted_event else None), step_fact = [],
     step_receipt = None, step_completed = None\<rparr>"

definition halted_store :: "(bool, 8 word, 8 word) journal_store" where
  "halted_store = trial_store\<lparr>load_declaration := (\<lambda>i. io_return (Some halted_declaration)),
     load_cursor := (\<lambda>i. io_return (Some (identified_cursor sample_paths 0 3 (Some 0) Mutating None None))),
     load_step := (\<lambda>i n. io_return (if n < 3 then Some (halted_step n) else None))\<rparr>"

definition halted_engine :: "(bool, 8 word, 8 word, entry_id list) engine" where
  "halted_engine = trial_engine\<lparr>engine_environment := sample_paths, engine_store := halted_store\<rparr>"

lemma halted_returns: "returns_stored (engine_store halted_engine)"
  by (simp add: halted_engine_def halted_store_def returns_stored_def trial_store_def)

definition halted_run :: "(error + (8 word, 8 word) history) \<times> bool" where
  "halted_run = load_history (engine_environment halted_engine) (engine_store halted_engine) 0 False"

lemma halted_loads:
  "case halted_run of (Inr h, s) \<Rightarrow> history_effects h = [halted_effect] \<and> history_events h = [halted_event]
     | (Inl e, s) \<Rightarrow> False"
  by code_simp

theorem resumption_never_repeats_witness:
  "Called Publish_active_object (Some 1) \<notin> set (snd (snd
     (resume_removal (traced_engine halted_engine) trial_request sample_projected_state sample_lease
       sample_backend (\<lambda>v. traced (io_return (Some sample_transaction))) 0 (False, []))))"
proof -
  obtain h s1 where run: "halted_run = (Inr h, s1)"
    and h: "history_effects h = [halted_effect]" "history_events h = [halted_event]"
    using halted_loads by (auto split: prod.splits sum.splits)
  have ok: "consecutive_ordinals 0 (history_effects h)" "size_ok (history_effects h)"
    by (simp_all add: h halted_effect_def)
  let ?traced = "resume_removal (traced_engine halted_engine) trial_request sample_projected_state
    sample_lease sample_backend (\<lambda>v. traced (io_return (Some sample_transaction))) 0 (False, [])"
  obtain r s' tr where traced: "?traced = (r, s', tr)" by (metis prod_cases3)
  have licensed: "relicensed (history_effects h) (history_events h)
      (durable_events (history_events h) (take i tr)) (tr ! i)" if "i < length tr" for i
    using resumption_never_repeats [where request = trial_request and state = sample_projected_state and
          lease = sample_lease and backend = sample_backend and
          resume_transaction = "\<lambda>v. io_return (Some sample_transaction)",
        OF halted_returns run [unfolded halted_run_def] ok, THEN conjunct2]
      that by (simp add: unrepeated_def traced)
  have "\<not> relicensed (history_effects h) (history_events h) es (Called Publish_active_object (Some 1))" for es
    by (simp add: h publishing_def begun_def halted_effect_def halted_event_def kinds_of_def)
  then have "Called Publish_active_object (Some 1) \<notin> set tr"
    using licensed by (metis in_set_conv_nth)
  then show ?thesis by (simp add: traced)
qed

end
