(* ===== verification/Spec2Isabelle.thy ===== *)
theory Spec2Isabelle
  imports Observing Looping Replaying Reporting Transporting Persisting Receipting Continuing
begin

text \<open>
  A verification library of libpkgapply, the semantic core that applies one accepted package
  operation to a target.  The core derives an ordered schedule from an accepted plan, declares a
  graph of journal effects, records an intent before and an outcome after every external effect,
  decides from the retained journal what a restart may do, and seals evidence of what happened.  It
  performs no input or output of its own: the mutation backend and the journal store are abstract
  classes of the repository (src/include/libpkgapply/backend.h, journal_transport.h), and the plan
  and package image come from sibling libraries.

  Parts and theories, in the order of their dependencies:

  \<^item> Prelude: results \<open>error + 'a\<close> (rbind, rmap, throw_if), ordered lists, and the stateful
    operations \<open>('s, 'a) io\<close>.
  \<^item> Canonical, Objects: canonical records and digests (canonical_record.cpp, digest.cpp), object
    facts and path consequences (object_fact.cpp, path_consequence.cpp).
  \<^item> Authority: execution control, target context, attempts, leases and state projections.
  \<^item> Journal, Transport, History, Store: journal values and the effect graph (journal.cpp), steps and
    cursors (journal_transport.cpp), the incrementally validated history (journal_history.cpp) and the
    store protocol of the engine (load_application_history and append_journal_step of
    application_engine.cpp) over an abstract store.
  \<^item> Backend, Plan, Capture, Payload, Ordering, Schedule, Effects: backend values (backend.cpp), the
    plan interface, old-object captures, incoming payloads, the dependency order of the active
    effects, the schedule (schedule.cpp) and its journal effect graph (journal_effects of
    application_engine.cpp).
  \<^item> Precondition, Request, Admission, Restart: the check of planned observations, requests and
    incoming authority, admission, and restart assessment (restart.cpp).
  \<^item> Encoding, Result: canonical encodings of evidence, completed and failed receipts (result.cpp).
  \<^item> Codec, Replay: reader and writer combinators with their round-trip laws, and the replay facts
    and seeds that journal steps carry (replay_fact.cpp).
  \<^item> Looping: the ordering loop of schedule.cpp as written, over machine words, and its termination.
  \<^item> Engine, Starting, Preparing, Rejecting, Activating, Completing, Recovering, Applying: the engine of
    application_engine.cpp and apply.cpp, one theory per phase.  An \<open>engine\<close> gathers the transaction
    of the backend, the journal store and the environment; an operation is a function
    \<open>('s, 'a) io\<close> of the outside state, and a phase answers \<open>Phase_done\<close> with the value the next
    phase takes or \<open>Phase_stopped\<close> with the receipt, as the constructors of the code do.
  \<^item> Tracing, Discipline, Mirroring, Calls: a recording engine that notes every call to the backend
    and the store, the discipline of intents and outcomes over such a record, the proof that a
    recorded run answers as the unrecorded one, and the calls each phase can make.
  \<^item> Sealing, Sequencing, Observing: what a whole application promises of its calls: the receipt is
    durable before it is returned, mutation follows the declared order and recovery retraces it,
    completion is judged on an observation made in the same run, and a recovery undoes the effects
    that may have changed the target, stops at the first recovery that does not complete, and reports
    a full recovery exactly when it happened.  Rehearsing follows a removal of two paths to its
    receipt, completed and recovered, as the concrete input of these properties.

  \<^item> Viewing: the typed view of a reopened journal (restart_view.cpp): the facts of its terminal
    steps, decoded, checked against their events and kept per path and durability domain.
  \<^item> Reporting: the view reports exactly what the terminal steps of the history recorded.
  \<^item> Wiring, Transporting, Persisting: the durable bytes of the journal.  Wiring holds the readers and
    writers the two codecs share, Transporting the declarations, steps and cursors
    (journal_transport_codec.cpp), Persisting the complete record and the validation of a snapshot
    that replaces another (journal_codec.cpp).
  \<^item> Certifying, Receipting: the durable bytes of completed evidence (completed_evidence_codec.cpp) and
    of terminal receipts (application_receipt_codec.cpp), with their envelopes and checksums.
  \<^item> Reopening, Resuming, Replaying: the resuming half of application_engine.cpp and
    resume_application of restart.cpp: reopening under a new lease, the derivation of the journaled
    application, the forward phases with retained results, and the resumed recovery and completion.
  \<^item> Echoing, Rerunning, Resumption, Continuing: a recorded replay answers as the unrecorded one
    (Echoing), the licence of a replay and the rules for its intents (Rerunning), and every phase of the
    replay under that licence (Resumption, Continuing): it publishes and recovers only what the
    reopened journal had not begun, and captures, stages and synchronizes the target only what has
    no outcome.

  The engine properties are proved by triples over the record of calls: \<open>triple P m Q X\<close> for every
  operation \<open>m\<close> of a phase, with one rule per construct of the code (bind, split, case, loop), so that
  the proof of a phase follows its text.  They hold for every backend and every store state; the one
  hypothesis is \<open>returns_stored\<close>: the store answers a publication with the step or cursor it was
  given, which journal_transport.h requires of an implementation.  Its witness is a store of the
  same interface with a concrete plan, request and transaction (\<open>trial_engine\<close>).

  Parameters.  The record \<open>environment\<close> gathers what the code takes from outside src/: the order and
  text of package paths and planning identities, the ancestor relation of paths, and the hash.
  SHA-256 (OpenSSL behind sha256.cpp) is the argument \<open>hash\<close>; a property that needs distinct records to
  have distinct identities says so as the hypothesis that the hash is injective, with a witness.  The
  parsers of planning identities are the fields of \<open>planning\<close>, and the greatest entry number of the
  package image library is a field of \<open>sealing\<close>; the codecs take both as arguments.

  Bounds.  The effect graph numbers its effects with 64-bit words and is accepted for fewer than
  2 to the 62 schedule steps; the ordering loop terminates for any number of nodes a 64-bit size can
  count; encodings require their lengths to fit the width written, and the codecs refuse more than
  1,000,000 items of a list (4,000,000 events of a record) and more than 256 MiB (512 MiB for a
  receipt), as the code does.  No definition uses fuel.

  Not modelled: SHA-256 (a wrapper of OpenSSL), and the version and export headers.  Concurrency is not
  part of the code: it runs one application under one lease.

  Machine integers keep their width (u8 to u64 are words); a C++ exception is an \<open>Inl\<close> of the
  datatype \<open>error\<close>, with the message the code throws.
\<close>

end
